(* ===== verification/Prelude.thy ===== *)
theory Prelude
  imports "HOL-Library.Word"
begin

unbundle bit_operations_syntax

text \<open>
  Shared vocabulary of the development: the C integer types, the fact collections that the
  component theories extend, and the generic lemmas on lists and machine words that several
  of them use.

  \<^item> \<open>run_simps\<close>: execution equations of the machine primitives (theory \<open>Machine\<close>);
    evaluating a model function is \<open>simp add: f_def run_simps\<close>.
  \<^item> \<open>reg_defs\<close>: the register addresses and bit masks of the hardware headers.
\<close>

type_synonym u8 = "8 word"
type_synonym u16 = "16 word"
type_synonym u32 = "32 word"
type_synonym u64 = "64 word"

named_theorems run_simps
named_theorems reg_defs

section \<open>Lists\<close>

lemma take_Suc_update_last:
  "i < length xs \<Longrightarrow> take (Suc i) (xs[i := v]) = take i xs @ [v]"
  by (simp add: take_Suc_conv_app_nth)

lemma nth_take_last:
  "0 < i \<Longrightarrow> i \<le> length xs \<Longrightarrow> take i xs = take (i - 1) xs @ [xs ! (i - 1)]"
  by (cases i) (auto simp: take_Suc_conv_app_nth)

lemma upt_split_at:
  "i < n \<Longrightarrow> [0..<n] = [0..<i] @ i # [Suc i..<n]"
proof -
  assume "i < n"
  then have "[0..<n] = [0..<i] @ [i..<n]"
    by (metis le_add_diff_inverse less_imp_le_nat upt_add_eq_append zero_le)
  also have "[i..<n] = i # [Suc i..<n]"
    using \<open>i < n\<close> by (rule upt_conv_Cons)
  finally show ?thesis .
qed

section \<open>Machine words\<close>

lemma unat_div_less:
  fixes x :: "'a::len word"
  assumes "x div n \<noteq> 0" and "1 < unat n"
  shows "unat (x div n) < unat x"
proof -
  have "unat x \<noteq> 0"
    using assms(1) by (metis div_0 unat_0 unat_div unat_eq_zero)
  then show ?thesis
    using assms(2) by (simp add: unat_div)
qed

lemma word_less_one_iff: "(x :: 'a::len word) < 1 \<longleftrightarrow> x = 0"
  by (simp add: word_less_nat_alt unat_eq_zero)

lemma unsigned_eq_of_nat: "(ucast (x :: 'a::len word) :: 'b::len word) = of_nat (unat x)"
  by simp

lemma unat_drop_bit: "unat (drop_bit n (x :: 'a::len word)) = unat x div 2 ^ n"
  by (simp only: unat_drop_bit_eq) (simp add: drop_bit_eq_div)

lemma and_not_mask_eq:
  "(x :: 'a::len word) AND NOT (mask n) = x - (x AND mask n)"
proof -
  have "(x AND NOT (mask n)) + (x AND mask n) = (x AND NOT (mask n)) OR (x AND mask n)"
    by (rule disjunctive_add) (auto simp: bit_simps)
  also have "\<dots> = x"
    by (rule bit_eqI) (auto simp: bit_simps)
  finally show ?thesis
    by (simp add: eq_diff_eq)
qed

lemma unat_and_mask:
  fixes x :: "'a::len word"
  shows "unat (x AND mask n) = unat x mod 2 ^ n"
  by (metis take_bit_eq_mask take_bit_eq_mod unsigned_take_bit_eq)

lemma unat_and_not_mask:
  fixes x :: "'a::len word"
  shows "unat (x AND NOT (mask n)) = unat x - unat x mod 2 ^ n"
proof -
  have "x AND mask n \<le> x"
    by (rule word_and_le2)
  then have "unat (x - (x AND mask n)) = unat x - unat (x AND mask n)"
    by (rule unat_sub)
  then show ?thesis
    by (simp add: and_not_mask_eq unat_and_mask)
qed

lemma mask_6_eq [simp]: "mask 6 = (63 :: 'a::len word)"
  and mask_8_eq [simp]: "mask 8 = (255 :: 'a::len word)"
  by (simp_all add: mask_eq_exp_minus_1)

lemma unat_add_no_wrap:
  fixes x y :: "'a::len word"
  assumes "unat x + unat y < 2 ^ LENGTH('a)"
  shows "unat (x + y) = unat x + unat y"
  using assms by (simp add: unat_word_ariths)

end
