(* ===== verification/Machine.thy ===== *)
theory Machine
  imports Prelude "HOL-Library.Sublist"
begin

text \<open>
  The machine the Cortex-R7 loader runs on, as the loader sees it: volatile accesses through
  the accessors of \<^verbatim>\<open>CortexR7_Loader/include/mmio.h\<close>, characters sent to the console,
  calls into the assembly helpers and calls into the mask ROM.

  The hardware is not part of the repository, so it is a parameter: a \<open>device\<close> answers every
  volatile read as an arbitrary function of the whole history of accesses (newest first), which
  covers write-one-to-set registers, status bits that change over time and counters.
  A program is a function from a machine to an outcome:
  \<^item> \<open>Done x s\<close>: returned \<open>x\<close> in state \<open>s\<close>;
  \<^item> \<open>Panic s\<close>: reached \<^verbatim>\<open>panic()\<close>, the endless loop of \<^verbatim>\<open>do_panic\<close>;
  \<^item> \<open>Fault s\<close>: undefined behaviour of the C code (out-of-bounds access, division by zero);
  \<^item> \<open>Hang s\<close>: a polling loop used up its fuel \<open>m_fuel\<close>.
  Nothing after \<open>Panic\<close>, \<open>Fault\<close> or \<open>Hang\<close> is executed.
\<close>

section \<open>Accesses and devices\<close>

datatype asm_call = Console_init | Console_wait | Aif_enable_a | Aif_enable_i | Aif_disable_i

datatype access =
    Rd8 u32 u8 | Rd16 u32 u16 | Rd32 u32 u32 | Rd64 u32 u64
  | Wr8 u32 u8 | Wr16 u32 u16 | Wr32 u32 u32 | Wr64 u32 u64
  | Putc u8
  | Asm asm_call
  | RomCall u32 "u32 list" u32

record device =
  d_rd8 :: "access list \<Rightarrow> u32 \<Rightarrow> u8"
  d_rd16 :: "access list \<Rightarrow> u32 \<Rightarrow> u16"
  d_rd32 :: "access list \<Rightarrow> u32 \<Rightarrow> u32"
  d_rd64 :: "access list \<Rightarrow> u32 \<Rightarrow> u64"
  d_rom :: "access list \<Rightarrow> u32 \<Rightarrow> u32 list \<Rightarrow> u32 \<times> u32"

text \<open>
  The machine also holds the static variables of the C files: the GIC driver's bases and
  interrupt list (\<^verbatim>\<open>common/arm_gic.c\<close>), the certificate magic (\<^verbatim>\<open>common/auth.c\<close>), the
  dual-channel ECC parameters (\<^verbatim>\<open>common/dram_dual_ecc.c\<close>) and the DRAM channels seen by the
  bus settings (\<^verbatim>\<open>qos/qos_init.c\<close>). C zero-initialises them.
\<close>

record machine =
  m_dev :: device
  m_fuel :: nat
  m_tr :: "access list"
  g_gicc_base :: u32
  g_gicd_base :: u32
  g_irq_sec :: "u32 list"
  magicNumber :: u32
  area_ecc_enable :: u32
  extra_area_ecc_enable :: u32
  area_size :: u32
  extra_area_size :: u32
  qos_init_ddr_ch :: u32
  qos_init_ddr_phyvalid :: u8

definition boot_machine :: "device \<Rightarrow> nat \<Rightarrow> machine" where
  "boot_machine d n =
     \<lparr>m_dev = d, m_fuel = n, m_tr = [], g_gicc_base = 0, g_gicd_base = 0, g_irq_sec = [],
      magicNumber = 0, area_ecc_enable = 0, extra_area_ecc_enable = 0, area_size = 0,
      extra_area_size = 0, qos_init_ddr_ch = 0, qos_init_ddr_phyvalid = 0\<rparr>"

section \<open>Programs\<close>

datatype 'a outcome = Done 'a machine | Panic machine | Fault machine | Hang machine

type_synonym 'a prog = "machine \<Rightarrow> 'a outcome"

definition ret :: "'a \<Rightarrow> 'a prog" where
  "ret x s = Done x s"

definition bnd :: "'a prog \<Rightarrow> ('a \<Rightarrow> 'b prog) \<Rightarrow> 'b prog" where
  "bnd p f s = (case p s of Done x t \<Rightarrow> f x t | Panic t \<Rightarrow> Panic t | Fault t \<Rightarrow> Fault t | Hang t \<Rightarrow> Hang t)"

primrec seqs :: "unit prog list \<Rightarrow> unit prog" where
  "seqs [] = ret ()"
| "seqs (p # ps) = bnd p (\<lambda>_. seqs ps)"

definition whenp :: "bool \<Rightarrow> unit prog \<Rightarrow> unit prog" where
  "whenp c p = (if c then p else ret ())"

definition fault :: "'a prog" where
  "fault s = Fault s"

text \<open>\<^verbatim>\<open>panic()\<close> of \<^verbatim>\<open>include/debug.h\<close>: declared \<^verbatim>\<open>__dead2\<close>, it never returns.\<close>

definition panic :: "'a prog" where
  "panic s = Panic s"

definition gets :: "(machine \<Rightarrow> 'a) \<Rightarrow> 'a prog" where
  "gets f s = Done (f s) s"

definition puts :: "(machine \<Rightarrow> machine) \<Rightarrow> unit prog" where
  "puts f s = Done () (f s)"

definition emit :: "access \<Rightarrow> unit prog" where
  "emit e s = Done () (s\<lparr>m_tr := e # m_tr s\<rparr>)"

definition asm :: "asm_call \<Rightarrow> unit prog" where
  "asm c = emit (Asm c)"

definition console_putc :: "u8 \<Rightarrow> unit prog" where
  "console_putc c = emit (Putc c)"

text \<open>A \<^verbatim>\<open>for\<close> loop over the listed indices, and \<^verbatim>\<open>while (c) b\<close> with a bound on its rounds.\<close>

primrec for_each :: "'a list \<Rightarrow> ('a \<Rightarrow> unit prog) \<Rightarrow> unit prog" where
  "for_each [] b = ret ()"
| "for_each (x # xs) b = bnd (b x) (\<lambda>_. for_each xs b)"

primrec while_fuel :: "nat \<Rightarrow> bool prog \<Rightarrow> unit prog \<Rightarrow> unit prog" where
  "while_fuel 0 c b = (\<lambda>s. Hang s)"
| "while_fuel (Suc n) c b = bnd c (\<lambda>t. if t then bnd b (\<lambda>_. while_fuel n c b) else ret ())"

text \<open>The same with local variables, which the condition and the body share.\<close>

primrec while_st :: "nat \<Rightarrow> ('a \<Rightarrow> bool) \<Rightarrow> ('a \<Rightarrow> 'a prog) \<Rightarrow> 'a \<Rightarrow> 'a prog" where
  "while_st 0 c b x = (\<lambda>s. Hang s)"
| "while_st (Suc n) c b x = (if c x then bnd (b x) (while_st n c b) else ret x)"

definition while_io :: "bool prog \<Rightarrow> unit prog \<Rightarrow> unit prog" where
  "while_io c b s = while_fuel (m_fuel s) c b s"

text \<open>The machine with a longer history (newest access first).\<close>

abbreviation grown :: "access list \<Rightarrow> machine \<Rightarrow> machine" where
  "grown xs s \<equiv> s\<lparr>m_tr := xs @ m_tr s\<rparr>"

abbreviation no_asm :: "access list \<Rightarrow> bool" where
  "no_asm xs \<equiv> \<forall>c. Asm c \<notin> set xs"

section \<open>The accessors of mmio.h\<close>

definition mmio_write_8 :: "u32 \<Rightarrow> u8 \<Rightarrow> unit prog" where
  "mmio_write_8 addr value = emit (Wr8 addr value)"

definition mmio_read_8 :: "u32 \<Rightarrow> u8 prog" where
  "mmio_read_8 addr s =
     (let v = d_rd8 (m_dev s) (m_tr s) addr in Done v (s\<lparr>m_tr := Rd8 addr v # m_tr s\<rparr>))"

definition mmio_write_16 :: "u32 \<Rightarrow> u16 \<Rightarrow> unit prog" where
  "mmio_write_16 addr value = emit (Wr16 addr value)"

definition mmio_read_16 :: "u32 \<Rightarrow> u16 prog" where
  "mmio_read_16 addr s =
     (let v = d_rd16 (m_dev s) (m_tr s) addr in Done v (s\<lparr>m_tr := Rd16 addr v # m_tr s\<rparr>))"

definition mmio_write_32 :: "u32 \<Rightarrow> u32 \<Rightarrow> unit prog" where
  "mmio_write_32 addr value = emit (Wr32 addr value)"

definition mmio_read_32 :: "u32 \<Rightarrow> u32 prog" where
  "mmio_read_32 addr s =
     (let v = d_rd32 (m_dev s) (m_tr s) addr in Done v (s\<lparr>m_tr := Rd32 addr v # m_tr s\<rparr>))"

definition mmio_write_64 :: "u32 \<Rightarrow> u64 \<Rightarrow> unit prog" where
  "mmio_write_64 addr value = emit (Wr64 addr value)"

definition mmio_read_64 :: "u32 \<Rightarrow> u64 prog" where
  "mmio_read_64 addr s =
     (let v = d_rd64 (m_dev s) (m_tr s) addr in Done v (s\<lparr>m_tr := Rd64 addr v # m_tr s\<rparr>))"

definition mmio_clrsetbits_32 :: "u32 \<Rightarrow> u32 \<Rightarrow> u32 \<Rightarrow> unit prog" where
  "mmio_clrsetbits_32 addr clear sets =
     bnd (mmio_read_32 addr) (\<lambda>v. mmio_write_32 addr ((v AND NOT clear) OR sets))"

definition rom_call :: "u32 \<Rightarrow> u32 list \<Rightarrow> (u32 \<times> u32) prog" where
  "rom_call entry args s =
     (let (r, out) = d_rom (m_dev s) (m_tr s) entry args
      in Done (r, out) (s\<lparr>m_tr := RomCall entry args r # m_tr s\<rparr>))"

section \<open>Execution equations\<close>

lemma bnd_ret [run_simps, simp]: "bnd (ret x) f = f x"
  by (simp add: bnd_def ret_def fun_eq_iff)

lemma bnd_assoc: "bnd (bnd p f) g = bnd p (\<lambda>x. bnd (f x) g)"
  by (simp add: bnd_def fun_eq_iff split: outcome.split)

lemma bnd_panic [run_simps, simp]: "bnd panic f = panic"
  by (simp add: bnd_def panic_def fun_eq_iff)

lemma bnd_fault [run_simps, simp]: "bnd fault f = fault"
  by (simp add: bnd_def fault_def fun_eq_iff)

lemma ret_run [run_simps]: "ret x s = Done x s"
  by (simp add: ret_def)

lemma panic_run [run_simps]: "panic s = Panic s"
  by (simp add: panic_def)

lemma fault_run [run_simps]: "fault s = Fault s"
  by (simp add: fault_def)

lemma gets_run [run_simps]: "gets f s = Done (f s) s"
  by (simp add: gets_def)

lemma puts_run [run_simps]: "puts f s = Done () (f s)"
  by (simp add: puts_def)

lemma bnd_ret_unit: "bnd p ret = p" "bnd q (\<lambda>_. ret ()) = q"
  by (rule ext, simp add: bnd_def ret_def split: outcome.split)+

lemma emit_run [run_simps]: "emit e s = Done () (s\<lparr>m_tr := e # m_tr s\<rparr>)"
  by (simp add: emit_def)

lemma whenp_simps [run_simps, simp]: "whenp True p = p" "whenp False p = ret ()"
  by (simp_all add: whenp_def)

lemmas bnd_run [run_simps] = bnd_def

lemma bnd_Done: "p s = Done x t \<Longrightarrow> bnd p f s = f x t"
  by (simp add: bnd_def)

lemma bnd_eq_Done:
  "bnd p f s = Done y u \<longleftrightarrow> (\<exists>x t. p s = Done x t \<and> f x t = Done y u)"
  by (auto simp: bnd_def split: outcome.splits)

text \<open>Symbolic execution, one primitive at a time.\<close>

named_theorems steps_simps

lemma bnd_read_32 [steps_simps]:
  "bnd (mmio_read_32 a) f s =
     f (d_rd32 (m_dev s) (m_tr s) a) (s\<lparr>m_tr := Rd32 a (d_rd32 (m_dev s) (m_tr s) a) # m_tr s\<rparr>)"
  by (simp add: bnd_def mmio_read_32_def Let_def)

lemma bnd_read_8 [steps_simps]:
  "bnd (mmio_read_8 a) f s =
     f (d_rd8 (m_dev s) (m_tr s) a) (s\<lparr>m_tr := Rd8 a (d_rd8 (m_dev s) (m_tr s) a) # m_tr s\<rparr>)"
  by (simp add: bnd_def mmio_read_8_def Let_def)

lemma bnd_write_32 [steps_simps]:
  "bnd (mmio_write_32 a v) f s = f () (s\<lparr>m_tr := Wr32 a v # m_tr s\<rparr>)"
  by (simp add: bnd_def mmio_write_32_def emit_def)

lemma bnd_write_16 [steps_simps]:
  "bnd (mmio_write_16 a h) f s = f () (s\<lparr>m_tr := Wr16 a h # m_tr s\<rparr>)"
  by (simp add: bnd_def mmio_write_16_def emit_def)

lemma bnd_write_8 [steps_simps]:
  "bnd (mmio_write_8 a w) f s = f () (s\<lparr>m_tr := Wr8 a w # m_tr s\<rparr>)"
  by (simp add: bnd_def mmio_write_8_def emit_def)

lemma bnd_asm [steps_simps]: "bnd (asm c) f s = f () (s\<lparr>m_tr := Asm c # m_tr s\<rparr>)"
  by (simp add: bnd_def asm_def emit_def)

lemma bnd_gets [steps_simps]: "bnd (gets h) f s = f (h s) s"
  by (simp add: bnd_def gets_def)

lemma bnd_puts [steps_simps]: "bnd (puts h) f s = f () (h s)"
  by (simp add: bnd_def puts_def)

lemma write_32_run [steps_simps]: "mmio_write_32 a v s = Done () (s\<lparr>m_tr := Wr32 a v # m_tr s\<rparr>)"
  by (simp add: mmio_write_32_def emit_def)

lemmas bnd_flat [steps_simps] = bnd_assoc bnd_ret

lemma seqs_append: "seqs (ps @ qs) = bnd (seqs ps) (\<lambda>_. seqs qs)"
  by (induction ps) (simp_all add: bnd_assoc)

lemma for_each_append: "for_each (xs @ ys) b = bnd (for_each xs b) (\<lambda>_. for_each ys b)"
  by (induction xs) (simp_all add: bnd_assoc)

lemma for_each_map: "for_each (map f xs) b = for_each xs (\<lambda>x. b (f x))"
  by (induction xs) simp_all

lemmas mmio_run [run_simps] =
  mmio_write_8_def mmio_read_8_def mmio_write_16_def mmio_read_16_def mmio_write_32_def
  mmio_read_32_def mmio_write_64_def mmio_read_64_def mmio_clrsetbits_32_def rom_call_def
  asm_def console_putc_def Let_def

declare seqs.simps [run_simps] for_each.simps [run_simps]

section \<open>What a run did\<close>

text \<open>The 32-bit register writes of a history, oldest first, and the characters printed.\<close>

fun writes :: "access list \<Rightarrow> (u32 \<times> u32) list" where
  "writes [] = []"
| "writes (Wr32 a v # t) = writes t @ [(a, v)]"
| "writes (_ # t) = writes t"

fun printed :: "access list \<Rightarrow> u8 list" where
  "printed [] = []"
| "printed (Putc c # t) = printed t @ [c]"
| "printed (_ # t) = printed t"

lemma writes_append [simp]: "writes (xs @ ys) = writes ys @ writes xs"
  by (induction xs rule: writes.induct) simp_all

lemma printed_append [simp]: "printed (xs @ ys) = printed ys @ printed xs"
  by (induction xs rule: printed.induct) simp_all

lemma writes_map_Putc [simp]: "writes (map Putc cs) = []"
  by (induction cs) simp_all

lemma printed_rev_map_Putc [simp]: "printed (rev (map Putc cs)) = cs"
  by (induction cs) simp_all

lemma writes_rev_map_Putc [simp]: "writes (rev (map Putc cs)) = []"
  by (induction cs) simp_all

text \<open>A run that writes a table of registers in order.\<close>

definition write_table :: "(u32 \<times> u32) list \<Rightarrow> unit prog" where
  "write_table tbl = for_each tbl (\<lambda>(a, v). mmio_write_32 a v)"

lemma write_table_run:
  "write_table tbl s = Done () (s\<lparr>m_tr := map (\<lambda>(a, v). Wr32 a v) (rev tbl) @ m_tr s\<rparr>)"
  unfolding write_table_def
  by (induction tbl arbitrary: s) (auto simp: run_simps)

lemma writes_of_table [simp]: "writes (map (\<lambda>(a, v). Wr32 a v) (rev tbl)) = tbl"
  by (induction tbl) auto

section \<open>Polling loops\<close>

text \<open>
  More fuel never changes a loop that ended, so a loop that ends with some fuel ends with every
  larger amount in the same state.
\<close>

lemma while_fuel_mono:
  "while_fuel n c b s = Done () t \<Longrightarrow> n \<le> m \<Longrightarrow> while_fuel m c b s = Done () t"
proof (induction n arbitrary: m s)
  case 0
  then show ?case by simp
next
  case (Suc n)
  then obtain k where m: "m = Suc k" and "n \<le> k"
    by (cases m) auto
  show ?case
  proof (cases "c s")
    case (Done x u)
    with Suc.prems(1) Suc.IH \<open>n \<le> k\<close> m show ?thesis
      by (cases x) (auto simp: bnd_eq_Done bnd_Done)
  qed (use Suc.prems(1) in \<open>simp_all add: bnd_def\<close>)
qed

text \<open>
  A loop whose condition and body only extend the history: \<open>step\<close> is one round, \<open>fin\<close> the last
  evaluation of the condition, \<open>busy t\<close> whether the condition holds after the history \<open>t\<close>.
\<close>

lemma while_fuel_stop: "c s = Done False t \<Longrightarrow> while_fuel (Suc n) c b s = Done () t"
  by (simp add: bnd_def ret_def)

lemma while_fuel_go:
  "c s = Done True t \<Longrightarrow> b t = Done () u \<Longrightarrow> while_fuel (Suc n) c b s = while_fuel n c b u"
  by (simp add: bnd_def)

lemma loop_Done:
  assumes c: "\<And>t. c (s\<lparr>m_tr := t\<rparr>) = Done (busy t) (s\<lparr>m_tr := fin t\<rparr>)"
    and b: "\<And>t. busy t \<Longrightarrow> b (s\<lparr>m_tr := fin t\<rparr>) = Done () (s\<lparr>m_tr := step t\<rparr>)"
    and "n < fuel" and "\<And>i. i < n \<Longrightarrow> busy ((step ^^ i) t)" and "\<not> busy ((step ^^ n) t)"
  shows "while_fuel fuel c b (s\<lparr>m_tr := t\<rparr>) = Done () (s\<lparr>m_tr := fin ((step ^^ n) t)\<rparr>)"
  using assms(3-)
proof (induction n arbitrary: fuel t)
  case 0
  then obtain k where "fuel = Suc k" by (cases fuel) auto
  with 0 show ?case by (simp add: c while_fuel_stop del: while_fuel.simps)
next
  case (Suc n)
  then obtain k where fuel: "fuel = Suc k" and k: "n < k" by (cases fuel) auto
  have shift: "(step ^^ Suc i) t = (step ^^ i) (step t)" for i
    by (simp add: funpow_swap1)
  have "while_fuel fuel c b (s\<lparr>m_tr := t\<rparr>) = while_fuel k c b (s\<lparr>m_tr := step t\<rparr>)"
    unfolding fuel by (rule while_fuel_go [where t = "s\<lparr>m_tr := fin t\<rparr>"]) (use Suc.prems(2) [of 0] in \<open>simp_all add: c b [of t]\<close>)
  also have "\<dots> = Done () (s\<lparr>m_tr := fin ((step ^^ n) (step t))\<rparr>)"
    by (rule Suc.IH [OF k]) (use Suc.prems(2) [of "Suc _"] Suc.prems(3) in \<open>simp_all only: shift Suc_less_eq simp_thms\<close>)
  finally show ?case by (simp only: shift)
qed

lemma loop_Hang:
  assumes c: "\<And>t. c (s\<lparr>m_tr := t\<rparr>) = Done (busy t) (s\<lparr>m_tr := fin t\<rparr>)"
    and b: "\<And>t. busy t \<Longrightarrow> b (s\<lparr>m_tr := fin t\<rparr>) = Done () (s\<lparr>m_tr := step t\<rparr>)"
    and "\<And>i. i < fuel \<Longrightarrow> busy ((step ^^ i) t)"
  shows "while_fuel fuel c b (s\<lparr>m_tr := t\<rparr>) = Hang (s\<lparr>m_tr := (step ^^ fuel) t\<rparr>)"
  using assms(3-)
proof (induction fuel arbitrary: t)
  case 0
  then show ?case by simp
next
  case (Suc n)
  have shift: "(step ^^ Suc i) t = (step ^^ i) (step t)" for i
    by (simp add: funpow_swap1)
  have "while_fuel (Suc n) c b (s\<lparr>m_tr := t\<rparr>) = while_fuel n c b (s\<lparr>m_tr := step t\<rparr>)"
    by (rule while_fuel_go [where t = "s\<lparr>m_tr := fin t\<rparr>"]) (use Suc.prems [of 0] in \<open>simp_all add: c b [of t]\<close>)
  also have "\<dots> = Hang (s\<lparr>m_tr := (step ^^ n) (step t)\<rparr>)"
    by (rule Suc.IH) (use Suc.prems [of "Suc _"] in \<open>simp only: shift Suc_less_eq\<close>)
  finally show ?case by (simp only: shift)
qed

text \<open>Polling one 32-bit register, and one 8-bit register.\<close>

definition poll_tr :: "device \<Rightarrow> u32 \<Rightarrow> nat \<Rightarrow> access list \<Rightarrow> access list" where
  "poll_tr d a n = ((\<lambda>t. Rd32 a (d_rd32 d t a) # t) ^^ n)"

lemma poll_tr_simps [simp]:
  "poll_tr d a 0 t = t" "poll_tr d a (Suc n) t = poll_tr d a n (Rd32 a (d_rd32 d t a) # t)"
  by (simp_all add: poll_tr_def funpow_Suc_right del: funpow.simps(2))

definition polled :: "u32 \<Rightarrow> (u32 \<Rightarrow> bool) \<Rightarrow> bool prog" where
  "polled a busy = bnd (mmio_read_32 a) (\<lambda>v. ret (busy v))"

definition poll_32 :: "u32 \<Rightarrow> (u32 \<Rightarrow> bool) \<Rightarrow> unit prog" where
  "poll_32 a busy = while_io (polled a busy) (ret ())"

definition poll8_tr :: "device \<Rightarrow> u32 \<Rightarrow> nat \<Rightarrow> access list \<Rightarrow> access list" where
  "poll8_tr d a n = ((\<lambda>t. Rd8 a (d_rd8 d t a) # t) ^^ n)"

definition poll_8 :: "u32 \<Rightarrow> (u8 \<Rightarrow> bool) \<Rightarrow> unit prog" where
  "poll_8 a busy = while_io (bnd (mmio_read_8 a) (\<lambda>v. ret (busy v))) (ret ())"

lemma poll_32_Done:
  assumes "n < m_fuel s"
    and "\<And>i. i < n \<Longrightarrow> busy (d_rd32 (m_dev s) (poll_tr (m_dev s) a i (m_tr s)) a)"
    and "\<not> busy (d_rd32 (m_dev s) (poll_tr (m_dev s) a n (m_tr s)) a)"
  shows "poll_32 a busy s = Done () (s\<lparr>m_tr := poll_tr (m_dev s) a (Suc n) (m_tr s)\<rparr>)"
proof -
  let ?ev = "\<lambda>t. Rd32 a (d_rd32 (m_dev s) t a) # t"
  have "while_fuel (m_fuel s) (polled a busy) (ret ()) (s\<lparr>m_tr := m_tr s\<rparr>)
      = Done () (s\<lparr>m_tr := ?ev ((?ev ^^ n) (m_tr s))\<rparr>)"
    by (rule loop_Done [where busy = "\<lambda>t. busy (d_rd32 (m_dev s) t a)"])
      (use assms in \<open>simp_all add: polled_def run_simps poll_tr_def\<close>)
  then show ?thesis by (simp add: poll_32_def while_io_def poll_tr_def)
qed

lemma poll_32_Hang:
  assumes "\<And>i. i < m_fuel s \<Longrightarrow> busy (d_rd32 (m_dev s) (poll_tr (m_dev s) a i (m_tr s)) a)"
  shows "poll_32 a busy s = Hang (s\<lparr>m_tr := poll_tr (m_dev s) a (m_fuel s) (m_tr s)\<rparr>)"
proof -
  let ?ev = "\<lambda>t. Rd32 a (d_rd32 (m_dev s) t a) # t"
  have "while_fuel (m_fuel s) (polled a busy) (ret ()) (s\<lparr>m_tr := m_tr s\<rparr>)
      = Hang (s\<lparr>m_tr := (?ev ^^ m_fuel s) (m_tr s)\<rparr>)"
    by (rule loop_Hang [where busy = "\<lambda>t. busy (d_rd32 (m_dev s) t a)" and fin = ?ev])
      (use assms in \<open>simp_all add: polled_def run_simps poll_tr_def\<close>)
  then show ?thesis by (simp add: poll_32_def while_io_def poll_tr_def)
qed

lemma poll_8_Done:
  assumes "n < m_fuel s"
    and "\<And>i. i < n \<Longrightarrow> busy (d_rd8 (m_dev s) (poll8_tr (m_dev s) a i (m_tr s)) a)"
    and "\<not> busy (d_rd8 (m_dev s) (poll8_tr (m_dev s) a n (m_tr s)) a)"
  shows "poll_8 a busy s = Done () (s\<lparr>m_tr := poll8_tr (m_dev s) a (Suc n) (m_tr s)\<rparr>)"
proof -
  let ?ev = "\<lambda>t. Rd8 a (d_rd8 (m_dev s) t a) # t"
  have "while_fuel (m_fuel s) (bnd (mmio_read_8 a) (\<lambda>v. ret (busy v))) (ret ()) (s\<lparr>m_tr := m_tr s\<rparr>)
      = Done () (s\<lparr>m_tr := ?ev ((?ev ^^ n) (m_tr s))\<rparr>)"
    by (rule loop_Done [where busy = "\<lambda>t. busy (d_rd8 (m_dev s) t a)"])
      (use assms in \<open>simp_all add: run_simps poll8_tr_def\<close>)
  then show ?thesis by (simp add: poll_8_def while_io_def poll8_tr_def)
qed

text \<open>
  A register that leaves its busy state within the fuel, whatever happened before: then the
  polling loop returns.
\<close>

definition ready_32 :: "device \<Rightarrow> nat \<Rightarrow> u32 \<Rightarrow> (u32 \<Rightarrow> bool) \<Rightarrow> bool" where
  "ready_32 d fuel a busy \<longleftrightarrow> (\<forall>t. \<exists>n < fuel. \<not> busy (d_rd32 d (poll_tr d a n t) a))"

definition ready_8 :: "device \<Rightarrow> nat \<Rightarrow> u32 \<Rightarrow> (u8 \<Rightarrow> bool) \<Rightarrow> bool" where
  "ready_8 d fuel a busy \<longleftrightarrow> (\<forall>t. \<exists>n < fuel. \<not> busy (d_rd8 d (poll8_tr d a n t) a))"

lemma first_ready:
  assumes "\<exists>n < fuel. \<not> P (n :: nat)"
  obtains n where "n < fuel" "\<And>i. i < n \<Longrightarrow> P i" "\<not> P n"
proof -
  from assms obtain n where "n < fuel \<and> \<not> P n" "\<forall>m < n. \<not> (m < fuel \<and> \<not> P m)"
    unfolding exists_least_iff [of "\<lambda>n. n < fuel \<and> \<not> P n"] by blast
  then show ?thesis by (intro that [of n]) auto
qed

lemma poll_32_ready:
  assumes "ready_32 (m_dev s) (m_fuel s) a busy"
  shows "\<exists>n. poll_32 a busy s = Done () (s\<lparr>m_tr := poll_tr (m_dev s) a (Suc n) (m_tr s)\<rparr>)"
proof -
  have "\<exists>n < m_fuel s. \<not> busy (d_rd32 (m_dev s) (poll_tr (m_dev s) a n (m_tr s)) a)"
    using assms by (auto simp: ready_32_def)
  from first_ready [OF this] show ?thesis using poll_32_Done by metis
qed

lemma poll_8_ready:
  assumes "ready_8 (m_dev s) (m_fuel s) a busy"
  shows "\<exists>n. poll_8 a busy s = Done () (s\<lparr>m_tr := poll8_tr (m_dev s) a (Suc n) (m_tr s)\<rparr>)"
proof -
  have "\<exists>n < m_fuel s. \<not> busy (d_rd8 (m_dev s) (poll8_tr (m_dev s) a n (m_tr s)) a)"
    using assms by (auto simp: ready_8_def)
  from first_ready [OF this] show ?thesis using poll_8_Done by metis
qed

text \<open>A loop that polls with the same bounds on every history returns.\<close>

lemma loop_runs:
  assumes c: "\<And>t. c (s\<lparr>m_tr := t\<rparr>) = Done (busy t) (s\<lparr>m_tr := fin t\<rparr>)"
    and b: "\<And>t. busy t \<Longrightarrow> b (s\<lparr>m_tr := fin t\<rparr>) = Done () (s\<lparr>m_tr := step t\<rparr>)"
    and "\<exists>n < m_fuel s. \<not> busy ((step ^^ n) (m_tr s))"
  shows "\<exists>n. while_io c b s = Done () (s\<lparr>m_tr := fin ((step ^^ n) (m_tr s))\<rparr>)"
proof -
  obtain n where "n < m_fuel s" "\<And>i. i < n \<Longrightarrow> busy ((step ^^ i) (m_tr s))" "\<not> busy ((step ^^ n) (m_tr s))"
    using first_ready [OF assms(3)] by blast
  from loop_Done [of c s busy fin b step, OF c b this] show ?thesis
    by (auto simp: while_io_def)
qed

lemma poll_32_runs:
  assumes "ready_32 d f a busy"
  obtains N where "\<And>u. m_dev u = d \<Longrightarrow> m_fuel u = f \<Longrightarrow>
    poll_32 a busy u = Done () (u\<lparr>m_tr := poll_tr d a (Suc (N u)) (m_tr u)\<rparr>)"
proof -
  have "\<forall>u. \<exists>n. m_dev u = d \<longrightarrow> m_fuel u = f \<longrightarrow>
      poll_32 a busy u = Done () (u\<lparr>m_tr := poll_tr d a (Suc n) (m_tr u)\<rparr>)"
    using assms poll_32_ready by blast
  from choice [OF this] show ?thesis using that by blast
qed

lemma poll_8_runs:
  assumes "ready_8 d f a busy"
  obtains N where "\<And>u. m_dev u = d \<Longrightarrow> m_fuel u = f \<Longrightarrow>
    poll_8 a busy u = Done () (u\<lparr>m_tr := poll8_tr d a (Suc (N u)) (m_tr u)\<rparr>)"
proof -
  have "\<forall>u. \<exists>n. m_dev u = d \<longrightarrow> m_fuel u = f \<longrightarrow>
      poll_8 a busy u = Done () (u\<lparr>m_tr := poll8_tr d a (Suc n) (m_tr u)\<rparr>)"
    using assms poll_8_ready by blast
  from choice [OF this] show ?thesis using that by blast
qed

lemma writes_poll_tr [simp]: "writes (poll_tr d a n t) = writes t"
  by (induction n) (simp_all add: poll_tr_def)

lemma writes_poll8_tr [simp]: "writes (poll8_tr d a n t) = writes t"
  by (induction n) (simp_all add: poll8_tr_def)

text \<open>A poll that succeeds only lengthens the history, by reads.\<close>

lemma poll_tr_grown: "\<exists>xs. poll_tr d a n t = xs @ t \<and> writes xs = []"
proof (induction n arbitrary: t)
  case (Suc n)
  obtain xs where "poll_tr d a n (Rd32 a (d_rd32 d t a) # t) = xs @ Rd32 a (d_rd32 d t a) # t" "writes xs = []"
    using Suc by blast
  then show ?case by (intro exI [of _ "xs @ [Rd32 a (d_rd32 d t a)]"]) simp
qed simp

lemma poll8_tr_grown: "\<exists>xs. poll8_tr d a n t = xs @ t \<and> writes xs = []"
proof (induction n arbitrary: t)
  case (Suc n)
  obtain xs where "poll8_tr d a n (Rd8 a (d_rd8 d t a) # t) = xs @ Rd8 a (d_rd8 d t a) # t" "writes xs = []"
    using Suc by blast
  then show ?case
    by (intro exI [of _ "xs @ [Rd8 a (d_rd8 d t a)]"]) (simp add: poll8_tr_def funpow_Suc_right del: funpow.simps(2))
qed (simp add: poll8_tr_def)

lemma suffix_poll_tr [intro!]: "suffix t u \<Longrightarrow> suffix t (poll_tr d a n u)"
  and suffix_poll8_tr [intro!]: "suffix t u \<Longrightarrow> suffix t (poll8_tr d a n u)"
  using poll_tr_grown [of d a n u] poll8_tr_grown [of d a n u] by (auto intro: suffix_appendI)

lemma poll_32_grows:
  assumes "ready_32 (m_dev s) (m_fuel s) a busy"
  shows "\<exists>xs. poll_32 a busy s = Done () (grown xs s) \<and> writes xs = []"
  using poll_32_ready [OF assms] poll_tr_grown by metis

lemma poll_8_grows:
  assumes "ready_8 (m_dev s) (m_fuel s) a busy"
  shows "\<exists>xs. poll_8 a busy s = Done () (grown xs s) \<and> writes xs = []"
  using poll_8_ready [OF assms] poll8_tr_grown by metis

text \<open>From a run that ends in a known history to the part that it added.\<close>

lemma grownI:
  assumes "suffix (m_tr s) tr" and "writes tr = writes (m_tr s) @ ws"
  shows "\<exists>xs. s\<lparr>m_tr := tr\<rparr> = grown xs s \<and> writes xs = ws"
  using assms unfolding suffix_def by auto

end
