(* ===== verification/Printf.thy ===== *)
theory Printf
  imports Machine
begin

text \<open>
  The loader's formatted output, \<^verbatim>\<open>CortexR7_Loader/common/printf.c\<close>: the console family
  (\<^verbatim>\<open>tf_printf\<close> and its helpers) and the buffer family (\<^verbatim>\<open>sprintf\<close> and its helpers), which
  the C file implements twice. Both are proved against one specification, \<open>format\<close>.

  A C string is its characters before the terminator; the conversions take their arguments from
  a list of words and strings (a missing or ill-typed argument is undefined behaviour). A format
  that ends in a single \<^verbatim>\<open>%\<close> makes the C loop step over the terminator, which is \<open>Fault\<close> here.
  A destination buffer is the list of its bytes: a store outside is \<open>None\<close>.
\<close>

datatype arg = ArgW u32 | ArgS string

definition bytes :: "string \<Rightarrow> u8 list" where
  "bytes = map of_char"

section \<open>Console output\<close>

text \<open>
  The first loop of \<^verbatim>\<open>uint32_print\<close> and \<^verbatim>\<open>uint32_sprint\<close>: decimal digits, least significant
  first, into \<^verbatim>\<open>num_buf\<close>. A store past the buffer is \<open>None\<close>.
\<close>

function dec_fill :: "u32 \<Rightarrow> u8 list \<Rightarrow> nat \<Rightarrow> (u8 list \<times> nat) option" where
  "dec_fill unum num_buf i =
     (if i < length num_buf then
        (let buf = num_buf[i := 48 + ucast (unum mod 10)]; q = unum div 10
         in if q < 1 then Some (buf, Suc i) else dec_fill q buf (Suc i))
      else None)"
  by pat_completeness auto
termination
  by (relation "measure (\<lambda>(unum, _, _). unat unum)")
    (auto simp: word_less_one_iff intro!: unat_div_less)

declare dec_fill.simps [simp del]

text \<open>The second loop: the digits in reverse order, counted.\<close>

fun dec_emit :: "u8 list \<Rightarrow> nat \<Rightarrow> nat \<Rightarrow> nat prog" where
  "dec_emit num_buf 0 count = ret count"
| "dec_emit num_buf (Suc i) count =
     bnd (console_putc (num_buf ! i)) (\<lambda>_. dec_emit num_buf i (Suc count))"

definition uint32_print :: "u32 \<Rightarrow> nat prog" where
  "uint32_print num =
     (case dec_fill num (replicate 10 0) 0 of
        None \<Rightarrow> fault
      | Some (num_buf, i) \<Rightarrow> dec_emit num_buf i 0)"

definition int32_print :: "u32 \<Rightarrow> nat prog" where
  "int32_print num =
     (if num <s 0
      then bnd (console_putc (of_char CHR ''-'')) (\<lambda>_. bnd (uint32_print (- num)) (\<lambda>c. ret (1 + c)))
      else uint32_print num)"

definition hex_digit :: "u32 \<Rightarrow> nat \<Rightarrow> u8" where
  "hex_digit num i =
     (let c = ucast (drop_bit ((7 - i) * 4) num AND 15) :: u8
      in if 10 \<le> c then c + (97 - 10) else c + 48)"

definition uint32_hex_print :: "u32 \<Rightarrow> nat prog" where
  "uint32_hex_print num =
     bnd (for_each [0..<8] (\<lambda>i. console_putc (hex_digit num i))) (\<lambda>_. ret 8)"

definition str_print :: "string \<Rightarrow> nat prog" where
  "str_print str = bnd (for_each str (\<lambda>c. console_putc (of_char c))) (\<lambda>_. ret (length str))"

fun tf_printf :: "string \<Rightarrow> arg list \<Rightarrow> unit prog" where
  "tf_printf [] args = ret ()"
| "tf_printf (c # fmt) args =
     (if c = CHR ''%'' then
        (case fmt of
           [] \<Rightarrow> fault
         | d # fmt' \<Rightarrow>
             if d = CHR ''i'' \<or> d = CHR ''d'' then
               (case args of ArgW n # as \<Rightarrow> bnd (int32_print n) (\<lambda>_. tf_printf fmt' as) | _ \<Rightarrow> fault)
             else if d = CHR ''s'' then
               (case args of ArgS x # as \<Rightarrow> bnd (str_print x) (\<lambda>_. tf_printf fmt' as) | _ \<Rightarrow> fault)
             else if d = CHR ''x'' then
               (case args of ArgW n # as \<Rightarrow> bnd (uint32_hex_print n) (\<lambda>_. tf_printf fmt' as) | _ \<Rightarrow> fault)
             else if d = CHR ''u'' then
               (case args of ArgW n # as \<Rightarrow> bnd (uint32_print n) (\<lambda>_. tf_printf fmt' as) | _ \<Rightarrow> fault)
             else tf_printf fmt' args)
      else bnd (console_putc (of_char c)) (\<lambda>_. tf_printf fmt args))"

text \<open>The log macros of \<^verbatim>\<open>include/debug.h\<close> at the release log level (\<^verbatim>\<open>LOG_LEVEL_NOTICE\<close>).\<close>

definition NOTICE :: "string \<Rightarrow> arg list \<Rightarrow> unit prog" where
  "NOTICE fmt args = tf_printf (''NOTICE:  '' @ fmt) args"

definition ERROR :: "string \<Rightarrow> arg list \<Rightarrow> unit prog" where
  "ERROR fmt args = tf_printf (''ERROR:   '' @ fmt) args"

section \<open>Output into a buffer\<close>

text \<open>\<open>put_at buf i c\<close> is \<^verbatim>\<open>buf[i] = c\<close>.\<close>

definition put_at :: "u8 list \<Rightarrow> nat \<Rightarrow> u8 \<Rightarrow> u8 list option" where
  "put_at buf i c = (if i < length buf then Some (buf[i := c]) else None)"

fun dec_store :: "u8 list \<Rightarrow> nat \<Rightarrow> u8 list \<Rightarrow> nat \<Rightarrow> (u8 list \<times> nat) option" where
  "dec_store num_buf 0 buf count = Some (buf, count)"
| "dec_store num_buf (Suc i) buf count =
     (case put_at buf count (num_buf ! i) of
        None \<Rightarrow> None
      | Some b \<Rightarrow> dec_store num_buf i b (Suc count))"

definition uint32_sprint :: "u32 \<Rightarrow> u8 list \<Rightarrow> nat \<Rightarrow> (u8 list \<times> nat) option" where
  "uint32_sprint num buf off =
     (case dec_fill num (replicate 10 0) 0 of
        None \<Rightarrow> None
      | Some (num_buf, i) \<Rightarrow> dec_store num_buf i buf off)"

definition int32_sprint :: "u32 \<Rightarrow> u8 list \<Rightarrow> nat \<Rightarrow> (u8 list \<times> nat) option" where
  "int32_sprint num buf off =
     (if num <s 0 then
        (case put_at buf off (of_char CHR ''-'') of
           None \<Rightarrow> None
         | Some b \<Rightarrow> uint32_sprint (- num) b (Suc off))
      else uint32_sprint num buf off)"

fun store_all :: "u8 list \<Rightarrow> u8 list \<Rightarrow> nat \<Rightarrow> (u8 list \<times> nat) option" where
  "store_all [] buf count = Some (buf, count)"
| "store_all (c # cs) buf count =
     (case put_at buf count c of None \<Rightarrow> None | Some b \<Rightarrow> store_all cs b (Suc count))"

definition uint32_hex_sprint :: "u32 \<Rightarrow> u8 list \<Rightarrow> nat \<Rightarrow> (u8 list \<times> nat) option" where
  "uint32_hex_sprint num buf off = store_all (map (hex_digit num) [0..<8]) buf off"

definition str_sprint :: "string \<Rightarrow> u8 list \<Rightarrow> nat \<Rightarrow> (u8 list \<times> nat) option" where
  "str_sprint str buf off = store_all (map of_char str) buf off"

fun sprintf_loop :: "string \<Rightarrow> arg list \<Rightarrow> u8 list \<Rightarrow> nat \<Rightarrow> (u8 list \<times> nat) option" where
  "sprintf_loop [] args buf count = Some (buf, count)"
| "sprintf_loop (c # fmt) args buf count =
     (if c = CHR ''%'' then
        (case fmt of
           [] \<Rightarrow> None
         | d # fmt' \<Rightarrow>
             if d = CHR ''i'' \<or> d = CHR ''d'' then
               (case args of
                  ArgW n # as \<Rightarrow> Option.bind (int32_sprint n buf count) (\<lambda>(b, k). sprintf_loop fmt' as b k)
                | _ \<Rightarrow> None)
             else if d = CHR ''s'' then
               (case args of
                  ArgS x # as \<Rightarrow> Option.bind (str_sprint x buf count) (\<lambda>(b, k). sprintf_loop fmt' as b k)
                | _ \<Rightarrow> None)
             else if d = CHR ''x'' then
               (case args of
                  ArgW n # as \<Rightarrow> Option.bind (uint32_hex_sprint n buf count) (\<lambda>(b, k). sprintf_loop fmt' as b k)
                | _ \<Rightarrow> None)
             else if d = CHR ''u'' then
               (case args of
                  ArgW n # as \<Rightarrow> Option.bind (uint32_sprint n buf count) (\<lambda>(b, k). sprintf_loop fmt' as b k)
                | _ \<Rightarrow> None)
             else sprintf_loop fmt' args buf count)
      else Option.bind (put_at buf count (of_char c)) (\<lambda>b. sprintf_loop fmt args b (Suc count)))"

text \<open>
  \<^verbatim>\<open>sprintf(buf, fmt, ...)\<close>; a null format is the message of the source. The result is the
  buffer's new contents and the returned count.
\<close>

definition sprintf :: "u8 list \<Rightarrow> string option \<Rightarrow> arg list \<Rightarrow> (u8 list \<times> nat) option" where
  "sprintf buf fmt args =
     Option.bind (sprintf_loop (case fmt of None \<Rightarrow> ''(fmt null)'' @ [CHR 0x0A] | Some f \<Rightarrow> f) args buf 0)
       (\<lambda>(b, count). Option.bind (put_at b count 0) (\<lambda>b'. Some (b', count)))"

section \<open>The specification\<close>

text \<open>The decimal digits of a number, most significant first.\<close>

fun dec :: "nat \<Rightarrow> u8 list" where
  "dec n = (if n < 10 then [48 + of_nat n] else dec (n div 10) @ [48 + of_nat (n mod 10)])"

declare dec.simps [simp del]

definition sdec :: "u32 \<Rightarrow> u8 list" where
  "sdec n = (if n <s 0 then of_char CHR ''-'' # dec (unat (- n)) else dec (unat n))"

definition hex8 :: "u32 \<Rightarrow> u8 list" where
  "hex8 n = map (hex_digit n) [0..<8]"

fun format :: "string \<Rightarrow> arg list \<Rightarrow> u8 list option" where
  "format [] args = Some []"
| "format (c # fmt) args =
     (if c = CHR ''%'' then
        (case fmt of
           [] \<Rightarrow> None
         | d # fmt' \<Rightarrow>
             if d = CHR ''i'' \<or> d = CHR ''d'' then
               (case args of ArgW n # as \<Rightarrow> map_option (append (sdec n)) (format fmt' as) | _ \<Rightarrow> None)
             else if d = CHR ''s'' then
               (case args of ArgS x # as \<Rightarrow> map_option (append (bytes x)) (format fmt' as) | _ \<Rightarrow> None)
             else if d = CHR ''x'' then
               (case args of ArgW n # as \<Rightarrow> map_option (append (hex8 n)) (format fmt' as) | _ \<Rightarrow> None)
             else if d = CHR ''u'' then
               (case args of ArgW n # as \<Rightarrow> map_option (append (dec (unat n))) (format fmt' as) | _ \<Rightarrow> None)
             else format fmt' args)
      else map_option (Cons (of_char c)) (format fmt args))"

section \<open>The digit loops\<close>

lemma dec_nonempty [simp]: "dec n \<noteq> []"
  by (subst dec.simps) simp

lemma length_dec_le: "n < 10 ^ k \<Longrightarrow> 0 < k \<Longrightarrow> length (dec n) \<le> k"
proof (induction k arbitrary: n)
  case 0
  then show ?case by simp
next
  case (Suc k)
  show ?case
  proof (cases "n < 10")
    case True
    then show ?thesis by (subst dec.simps) simp
  next
    case False
    with Suc.prems have "n div 10 < 10 ^ k" and "0 < k"
      by (auto simp: less_mult_imp_div_less mult.commute intro: gr0I)
    then have "length (dec (n div 10)) \<le> k" by (rule Suc.IH)
    with False show ?thesis by (subst dec.simps) simp
  qed
qed

lemma length_dec_u32: "length (dec (unat (n :: u32))) \<le> 10"
proof -
  have "unat n < 2 ^ 32"
    using unsigned_less [of n] by simp
  then have "unat n < 10 ^ 10" by simp
  then show ?thesis by (rule length_dec_le) simp
qed

lemma ucast_mod_10: "(ucast ((n :: u32) mod 10) :: u8) = of_nat (unat n mod 10)"
proof -
  have "(ucast (n mod 10) :: u8) = of_nat (unat (n mod 10))"
    by (rule unsigned_eq_of_nat)
  then show ?thesis by (simp add: unat_mod)
qed

lemma dec_unat_step:
  "dec (unat (n :: u32)) =
     (if n div 10 < 1 then [] else dec (unat (n div 10))) @ [48 + ucast (n mod 10)]"
proof -
  have q: "n div 10 < 1 \<longleftrightarrow> unat n < 10"
  proof -
    have "n div 10 = 0 \<longleftrightarrow> unat (n div 10) = 0"
      by (rule unat_eq_zero [symmetric])
    also have "\<dots> \<longleftrightarrow> unat n div 10 = 0"
      by (simp only: unat_div) simp
    also have "\<dots> \<longleftrightarrow> unat n < 10"
      by (simp add: div_eq_0_iff)
    finally show ?thesis
      unfolding word_less_one_iff .
  qed
  show ?thesis
  proof (cases "n div 10 < 1")
    case True
    with q have "unat n < 10" by blast
    then show ?thesis
      unfolding if_P [OF True] by (subst dec.simps) (simp add: ucast_mod_10)
  next
    case False
    with q have "\<not> unat n < 10" by blast
    then show ?thesis
      unfolding if_not_P [OF False] by (subst dec.simps) (simp add: ucast_mod_10 unat_div)
  qed
qed

lemma dec_fill_Some:
  assumes "i + length (dec (unat n)) \<le> length buf"
  shows "\<exists>b. dec_fill n buf i = Some (b, i + length (dec (unat n))) \<and> length b = length buf
           \<and> take (i + length (dec (unat n))) b = take i buf @ rev (dec (unat n))"
  using assms
proof (induction n buf i rule: dec_fill.induct)
  case (1 n buf i)
  have i: "i < length buf"
    using "1.prems" by (metis add_lessD1 dec_nonempty le_add1 length_greater_0_conv
      less_add_same_cancel1 order_less_le_trans)
  let ?b = "buf[i := 48 + ucast (n mod 10)]" and ?q = "n div 10"
  show ?case
  proof (cases "?q < 1")
    case True
    then show ?thesis
      using i by (auto simp: dec_fill.simps [of n buf i] dec_unat_step [of n] take_Suc_update_last)
  next
    case False
    have "Suc i + length (dec (unat ?q)) \<le> length ?b"
      using "1.prems" False by (simp add: dec_unat_step [of n])
    with "1.IH" [OF i refl refl False] obtain b where
      "dec_fill ?q ?b (Suc i) = Some (b, Suc i + length (dec (unat ?q)))" "length b = length ?b"
      "take (Suc i + length (dec (unat ?q))) b = take (Suc i) ?b @ rev (dec (unat ?q))"
      by blast
    then show ?thesis
      using i False
      by (auto simp: dec_fill.simps [of n buf i] dec_unat_step [of n] take_Suc_update_last)
  qed
qed

text \<open>The machine after printing \<open>cs\<close>.\<close>

definition say :: "u8 list \<Rightarrow> machine \<Rightarrow> machine" where
  "say cs s = s\<lparr>m_tr := rev (map Putc cs) @ m_tr s\<rparr>"

lemma say_Nil [simp]: "say [] s = s"
  by (simp add: say_def)

lemma say_say [simp]: "say ys (say xs s) = say (xs @ ys) s"
  by (simp add: say_def)

lemma say_proj [simp]:
  "m_dev (say cs s) = m_dev s" "m_fuel (say cs s) = m_fuel s" "m_tr (say cs s) = rev (map Putc cs) @ m_tr s"
  "magicNumber (say cs s) = magicNumber s"
  by (simp_all add: say_def)

lemma console_putc_run: "console_putc c s = Done () (say [c] s)"
  by (simp add: console_putc_def emit_def say_def)

lemma for_each_putc_run:
  "for_each xs (\<lambda>x. console_putc (f x)) s = Done () (say (map f xs) s)"
  by (induction xs arbitrary: s) (auto simp: ret_def bnd_def console_putc_run)

lemma dec_emit_run:
  "i \<le> length buf \<Longrightarrow> dec_emit buf i count s = Done (count + i) (say (rev (take i buf)) s)"
  by (induction i arbitrary: count s)
    (auto simp: ret_def bnd_def console_putc_run take_Suc_conv_app_nth)

lemma uint32_print_run:
  "uint32_print n s = Done (length (dec (unat n))) (say (dec (unat n)) s)"
proof -
  have "0 + length (dec (unat n)) \<le> length (replicate 10 (0 :: u8))"
    using length_dec_u32 [of n] by simp
  from dec_fill_Some [OF this] show ?thesis
    by (auto simp: uint32_print_def dec_emit_run length_dec_u32)
qed

lemma int32_print_run: "int32_print n s = Done (length (sdec n)) (say (sdec n) s)"
  by (simp add: int32_print_def sdec_def bnd_def ret_def uint32_print_run console_putc_run)

lemma uint32_hex_print_run: "uint32_hex_print n s = Done 8 (say (hex8 n) s)"
  by (simp add: uint32_hex_print_def hex8_def bnd_def ret_def for_each_putc_run)

lemma str_print_run: "str_print x s = Done (length x) (say (bytes x) s)"
  by (simp add: str_print_def bytes_def bnd_def ret_def for_each_putc_run)

lemmas print_runs = uint32_print_run int32_print_run uint32_hex_print_run str_print_run
  console_putc_run

lemma put_at_store: "put_at buf k c = map_option fst (store_all [c] buf k)"
  by (simp add: put_at_def)

lemma store_all_append:
  "store_all (xs @ ys) buf k = Option.bind (store_all xs buf k) (\<lambda>(b, j). store_all ys b j)"
  by (induction xs arbitrary: buf k) (auto split: option.split)

lemma store_all_run:
  "store_all cs buf k =
     (if cs = [] \<or> k + length cs \<le> length buf
      then Some (take k buf @ cs @ drop (k + length cs) buf, k + length cs) else None)"
proof (induction cs arbitrary: buf k)
  case Nil
  then show ?case by simp
next
  case (Cons c cs)
  show ?case
  proof (cases "k < length buf")
    case True
    then show ?thesis
      by (auto simp: put_at_def Cons.IH take_Suc_update_last upd_conv_take_nth_drop add.commute)
  next
    case False
    then show ?thesis by (simp add: put_at_def)
  qed
qed

lemma dec_store_run: "i \<le> length nb \<Longrightarrow> dec_store nb i buf k = store_all (rev (take i nb)) buf k"
proof (induction i arbitrary: buf k)
  case (Suc i)
  then show ?case
    by (auto simp: take_Suc_conv_app_nth split: option.split)
qed simp

lemma uint32_sprint_run: "uint32_sprint n buf k = store_all (dec (unat n)) buf k"
proof -
  have "0 + length (dec (unat n)) \<le> length (replicate 10 (0 :: u8))"
    using length_dec_u32 [of n] by simp
  from dec_fill_Some [OF this] show ?thesis
    by (auto simp: uint32_sprint_def dec_store_run length_dec_u32)
qed

lemma int32_sprint_run: "int32_sprint n buf k = store_all (sdec n) buf k"
  by (auto simp: int32_sprint_def sdec_def uint32_sprint_run split: option.split)

section \<open>One contract for both families\<close>

text \<open>The bytes of one conversion; \<open>None\<close> for an argument of the wrong type.\<close>

definition conv_bytes :: "char \<Rightarrow> arg \<Rightarrow> u8 list option" where
  "conv_bytes d a =
     (case a of
        ArgW n \<Rightarrow> if d = CHR ''i'' \<or> d = CHR ''d'' then Some (sdec n)
                  else if d = CHR ''x'' then Some (hex8 n)
                  else if d = CHR ''u'' then Some (dec (unat n)) else None
      | ArgS x \<Rightarrow> if d = CHR ''s'' then Some (bytes x) else None)"

abbreviation convs :: "char set" where
  "convs \<equiv> {CHR ''i'', CHR ''d'', CHR ''s'', CHR ''x'', CHR ''u''}"

lemma format_conv:
  "d \<in> convs \<Longrightarrow> format (CHR ''%'' # d # f) args =
     (case args of [] \<Rightarrow> None
      | a # as \<Rightarrow> Option.bind (conv_bytes d a) (\<lambda>bs. map_option ((@) bs) (format f as)))"
  by (cases args) (auto simp: conv_bytes_def split: arg.splits)

text \<open>
  The contract a formatter offers: literal characters and conversions reach the sink in order
  through \<open>app\<close>, an unknown conversion is skipped, a trailing \<^verbatim>\<open>%\<close> is refused.
\<close>

locale formatter =
  fixes run :: "string \<Rightarrow> arg list \<Rightarrow> 'st \<Rightarrow> 'st option"
    and app :: "u8 list \<Rightarrow> 'st \<Rightarrow> 'st option"
  assumes run_nil: "run [] args st = Some st"
    and run_chr: "c \<noteq> CHR ''%'' \<Longrightarrow> run (c # f) args st = Option.bind (app [of_char c] st) (run f args)"
    and run_end: "run [CHR ''%''] args st = None"
    and run_conv: "d \<in> convs \<Longrightarrow> run (CHR ''%'' # d # f) args st =
          (case args of [] \<Rightarrow> None
           | a # as \<Rightarrow> Option.bind (conv_bytes d a) (\<lambda>bs. Option.bind (app bs st) (run f as)))"
    and run_other: "d \<notin> convs \<Longrightarrow> run (CHR ''%'' # d # f) args st = run f args st"
    and app_nil: "app [] st = Some st"
    and app_append: "app (xs @ ys) st = Option.bind (app xs st) (app ys)"
begin

lemma run_format: "run fmt args st = Option.bind (format fmt args) (\<lambda>out. app out st)"
proof (induction fmt args arbitrary: st rule: format.induct)
  case (1 args)
  then show ?case by (simp add: run_nil app_nil)
next
  case (2 c fmt args)
  have swap: "Option.bind (app xs st) (\<lambda>t. Option.bind (r :: u8 list option) (\<lambda>out. app out t))
      = Option.bind (map_option ((@) xs) r) (\<lambda>out. app out st)" for xs r
    by (cases "app xs st"; cases r) (simp_all add: app_append)
  show ?case
  proof (cases "c = CHR ''%''")
    case False
    then have "run (c # fmt) args st = Option.bind (app [of_char c] st) (run fmt args)"
      by (rule run_chr)
    also have "\<dots> = Option.bind (app [of_char c] st)
        (\<lambda>t. Option.bind (format fmt args) (\<lambda>out. app out t))"
      using "2.IH"(6) [OF False] by presburger
    also have "\<dots> = Option.bind (map_option ((@) [of_char c]) (format fmt args)) (\<lambda>out. app out st)"
      by (rule swap)
    also have "(@) [of_char c] = (#) (of_char c :: u8)"
      by auto
    finally show ?thesis using False by simp
  next
    case pct: True
    show ?thesis
    proof (cases fmt)
      case Nil
      with pct show ?thesis by (simp add: run_end)
    next
      case (Cons d fmt')
      show ?thesis
      proof (cases "d \<in> convs")
        case False
        with "2.IH"(5) [OF pct Cons] pct Cons show ?thesis by (simp add: run_other)
      next
        case True
        show ?thesis
        proof (cases args)
          case Nil
          with pct Cons True show ?thesis by (auto simp: run_conv)
        next
          case (Cons a as)
          show ?thesis
          proof (cases "conv_bytes d a")
            case None
            with True pct \<open>fmt = d # fmt'\<close> Cons show ?thesis
              by (simp add: run_conv format_conv del: format.simps)
          next
            case (Some bs)
            then have "run fmt' as = (\<lambda>t. Option.bind (format fmt' as) (\<lambda>out. app out t))"
              using 2 pct \<open>fmt = d # fmt'\<close> Cons
              by (cases a) (auto simp: conv_bytes_def fun_eq_iff split: if_splits)
            with Some True pct \<open>fmt = d # fmt'\<close> Cons show ?thesis
              by (simp add: run_conv format_conv swap del: format.simps)
          qed
        qed
      qed
    qed
  qed
qed

end


text \<open>The console family: the state is the machine, the sink is the console.\<close>

definition console_run :: "string \<Rightarrow> arg list \<Rightarrow> machine \<Rightarrow> machine option" where
  "console_run fmt args s = (case tf_printf fmt args s of Done _ t \<Rightarrow> Some t | _ \<Rightarrow> None)"

definition console_app :: "u8 list \<Rightarrow> machine \<Rightarrow> machine option" where
  "console_app bs s = Some (say bs s)"

interpretation console: formatter console_run console_app
proof unfold_locales
  fix d f args st
  assume "d \<in> convs"
  then show "console_run (CHR ''%'' # d # f) args st =
          (case args of [] \<Rightarrow> None
           | a # as \<Rightarrow> Option.bind (conv_bytes d a) (\<lambda>bs. Option.bind (console_app bs st) (console_run f as)))"
    by (cases args) (auto simp: console_run_def console_app_def conv_bytes_def bnd_def fault_def
      print_runs split: arg.splits)
qed (auto simp: console_run_def console_app_def bnd_def ret_def fault_def print_runs)

text \<open>The buffer family: the state is the buffer with the number of bytes stored.\<close>

definition buffer_run :: "string \<Rightarrow> arg list \<Rightarrow> u8 list \<times> nat \<Rightarrow> (u8 list \<times> nat) option" where
  "buffer_run fmt args = (\<lambda>(buf, count). sprintf_loop fmt args buf count)"

definition buffer_app :: "u8 list \<Rightarrow> u8 list \<times> nat \<Rightarrow> (u8 list \<times> nat) option" where
  "buffer_app bs = (\<lambda>(buf, count). store_all bs buf count)"

interpretation buffer: formatter buffer_run buffer_app
proof unfold_locales
  fix c :: char and f args and st :: "u8 list \<times> nat"
  assume "c \<noteq> CHR ''%''"
  then show "buffer_run (c # f) args st = Option.bind (buffer_app [of_char c] st) (buffer_run f args)"
    by (cases st) (simp add: buffer_run_def buffer_app_def put_at_def)
next
  fix d f args and st :: "u8 list \<times> nat"
  assume "d \<in> convs"
  then show "buffer_run (CHR ''%'' # d # f) args st =
          (case args of [] \<Rightarrow> None
           | a # as \<Rightarrow> Option.bind (conv_bytes d a) (\<lambda>bs. Option.bind (buffer_app bs st) (buffer_run f as)))"
    by (cases args; cases st)
      (auto simp: buffer_run_def buffer_app_def conv_bytes_def int32_sprint_run uint32_sprint_run
        uint32_hex_sprint_def str_sprint_def hex8_def bytes_def split: arg.splits)
qed (auto simp: buffer_run_def buffer_app_def store_all_append)

section \<open>Correctness\<close>

lemma tf_printf_outcome: "(\<exists>t. tf_printf fmt args s = Done () t) \<or> (\<exists>t. tf_printf fmt args s = Fault t)"
proof (induction fmt args arbitrary: s rule: tf_printf.induct)
  case (2 c fmt args)
  then show ?case
    by (auto simp: bnd_def ret_def fault_def print_runs split: list.splits arg.splits)
qed (simp add: ret_def)

lemma tf_printf_Some: "format fmt args = Some out \<Longrightarrow> tf_printf fmt args s = Done () (say out s)"
  using console.run_format [of fmt args s] tf_printf_outcome [of fmt args s]
  by (auto simp: console_run_def console_app_def)

lemma tf_printf_None: "format fmt args = None \<Longrightarrow> \<exists>t. tf_printf fmt args s = Fault t"
  using console.run_format [of fmt args s] tf_printf_outcome [of fmt args s]
  by (auto simp: console_run_def)

text \<open>The log macros print their level tag first.\<close>

lemma format_append_plain:
  "CHR ''%'' \<notin> set xs \<Longrightarrow> format (xs @ fmt) args = map_option ((@) (bytes xs)) (format fmt args)"
  by (cases "format fmt args"; induction xs) (auto simp: bytes_def)

lemma NOTICE_run:
  "format fmt args = Some out \<Longrightarrow> NOTICE fmt args s = Done () (say (bytes ''NOTICE:  '' @ out) s)"
  unfolding NOTICE_def by (rule tf_printf_Some) (subst format_append_plain, simp_all)

lemma ERROR_run:
  "format fmt args = Some out \<Longrightarrow> ERROR fmt args s = Done () (say (bytes ''ERROR:   '' @ out) s)"
  unfolding ERROR_def by (rule tf_printf_Some) (subst format_append_plain, simp_all)

lemma error_panic:
  assumes "format f as \<noteq> None"
  shows "\<exists>cs. seqs [ERROR f as, panic] s = Panic (say cs s)"
proof -
  obtain out where "format f as = Some out" using assms by blast
  from ERROR_run [OF this, of s] have "seqs [ERROR f as, panic] s = Panic (say (bytes ''ERROR:   '' @ out) s)"
    by (simp add: bnd_Done) (simp add: panic_def)
  then show ?thesis by blast
qed

lemma sprintf_eq:
  "sprintf buf (Some fmt) args =
     (case format fmt args of
        None \<Rightarrow> None
      | Some out \<Rightarrow>
          if length out < length buf
          then Some (out @ 0 # drop (Suc (length out)) buf, length out) else None)"
proof -
  have "sprintf_loop fmt args buf 0 = Option.bind (format fmt args) (\<lambda>out. store_all out buf 0)"
    using buffer.run_format [of fmt args "(buf, 0)"] by (simp add: buffer_run_def buffer_app_def)
  then show ?thesis
    by (cases "format fmt args")
      (auto simp: sprintf_def store_all_run put_at_def list_update_append upd_conv_take_nth_drop
        split: if_splits)
qed

text \<open>Reading digits back.\<close>

definition undec :: "u8 list \<Rightarrow> nat" where
  "undec = foldl (\<lambda>n c. 10 * n + unat (c - 48)) 0"

definition unhex1 :: "u8 \<Rightarrow> nat" where
  "unhex1 c = (if 97 \<le> c then unat (c - 97) + 10 else unat (c - 48))"

definition unhex :: "u8 list \<Rightarrow> u32" where
  "unhex cs = of_nat (foldl (\<lambda>n c. 16 * n + unhex1 c) 0 cs)"

lemma undec_snoc: "undec (cs @ [c]) = 10 * undec cs + unat (c - 48)"
  by (simp add: undec_def)

lemma undec_dec: "undec (dec n) = n"
proof (induction n rule: dec.induct)
  case (1 n)
  have d: "unat (of_nat (n mod 10) :: u8) = n mod 10"
    by (subst unat_of_nat) (simp add: take_bit_eq_mod)
  show ?case
  proof (cases "n < 10")
    case True
    then have "unat (of_nat n :: u8) = n" using d by simp
    with True show ?thesis by (subst dec.simps) (simp add: undec_def)
  next
    case False
    with 1 d show ?thesis by (subst dec.simps) (simp add: undec_snoc)
  qed
qed

lemma unat_of_nat_self: "of_nat (unat (c :: u8)) = c"
  by simp

lemma unhex1_nibble:
  assumes "c < (16 :: u8)"
  shows "unhex1 (if 10 \<le> c then c + (97 - 10) else c + 48) = unat c"
proof -
  have "unat c < 16" using assms by (simp add: word_less_nat_alt)
  then have mem: "unat c \<in> set [0..<16]" by simp
  have all: "\<forall>k \<in> set [0..<16]. unhex1 (if 10 \<le> (of_nat k :: u8) then of_nat k + (97 - 10) else of_nat k + 48) = k"
    by (simp add: upt_rec [of _ 16] unhex1_def word_le_nat_alt)
  show ?thesis
    using bspec [OF all mem] by (simp only: unat_of_nat_self)
qed

lemma unhex1_hex_digit: "unhex1 (hex_digit n i) = unat n div 2 ^ ((7 - i) * 4) mod 16"
proof -
  let ?v = "drop_bit ((7 - i) * 4) n AND 15" and ?c = "ucast (drop_bit ((7 - i) * 4) n AND 15) :: u8"
  have v: "unat ?v = unat n div 2 ^ ((7 - i) * 4) mod 16"
  proof -
    have "unat ?v = unat (drop_bit ((7 - i) * 4) n) mod 2 ^ 4"
      using unat_and_mask [of "drop_bit ((7 - i) * 4) n" 4] by (simp add: mask_eq_exp_minus_1)
    also have "unat (drop_bit ((7 - i) * 4) n) = unat n div 2 ^ ((7 - i) * 4)"
      by (rule unat_drop_bit)
    finally show ?thesis by simp
  qed
  then have "unat ?c = unat ?v"
    by (simp only: unsigned_eq_of_nat) (simp add: unat_of_nat take_bit_eq_mod mod_less)
  moreover from this v have "?c < 16"
    by (simp add: word_less_nat_alt)
  ultimately show ?thesis
    using unhex1_nibble [of ?c] v by (simp only: hex_digit_def Let_def)
qed

lemma nibble_join: "16 * (m div 2 ^ (k + 4)) + m div 2 ^ k mod 16 = (m :: nat) div 2 ^ k"
proof -
  have "m div 2 ^ (k + 4) = m div 2 ^ k div 16"
    by (simp add: power_add div_mult2_eq)
  then show ?thesis by simp
qed

lemma unhex_hex8: "unhex (hex8 n) = n"
proof -
  let ?m = "unat n"
  have "?m < 2 ^ 32" using unsigned_less [of n] by simp
  then have top: "?m div 2 ^ 28 mod 16 = ?m div 2 ^ 28" by simp
  have "foldl (\<lambda>k c. 16 * k + unhex1 c) 0 (hex8 n) = ?m"
    using top nibble_join [of ?m 24] nibble_join [of ?m 20] nibble_join [of ?m 16]
      nibble_join [of ?m 12] nibble_join [of ?m 8] nibble_join [of ?m 4] nibble_join [of ?m 0]
    by (simp add: hex8_def upt_rec [of _ 8] unhex1_hex_digit)
  then show ?thesis by (simp add: unhex_def)
qed



definition unsdec :: "u8 list \<Rightarrow> u32" where
  "unsdec cs = (case cs of c # ds \<Rightarrow> if c = of_char CHR ''-'' then - of_nat (undec ds) else of_nat (undec cs)
                | [] \<Rightarrow> 0)"

lemma dec_no_minus: "hd (dec n) \<noteq> of_char CHR ''-''"
proof (induction n rule: dec.induct)
  case (1 n)
  show ?case
  proof (cases "n < 10")
    case True
    then have "n \<in> set [0..<10]" by simp
    moreover have "\<forall>k \<in> set [0..<10]. (48 + of_nat k :: u8) \<noteq> of_char CHR ''-''"
      by (simp add: upt_rec [of _ 10])
    ultimately have "(48 + of_nat n :: u8) \<noteq> of_char CHR ''-''" by blast
    with True show ?thesis by (subst dec.simps) simp
  next
    case False
    with 1 show ?thesis by (subst dec.simps) simp
  qed
qed

lemma unsdec_sdec: "unsdec (sdec n) = n"
proof (cases "n <s 0")
  case True
  then show ?thesis by (simp add: sdec_def unsdec_def undec_dec)
next
  case False
  obtain c ds where d: "dec (unat n) = c # ds"
    using dec_nonempty [of "unat n"] by (cases "dec (unat n)") auto
  moreover from this have "c \<noteq> of_char CHR ''-''"
    using dec_no_minus [of "unat n"] by simp
  moreover have "undec (c # ds) = unat n"
    using undec_dec [of "unat n"] d by simp
  ultimately show ?thesis
    using False by (simp add: sdec_def unsdec_def)
qed


end
