(* ===== verification/Build.thy ===== *)
theory Build
  imports Printf
begin

text \<open>
  The build options of \<^verbatim>\<open>CortexR7_Loader/Makefile\<close> that select code by \<^verbatim>\<open>#if\<close>, as a record
  that the model functions take as their first argument, and the product and mode constants of
  \<^verbatim>\<open>include/rcar_def.h\<close>. Assertions are compiled out (\<^verbatim>\<open>ENABLE_ASSERTIONS\<close> is never defined).
\<close>

datatype lsi = LSI_H3 | LSI_M3 | LSI_M3N | LSI_E3 | LSI_H3N | LSI_AUTO
datatype main_cpu = MAIN_CPU_NONE | MAIN_CPU_CA57 | MAIN_CPU_CA53
datatype ecc_opt = DRAM_SRAM_ECC_DISABLE | SINGLE_ECC_OPT_ENABLE | DUAL_ECC_OPT_ENABLE
datatype lsi_cut = CUT_COMPAT | LSI_CUT_10 | LSI_CUT_11 | LSI_CUT_13 | LSI_CUT_20 | LSI_CUT_30
datatype dram_split = SPLIT_LINEAR | SPLIT_4CH | SPLIT_2CH | SPLIT_AUTO

text \<open>
  \<^verbatim>\<open>LSI_CUT\<close> names one version of the chip; without it (\<open>CUT_COMPAT\<close>,
  \<^verbatim>\<open>RCAR_LSI_CUT_COMPAT\<close>) the version is read at run time. Only the pin and bus routines take it.
\<close>

record build =
  b_lsi :: lsi
  b_secure_boot :: bool
  b_kick :: main_cpu
  b_ecc :: ecc_opt
  b_split :: dram_split
  b_memconf_4gb :: bool
  b_ns_master :: bool
  b_lifec :: bool
  b_android :: bool

text \<open>The defaults of the Makefile for \<^verbatim>\<open>LSI=M3N\<close>, the chip of the board.\<close>

definition build_m3n :: build where
  "build_m3n =
     \<lparr>b_lsi = LSI_M3N, b_secure_boot = True, b_kick = MAIN_CPU_NONE, b_ecc = DRAM_SRAM_ECC_DISABLE,
      b_split = SPLIT_LINEAR, b_memconf_4gb = False, b_ns_master = True, b_lifec = False,
      b_android = False\<rparr>"

abbreviation RCAR_PRR :: u32 where "RCAR_PRR \<equiv> 0xFFF00044"
abbreviation RCAR_PRODUCT_MASK :: u32 where "RCAR_PRODUCT_MASK \<equiv> 0x00007F00"
abbreviation RCAR_CUT_MASK :: u32 where "RCAR_CUT_MASK \<equiv> 0x000000FF"
abbreviation RCAR_PRODUCT_H3 :: u32 where "RCAR_PRODUCT_H3 \<equiv> 0x00004F00"
abbreviation RCAR_PRODUCT_M3 :: u32 where "RCAR_PRODUCT_M3 \<equiv> 0x00005200"
abbreviation RCAR_PRODUCT_M3N :: u32 where "RCAR_PRODUCT_M3N \<equiv> 0x00005500"
abbreviation RCAR_PRODUCT_E3 :: u32 where "RCAR_PRODUCT_E3 \<equiv> 0x00005700"
abbreviation RCAR_CUT_VER10 :: u32 where "RCAR_CUT_VER10 \<equiv> 0x00000000"
abbreviation RCAR_CUT_VER11 :: u32 where "RCAR_CUT_VER11 \<equiv> 0x00000001"
abbreviation RCAR_CUT_VER20 :: u32 where "RCAR_CUT_VER20 \<equiv> 0x00000010"
abbreviation RCAR_CUT_VER30 :: u32 where "RCAR_CUT_VER30 \<equiv> 0x00000020"
abbreviation RCAR_PRODUCT_H3_CUT20 :: u32 where "RCAR_PRODUCT_H3_CUT20 \<equiv> 0x00004F10"
abbreviation RCAR_PRODUCT_M3N_CUT10 :: u32 where "RCAR_PRODUCT_M3N_CUT10 \<equiv> 0x00005500"
abbreviation PRR_PRODUCT_10 :: u32 where "PRR_PRODUCT_10 \<equiv> 0x00"
abbreviation PRR_PRODUCT_11 :: u32 where "PRR_PRODUCT_11 \<equiv> 0x01"
abbreviation PRR_PRODUCT_20 :: u32 where "PRR_PRODUCT_20 \<equiv> 0x10"
abbreviation PRR_PRODUCT_21 :: u32 where "PRR_PRODUCT_21 \<equiv> 0x11"
abbreviation RCAR_MODEMR :: u32 where "RCAR_MODEMR \<equiv> 0xE6160060"
abbreviation RST_MODEMR :: u32 where "RST_MODEMR \<equiv> 0xE6160060"
abbreviation AXI_ADSPLCR0 :: u32 where "AXI_ADSPLCR0 \<equiv> 0xE6784008"
abbreviation AXI_ADSPLCR1 :: u32 where "AXI_ADSPLCR1 \<equiv> 0xE678400C"
abbreviation AXI_ADSPLCR3 :: u32 where "AXI_ADSPLCR3 \<equiv> 0xE6784014"
abbreviation GICD_BASE :: u32 where "GICD_BASE \<equiv> 0xF1110000"
abbreviation GICC_BASE :: u32 where "GICC_BASE \<equiv> 0xF1120000"
abbreviation ARM_IRQ_WDT :: u32 where "ARM_IRQ_WDT \<equiv> 173"

text \<open>The products that a build runs on.\<close>

definition product_of :: "lsi \<Rightarrow> u32 set" where
  "product_of l =
     (case l of LSI_H3 \<Rightarrow> {RCAR_PRODUCT_H3} | LSI_H3N \<Rightarrow> {RCAR_PRODUCT_H3} | LSI_M3 \<Rightarrow> {RCAR_PRODUCT_M3}
      | LSI_M3N \<Rightarrow> {RCAR_PRODUCT_M3N} | LSI_E3 \<Rightarrow> {RCAR_PRODUCT_E3}
      | LSI_AUTO \<Rightarrow> {RCAR_PRODUCT_H3, RCAR_PRODUCT_M3, RCAR_PRODUCT_M3N})"

lemma chip_word: "prr AND (RCAR_PRODUCT_MASK OR RCAR_CUT_MASK) = p OR c \<longleftrightarrow>
    prr AND RCAR_PRODUCT_MASK = p \<and> prr AND RCAR_CUT_MASK = c"
  if "p AND RCAR_PRODUCT_MASK = p" and "c AND RCAR_CUT_MASK = c" for prr p c :: u32
proof
  assume eq: "prr AND (RCAR_PRODUCT_MASK OR RCAR_CUT_MASK) = p OR c"
  have "prr AND RCAR_PRODUCT_MASK = (prr AND (RCAR_PRODUCT_MASK OR RCAR_CUT_MASK)) AND RCAR_PRODUCT_MASK"
    "prr AND RCAR_CUT_MASK = (prr AND (RCAR_PRODUCT_MASK OR RCAR_CUT_MASK)) AND RCAR_CUT_MASK"
    by (simp_all add: and.assoc)
  moreover have "c AND RCAR_PRODUCT_MASK = 0"
    using that(2) and.assoc [of c RCAR_CUT_MASK RCAR_PRODUCT_MASK] by simp
  moreover have "p AND RCAR_CUT_MASK = 0"
    using that(1) and.assoc [of p RCAR_PRODUCT_MASK RCAR_CUT_MASK] by simp
  moreover have "(p OR c) AND m = (p AND m) OR (c AND m)" for m
    by (simp add: bit.conj_disj_distrib2)
  ultimately show "prr AND RCAR_PRODUCT_MASK = p \<and> prr AND RCAR_CUT_MASK = c"
    using eq that by (metis or.right_neutral or.left_neutral)
next
  assume "prr AND RCAR_PRODUCT_MASK = p \<and> prr AND RCAR_CUT_MASK = c"
  then show "prr AND (RCAR_PRODUCT_MASK OR RCAR_CUT_MASK) = p OR c"
    by (metis bit.conj_disj_distrib)
qed

section \<open>Registers that hold what was written\<close>

text \<open>
  Many registers behave as memory: a read gives the last value written, or the reset value.
  \<open>stored\<close> is that value in a history; \<open>mem_like d init A\<close> says the device behaves so on the
  addresses \<open>A\<close> (and arbitrarily elsewhere).
\<close>

fun stored :: "(u32 \<Rightarrow> u32) \<Rightarrow> access list \<Rightarrow> u32 \<Rightarrow> u32" where
  "stored init [] a = init a"
| "stored init (Wr32 b v # t) a = (if a = b then v else stored init t a)"
| "stored init (_ # t) a = stored init t a"

definition mem_like :: "device \<Rightarrow> (u32 \<Rightarrow> u32) \<Rightarrow> u32 set \<Rightarrow> bool" where
  "mem_like d init A \<longleftrightarrow> (\<forall>t. \<forall>a \<in> A. d_rd32 d t a = stored init t a)"

text \<open>A concrete such device: every register is memory; the ROM returns success and state 0.\<close>

definition ram_device :: "(u32 \<Rightarrow> u32) \<Rightarrow> device" where
  "ram_device init =
     \<lparr>d_rd8 = (\<lambda>t a. ucast (stored init t a)), d_rd16 = (\<lambda>t a. ucast (stored init t a)),
      d_rd32 = stored init, d_rd64 = (\<lambda>t a. ucast (stored init t a)),
      d_rom = (\<lambda>_ _ _. (0, 0))\<rparr>"

lemma mem_like_ram [simp]: "mem_like (ram_device init) init A"
  by (simp add: mem_like_def ram_device_def)

lemma ram_device_sel [simp]:
  "d_rd32 (ram_device init) = stored init"
  "d_rd8 (ram_device init) t a = ucast (stored init t a)"
  "d_rom (ram_device init) t e args = (0, 0)"
  by (simp_all add: ram_device_def)

lemma mem_like_read: "mem_like d init A \<Longrightarrow> a \<in> A \<Longrightarrow> d_rd32 d t a = stored init t a"
  by (simp add: mem_like_def)

lemma stored_Putc [simp]: "stored init (map Putc cs @ t) = stored init t"
  by (induction cs) (simp_all add: fun_eq_iff)

lemma stored_rev_Putc [simp]: "stored init (rev (map Putc cs) @ t) = stored init t"
  using stored_Putc [of init "rev cs"] by (simp add: rev_map)

text \<open>A device that answers every read with the same value.\<close>

definition const_device :: "u32 \<Rightarrow> device" where
  "const_device v =
     \<lparr>d_rd8 = \<lambda>_ _. ucast v, d_rd16 = \<lambda>_ _. ucast v, d_rd32 = \<lambda>_ _. v, d_rd64 = \<lambda>_ _. ucast v,
      d_rom = \<lambda>_ _ _. (0, 0)\<rparr>"

section \<open>Programs as memory transformers\<close>

text \<open>
  Register semantics in general: \<open>upd a v m\<close> is what writing \<open>v\<close> to \<open>a\<close> does to the register
  file \<open>m\<close> (a set-enable register or-s its bits in, plain memory replaces).
\<close>

fun regs :: "(u32 \<Rightarrow> u32 \<Rightarrow> (u32 \<Rightarrow> u32) \<Rightarrow> (u32 \<Rightarrow> u32)) \<Rightarrow> (u32 \<Rightarrow> u32) \<Rightarrow> access list \<Rightarrow> (u32 \<Rightarrow> u32)" where
  "regs upd init [] = init"
| "regs upd init (Wr32 a v # t) = upd a v (regs upd init t)"
| "regs upd init (_ # t) = regs upd init t"

lemma regs_plain: "regs (\<lambda>a v m. m(a := v)) init t = stored init t"
  by (induction t rule: writes.induct) (simp_all add: fun_eq_iff)

definition behaves :: "(u32 \<Rightarrow> u32 \<Rightarrow> (u32 \<Rightarrow> u32) \<Rightarrow> (u32 \<Rightarrow> u32)) \<Rightarrow> (u32 \<Rightarrow> u32) \<Rightarrow> device \<Rightarrow> u32 set \<Rightarrow> bool" where
  "behaves upd init d A \<longleftrightarrow> (\<forall>t. \<forall>a \<in> A. d_rd32 d t a = regs upd init t a)"

text \<open>
  \<open>effect upd init e p f\<close>: started in the environment \<open>e\<close> with any history, \<open>p\<close> returns, changes
  nothing but the history, and acts as \<open>f\<close> on the register file.
\<close>

definition effect ::
  "(u32 \<Rightarrow> u32 \<Rightarrow> (u32 \<Rightarrow> u32) \<Rightarrow> (u32 \<Rightarrow> u32)) \<Rightarrow> (u32 \<Rightarrow> u32) \<Rightarrow> machine \<Rightarrow> 'a prog
     \<Rightarrow> ((u32 \<Rightarrow> u32) \<Rightarrow> 'a \<times> (u32 \<Rightarrow> u32)) \<Rightarrow> bool" where
  "effect upd init e p f \<longleftrightarrow>
     (\<forall>tr. \<exists>xs. p (e\<lparr>m_tr := tr\<rparr>) = Done (fst (f (regs upd init tr))) (e\<lparr>m_tr := xs @ tr\<rparr>) \<and>
        regs upd init (xs @ tr) = snd (f (regs upd init tr)))"

named_theorems effects

lemma effect_ret [effects]: "effect upd init e (ret x) (\<lambda>m. (x, m))"
  unfolding effect_def by (intro allI exI [of _ "[]"]) (simp add: ret_def)

lemma effect_bnd [effects]:
  assumes "effect upd init e p f" and "\<And>x. effect upd init e (q x) (g x)"
  shows "effect upd init e (bnd p q) (\<lambda>m. case f m of (x, m') \<Rightarrow> g x m')"
  unfolding effect_def
proof
  fix tr
  obtain xs where 1: "p (e\<lparr>m_tr := tr\<rparr>) = Done (fst (f (regs upd init tr))) (e\<lparr>m_tr := xs @ tr\<rparr>)"
      "regs upd init (xs @ tr) = snd (f (regs upd init tr))"
    using assms(1) unfolding effect_def by blast
  let ?x = "fst (f (regs upd init tr))"
  obtain ys where 2: "q ?x (e\<lparr>m_tr := xs @ tr\<rparr>) = Done (fst (g ?x (regs upd init (xs @ tr)))) (e\<lparr>m_tr := ys @ xs @ tr\<rparr>)"
      "regs upd init (ys @ xs @ tr) = snd (g ?x (regs upd init (xs @ tr)))"
    using assms(2) unfolding effect_def by blast
  from 1 2 show "\<exists>xs. bnd p q (e\<lparr>m_tr := tr\<rparr>)
      = Done (fst (case f (regs upd init tr) of (x, m') \<Rightarrow> g x m')) (e\<lparr>m_tr := xs @ tr\<rparr>) \<and>
    regs upd init (xs @ tr) = snd (case f (regs upd init tr) of (x, m') \<Rightarrow> g x m')"
    by (intro exI [of _ "ys @ xs"]) (simp add: bnd_def split_beta)
qed

lemma effect_write [effects]: "effect upd init e (mmio_write_32 a v) (\<lambda>m. ((), upd a v m))"
  unfolding effect_def by (intro allI exI [of _ "[Wr32 a v]"]) (simp add: run_simps)

lemma effect_read_known:
  assumes "behaves upd init (m_dev e) A" and "a \<in> A"
  shows "effect upd init e (mmio_read_32 a) (\<lambda>m. (m a, m))"
  unfolding effect_def
proof
  fix tr
  show "\<exists>xs. mmio_read_32 a (e\<lparr>m_tr := tr\<rparr>) = Done (fst (regs upd init tr a, regs upd init tr)) (e\<lparr>m_tr := xs @ tr\<rparr>) \<and>
      regs upd init (xs @ tr) = snd (regs upd init tr a, regs upd init tr)"
    by (rule exI [of _ "[Rd32 a (regs upd init tr a)]"]) (use assms in \<open>simp add: run_simps behaves_def\<close>)
qed

lemma effect_gets [effects]:
  assumes "\<And>tr. h (e\<lparr>m_tr := tr\<rparr>) = x"
  shows "effect upd init e (gets h) (\<lambda>m. (x, m))"
  unfolding effect_def using assms by (intro allI exI [of _ "[]"]) (simp add: run_simps)

lemma effect_if:
  assumes "c \<Longrightarrow> effect upd init e p f" and "\<not> c \<Longrightarrow> effect upd init e q g"
  shows "effect upd init e (if c then p else q) (\<lambda>m. if c then f m else g m)"
  using assms by simp

lemma effect_whenp [effects]:
  assumes "effect upd init e p (\<lambda>m. ((), f m))"
  shows "effect upd init e (whenp c p) (\<lambda>m. ((), if c then f m else m))"
  using assms effect_ret [of upd init e "()"] by (cases c) (simp_all add: whenp_def)

lemma effect_for_each:
  assumes "\<And>x. x \<in> set xs \<Longrightarrow> effect upd init e (b x) (\<lambda>m. ((), f x m))"
  shows "effect upd init e (for_each xs b) (\<lambda>m. ((), fold f xs m))"
  using assms
proof (induction xs)
  case Nil
  then show ?case using effect_ret [of upd init e "()"] by simp
next
  case (Cons x xs)
  have "effect upd init e (bnd (b x) (\<lambda>_. for_each xs b))
      (\<lambda>m. case ((), f x m) of (_, m') \<Rightarrow> ((), fold f xs m'))"
    by (rule effect_bnd) (use Cons in auto)
  then show ?case by simp
qed

lemma effect_seq:
  assumes "effect upd init e p (\<lambda>m. ((), f m))" and "effect upd init e (seqs ps) (\<lambda>m. ((), g m))"
  shows "effect upd init e (seqs (p # ps)) (\<lambda>m. ((), g (f m)))"
  using effect_bnd [OF assms(1), of "\<lambda>_. seqs ps" "\<lambda>_ m. ((), g m)"] assms(2) by simp

lemma effect_skip: "effect upd init e (seqs []) (\<lambda>m. ((), m))"
  using effect_ret [of upd init e "()"] by simp

lemma effect_run:
  assumes "effect upd init e p f" and "e = s\<lparr>m_tr := []\<rparr>"
  shows "\<exists>xs. p s = Done (fst (f (regs upd init (m_tr s)))) (grown xs s) \<and>
     regs upd init (xs @ m_tr s) = snd (f (regs upd init (m_tr s)))"
  using assms(1) [unfolded effect_def, rule_format, of "m_tr s"] assms(2) by simp

end
