(* ===== verification/Cpg.thy ===== *)
theory Cpg
  imports Build
begin

text \<open>
  The clock pulse generator driver, \<^verbatim>\<open>CortexR7_Loader/loader/cpg_init.c\<close>: a CPG register is
  writable only right after its complement was written to \<^verbatim>\<open>CPGWPR\<close>; \<open>cpg_write\<close> does
  both writes, and every other function goes through it.
\<close>

abbreviation CPG_CPGWPR :: u32 where "CPG_CPGWPR \<equiv> 0xE6150900"
abbreviation CPG_CPGWPCR :: u32 where "CPG_CPGWPCR \<equiv> 0xE6150904"
abbreviation CPG_RMSTPCR0 :: u32 where "CPG_RMSTPCR0 \<equiv> 0xE6150110"
abbreviation CPG_MSTPSR0 :: u32 where "CPG_MSTPSR0 \<equiv> 0xE6150030"
abbreviation CPG_RMSTPCR9 :: u32 where "CPG_RMSTPCR9 \<equiv> 0xE6150984"
abbreviation CPG_MSTPSR9 :: u32 where "CPG_MSTPSR9 \<equiv> 0xE61509A4"

abbreviation RMSTPCR0 :: u32 where "RMSTPCR0 \<equiv> 0xE6150110"
abbreviation RMSTPCR1 :: u32 where "RMSTPCR1 \<equiv> 0xE6150114"
abbreviation RMSTPCR2 :: u32 where "RMSTPCR2 \<equiv> 0xE6150118"
abbreviation RMSTPCR3 :: u32 where "RMSTPCR3 \<equiv> 0xE615011C"
abbreviation RMSTPCR4 :: u32 where "RMSTPCR4 \<equiv> 0xE6150120"
abbreviation RMSTPCR5 :: u32 where "RMSTPCR5 \<equiv> 0xE6150124"
abbreviation RMSTPCR6 :: u32 where "RMSTPCR6 \<equiv> 0xE6150128"
abbreviation RMSTPCR7 :: u32 where "RMSTPCR7 \<equiv> 0xE615012C"
abbreviation RMSTPCR8 :: u32 where "RMSTPCR8 \<equiv> 0xE6150980"
abbreviation RMSTPCR9 :: u32 where "RMSTPCR9 \<equiv> 0xE6150984"
abbreviation RMSTPCR10 :: u32 where "RMSTPCR10 \<equiv> 0xE6150988"
abbreviation RMSTPCR11 :: u32 where "RMSTPCR11 \<equiv> 0xE615098C"

definition cpg_write :: "u32 \<Rightarrow> u32 \<Rightarrow> unit prog" where
  "cpg_write regadr regval =
     seqs [mmio_write_32 CPG_CPGWPR (NOT regval), mmio_write_32 regadr regval]"

definition realtime_cpg_init_h3 :: "unit prog" where
  "realtime_cpg_init_h3 =
     bnd (mmio_read_32 RCAR_PRR) (\<lambda>v.
     (let prr = v AND RCAR_CUT_MASK in
      seqs
       [if prr = RCAR_CUT_VER10 \<or> prr = RCAR_CUT_VER11
          then cpg_write RMSTPCR0 0x00000000 else cpg_write RMSTPCR0 0x00010000,
        cpg_write RMSTPCR1 0xFFFFFFFF,
        cpg_write RMSTPCR2 0x040E0FDC,
        cpg_write RMSTPCR3 0xFFFFFFDF,
        cpg_write RMSTPCR4 0x80000004,
        cpg_write RMSTPCR5 0xC3FFFFFF,
        cpg_write RMSTPCR6 0xFFFFFFFF,
        cpg_write RMSTPCR7 0xFFFFFFFF,
        if prr = RCAR_CUT_VER10 \<or> prr = RCAR_CUT_VER11
          then cpg_write RMSTPCR8 0x01F1FFF4 else cpg_write RMSTPCR8 0x01F1FFF7,
        cpg_write RMSTPCR9 0xFFFFFFFF,
        cpg_write RMSTPCR10 0xFFFEFFE0,
        cpg_write RMSTPCR11 0x000000B7]))"

definition realtime_cpg_init_m3 :: "unit prog" where
  "realtime_cpg_init_m3 =
     seqs
       [cpg_write RMSTPCR0 0x00000000,
        cpg_write RMSTPCR1 0xFFFFFFFF,
        cpg_write RMSTPCR2 0x040E0FDC,
        cpg_write RMSTPCR3 0xFFFFFFDF,
        cpg_write RMSTPCR4 0x80000004,
        cpg_write RMSTPCR5 0xC3FFFFFF,
        cpg_write RMSTPCR6 0xFFFFFFFF,
        cpg_write RMSTPCR7 0xFFFFFFFF,
        cpg_write RMSTPCR8 0x01F1FFF7,
        cpg_write RMSTPCR9 0xFFFFFFFF,
        cpg_write RMSTPCR10 0xFFFEFFE0,
        cpg_write RMSTPCR11 0x000000B7]"

definition realtime_cpg_init_m3n :: "unit prog" where
  "realtime_cpg_init_m3n =
     seqs
       [cpg_write RMSTPCR0 0x00010000,
        cpg_write RMSTPCR1 0xFFFFFFFF,
        cpg_write RMSTPCR2 0x040E0FDC,
        cpg_write RMSTPCR3 0xFFFFFFDF,
        cpg_write RMSTPCR4 0x80000004,
        cpg_write RMSTPCR5 0xC3FFFFFF,
        cpg_write RMSTPCR6 0xFFFFFFFF,
        cpg_write RMSTPCR7 0xFFFFFFFF,
        cpg_write RMSTPCR8 0x00F1FFF7,
        cpg_write RMSTPCR9 0xFFFFFFFF,
        cpg_write RMSTPCR10 0xFFFFFFE0,
        cpg_write RMSTPCR11 0x000000B7]"

definition realtime_cpg_init_e3 :: "unit prog" where
  "realtime_cpg_init_e3 =
     seqs
       [cpg_write RMSTPCR0 0x00010000,
        cpg_write RMSTPCR1 0xFFFFFFFF,
        cpg_write RMSTPCR2 0x000E0FDC,
        cpg_write RMSTPCR3 0xFFFFFFDF,
        cpg_write RMSTPCR4 0x80000004,
        cpg_write RMSTPCR5 0xC3FFFFFF,
        cpg_write RMSTPCR6 0xFFFFFFFF,
        cpg_write RMSTPCR7 0xFFFFFFFF,
        cpg_write RMSTPCR8 0x00F1FFF7,
        cpg_write RMSTPCR9 0xFFFFFFDF,
        cpg_write RMSTPCR10 0xFFFFFFE8,
        cpg_write RMSTPCR11 0x000000B7]"

definition cpg_init :: "build \<Rightarrow> unit prog" where
  "cpg_init b =
     (case b_lsi b of
        LSI_AUTO \<Rightarrow>
          bnd (mmio_read_32 RCAR_PRR) (\<lambda>v.
          (let prr = v AND RCAR_PRODUCT_MASK in
           if prr = RCAR_PRODUCT_H3 then realtime_cpg_init_h3
           else if prr = RCAR_PRODUCT_M3 then realtime_cpg_init_m3
           else if prr = RCAR_PRODUCT_M3N then realtime_cpg_init_m3n
           else seqs
             [ERROR (''LSI Product ID(PRR=0x%x) CPG'' @ [CHR 0x0A]) [ArgW prr],
              ERROR (''initialize not supported.'' @ [CHR 0x0A]) [],
              panic]))
      | LSI_H3 \<Rightarrow> realtime_cpg_init_h3
      | LSI_H3N \<Rightarrow> realtime_cpg_init_h3
      | LSI_M3 \<Rightarrow> realtime_cpg_init_m3
      | LSI_M3N \<Rightarrow> realtime_cpg_init_m3n
      | LSI_E3 \<Rightarrow> realtime_cpg_init_e3)"

text \<open>
  \<open>mstpcr_write\<close> clears the module-stop bit and waits until the status register shows the
  module running. The C loop tests after the read, so it is the polling loop of \<open>Machine\<close>.
\<close>

definition mstpcr_write :: "u32 \<Rightarrow> u32 \<Rightarrow> u32 \<Rightarrow> unit prog" where
  "mstpcr_write mstpcr mstpsr target_bit =
     bnd (mmio_read_32 mstpcr) (\<lambda>reg.
     bnd (cpg_write mstpcr (reg AND NOT target_bit)) (\<lambda>_.
     poll_32 mstpsr (\<lambda>v. v AND target_bit \<noteq> 0)))"

section \<open>Every CPG write is unlocked\<close>

text \<open>
  \<open>unlocked ws\<close>: the writes come in pairs, the complement of the value to \<^verbatim>\<open>CPGWPR\<close> and then
  the value to its register.
\<close>

fun unlocked :: "(u32 \<times> u32) list \<Rightarrow> bool" where
  "unlocked [] \<longleftrightarrow> True"
| "unlocked [w] \<longleftrightarrow> False"
| "unlocked ((a, k) # (b, v) # ws) \<longleftrightarrow> a = CPG_CPGWPR \<and> k = NOT v \<and> unlocked ws"

lemma unlocked_append: "unlocked xs \<Longrightarrow> unlocked (xs @ ys) \<longleftrightarrow> unlocked ys"
  by (induction xs rule: unlocked.induct) auto

definition cpg_pairs :: "(u32 \<times> u32) list \<Rightarrow> (u32 \<times> u32) list" where
  "cpg_pairs tbl = concat (map (\<lambda>(a, v). [(CPG_CPGWPR, NOT v), (a, v)]) tbl)"

lemma unlocked_pairs [simp]: "unlocked (cpg_pairs tbl)"
  by (induction tbl) (auto simp: cpg_pairs_def)

lemma cpg_write_run:
  "cpg_write a v s = Done () (s\<lparr>m_tr := Wr32 a v # Wr32 CPG_CPGWPR (NOT v) # m_tr s\<rparr>)"
  by (simp add: cpg_write_def run_simps)

lemma cpg_writes_run:
  "seqs (map (\<lambda>(a, v). cpg_write a v) tbl) s =
     Done () (s\<lparr>m_tr := map (\<lambda>(a, v). Wr32 a v) (rev (cpg_pairs tbl)) @ m_tr s\<rparr>)"
proof (induction tbl arbitrary: s)
  case (Cons x tbl)
  then show ?case
    by (cases x) (simp add: bnd_def cpg_write_run cpg_pairs_def)
qed (simp add: ret_def cpg_pairs_def)

text \<open>The register tables of the four chips.\<close>

definition cpg_tbl :: "u32 \<Rightarrow> u32 \<Rightarrow> u32 \<Rightarrow> u32 \<Rightarrow> u32 \<Rightarrow> (u32 \<times> u32) list" where
  "cpg_tbl r0 r2 r8 r9 r10 =
     [(RMSTPCR0, r0), (RMSTPCR1, 0xFFFFFFFF), (RMSTPCR2, r2), (RMSTPCR3, 0xFFFFFFDF),
      (RMSTPCR4, 0x80000004), (RMSTPCR5, 0xC3FFFFFF), (RMSTPCR6, 0xFFFFFFFF),
      (RMSTPCR7, 0xFFFFFFFF), (RMSTPCR8, r8), (RMSTPCR9, r9), (RMSTPCR10, r10), (RMSTPCR11, 0x000000B7)]"

lemma cpg_init_m3_tbl:
  "realtime_cpg_init_m3 = seqs (map (\<lambda>(a, v). cpg_write a v) (cpg_tbl 0 0x040E0FDC 0x01F1FFF7 0xFFFFFFFF 0xFFFEFFE0))"
  by (simp only: realtime_cpg_init_m3_def cpg_tbl_def list.map prod.case)

lemma cpg_init_m3n_tbl:
  "realtime_cpg_init_m3n = seqs (map (\<lambda>(a, v). cpg_write a v) (cpg_tbl 0x00010000 0x040E0FDC 0x00F1FFF7 0xFFFFFFFF 0xFFFFFFE0))"
  by (simp only: realtime_cpg_init_m3n_def cpg_tbl_def list.map prod.case)

lemma cpg_init_e3_tbl:
  "realtime_cpg_init_e3 = seqs (map (\<lambda>(a, v). cpg_write a v) (cpg_tbl 0x00010000 0x000E0FDC 0x00F1FFF7 0xFFFFFFDF 0xFFFFFFE8))"
  by (simp only: realtime_cpg_init_e3_def cpg_tbl_def list.map prod.case)

lemma cpg_init_h3_tbl:
  "realtime_cpg_init_h3 = bnd (mmio_read_32 RCAR_PRR) (\<lambda>v.
     if v AND RCAR_CUT_MASK = RCAR_CUT_VER10 \<or> v AND RCAR_CUT_MASK = RCAR_CUT_VER11
     then seqs (map (\<lambda>(a, v). cpg_write a v) (cpg_tbl 0 0x040E0FDC 0x01F1FFF4 0xFFFFFFFF 0xFFFEFFE0))
     else seqs (map (\<lambda>(a, v). cpg_write a v) (cpg_tbl 0x00010000 0x040E0FDC 0x01F1FFF7 0xFFFFFFFF 0xFFFEFFE0)))"
  unfolding realtime_cpg_init_h3_def Let_def cpg_tbl_def list.map prod.case
  by (rule arg_cong [where f = "bnd (mmio_read_32 RCAR_PRR)"]) (auto simp: fun_eq_iff)

lemmas cpg_tbls = cpg_init_h3_tbl cpg_init_m3_tbl cpg_init_m3n_tbl cpg_init_e3_tbl

text \<open>What one programmed table leaves: the twelve registers, each preceded by its unlock.\<close>

abbreviation cpg_regs :: "u32 list" where
  "cpg_regs \<equiv> [RMSTPCR0, RMSTPCR1, RMSTPCR2, RMSTPCR3, RMSTPCR4, RMSTPCR5, RMSTPCR6, RMSTPCR7,
    RMSTPCR8, RMSTPCR9, RMSTPCR10, RMSTPCR11]"

definition programmed :: "machine \<Rightarrow> unit outcome \<Rightarrow> bool" where
  "programmed s r \<longleftrightarrow> (\<exists>xs tbl. r = Done () (grown xs s) \<and> map fst tbl = cpg_regs \<and>
     writes xs = cpg_pairs tbl \<and> no_asm xs)"

lemma programmed_tbl:
  "programmed s (seqs (map (\<lambda>(a, v). cpg_write a v) (cpg_tbl r0 r2 r8 r9 r10)) s)"
  unfolding programmed_def cpg_writes_run
  by (intro exI conjI, rule refl) (auto simp: cpg_tbl_def)

lemma programmed_after_read:
  assumes "programmed (grown [Rd32 a v] s) r"
  shows "programmed s r"
proof -
  obtain xs tbl where "r = Done () (grown xs (grown [Rd32 a v] s))" "map fst tbl = cpg_regs" "writes xs = cpg_pairs tbl"
      "no_asm xs"
    using assms unfolding programmed_def by (elim exE conjE) (rule that)
  then show ?thesis
    unfolding programmed_def by (intro exI [of _ "xs @ [Rd32 a v]"] exI [of _ tbl]) simp
qed

lemma programmed_read:
  assumes "\<And>v t. programmed t (f v t)"
  shows "programmed s (bnd (mmio_read_32 a) f s)"
  using programmed_after_read [of a "d_rd32 (m_dev s) (m_tr s) a" s] assms by (simp add: bnd_read_32)

lemma programmed_m3: "programmed s (realtime_cpg_init_m3 s)"
  and programmed_m3n: "programmed s (realtime_cpg_init_m3n s)"
  and programmed_e3: "programmed s (realtime_cpg_init_e3 s)"
  unfolding cpg_tbls by (rule programmed_tbl)+

lemma programmed_h3: "programmed s (realtime_cpg_init_h3 s)"
  unfolding cpg_tbls by (rule programmed_read) (simp only: programmed_tbl split: if_split, simp)

lemmas programmed_chips = programmed_h3 programmed_m3 programmed_m3n programmed_e3

lemma cpg_init_programmed:
  assumes "b_lsi b = LSI_AUTO \<longrightarrow>
    d_rd32 (m_dev s) (m_tr s) RCAR_PRR AND RCAR_PRODUCT_MASK \<in> {RCAR_PRODUCT_H3, RCAR_PRODUCT_M3, RCAR_PRODUCT_M3N}"
  shows "programmed s (cpg_init b s)"
  using assms programmed_chips programmed_chips [THEN programmed_after_read]
  by (auto simp: cpg_init_def bnd_read_32 Let_def split: lsi.split)

lemma cpg_init_panics:
  fixes s :: machine
  defines "p \<equiv> d_rd32 (m_dev s) (m_tr s) RCAR_PRR"
  assumes "b_lsi b = LSI_AUTO" and "p AND RCAR_PRODUCT_MASK \<notin> {RCAR_PRODUCT_H3, RCAR_PRODUCT_M3, RCAR_PRODUCT_M3N}"
  shows "\<exists>xs. cpg_init b s = Panic (grown xs s) \<and> writes xs = [] \<and> no_asm xs"
proof -
  have "cpg_init b s = seqs
      [ERROR (''LSI Product ID(PRR=0x%x) CPG'' @ [CHR 0x0A]) [ArgW (p AND RCAR_PRODUCT_MASK)],
       ERROR (''initialize not supported.'' @ [CHR 0x0A]) [], panic] (grown [Rd32 RCAR_PRR p] s)"
    using assms by (simp add: cpg_init_def bnd_read_32 Let_def del: seqs.simps)
  moreover obtain out where "format (''LSI Product ID(PRR=0x%x) CPG'' @ [CHR 0x0A]) [ArgW (p AND RCAR_PRODUCT_MASK)] = Some out"
      "format (''initialize not supported.'' @ [CHR 0x0A]) [] = Some (bytes (''initialize not supported.'' @ [CHR 0x0A]))"
    by (simp add: bytes_def)
  moreover define cs where "cs = bytes ''ERROR:   '' @ out @ bytes ''ERROR:   '' @ bytes (''initialize not supported.'' @ [CHR 0x0A])"
  ultimately have "cpg_init b s = Panic (grown (rev (map Putc cs) @ [Rd32 RCAR_PRR p]) s)"
    by (simp only: seqs.simps bnd_Done [OF ERROR_run]) (simp add: bnd_def panic_def say_def)
  then show ?thesis by (intro exI [of _ "rev (map Putc cs) @ [Rd32 RCAR_PRR p]"]) auto
qed

text \<open>
  Property C20 (cpg_init_correct): unless the build selects the chip at run time and the product
  register names none of the three it knows, \<^verbatim>\<open>cpg_init\<close> returns and has written each of the
  twelve module-stop registers exactly once, in order, every write preceded by its complement
  to \<^verbatim>\<open>CPGWPR\<close>; otherwise it panics and has written no register at all.
\<close>

theorem cpg_init_correct:
  "(let prr = d_rd32 (m_dev s) (m_tr s) RCAR_PRR AND RCAR_PRODUCT_MASK in
    if b_lsi b = LSI_AUTO \<and> prr \<notin> {RCAR_PRODUCT_H3, RCAR_PRODUCT_M3, RCAR_PRODUCT_M3N}
    then (\<exists>t. cpg_init b s = Panic t \<and> writes (m_tr t) = writes (m_tr s))
    else (\<exists>t tbl. cpg_init b s = Done () t \<and> map fst tbl = cpg_regs \<and>
            writes (m_tr t) = writes (m_tr s) @ cpg_pairs tbl \<and> unlocked (cpg_pairs tbl)))"
  (is "let prr = ?p in if ?bad prr then ?P else ?Q")
proof (cases "?bad ?p")
  case True
  then obtain xs where "cpg_init b s = Panic (grown xs s)" "writes xs = []"
    using cpg_init_panics [of b s] by (elim conjE) auto
  then have "?P" by simp
  then show ?thesis unfolding Let_def if_P [OF True] .
next
  case False
  then have "programmed s (cpg_init b s)" by (intro cpg_init_programmed) auto
  then obtain xs tbl where "cpg_init b s = Done () (grown xs s)" "map fst tbl = cpg_regs" "writes xs = cpg_pairs tbl"
    unfolding programmed_def by (elim exE conjE) (rule that)
  then have "?Q" by (intro exI [of _ "grown xs s"] exI [of _ tbl]) simp
  then show ?thesis unfolding Let_def if_not_P [OF False] .
qed

text \<open>
  If the module reports running after \<open>n\<close> busy polls and
  the fuel allows them, \<^verbatim>\<open>mstpcr_write\<close> returns; it has written exactly one unlocked pair,
  which clears the target bits of the control register and keeps the others.
\<close>

theorem mstpcr_write_correct:
  fixes s :: machine and mstpcr mstpsr tb :: u32
  defines "v \<equiv> d_rd32 (m_dev s) (m_tr s) mstpcr"
  defines "w \<equiv> Wr32 mstpcr (v AND NOT tb) # Wr32 CPG_CPGWPR (NOT (v AND NOT tb)) # Rd32 mstpcr v # m_tr s"
  assumes "n < m_fuel s"
    and "\<And>i. i < n \<Longrightarrow> d_rd32 (m_dev s) (poll_tr (m_dev s) mstpsr i w) mstpsr AND tb \<noteq> 0"
    and "d_rd32 (m_dev s) (poll_tr (m_dev s) mstpsr n w) mstpsr AND tb = 0"
  shows "\<exists>t. mstpcr_write mstpcr mstpsr tb s = Done () t \<and>
    writes (m_tr t) = writes (m_tr s) @ cpg_pairs [(mstpcr, v AND NOT tb)]"
proof -
  let ?s = "s\<lparr>m_tr := w\<rparr>"
  have "mstpcr_write mstpcr mstpsr tb s = poll_32 mstpsr (\<lambda>v. v AND tb \<noteq> 0) ?s"
    by (simp add: mstpcr_write_def bnd_read_32 bnd_Done [OF cpg_write_run] v_def w_def)
  also have "\<dots> = Done () (?s\<lparr>m_tr := poll_tr (m_dev ?s) mstpsr (Suc n) (m_tr ?s)\<rparr>)"
    by (rule poll_32_Done) (use assms(3-5) in simp_all)
  finally show ?thesis by (simp add: cpg_pairs_def w_def)
qed

text \<open>Witness: on a device whose registers are memory, the poll of a clear bit ends at once.\<close>

theorem mstpcr_write_witness:
  "\<exists>t. mstpcr_write CPG_RMSTPCR0 CPG_MSTPSR0 2 (boot_machine (ram_device (\<lambda>_. 0)) 1) = Done () t \<and>
    writes (m_tr t) = cpg_pairs [(CPG_RMSTPCR0, 0)]"
  using mstpcr_write_correct [of 0 "boot_machine (ram_device (\<lambda>_. 0)) 1" CPG_MSTPSR0 CPG_RMSTPCR0 2]
  by (simp add: boot_machine_def)

end
