(* ===== verification/Gic.thy ===== *)
theory Gic
  imports Build
begin

text \<open>
  The interrupt controller driver: the register accessors of \<^verbatim>\<open>CortexR7_Loader/common/gic_v2.c\<close>
  and \<^verbatim>\<open>include/gic_v2.h\<close>, and the setup sequences of \<^verbatim>\<open>common/arm_gic.c\<close>, which keep the
  controller's bases and the list of secure interrupts in static variables.
  \<^verbatim>\<open>1 << bit_num\<close> is taken at 32 bits.
\<close>

abbreviation MIN_SPI_ID :: u32 where "MIN_SPI_ID \<equiv> 32"
abbreviation GIC_PRI_MASK :: u32 where "GIC_PRI_MASK \<equiv> 0xff"
abbreviation GIC_HIGHEST_SEC_PRIORITY :: u32 where "GIC_HIGHEST_SEC_PRIORITY \<equiv> 0"
abbreviation GIC_HIGHEST_NS_PRIORITY :: u32 where "GIC_HIGHEST_NS_PRIORITY \<equiv> 128"
abbreviation GIC_TARGET_CPU_MASK :: u32 where "GIC_TARGET_CPU_MASK \<equiv> 0xff"
abbreviation ENABLE_GRP0 :: u32 where "ENABLE_GRP0 \<equiv> 1"
abbreviation ENABLE_GRP1 :: u32 where "ENABLE_GRP1 \<equiv> 2"
abbreviation IT_LINES_NO_MASK :: u32 where "IT_LINES_NO_MASK \<equiv> 0x1f"
abbreviation GICD_IPRIORITYR_DEF_VAL :: u32 where "GICD_IPRIORITYR_DEF_VAL \<equiv> 0x80808080"
abbreviation GICD_CTLR :: u32 where "GICD_CTLR \<equiv> 0x0"
abbreviation GICD_TYPER :: u32 where "GICD_TYPER \<equiv> 0x4"
abbreviation GICD_SGIR :: u32 where "GICD_SGIR \<equiv> 0xF00"
abbreviation GICD_IGROUPR :: u32 where "GICD_IGROUPR \<equiv> 0x80"
abbreviation GICD_ISENABLER :: u32 where "GICD_ISENABLER \<equiv> 0x100"
abbreviation GICD_ICENABLER :: u32 where "GICD_ICENABLER \<equiv> 0x180"
abbreviation GICD_ISPENDR :: u32 where "GICD_ISPENDR \<equiv> 0x200"
abbreviation GICD_ICPENDR :: u32 where "GICD_ICPENDR \<equiv> 0x280"
abbreviation GICD_ISACTIVER :: u32 where "GICD_ISACTIVER \<equiv> 0x300"
abbreviation GICD_ICACTIVER :: u32 where "GICD_ICACTIVER \<equiv> 0x380"
abbreviation GICD_IPRIORITYR :: u32 where "GICD_IPRIORITYR \<equiv> 0x400"
abbreviation GICD_ITARGETSR :: u32 where "GICD_ITARGETSR \<equiv> 0x800"
abbreviation GICD_ICFGR :: u32 where "GICD_ICFGR \<equiv> 0xC00"
abbreviation GICD_CPENDSGIR :: u32 where "GICD_CPENDSGIR \<equiv> 0xF10"
abbreviation GICD_SPENDSGIR :: u32 where "GICD_SPENDSGIR \<equiv> 0xF20"
abbreviation GICC_CTLR :: u32 where "GICC_CTLR \<equiv> 0x0"
abbreviation GICC_PMR :: u32 where "GICC_PMR \<equiv> 0x4"
abbreviation GICC_BPR :: u32 where "GICC_BPR \<equiv> 0x8"
abbreviation GICC_IAR :: u32 where "GICC_IAR \<equiv> 0xC"
abbreviation GICC_EOIR :: u32 where "GICC_EOIR \<equiv> 0x10"
abbreviation GICC_HPPIR :: u32 where "GICC_HPPIR \<equiv> 0x18"
abbreviation GICC_AHPPIR :: u32 where "GICC_AHPPIR \<equiv> 0x28"
abbreviation GICC_IIDR :: u32 where "GICC_IIDR \<equiv> 0xFC"
abbreviation GICC_DIR :: u32 where "GICC_DIR \<equiv> 0x1000"

section \<open>Register accessors (gic\_v2.c, gic\_v2.h)\<close>

definition gicd_read_igroupr :: "u32 \<Rightarrow> u32 \<Rightarrow> u32 prog" where
  "gicd_read_igroupr base iid =
     (let n = drop_bit 5 iid in mmio_read_32 (base + GICD_IGROUPR + push_bit 2 n))"

definition gicd_read_isenabler :: "u32 \<Rightarrow> u32 \<Rightarrow> u32 prog" where
  "gicd_read_isenabler base iid =
     (let n = drop_bit 5 iid in mmio_read_32 (base + GICD_ISENABLER + push_bit 2 n))"

definition gicd_read_icenabler :: "u32 \<Rightarrow> u32 \<Rightarrow> u32 prog" where
  "gicd_read_icenabler base iid =
     (let n = drop_bit 5 iid in mmio_read_32 (base + GICD_ICENABLER + push_bit 2 n))"

definition gicd_read_ispendr :: "u32 \<Rightarrow> u32 \<Rightarrow> u32 prog" where
  "gicd_read_ispendr base iid =
     (let n = drop_bit 5 iid in mmio_read_32 (base + GICD_ISPENDR + push_bit 2 n))"

definition gicd_read_icpendr :: "u32 \<Rightarrow> u32 \<Rightarrow> u32 prog" where
  "gicd_read_icpendr base iid =
     (let n = drop_bit 5 iid in mmio_read_32 (base + GICD_ICPENDR + push_bit 2 n))"

definition gicd_read_isactiver :: "u32 \<Rightarrow> u32 \<Rightarrow> u32 prog" where
  "gicd_read_isactiver base iid =
     (let n = drop_bit 5 iid in mmio_read_32 (base + GICD_ISACTIVER + push_bit 2 n))"

definition gicd_read_icactiver :: "u32 \<Rightarrow> u32 \<Rightarrow> u32 prog" where
  "gicd_read_icactiver base iid =
     (let n = drop_bit 5 iid in mmio_read_32 (base + GICD_ICACTIVER + push_bit 2 n))"

definition gicd_read_ipriorityr :: "u32 \<Rightarrow> u32 \<Rightarrow> u32 prog" where
  "gicd_read_ipriorityr base iid =
     (let n = drop_bit 2 iid in mmio_read_32 (base + GICD_IPRIORITYR + push_bit 2 n))"

definition gicd_read_itargetsr :: "u32 \<Rightarrow> u32 \<Rightarrow> u32 prog" where
  "gicd_read_itargetsr base iid =
     (let n = drop_bit 2 iid in mmio_read_32 (base + GICD_ITARGETSR + push_bit 2 n))"

definition gicd_read_icfgr :: "u32 \<Rightarrow> u32 \<Rightarrow> u32 prog" where
  "gicd_read_icfgr base iid =
     (let n = drop_bit 4 iid in mmio_read_32 (base + GICD_ICFGR + push_bit 2 n))"

definition gicd_read_cpendsgir :: "u32 \<Rightarrow> u32 \<Rightarrow> u32 prog" where
  "gicd_read_cpendsgir base iid =
     (let n = drop_bit 2 iid in mmio_read_32 (base + GICD_CPENDSGIR + push_bit 2 n))"

definition gicd_read_spendsgir :: "u32 \<Rightarrow> u32 \<Rightarrow> u32 prog" where
  "gicd_read_spendsgir base iid =
     (let n = drop_bit 2 iid in mmio_read_32 (base + GICD_SPENDSGIR + push_bit 2 n))"

definition gicd_write_igroupr :: "u32 \<Rightarrow> u32 \<Rightarrow> u32 \<Rightarrow> unit prog" where
  "gicd_write_igroupr base iid val =
     (let n = drop_bit 5 iid in mmio_write_32 (base + GICD_IGROUPR + push_bit 2 n) val)"

definition gicd_write_isenabler :: "u32 \<Rightarrow> u32 \<Rightarrow> u32 \<Rightarrow> unit prog" where
  "gicd_write_isenabler base iid val =
     (let n = drop_bit 5 iid in mmio_write_32 (base + GICD_ISENABLER + push_bit 2 n) val)"

definition gicd_write_icenabler :: "u32 \<Rightarrow> u32 \<Rightarrow> u32 \<Rightarrow> unit prog" where
  "gicd_write_icenabler base iid val =
     (let n = drop_bit 5 iid in mmio_write_32 (base + GICD_ICENABLER + push_bit 2 n) val)"

definition gicd_write_ispendr :: "u32 \<Rightarrow> u32 \<Rightarrow> u32 \<Rightarrow> unit prog" where
  "gicd_write_ispendr base iid val =
     (let n = drop_bit 5 iid in mmio_write_32 (base + GICD_ISPENDR + push_bit 2 n) val)"

definition gicd_write_icpendr :: "u32 \<Rightarrow> u32 \<Rightarrow> u32 \<Rightarrow> unit prog" where
  "gicd_write_icpendr base iid val =
     (let n = drop_bit 5 iid in mmio_write_32 (base + GICD_ICPENDR + push_bit 2 n) val)"

definition gicd_write_isactiver :: "u32 \<Rightarrow> u32 \<Rightarrow> u32 \<Rightarrow> unit prog" where
  "gicd_write_isactiver base iid val =
     (let n = drop_bit 5 iid in mmio_write_32 (base + GICD_ISACTIVER + push_bit 2 n) val)"

definition gicd_write_icactiver :: "u32 \<Rightarrow> u32 \<Rightarrow> u32 \<Rightarrow> unit prog" where
  "gicd_write_icactiver base iid val =
     (let n = drop_bit 5 iid in mmio_write_32 (base + GICD_ICACTIVER + push_bit 2 n) val)"

definition gicd_write_ipriorityr :: "u32 \<Rightarrow> u32 \<Rightarrow> u32 \<Rightarrow> unit prog" where
  "gicd_write_ipriorityr base iid val =
     (let n = drop_bit 2 iid in mmio_write_32 (base + GICD_IPRIORITYR + push_bit 2 n) val)"

definition gicd_write_itargetsr :: "u32 \<Rightarrow> u32 \<Rightarrow> u32 \<Rightarrow> unit prog" where
  "gicd_write_itargetsr base iid val =
     (let n = drop_bit 2 iid in mmio_write_32 (base + GICD_ITARGETSR + push_bit 2 n) val)"

definition gicd_write_icfgr :: "u32 \<Rightarrow> u32 \<Rightarrow> u32 \<Rightarrow> unit prog" where
  "gicd_write_icfgr base iid val =
     (let n = drop_bit 4 iid in mmio_write_32 (base + GICD_ICFGR + push_bit 2 n) val)"

definition gicd_write_cpendsgir :: "u32 \<Rightarrow> u32 \<Rightarrow> u32 \<Rightarrow> unit prog" where
  "gicd_write_cpendsgir base iid val =
     (let n = drop_bit 2 iid in mmio_write_32 (base + GICD_CPENDSGIR + push_bit 2 n) val)"

definition gicd_write_spendsgir :: "u32 \<Rightarrow> u32 \<Rightarrow> u32 \<Rightarrow> unit prog" where
  "gicd_write_spendsgir base iid val =
     (let n = drop_bit 2 iid in mmio_write_32 (base + GICD_SPENDSGIR + push_bit 2 n) val)"

definition gicd_get_igroupr :: "u32 \<Rightarrow> u32 \<Rightarrow> u32 prog" where
  "gicd_get_igroupr base iid =
     (let bit_num = iid AND 31 in
      bnd (gicd_read_igroupr base iid) (\<lambda>reg_val. ret (drop_bit (unat bit_num) reg_val AND 1)))"

definition gicd_set_igroupr :: "u32 \<Rightarrow> u32 \<Rightarrow> unit prog" where
  "gicd_set_igroupr base iid =
     (let bit_num = iid AND 31 in
      bnd (gicd_read_igroupr base iid) (\<lambda>reg_val.
      gicd_write_igroupr base iid (reg_val OR push_bit (unat bit_num) 1)))"

definition gicd_clr_igroupr :: "u32 \<Rightarrow> u32 \<Rightarrow> unit prog" where
  "gicd_clr_igroupr base iid =
     (let bit_num = iid AND 31 in
      bnd (gicd_read_igroupr base iid) (\<lambda>reg_val.
      gicd_write_igroupr base iid (reg_val AND NOT (push_bit (unat bit_num) 1))))"

definition gicd_set_isenabler :: "u32 \<Rightarrow> u32 \<Rightarrow> unit prog" where
  "gicd_set_isenabler base iid =
     (let bit_num = iid AND 31 in gicd_write_isenabler base iid (push_bit (unat bit_num) 1))"

definition gicd_set_icenabler :: "u32 \<Rightarrow> u32 \<Rightarrow> unit prog" where
  "gicd_set_icenabler base iid =
     (let bit_num = iid AND 31 in gicd_write_icenabler base iid (push_bit (unat bit_num) 1))"

definition gicd_set_ispendr :: "u32 \<Rightarrow> u32 \<Rightarrow> unit prog" where
  "gicd_set_ispendr base iid =
     (let bit_num = iid AND 31 in gicd_write_ispendr base iid (push_bit (unat bit_num) 1))"

definition gicd_set_icpendr :: "u32 \<Rightarrow> u32 \<Rightarrow> unit prog" where
  "gicd_set_icpendr base iid =
     (let bit_num = iid AND 31 in gicd_write_icpendr base iid (push_bit (unat bit_num) 1))"

definition gicd_set_isactiver :: "u32 \<Rightarrow> u32 \<Rightarrow> unit prog" where
  "gicd_set_isactiver base iid =
     (let bit_num = iid AND 31 in gicd_write_isactiver base iid (push_bit (unat bit_num) 1))"

definition gicd_set_icactiver :: "u32 \<Rightarrow> u32 \<Rightarrow> unit prog" where
  "gicd_set_icactiver base iid =
     (let bit_num = iid AND 31 in gicd_write_icactiver base iid (push_bit (unat bit_num) 1))"

definition gicd_set_ipriorityr :: "u32 \<Rightarrow> u32 \<Rightarrow> u32 \<Rightarrow> unit prog" where
  "gicd_set_ipriorityr base iid pri =
     (let reg = base + GICD_IPRIORITYR + (iid AND NOT 3);
          shift = unat (push_bit 3 (iid AND 3)) in
      bnd (mmio_read_32 reg) (\<lambda>reg_val.
      mmio_write_32 reg ((reg_val AND NOT (push_bit shift GIC_PRI_MASK))
        OR push_bit shift (pri AND GIC_PRI_MASK))))"

definition gicd_set_itargetsr :: "u32 \<Rightarrow> u32 \<Rightarrow> u32 \<Rightarrow> unit prog" where
  "gicd_set_itargetsr base iid target =
     (let byte_off = iid AND 3 in
      bnd (gicd_read_itargetsr base iid) (\<lambda>reg_val.
      gicd_write_itargetsr base iid (reg_val OR push_bit (unat (push_bit 3 byte_off)) target)))"

definition gicd_read_ctlr :: "u32 \<Rightarrow> u32 prog" where
  "gicd_read_ctlr base = mmio_read_32 (base + GICD_CTLR)"

definition gicd_read_typer :: "u32 \<Rightarrow> u32 prog" where
  "gicd_read_typer base = mmio_read_32 (base + GICD_TYPER)"

definition gicd_read_sgir :: "u32 \<Rightarrow> u32 prog" where
  "gicd_read_sgir base = mmio_read_32 (base + GICD_SGIR)"

definition gicd_write_ctlr :: "u32 \<Rightarrow> u32 \<Rightarrow> unit prog" where
  "gicd_write_ctlr base val = mmio_write_32 (base + GICD_CTLR) val"

definition gicd_write_sgir :: "u32 \<Rightarrow> u32 \<Rightarrow> unit prog" where
  "gicd_write_sgir base val = mmio_write_32 (base + GICD_SGIR) val"

definition gicc_read_ctlr :: "u32 \<Rightarrow> u32 prog" where
  "gicc_read_ctlr base = mmio_read_32 (base + GICC_CTLR)"

definition gicc_read_pmr :: "u32 \<Rightarrow> u32 prog" where
  "gicc_read_pmr base = mmio_read_32 (base + GICC_PMR)"

definition gicc_read_BPR :: "u32 \<Rightarrow> u32 prog" where
  "gicc_read_BPR base = mmio_read_32 (base + GICC_BPR)"

definition gicc_read_IAR :: "u32 \<Rightarrow> u32 prog" where
  "gicc_read_IAR base = mmio_read_32 (base + GICC_IAR)"

definition gicc_read_EOIR :: "u32 \<Rightarrow> u32 prog" where
  "gicc_read_EOIR base = mmio_read_32 (base + GICC_EOIR)"

definition gicc_read_hppir :: "u32 \<Rightarrow> u32 prog" where
  "gicc_read_hppir base = mmio_read_32 (base + GICC_HPPIR)"

definition gicc_read_ahppir :: "u32 \<Rightarrow> u32 prog" where
  "gicc_read_ahppir base = mmio_read_32 (base + GICC_AHPPIR)"

definition gicc_read_dir :: "u32 \<Rightarrow> u32 prog" where
  "gicc_read_dir base = mmio_read_32 (base + GICC_DIR)"

definition gicc_read_iidr :: "u32 \<Rightarrow> u32 prog" where
  "gicc_read_iidr base = mmio_read_32 (base + GICC_IIDR)"

definition gicc_write_ctlr :: "u32 \<Rightarrow> u32 \<Rightarrow> unit prog" where
  "gicc_write_ctlr base val = mmio_write_32 (base + GICC_CTLR) val"

definition gicc_write_pmr :: "u32 \<Rightarrow> u32 \<Rightarrow> unit prog" where
  "gicc_write_pmr base val = mmio_write_32 (base + GICC_PMR) val"

definition gicc_write_BPR :: "u32 \<Rightarrow> u32 \<Rightarrow> unit prog" where
  "gicc_write_BPR base val = mmio_write_32 (base + GICC_BPR) val"

definition gicc_write_IAR :: "u32 \<Rightarrow> u32 \<Rightarrow> unit prog" where
  "gicc_write_IAR base val = mmio_write_32 (base + GICC_IAR) val"

definition gicc_write_EOIR :: "u32 \<Rightarrow> u32 \<Rightarrow> unit prog" where
  "gicc_write_EOIR base val = mmio_write_32 (base + GICC_EOIR) val"

definition gicc_write_hppir :: "u32 \<Rightarrow> u32 \<Rightarrow> unit prog" where
  "gicc_write_hppir base val = mmio_write_32 (base + GICC_HPPIR) val"

definition gicc_write_dir :: "u32 \<Rightarrow> u32 \<Rightarrow> unit prog" where
  "gicc_write_dir base val = mmio_write_32 (base + GICC_DIR) val"

section \<open>The driver (arm\_gic.c)\<close>

definition arm_gic_cpuif_setup :: "unit prog" where
  "arm_gic_cpuif_setup =
     bnd (gets g_gicc_base) (\<lambda>base.
     bnd (gicc_read_iidr base) (\<lambda>_.
     (let val = ENABLE_GRP0 OR 0x20 OR (0x40 OR 0x80 OR 0x100) in
      seqs [gicc_write_pmr base GIC_PRI_MASK, gicc_write_ctlr base val])))"

definition arm_gic_cpuif_deactivate :: "unit prog" where
  "arm_gic_cpuif_deactivate =
     bnd (gets g_gicc_base) (\<lambda>base.
     bnd (gicc_read_ctlr base) (\<lambda>val.
     bnd (gicc_write_ctlr base
       ((val AND NOT (ENABLE_GRP0 OR ENABLE_GRP1)) OR (0x80 OR 0x20) OR (0x40 OR 0x100))) (\<lambda>_.
     bnd (gicc_read_iidr base) (\<lambda>_. ret ()))))"

text \<open>The indices of \<^verbatim>\<open>for (i = lo; i < hi; i += st)\<close>.\<close>

definition steps :: "nat \<Rightarrow> nat \<Rightarrow> nat \<Rightarrow> u32 list" where
  "steps lo hi st = map (\<lambda>k. of_nat (lo + st * k)) [0..<(hi - lo + st - 1) div st]"

primrec sec_ppi_sgi_loop :: "u32 \<Rightarrow> u32 list \<Rightarrow> u32 \<Rightarrow> u32 prog" where
  "sec_ppi_sgi_loop base [] sec_mask = ret sec_mask"
| "sec_ppi_sgi_loop base (irq_num # irqs) sec_mask =
     (if irq_num < MIN_SPI_ID then
        bnd (gicd_set_ipriorityr base irq_num GIC_HIGHEST_SEC_PRIORITY) (\<lambda>_.
        bnd (gicd_set_isenabler base irq_num) (\<lambda>_.
        sec_ppi_sgi_loop base irqs (sec_mask OR push_bit (unat irq_num) 1)))
      else sec_ppi_sgi_loop base irqs sec_mask)"

definition arm_gic_pcpu_distif_setup :: "build \<Rightarrow> unit prog" where
  "arm_gic_pcpu_distif_setup b =
     bnd (gets g_gicd_base) (\<lambda>base.
     bnd (whenp (b_ns_master b)
       (for_each (steps 0 32 4) (\<lambda>index. gicd_write_ipriorityr base index GICD_IPRIORITYR_DEF_VAL))) (\<lambda>_.
     bnd (gets g_irq_sec) (\<lambda>irqs.
     bnd (sec_ppi_sgi_loop base irqs 0) (\<lambda>sec_ppi_sgi_mask.
     whenp (b_ns_master b) (gicd_write_igroupr base 0 (NOT sec_ppi_sgi_mask))))))"

definition arm_gic_get_cpuif_id :: "u32 prog" where
  "arm_gic_get_cpuif_id =
     bnd (gets g_gicd_base) (\<lambda>base.
     bnd (gicd_read_itargetsr base 0) (\<lambda>val. ret (val AND GIC_TARGET_CPU_MASK)))"

definition arm_gic_distif_setup :: "build \<Rightarrow> unit prog" where
  "arm_gic_distif_setup b =
     bnd (gets g_gicd_base) (\<lambda>base.
     bnd (gicd_read_ctlr base) (\<lambda>c.
     (let ctlr = c AND NOT (ENABLE_GRP0 OR ENABLE_GRP1) in
     bnd (gicd_write_ctlr base ctlr) (\<lambda>_.
     bnd (whenp (b_ns_master b)
       (bnd (gicd_read_typer base) (\<lambda>ty.
        (let num_ints = unat (push_bit 5 ((ty AND IT_LINES_NO_MASK) + 1)) in
         seqs
          [for_each (steps 32 num_ints 32) (\<lambda>index. gicd_write_igroupr base index (NOT 0)),
           for_each (steps 32 num_ints 4) (\<lambda>index. gicd_write_ipriorityr base index GICD_IPRIORITYR_DEF_VAL)])))) (\<lambda>_.
     bnd arm_gic_get_cpuif_id (\<lambda>target.
     (let target_cpu = ucast (ucast target :: u8) in
     bnd (gets g_irq_sec) (\<lambda>irqs.
     bnd (for_each irqs (\<lambda>irq_num.
       whenp (MIN_SPI_ID \<le> irq_num)
         (seqs
           [gicd_clr_igroupr base irq_num,
            gicd_set_ipriorityr base irq_num GIC_HIGHEST_SEC_PRIORITY,
            gicd_set_itargetsr base irq_num target_cpu,
            gicd_set_isenabler base irq_num]))) (\<lambda>_.
     bnd (arm_gic_pcpu_distif_setup b) (\<lambda>_.
     gicd_write_ctlr base (ctlr OR ENABLE_GRP0)))))))))))"

definition arm_gic_init :: "u32 \<Rightarrow> u32 \<Rightarrow> u32 list \<Rightarrow> unit prog" where
  "arm_gic_init gicc_base gicd_base irqs =
     puts (\<lambda>s. s\<lparr>g_gicc_base := gicc_base, g_gicd_base := gicd_base, g_irq_sec := irqs\<rparr>)"

definition arm_gic_setup :: "build \<Rightarrow> unit prog" where
  "arm_gic_setup b = seqs [arm_gic_cpuif_setup, arm_gic_distif_setup b]"

definition arm_gic_acknowledge_interrupt :: "u32 prog" where
  "arm_gic_acknowledge_interrupt = bnd (gets g_gicc_base) gicc_read_IAR"

definition arm_gic_end_of_interrupt :: "u32 \<Rightarrow> unit prog" where
  "arm_gic_end_of_interrupt iid = bnd (gets g_gicc_base) (\<lambda>base. gicc_write_EOIR base iid)"

section \<open>The distributor as the driver's client sees it\<close>

text \<open>
  The documented register semantics of the distributor: writes to the set-enable and clear-enable
  banks set and clear bits of the enable state, which both banks show at the set-enable offset;
  the other registers keep what is written.
\<close>

definition gadr :: "nat \<Rightarrow> u32" where
  "gadr n = GICD_BASE + of_nat n"

definition gicd_upd :: "u32 \<Rightarrow> u32 \<Rightarrow> (u32 \<Rightarrow> u32) \<Rightarrow> (u32 \<Rightarrow> u32)" where
  "gicd_upd a v m =
     (if GICD_BASE + GICD_ISENABLER \<le> a \<and> a < GICD_BASE + GICD_ICENABLER then m(a := m a OR v)
      else if GICD_BASE + GICD_ICENABLER \<le> a \<and> a < GICD_BASE + GICD_ISPENDR
        then m(a - 0x80 := m (a - 0x80) AND NOT v)
      else m(a := v))"

definition gicd_space :: "u32 set" where
  "gicd_space = gadr ` {..<0x1000}"

lemma unat_gadr: "n < 0x1000 \<Longrightarrow> unat (gadr n) = 0xF1110000 + n"
  unfolding gadr_def by (subst unat_add_no_wrap) (simp_all add: unat_of_nat take_bit_eq_mod)

lemma gadr_eq_iff: "n < 0x1000 \<Longrightarrow> k < 0x1000 \<Longrightarrow> gadr n = gadr k \<longleftrightarrow> n = k"
  by (metis add_left_cancel unat_gadr)

lemma gadr_mem [simp]: "n < 0x1000 \<Longrightarrow> gadr n \<in> gicd_space"
  by (simp add: gicd_space_def)

lemma gadr_minus: "0x80 \<le> n \<Longrightarrow> gadr n - 0x80 = gadr (n - 0x80)"
  by (simp add: gadr_def of_nat_diff)

lemma upd_plain:
  "n < 0x1000 \<Longrightarrow> k < 0x1000 \<Longrightarrow> n < 0x100 \<or> 0x200 \<le> n \<Longrightarrow>
     gicd_upd (gadr n) v m (gadr k) = (if k = n then v else m (gadr k))"
  by (auto simp: gicd_upd_def word_le_nat_alt word_less_nat_alt unat_gadr gadr_eq_iff)

lemma upd_set:
  "0x100 \<le> n \<Longrightarrow> n < 0x180 \<Longrightarrow> k < 0x1000 \<Longrightarrow>
     gicd_upd (gadr n) v m (gadr k) = (if k = n then m (gadr k) OR v else m (gadr k))"
  by (auto simp: gicd_upd_def word_le_nat_alt word_less_nat_alt unat_gadr gadr_eq_iff)

lemma upd_clear:
  "0x180 \<le> n \<Longrightarrow> n < 0x200 \<Longrightarrow> k < 0x1000 \<Longrightarrow>
     gicd_upd (gadr n) v m (gadr k) = (if k = n - 0x80 then m (gadr k) AND NOT v else m (gadr k))"
  by (auto simp: gicd_upd_def word_le_nat_alt word_less_nat_alt unat_gadr gadr_eq_iff gadr_minus)

lemmas upds = upd_plain upd_set upd_clear

text \<open>The abstract distributor: its control and type registers and, per interrupt, its group, enable state, priority and targets.\<close>

record dist =
  dctlr :: u32
  dtyper :: u32
  grp1 :: "nat \<Rightarrow> bool"
  enab :: "nat \<Rightarrow> bool"
  prio :: "nat \<Rightarrow> u32"
  tgts :: "nat \<Rightarrow> u32"

definition byte_of :: "u32 \<Rightarrow> nat \<Rightarrow> u32" where
  "byte_of v i = drop_bit (8 * (i mod 4)) v AND 0xff"

definition view :: "(u32 \<Rightarrow> u32) \<Rightarrow> dist" where
  "view m =
     \<lparr>dctlr = m (gadr 0), dtyper = m (gadr 4),
      grp1 = (\<lambda>i. i < 1024 \<and> bit (m (gadr (0x80 + 4 * (i div 32)))) (i mod 32)),
      enab = (\<lambda>i. i < 1024 \<and> bit (m (gadr (0x100 + 4 * (i div 32)))) (i mod 32)),
      prio = (\<lambda>i. if i < 1024 then byte_of (m (gadr (0x400 + 4 * (i div 4)))) i else 0),
      tgts = (\<lambda>i. if i < 1024 then byte_of (m (gadr (0x800 + 4 * (i div 4)))) i else 0)\<rparr>"

text \<open>The addresses the accessors compute.\<close>

lemma shifted_index: "push_bit 2 (drop_bit k (x :: u32)) = of_nat (4 * (unat x div 2 ^ k))"
proof -
  have "push_bit 2 (drop_bit k x) = 4 * of_nat (unat (drop_bit k x))"
    by (simp add: push_bit_eq_mult)
  also have "unat (drop_bit k x) = unat x div 2 ^ k"
    by (rule unat_drop_bit)
  finally show ?thesis by simp
qed

lemma index_round: "x AND NOT 3 = (of_nat (4 * (unat x div 4)) :: u32)"
proof -
  have "unat (x AND NOT (mask 2)) = 4 * (unat x div 4)"
    unfolding unat_and_not_mask by (simp add: minus_mod_eq_mult_div)
  moreover have "mask 2 = (3 :: u32)" by (simp add: mask_eq_exp_minus_1)
  ultimately show ?thesis by (metis ucast_id unsigned_eq_of_nat)
qed

lemma bank_adr:
  "GICD_BASE + 0x80 + of_nat n = gadr (0x80 + n)" "GICD_BASE + 0x100 + of_nat n = gadr (0x100 + n)"
  "GICD_BASE + 0x180 + of_nat n = gadr (0x180 + n)" "GICD_BASE + 0x400 + of_nat n = gadr (0x400 + n)"
  "GICD_BASE + 0x800 + of_nat n = gadr (0x800 + n)"
  by (simp_all add: gadr_def)

lemma ctl_adr: "GICD_BASE + GICD_CTLR = gadr 0" "GICD_BASE + GICD_TYPER = gadr 4"
  by (simp_all add: gadr_def)

lemma unat_and_31: "unat (x AND 31 :: u32) = unat x mod 32"
  using unat_and_mask [of x 5] by (simp add: mask_eq_exp_minus_1)

lemma unat_byte_shift: "unat (push_bit 3 (x AND 3) :: u32) = 8 * (unat x mod 4)"
proof -
  have "unat (x AND 3) = unat x mod 4"
    using unat_and_mask [of x 2] by (simp add: mask_eq_exp_minus_1)
  moreover have "push_bit 3 (x AND 3) = 8 * (x AND 3)"
    by (simp add: push_bit_eq_mult mult.commute)
  ultimately show ?thesis
    by (simp add: unat_word_ariths)
qed

lemma byte_of_bit: "bit (byte_of v i) n \<longleftrightarrow> n < 8 \<and> bit v (8 * (i mod 4) + n)"
proof -
  have "byte_of v i = drop_bit (8 * (i mod 4)) v AND mask 8"
    by (simp add: byte_of_def)
  then show ?thesis by (auto simp: bit_simps simp del: mask_8_eq)
qed

lemma same_index: "(i :: nat) div d = j div d \<Longrightarrow> i mod d = j mod d \<Longrightarrow> i = j"
  by (metis mult_div_mod_eq)

lemma index_bounds: "(i :: nat) < 1024 \<Longrightarrow> i div 32 < 32 \<and> i div 4 < 256"
  by (simp add: less_mult_imp_div_less)

lemma offset_less [simp]:
  fixes i :: nat
  assumes "i < 1024"
  shows "0x80 + 4 * (i div 32) < 0x1000" "0x100 + 4 * (i div 32) < 0x1000"
    "0x400 + 4 * (i div 4) < 0x1000" "0x800 + 4 * (i div 4) < 0x1000"
    "0x80 + 4 * (i div 32) < 0x100" "0x100 + 4 * (i div 32) < 0x180"
    "0x400 + 4 * (i div 4) < 0x800" "0x180 + 4 * (i div 32) < 0x200"
  using index_bounds [OF assms] by linarith+

lemma bank_neq [simp]:
  fixes i c k :: nat
  assumes "i < 1024"
  shows "128 \<le> c \<Longrightarrow> 4 * (i div 32) \<noteq> c + k" "128 \<le> c \<Longrightarrow> c + k \<noteq> 4 * (i div 32)"
    "1024 \<le> c \<Longrightarrow> 4 * (i div 4) \<noteq> c + k" "1024 \<le> c \<Longrightarrow> c + k \<noteq> 4 * (i div 4)"
  using index_bounds [OF assms] by linarith+

text \<open>
  What one write does to a register of each bank, seen from every bank: \<open>upd_groups\<close> for a group
  register, \<open>upd_enables\<close> for a set-enable register, and so on.
\<close>

lemma upd_group:
  assumes "i < 1024"
  shows "view (gicd_upd (gadr (0x80 + 4 * (i div 32))) v m) =
    (view m)\<lparr>grp1 := \<lambda>j. if j div 32 = i div 32 then j < 1024 \<and> bit v (j mod 32) else grp1 (view m) j\<rparr>"
  using assms by (auto simp: view_def fun_eq_iff upd_plain)

lemma upd_enable:
  assumes "i < 1024"
  shows "view (gicd_upd (gadr (0x100 + 4 * (i div 32))) v m) =
    (view m)\<lparr>enab := \<lambda>j. enab (view m) j \<or> j < 1024 \<and> j div 32 = i div 32 \<and> bit v (j mod 32)\<rparr>"
  using assms by (auto simp: view_def fun_eq_iff upd_set bit_or_iff split: if_splits)

lemma upd_prio:
  assumes "i < 1024"
  shows "view (gicd_upd (gadr (0x400 + 4 * (i div 4))) v m) =
    (view m)\<lparr>prio := \<lambda>j. if j div 4 = i div 4 then (if j < 1024 then byte_of v j else 0) else prio (view m) j\<rparr>"
  using assms by (auto simp: view_def fun_eq_iff upd_plain)

lemma upd_target:
  assumes "i < 1024"
  shows "view (gicd_upd (gadr (0x800 + 4 * (i div 4))) v m) =
    (view m)\<lparr>tgts := \<lambda>j. if j div 4 = i div 4 then (if j < 1024 then byte_of v j else 0) else tgts (view m) j\<rparr>"
  using assms by (auto simp: view_def fun_eq_iff upd_plain)

lemma upd_ctlr: "view (gicd_upd (gadr 0) v m) = (view m)\<lparr>dctlr := v\<rparr>"
  by (auto simp: view_def fun_eq_iff upd_plain)

text \<open>The abstract operations.\<close>

definition a_group :: "nat \<Rightarrow> u32 \<Rightarrow> dist \<Rightarrow> dist" where
  "a_group i v d = d\<lparr>grp1 := \<lambda>j. if j div 32 = i div 32 then j < 1024 \<and> bit v (j mod 32) else grp1 d j\<rparr>"

definition a_prio4 :: "nat \<Rightarrow> dist \<Rightarrow> dist" where
  "a_prio4 i d = d\<lparr>prio := \<lambda>j. if j div 4 = i div 4 then (if j < 1024 then 0x80 else 0) else prio d j\<rparr>"

definition a_secure :: "nat \<Rightarrow> dist \<Rightarrow> dist" where
  "a_secure i d = d\<lparr>grp1 := (grp1 d)(i := False)\<rparr>"

definition a_nonsecure :: "nat \<Rightarrow> dist \<Rightarrow> dist" where
  "a_nonsecure i d = d\<lparr>grp1 := (grp1 d)(i := True)\<rparr>"

definition a_prio :: "nat \<Rightarrow> u32 \<Rightarrow> dist \<Rightarrow> dist" where
  "a_prio i p d = d\<lparr>prio := (prio d)(i := p)\<rparr>"

definition a_target :: "nat \<Rightarrow> u32 \<Rightarrow> dist \<Rightarrow> dist" where
  "a_target i t d = d\<lparr>tgts := (tgts d)(i := tgts d i OR t)\<rparr>"

definition a_enable :: "nat \<Rightarrow> dist \<Rightarrow> dist" where
  "a_enable i d = d\<lparr>enab := (enab d)(i := True)\<rparr>"

lemma grp1_cong: "(\<And>j. f j = g j) \<Longrightarrow> d\<lparr>grp1 := f\<rparr> = d\<lparr>grp1 := g\<rparr>"
  and enab_cong: "(\<And>j. f j = g j) \<Longrightarrow> d\<lparr>enab := f\<rparr> = d\<lparr>enab := g\<rparr>"
  and prio_cong: "(\<And>j. f' j = g' j) \<Longrightarrow> d\<lparr>prio := f'\<rparr> = d\<lparr>prio := g'\<rparr>"
  and tgts_cong: "(\<And>j. f' j = g' j) \<Longrightarrow> d\<lparr>tgts := f'\<rparr> = d\<lparr>tgts := g'\<rparr>"
  by presburger+

lemma view_sel:
  "grp1 (view m) j \<longleftrightarrow> j < 1024 \<and> bit (m (gadr (0x80 + 4 * (j div 32)))) (j mod 32)"
  "prio (view m) j = (if j < 1024 then byte_of (m (gadr (0x400 + 4 * (j div 4)))) j else 0)"
  "tgts (view m) j = (if j < 1024 then byte_of (m (gadr (0x800 + 4 * (j div 4)))) j else 0)"
  "dctlr (view m) = m (gadr 0)" "dtyper (view m) = m (gadr 4)"
  by (simp_all add: view_def)

lemma one_bit: "bit (2 ^ (i mod 32) :: u32) (j mod 32) \<longleftrightarrow> j mod 32 = i mod 32"
  by (auto simp: bit_simps)

lemma view_secure:
  assumes "i < 1024"
  shows "view (gicd_upd (gadr (0x80 + 4 * (i div 32)))
      (m (gadr (0x80 + 4 * (i div 32))) AND NOT (push_bit (i mod 32) 1)) m) = a_secure i (view m)"
  unfolding upd_group [OF assms] a_secure_def
  by (rule grp1_cong) (auto simp: view_sel bit_and_iff bit_not_iff one_bit dest: same_index)

lemma view_nonsecure:
  assumes "i < 1024"
  shows "view (gicd_upd (gadr (0x80 + 4 * (i div 32)))
      (m (gadr (0x80 + 4 * (i div 32))) OR push_bit (i mod 32) 1) m) = a_nonsecure i (view m)"
  unfolding upd_group [OF assms] a_nonsecure_def
  using assms
  by (intro grp1_cong) (auto simp: view_sel bit_or_iff one_bit dest: same_index)

lemma view_enable:
  assumes "i < 1024"
  shows "view (gicd_upd (gadr (0x100 + 4 * (i div 32))) (push_bit (i mod 32) 1) m) = a_enable i (view m)"
  unfolding upd_enable [OF assms] a_enable_def
  using assms
  by (intro enab_cong) (auto simp: one_bit dest: same_index)

lemma byte_of_set:
  fixes i j :: nat
  shows "byte_of ((v AND NOT (push_bit (8 * (i mod 4)) 0xff)) OR push_bit (8 * (i mod 4)) (p AND 0xff)) j =
     (if j mod 4 = i mod 4 then p AND 0xff else byte_of v j)"
proof (rule bit_word_eqI)
  fix n
  have le: "8 * (j mod 4) + n < 32" if "n < 8" for j :: nat
    using that mod_less_divisor [of 4 j] by linarith
  have "j mod 4 = i mod 4 \<longleftrightarrow> 8 * (i mod 4) \<le> 8 * (j mod 4) + n \<and> 8 * (j mod 4) + n < 8 * (i mod 4) + 8" if "n < 8"
    using that by auto
  then show "bit (byte_of ((v AND NOT (push_bit (8 * (i mod 4)) 0xff)) OR push_bit (8 * (i mod 4)) (p AND 0xff)) j) n =
     bit (if j mod 4 = i mod 4 then p AND 0xff else byte_of v j) n"
    using le [of j] unfolding mask_8_eq [symmetric]
    by (auto simp: byte_of_bit bit_simps simp del: mask_8_eq)
qed

lemma byte_of_or:
  fixes i j :: nat
  assumes "t AND 0xff = t"
  shows "byte_of (v OR push_bit (8 * (i mod 4)) t) j =
     (if j mod 4 = i mod 4 then byte_of v j OR t else byte_of v j)"
proof (rule bit_word_eqI)
  fix n
  have le: "8 * (j mod 4) + n < 32" if "n < 8" for j :: nat
    using that mod_less_divisor [of 4 j] by linarith
  have t: "bit t k \<Longrightarrow> k < 8" for k
    using arg_cong [OF assms, of "\<lambda>w. bit w k"] unfolding mask_8_eq [symmetric]
    by (simp add: bit_and_iff bit_mask_iff del: mask_8_eq)
  have "j mod 4 = i mod 4 \<longleftrightarrow> 8 * (i mod 4) \<le> 8 * (j mod 4) + n \<and> 8 * (j mod 4) + n < 8 * (i mod 4) + 8" if "n < 8"
    using that by auto
  then show "bit (byte_of (v OR push_bit (8 * (i mod 4)) t) j) n =
     bit (if j mod 4 = i mod 4 then byte_of v j OR t else byte_of v j) n"
    using le [of j] t [of n] t [of "8 * (j mod 4) + n - 8 * (i mod 4)"]
    by (auto simp: byte_of_bit bit_simps)
qed

lemma byte_of_default: "byte_of 0x80808080 j = 0x80"
proof -
  have "j mod 4 = 0 \<or> j mod 4 = 1 \<or> j mod 4 = 2 \<or> j mod 4 = 3" by presburger
  then show ?thesis by (auto simp: byte_of_def)
qed

lemma view_prio:
  assumes "i < 1024"
  shows "view (gicd_upd (gadr (0x400 + 4 * (i div 4)))
      ((m (gadr (0x400 + 4 * (i div 4))) AND NOT (push_bit (8 * (i mod 4)) 0xff))
        OR push_bit (8 * (i mod 4)) (p AND 0xff)) m) = a_prio i (p AND 0xff) (view m)"
  unfolding upd_prio [OF assms] a_prio_def byte_of_set
  using assms by (intro prio_cong) (auto simp: view_sel dest: same_index)

lemma view_target:
  assumes "i < 1024" and "t AND 0xff = t"
  shows "view (gicd_upd (gadr (0x800 + 4 * (i div 4)))
      (m (gadr (0x800 + 4 * (i div 4))) OR push_bit (8 * (i mod 4)) t) m) = a_target i t (view m)"
  unfolding upd_target [OF assms(1)] a_target_def byte_of_or [OF assms(2)]
  using assms by (intro tgts_cong) (auto simp: view_sel dest: same_index)

lemma view_prio4:
  assumes "i < 1024"
  shows "view (gicd_upd (gadr (0x400 + 4 * (i div 4))) 0x80808080 m) = a_prio4 i (view m)"
  unfolding upd_prio [OF assms] a_prio4_def byte_of_default by simp

lemma view_group:
  assumes "i < 1024"
  shows "view (gicd_upd (gadr (0x80 + 4 * (i div 32))) v m) = a_group i v (view m)"
  unfolding upd_group [OF assms] a_group_def ..

section \<open>Refinement of the abstract distributor\<close>

text \<open>\<open>refines init e p G\<close>: the program \<open>p\<close> acts on the distributor as the abstract \<open>G\<close>.\<close>

definition refines :: "(u32 \<Rightarrow> u32) \<Rightarrow> machine \<Rightarrow> 'a prog \<Rightarrow> (dist \<Rightarrow> 'a \<times> dist) \<Rightarrow> bool" where
  "refines init e p G \<longleftrightarrow>
     (\<exists>F. effect gicd_upd init e p F \<and> (\<forall>m. fst (F m) = fst (G (view m)) \<and> view (snd (F m)) = snd (G (view m))))"

lemma refinesI:
  "effect gicd_upd init e p F \<Longrightarrow> (\<And>m. fst (F m) = fst (G (view m)) \<and> view (snd (F m)) = snd (G (view m)))
     \<Longrightarrow> refines init e p G"
  unfolding refines_def by blast

lemma refines_cong: "refines init e p G \<Longrightarrow> (\<And>d. G d = H d) \<Longrightarrow> refines init e p H"
  by (simp add: refines_def)

lemma refines_ret: "refines init e (ret x) (\<lambda>d. (x, d))"
  by (rule refinesI [OF effect_ret]) simp

lemma refines_bnd:
  assumes "refines init e p G" and "\<And>x. refines init e (q x) (H x)"
  shows "refines init e (bnd p q) (\<lambda>d. case G d of (x, d') \<Rightarrow> H x d')"
proof -
  obtain F where F: "effect gicd_upd init e p F"
      "\<And>m. fst (F m) = fst (G (view m)) \<and> view (snd (F m)) = snd (G (view m))"
    using assms(1) by (auto simp: refines_def)
  from assms(2) have "\<exists>K. \<forall>x. effect gicd_upd init e (q x) (K x) \<and>
      (\<forall>m. fst (K x m) = fst (H x (view m)) \<and> view (snd (K x m)) = snd (H x (view m)))"
    unfolding refines_def by (intro choice) blast
  then obtain K where K: "\<And>x. effect gicd_upd init e (q x) (K x)"
      "\<And>x m. fst (K x m) = fst (H x (view m)) \<and> view (snd (K x m)) = snd (H x (view m))"
    by blast
  show ?thesis
    by (rule refinesI [OF effect_bnd [OF F(1) K(1)]]) (use F(2) K(2) in \<open>simp add: split_beta\<close>)
qed

lemma refines_seq:
  assumes "refines init e p (\<lambda>d. ((), f d))" and "\<And>x. refines init e (q x) G"
  shows "refines init e (bnd p q) (\<lambda>d. G (f d))"
  using refines_bnd [OF assms(1), of q "\<lambda>_. G"] assms(2) by simp

lemma refines_gets: "(\<And>tr. h (e\<lparr>m_tr := tr\<rparr>) = x) \<Longrightarrow> refines init e (q x) G \<Longrightarrow> refines init e (bnd (gets h) q) G"
  unfolding refines_def effect_def by (simp add: bnd_def gets_def)

lemma refines_skip_read: "refines init e q G \<Longrightarrow> refines init e (bnd (mmio_read_32 a) (\<lambda>_. q)) G"
proof -
  assume "refines init e q G"
  then obtain F where F: "effect gicd_upd init e q F"
      "\<And>m. fst (F m) = fst (G (view m)) \<and> view (snd (F m)) = snd (G (view m))"
    by (auto simp: refines_def)
  have "effect gicd_upd init e (bnd (mmio_read_32 a) (\<lambda>_. q)) F"
    unfolding effect_def
  proof
    fix tr
    let ?tr = "Rd32 a (d_rd32 (m_dev e) tr a) # tr"
    obtain xs where "q (e\<lparr>m_tr := ?tr\<rparr>) = Done (fst (F (regs gicd_upd init ?tr))) (e\<lparr>m_tr := xs @ ?tr\<rparr>)"
        "regs gicd_upd init (xs @ ?tr) = snd (F (regs gicd_upd init ?tr))"
      using F(1) unfolding effect_def by blast
    then show "\<exists>xs. bnd (mmio_read_32 a) (\<lambda>_. q) (e\<lparr>m_tr := tr\<rparr>) =
        Done (fst (F (regs gicd_upd init tr))) (e\<lparr>m_tr := xs @ tr\<rparr>) \<and>
        regs gicd_upd init (xs @ tr) = snd (F (regs gicd_upd init tr))"
      by (intro exI [of _ "xs @ [Rd32 a (d_rd32 (m_dev e) tr a)]"]) (simp add: bnd_read_32)
  qed
  then show ?thesis using F(2) by (rule refinesI)
qed

lemma refines_whenp:
  "(c \<Longrightarrow> refines init e p (\<lambda>d. ((), f d))) \<Longrightarrow> refines init e (whenp c p) (\<lambda>d. ((), if c then f d else d))"
  using refines_ret [of init e "()"] by (cases c) simp_all

lemma refines_for_each:
  assumes "\<And>x. x \<in> set xs \<Longrightarrow> refines init e (b x) (\<lambda>d. ((), f x d))"
  shows "refines init e (for_each xs b) (\<lambda>d. ((), fold f xs d))"
  using assms
proof (induction xs)
  case Nil
  then show ?case using refines_ret [of init e "()"] by simp
next
  case (Cons x xs)
  have "refines init e (bnd (b x) (\<lambda>_. for_each xs b)) (\<lambda>d. ((), fold f xs (f x d)))"
    by (rule refines_seq) (use Cons in auto)
  then show ?case by simp
qed

abbreviation gicd_device :: "(u32 \<Rightarrow> u32) \<Rightarrow> machine \<Rightarrow> bool" where
  "gicd_device init e \<equiv> behaves gicd_upd init (m_dev e) gicd_space"

lemma refines_write:
  "(\<And>m. view (gicd_upd a v m) = G (view m)) \<Longrightarrow> refines init e (mmio_write_32 a v) (\<lambda>d. ((), G d))"
  by (rule refinesI [OF effect_write]) simp

lemma refines_read:
  assumes "gicd_device init e" and "a \<in> gicd_space" and "\<And>m. m a = r (view m)"
  shows "refines init e (mmio_read_32 a) (\<lambda>d. (r d, d))"
  by (rule refinesI [OF effect_read_known [OF assms(1,2)]]) (simp add: assms(3))

lemma refines_modify:
  assumes "gicd_device init e" and "a \<in> gicd_space" and "\<And>m. view (gicd_upd a (g (m a)) m) = G (view m)"
  shows "refines init e (bnd (mmio_read_32 a) (\<lambda>v. mmio_write_32 a (g v))) (\<lambda>d. ((), G d))"
  by (rule refinesI [OF effect_bnd [OF effect_read_known [OF assms(1,2)] effect_write]])
    (simp add: assms(3))

lemmas gicd_adr = shifted_index index_round unat_and_31 unat_byte_shift bank_adr Let_def

lemma spi_index: "x < 1024 \<Longrightarrow> unat (x :: u32) < 1024"
  by (simp add: word_less_nat_alt)

lemma gicd_clr_igroupr_refines:
  "gicd_device init e \<Longrightarrow> x < 1024 \<Longrightarrow>
     refines init e (gicd_clr_igroupr GICD_BASE x) (\<lambda>d. ((), a_secure (unat x) d))"
  unfolding gicd_clr_igroupr_def gicd_read_igroupr_def gicd_write_igroupr_def gicd_adr
  by (rule refines_modify) (use spi_index [of x] in \<open>auto simp: view_secure [simplified]\<close>)

lemma gicd_set_igroupr_refines:
  "gicd_device init e \<Longrightarrow> x < 1024 \<Longrightarrow>
     refines init e (gicd_set_igroupr GICD_BASE x) (\<lambda>d. ((), a_nonsecure (unat x) d))"
  unfolding gicd_set_igroupr_def gicd_read_igroupr_def gicd_write_igroupr_def gicd_adr
  by (rule refines_modify) (use spi_index [of x] in \<open>auto simp: view_nonsecure [simplified]\<close>)

lemma gicd_set_ipriorityr_refines:
  "gicd_device init e \<Longrightarrow> x < 1024 \<Longrightarrow>
     refines init e (gicd_set_ipriorityr GICD_BASE x p) (\<lambda>d. ((), a_prio (unat x) (p AND 0xff) d))"
  unfolding gicd_set_ipriorityr_def gicd_adr
  by (rule refines_modify) (use spi_index [of x] in \<open>auto simp: view_prio [simplified]\<close>)

lemma gicd_set_itargetsr_refines:
  "gicd_device init e \<Longrightarrow> x < 1024 \<Longrightarrow> t AND 0xff = t \<Longrightarrow>
     refines init e (gicd_set_itargetsr GICD_BASE x t) (\<lambda>d. ((), a_target (unat x) t d))"
  unfolding gicd_set_itargetsr_def gicd_read_itargetsr_def gicd_write_itargetsr_def gicd_adr
  by (rule refines_modify) (use spi_index [of x] in \<open>auto simp: view_target [simplified]\<close>)

lemma gicd_set_isenabler_refines:
  "x < 1024 \<Longrightarrow> refines init e (gicd_set_isenabler GICD_BASE x) (\<lambda>d. ((), a_enable (unat x) d))"
  unfolding gicd_set_isenabler_def gicd_write_isenabler_def gicd_adr
  by (rule refines_write) (use spi_index [of x] in \<open>auto simp: view_enable [simplified]\<close>)

lemma gicd_write_igroupr_refines:
  "x < 1024 \<Longrightarrow> refines init e (gicd_write_igroupr GICD_BASE x v) (\<lambda>d. ((), a_group (unat x) v d))"
  unfolding gicd_write_igroupr_def gicd_adr
  by (rule refines_write) (use spi_index [of x] in \<open>auto simp: view_group [simplified]\<close>)

lemma gicd_write_ipriorityr_refines:
  "x < 1024 \<Longrightarrow> refines init e (gicd_write_ipriorityr GICD_BASE x GICD_IPRIORITYR_DEF_VAL) (\<lambda>d. ((), a_prio4 (unat x) d))"
  unfolding gicd_write_ipriorityr_def gicd_adr
  by (rule refines_write) (use spi_index [of x] in \<open>auto simp: view_prio4 [simplified]\<close>)

text \<open>The abstract setup, with the interrupts indexed by numbers.\<close>

definition a_spi :: "u32 \<Rightarrow> nat \<Rightarrow> dist \<Rightarrow> dist" where
  "a_spi t i d = (if 32 \<le> i then a_enable i (a_target i t (a_prio i 0 (a_secure i d))) else d)"

definition a_ppi :: "nat \<Rightarrow> dist \<Rightarrow> dist" where
  "a_ppi i d = (if i < 32 then a_enable i (a_prio i 0 d) else d)"

definition ppi_mask :: "u32 list \<Rightarrow> u32 \<Rightarrow> u32" where
  "ppi_mask irqs m = fold (\<lambda>x m. if x < 32 then m OR push_bit (unat x) 1 else m) irqs m"

definition num_ints :: "dist \<Rightarrow> nat" where
  "num_ints d = unat (push_bit 5 ((dtyper d AND IT_LINES_NO_MASK) + 1))"

definition a_pcpu :: "u32 list \<Rightarrow> dist \<Rightarrow> dist" where
  "a_pcpu irqs d = a_group 0 (NOT (ppi_mask irqs 0))
     (fold (\<lambda>x. a_ppi (unat x)) irqs (fold (\<lambda>x. a_prio4 (unat x)) (steps 0 32 4) d))"

definition a_spis :: "dist \<Rightarrow> dist" where
  "a_spis d = fold (\<lambda>x. a_prio4 (unat x)) (steps 32 (num_ints d) 4)
     (fold (\<lambda>x. a_group (unat x) (NOT 0)) (steps 32 (num_ints d) 32) d)"

definition a_setup :: "u32 list \<Rightarrow> dist \<Rightarrow> dist" where
  "a_setup irqs d =
     (let ctlr = dctlr d AND NOT (ENABLE_GRP0 OR ENABLE_GRP1);
          d' = a_spis (d\<lparr>dctlr := ctlr\<rparr>)
      in (a_pcpu irqs (fold (\<lambda>x. a_spi (ucast (ucast (tgts d' 0) :: u8)) (unat x)) irqs d'))\<lparr>dctlr := ctlr OR ENABLE_GRP0\<rparr>)"

lemma steps_less: "x \<in> set (steps lo hi st) \<Longrightarrow> hi \<le> 1024 \<Longrightarrow> 0 < st \<Longrightarrow> x < 1024"
proof -
  assume *: "x \<in> set (steps lo hi st)" "hi \<le> 1024" "0 < st"
  then obtain k where x: "x = of_nat (lo + st * k)" and k: "k < (hi - lo + st - 1) div st"
    by (auto simp: steps_def)
  from k \<open>0 < st\<close> have "st * Suc k \<le> hi - lo + st - 1"
    by (metis Suc_leI le_trans mult.commute mult_le_mono1 times_div_less_eq_dividend)
  then have "lo + st * k < hi" using \<open>0 < st\<close> by (cases "lo \<le> hi") auto
  moreover have "unat x = (lo + st * k) mod 2 ^ 32"
    unfolding x by (simp only: unat_of_nat) (simp add: take_bit_eq_mod)
  ultimately show "x < 1024"
    using \<open>hi \<le> 1024\<close> by (simp add: word_less_nat_alt)
qed

lemma lines_bound:
  defines "w \<equiv> \<lambda>v :: u32. (v AND IT_LINES_NO_MASK) + 1"
  shows "unat (push_bit 5 (w v)) = 32 * (unat v mod 32 + 1)"
proof -
  have "unat (v AND IT_LINES_NO_MASK) = unat v mod 32" by (rule unat_and_31)
  then have w: "unat (w v) = unat v mod 32 + 1"
    unfolding w_def by (subst unat_add_no_wrap) simp_all
  have "push_bit 5 (w v) = 32 * w v" by (simp add: push_bit_eq_mult mult.commute)
  then show ?thesis using w by (simp add: unat_word_ariths)
qed

lemma num_ints_eq: "num_ints d = 32 * (unat (dtyper d) mod 32 + 1)"
  unfolding num_ints_def by (rule lines_bound)

lemma num_ints_dctlr [simp]: "num_ints (d\<lparr>dctlr := v\<rparr>) = num_ints d"
  by (simp add: num_ints_def)

lemma num_ints_le: "num_ints d \<le> 1024"
  unfolding num_ints_eq using mod_less_divisor [of 32 "unat (dtyper d)"] by simp

lemma sec_ppi_sgi_loop_refines:
  assumes "gicd_device init e"
  shows "refines init e (sec_ppi_sgi_loop GICD_BASE irqs m)
    (\<lambda>d. (ppi_mask irqs m, fold (\<lambda>x. a_ppi (unat x)) irqs d))"
proof (induction irqs arbitrary: m)
  case Nil
  then show ?case using refines_ret by (simp add: ppi_mask_def)
next
  case (Cons x irqs)
  show ?case
  proof (cases "x < MIN_SPI_ID")
    case True
    then have x: "x < 1024" by (simp add: word_less_nat_alt)
    have "refines init e (sec_ppi_sgi_loop GICD_BASE (x # irqs) m)
        (\<lambda>d. (ppi_mask irqs (m OR push_bit (unat x) 1),
          fold (\<lambda>x. a_ppi (unat x)) irqs (a_enable (unat x) (a_prio (unat x) (0 AND 0xff) d))))"
      unfolding sec_ppi_sgi_loop.simps if_P [OF True]
      by (rule refines_seq [OF gicd_set_ipriorityr_refines [OF assms x]],
          rule refines_seq [OF gicd_set_isenabler_refines [OF x]], rule Cons)
    moreover have "unat x < 32" using True by (simp add: word_less_nat_alt)
    ultimately show ?thesis using True by (simp add: ppi_mask_def a_ppi_def [of "unat x"])
  next
    case False
    moreover from this have "\<not> unat x < 32" by (simp add: word_less_nat_alt)
    ultimately show ?thesis using Cons [of m] by (simp add: ppi_mask_def a_ppi_def [of "unat x"])
  qed
qed

lemma arm_gic_pcpu_distif_setup_refines:
  assumes "gicd_device init e" and "g_gicd_base e = GICD_BASE" and "b_ns_master b"
  shows "refines init e (arm_gic_pcpu_distif_setup b) (\<lambda>d. ((), a_pcpu (g_irq_sec e) d))"
proof -
  have 1: "refines init e (for_each (steps 0 32 4)
      (\<lambda>index. gicd_write_ipriorityr GICD_BASE index GICD_IPRIORITYR_DEF_VAL))
      (\<lambda>d. ((), fold (\<lambda>x. a_prio4 (unat x)) (steps 0 32 4) d))"
    by (rule refines_for_each, rule gicd_write_ipriorityr_refines) (erule steps_less, simp_all)
  have 2: "refines init e (gicd_write_igroupr GICD_BASE 0 v) (\<lambda>d. ((), a_group 0 v d))" for v
    using gicd_write_igroupr_refines [of 0 init e v] by simp
  have 3: "refines init e (bnd (sec_ppi_sgi_loop GICD_BASE irqs 0) (\<lambda>v. gicd_write_igroupr GICD_BASE 0 (NOT v)))
      (\<lambda>d. ((), a_group 0 (NOT (ppi_mask irqs 0)) (fold (\<lambda>x. a_ppi (unat x)) irqs d)))" for irqs
    using refines_bnd [OF sec_ppi_sgi_loop_refines [OF assms(1)] 2] by simp
  have 4: "refines init e (bnd (gets g_irq_sec) (\<lambda>irqs. bnd (sec_ppi_sgi_loop GICD_BASE irqs 0)
      (\<lambda>v. gicd_write_igroupr GICD_BASE 0 (NOT v))))
      (\<lambda>d. ((), a_group 0 (NOT (ppi_mask (g_irq_sec e) 0)) (fold (\<lambda>x. a_ppi (unat x)) (g_irq_sec e) d)))"
    by (rule refines_gets [where x = "g_irq_sec e"]) (simp, rule 3)
  show ?thesis
    unfolding arm_gic_pcpu_distif_setup_def a_pcpu_def using assms(2,3)
    by (intro refines_gets [of g_gicd_base e GICD_BASE])
      (simp_all add: refines_seq [OF 1 4])
qed

lemma refines_spis:
  assumes "gicd_device init e"
  shows "refines init e (bnd (gicd_read_typer GICD_BASE) (\<lambda>ty.
        (let num_ints = unat (push_bit 5 ((ty AND IT_LINES_NO_MASK) + 1)) in
         seqs
          [for_each (steps 32 num_ints 32) (\<lambda>index. gicd_write_igroupr GICD_BASE index (NOT 0)),
           for_each (steps 32 num_ints 4) (\<lambda>index. gicd_write_ipriorityr GICD_BASE index GICD_IPRIORITYR_DEF_VAL)])))
     (\<lambda>d. ((), a_spis d))"
proof -
  have rd: "refines init e (gicd_read_typer GICD_BASE) (\<lambda>d. (dtyper d, d))"
    unfolding gicd_read_typer_def ctl_adr
    by (rule refines_read) (simp_all add: assms view_sel)
  have le: "unat (push_bit 5 ((ty AND IT_LINES_NO_MASK) + 1)) \<le> 1024" for ty :: u32
    unfolding lines_bound using mod_less_divisor [of 32 "unat ty"] by simp
  have body: "refines init e (seqs
          [for_each (steps 32 n 32) (\<lambda>index. gicd_write_igroupr GICD_BASE index (NOT 0)),
           for_each (steps 32 n 4) (\<lambda>index. gicd_write_ipriorityr GICD_BASE index GICD_IPRIORITYR_DEF_VAL)])
      (\<lambda>d. ((), fold (\<lambda>x. a_prio4 (unat x)) (steps 32 n 4) (fold (\<lambda>x. a_group (unat x) (NOT 0)) (steps 32 n 32) d)))"
    if "n \<le> 1024" for n
    unfolding seqs.simps
    by (rule refines_seq [OF refines_for_each], rule gicd_write_igroupr_refines, erule steps_less,
        simp_all add: that, rule refines_seq [where G = "\<lambda>d. ((), d)", OF refines_for_each],
        rule gicd_write_ipriorityr_refines, erule steps_less, simp_all add: that refines_ret)
  show ?thesis
    unfolding Let_def a_spis_def num_ints_def
    using refines_bnd [OF rd body [OF le]] by simp
qed

lemma refines_spi:
  assumes "gicd_device init e" and "x < 1024" and "t AND 0xff = t"
  shows "refines init e (whenp (MIN_SPI_ID \<le> x)
         (seqs
           [gicd_clr_igroupr GICD_BASE x,
            gicd_set_ipriorityr GICD_BASE x GIC_HIGHEST_SEC_PRIORITY,
            gicd_set_itargetsr GICD_BASE x t,
            gicd_set_isenabler GICD_BASE x])) (\<lambda>d. ((), a_spi t (unat x) d))"
proof -
  have 1: "MIN_SPI_ID \<le> x \<longleftrightarrow> 32 \<le> unat x"
    by (simp add: word_le_nat_alt)
  have "refines init e (seqs
           [gicd_clr_igroupr GICD_BASE x,
            gicd_set_ipriorityr GICD_BASE x GIC_HIGHEST_SEC_PRIORITY,
            gicd_set_itargetsr GICD_BASE x t,
            gicd_set_isenabler GICD_BASE x])
     (\<lambda>d. ((), a_enable (unat x) (a_target (unat x) t (a_prio (unat x) (0 AND 0xff) (a_secure (unat x) d)))))"
    unfolding seqs.simps
    by (rule refines_seq [OF gicd_clr_igroupr_refines [OF assms(1,2)]],
        rule refines_seq [OF gicd_set_ipriorityr_refines [OF assms(1,2)]],
        rule refines_seq [OF gicd_set_itargetsr_refines [OF assms]],
        rule refines_seq [OF gicd_set_isenabler_refines [OF assms(2)]], rule refines_ret)
  then have "refines init e (seqs
           [gicd_clr_igroupr GICD_BASE x,
            gicd_set_ipriorityr GICD_BASE x GIC_HIGHEST_SEC_PRIORITY,
            gicd_set_itargetsr GICD_BASE x t,
            gicd_set_isenabler GICD_BASE x])
     (\<lambda>d. ((), a_enable (unat x) (a_target (unat x) t (a_prio (unat x) 0 (a_secure (unat x) d)))))"
    by (simp del: seqs.simps)
  from refines_whenp [OF this, of "MIN_SPI_ID \<le> x"] show ?thesis
    unfolding 1 a_spi_def by (simp only: if_distrib)
qed

lemma arm_gic_get_cpuif_id_refines:
  assumes "gicd_device init e" and "g_gicd_base e = GICD_BASE"
  shows "refines init e arm_gic_get_cpuif_id (\<lambda>d. (tgts d 0, d))"
proof -
  have a: "GICD_BASE + GICD_ITARGETSR + push_bit 2 (drop_bit 2 0) = gadr 0x800"
    by (simp add: gadr_def)
  have "refines init e (bnd (mmio_read_32 (gadr 0x800)) (\<lambda>v. ret (v AND GIC_TARGET_CPU_MASK)))
      (\<lambda>d. (tgts d 0, d))"
    by (rule refinesI [OF effect_bnd [OF effect_read_known [OF assms(1)] effect_ret]])
      (simp_all add: view_sel byte_of_def)
  then show ?thesis
    unfolding arm_gic_get_cpuif_id_def gicd_read_itargetsr_def Let_def
    by (intro refines_gets [of _ _ GICD_BASE]) (simp_all only: a, simp add: assms(2))
qed

lemma byte_target: "(ucast (ucast (t :: u32) :: u8) :: u32) AND 0xff = ucast (ucast t :: u8)"
  unfolding mask_8_eq [symmetric] by (rule bit_word_eqI) (auto simp: bit_simps simp del: mask_8_eq)

lemma arm_gic_distif_setup_refines:
  assumes dev: "gicd_device init e" and base: "g_gicd_base e = GICD_BASE" and ns: "b_ns_master b"
    and irqs: "\<And>x. x \<in> set (g_irq_sec e) \<Longrightarrow> x < 1024"
  shows "refines init e (arm_gic_distif_setup b) (\<lambda>d. ((), a_setup (g_irq_sec e) d))"
proof -
  let ?irqs = "g_irq_sec e" and ?b8 = "\<lambda>t. ucast (ucast (t :: u32) :: u8) :: u32"
  have wr: "refines init e (gicd_write_ctlr GICD_BASE v) (\<lambda>d. ((), d\<lparr>dctlr := v\<rparr>))" for v
    unfolding gicd_write_ctlr_def ctl_adr by (rule refines_write) (rule upd_ctlr)
  have rd: "refines init e (gicd_read_ctlr GICD_BASE) (\<lambda>d. (dctlr d, d))"
    unfolding gicd_read_ctlr_def ctl_adr by (rule refines_read) (simp_all add: dev view_sel)
  have spis: "refines init e (for_each ?irqs (\<lambda>x. whenp (MIN_SPI_ID \<le> x)
         (seqs [gicd_clr_igroupr GICD_BASE x, gicd_set_ipriorityr GICD_BASE x GIC_HIGHEST_SEC_PRIORITY,
            gicd_set_itargetsr GICD_BASE x (?b8 t), gicd_set_isenabler GICD_BASE x])))
      (\<lambda>d. ((), fold (\<lambda>x. a_spi (?b8 t) (unat x)) ?irqs d))" for t
    by (rule refines_for_each) (rule refines_spi [OF dev irqs byte_target])
  note pcpu = arm_gic_pcpu_distif_setup_refines [OF dev base ns]
  note tail = refines_seq [OF spis refines_seq [OF pcpu wr]]
  have tail': "refines init e (bnd (gets g_irq_sec) (\<lambda>irqs. bnd (for_each irqs (\<lambda>x. whenp (MIN_SPI_ID \<le> x)
         (seqs [gicd_clr_igroupr GICD_BASE x, gicd_set_ipriorityr GICD_BASE x GIC_HIGHEST_SEC_PRIORITY,
            gicd_set_itargetsr GICD_BASE x (?b8 t), gicd_set_isenabler GICD_BASE x])))
      (\<lambda>_. bnd (arm_gic_pcpu_distif_setup b) (\<lambda>_. gicd_write_ctlr GICD_BASE v))))
    (\<lambda>d. ((), (a_pcpu ?irqs (fold (\<lambda>x. a_spi (?b8 t) (unat x)) ?irqs d))\<lparr>dctlr := v\<rparr>))" for t v
    by (rule refines_gets [where x = ?irqs]) (simp, rule tail)
  show ?thesis
    unfolding arm_gic_distif_setup_def Let_def if_P [OF ns] whenp_def
    by (rule refines_cong, rule refines_gets [where x = GICD_BASE], simp add: base,
        rule refines_bnd [OF rd], rule refines_seq [OF wr],
        rule refines_seq [OF refines_spis [OF dev, unfolded Let_def]],
        rule refines_bnd [OF arm_gic_get_cpuif_id_refines [OF dev base]],
        rule tail' [unfolded whenp_def], simp add: a_setup_def Let_def)
qed

text \<open>What the abstract loops do, field by field.\<close>

lemma fold_group:
  defines "F \<equiv> \<lambda>xs. fold (\<lambda>x. a_group (unat (x :: u32)) (NOT 0)) xs"
  shows "grp1 (F xs d) j = (if \<exists>x \<in> set xs. j div 32 = unat x div 32 then j < 1024 else grp1 d j)"
    and "prio (F xs d) = prio d" "enab (F xs d) = enab d" "tgts (F xs d) = tgts d"
    "dctlr (F xs d) = dctlr d" "dtyper (F xs d) = dtyper d"
  unfolding F_def
  by (induction xs arbitrary: d) (auto simp: a_group_def bit_simps)

lemma fold_prio4:
  defines "F \<equiv> \<lambda>xs. fold (\<lambda>x. a_prio4 (unat (x :: u32))) xs"
  shows "prio (F xs d) j = (if \<exists>x \<in> set xs. j div 4 = unat x div 4 then if j < 1024 then 0x80 else 0 else prio d j)"
    and "grp1 (F xs d) = grp1 d" "enab (F xs d) = enab d" "tgts (F xs d) = tgts d"
    "dctlr (F xs d) = dctlr d" "dtyper (F xs d) = dtyper d"
  unfolding F_def
  by (induction xs arbitrary: d) (auto simp: a_prio4_def)

lemma fold_spi:
  fixes t :: u32
  defines "F \<equiv> \<lambda>xs. fold (\<lambda>x. a_spi t (unat (x :: u32))) xs"
    and "S \<equiv> \<lambda>xs. {unat x | x. x \<in> set (xs :: u32 list) \<and> 32 \<le> unat x}"
  shows "grp1 (F xs d) j \<longleftrightarrow> grp1 d j \<and> j \<notin> S xs"
    and "enab (F xs d) j \<longleftrightarrow> enab d j \<or> j \<in> S xs"
    and "prio (F xs d) j = (if j \<in> S xs then 0 else prio d j)"
    and "tgts (F xs d) j = (if j \<in> S xs then tgts d j OR t else tgts d j)"
    and "dctlr (F xs d) = dctlr d" "dtyper (F xs d) = dtyper d"
  unfolding F_def S_def
  by (induction xs arbitrary: d)
    (auto simp: a_spi_def a_enable_def a_prio_def a_target_def a_secure_def or.assoc)

lemma fold_ppi:
  defines "F \<equiv> \<lambda>xs. fold (\<lambda>x. a_ppi (unat (x :: u32))) xs"
    and "S \<equiv> \<lambda>xs. {unat x | x. x \<in> set (xs :: u32 list) \<and> unat x < 32}"
  shows "grp1 (F xs d) = grp1 d"
    and "enab (F xs d) j \<longleftrightarrow> enab d j \<or> j \<in> S xs"
    and "prio (F xs d) j = (if j \<in> S xs then 0 else prio d j)"
    and "tgts (F xs d) = tgts d"
    and "dctlr (F xs d) = dctlr d" "dtyper (F xs d) = dtyper d"
  unfolding F_def S_def
  by (induction xs arbitrary: d) (auto simp: a_ppi_def a_enable_def a_prio_def)

lemma bit_ppi_mask:
  "j < 32 \<Longrightarrow> bit (ppi_mask xs m) j \<longleftrightarrow> bit m j \<or> (\<exists>x \<in> set xs. unat x = j)"
proof (induction xs arbitrary: m)
  case (Cons x xs)
  have "x < 32 \<longleftrightarrow> unat x < 32" by (simp add: word_less_nat_alt)
  with Cons show ?case
    by (auto simp: ppi_mask_def bit_or_iff bit_simps)
qed (simp add: ppi_mask_def)

lemma steps_cover:
  assumes "0 < st" and "hi \<le> 1024" and "lo = st * l" and "hi = st * h" and "l \<le> h"
  shows "(\<exists>x \<in> set (steps lo hi st). j div st = unat x div st) \<longleftrightarrow> lo \<le> j \<and> j < hi"
proof -
  have "unat (of_nat (lo + st * k) :: u32) = st * (l + k)" if "k < h - l" for k
  proof -
    have "l + k \<le> h" using that by simp
    then have "st * (l + k) \<le> hi" using assms(4) by simp
    then have "st * (l + k) < 2 ^ 32" using assms(2) by simp
    moreover have "lo + st * k = st * (l + k)" using assms(3) by (simp add: distrib_left)
    ultimately show ?thesis by (simp only: unat_of_nat) (simp add: take_bit_eq_mod)
  qed
  moreover have "(hi - lo + st - 1) div st = h - l"
  proof -
    have "hi - lo = st * (h - l)" using assms(3,4) by (simp add: diff_mult_distrib2)
    then have "hi - lo + st - 1 = (st - 1) + (h - l) * st" using assms(1) by (simp add: mult.commute)
    moreover have "((st - 1) + (h - l) * st) div st = (h - l) + (st - 1) div st"
      using assms(1) by (intro div_mult_self1) simp
    ultimately show ?thesis using assms(1) by (simp only:) simp
  qed
  ultimately have "(\<exists>x \<in> set (steps lo hi st). j div st = unat x div st) \<longleftrightarrow> (\<exists>k < h - l. j div st = l + k)"
    using assms(1) by (auto simp: steps_def)
  also have "\<dots> \<longleftrightarrow> l \<le> j div st \<and> j div st < h"
    using assms(5) by (auto intro: exI [of _ "j div st - l"])
  also have "\<dots> \<longleftrightarrow> lo \<le> j \<and> j < hi"
    using assms(1,3,4) by (simp add: less_eq_div_iff_mult_less_eq div_less_iff_less_mult mult.commute)
  finally show ?thesis .
qed

text \<open>The abstract setup meets its purpose.\<close>

lemma a_setup_group:
  "j < num_ints d \<Longrightarrow> grp1 (a_setup irqs d) j \<longleftrightarrow> j \<notin> unat ` set irqs"
proof -
  assume j: "j < num_ints d"
  have n: "num_ints d = 32 * Suc (unat (dtyper d) mod 32)" "num_ints d \<le> 1024"
    by (simp add: num_ints_eq) (rule num_ints_le)
  have "32 = 32 * (1 :: nat)" "1 \<le> Suc (unat (dtyper d) mod 32)" by simp_all
  note cover = steps_cover [OF _ n(2) this(1) n(1) this(2)]
  show ?thesis
  proof (cases "j < 32")
    case True
    then show ?thesis
      by (auto simp: a_setup_def a_pcpu_def a_group_def Let_def bit_ppi_mask bit_not_iff)
  next
    case False
    then have "j div 32 \<noteq> 0" by simp
    with False j n(2) cover [of j] show ?thesis
      by (auto simp: a_setup_def a_pcpu_def a_group_def Let_def a_spis_def fold_group [simplified] fold_prio4 fold_spi
        fold_ppi)
  qed
qed

lemma a_setup_prio:
  "j < num_ints d \<Longrightarrow> prio (a_setup irqs d) j = (if j \<in> unat ` set irqs then 0 else 0x80)"
proof -
  assume j: "j < num_ints d"
  have n: "num_ints d = 4 * (8 * Suc (unat (dtyper d) mod 32))" "num_ints d \<le> 1024"
    by (simp add: num_ints_eq) (rule num_ints_le)
  have "32 = 4 * (8 :: nat)" "8 \<le> 8 * Suc (unat (dtyper d) mod 32)" by simp_all
  note cover = steps_cover [OF _ n(2) this(1) n(1) this(2), of j]
  have cover0: "(\<exists>x \<in> set (steps 0 32 4). j div 4 = unat x div 4) \<longleftrightarrow> 0 \<le> j \<and> j < 32"
    by (rule steps_cover [where l = 0 and h = 8]) simp_all
  show ?thesis
  proof (cases "j < 32")
    case True
    with cover0 show ?thesis
      by (auto simp: a_setup_def a_pcpu_def a_group_def Let_def fold_ppi fold_prio4)
  next
    case False
    with j n(2) cover cover0 show ?thesis
      by (auto simp: a_setup_def a_pcpu_def a_group_def Let_def a_spis_def fold_prio4 fold_spi
        fold_ppi)
  qed
qed

lemma a_setup_enab: "enab (a_setup irqs d) j \<longleftrightarrow> enab d j \<or> j \<in> unat ` set irqs"
  by (cases "j < 32")
    (auto simp: a_setup_def a_pcpu_def a_group_def Let_def a_spis_def fold_group [simplified] fold_prio4 fold_spi fold_ppi)

lemma a_setup_ctlr: "dctlr (a_setup irqs d) = (dctlr d AND NOT (ENABLE_GRP0 OR ENABLE_GRP1)) OR ENABLE_GRP0"
  by (simp add: a_setup_def Let_def)

section \<open>The driver configures the distributor\<close>

lemma upd_gicc:
  "view (gicd_upd 0xF1120000 v m) = view m" "view (gicd_upd 0xF1120004 v m) = view m"
proof -
  have "gadr n \<noteq> 0xF1120000 \<and> gadr n \<noteq> 0xF1120004" if "n < 0x1000" for n
    using unat_gadr [OF that] that by (auto dest: arg_cong [where f = unat])
  then show "view (gicd_upd 0xF1120000 v m) = view m" "view (gicd_upd 0xF1120004 v m) = view m"
    by (auto simp: view_def gicd_upd_def word_le_nat_alt word_less_nat_alt fun_eq_iff)
qed

lemma arm_gic_cpuif_setup_refines:
  assumes "g_gicc_base e = GICC_BASE"
  shows "refines init e arm_gic_cpuif_setup (\<lambda>d. ((), d))"
proof -
  have "refines init e (mmio_write_32 0xF1120000 v) (\<lambda>d. ((), d))"
    "refines init e (mmio_write_32 0xF1120004 v) (\<lambda>d. ((), d))" for v
    by (rule refines_write, rule upd_gicc)+
  note w = refines_seq [OF this(2) refines_seq [OF this(1) refines_ret]]
  show ?thesis
    unfolding arm_gic_cpuif_setup_def gicc_read_iidr_def gicc_write_pmr_def gicc_write_ctlr_def Let_def seqs.simps
    by (rule refines_gets [where x = GICC_BASE], simp add: assms, rule refines_skip_read)
      (use w [of GIC_PRI_MASK "\<lambda>_. 481" "()"] in simp)
qed

lemma arm_gic_setup_refines:
  assumes "gicd_device init e" and "g_gicd_base e = GICD_BASE" and "g_gicc_base e = GICC_BASE"
    and "b_ns_master b" and "\<And>x. x \<in> set (g_irq_sec e) \<Longrightarrow> x < 1024"
  shows "refines init e (arm_gic_setup b) (\<lambda>d. ((), a_setup (g_irq_sec e) d))"
  unfolding arm_gic_setup_def seqs.simps
  by (rule refines_seq [OF arm_gic_cpuif_setup_refines [OF assms(3)]])
    (rule refines_seq [where G = "\<lambda>d. ((), d)", OF arm_gic_distif_setup_refines [OF assms(1,2,4,5)] refines_ret])

lemma refines_run:
  assumes "refines init (s\<lparr>m_tr := []\<rparr>) p G"
  shows "\<exists>xs. p s = Done (fst (G (view (regs gicd_upd init (m_tr s))))) (grown xs s) \<and>
     view (regs gicd_upd init (xs @ m_tr s)) = snd (G (view (regs gicd_upd init (m_tr s))))"
proof -
  obtain F where F: "effect gicd_upd init (s\<lparr>m_tr := []\<rparr>) p F"
      "\<And>m. fst (F m) = fst (G (view m)) \<and> view (snd (F m)) = snd (G (view m))"
    using assms by (auto simp: refines_def)
  from effect_run [OF F(1) refl] F(2) show ?thesis by fastforce
qed


text \<open>Witness: a distributor whose registers start at zero (32 interrupts), one secure PPI.\<close>

definition gic_device :: "(u32 \<Rightarrow> u32) \<Rightarrow> device" where
  "gic_device init = (ram_device init)\<lparr>d_rd32 := regs gicd_upd init\<rparr>"

lemma gic_device_behaves: "behaves gicd_upd init (gic_device init) A"
  by (simp add: behaves_def gic_device_def)


end
