(* ===== verification/Swdt.thy ===== *)
theory Swdt
  imports Gic
begin

text \<open>
  The system watchdog driver, \<^verbatim>\<open>CortexR7_Loader/common/swdt.c\<close>, and the exception reports of
  \<^verbatim>\<open>common/error_output.c\<close>, which release the watchdog before they stop.
\<close>

abbreviation RST_WDTRSTCR :: u32 where "RST_WDTRSTCR \<equiv> 0xE6160054"
abbreviation SWDT_WTCNT :: u32 where "SWDT_WTCNT \<equiv> 0xE6030000"
abbreviation SWDT_WTCSRA :: u32 where "SWDT_WTCSRA \<equiv> 0xE6030004"
abbreviation SWDT_WTCSRB :: u32 where "SWDT_WTCSRB \<equiv> 0xE6030008"
abbreviation WDTRSTCR_UPPER_BYTE :: u32 where "WDTRSTCR_UPPER_BYTE \<equiv> 0xA55A0000"
abbreviation WTCSRA_UPPER_BYTE :: u32 where "WTCSRA_UPPER_BYTE \<equiv> 0xA5A5A500"
abbreviation WTCSRB_UPPER_BYTE :: u32 where "WTCSRB_UPPER_BYTE \<equiv> 0xA5A5A500"
abbreviation WTCNT_UPPER_BYTE :: u32 where "WTCNT_UPPER_BYTE \<equiv> 0x5A5A0000"
abbreviation SWDT_RSTMSK :: u32 where "SWDT_RSTMSK \<equiv> 0x2"
abbreviation WTCSRA_WOVFE :: u32 where "WTCSRA_WOVFE \<equiv> 0x8"
abbreviation WTCSRA_WRFLG :: u8 where "WTCSRA_WRFLG \<equiv> 0x20"
abbreviation SWDT_ENABLE :: u32 where "SWDT_ENABLE \<equiv> 0x80"
abbreviation SWTCSRA_CKS :: u32 where "SWTCSRA_CKS \<equiv> 0x3"
abbreviation CHECK_MD13_MD14 :: u32 where "CHECK_MD13_MD14 \<equiv> 0x6000"
abbreviation FREQ_10p0M :: u32 where "FREQ_10p0M \<equiv> 0x2000"
abbreviation FREQ_12p5M :: u32 where "FREQ_12p5M \<equiv> 0x4000"
abbreviation FREQ_8p33M :: u32 where "FREQ_8p33M \<equiv> 0x0000"
abbreviation FREQ_16p66M :: u32 where "FREQ_16p66M \<equiv> 0x6000"

text \<open>
  The counter arithmetic of the header macros: \<open>SWDT_CLK hz\<close> is the length of one tick in
  microseconds at a division by 32, \<open>SWDT_COUNT hz\<close> the ticks of \<^verbatim>\<open>SWDT_COUNT_SEC\<close> seconds.
\<close>

definition SWDT_COUNT_SEC :: u32 where
  "SWDT_COUNT_SEC = 10"

definition SWDT_CLK :: "u32 \<Rightarrow> u32" where
  "SWDT_CLK hz = 1 * 1000 * 1000 div (hz div 32)"

definition SWDT_COUNT :: "u32 \<Rightarrow> u32" where
  "SWDT_COUNT hz = SWDT_COUNT_SEC * 1000 * 1000 div SWDT_CLK hz"

definition SWDTCNT :: "u32 \<Rightarrow> u32" where
  "SWDTCNT hz = 0x10000 - SWDT_COUNT hz"

definition SWDTCNT_H3_VER10 :: "u32 \<Rightarrow> u32" where
  "SWDTCNT_H3_VER10 hz = 0x10000 - SWDT_COUNT hz div 2"

text \<open>The \<^verbatim>\<open>switch\<close> that sets the overflow counter.\<close>

definition swdt_counter :: "u32 \<Rightarrow> u32 \<Rightarrow> unit prog" where
  "swdt_counter chk_data product_cut =
     (if chk_data = FREQ_8p33M \<or> chk_data = FREQ_12p5M then
        mmio_write_32 SWDT_WTCNT (WTCNT_UPPER_BYTE OR SWDTCNT 130200)
      else if chk_data = FREQ_10p0M then
        mmio_write_32 SWDT_WTCNT (WTCNT_UPPER_BYTE OR SWDTCNT 131570)
      else if chk_data = FREQ_16p66M then
        (if product_cut = (RCAR_PRODUCT_H3 OR RCAR_CUT_VER10)
         then mmio_write_32 SWDT_WTCNT (WTCNT_UPPER_BYTE OR SWDTCNT_H3_VER10 130200)
         else mmio_write_32 SWDT_WTCNT (WTCNT_UPPER_BYTE OR SWDTCNT 130200))
      else seqs [ERROR (''CR7: MODEMR ERROR value=%x'' @ [CHR 0x0A]) [ArgW chk_data], panic])"

definition swdt_init :: "build \<Rightarrow> unit prog" where
  "swdt_init b =
     bnd (if b_lsi b = LSI_E3 then ret (0, 0) else
            bnd (mmio_read_32 RCAR_PRR) (\<lambda>p.
            bnd (mmio_read_32 RCAR_MODEMR) (\<lambda>md.
            ret (p AND (RCAR_PRODUCT_MASK OR RCAR_CUT_MASK), md AND CHECK_MD13_MD14))))
       (\<lambda>(product_cut, chk_data).
     bnd (mmio_read_32 SWDT_WTCSRA) (\<lambda>v.
     bnd (whenp (v AND SWDT_ENABLE \<noteq> 0) (mmio_write_32 SWDT_WTCSRA WTCSRA_UPPER_BYTE)) (\<lambda>_.
     bnd (mmio_write_32 SWDT_WTCSRA (WTCSRA_UPPER_BYTE OR WTCSRA_WOVFE OR SWTCSRA_CKS)) (\<lambda>_.
     bnd (if b_lsi b = LSI_E3 then mmio_write_32 SWDT_WTCNT (WTCNT_UPPER_BYTE OR SWDTCNT 125000)
          else swdt_counter chk_data product_cut) (\<lambda>_.
     bnd (mmio_read_32 RST_WDTRSTCR) (\<lambda>r.
     bnd (mmio_write_32 RST_WDTRSTCR (WDTRSTCR_UPPER_BYTE OR ((r AND 0xFFFF) OR SWDT_RSTMSK))) (\<lambda>_.
     bnd (poll_8 SWDT_WTCSRA (\<lambda>v. v AND WTCSRA_WRFLG \<noteq> 0)) (\<lambda>_.
     bnd (mmio_read_32 SWDT_WTCSRA) (\<lambda>sr.
     mmio_write_32 SWDT_WTCSRA (WTCSRA_UPPER_BYTE OR (sr AND 0xFF) OR SWDT_ENABLE))))))))))"

definition swdt_disable :: "unit prog" where
  "swdt_disable =
     bnd (mmio_read_32 RST_WDTRSTCR) (\<lambda>r.
     seqs
       [mmio_write_32 RST_WDTRSTCR (WDTRSTCR_UPPER_BYTE OR ((r AND 0xFFFF) OR SWDT_RSTMSK)),
        mmio_write_32 SWDT_WTCNT (WTCNT_UPPER_BYTE + 0xF488),
        mmio_write_32 SWDT_WTCSRA (WTCSRA_UPPER_BYTE + 0x0F),
        mmio_write_32 SWDT_WTCSRB (WTCSRB_UPPER_BYTE + 0x21),
        gicd_set_icenabler GICD_BASE ARM_IRQ_WDT])"

definition swdt_release :: "build \<Rightarrow> unit prog" where
  "swdt_release b =
     seqs
       [asm Aif_disable_i,
        swdt_disable,
        arm_gic_cpuif_deactivate,
        whenp (b_ns_master b)
          (seqs [gicd_set_igroupr GICD_BASE ARM_IRQ_WDT,
                 gicd_set_ipriorityr GICD_BASE ARM_IRQ_WDT GIC_HIGHEST_NS_PRIORITY]),
        mmio_write_32 (GICD_BASE + GICD_ITARGETSR + (ARM_IRQ_WDT AND NOT 3)) 0,
        mmio_write_32 (GICD_BASE + GICD_CTLR) 0,
        mmio_write_32 (GICC_BASE + GICC_CTLR) 0,
        mmio_write_32 (GICC_BASE + GICC_PMR) 0]"

definition swdt_exec :: "build \<Rightarrow> u32 \<Rightarrow> unit prog" where
  "swdt_exec b occ_add =
     seqs
       [arm_gic_end_of_interrupt ARM_IRQ_WDT,
        swdt_release b,
        ERROR [CHR 0x0A] [],
        ERROR (''CR7: System WDT overflow'' @ [CHR 0x0A]) [],
        ERROR (''     Occurred address : 0x%x'' @ [CHR 0x0A]) [ArgW occ_add],
        panic]"

section \<open>Exception reports (error\_output.c)\<close>

definition undef_error :: "build \<Rightarrow> u32 \<Rightarrow> unit prog" where
  "undef_error b occ_add =
     seqs
       [swdt_release b,
        ERROR [CHR 0x0A] [],
        ERROR (''CR7: Undefined Instruction occurred.'' @ [CHR 0x0A]) [],
        ERROR (''     Occurred address : 0x%x'' @ [CHR 0x0A]) [ArgW occ_add],
        ERROR [CHR 0x0A] [],
        panic]"

definition fiq_error :: "build \<Rightarrow> unit prog" where
  "fiq_error b =
     seqs [swdt_release b, ERROR [CHR 0x0A] [], ERROR (''CR7: FIQ handled.'' @ [CHR 0x0A]) [], panic]"

definition interrupt_error_id :: "build \<Rightarrow> u32 \<Rightarrow> u32 \<Rightarrow> unit prog" where
  "interrupt_error_id b int_id occ_add =
     seqs
       [swdt_release b,
        ERROR [CHR 0x0A] [],
        ERROR (''CR7: Unhandled exception occurred.'' @ [CHR 0x0A]) [],
        ERROR (''     Occurred address : 0x%x'' @ [CHR 0x0A]) [ArgW occ_add],
        ERROR (''     Interrupt ID : %d'' @ [CHR 0x0A]) [ArgW int_id],
        ERROR [CHR 0x0A] [],
        panic]"

definition dabort_error :: "build \<Rightarrow> u32 \<Rightarrow> u32 \<Rightarrow> u32 \<Rightarrow> unit prog" where
  "dabort_error b occ_add dfsr dfar =
     seqs
       [swdt_release b,
        ERROR [CHR 0x0A] [],
        ERROR (''CR7: data abort.'' @ [CHR 0x0A]) [],
        ERROR (''     data abort occurrred address : 0x%x'' @ [CHR 0x0A]) [ArgW occ_add],
        ERROR (''     DFSR : 0x%x DFAR : 0x%x'' @ [CHR 0x0A]) [ArgW dfsr, ArgW dfar],
        ERROR [CHR 0x0A] [],
        panic]"

definition pabort_error :: "build \<Rightarrow> u32 \<Rightarrow> u32 \<Rightarrow> unit prog" where
  "pabort_error b ifsr ifar =
     seqs
       [swdt_release b,
        ERROR [CHR 0x0A] [],
        ERROR (''CR7: prefetch abort.'' @ [CHR 0x0A]) [],
        ERROR (''     IFSR : 0x%x IFAR : 0x%x'' @ [CHR 0x0A]) [ArgW ifsr, ArgW ifar],
        ERROR [CHR 0x0A] [],
        panic]"

section \<open>The timeout\<close>

lemma swdtcnt_values:
  "SWDTCNT 130200 = 24720" "SWDTCNT 131570 = 24384" "SWDTCNT 125000 = 26474"
  "SWDTCNT_H3_VER10 130200 = 45128"
  by (simp_all add: SWDTCNT_def SWDTCNT_H3_VER10_def SWDT_COUNT_def SWDT_CLK_def SWDT_COUNT_SEC_def
    unat_div word_div_def)

lemma and_shifted: "(v :: u32) AND push_bit k m = push_bit k (drop_bit k v AND m)"
  by (rule bit_word_eqI) (auto simp: bit_simps)

lemma two_bits: "(v :: u32) AND 3 \<in> {0, 1, 2, 3}"
proof -
  have "unat (v AND 3) < 4"
    using unat_and_mask [of v 2] by (simp add: mask_eq_exp_minus_1)
  then have "unat (v AND 3) \<in> unat ` {0, 1, 2, 3 :: u32}" by auto
  then show ?thesis by (metis (no_types, lifting) image_iff unsigned_word_eqI)
qed

lemma mode_cases: "v AND CHECK_MD13_MD14 \<in> {FREQ_8p33M, FREQ_10p0M, FREQ_12p5M, FREQ_16p66M}"
proof -
  obtain w where w: "w = drop_bit 13 v AND 3" by blast
  have "v AND push_bit 13 3 = push_bit 13 w"
    unfolding w by (rule and_shifted)
  moreover have "w \<in> {0, 1, 2, 3}" unfolding w by (rule two_bits)
  ultimately show ?thesis by auto
qed

text \<open>The oscillator the mode pins select, and the chip whose counter runs at half the rate.\<close>

definition osc_hz :: "build \<Rightarrow> u32 \<Rightarrow> nat" where
  "osc_hz b md = (if b_lsi b = LSI_E3 then 125000 else if md AND CHECK_MD13_MD14 = FREQ_10p0M then 131570 else 130200)"

definition half_rate :: "build \<Rightarrow> u32 \<Rightarrow> u32 \<Rightarrow> bool" where
  "half_rate b prr md \<longleftrightarrow> b_lsi b \<noteq> LSI_E3 \<and> md AND CHECK_MD13_MD14 = FREQ_16p66M \<and>
     prr AND (RCAR_PRODUCT_MASK OR RCAR_CUT_MASK) = (RCAR_PRODUCT_H3 OR RCAR_CUT_VER10)"

text \<open>\<open>cnt\<close> overflows after ten seconds at that rate, within 0.4 percent.\<close>

definition ten_seconds :: "build \<Rightarrow> u32 \<Rightarrow> u32 \<Rightarrow> u32 \<Rightarrow> bool" where
  "ten_seconds b prr md cnt \<longleftrightarrow> cnt < 0x10000 \<and>
     (let ticks = (if half_rate b prr md then 2 else 1) * (0x10000 - unat cnt) in
      9990 * osc_hz b md \<le> ticks * 32 * 1000 \<and> ticks * 32 * 1000 \<le> 10040 * osc_hz b md)"

definition swdt_cnt :: "build \<Rightarrow> u32 \<Rightarrow> u32 \<Rightarrow> u32" where
  "swdt_cnt b prr md = (if half_rate b prr md then 45128 else if b_lsi b = LSI_E3 then 26474
     else if md AND CHECK_MD13_MD14 = FREQ_10p0M then 24384 else 24720)"

lemma swdt_cnt_ten_seconds: "ten_seconds b prr md (swdt_cnt b prr md)"
  by (auto simp: ten_seconds_def swdt_cnt_def osc_hz_def half_rate_def Let_def)

lemma swdt_counter_run:
  assumes "b_lsi b \<noteq> LSI_E3"
  shows "swdt_counter (md AND CHECK_MD13_MD14) (prr AND (RCAR_PRODUCT_MASK OR RCAR_CUT_MASK)) s
      = Done () (s\<lparr>m_tr := Wr32 SWDT_WTCNT (WTCNT_UPPER_BYTE OR swdt_cnt b prr md) # m_tr s\<rparr>)"
  using mode_cases [of md] assms
  by (auto simp: swdt_counter_def run_simps swdtcnt_values swdt_cnt_def half_rate_def)

lemma bits_set:
  "((x :: u32) OR y OR 0x80) AND 0x80 \<noteq> 0" "((x :: u32) OR (y OR 0x2)) AND 0x2 \<noteq> 0"
proof -
  have "bit ((x OR y OR 0x80) AND 0x80 :: u32) 7" "bit ((x OR (y OR 0x2)) AND 0x2 :: u32) 1"
    by (simp_all add: bit_or_iff bit_and_iff)
  then show "(x OR y OR 0x80) AND 0x80 \<noteq> 0" "(x OR (y OR 0x2)) AND 0x2 \<noteq> 0"
    by (metis bit_0_eq bot_apply bot_bool_def)+
qed

lemma swdt_init_grows:
  fixes s :: machine and b :: build
  defines "prr \<equiv> d_rd32 (m_dev s) (m_tr s) RCAR_PRR"
  defines "md \<equiv> d_rd32 (m_dev s) (Rd32 RCAR_PRR prr # m_tr s) RCAR_MODEMR"
  assumes "ready_8 (m_dev s) (m_fuel s) SWDT_WTCSRA (\<lambda>v. v AND WTCSRA_WRFLG \<noteq> 0)"
  shows "\<exists>xs stop rst csr. swdt_init b s = Done () (grown xs s) \<and>
    (stop = [] \<or> stop = [(SWDT_WTCSRA, WTCSRA_UPPER_BYTE)]) \<and>
    writes xs = stop @
      [(SWDT_WTCSRA, WTCSRA_UPPER_BYTE OR WTCSRA_WOVFE OR SWTCSRA_CKS),
       (SWDT_WTCNT, WTCNT_UPPER_BYTE OR swdt_cnt b prr md),
       (RST_WDTRSTCR, WDTRSTCR_UPPER_BYTE OR ((rst AND 0xFFFF) OR SWDT_RSTMSK)),
       (SWDT_WTCSRA, WTCSRA_UPPER_BYTE OR (csr AND 0xFF) OR SWDT_ENABLE)]"
proof -
  obtain N where poll: "\<And>u. m_dev u = m_dev s \<Longrightarrow> m_fuel u = m_fuel s \<Longrightarrow>
      poll_8 SWDT_WTCSRA (\<lambda>v. v AND WTCSRA_WRFLG \<noteq> 0) u
        = Done () (u\<lparr>m_tr := poll8_tr (m_dev s) SWDT_WTCSRA (Suc (N u)) (m_tr u)\<rparr>)"
    using poll_8_runs [OF assms(3)] by blast
  define stop where "stop = (if d_rd32 (m_dev s) (if b_lsi b = LSI_E3 then m_tr s
      else Rd32 RCAR_MODEMR md # Rd32 RCAR_PRR prr # m_tr s) SWDT_WTCSRA AND SWDT_ENABLE \<noteq> 0
    then [(SWDT_WTCSRA, WTCSRA_UPPER_BYTE)] else [])"
  have "\<exists>t rst csr. swdt_init b s = Done () t \<and> t = s\<lparr>m_tr := m_tr t\<rparr> \<and> suffix (m_tr s) (m_tr t) \<and>
      writes (m_tr t) = writes (m_tr s) @ stop @
        [(SWDT_WTCSRA, WTCSRA_UPPER_BYTE OR WTCSRA_WOVFE OR SWTCSRA_CKS),
         (SWDT_WTCNT, WTCNT_UPPER_BYTE OR swdt_cnt b prr md),
         (RST_WDTRSTCR, WDTRSTCR_UPPER_BYTE OR ((rst AND 0xFFFF) OR SWDT_RSTMSK)),
         (SWDT_WTCSRA, WTCSRA_UPPER_BYTE OR (csr AND 0xFF) OR SWDT_ENABLE)]"
  proof (cases "b_lsi b = LSI_E3")
    case True
    then show ?thesis
      by (auto simp: swdt_init_def steps_simps bnd_Done [OF poll] whenp_def
        swdt_cnt_def half_rate_def swdtcnt_values stop_def intro!: suffix_ConsI suffix_appendI)
  next
    case False
    then show ?thesis
      by (auto simp: swdt_init_def steps_simps bnd_Done [OF poll]
        bnd_Done [OF swdt_counter_run [OF False, simplified]] prr_def md_def whenp_def
        stop_def intro!: suffix_ConsI suffix_appendI)
  qed
  then obtain t rst csr where run: "swdt_init b s = Done () t" and t: "t = s\<lparr>m_tr := m_tr t\<rparr>" "suffix (m_tr s) (m_tr t)"
    and w: "writes (m_tr t) = writes (m_tr s) @ stop @
        [(SWDT_WTCSRA, WTCSRA_UPPER_BYTE OR WTCSRA_WOVFE OR SWTCSRA_CKS),
         (SWDT_WTCNT, WTCNT_UPPER_BYTE OR swdt_cnt b prr md),
         (RST_WDTRSTCR, WDTRSTCR_UPPER_BYTE OR ((rst AND 0xFFFF) OR SWDT_RSTMSK)),
         (SWDT_WTCSRA, WTCSRA_UPPER_BYTE OR (csr AND 0xFF) OR SWDT_ENABLE)]"
    by blast
  obtain xs where "s\<lparr>m_tr := m_tr t\<rparr> = grown xs s" "writes xs = stop @
        [(SWDT_WTCSRA, WTCSRA_UPPER_BYTE OR WTCSRA_WOVFE OR SWTCSRA_CKS),
         (SWDT_WTCNT, WTCNT_UPPER_BYTE OR swdt_cnt b prr md),
         (RST_WDTRSTCR, WDTRSTCR_UPPER_BYTE OR ((rst AND 0xFFFF) OR SWDT_RSTMSK)),
         (SWDT_WTCSRA, WTCSRA_UPPER_BYTE OR (csr AND 0xFF) OR SWDT_ENABLE)]"
    using grownI [OF t(2) w] by (elim exE conjE) (rule that)
  moreover have "stop = [] \<or> stop = [(SWDT_WTCSRA, WTCSRA_UPPER_BYTE)]" by (simp add: stop_def)
  ultimately show ?thesis
    using run t(1) by (intro exI [of _ xs] exI [of _ stop] exI [of _ rst] exI [of _ csr]) (simp only: simp_thms)
qed

text \<open>
  Property C16 (swdt_init_correct): when the watchdog's write flag clears within the polls allowed,
  \<^verbatim>\<open>swdt_init\<close> returns, whatever the mode pins (its error branch is unreachable); it stops a
  running watchdog, programs a counter that fits the 16-bit register and overflows after ten
  seconds at the oscillator the pins select, masks the reset of the chip so that the overflow is
  an interrupt, and starts the watchdog with its last write.
\<close>

theorem swdt_init_correct:
  assumes "ready_8 (m_dev s) (m_fuel s) SWDT_WTCSRA (\<lambda>v. v AND WTCSRA_WRFLG \<noteq> 0)"
  shows "let prr = d_rd32 (m_dev s) (m_tr s) RCAR_PRR;
             md = d_rd32 (m_dev s) (Rd32 RCAR_PRR prr # m_tr s) RCAR_MODEMR
    in \<exists>t cnt stop rst csr. swdt_init b s = Done () t \<and>
      writes (m_tr t) = writes (m_tr s) @ stop @
        [(SWDT_WTCSRA, WTCSRA_UPPER_BYTE OR WTCSRA_WOVFE OR SWTCSRA_CKS),
         (SWDT_WTCNT, WTCNT_UPPER_BYTE OR cnt), (RST_WDTRSTCR, rst), (SWDT_WTCSRA, csr)] \<and>
      ten_seconds b prr md cnt \<and> (stop = [] \<or> stop = [(SWDT_WTCSRA, WTCSRA_UPPER_BYTE)]) \<and>
      rst AND SWDT_RSTMSK \<noteq> 0 \<and> csr AND SWDT_ENABLE \<noteq> 0"
proof -
  obtain xs stop rst csr where run: "swdt_init b s = Done () (grown xs s)"
      "stop = [] \<or> stop = [(SWDT_WTCSRA, WTCSRA_UPPER_BYTE)]"
      "writes xs = stop @ [(SWDT_WTCSRA, WTCSRA_UPPER_BYTE OR WTCSRA_WOVFE OR SWTCSRA_CKS),
         (SWDT_WTCNT, WTCNT_UPPER_BYTE OR swdt_cnt b (d_rd32 (m_dev s) (m_tr s) RCAR_PRR)
           (d_rd32 (m_dev s) (Rd32 RCAR_PRR (d_rd32 (m_dev s) (m_tr s) RCAR_PRR) # m_tr s) RCAR_MODEMR)),
         (RST_WDTRSTCR, WDTRSTCR_UPPER_BYTE OR ((rst AND 0xFFFF) OR SWDT_RSTMSK)),
         (SWDT_WTCSRA, WTCSRA_UPPER_BYTE OR (csr AND 0xFF) OR SWDT_ENABLE)]"
    using swdt_init_grows [OF assms, of b] by (elim exE conjE) (rule that)
  show ?thesis
    unfolding Let_def using run swdt_cnt_ten_seconds bits_set
    by (intro exI [of _ "grown xs s"] exI [of _ "swdt_cnt b _ _"] exI [of _ stop] exI conjI) (auto simp: append_assoc)
qed

text \<open>Witness: a device that reads zero everywhere, so the write flag is clear.\<close>

theorem swdt_init_witness:
  "\<exists>t cnt. swdt_init build_m3n (boot_machine (const_device 0) 1) = Done () t \<and> cnt < 0x10000 \<and>
     (SWDT_WTCNT, WTCNT_UPPER_BYTE OR cnt) \<in> set (writes (m_tr t))"
proof -
  have "ready_8 (const_device 0) 1 SWDT_WTCSRA (\<lambda>v. v AND WTCSRA_WRFLG \<noteq> 0)"
    by (simp add: ready_8_def const_device_def)
  then show ?thesis
    using swdt_init_correct [of "boot_machine (const_device 0) 1" build_m3n]
    by (fastforce simp: boot_machine_def Let_def ten_seconds_def)
qed

section \<open>Every exception report stops the watchdog and the machine\<close>

text \<open>
  \<open>quiet t\<close>: the last values written leave the watchdog stopped and disabled in both interrupt
  interfaces.
\<close>

definition quiet :: "access list \<Rightarrow> bool" where
  "quiet t \<longleftrightarrow> (\<forall>init. stored init t SWDT_WTCSRA AND SWDT_ENABLE = 0 \<and>
     stored init t (GICD_BASE + GICD_CTLR) = 0 \<and> stored init t (GICC_BASE + GICC_CTLR) = 0 \<and>
     stored init t (GICC_BASE + GICC_PMR) = 0)"

lemma quiet_say: "quiet (rev (map Putc cs) @ t) \<longleftrightarrow> quiet t"
  by (simp add: quiet_def)

definition gicc_known :: "machine \<Rightarrow> bool" where
  "gicc_known s \<longleftrightarrow> g_gicc_base s = 0 \<or> g_gicc_base s = GICC_BASE"

lemma swdt_release_run:
  assumes "gicc_known s"
  shows "\<exists>tr. swdt_release b s = Done () (s\<lparr>m_tr := tr\<rparr>) \<and> quiet tr \<and> printed tr = printed (m_tr s)"
  using assms
  by (cases "b_ns_master b")
    (auto simp: gicc_known_def swdt_release_def swdt_disable_def arm_gic_cpuif_deactivate_def
      gicc_read_ctlr_def gicc_write_ctlr_def gicc_read_iidr_def gicd_set_icenabler_def
      gicd_write_icenabler_def gicd_set_igroupr_def gicd_read_igroupr_def gicd_write_igroupr_def
      gicd_set_ipriorityr_def Let_def steps_simps quiet_def ret_def)

definition report_text :: "(string \<times> arg list) list \<Rightarrow> u8 list" where
  "report_text msgs = concat (map (\<lambda>(f, as). bytes ''ERROR:   '' @ the (format f as)) msgs)"

lemma errors_run:
  assumes "list_all (\<lambda>(f, as). format f as \<noteq> None) msgs"
  shows "seqs (map (\<lambda>(f, as). ERROR f as) msgs @ [panic]) s = Panic (say (report_text msgs) s)"
  using assms
proof (induction msgs arbitrary: s)
  case Nil
  then show ?case by (simp add: report_text_def) (simp add: panic_def)
next
  case (Cons m msgs)
  obtain f as where m: "m = (f, as)" by (cases m)
  with Cons.prems obtain out where "format f as = Some out" by auto
  then have "ERROR f as s = Done () (say (bytes ''ERROR:   '' @ out) s)" by (rule ERROR_run)
  with Cons m \<open>format f as = Some out\<close> show ?case
    by (simp add: bnd_Done report_text_def)
qed

text \<open>
  The shape every handler of \<^verbatim>\<open>error_output.c\<close> has: release the watchdog, print messages whose
  formats match their arguments, stop.
\<close>

locale exception_report =
  fixes handler :: "build \<Rightarrow> unit prog" and msgs :: "(string \<times> arg list) list"
  assumes body: "handler b = seqs (swdt_release b # map (\<lambda>(f, as). ERROR f as) msgs @ [panic])"
    and well_formed: "list_all (\<lambda>(f, as). format f as \<noteq> None) msgs"
begin

lemma stops:
  assumes "gicc_known s"
  shows "\<exists>t. handler b s = Panic t \<and> quiet (m_tr t) \<and> printed (m_tr t) = printed (m_tr s) @ report_text msgs"
proof -
  obtain tr where r: "swdt_release b s = Done () (s\<lparr>m_tr := tr\<rparr>)" "quiet tr" "printed tr = printed (m_tr s)"
    using swdt_release_run [OF assms] by blast
  then show ?thesis
    by (simp add: body bnd_Done [of "swdt_release b" s, OF r(1)] errors_run [OF well_formed] quiet_say)
qed

end

abbreviation nl :: string where "nl \<equiv> [CHR 0x0A]"

abbreviation undef_msgs :: "u32 \<Rightarrow> (string \<times> arg list) list" where
  "undef_msgs a \<equiv> [(nl, []), (''CR7: Undefined Instruction occurred.'' @ nl, []),
     (''     Occurred address : 0x%x'' @ nl, [ArgW a]), (nl, [])]"

abbreviation fiq_msgs :: "(string \<times> arg list) list" where
  "fiq_msgs \<equiv> [(nl, []), (''CR7: FIQ handled.'' @ nl, [])]"

abbreviation interrupt_msgs :: "u32 \<Rightarrow> u32 \<Rightarrow> (string \<times> arg list) list" where
  "interrupt_msgs i a \<equiv> [(nl, []), (''CR7: Unhandled exception occurred.'' @ nl, []),
     (''     Occurred address : 0x%x'' @ nl, [ArgW a]), (''     Interrupt ID : %d'' @ nl, [ArgW i]), (nl, [])]"

abbreviation dabort_msgs :: "u32 \<Rightarrow> u32 \<Rightarrow> u32 \<Rightarrow> (string \<times> arg list) list" where
  "dabort_msgs a dfsr dfar \<equiv> [(nl, []), (''CR7: data abort.'' @ nl, []),
     (''     data abort occurrred address : 0x%x'' @ nl, [ArgW a]),
     (''     DFSR : 0x%x DFAR : 0x%x'' @ nl, [ArgW dfsr, ArgW dfar]), (nl, [])]"

abbreviation pabort_msgs :: "u32 \<Rightarrow> u32 \<Rightarrow> (string \<times> arg list) list" where
  "pabort_msgs ifsr ifar \<equiv> [(nl, []), (''CR7: prefetch abort.'' @ nl, []),
     (''     IFSR : 0x%x IFAR : 0x%x'' @ nl, [ArgW ifsr, ArgW ifar]), (nl, [])]"

abbreviation overflow_msgs :: "u32 \<Rightarrow> (string \<times> arg list) list" where
  "overflow_msgs a \<equiv> [(nl, []), (''CR7: System WDT overflow'' @ nl, []),
     (''     Occurred address : 0x%x'' @ nl, [ArgW a])]"

interpretation undef: exception_report "\<lambda>b. undef_error b a" "undef_msgs a" for a
  by unfold_locales (simp_all add: undef_error_def)

interpretation fiq: exception_report fiq_error fiq_msgs
  by unfold_locales (simp_all add: fiq_error_def)

interpretation interrupt: exception_report "\<lambda>b. interrupt_error_id b i a" "interrupt_msgs i a" for i a
  by unfold_locales (simp_all add: interrupt_error_id_def)

interpretation dabort: exception_report "\<lambda>b. dabort_error b a dfsr dfar" "dabort_msgs a dfsr dfar" for a dfsr dfar
  by unfold_locales (simp_all add: dabort_error_def)

interpretation pabort: exception_report "\<lambda>b. pabort_error b ifsr ifar" "pabort_msgs ifsr ifar" for ifsr ifar
  by unfold_locales (simp_all add: pabort_error_def)

interpretation overflow: exception_report
  "\<lambda>b. seqs (swdt_release b # map (\<lambda>(f, as). ERROR f as) (overflow_msgs a) @ [panic])" "overflow_msgs a" for a
  by unfold_locales simp_all

lemma swdt_exec_tail:
  "swdt_exec b a s = seqs (swdt_release b # map (\<lambda>(f, as). ERROR f as) (overflow_msgs a) @ [panic])
     (s\<lparr>m_tr := Wr32 (g_gicc_base s + GICC_EOIR) ARM_IRQ_WDT # m_tr s\<rparr>)"
  by (simp add: swdt_exec_def arm_gic_end_of_interrupt_def gicc_write_EOIR_def steps_simps)

text \<open>
  Property C15 (exceptions_stop_watchdog): every exception handler and the watchdog interrupt
  itself end in the panic loop with the watchdog stopped, the distributor and the CPU interface
  disabled, and exactly the report of the exception printed.
\<close>

theorem exceptions_stop_watchdog:
  assumes "gicc_known s"
  shows "(\<exists>t. undef_error b a s = Panic t \<and> quiet (m_tr t) \<and>
      printed (m_tr t) = printed (m_tr s) @ report_text (undef_msgs a))
   \<and> (\<exists>t. fiq_error b s = Panic t \<and> quiet (m_tr t) \<and> printed (m_tr t) = printed (m_tr s) @ report_text fiq_msgs)
   \<and> (\<exists>t. interrupt_error_id b i a s = Panic t \<and> quiet (m_tr t) \<and>
      printed (m_tr t) = printed (m_tr s) @ report_text (interrupt_msgs i a))
   \<and> (\<exists>t. dabort_error b a x y s = Panic t \<and> quiet (m_tr t) \<and>
      printed (m_tr t) = printed (m_tr s) @ report_text (dabort_msgs a x y))
   \<and> (\<exists>t. pabort_error b x y s = Panic t \<and> quiet (m_tr t) \<and>
      printed (m_tr t) = printed (m_tr s) @ report_text (pabort_msgs x y))
   \<and> (\<exists>t. swdt_exec b a s = Panic t \<and> quiet (m_tr t) \<and>
      printed (m_tr t) = printed (m_tr s) @ report_text (overflow_msgs a))"
proof (intro conjI)
  let ?s = "s\<lparr>m_tr := Wr32 (g_gicc_base s + GICC_EOIR) ARM_IRQ_WDT # m_tr s\<rparr>"
  have "gicc_known ?s" using assms by (simp add: gicc_known_def)
  from overflow.stops [OF this, of b a] show "\<exists>t. swdt_exec b a s = Panic t \<and> quiet (m_tr t) \<and>
      printed (m_tr t) = printed (m_tr s) @ report_text (overflow_msgs a)"
    unfolding swdt_exec_tail by simp
qed (rule undef.stops fiq.stops interrupt.stops dabort.stops pabort.stops, fact assms)+

text \<open>Witness: right after reset the driver's base is still zero.\<close>

theorem exceptions_stop_witness:
  "\<exists>t. undef_error build_m3n 0x100 (boot_machine (const_device 0) 0) = Panic t \<and> quiet (m_tr t)"
proof -
  have "gicc_known (boot_machine (const_device 0) 0)"
    by (simp add: gicc_known_def boot_machine_def)
  from conjunct1 [OF exceptions_stop_watchdog [where b = build_m3n and a = "0x100", OF this]]
  show ?thesis by blast
qed

end
