(* ===== verification/Dma.thy ===== *)
theory Dma
  imports Cpg Swdt
begin

text \<open>
  The transfer drivers: \<^verbatim>\<open>CortexR7_Loader/common/dma_driver.c\<close> (image copies and zero fill),
  \<^verbatim>\<open>common/rpc_driver.c\<close> (the flash interface the copies read from) and the busy wait of
  \<^verbatim>\<open>common/micro_wait.c\<close>. The address of \<^verbatim>\<open>fill_data\<close>, which the linker chooses, is a parameter.
\<close>

abbreviation RT_DMAC_BIT :: u32 where "RT_DMAC_BIT \<equiv> 0x00200000"
abbreviation DMA_RDMOR :: u32 where "DMA_RDMOR \<equiv> 0xFFC10060"
abbreviation DMA_RDMSEC :: u32 where "DMA_RDMSEC \<equiv> 0xFFC10030"
abbreviation DMA_RDMCHCLR :: u32 where "DMA_RDMCHCLR \<equiv> 0xFFC10080"
abbreviation DMA_RDMSAR :: u32 where "DMA_RDMSAR \<equiv> 0xFFC18080"
abbreviation DMA_RDMDAR :: u32 where "DMA_RDMDAR \<equiv> 0xFFC18084"
abbreviation DMA_RDMTCR :: u32 where "DMA_RDMTCR \<equiv> 0xFFC18088"
abbreviation DMA_RDMCHCR :: u32 where "DMA_RDMCHCR \<equiv> 0xFFC1808C"
abbreviation DMACH :: nat where "DMACH \<equiv> 1"
abbreviation RDMOR_INITIAL :: u16 where "RDMOR_INITIAL \<equiv> 0x0301"
abbreviation RDMCHCR_TRN_MODE :: u32 where "RDMCHCR_TRN_MODE \<equiv> 0x00105409"
abbreviation RDMCHCR_FILL_TRN_MODE :: u32 where "RDMCHCR_FILL_TRN_MODE \<equiv> 0x00104409"
abbreviation RDMCHCR_TE_BIT :: u32 where "RDMCHCR_TE_BIT \<equiv> 0x00000002"
abbreviation RDMCHCR_CAE_BIT :: u32 where "RDMCHCR_CAE_BIT \<equiv> 0x80000000"
abbreviation DMA_FRACTION_MASK :: u32 where "DMA_FRACTION_MASK \<equiv> 0xFF"
abbreviation DMA_SIZE_UNIT :: u32 where "DMA_SIZE_UNIT \<equiv> 0x100"

text \<open>The channel registers of \<^verbatim>\<open>dma_register.h\<close>, by channel (channel 1 is \<^verbatim>\<open>DMACH\<close>).\<close>

definition dma_ch :: "nat \<Rightarrow> u32 \<Rightarrow> u32" where
  "dma_ch n off = 0xFFC10000 + of_nat n * 0x80 + off"

abbreviation RPC_CMNCR :: u32 where "RPC_CMNCR \<equiv> 0xEE200000"
abbreviation RPC_CMNSR :: u32 where "RPC_CMNSR \<equiv> 0xEE200048"
abbreviation RPC_PHYCNT :: u32 where "RPC_PHYCNT \<equiv> 0xEE20007C"
abbreviation CMNCR_MD :: u32 where "CMNCR_MD \<equiv> 0x80000000"
abbreviation RPC_PHYCNT_CAL :: u32 where "RPC_PHYCNT_CAL \<equiv> 0x80000000"
abbreviation RPC_IF_BIT :: u32 where "RPC_IF_BIT \<equiv> 0x00020000"
abbreviation RPC_PHYCNT_STRTIM_M3V1 :: u32 where "RPC_PHYCNT_STRTIM_M3V1 \<equiv> 0x00030000"
abbreviation RPC_PHYCNT_STRTIM :: u32 where "RPC_PHYCNT_STRTIM \<equiv> 0x00038000"

section \<open>The flash interface (rpc\_driver.c)\<close>

definition enableRPC :: "unit prog" where
  "enableRPC = mstpcr_write CPG_RMSTPCR9 CPG_MSTPSR9 RPC_IF_BIT"

definition setupRPC :: "unit prog" where
  "setupRPC =
     bnd (mmio_read_32 RPC_CMNCR) (\<lambda>c.
     bnd (whenp (c AND CMNCR_MD \<noteq> 0)
       (bnd (mmio_read_32 RPC_CMNCR) (\<lambda>v. mmio_write_32 RPC_CMNCR (v AND NOT CMNCR_MD)))) (\<lambda>_.
     bnd (mmio_read_32 RCAR_PRR) (\<lambda>p1.
     bnd (mmio_read_32 RCAR_PRR) (\<lambda>p2.
     (let product = p1 AND RCAR_PRODUCT_MASK;
          cut = p2 AND RCAR_CUT_MASK;
          phy_strtim = (if product = RCAR_PRODUCT_M3 \<and> cut < RCAR_CUT_VER30
                        then RPC_PHYCNT_STRTIM_M3V1 else RPC_PHYCNT_STRTIM) in
     bnd (mmio_read_32 RPC_PHYCNT) (\<lambda>r.
     (let reg = (r AND NOT RPC_PHYCNT_STRTIM) OR phy_strtim in
      seqs [mmio_write_32 RPC_PHYCNT reg, mmio_write_32 RPC_PHYCNT (reg OR RPC_PHYCNT_CAL)])))))))"

definition wait_endRPC :: "unit prog" where
  "wait_endRPC = poll_32 RPC_CMNSR (\<lambda>v. v AND 1 \<noteq> 1)"

definition initRPC :: "unit prog" where
  "initRPC = seqs [enableRPC, setupRPC]"

section \<open>The DMA controller (dma\_driver.c)\<close>

definition enableDMA :: "unit prog" where
  "enableDMA = mstpcr_write CPG_RMSTPCR0 CPG_MSTPSR0 RT_DMAC_BIT"

definition setupDMA :: "unit prog" where
  "setupDMA = mmio_write_32 DMA_RDMCHCLR (push_bit DMACH 1)"

definition startDMA :: "u32 \<Rightarrow> u32 \<Rightarrow> u32 \<Rightarrow> unit prog" where
  "startDMA dst src len =
     bnd (mmio_write_16 DMA_RDMOR RDMOR_INITIAL) (\<lambda>_.
     bnd (mmio_read_32 DMA_RDMSEC) (\<lambda>reg.
     seqs
       [mmio_write_32 DMA_RDMSEC (reg OR push_bit DMACH 1),
        mmio_write_32 DMA_RDMDAR dst,
        mmio_write_32 DMA_RDMSAR src,
        mmio_write_32 DMA_RDMTCR (drop_bit 6 len),
        mmio_write_32 DMA_RDMCHCR RDMCHCR_TRN_MODE]))"

definition endDMA :: "unit prog" where
  "endDMA =
     bnd (while_io (polled DMA_RDMCHCR (\<lambda>v. v AND RDMCHCR_TE_BIT = 0))
       (bnd (mmio_read_32 DMA_RDMCHCR) (\<lambda>v.
        whenp (v AND RDMCHCR_CAE_BIT \<noteq> 0)
          (seqs [ERROR (''DMA - Channel Address Error'' @ [CHR 0x0A]) [], panic])))) (\<lambda>_.
     bnd wait_endRPC (\<lambda>_.
     bnd (mmio_write_32 DMA_RDMCHCLR (push_bit DMACH 1)) (\<lambda>_.
     bnd (mmio_read_32 DMA_RDMSEC) (\<lambda>reg.
     mmio_write_32 DMA_RDMSEC (reg AND NOT (push_bit DMACH 1))))))"

definition initDMA :: "unit prog" where
  "initDMA = seqs [enableDMA, setupDMA]"

definition execDMA :: "u32 \<Rightarrow> u32 \<Rightarrow> u32 \<Rightarrow> unit prog" where
  "execDMA dst src len =
     (let dmalen = (if len AND DMA_FRACTION_MASK \<noteq> 0
                    then (len + DMA_SIZE_UNIT) AND NOT DMA_FRACTION_MASK else len) in
      seqs
       [whenp (src AND DMA_FRACTION_MASK \<noteq> 0)
          (seqs [ERROR (''DMA - Source address invalid'' @ [CHR 0x0A]
                   @ ''      source address  = 0x%x'' @ [CHR 0x0A]) [ArgW src], panic]),
        whenp (dst AND DMA_FRACTION_MASK \<noteq> 0)
          (seqs [ERROR (''DMA - Destination address invalid'' @ [CHR 0x0A]
                   @ ''      destination address = 0x%x'' @ [CHR 0x0A]) [ArgW dst], panic]),
        startDMA dst src dmalen,
        endDMA])"

text \<open>
  Zero fill with four channels in parallel; channel \<open>i\<close> of the arrays is \<^verbatim>\<open>DMACH + i\<close>.
\<close>

definition start_fillDMA :: "u32 \<Rightarrow> u64 list \<Rightarrow> u32 list \<Rightarrow> nat \<Rightarrow> unit prog" where
  "start_fillDMA fill_data dst len tbl_size =
     bnd (mmio_write_16 DMA_RDMOR RDMOR_INITIAL) (\<lambda>_.
     bnd (mmio_read_32 DMA_RDMSEC) (\<lambda>reg.
     bnd (mmio_write_32 DMA_RDMSEC (fold (\<lambda>i r. r OR push_bit (DMACH + i) 1) [0..<tbl_size] reg)) (\<lambda>_.
     for_each [0..<tbl_size] (\<lambda>i.
       seqs
        [mmio_write_32 (dma_ch (DMACH + i) 0x8004) (ucast (dst ! i AND 0xFFFFFFFF)),
         mmio_write_32 (dma_ch (DMACH + i) 0x8014) (ucast (drop_bit 32 (dst ! i) AND 0xFF)),
         mmio_write_32 (dma_ch (DMACH + i) 0x8000) fill_data,
         mmio_write_32 (dma_ch (DMACH + i) 0x8008) (drop_bit 6 (len ! i)),
         mmio_write_32 (dma_ch (DMACH + i) 0x800C) RDMCHCR_FILL_TRN_MODE]))))"

text \<open>One round over the channels of the wait loop, and the wait as a loop on its \<open>result\<close>.\<close>

primrec fill_round :: "nat list \<Rightarrow> u32 \<Rightarrow> u32 prog" where
  "fill_round [] result = ret result"
| "fill_round (i # is) result =
     bnd (mmio_read_32 (dma_ch (DMACH + i) 0x800C)) (\<lambda>v.
     (let result' = (if v AND RDMCHCR_TE_BIT = RDMCHCR_TE_BIT
                     then result AND NOT (push_bit i 1) else result) in
      bnd (mmio_read_32 (dma_ch (DMACH + i) 0x800C)) (\<lambda>w.
      if w AND RDMCHCR_CAE_BIT \<noteq> 0
      then bnd (seqs [ERROR (''DMA - Channel Address Error'' @ [CHR 0x0A]) [], panic]) (\<lambda>_. ret result')
      else fill_round is result')))"

definition end_fillDMA :: "nat \<Rightarrow> unit prog" where
  "end_fillDMA ch =
     bnd (while_io (bnd (fill_round [0..<ch] (push_bit ch 1 - 1)) (\<lambda>result. ret (result \<noteq> 0))) (ret ())) (\<lambda>_.
     bnd (mmio_read_32 DMA_RDMSEC) (\<lambda>reg.
     bnd (for_each [0..<ch] (\<lambda>i. mmio_write_32 DMA_RDMCHCLR (push_bit (DMACH + i) 1))) (\<lambda>_.
     mmio_write_32 DMA_RDMSEC (fold (\<lambda>i r. r AND push_bit (DMACH + i) (NOT 1)) [0..<ch] reg))))"

definition exec_fillDMA :: "u32 \<Rightarrow> u64 \<Rightarrow> u32 \<Rightarrow> unit prog" where
  "exec_fillDMA fill_data dst len =
     (let dmalen0 = (len div 4) AND NOT 63 in
      if dmalen0 = 0 then fault else
      (let rem_len = ((len mod dmalen0) + 63) AND NOT 63;
           dmadst = map (\<lambda>i. dst + ucast dmalen0 * of_nat i) [0..<4];
           dmalen = (replicate 4 dmalen0)[3 := dmalen0 + rem_len] in
       seqs [start_fillDMA fill_data dmadst dmalen 4, end_fillDMA 4]))"

definition exec_fill_sram :: "u32 \<Rightarrow> u64 \<Rightarrow> u32 \<Rightarrow> unit prog" where
  "exec_fill_sram fill_data saddr sz =
     (if ucast saddr \<le> fill_data \<and> fill_data < ucast saddr + sz
      then for_each [0..<unat (drop_bit 3 sz)]
             (\<lambda>i. mmio_write_64 (ucast (saddr + of_nat i * 8)) 0)
      else exec_fillDMA fill_data saddr sz)"

section \<open>Busy wait (micro\_wait.c)\<close>

abbreviation GLOBAL_TIMER_CLOCK :: u32 where "GLOBAL_TIMER_CLOCK \<equiv> 200"
abbreviation GLOBAL_TIMER_COUNT_L :: u32 where "GLOBAL_TIMER_COUNT_L \<equiv> 0xF0000200"

definition micro_wait :: "u32 \<Rightarrow> unit prog" where
  "micro_wait count_us s =
     bnd (mmio_read_32 GLOBAL_TIMER_COUNT_L) (\<lambda>count_init.
     (let loop_num = count_us * GLOBAL_TIMER_CLOCK in
     bnd (while_st (m_fuel s) (\<lambda>count. count < loop_num)
       (\<lambda>_. bnd (mmio_read_32 GLOBAL_TIMER_COUNT_L) (\<lambda>count. ret (count - count_init))) 0)
     (\<lambda>_. ret ()))) s"

definition get_timer_count :: "u32 prog" where
  "get_timer_count = mmio_read_32 GLOBAL_TIMER_COUNT_L"

section \<open>Copies\<close>

text \<open>
  A controller that finishes: whatever happened before, one of the loop's own reads of the channel
  status sees the end bit within the fuel, no address error is reported, and the flash interface
  reports its end.
\<close>

definition dma_finishes :: "device \<Rightarrow> nat \<Rightarrow> bool" where
  "dma_finishes d fuel \<longleftrightarrow>
     (\<forall>t. \<exists>n < fuel. d_rd32 d (poll_tr d DMA_RDMCHCR (2 * n) t) DMA_RDMCHCR AND RDMCHCR_TE_BIT \<noteq> 0) \<and>
     (\<forall>t. d_rd32 d t DMA_RDMCHCR AND RDMCHCR_CAE_BIT = 0) \<and>
     ready_32 d fuel RPC_CMNSR (\<lambda>v. v AND 1 \<noteq> 1)"

lemma poll_tr_twice: "poll_tr d a (2 * n) t = ((\<lambda>t. poll_tr d a 2 t) ^^ n) t"
proof (induction n arbitrary: t)
  case (Suc n)
  have "poll_tr d a (2 * Suc n) t = poll_tr d a (2 * n) (poll_tr d a 2 t)"
    by (simp add: numeral_2_eq_2)
  with Suc show ?case by (simp add: funpow_swap1)
qed (simp add: poll_tr_def)

lemma endDMA_run:
  assumes "dma_finishes (m_dev s) (m_fuel s)"
  shows "\<exists>t reg. endDMA s = Done () t \<and> t = s\<lparr>m_tr := m_tr t\<rparr> \<and>
    writes (m_tr t) = writes (m_tr s) @ [(DMA_RDMCHCLR, 2), (DMA_RDMSEC, reg AND NOT 2)]"
proof -
  let ?d = "m_dev s" and ?b = "bnd (mmio_read_32 DMA_RDMCHCR) (\<lambda>v. whenp (v AND RDMCHCR_CAE_BIT \<noteq> 0)
    (seqs [ERROR (''DMA - Channel Address Error'' @ [CHR 0x0A]) [], panic]))"
  let ?fin = "\<lambda>t. Rd32 DMA_RDMCHCR (d_rd32 ?d t DMA_RDMCHCR) # t"
  obtain n where loop: "while_io (polled DMA_RDMCHCR (\<lambda>v. v AND RDMCHCR_TE_BIT = 0)) ?b s
      = Done () (s\<lparr>m_tr := ?fin ((poll_tr ?d DMA_RDMCHCR 2 ^^ n) (m_tr s))\<rparr>)"
  proof -
    have "\<exists>n. while_io (polled DMA_RDMCHCR (\<lambda>v. v AND RDMCHCR_TE_BIT = 0)) ?b s
      = Done () (s\<lparr>m_tr := ?fin ((poll_tr ?d DMA_RDMCHCR 2 ^^ n) (m_tr s))\<rparr>)"
    proof (rule loop_runs [where busy = "\<lambda>t. d_rd32 ?d t DMA_RDMCHCR AND RDMCHCR_TE_BIT = 0"])
      show "\<exists>n < m_fuel s. \<not> d_rd32 ?d ((poll_tr ?d DMA_RDMCHCR 2 ^^ n) (m_tr s)) DMA_RDMCHCR AND RDMCHCR_TE_BIT = 0"
        using assms unfolding dma_finishes_def poll_tr_twice by blast
    qed (use assms in \<open>simp_all add: dma_finishes_def polled_def steps_simps ret_def numeral_2_eq_2\<close>)
    then show ?thesis using that by blast
  qed
  have loop': "bnd (while_io (polled DMA_RDMCHCR (\<lambda>v. v AND RDMCHCR_TE_BIT = 0)) ?b) f s
      = f () (s\<lparr>m_tr := ?fin ((poll_tr ?d DMA_RDMCHCR 2 ^^ n) (m_tr s))\<rparr>)" for f :: "unit \<Rightarrow> unit prog"
    by (simp only: bnd_def loop outcome.case)
  obtain N where rpc: "\<And>u. m_dev u = ?d \<Longrightarrow> m_fuel u = m_fuel s \<Longrightarrow>
      poll_32 RPC_CMNSR (\<lambda>v. v AND 1 \<noteq> 1) u = Done () (u\<lparr>m_tr := poll_tr ?d RPC_CMNSR (Suc (N u)) (m_tr u)\<rparr>)"
    using assms poll_32_runs unfolding dma_finishes_def by metis
  have w: "writes ((poll_tr ?d DMA_RDMCHCR 2 ^^ n) t) = writes t" for n t
    by (induction n) simp_all
  show ?thesis
    unfolding endDMA_def wait_endRPC_def loop'
    by (auto simp: bnd_Done [OF rpc] steps_simps w)
qed

lemma execDMA_rounds:
  assumes "unat len \<le> 0xFFFFFF00"
  defines "n \<equiv> unat (drop_bit 6 (if len AND DMA_FRACTION_MASK \<noteq> 0
      then (len + DMA_SIZE_UNIT) AND NOT DMA_FRACTION_MASK else len))"
  shows "64 * n = 256 * ((unat len + 255) div 256)"
proof -
  have m: "unat (len AND DMA_FRACTION_MASK) = unat len mod 256"
    using unat_and_mask [of len 8] by simp
  obtain k r where len: "unat len = 256 * k + r" "r < 256" and r: "unat len mod 256 = r"
    by (metis mult_div_mod_eq mod_less_divisor zero_less_numeral)
  show ?thesis
  proof (cases "len AND DMA_FRACTION_MASK = 0")
    case True
    then have "r = 0" using m r by simp
    moreover have "n = unat len div 64"
      using True by (simp add: n_def unat_drop_bit)
    ultimately show ?thesis using len by simp
  next
    case False
    then have f: "r \<noteq> 0" using m r by (metis unat_eq_zero)
    then have "k < 0xFFFFFF" using assms(1) len by linarith
    then have "unat len + 256 < 2 ^ 32" using len by simp
    then have "unat (len + DMA_SIZE_UNIT) = unat len + 256"
      by (subst unat_add_no_wrap) simp_all
    then have "unat ((len + DMA_SIZE_UNIT) AND NOT (mask 8)) = 256 * (k + 1)"
      using len by (simp only: unat_and_not_mask) simp
    moreover have "n = unat (drop_bit 6 ((len + DMA_SIZE_UNIT) AND NOT (mask 8)))"
      unfolding n_def if_P [OF False] by (simp only: mask_8_eq)
    ultimately have "n = 4 * (k + 1)" by (simp only: unat_drop_bit) simp
    moreover have "(unat len + 255) div 256 = k + 1" using len f by simp
    ultimately show ?thesis by simp
  qed
qed

lemma if_cong_imp: "(if c then P else Q) \<Longrightarrow> (c \<Longrightarrow> P \<Longrightarrow> P') \<Longrightarrow> (\<not> c \<Longrightarrow> Q \<Longrightarrow> Q') \<Longrightarrow> if c then P' else Q'"
  by (cases c) simp_all

lemma execDMA_run:
  assumes "dma_finishes (m_dev s) (m_fuel s)" and "unat len \<le> 0xFFFFFF00"
  shows "if src AND 0xFF \<noteq> 0 \<or> dst AND 0xFF \<noteq> 0
    then \<exists>t. execDMA dst src len s = Panic t \<and> writes (m_tr t) = writes (m_tr s)
    else \<exists>t n sec sec'. execDMA dst src len s = Done () t \<and> t = s\<lparr>m_tr := m_tr t\<rparr> \<and> 64 * unat n = 256 * ((unat len + 255) div 256) \<and>
      writes (m_tr t) = writes (m_tr s) @
        [(DMA_RDMSEC, sec OR 2), (DMA_RDMDAR, dst), (DMA_RDMSAR, src), (DMA_RDMTCR, n),
         (DMA_RDMCHCR, RDMCHCR_TRN_MODE), (DMA_RDMCHCLR, 2), (DMA_RDMSEC, sec' AND NOT 2)]"
proof (cases "src AND 0xFF \<noteq> 0 \<or> dst AND 0xFF \<noteq> 0")
  case True
  let ?e = "\<lambda>(f, a). seqs [ERROR f [ArgW a], panic]"
  let ?m1 = "(''DMA - Source address invalid'' @ [CHR 0x0A] @ ''      source address  = 0x%x'' @ [CHR 0x0A], src)"
  let ?m2 = "(''DMA - Destination address invalid'' @ [CHR 0x0A] @ ''      destination address = 0x%x'' @ [CHR 0x0A], dst)"
  from True have "execDMA dst src len s = (if src AND 0xFF \<noteq> 0 then ?e ?m1 s else ?e ?m2 s)"
    unfolding execDMA_def Let_def whenp_def
    by (cases "src AND 0xFF \<noteq> 0") (simp_all add: bnd_assoc panic_run)
  moreover have "\<exists>cs. ?e ?m1 s = Panic (say cs s)" "\<exists>cs. ?e ?m2 s = Panic (say cs s)"
    unfolding prod.case by (rule error_panic, simp)+
  ultimately show ?thesis using True by auto
next
  case False
  define dl where "dl = (if len AND DMA_FRACTION_MASK \<noteq> 0
    then (len + DMA_SIZE_UNIT) AND NOT DMA_FRACTION_MASK else len)"
  let ?r = "d_rd32 (m_dev s) (Wr16 DMA_RDMOR RDMOR_INITIAL # m_tr s) DMA_RDMSEC"
  define u where "u = s\<lparr>m_tr := Wr32 DMA_RDMCHCR RDMCHCR_TRN_MODE # Wr32 DMA_RDMTCR (drop_bit 6 dl) #
    Wr32 DMA_RDMSAR src # Wr32 DMA_RDMDAR dst # Wr32 DMA_RDMSEC (?r OR 2) #
    Rd32 DMA_RDMSEC ?r # Wr16 DMA_RDMOR RDMOR_INITIAL # m_tr s\<rparr>"
  obtain t reg where e: "endDMA u = Done () t" "t = u\<lparr>m_tr := m_tr t\<rparr>"
      "writes (m_tr t) = writes (m_tr u) @ [(DMA_RDMCHCLR, 2), (DMA_RDMSEC, reg AND NOT 2)]"
    using endDMA_run [of u] assms(1) by (auto simp: u_def)
  have "execDMA dst src len s = bnd endDMA ret u"
    using False by (simp add: execDMA_def startDMA_def steps_simps dl_def u_def whenp_def)
  then have "execDMA dst src len s = Done () t"
    using e(1) by (simp add: bnd_Done ret_def)
  moreover have "64 * unat (drop_bit 6 dl) = 256 * ((unat len + 255) div 256)"
    unfolding dl_def by (rule execDMA_rounds [OF assms(2)])
  ultimately show ?thesis
    unfolding if_not_P [OF False] using e(2,3) by (auto simp: u_def)
qed



section \<open>Zero fill\<close>

text \<open>
  The rounds of the wait loop on a history: \<open>round_tr\<close> is the history after one round,
  \<open>round_ok\<close> whether the round saw the end bit of every channel.
\<close>

fun round_tr :: "device \<Rightarrow> nat list \<Rightarrow> access list \<Rightarrow> access list" where
  "round_tr d [] t = t"
| "round_tr d (i # is) t = round_tr d is (poll_tr d (dma_ch (Suc i) 0x800C) 2 t)"

fun round_ok :: "device \<Rightarrow> nat list \<Rightarrow> access list \<Rightarrow> bool" where
  "round_ok d [] t \<longleftrightarrow> True"
| "round_ok d (i # is) t \<longleftrightarrow> d_rd32 d t (dma_ch (Suc i) 0x800C) AND RDMCHCR_TE_BIT = RDMCHCR_TE_BIT \<and>
     round_ok d is (poll_tr d (dma_ch (Suc i) 0x800C) 2 t)"

definition fill_finishes :: "device \<Rightarrow> nat \<Rightarrow> bool" where
  "fill_finishes d fuel \<longleftrightarrow>
     (\<forall>t. \<exists>n < fuel. round_ok d [0, 1, 2, 3] ((round_tr d [0, 1, 2, 3] ^^ n) t)) \<and>
     (\<forall>t. \<forall>i < 4. d_rd32 d t (dma_ch (Suc i) 0x800C) AND RDMCHCR_CAE_BIT = 0)"

fun round_res :: "device \<Rightarrow> nat list \<Rightarrow> u32 \<Rightarrow> access list \<Rightarrow> u32" where
  "round_res d [] res t = res"
| "round_res d (i # is) res t =
     round_res d is (if d_rd32 d t (dma_ch (Suc i) 0x800C) AND RDMCHCR_TE_BIT = RDMCHCR_TE_BIT
        then res AND NOT (push_bit i 1) else res) (poll_tr d (dma_ch (Suc i) 0x800C) 2 t)"

lemma fill_round_run:
  assumes "\<And>t i. i < 4 \<Longrightarrow> d_rd32 (m_dev s) t (dma_ch (Suc i) 0x800C) AND RDMCHCR_CAE_BIT = 0"
    and "set is \<subseteq> {..<4}"
  shows "fill_round is res s = Done (round_res (m_dev s) is res (m_tr s)) (s\<lparr>m_tr := round_tr (m_dev s) is (m_tr s)\<rparr>)"
  using assms
proof (induction "is" arbitrary: res s)
  case Nil
  then show ?case by (simp add: ret_def)
next
  case (Cons i "is")
  have "i < 4" using Cons.prems(2) by simp
  with Cons show ?case
    by (simp add: steps_simps Let_def numeral_2_eq_2)
qed

lemma round_res_zero: "round_res d [0, 1, 2, 3] 15 t = 0 \<longleftrightarrow> round_ok d [0, 1, 2, 3] t"
  by auto

lemma writes_round_tr: "writes ((round_tr d is ^^ n) t) = writes t"
proof -
  have "writes (round_tr d is t) = writes t" for t
    by (induction "is" arbitrary: t) simp_all
  then show ?thesis by (induction n) simp_all
qed

lemma end_fillDMA_run:
  assumes "fill_finishes (m_dev s) (m_fuel s)"
  shows "\<exists>t reg. end_fillDMA 4 s = Done () t \<and> t = s\<lparr>m_tr := m_tr t\<rparr> \<and>
    writes (m_tr t) = writes (m_tr s) @ [(DMA_RDMCHCLR, 2), (DMA_RDMCHCLR, 4), (DMA_RDMCHCLR, 8),
      (DMA_RDMCHCLR, 16), (DMA_RDMSEC, reg AND NOT 31)]"
proof -
  let ?d = "m_dev s" and ?chs = "[0, 1, 2, 3 :: nat]"
  let ?c = "bnd (fill_round ?chs 15) (\<lambda>result. ret (result \<noteq> 0))"
  have "\<exists>n. while_io ?c (ret ()) s = Done () (s\<lparr>m_tr := round_tr ?d ?chs ((round_tr ?d ?chs ^^ n) (m_tr s))\<rparr>)"
  proof (rule loop_runs [where busy = "\<lambda>t. \<not> round_ok ?d ?chs t"])
    show "?c (s\<lparr>m_tr := t\<rparr>) = Done (\<not> round_ok ?d ?chs t) (s\<lparr>m_tr := round_tr ?d ?chs t\<rparr>)" for t
      using fill_round_run [of "s\<lparr>m_tr := t\<rparr>" ?chs 15] assms round_res_zero [of ?d t]
      by (simp add: fill_finishes_def bnd_def ret_def del: fill_round.simps round_res.simps round_tr.simps round_ok.simps)
  qed (use assms in \<open>simp_all add: fill_finishes_def ret_def del: round_tr.simps round_ok.simps\<close>)
  then obtain n where loop: "while_io ?c (ret ()) s
      = Done () (s\<lparr>m_tr := round_tr ?d ?chs ((round_tr ?d ?chs ^^ n) (m_tr s))\<rparr>)"
    by blast
  have loop': "bnd (while_io ?c (ret ())) f s
      = f () (s\<lparr>m_tr := round_tr ?d ?chs ((round_tr ?d ?chs ^^ n) (m_tr s))\<rparr>)" for f :: "unit \<Rightarrow> unit prog"
    by (simp only: bnd_def loop outcome.case)
  have chs: "[0..<4] = ?chs" by (simp add: upt_rec)
  have m: "push_bit 4 1 - 1 = (15 :: u32)" by simp
  have w: "writes (round_tr ?d ?chs ((round_tr ?d ?chs ^^ n) t)) = writes t" for t
    using writes_round_tr [where n = "Suc n" and t = t] by (simp only: funpow.simps o_apply)
  show ?thesis
    unfolding end_fillDMA_def chs m loop'
    by (auto simp: steps_simps w [unfolded One_nat_def] and.assoc simp del: round_tr.simps)
qed

text \<open>The split of a region over the four channels.\<close>

definition fill_len0 :: "u32 \<Rightarrow> u32" where
  "fill_len0 len = (len div 4) AND NOT 63"

definition fill_rem :: "u32 \<Rightarrow> u32" where
  "fill_rem len = ((len mod fill_len0 len) + 63) AND NOT 63"

lemma unat_fill_len0: "unat (fill_len0 len) = 64 * (unat len div 256)"
proof -
  have "unat (fill_len0 len) = unat len div 4 - unat len div 4 mod 64"
    unfolding fill_len0_def mask_6_eq [symmetric] unat_and_not_mask by (simp add: unat_div)
  also have "\<dots> = 64 * (unat len div 256)"
    by (simp add: minus_mod_eq_mult_div div_mult2_eq [symmetric])
  finally show ?thesis .
qed

lemma unat_fill_rem:
  assumes "1024 \<le> unat len"
  shows "unat (fill_rem len) = 64 * ((unat len mod 256 + 63) div 64)"
proof -
  have q: "4 \<le> unat len div 256" using assms by (simp add: less_eq_div_iff_mult_less_eq)
  have lt: "unat len mod 256 < 64 * (unat len div 256)"
    using q mod_less_divisor [of 256 "unat len"] by linarith
  have "(4 * l + r) mod l = r" if "r < l" for l r :: nat
    using that by (simp add: mod_mult_self3 mult.commute)
  from this [OF lt] have "unat len mod (64 * (unat len div 256)) = unat len mod 256"
    by simp
  then have "unat (len mod fill_len0 len) = unat len mod 256"
    by (simp add: unat_mod unat_fill_len0)
  moreover have "unat len mod 256 < 256" by simp
  ultimately have "unat (len mod fill_len0 len + 63) = unat len mod 256 + 63"
    by (subst unat_add_no_wrap) simp_all
  then show ?thesis
    unfolding fill_rem_def mask_6_eq [symmetric] unat_and_not_mask by (simp add: minus_mod_eq_mult_div)
qed

lemma fill_total:
  assumes "1024 \<le> unat len"
  shows "4 * unat (fill_len0 len) + unat (fill_rem len) = 64 * ((unat len + 63) div 64)"
proof -
  have "(64 * a + b) div 64 = a + b div 64" for a b :: nat by simp
  from this [of "4 * (unat len div 256)" "unat len mod 256 + 63"]
  have "(unat len + 63) div 64 = 4 * (unat len div 256) + (unat len mod 256 + 63) div 64" by simp
  then show ?thesis using assms by (simp add: unat_fill_len0 unat_fill_rem)
qed

text \<open>The writes that program channel \<open>i\<close> for \<open>n\<close> units of 64 bytes at \<open>a\<close>.\<close>

definition fill_channel :: "u32 \<Rightarrow> nat \<Rightarrow> u64 \<Rightarrow> u32 \<Rightarrow> (u32 \<times> u32) list" where
  "fill_channel fd i a n =
     [(dma_ch (Suc i) 0x8004, ucast (a AND 0xFFFFFFFF)), (dma_ch (Suc i) 0x8014, ucast (drop_bit 32 a AND 0xFF)),
      (dma_ch (Suc i) 0x8000, fd), (dma_ch (Suc i) 0x8008, n), (dma_ch (Suc i) 0x800C, RDMCHCR_FILL_TRN_MODE)]"

lemma exec_fillDMA_run:
  assumes "fill_finishes (m_dev s) (m_fuel s)" and "fill_len0 len \<noteq> 0"
  shows "\<exists>t sec sec'. exec_fillDMA fd dst len s = Done () t \<and> t = s\<lparr>m_tr := m_tr t\<rparr> \<and>
    writes (m_tr t) = writes (m_tr s) @ [(DMA_RDMSEC, sec OR 30)] @
      fill_channel fd 0 dst (drop_bit 6 (fill_len0 len)) @
      fill_channel fd 1 (dst + ucast (fill_len0 len)) (drop_bit 6 (fill_len0 len)) @
      fill_channel fd 2 (dst + ucast (fill_len0 len) * 2) (drop_bit 6 (fill_len0 len)) @
      fill_channel fd 3 (dst + ucast (fill_len0 len) * 3) (drop_bit 6 (fill_len0 len + fill_rem len)) @
      [(DMA_RDMCHCLR, 2), (DMA_RDMCHCLR, 4), (DMA_RDMCHCLR, 8), (DMA_RDMCHCLR, 16), (DMA_RDMSEC, sec' AND NOT 31)]"
proof -
  let ?l = "fill_len0 len" and ?m = "fill_rem len"
  let ?dsts = "map (\<lambda>i. dst + ucast ?l * of_nat i) [0..<4]" and ?lens = "(replicate 4 ?l)[3 := ?l + ?m]"
  have chs: "[0..<4] = [0, 1, 2, 3 :: nat]" by (simp add: upt_rec)
  have "\<exists>u sec. start_fillDMA fd ?dsts ?lens 4 s = Done () u \<and> u = s\<lparr>m_tr := m_tr u\<rparr> \<and>
    writes (m_tr u) = writes (m_tr s) @ [(DMA_RDMSEC, sec OR 30)] @
      fill_channel fd 0 dst (drop_bit 6 ?l) @ fill_channel fd 1 (dst + ucast ?l) (drop_bit 6 ?l) @
      fill_channel fd 2 (dst + ucast ?l * 2) (drop_bit 6 ?l) @
      fill_channel fd 3 (dst + ucast ?l * 3) (drop_bit 6 (?l + ?m))"
    unfolding start_fillDMA_def chs
    by (auto simp: steps_simps fill_channel_def numeral_eq_Suc ret_def or.assoc)
  then obtain u sec where u: "start_fillDMA fd ?dsts ?lens 4 s = Done () u" "u = s\<lparr>m_tr := m_tr u\<rparr>"
    "writes (m_tr u) = writes (m_tr s) @ [(DMA_RDMSEC, sec OR 30)] @
      fill_channel fd 0 dst (drop_bit 6 ?l) @ fill_channel fd 1 (dst + ucast ?l) (drop_bit 6 ?l) @
      fill_channel fd 2 (dst + ucast ?l * 2) (drop_bit 6 ?l) @
      fill_channel fd 3 (dst + ucast ?l * 3) (drop_bit 6 (?l + ?m))"
    by blast
  have "m_dev u = m_dev s" "m_fuel u = m_fuel s" using u(2) by (metis machine.select_convs machine.surjective machine.update_convs(3))+
  then obtain t sec' where t: "end_fillDMA 4 u = Done () t" "t = u\<lparr>m_tr := m_tr t\<rparr>"
    "writes (m_tr t) = writes (m_tr u) @ [(DMA_RDMCHCLR, 2), (DMA_RDMCHCLR, 4), (DMA_RDMCHCLR, 8),
      (DMA_RDMCHCLR, 16), (DMA_RDMSEC, sec' AND NOT 31)]"
    using end_fillDMA_run [of u] assms(1) by auto
  have "exec_fillDMA fd dst len s = seqs [start_fillDMA fd ?dsts ?lens 4, end_fillDMA 4] s"
    using assms(2) by (simp only: exec_fillDMA_def fill_len0_def fill_rem_def Let_def if_False)
  then have "exec_fillDMA fd dst len s = Done () t"
    by (simp add: bnd_def u(1) t(1) ret_def)
  moreover have "t = s\<lparr>m_tr := m_tr t\<rparr>" using u(2) t(2) by (metis machine.update_convs(3) machine.surjective)
  ultimately show ?thesis using u(3) t(3) by auto
qed

text \<open>
  \<open>fills fd dst len ws\<close>: the writes \<open>ws\<close> program four channels whose regions start at \<open>dst\<close>,
  follow each other without gap or overlap and together cover \<open>len\<close> rounded up to 64 bytes.
\<close>

definition fills :: "u32 \<Rightarrow> u64 \<Rightarrow> u32 \<Rightarrow> (u32 \<times> u32) list \<Rightarrow> bool" where
  "fills fd dst len ws \<longleftrightarrow> (\<exists>ds ns sec sec'. length ds = 4 \<and> length ns = 4 \<and>
      ws = [(DMA_RDMSEC, sec OR 30)] @ concat (map (\<lambda>i. fill_channel fd i (ds ! i) (ns ! i)) [0..<4]) @
        [(DMA_RDMCHCLR, 2), (DMA_RDMCHCLR, 4), (DMA_RDMCHCLR, 8), (DMA_RDMCHCLR, 16), (DMA_RDMSEC, sec' AND NOT 31)] \<and>
      ds ! 0 = dst \<and> (\<forall>i < 3. ds ! Suc i = ds ! i + 64 * ucast (ns ! i)) \<and>
      64 * sum_list (map unat ns) = 64 * ((unat len + 63) div 64))"

lemma exec_fillDMA_fills:
  assumes "fill_finishes (m_dev s) (m_fuel s)" and len: "1024 \<le> unat len"
  shows "\<exists>t ws. exec_fillDMA fd dst len s = Done () t \<and> t = s\<lparr>m_tr := m_tr t\<rparr> \<and>
    writes (m_tr t) = writes (m_tr s) @ ws \<and> fills fd dst len ws"
proof -
  let ?l = "fill_len0 len" and ?m = "fill_rem len"
  let ?n = "drop_bit 6 ?l" and ?n' = "drop_bit 6 (?l + ?m)"
  have l: "unat ?l = 64 * (unat len div 256)" by (rule unat_fill_len0)
  then have l0: "256 \<le> unat ?l" using len by (simp add: less_eq_div_iff_mult_less_eq)
  then have "?l \<noteq> 0" by auto
  from exec_fillDMA_run [OF assms(1) this] obtain t sec sec' where
    t: "exec_fillDMA fd dst len s = Done () t" "t = s\<lparr>m_tr := m_tr t\<rparr>"
      "writes (m_tr t) = writes (m_tr s) @ [(DMA_RDMSEC, sec OR 30)] @
      fill_channel fd 0 dst ?n @ fill_channel fd 1 (dst + ucast ?l) ?n @
      fill_channel fd 2 (dst + ucast ?l * 2) ?n @ fill_channel fd 3 (dst + ucast ?l * 3) ?n' @
      [(DMA_RDMCHCLR, 2), (DMA_RDMCHCLR, 4), (DMA_RDMCHCLR, 8), (DMA_RDMCHCLR, 16), (DMA_RDMSEC, sec' AND NOT 31)]"
    by blast
  have n: "unat ?n = unat len div 256" by (simp add: unat_drop_bit l)
  have n64: "64 * ucast ?n = (ucast ?l :: u64)"
    by (metis l n of_nat_mult of_nat_numeral unsigned_eq_of_nat)
  have tot: "4 * unat ?l + unat ?m = 64 * ((unat len + 63) div 64)" by (rule fill_total [OF len])
  have "unat len < 2 ^ 32" using unsigned_less [of len] by simp
  moreover have "64 * ((unat len + 63) div 64) \<le> unat len + 63" by (rule times_div_less_eq_dividend)
  ultimately have "unat ?l + unat ?m < 2 ^ 32" using tot l0 by linarith
  then have "unat (?l + ?m) = unat ?l + unat ?m" by (subst unat_add_no_wrap) simp_all
  then have n': "unat ?n' = unat len div 256 + (unat len mod 256 + 63) div 64"
    by (simp add: unat_drop_bit l unat_fill_rem [OF len])
  let ?ds = "[dst, dst + ucast ?l, dst + ucast ?l * 2, dst + ucast ?l * 3]" and ?ns = "[?n, ?n, ?n, ?n']"
  have "\<forall>i < 3. ?ds ! Suc i = ?ds ! i + 64 * ucast (?ns ! i)"
    by (simp add: n64 less_Suc_eq numeral_3_eq_3 all_conj_distrib)
  moreover have "64 * sum_list (map unat ?ns) = 64 * ((unat len + 63) div 64)"
    using tot by (simp add: n n' l unat_fill_rem [OF len])
  moreover have "concat (map (\<lambda>i. fill_channel fd i (?ds ! i) (?ns ! i)) [0..<4]) =
      fill_channel fd 0 dst ?n @ fill_channel fd 1 (dst + ucast ?l) ?n @
      fill_channel fd 2 (dst + ucast ?l * 2) ?n @ fill_channel fd 3 (dst + ucast ?l * 3) ?n'"
    by (simp add: upt_rec numeral_2_eq_2 numeral_3_eq_3)
  ultimately have "fills fd dst len ([(DMA_RDMSEC, sec OR 30)] @
      fill_channel fd 0 dst ?n @ fill_channel fd 1 (dst + ucast ?l) ?n @
      fill_channel fd 2 (dst + ucast ?l * 2) ?n @ fill_channel fd 3 (dst + ucast ?l * 3) ?n' @
      [(DMA_RDMCHCLR, 2), (DMA_RDMCHCLR, 4), (DMA_RDMCHCLR, 8), (DMA_RDMCHCLR, 16), (DMA_RDMSEC, sec' AND NOT 31)])"
    unfolding fills_def by (intro exI [of _ ?ds] exI [of _ ?ns] exI [of _ sec] exI [of _ sec']) (simp only:, simp)
  with t show ?thesis by blast
qed

text \<open>
  Property C11 (exec_fillDMA_covers): for a region of at least 1 KiB, with controllers that finish,
  the fill returns and has only programmed four channels that tile the region from its start to
  its end rounded up to 64 bytes; below 256 bytes the code divides by zero.
\<close>

theorem exec_fillDMA_covers:
  assumes "fill_finishes (m_dev s) (m_fuel s)"
  shows "(1024 \<le> unat len \<longrightarrow>
    (\<exists>t ws. exec_fillDMA fd dst len s = Done () t \<and> writes (m_tr t) = writes (m_tr s) @ ws \<and> fills fd dst len ws))
   \<and> (unat len < 256 \<longrightarrow> exec_fillDMA fd dst len s = Fault s)"
proof (intro conjI impI)
  assume "1024 \<le> unat len"
  with exec_fillDMA_fills [OF assms] show "\<exists>t ws. exec_fillDMA fd dst len s = Done () t \<and>
      writes (m_tr t) = writes (m_tr s) @ ws \<and> fills fd dst len ws"
    by blast
next
  assume "unat len < 256"
  then have "unat (fill_len0 len) = 0" by (simp add: unat_fill_len0)
  then have "fill_len0 len = 0" by (simp add: unat_eq_zero)
  then show "exec_fillDMA fd dst len s = Fault s"
    by (simp only: exec_fillDMA_def fill_len0_def Let_def if_True fault_def simp_thms)
qed

text \<open>Witness: 64 KiB at the start of the DRAM, on a controller whose end bits are set.\<close>

theorem exec_fillDMA_witness:
  "\<exists>t. exec_fillDMA 0xE6302000 0x40000000 0x10000 (boot_machine (const_device 3) 1) = Done () t \<and>
     fills 0xE6302000 0x40000000 0x10000 (writes (m_tr t))"
proof -
  have "fill_finishes (const_device 3) 1"
    by (simp add: fill_finishes_def const_device_def)
  then show ?thesis
    using exec_fillDMA_covers [where s = "boot_machine (const_device 3) 1" and len = "0x10000"
      and dst = "0x40000000" and fd = "0xE6302000"]
    by (auto simp: boot_machine_def)
qed

section \<open>Busy wait\<close>

text \<open>
  The free-running timer: its \<open>n\<close>-th read gives \<open>clk n\<close>, at the register's 32 bits; it advances
  between reads, by at most half its range.
\<close>

fun timer_reads :: "access list \<Rightarrow> nat" where
  "timer_reads [] = 0"
| "timer_reads (Rd32 a v # t) = (if a = GLOBAL_TIMER_COUNT_L then Suc (timer_reads t) else timer_reads t)"
| "timer_reads (_ # t) = timer_reads t"

definition timer :: "device \<Rightarrow> (nat \<Rightarrow> nat) \<Rightarrow> bool" where
  "timer d clk \<longleftrightarrow> (\<forall>t. d_rd32 d t GLOBAL_TIMER_COUNT_L = of_nat (clk (timer_reads t))) \<and>
     (\<forall>n. clk n < clk (Suc n) \<and> clk (Suc n) \<le> clk n + 2 ^ 31)"

lemma unat_elapsed: "n < 2 ^ 32 \<Longrightarrow> unat (of_nat n :: u32) = n"
  by (simp add: unat_of_nat take_bit_eq_mod)

lemma clk_mono: "timer d clk \<Longrightarrow> clk n \<le> clk (n + k)"
  by (rule lift_Suc_mono_le) (auto simp: timer_def intro: less_imp_le)

lemma wait_loop:
  assumes "timer (m_dev s) clk" and "timer_reads (m_tr s) = Suc (b + m)"
    and "L < 2 ^ 31" and "clk (b + m) - clk b < 2 ^ 32" and "L \<le> clk (b + m) - clk b + fuel"
  shows "\<exists>c t n. while_st (Suc fuel) (\<lambda>count. count < of_nat L)
       (\<lambda>_. bnd (mmio_read_32 GLOBAL_TIMER_COUNT_L) (\<lambda>c. ret (c - of_nat (clk b))))
       (of_nat (clk (b + m) - clk b)) s = Done c t \<and>
     t = s\<lparr>m_tr := m_tr t\<rparr> \<and> writes (m_tr t) = writes (m_tr s) \<and>
     timer_reads (m_tr t) = Suc n \<and> clk b + L \<le> clk n"
  using assms
proof (induction fuel arbitrary: m s)
  case 0
  then have "unat (of_nat L :: u32) \<le> unat (of_nat (clk (b + m) - clk b) :: u32)"
    by (simp add: unat_elapsed)
  then show ?case
    using 0 clk_mono [OF 0(1), of b m] by (auto simp: word_less_nat_alt ret_def)
next
  case (Suc fuel)
  show ?case
  proof (cases "L \<le> clk (b + m) - clk b")
    case True
    then have "unat (of_nat L :: u32) \<le> unat (of_nat (clk (b + m) - clk b) :: u32)"
      using Suc.prems by (simp add: unat_elapsed)
    then show ?thesis
      using True Suc.prems clk_mono [OF Suc.prems(1), of b m]
      by (auto simp: word_less_nat_alt ret_def)
  next
    case False
    let ?v = "of_nat (clk (Suc (b + m))) :: u32"
    let ?s = "s\<lparr>m_tr := Rd32 GLOBAL_TIMER_COUNT_L ?v # m_tr s\<rparr>"
    have step: "clk (b + m) < clk (Suc (b + m))" "clk (Suc (b + m)) \<le> clk (b + m) + 2 ^ 31"
      using Suc.prems(1) by (auto simp: timer_def)
    have v: "?v - of_nat (clk b) = of_nat (clk (b + Suc m) - clk b)"
      using clk_mono [OF Suc.prems(1), of b "Suc m"] by (simp add: of_nat_diff)
    have "unat (of_nat (clk (b + m) - clk b) :: u32) < unat (of_nat L :: u32)"
      using False Suc.prems by (simp add: unat_elapsed)
    then have "while_st (Suc (Suc fuel)) (\<lambda>count. count < of_nat L)
         (\<lambda>_. bnd (mmio_read_32 GLOBAL_TIMER_COUNT_L) (\<lambda>c. ret (c - of_nat (clk b))))
         (of_nat (clk (b + m) - clk b)) s
       = while_st (Suc fuel) (\<lambda>count. count < of_nat L)
         (\<lambda>_. bnd (mmio_read_32 GLOBAL_TIMER_COUNT_L) (\<lambda>c. ret (c - of_nat (clk b))))
         (of_nat (clk (b + Suc m) - clk b)) ?s"
      using Suc.prems(1,2) v
      by (subst while_st.simps(2)) (simp add: word_less_nat_alt steps_simps timer_def del: while_st.simps)
    moreover have "timer (m_dev ?s) clk" "timer_reads (m_tr ?s) = Suc (b + Suc m)"
      using Suc.prems by simp_all
    moreover have "clk (b + Suc m) - clk b < 2 ^ 32" "L \<le> clk (b + Suc m) - clk b + fuel"
      using Suc.prems(3-5) step False clk_mono [OF Suc.prems(1), of b m] by simp_all
    ultimately show ?thesis
      using Suc.IH [of ?s "Suc m"] Suc.prems(3) by (auto simp del: while_st.simps)
  qed
qed

lemma micro_wait_run:
  assumes "timer (m_dev s) clk" and "unat us \<le> 10000000" and "200 * unat us < m_fuel s"
  shows "\<exists>t n. micro_wait us s = Done () t \<and> t = s\<lparr>m_tr := m_tr t\<rparr> \<and> writes (m_tr t) = writes (m_tr s) \<and>
    timer_reads (m_tr t) = Suc n \<and> clk (timer_reads (m_tr s)) + 200 * unat us \<le> clk n"
proof -
  let ?b = "timer_reads (m_tr s)" and ?L = "200 * unat us"
  let ?s = "s\<lparr>m_tr := Rd32 GLOBAL_TIMER_COUNT_L (of_nat (clk ?b)) # m_tr s\<rparr>"
  obtain f where f: "m_fuel s = Suc f" using assms(3) by (cases "m_fuel s") auto
  have L: "us * GLOBAL_TIMER_CLOCK = of_nat ?L"
    by (simp add: mult.commute)
  have "\<exists>c t n. while_st (Suc f) (\<lambda>count. count < of_nat ?L)
       (\<lambda>_. bnd (mmio_read_32 GLOBAL_TIMER_COUNT_L) (\<lambda>c. ret (c - of_nat (clk ?b))))
       (of_nat (clk (?b + 0) - clk ?b)) ?s = Done c t \<and>
     t = ?s\<lparr>m_tr := m_tr t\<rparr> \<and> writes (m_tr t) = writes (m_tr ?s) \<and>
     timer_reads (m_tr t) = Suc n \<and> clk ?b + ?L \<le> clk n"
    by (rule wait_loop) (use assms f in simp_all)
  then show ?thesis
    unfolding micro_wait_def L Let_def bnd_read_32 f
    using assms(1) by (fastforce simp: timer_def bnd_def ret_def simp del: while_st.simps)
qed

text \<open>
  Property C21 (micro_wait_correct): on a free-running timer, \<^verbatim>\<open>micro_wait\<close> returns for every
  request up to the ten seconds its comment allows, and the last timer value it has read is at
  least the requested number of microseconds (at 200 ticks each) after the first one.
\<close>

theorem micro_wait_correct:
  assumes "timer (m_dev s) clk" and "unat us \<le> 10000000" and "200 * unat us < m_fuel s"
  shows "\<exists>t n. micro_wait us s = Done () t \<and> writes (m_tr t) = writes (m_tr s) \<and>
    timer_reads (m_tr t) = Suc n \<and> clk (timer_reads (m_tr s)) + 200 * unat us \<le> clk n"
  using micro_wait_run [OF assms] by blast

text \<open>Witness: a timer that advances by one tick per read, and a wait of one microsecond.\<close>

theorem micro_wait_witness:
  "\<exists>t n. micro_wait 1 (boot_machine ((const_device 0)\<lparr>d_rd32 := \<lambda>t _. of_nat (timer_reads t)\<rparr>) 1000) = Done () t \<and>
     timer_reads (m_tr t) = Suc n \<and> 200 \<le> n"
  using micro_wait_correct [of "boot_machine ((const_device 0)\<lparr>d_rd32 := \<lambda>t _. of_nat (timer_reads t)\<rparr>) 1000"
      "\<lambda>n. n" 1]
  by (auto simp: boot_machine_def timer_def)

end
