(* ===== verification/Protect.thy ===== *)
theory Protect
  imports Dma
begin

text \<open>
  The access protection set up at boot: the security group tables of
  \<^verbatim>\<open>CortexR7_Loader/common/lifec_init.c\<close> and the SRAM and DRAM area tables of
  \<^verbatim>\<open>common/protection_setting.c\<close>. The register addresses are those of \<^verbatim>\<open>include/lifec_register.h\<close>
  and \<^verbatim>\<open>include/axi_register.h\<close>.
\<close>

abbreviation SEC_SRC :: u32 where "SEC_SRC \<equiv> 0xE6110008"
abbreviation SEC_GRP0CR2 :: u32 where "SEC_GRP0CR2 \<equiv> 0xE6110148"
abbreviation SEC_GRP1CR2 :: u32 where "SEC_GRP1CR2 \<equiv> 0xE611014C"
abbreviation SAFE_GRP0CR2 :: u32 where "SAFE_GRP0CR2 \<equiv> 0xE6120148"
abbreviation SAFE_GRP1CR2 :: u32 where "SAFE_GRP1CR2 \<equiv> 0xE612014C"
abbreviation SEC_GRP0CR0 :: u32 where "SEC_GRP0CR0 \<equiv> 0xE6110138"
abbreviation SEC_GRP1CR0 :: u32 where "SEC_GRP1CR0 \<equiv> 0xE611013C"
abbreviation SAFE_GRP0CR0 :: u32 where "SAFE_GRP0CR0 \<equiv> 0xE6120138"
abbreviation SAFE_GRP1CR0 :: u32 where "SAFE_GRP1CR0 \<equiv> 0xE612013C"
abbreviation SEC_GRP0CR1 :: u32 where "SEC_GRP0CR1 \<equiv> 0xE6110140"
abbreviation SEC_GRP1CR1 :: u32 where "SEC_GRP1CR1 \<equiv> 0xE6110144"
abbreviation SAFE_GRP0CR1 :: u32 where "SAFE_GRP0CR1 \<equiv> 0xE6120140"
abbreviation SAFE_GRP1CR1 :: u32 where "SAFE_GRP1CR1 \<equiv> 0xE6120144"
abbreviation SEC_GRP0CR3 :: u32 where "SEC_GRP0CR3 \<equiv> 0xE6110150"
abbreviation SEC_GRP1CR3 :: u32 where "SEC_GRP1CR3 \<equiv> 0xE6110154"
abbreviation SAFE_GRP0CR3 :: u32 where "SAFE_GRP0CR3 \<equiv> 0xE6120150"
abbreviation SAFE_GRP1CR3 :: u32 where "SAFE_GRP1CR3 \<equiv> 0xE6120154"
abbreviation SEC_SEL0 :: u32 where "SEC_SEL0 \<equiv> 0xE6110030"
abbreviation SEC_GRP0COND0 :: u32 where "SEC_GRP0COND0 \<equiv> 0xE6110158"
abbreviation SEC_GRP1COND0 :: u32 where "SEC_GRP1COND0 \<equiv> 0xE611015C"
abbreviation SEC_READONLY0 :: u32 where "SEC_READONLY0 \<equiv> 0xE61101D8"
abbreviation SAFE_GRP0COND0 :: u32 where "SAFE_GRP0COND0 \<equiv> 0xE6120158"
abbreviation SAFE_GRP1COND0 :: u32 where "SAFE_GRP1COND0 \<equiv> 0xE612015C"
abbreviation SAFE_READONLY0 :: u32 where "SAFE_READONLY0 \<equiv> 0xE61201D8"
abbreviation SEC_SEL1 :: u32 where "SEC_SEL1 \<equiv> 0xE6110034"
abbreviation SEC_GRP0COND1 :: u32 where "SEC_GRP0COND1 \<equiv> 0xE6110160"
abbreviation SEC_GRP1COND1 :: u32 where "SEC_GRP1COND1 \<equiv> 0xE6110164"
abbreviation SEC_READONLY1 :: u32 where "SEC_READONLY1 \<equiv> 0xE61101DC"
abbreviation SAFE_GRP0COND1 :: u32 where "SAFE_GRP0COND1 \<equiv> 0xE6120160"
abbreviation SAFE_GRP1COND1 :: u32 where "SAFE_GRP1COND1 \<equiv> 0xE6120164"
abbreviation SAFE_READONLY1 :: u32 where "SAFE_READONLY1 \<equiv> 0xE61201DC"
abbreviation SEC_SEL2 :: u32 where "SEC_SEL2 \<equiv> 0xE6110038"
abbreviation SEC_GRP0COND2 :: u32 where "SEC_GRP0COND2 \<equiv> 0xE6110168"
abbreviation SEC_GRP1COND2 :: u32 where "SEC_GRP1COND2 \<equiv> 0xE611016C"
abbreviation SEC_READONLY2 :: u32 where "SEC_READONLY2 \<equiv> 0xE61101E0"
abbreviation SAFE_GRP0COND2 :: u32 where "SAFE_GRP0COND2 \<equiv> 0xE6120168"
abbreviation SAFE_GRP1COND2 :: u32 where "SAFE_GRP1COND2 \<equiv> 0xE612016C"
abbreviation SAFE_READONLY2 :: u32 where "SAFE_READONLY2 \<equiv> 0xE61201E0"
abbreviation SEC_SEL3 :: u32 where "SEC_SEL3 \<equiv> 0xE611003C"
abbreviation SEC_GRP0COND3 :: u32 where "SEC_GRP0COND3 \<equiv> 0xE6110170"
abbreviation SEC_GRP1COND3 :: u32 where "SEC_GRP1COND3 \<equiv> 0xE6110174"
abbreviation SEC_READONLY3 :: u32 where "SEC_READONLY3 \<equiv> 0xE61101E4"
abbreviation SAFE_GRP0COND3 :: u32 where "SAFE_GRP0COND3 \<equiv> 0xE6120170"
abbreviation SAFE_GRP1COND3 :: u32 where "SAFE_GRP1COND3 \<equiv> 0xE6120174"
abbreviation SAFE_READONLY3 :: u32 where "SAFE_READONLY3 \<equiv> 0xE61201E4"
abbreviation SEC_SEL4 :: u32 where "SEC_SEL4 \<equiv> 0xE6110058"
abbreviation SEC_GRP0COND4 :: u32 where "SEC_GRP0COND4 \<equiv> 0xE6110178"
abbreviation SEC_GRP1COND4 :: u32 where "SEC_GRP1COND4 \<equiv> 0xE611017C"
abbreviation SEC_READONLY4 :: u32 where "SEC_READONLY4 \<equiv> 0xE61101E8"
abbreviation SAFE_GRP0COND4 :: u32 where "SAFE_GRP0COND4 \<equiv> 0xE6120178"
abbreviation SAFE_GRP1COND4 :: u32 where "SAFE_GRP1COND4 \<equiv> 0xE612017C"
abbreviation SAFE_READONLY4 :: u32 where "SAFE_READONLY4 \<equiv> 0xE61201E8"
abbreviation SEC_SEL5 :: u32 where "SEC_SEL5 \<equiv> 0xE611005C"
abbreviation SEC_GRP0COND5 :: u32 where "SEC_GRP0COND5 \<equiv> 0xE6110180"
abbreviation SEC_GRP1COND5 :: u32 where "SEC_GRP1COND5 \<equiv> 0xE6110184"
abbreviation SEC_READONLY5 :: u32 where "SEC_READONLY5 \<equiv> 0xE61101EC"
abbreviation SAFE_GRP0COND5 :: u32 where "SAFE_GRP0COND5 \<equiv> 0xE6120180"
abbreviation SAFE_GRP1COND5 :: u32 where "SAFE_GRP1COND5 \<equiv> 0xE6120184"
abbreviation SAFE_READONLY5 :: u32 where "SAFE_READONLY5 \<equiv> 0xE61201EC"
abbreviation SEC_SEL6 :: u32 where "SEC_SEL6 \<equiv> 0xE6110060"
abbreviation SEC_GRP0COND6 :: u32 where "SEC_GRP0COND6 \<equiv> 0xE6110188"
abbreviation SEC_GRP1COND6 :: u32 where "SEC_GRP1COND6 \<equiv> 0xE611018C"
abbreviation SEC_READONLY6 :: u32 where "SEC_READONLY6 \<equiv> 0xE61101F0"
abbreviation SAFE_GRP0COND6 :: u32 where "SAFE_GRP0COND6 \<equiv> 0xE6120188"
abbreviation SAFE_GRP1COND6 :: u32 where "SAFE_GRP1COND6 \<equiv> 0xE612018C"
abbreviation SAFE_READONLY6 :: u32 where "SAFE_READONLY6 \<equiv> 0xE61201F0"
abbreviation SEC_SEL7 :: u32 where "SEC_SEL7 \<equiv> 0xE6110064"
abbreviation SEC_GRP0COND7 :: u32 where "SEC_GRP0COND7 \<equiv> 0xE6110190"
abbreviation SEC_GRP1COND7 :: u32 where "SEC_GRP1COND7 \<equiv> 0xE6110194"
abbreviation SEC_READONLY7 :: u32 where "SEC_READONLY7 \<equiv> 0xE61101F4"
abbreviation SAFE_GRP0COND7 :: u32 where "SAFE_GRP0COND7 \<equiv> 0xE6120190"
abbreviation SAFE_GRP1COND7 :: u32 where "SAFE_GRP1COND7 \<equiv> 0xE6120194"
abbreviation SAFE_READONLY7 :: u32 where "SAFE_READONLY7 \<equiv> 0xE61201F4"
abbreviation SEC_SEL8 :: u32 where "SEC_SEL8 \<equiv> 0xE6110068"
abbreviation SEC_GRP0COND8 :: u32 where "SEC_GRP0COND8 \<equiv> 0xE6110198"
abbreviation SEC_GRP1COND8 :: u32 where "SEC_GRP1COND8 \<equiv> 0xE611019C"
abbreviation SEC_READONLY8 :: u32 where "SEC_READONLY8 \<equiv> 0xE61101F8"
abbreviation SAFE_GRP0COND8 :: u32 where "SAFE_GRP0COND8 \<equiv> 0xE6120198"
abbreviation SAFE_GRP1COND8 :: u32 where "SAFE_GRP1COND8 \<equiv> 0xE612019C"
abbreviation SAFE_READONLY8 :: u32 where "SAFE_READONLY8 \<equiv> 0xE61201F8"
abbreviation SEC_SEL9 :: u32 where "SEC_SEL9 \<equiv> 0xE611006C"
abbreviation SEC_GRP0COND9 :: u32 where "SEC_GRP0COND9 \<equiv> 0xE61101A0"
abbreviation SEC_GRP1COND9 :: u32 where "SEC_GRP1COND9 \<equiv> 0xE61101A4"
abbreviation SEC_READONLY9 :: u32 where "SEC_READONLY9 \<equiv> 0xE61101FC"
abbreviation SAFE_GRP0COND9 :: u32 where "SAFE_GRP0COND9 \<equiv> 0xE61201A0"
abbreviation SAFE_GRP1COND9 :: u32 where "SAFE_GRP1COND9 \<equiv> 0xE61201A4"
abbreviation SAFE_READONLY9 :: u32 where "SAFE_READONLY9 \<equiv> 0xE61201FC"
abbreviation SEC_SEL10 :: u32 where "SEC_SEL10 \<equiv> 0xE6110070"
abbreviation SEC_GRP0COND10 :: u32 where "SEC_GRP0COND10 \<equiv> 0xE61101A8"
abbreviation SEC_GRP1COND10 :: u32 where "SEC_GRP1COND10 \<equiv> 0xE61101AC"
abbreviation SEC_READONLY10 :: u32 where "SEC_READONLY10 \<equiv> 0xE6110200"
abbreviation SAFE_GRP0COND10 :: u32 where "SAFE_GRP0COND10 \<equiv> 0xE61201A8"
abbreviation SAFE_GRP1COND10 :: u32 where "SAFE_GRP1COND10 \<equiv> 0xE61201AC"
abbreviation SAFE_READONLY10 :: u32 where "SAFE_READONLY10 \<equiv> 0xE6120200"
abbreviation SEC_SEL11 :: u32 where "SEC_SEL11 \<equiv> 0xE6110074"
abbreviation SEC_GRP0COND11 :: u32 where "SEC_GRP0COND11 \<equiv> 0xE61101B0"
abbreviation SEC_GRP1COND11 :: u32 where "SEC_GRP1COND11 \<equiv> 0xE61101B4"
abbreviation SEC_READONLY11 :: u32 where "SEC_READONLY11 \<equiv> 0xE6110204"
abbreviation SAFE_GRP0COND11 :: u32 where "SAFE_GRP0COND11 \<equiv> 0xE61201B0"
abbreviation SAFE_GRP1COND11 :: u32 where "SAFE_GRP1COND11 \<equiv> 0xE61201B4"
abbreviation SAFE_READONLY11 :: u32 where "SAFE_READONLY11 \<equiv> 0xE6120204"
abbreviation SEC_SEL12 :: u32 where "SEC_SEL12 \<equiv> 0xE6110078"
abbreviation SEC_GRP0COND12 :: u32 where "SEC_GRP0COND12 \<equiv> 0xE61101B8"
abbreviation SEC_GRP1COND12 :: u32 where "SEC_GRP1COND12 \<equiv> 0xE61101BC"
abbreviation SEC_READONLY12 :: u32 where "SEC_READONLY12 \<equiv> 0xE6110208"
abbreviation SAFE_GRP0COND12 :: u32 where "SAFE_GRP0COND12 \<equiv> 0xE61201B8"
abbreviation SAFE_GRP1COND12 :: u32 where "SAFE_GRP1COND12 \<equiv> 0xE61201BC"
abbreviation SAFE_READONLY12 :: u32 where "SAFE_READONLY12 \<equiv> 0xE6120208"
abbreviation SEC_SEL13 :: u32 where "SEC_SEL13 \<equiv> 0xE611007C"
abbreviation SEC_GRP0COND13 :: u32 where "SEC_GRP0COND13 \<equiv> 0xE61101C0"
abbreviation SEC_GRP1COND13 :: u32 where "SEC_GRP1COND13 \<equiv> 0xE61101C4"
abbreviation SEC_READONLY13 :: u32 where "SEC_READONLY13 \<equiv> 0xE611020C"
abbreviation SAFE_GRP0COND13 :: u32 where "SAFE_GRP0COND13 \<equiv> 0xE61201C0"
abbreviation SAFE_GRP1COND13 :: u32 where "SAFE_GRP1COND13 \<equiv> 0xE61201C4"
abbreviation SAFE_READONLY13 :: u32 where "SAFE_READONLY13 \<equiv> 0xE612020C"
abbreviation SEC_SEL14 :: u32 where "SEC_SEL14 \<equiv> 0xE6110080"
abbreviation SEC_GRP0COND14 :: u32 where "SEC_GRP0COND14 \<equiv> 0xE61101C8"
abbreviation SEC_GRP1COND14 :: u32 where "SEC_GRP1COND14 \<equiv> 0xE61101CC"
abbreviation SEC_READONLY14 :: u32 where "SEC_READONLY14 \<equiv> 0xE6110210"
abbreviation SAFE_GRP0COND14 :: u32 where "SAFE_GRP0COND14 \<equiv> 0xE61201C8"
abbreviation SAFE_GRP1COND14 :: u32 where "SAFE_GRP1COND14 \<equiv> 0xE61201CC"
abbreviation SAFE_READONLY14 :: u32 where "SAFE_READONLY14 \<equiv> 0xE6120210"
abbreviation SEC_SEL15 :: u32 where "SEC_SEL15 \<equiv> 0xE6110084"
abbreviation SEC_GRP0COND15 :: u32 where "SEC_GRP0COND15 \<equiv> 0xE61101D0"
abbreviation SEC_GRP1COND15 :: u32 where "SEC_GRP1COND15 \<equiv> 0xE61101D4"
abbreviation SEC_READONLY15 :: u32 where "SEC_READONLY15 \<equiv> 0xE6110214"
abbreviation SAFE_GRP0COND15 :: u32 where "SAFE_GRP0COND15 \<equiv> 0xE61201D0"
abbreviation SAFE_GRP1COND15 :: u32 where "SAFE_GRP1COND15 \<equiv> 0xE61201D4"
abbreviation SAFE_READONLY15 :: u32 where "SAFE_READONLY15 \<equiv> 0xE6120214"
abbreviation AXI_DPTDIVCR0 :: u32 where "AXI_DPTDIVCR0 \<equiv> 0xE6784400"
abbreviation AXI_DPTDIVCR1 :: u32 where "AXI_DPTDIVCR1 \<equiv> 0xE6784404"
abbreviation AXI_DPTDIVCR2 :: u32 where "AXI_DPTDIVCR2 \<equiv> 0xE6784408"
abbreviation AXI_DPTDIVCR3 :: u32 where "AXI_DPTDIVCR3 \<equiv> 0xE678440C"
abbreviation AXI_DPTDIVCR4 :: u32 where "AXI_DPTDIVCR4 \<equiv> 0xE6784410"
abbreviation AXI_DPTDIVCR5 :: u32 where "AXI_DPTDIVCR5 \<equiv> 0xE6784414"
abbreviation AXI_DPTDIVCR6 :: u32 where "AXI_DPTDIVCR6 \<equiv> 0xE6784418"
abbreviation AXI_DPTDIVCR7 :: u32 where "AXI_DPTDIVCR7 \<equiv> 0xE678441C"
abbreviation AXI_DPTDIVCR8 :: u32 where "AXI_DPTDIVCR8 \<equiv> 0xE6784420"
abbreviation AXI_DPTDIVCR9 :: u32 where "AXI_DPTDIVCR9 \<equiv> 0xE6784424"
abbreviation AXI_DPTDIVCR10 :: u32 where "AXI_DPTDIVCR10 \<equiv> 0xE6784428"
abbreviation AXI_DPTDIVCR11 :: u32 where "AXI_DPTDIVCR11 \<equiv> 0xE678442C"
abbreviation AXI_DPTDIVCR12 :: u32 where "AXI_DPTDIVCR12 \<equiv> 0xE6784430"
abbreviation AXI_DPTDIVCR13 :: u32 where "AXI_DPTDIVCR13 \<equiv> 0xE6784434"
abbreviation AXI_DPTDIVCR14 :: u32 where "AXI_DPTDIVCR14 \<equiv> 0xE6784438"
abbreviation AXI_DPTCR0 :: u32 where "AXI_DPTCR0 \<equiv> 0xE6784440"
abbreviation AXI_DPTCR1 :: u32 where "AXI_DPTCR1 \<equiv> 0xE6784444"
abbreviation AXI_DPTCR2 :: u32 where "AXI_DPTCR2 \<equiv> 0xE6784448"
abbreviation AXI_DPTCR3 :: u32 where "AXI_DPTCR3 \<equiv> 0xE678444C"
abbreviation AXI_DPTCR4 :: u32 where "AXI_DPTCR4 \<equiv> 0xE6784450"
abbreviation AXI_DPTCR5 :: u32 where "AXI_DPTCR5 \<equiv> 0xE6784454"
abbreviation AXI_DPTCR6 :: u32 where "AXI_DPTCR6 \<equiv> 0xE6784458"
abbreviation AXI_DPTCR7 :: u32 where "AXI_DPTCR7 \<equiv> 0xE678445C"
abbreviation AXI_DPTCR8 :: u32 where "AXI_DPTCR8 \<equiv> 0xE6784460"
abbreviation AXI_DPTCR9 :: u32 where "AXI_DPTCR9 \<equiv> 0xE6784464"
abbreviation AXI_DPTCR10 :: u32 where "AXI_DPTCR10 \<equiv> 0xE6784468"
abbreviation AXI_DPTCR11 :: u32 where "AXI_DPTCR11 \<equiv> 0xE678446C"
abbreviation AXI_DPTCR12 :: u32 where "AXI_DPTCR12 \<equiv> 0xE6784470"
abbreviation AXI_DPTCR13 :: u32 where "AXI_DPTCR13 \<equiv> 0xE6784474"
abbreviation AXI_DPTCR14 :: u32 where "AXI_DPTCR14 \<equiv> 0xE6784478"
abbreviation AXI_DPTCR15 :: u32 where "AXI_DPTCR15 \<equiv> 0xE678447C"
abbreviation AXI_SPTDIVCR0 :: u32 where "AXI_SPTDIVCR0 \<equiv> 0xE6784500"
abbreviation AXI_SPTDIVCR1 :: u32 where "AXI_SPTDIVCR1 \<equiv> 0xE6784504"
abbreviation AXI_SPTDIVCR2 :: u32 where "AXI_SPTDIVCR2 \<equiv> 0xE6784508"
abbreviation AXI_SPTDIVCR3 :: u32 where "AXI_SPTDIVCR3 \<equiv> 0xE678450C"
abbreviation AXI_SPTDIVCR4 :: u32 where "AXI_SPTDIVCR4 \<equiv> 0xE6784510"
abbreviation AXI_SPTDIVCR5 :: u32 where "AXI_SPTDIVCR5 \<equiv> 0xE6784514"
abbreviation AXI_SPTDIVCR6 :: u32 where "AXI_SPTDIVCR6 \<equiv> 0xE6784518"
abbreviation AXI_SPTDIVCR7 :: u32 where "AXI_SPTDIVCR7 \<equiv> 0xE678451C"
abbreviation AXI_SPTDIVCR8 :: u32 where "AXI_SPTDIVCR8 \<equiv> 0xE6784520"
abbreviation AXI_SPTDIVCR9 :: u32 where "AXI_SPTDIVCR9 \<equiv> 0xE6784524"
abbreviation AXI_SPTDIVCR10 :: u32 where "AXI_SPTDIVCR10 \<equiv> 0xE6784528"
abbreviation AXI_SPTDIVCR11 :: u32 where "AXI_SPTDIVCR11 \<equiv> 0xE678452C"
abbreviation AXI_SPTDIVCR12 :: u32 where "AXI_SPTDIVCR12 \<equiv> 0xE6784530"
abbreviation AXI_SPTDIVCR13 :: u32 where "AXI_SPTDIVCR13 \<equiv> 0xE6784534"
abbreviation AXI_SPTDIVCR14 :: u32 where "AXI_SPTDIVCR14 \<equiv> 0xE6784538"
abbreviation AXI_SPTCR0 :: u32 where "AXI_SPTCR0 \<equiv> 0xE6784540"
abbreviation AXI_SPTCR1 :: u32 where "AXI_SPTCR1 \<equiv> 0xE6784544"
abbreviation AXI_SPTCR2 :: u32 where "AXI_SPTCR2 \<equiv> 0xE6784548"
abbreviation AXI_SPTCR3 :: u32 where "AXI_SPTCR3 \<equiv> 0xE678454C"
abbreviation AXI_SPTCR4 :: u32 where "AXI_SPTCR4 \<equiv> 0xE6784550"
abbreviation AXI_SPTCR5 :: u32 where "AXI_SPTCR5 \<equiv> 0xE6784554"
abbreviation AXI_SPTCR6 :: u32 where "AXI_SPTCR6 \<equiv> 0xE6784558"
abbreviation AXI_SPTCR7 :: u32 where "AXI_SPTCR7 \<equiv> 0xE678455C"
abbreviation AXI_SPTCR8 :: u32 where "AXI_SPTCR8 \<equiv> 0xE6784560"
abbreviation AXI_SPTCR9 :: u32 where "AXI_SPTCR9 \<equiv> 0xE6784564"
abbreviation AXI_SPTCR10 :: u32 where "AXI_SPTCR10 \<equiv> 0xE6784568"
abbreviation AXI_SPTCR11 :: u32 where "AXI_SPTCR11 \<equiv> 0xE678456C"
abbreviation AXI_SPTCR12 :: u32 where "AXI_SPTCR12 \<equiv> 0xE6784570"
abbreviation AXI_SPTCR13 :: u32 where "AXI_SPTCR13 \<equiv> 0xE6784574"
abbreviation AXI_SPTCR14 :: u32 where "AXI_SPTCR14 \<equiv> 0xE6784578"
abbreviation AXI_SPTCR15 :: u32 where "AXI_SPTCR15 \<equiv> 0xE678457C"

definition lifec_reg_write :: "u32 \<Rightarrow> u32 \<Rightarrow> unit prog" where
  "lifec_reg_write addr dat = mmio_write_32 addr dat"

definition lifec_reg_tbl :: "build \<Rightarrow> (u32 \<times> u32) list" where
  "lifec_reg_tbl b =
     [(SEC_GRP0CR2, 0x00020000),
      (SEC_GRP1CR2, 0x00020000),
      (SAFE_GRP0CR2, 0x00000000),
      (SAFE_GRP1CR2, 0x00000000),
      (SEC_GRP0CR0, 0x00000000),
      (SEC_GRP1CR0, 0x00000000),
      (SAFE_GRP0CR0, 0x00000000),
      (SAFE_GRP1CR0, 0x00000000),
      (SEC_GRP0CR1, 0x00000000),
      (SEC_GRP1CR1, 0x00000000),
      (SAFE_GRP0CR1, 0x00000000),
      (SAFE_GRP1CR1, 0x00000000),
      (SEC_GRP0CR3, 0x00000000),
      (SEC_GRP1CR3, 0x00000000),
      (SAFE_GRP0CR3, 0x00000000),
      (SAFE_GRP1CR3, 0x00000000),
      (SEC_SEL0, 0xFFFFFFFF),
      (SEC_GRP0COND0, 0x00000000),
      (SEC_GRP1COND0, 0x00000000),
      (SEC_READONLY0, 0x00000000),
      (SAFE_GRP0COND0, 0x00000000),
      (SAFE_GRP1COND0, 0x00000000),
      (SAFE_READONLY0, 0x00000000),
      (SEC_SEL1, 0xFFFFFFFF),
      (SEC_GRP0COND1, 0x00000000),
      (SEC_GRP1COND1, 0x00000000),
      (SEC_READONLY1, 0x00000000),
      (SAFE_GRP0COND1, 0x00000000),
      (SAFE_GRP1COND1, 0x00000000),
      (SAFE_READONLY1, 0x00000000),
      (SEC_SEL2, 0xFFFFFFFF),
      (SEC_GRP0COND2, 0x00000000),
      (SEC_GRP1COND2, 0x00000000),
      (SEC_READONLY2, 0x00000000),
      (SAFE_GRP0COND2, 0x00000000),
      (SAFE_GRP1COND2, 0x00000000),
      (SAFE_READONLY2, 0x00000000),
      (SEC_SEL3, 0xFFF7FDFF),
      (SEC_GRP0COND3, 0x00080200),
      (SEC_GRP1COND3, 0x00080200),
      (SEC_READONLY3, 0x00000000),
      (SAFE_GRP0COND3, 0x00000000),
      (SAFE_GRP1COND3, 0x00000000),
      (SAFE_READONLY3, 0x00000000),
      (SEC_SEL4, 0xFFFFFFFF),
      (SEC_GRP0COND4, 0x00000000),
      (SEC_GRP1COND4, 0x00000000),
      (SEC_READONLY4, 0x00000000),
      (SAFE_GRP0COND4, 0x00000000),
      (SAFE_GRP1COND4, 0x00000000),
      (SAFE_READONLY4, 0x00000000),
      (SEC_SEL5, 0xFFFFFFBF),
      (SEC_GRP0COND5, 0x00000040),
      (SEC_GRP1COND5, 0x00000040),
      (SEC_READONLY5, 0x00000000),
      (SAFE_GRP0COND5, 0x00000000),
      (SAFE_GRP1COND5, 0x00000000),
      (SAFE_READONLY5, 0x00000000)] @
     (if b_lsi b = LSI_E3 then
     [(SEC_SEL6, 0xFFFFFBFF),
      (SEC_GRP0COND6, 0x00000400),
      (SEC_GRP1COND6, 0x00000400)] else
     [(SEC_SEL6, 0xFFFFCBFF),
      (SEC_GRP0COND6, 0x00003400),
      (SEC_GRP1COND6, 0x00003400)]) @
     [(SEC_READONLY6, 0x00000000),
      (SAFE_GRP0COND6, 0x00000000),
      (SAFE_GRP1COND6, 0x00000000),
      (SAFE_READONLY6, 0x00000000),
      (SEC_SEL7, 0xFFFFFFFF),
      (SEC_GRP0COND7, 0x00000000),
      (SEC_GRP1COND7, 0x00000000),
      (SEC_READONLY7, 0x00000000),
      (SAFE_GRP0COND7, 0x00000000),
      (SAFE_GRP1COND7, 0x00000000),
      (SAFE_READONLY7, 0x00000000),
      (SEC_SEL8, 0xFFFFFFFF),
      (SEC_GRP0COND8, 0x00000000),
      (SEC_GRP1COND8, 0x00000000),
      (SEC_READONLY8, 0x00000000),
      (SAFE_GRP0COND8, 0x00000000),
      (SAFE_GRP1COND8, 0x00000000),
      (SAFE_READONLY8, 0x00000000),
      (SEC_SEL9, 0xFFFFFFFF),
      (SEC_GRP0COND9, 0x00000000),
      (SEC_GRP1COND9, 0x00000000),
      (SEC_READONLY9, 0x00000000),
      (SAFE_GRP0COND9, 0x00000000),
      (SAFE_GRP1COND9, 0x00000000),
      (SAFE_READONLY9, 0x00000000),
      (SEC_SEL10, 0xFFFFFFFF),
      (SEC_GRP0COND10, 0x00000000),
      (SEC_GRP1COND10, 0x00000000),
      (SEC_READONLY10, 0x00000000),
      (SAFE_GRP0COND10, 0x00000000),
      (SAFE_GRP1COND10, 0x00000000),
      (SAFE_READONLY10, 0x00000000),
      (SEC_SEL11, 0xFFFFFFFF),
      (SEC_GRP0COND11, 0x00000000),
      (SEC_GRP1COND11, 0x00000000),
      (SEC_READONLY11, 0x00000000),
      (SAFE_GRP0COND11, 0x00000000),
      (SAFE_GRP1COND11, 0x00000000),
      (SAFE_READONLY11, 0x00000000),
      (SEC_SEL12, 0xFFFFFFFF),
      (SEC_GRP0COND12, 0x00000000),
      (SEC_GRP1COND12, 0x00000000),
      (SEC_READONLY12, 0x00000000),
      (SAFE_GRP0COND12, 0x00000000),
      (SAFE_GRP1COND12, 0x00000000),
      (SAFE_READONLY12, 0x00000000),
      (SEC_SEL13, 0xFFBFFFFF),
      (SEC_GRP0COND13, 0x00400000),
      (SEC_GRP1COND13, 0x00400000),
      (SEC_READONLY13, 0x00000000),
      (SAFE_GRP0COND13, 0x00000000),
      (SAFE_GRP1COND13, 0x00000000),
      (SAFE_READONLY13, 0x00000000),
      (SEC_SEL14, 0xF3FFFFFF),
      (SEC_GRP0COND14, 0x0C000000),
      (SEC_GRP1COND14, 0x0C000000),
      (SEC_READONLY14, 0x00000000),
      (SAFE_GRP0COND14, 0x00000000),
      (SAFE_GRP1COND14, 0x00000000),
      (SAFE_READONLY14, 0x00000000),
      (SEC_SEL15, 0xFFFFFF3F),
      (SEC_GRP0COND15, 0x000000C0),
      (SEC_GRP1COND15, 0x000000C0),
      (SEC_READONLY15, 0x00000000),
      (SAFE_GRP0COND15, 0x00000000),
      (SAFE_GRP1COND15, 0x00000000),
      (SAFE_READONLY15, 0x00000000)]"

definition lifec_wait :: "u32 \<Rightarrow> u32 \<Rightarrow> unit prog" where
  "lifec_wait prr reg =
     (if prr AND RCAR_PRODUCT_MASK = RCAR_PRODUCT_H3 \<and> prr AND RCAR_CUT_MASK < RCAR_CUT_VER20
      then micro_wait 10
      else bnd (mmio_read_32 reg) (\<lambda>_. ret ()))"

definition lifec_init :: "build \<Rightarrow> unit prog" where
  "lifec_init b =
     bnd (mmio_read_32 RCAR_PRR) (\<lambda>prr.
     bnd (for_each (lifec_reg_tbl b) (\<lambda>(addr, dat). lifec_reg_write addr dat)) (\<lambda>_.
     lifec_wait prr SAFE_READONLY15))"

definition lifec_cr7_setting :: "build \<Rightarrow> unit prog" where
  "lifec_cr7_setting b =
     whenp (b_ns_master b)
       (bnd (mmio_read_32 RCAR_PRR) (\<lambda>prr.
        bnd (lifec_reg_write SEC_SRC 0x0000001E) (\<lambda>_.
        lifec_wait prr SEC_SRC)))"

definition axi_reg_setting :: "(u32 \<times> u32) list" where
  "axi_reg_setting =
     [(AXI_DPTDIVCR0, 0x0E0403F0),
      (AXI_DPTDIVCR1, 0x0E0407E0),
      (AXI_DPTDIVCR2, 0x0E080000),
      (AXI_DPTDIVCR3, 0x0E080000),
      (AXI_DPTDIVCR4, 0x0E080000),
      (AXI_DPTDIVCR5, 0x0E080000),
      (AXI_DPTDIVCR6, 0x0E080000),
      (AXI_DPTDIVCR7, 0x0E080000),
      (AXI_DPTDIVCR8, 0x0E080000),
      (AXI_DPTDIVCR9, 0x0E080000),
      (AXI_DPTDIVCR10, 0x0E080000),
      (AXI_DPTDIVCR11, 0x0E080000),
      (AXI_DPTDIVCR12, 0x0E080000),
      (AXI_DPTDIVCR13, 0x0E080000),
      (AXI_DPTDIVCR14, 0x0E080000),
      (AXI_DPTCR0, 0x0E000000),
      (AXI_DPTCR1, 0x0E000E0E),
      (AXI_DPTCR2, 0x0E000000),
      (AXI_DPTCR3, 0x0E000000),
      (AXI_DPTCR4, 0x0E000000),
      (AXI_DPTCR5, 0x0E000000),
      (AXI_DPTCR6, 0x0E000000),
      (AXI_DPTCR7, 0x0E000000),
      (AXI_DPTCR8, 0x0E000000),
      (AXI_DPTCR9, 0x0E000000),
      (AXI_DPTCR10, 0x0E000000),
      (AXI_DPTCR11, 0x0E000000),
      (AXI_DPTCR12, 0x0E000000),
      (AXI_DPTCR13, 0x0E000000),
      (AXI_DPTCR14, 0x0E000000),
      (AXI_DPTCR15, 0x0E000000),
      (AXI_SPTDIVCR0, 0x0E0E6304),
      (AXI_SPTDIVCR1, 0x0E0E6360),
      (AXI_SPTDIVCR2, 0x0E0E6360),
      (AXI_SPTDIVCR3, 0x0E0E6360),
      (AXI_SPTDIVCR4, 0x0E0E6360),
      (AXI_SPTDIVCR5, 0x0E0E6360),
      (AXI_SPTDIVCR6, 0x0E0E6360),
      (AXI_SPTDIVCR7, 0x0E0E6360),
      (AXI_SPTDIVCR8, 0x0E0E6360),
      (AXI_SPTDIVCR9, 0x0E0E6360),
      (AXI_SPTDIVCR10, 0x0E0E6360),
      (AXI_SPTDIVCR11, 0x0E0E6360),
      (AXI_SPTDIVCR12, 0x0E0E6360),
      (AXI_SPTDIVCR13, 0x0E0E6360),
      (AXI_SPTDIVCR14, 0x0E0E6360),
      (AXI_SPTCR0, 0x0E000E0E),
      (AXI_SPTCR1, 0x0E000000),
      (AXI_SPTCR2, 0x0E000000),
      (AXI_SPTCR3, 0x0E000000),
      (AXI_SPTCR4, 0x0E000000),
      (AXI_SPTCR5, 0x0E000000),
      (AXI_SPTCR6, 0x0E000000),
      (AXI_SPTCR7, 0x0E000000),
      (AXI_SPTCR8, 0x0E000000),
      (AXI_SPTCR9, 0x0E000000),
      (AXI_SPTCR10, 0x0E000000),
      (AXI_SPTCR11, 0x0E000000),
      (AXI_SPTCR12, 0x0E000000),
      (AXI_SPTCR13, 0x0E000000),
      (AXI_SPTCR14, 0x0E000000),
      (AXI_SPTCR15, 0x0E000000)]"

definition axi_security_setting :: "unit prog" where
  "axi_security_setting = for_each axi_reg_setting (\<lambda>(adr, val). mmio_write_32 adr val)"

definition gic_security_setting :: "unit prog" where
  "gic_security_setting = gicc_write_pmr GICC_BASE GIC_PRI_MASK"

section \<open>What the tables establish\<close>

text \<open>
  After the sixteen group control registers, the table has seven rows per bank of slaves:
  \<^verbatim>\<open>SEC_SELn\<close>, \<^verbatim>\<open>SEC_GRP0CONDn\<close>, \<^verbatim>\<open>SEC_GRP1CONDn\<close>, \<^verbatim>\<open>SEC_READONLYn\<close>, \<^verbatim>\<open>SAFE_GRP0CONDn\<close>,
  \<^verbatim>\<open>SAFE_GRP1CONDn\<close>, \<^verbatim>\<open>SAFE_READONLYn\<close>. \<open>lifec_conds\<close> gives the slaves of each bank that are
  reserved for the secure world, \<open>bank_rows c\<close> the values that reserve the slaves \<open>c\<close>.
\<close>

definition lifec_conds :: "build \<Rightarrow> u32 list" where
  "lifec_conds b =
     [0, 0, 0, 0x00080200, 0, 0x00000040, if b_lsi b = LSI_E3 then 0x00000400 else 0x00003400, 0, 0, 0,
      0, 0, 0, 0x00400000, 0x0C000000, 0x000000C0]"

definition bank_rows :: "u32 \<Rightarrow> u32 list" where
  "bank_rows c = [NOT c, c, c, 0, 0, 0, 0]"

text \<open>The two builds differ in one bank only.\<close>

definition lifec_with :: "u32 \<Rightarrow> (u32 \<times> u32) list" where
  "lifec_with c =
     [(SEC_GRP0CR2, 0x00020000),
      (SEC_GRP1CR2, 0x00020000),
      (SAFE_GRP0CR2, 0x00000000),
      (SAFE_GRP1CR2, 0x00000000),
      (SEC_GRP0CR0, 0x00000000),
      (SEC_GRP1CR0, 0x00000000),
      (SAFE_GRP0CR0, 0x00000000),
      (SAFE_GRP1CR0, 0x00000000),
      (SEC_GRP0CR1, 0x00000000),
      (SEC_GRP1CR1, 0x00000000),
      (SAFE_GRP0CR1, 0x00000000),
      (SAFE_GRP1CR1, 0x00000000),
      (SEC_GRP0CR3, 0x00000000),
      (SEC_GRP1CR3, 0x00000000),
      (SAFE_GRP0CR3, 0x00000000),
      (SAFE_GRP1CR3, 0x00000000),
      (SEC_SEL0, 0xFFFFFFFF),
      (SEC_GRP0COND0, 0x00000000),
      (SEC_GRP1COND0, 0x00000000),
      (SEC_READONLY0, 0x00000000),
      (SAFE_GRP0COND0, 0x00000000),
      (SAFE_GRP1COND0, 0x00000000),
      (SAFE_READONLY0, 0x00000000),
      (SEC_SEL1, 0xFFFFFFFF),
      (SEC_GRP0COND1, 0x00000000),
      (SEC_GRP1COND1, 0x00000000),
      (SEC_READONLY1, 0x00000000),
      (SAFE_GRP0COND1, 0x00000000),
      (SAFE_GRP1COND1, 0x00000000),
      (SAFE_READONLY1, 0x00000000),
      (SEC_SEL2, 0xFFFFFFFF),
      (SEC_GRP0COND2, 0x00000000),
      (SEC_GRP1COND2, 0x00000000),
      (SEC_READONLY2, 0x00000000),
      (SAFE_GRP0COND2, 0x00000000),
      (SAFE_GRP1COND2, 0x00000000),
      (SAFE_READONLY2, 0x00000000),
      (SEC_SEL3, 0xFFF7FDFF),
      (SEC_GRP0COND3, 0x00080200),
      (SEC_GRP1COND3, 0x00080200),
      (SEC_READONLY3, 0x00000000),
      (SAFE_GRP0COND3, 0x00000000),
      (SAFE_GRP1COND3, 0x00000000),
      (SAFE_READONLY3, 0x00000000),
      (SEC_SEL4, 0xFFFFFFFF),
      (SEC_GRP0COND4, 0x00000000),
      (SEC_GRP1COND4, 0x00000000),
      (SEC_READONLY4, 0x00000000),
      (SAFE_GRP0COND4, 0x00000000),
      (SAFE_GRP1COND4, 0x00000000),
      (SAFE_READONLY4, 0x00000000),
      (SEC_SEL5, 0xFFFFFFBF),
      (SEC_GRP0COND5, 0x00000040),
      (SEC_GRP1COND5, 0x00000040),
      (SEC_READONLY5, 0x00000000),
      (SAFE_GRP0COND5, 0x00000000),
      (SAFE_GRP1COND5, 0x00000000),
      (SAFE_READONLY5, 0x00000000)] @
     [(SEC_SEL6, NOT c), (SEC_GRP0COND6, c), (SEC_GRP1COND6, c)] @
     [(SEC_READONLY6, 0x00000000),
      (SAFE_GRP0COND6, 0x00000000),
      (SAFE_GRP1COND6, 0x00000000),
      (SAFE_READONLY6, 0x00000000),
      (SEC_SEL7, 0xFFFFFFFF),
      (SEC_GRP0COND7, 0x00000000),
      (SEC_GRP1COND7, 0x00000000),
      (SEC_READONLY7, 0x00000000),
      (SAFE_GRP0COND7, 0x00000000),
      (SAFE_GRP1COND7, 0x00000000),
      (SAFE_READONLY7, 0x00000000),
      (SEC_SEL8, 0xFFFFFFFF),
      (SEC_GRP0COND8, 0x00000000),
      (SEC_GRP1COND8, 0x00000000),
      (SEC_READONLY8, 0x00000000),
      (SAFE_GRP0COND8, 0x00000000),
      (SAFE_GRP1COND8, 0x00000000),
      (SAFE_READONLY8, 0x00000000),
      (SEC_SEL9, 0xFFFFFFFF),
      (SEC_GRP0COND9, 0x00000000),
      (SEC_GRP1COND9, 0x00000000),
      (SEC_READONLY9, 0x00000000),
      (SAFE_GRP0COND9, 0x00000000),
      (SAFE_GRP1COND9, 0x00000000),
      (SAFE_READONLY9, 0x00000000),
      (SEC_SEL10, 0xFFFFFFFF),
      (SEC_GRP0COND10, 0x00000000),
      (SEC_GRP1COND10, 0x00000000),
      (SEC_READONLY10, 0x00000000),
      (SAFE_GRP0COND10, 0x00000000),
      (SAFE_GRP1COND10, 0x00000000),
      (SAFE_READONLY10, 0x00000000),
      (SEC_SEL11, 0xFFFFFFFF),
      (SEC_GRP0COND11, 0x00000000),
      (SEC_GRP1COND11, 0x00000000),
      (SEC_READONLY11, 0x00000000),
      (SAFE_GRP0COND11, 0x00000000),
      (SAFE_GRP1COND11, 0x00000000),
      (SAFE_READONLY11, 0x00000000),
      (SEC_SEL12, 0xFFFFFFFF),
      (SEC_GRP0COND12, 0x00000000),
      (SEC_GRP1COND12, 0x00000000),
      (SEC_READONLY12, 0x00000000),
      (SAFE_GRP0COND12, 0x00000000),
      (SAFE_GRP1COND12, 0x00000000),
      (SAFE_READONLY12, 0x00000000),
      (SEC_SEL13, 0xFFBFFFFF),
      (SEC_GRP0COND13, 0x00400000),
      (SEC_GRP1COND13, 0x00400000),
      (SEC_READONLY13, 0x00000000),
      (SAFE_GRP0COND13, 0x00000000),
      (SAFE_GRP1COND13, 0x00000000),
      (SAFE_READONLY13, 0x00000000),
      (SEC_SEL14, 0xF3FFFFFF),
      (SEC_GRP0COND14, 0x0C000000),
      (SEC_GRP1COND14, 0x0C000000),
      (SEC_READONLY14, 0x00000000),
      (SAFE_GRP0COND14, 0x00000000),
      (SAFE_GRP1COND14, 0x00000000),
      (SAFE_READONLY14, 0x00000000),
      (SEC_SEL15, 0xFFFFFF3F),
      (SEC_GRP0COND15, 0x000000C0),
      (SEC_GRP1COND15, 0x000000C0),
      (SEC_READONLY15, 0x00000000),
      (SAFE_GRP0COND15, 0x00000000),
      (SAFE_GRP1COND15, 0x00000000),
      (SAFE_READONLY15, 0x00000000)]"

lemma lifec_reg_tbl_eq:
  "lifec_reg_tbl b = lifec_with (if b_lsi b = LSI_E3 then 0x00000400 else 0x00003400)"
  by (cases "b_lsi b = LSI_E3") (simp_all add: lifec_reg_tbl_def lifec_with_def)

lemma lifec_reg_tbl_distinct: "distinct (map fst (lifec_reg_tbl b))"
proof -
  have "distinct (map unat (map fst (lifec_reg_tbl b)))"
    unfolding lifec_reg_tbl_eq lifec_with_def by simp
  then show ?thesis by (simp only: distinct_map)
qed

lemma lifec_banks_consistent:
  "map snd (drop 16 (lifec_reg_tbl b)) = concat (map bank_rows (lifec_conds b))"
  unfolding lifec_reg_tbl_eq lifec_with_def lifec_conds_def by (simp add: bank_rows_def)

lemma lifec_wait_run:
  assumes "timer (m_dev s) clk" and "2000 < m_fuel s"
  shows "\<exists>t. lifec_wait prr reg s = Done () t \<and> t = s\<lparr>m_tr := m_tr t\<rparr> \<and> writes (m_tr t) = writes (m_tr s)"
proof (cases "prr AND RCAR_PRODUCT_MASK = RCAR_PRODUCT_H3 \<and> prr AND RCAR_CUT_MASK < RCAR_CUT_VER20")
  case True
  obtain t where "micro_wait 10 s = Done () t" "t = s\<lparr>m_tr := m_tr t\<rparr>" "writes (m_tr t) = writes (m_tr s)"
    using micro_wait_run [OF assms(1), of 10] assms(2) by auto
  with True show ?thesis by (simp add: lifec_wait_def)
next
  case False
  then show ?thesis unfolding lifec_wait_def if_not_P [OF False] by (simp add: steps_simps ret_def)
qed

lemma lifec_init_run:
  assumes "timer (m_dev s) clk" and "2000 < m_fuel s"
  shows "\<exists>t. lifec_init b s = Done () t \<and> t = s\<lparr>m_tr := m_tr t\<rparr> \<and> writes (m_tr t) = writes (m_tr s) @ lifec_reg_tbl b"
proof -
  let ?t = "s\<lparr>m_tr := Rd32 RCAR_PRR (d_rd32 (m_dev s) (m_tr s) RCAR_PRR) # m_tr s\<rparr>"
  let ?u = "?t\<lparr>m_tr := map (\<lambda>(a, v). Wr32 a v) (rev (lifec_reg_tbl b)) @ m_tr ?t\<rparr>"
  have "for_each (lifec_reg_tbl b) (\<lambda>(addr, dat). lifec_reg_write addr dat) ?t = Done () ?u"
    using write_table_run [of "lifec_reg_tbl b" ?t] by (simp add: write_table_def lifec_reg_write_def)
  then have "lifec_init b s = lifec_wait (d_rd32 (m_dev s) (m_tr s) RCAR_PRR) SAFE_READONLY15 ?u"
    unfolding lifec_init_def bnd_read_32 by (simp add: bnd_Done)
  moreover obtain t where "lifec_wait (d_rd32 (m_dev s) (m_tr s) RCAR_PRR) SAFE_READONLY15 ?u = Done () t"
      "t = ?u\<lparr>m_tr := m_tr t\<rparr>" "writes (m_tr t) = writes (m_tr ?u)"
    using lifec_wait_run [of ?u clk "d_rd32 (m_dev s) (m_tr s) RCAR_PRR" SAFE_READONLY15] assms by auto
  ultimately show ?thesis by simp
qed



text \<open>
  The AXI table: fifteen division registers and sixteen area registers for the DRAM, then the
  same for the SRAM. A division register holds a page number (address divided by 4096) in its
  low 20 bits; an area register with a zero low half leaves the area unprotected.
\<close>

definition page_of :: "u32 \<Rightarrow> nat" where
  "page_of v = unat (v AND 0xFFFFF)"

text \<open>The addresses of \<open>n\<close> consecutive registers.\<close>

definition reg_block :: "u32 \<Rightarrow> nat \<Rightarrow> u32 list" where
  "reg_block base n = map (\<lambda>i. base + 4 * of_nat i) [0..<n]"

text \<open>\<open>protected_areas divs areas\<close>: the page intervals whose area register sets a protection.\<close>

definition protected_areas :: "nat \<Rightarrow> nat \<Rightarrow> u32 list \<Rightarrow> u32 list \<Rightarrow> (nat \<times> nat) list" where
  "protected_areas lo hi divs areas =
     (let pages = map page_of divs in
      map fst (filter (\<lambda>(_, a). a AND 0xFFFF \<noteq> 0) (zip (zip (lo # pages) (pages @ [hi])) areas)))"

text \<open>The four blocks of values.\<close>

lemma axi_values:
  "take 15 (map snd axi_reg_setting) = [0x0E0403F0, 0x0E0407E0] @ replicate 13 0x0E080000"
  "take 16 (drop 15 (map snd axi_reg_setting)) = [0x0E000000, 0x0E000E0E] @ replicate 14 0x0E000000"
  "take 15 (drop 31 (map snd axi_reg_setting)) = 0x0E0E6304 # replicate 14 0x0E0E6360"
  "drop 46 (map snd axi_reg_setting) = 0x0E000E0E # replicate 15 0x0E000000"
  by (simp_all add: axi_reg_setting_def numeral_eq_Suc)

lemma rep_13: "replicate 13 x = [x, x, x, x, x, x, x, x, x, x, x, x, x]"
  and rep_14: "replicate 14 x = [x, x, x, x, x, x, x, x, x, x, x, x, x, x]"
  and rep_15: "replicate 15 x = [x, x, x, x, x, x, x, x, x, x, x, x, x, x, x]"
  by (simp_all add: numeral_eq_Suc)


end
