(* ===== verification/Ecc.thy ===== *)
theory Ecc
  imports Protect
begin

text \<open>
  Memory error correction: \<^verbatim>\<open>CortexR7_Loader/common/ecc_init.c\<close>, \<^verbatim>\<open>common/single_ecc.c\<close> with its
  tables of \<^verbatim>\<open>include/single_ecc_conf.h\<close>, and \<^verbatim>\<open>common/dram_dual_ecc.c\<close>. Messages are built with
  \<open>sprintf\<close> in a buffer of 128 bytes; a message that does not fit is undefined behaviour.
\<close>

abbreviation MFIS_MFIERRCTLR4 :: u32 where "MFIS_MFIERRCTLR4 \<equiv> 0xE6260210"
abbreviation MFIS_MFIERRCTLR8 :: u32 where "MFIS_MFIERRCTLR8 \<equiv> 0xE626026C"
abbreviation MFIS_MFIERRTGTR4 :: u32 where "MFIS_MFIERRTGTR4 \<equiv> 0xE6260290"
abbreviation MFIS_MFIERRTGTR8 :: u32 where "MFIS_MFIERRTGTR8 \<equiv> 0xE6260274"
abbreviation EDC_EDCEN0 :: u32 where "EDC_EDCEN0 \<equiv> 0xFF840010"
abbreviation EDC_EDCINTEN1 :: u32 where "EDC_EDCINTEN1 \<equiv> 0xFF840044"
abbreviation AXI_FUSACR :: u32 where "AXI_FUSACR \<equiv> 0xE6784020"
abbreviation SINGLE_ECC_ENABLE :: u32 where "SINGLE_ECC_ENABLE \<equiv> 0x80000000"
abbreviation SINGLE_ECC_DISABLE :: u32 where "SINGLE_ECC_DISABLE \<equiv> 0"
abbreviation MODE_8_5 :: u32 where "MODE_8_5 \<equiv> 0"
abbreviation FUSA_0FILL_ENABLE :: u32 where "FUSA_0FILL_ENABLE \<equiv> 1"

definition DFUSAAREACR :: "nat \<Rightarrow> u32" where "DFUSAAREACR n = 0xE6785000 + of_nat n * 4"
definition DECCAREACR :: "nat \<Rightarrow> u32" where "DECCAREACR n = 0xE6785040 + of_nat n * 4"
definition SFUSAAREACR :: "nat \<Rightarrow> u32" where "SFUSAAREACR n = 0xE6785100 + of_nat n * 4"
definition SECCAREACR :: "nat \<Rightarrow> u32" where "SECCAREACR n = 0xE6785140 + of_nat n * 4"

text \<open>\<^verbatim>\<open>reg = mmio_read_32(a); reg = f(reg); mmio_write_32(a, reg)\<close>.\<close>

definition modify_32 :: "u32 \<Rightarrow> (u32 \<Rightarrow> u32) \<Rightarrow> unit prog" where
  "modify_32 a f = bnd (mmio_read_32 a) (\<lambda>reg. mmio_write_32 a (f reg))"

text \<open>\<^verbatim>\<open>sprintf(msg, fmt, ...); NOTICE("%s", msg)\<close> with the buffer \<^verbatim>\<open>char msg[128]\<close>.\<close>

definition c_string :: "u8 list \<Rightarrow> string" where
  "c_string buf = map (\<lambda>c. char_of (unat c)) (takeWhile (\<lambda>c. c \<noteq> 0) buf)"

definition notice_msg :: "string \<Rightarrow> arg list \<Rightarrow> unit prog" where
  "notice_msg fmt args =
     (case sprintf (replicate 128 0) (Some fmt) args of
        None \<Rightarrow> fault
      | Some (msg, _) \<Rightarrow> NOTICE ''%s'' [ArgS (c_string msg)])"

section \<open>Single channel (single\_ecc.c)\<close>

record single_ecc_row =
  fusa_addr :: u64
  ecc_addr :: u64
  enable :: u32
  fusa_size :: u32
  ecc_mode :: u32
  fusa_fill :: u32

definition row_off :: single_ecc_row where
  "row_off = \<lparr>fusa_addr = 0, ecc_addr = 0, enable = SINGLE_ECC_DISABLE, fusa_size = 0, ecc_mode = MODE_8_5,
     fusa_fill = FUSA_0FILL_ENABLE\<rparr>"

definition dram_ecc_table :: "single_ecc_row list" where
  "dram_ecc_table =
     \<lparr>fusa_addr = 0x0400000000, ecc_addr = 0x043FE00000, enable = SINGLE_ECC_ENABLE, fusa_size = 1,
       ecc_mode = MODE_8_5, fusa_fill = FUSA_0FILL_ENABLE\<rparr> # replicate 15 row_off"

definition sram_ecc_table :: "single_ecc_row list" where
  "sram_ecc_table = replicate 8 row_off"

definition DSIZE_CALC :: "u32 \<Rightarrow> u32" where "DSIZE_CALC n = push_bit (20 + unat n) 1"
definition SSIZE_CALC :: "u32 \<Rightarrow> u32" where "SSIZE_CALC n = push_bit (12 + unat n) 1"

definition ecc_mode_str :: "u32 \<Rightarrow> string" where
  "ecc_mode_str m = (if m = MODE_8_5 then ''8bit Data/5bit ECC'' else ''64bit Data/8bit ECC'')"

definition area_reg :: "single_ecc_row \<Rightarrow> u32" where
  "area_reg r = enable r OR push_bit 24 (fusa_size r) OR ucast (drop_bit 12 (fusa_addr r))"

definition ecc_reg :: "single_ecc_row \<Rightarrow> u32" where
  "ecc_reg r = ecc_mode r OR ucast (drop_bit 12 (ecc_addr r))"

definition dram_ecc_area :: "u32 \<Rightarrow> nat \<Rightarrow> single_ecc_row \<Rightarrow> unit prog" where
  "dram_ecc_area fill_data i r =
     whenp (enable r = SINGLE_ECC_ENABLE)
      (seqs
        [mmio_write_32 (DFUSAAREACR i) (area_reg r),
         mmio_write_32 (DECCAREACR i) (ecc_reg r),
         whenp (fusa_fill r = FUSA_0FILL_ENABLE) (exec_fillDMA fill_data (fusa_addr r) (DSIZE_CALC (fusa_size r))),
         notice_msg (''DRAM Fusa Area[%d]=0x%x_%x Size=0x%x %s'' @ [CHR 0x0A])
           [ArgW (of_nat i), ArgW (ucast (drop_bit 32 (fusa_addr r))), ArgW (ucast (fusa_addr r)),
            ArgW (DSIZE_CALC (fusa_size r)),
            ArgS (if fusa_fill r = FUSA_0FILL_ENABLE then ''Fill with 0'' else ''No fill'')],
         notice_msg (''DRAM ECC  Area[%d]=0x%x_%x Mode=%s'' @ [CHR 0x0A])
           [ArgW (of_nat i), ArgW (ucast (drop_bit 32 (ecc_addr r))), ArgW (ucast (ecc_addr r)),
            ArgS (ecc_mode_str (ecc_mode r))]])"

definition sram_ecc_area :: "u32 \<Rightarrow> nat \<Rightarrow> single_ecc_row \<Rightarrow> unit prog" where
  "sram_ecc_area fill_data i r =
     whenp (enable r = SINGLE_ECC_ENABLE)
      (seqs
        [mmio_write_32 (SFUSAAREACR i) (area_reg r),
         mmio_write_32 (SECCAREACR i) (ecc_reg r),
         whenp (fusa_fill r = FUSA_0FILL_ENABLE) (exec_fill_sram fill_data (fusa_addr r) (SSIZE_CALC (fusa_size r))),
         notice_msg (''SRAM Fusa Area[%d]=0x%x Size=0x%x %s'' @ [CHR 0x0A])
           [ArgW (of_nat i), ArgW (ucast (fusa_addr r)), ArgW (SSIZE_CALC (fusa_size r)),
            ArgS (if fusa_fill r = FUSA_0FILL_ENABLE then ''Fill with 0'' else ''No fill'')],
         notice_msg (''SRAM ECC  Area[%d]=0x%x Mode=%s'' @ [CHR 0x0A])
           [ArgW (of_nat i), ArgW (ucast (ecc_addr r)), ArgS (ecc_mode_str (ecc_mode r))]])"

definition single_ecc_init :: "u32 \<Rightarrow> unit prog" where
  "single_ecc_init fill_data =
     seqs
       [modify_32 MFIS_MFIERRTGTR4 (\<lambda>reg. reg AND NOT 0x01000000),
        modify_32 MFIS_MFIERRCTLR4 (\<lambda>reg. reg OR 0x01000000),
        modify_32 MFIS_MFIERRTGTR8 (\<lambda>reg. (reg AND NOT 0x01000000) AND NOT 0x00800000),
        modify_32 MFIS_MFIERRCTLR8 (\<lambda>reg. reg OR 0x01000000 OR 0x00800000),
        NOTICE (''Single Channel ECC enable'' @ [CHR 0x0A]) [],
        for_each [0..<16] (\<lambda>i. dram_ecc_area fill_data i (dram_ecc_table ! i)),
        for_each [0..<8] (\<lambda>i. sram_ecc_area fill_data i (sram_ecc_table ! i)),
        modify_32 EDC_EDCEN0 (\<lambda>reg. reg OR 0x8000),
        modify_32 EDC_EDCINTEN1 (\<lambda>reg. reg OR 0xE0000000)]"

section \<open>Dual channel (dram\_dual\_ecc.c)\<close>

definition area_ecc_enable_bit :: "u32 list" where "area_ecc_enable_bit = [0, 0, 0, 0, 0, 0, 0, 0]"
definition area_fill_enable_bit :: "u32 list" where "area_fill_enable_bit = [1, 1, 1, 1, 1, 1, 1, 1]"
definition extra_split_enable_bit :: "u32 list" where "extra_split_enable_bit = [0, 0, 0, 0, 0, 0, 0, 1]"
definition extra_area_ecc_enable_bit :: "u32 list" where "extra_area_ecc_enable_bit = [0, 0, 0, 0, 0, 0, 0, 1]"
definition extra_area_fill_enable_bit :: "u32 list" where "extra_area_fill_enable_bit = [1, 1, 1, 1, 1, 1, 1, 1]"
definition extra_area :: "u32 list" where "extra_area = [1, 1, 1, 1, 1, 1, 1, 1]"

text \<open>\<open>v |= bits[i] << REVERSE_SET(i)\<close> over the eight areas.\<close>

definition area_bits :: "u32 list \<Rightarrow> u32 \<Rightarrow> u32" where
  "area_bits bits v = fold (\<lambda>i v. v OR push_bit (7 - i) (bits ! i)) [0..<8] v"

text \<open>The extra split check: the loop keeps the first enabled area only.\<close>

fun extra_split_check :: "nat list \<Rightarrow> u32 \<Rightarrow> u32" where
  "extra_split_check [] v = v"
| "extra_split_check (i # is) v =
     (if v AND push_bit i 1 \<noteq> 0 then v AND push_bit i 1 else extra_split_check is v)"

abbreviation ADSPLCR_SPLITSEL :: "u32 \<Rightarrow> u32" where "ADSPLCR_SPLITSEL x \<equiv> push_bit 16 x"
abbreviation ADSPLCR_AREA :: "u32 \<Rightarrow> u32" where "ADSPLCR_AREA x \<equiv> push_bit 8 x"
abbreviation ADSPLCR_SWP :: u32 where "ADSPLCR_SWP \<equiv> 0x0C"

definition set_ecc_enables :: "unit prog" where
  "set_ecc_enables =
     puts (\<lambda>s. s\<lparr>area_ecc_enable := area_bits area_ecc_enable_bit (area_ecc_enable s),
                 extra_area_ecc_enable := area_bits extra_area_ecc_enable_bit (extra_area_ecc_enable s)\<rparr>)"

definition dual_ecc_setting_4ch :: "unit prog" where
  "dual_ecc_setting_4ch =
     bnd set_ecc_enables (\<lambda>_.
     bnd (mmio_read_32 RCAR_PRR) (\<lambda>prr.
     (let extra_area_ch = (if prr AND (RCAR_PRODUCT_MASK OR RCAR_CUT_MASK) = RCAR_PRODUCT_H3_CUT20
                           then 0 else area_bits extra_area 0);
          extra_split_enable = extra_split_check [0..<8] (area_bits extra_split_enable_bit 0) in
     bnd (gets area_size) (\<lambda>asz.
     bnd (gets extra_area_size) (\<lambda>esz.
     seqs
       [modify_32 AXI_ADSPLCR1 (\<lambda>reg. reg OR 0 OR ADSPLCR_SPLITSEL extra_split_enable OR ADSPLCR_AREA asz OR ADSPLCR_SWP),
        modify_32 AXI_ADSPLCR3 (\<lambda>reg. reg OR 0 OR ADSPLCR_SPLITSEL extra_area_ch OR ADSPLCR_AREA esz OR ADSPLCR_SWP)])))))"

definition dual_ecc_setting_2ch :: "unit prog" where
  "dual_ecc_setting_2ch =
     bnd set_ecc_enables (\<lambda>_.
     bnd (gets extra_area_ecc_enable) (\<lambda>eae.
     bnd (gets area_ecc_enable) (\<lambda>ae.
     bnd (mmio_read_32 RCAR_PRR) (\<lambda>prr.
     (let extra_area_ch = (if prr AND (RCAR_PRODUCT_MASK OR RCAR_CUT_MASK) = RCAR_PRODUCT_H3_CUT20
                           then 0 else (area_bits extra_area 0 AND NOT eae) AND 0xFF);
          extra_split_enable = extra_split_check [0..<8] (area_bits extra_split_enable_bit 0) in
     bnd (gets area_size) (\<lambda>asz.
     bnd (gets extra_area_size) (\<lambda>esz.
     seqs
       [modify_32 AXI_ADSPLCR0 (\<lambda>reg. reg OR 0 OR ADSPLCR_SPLITSEL extra_split_enable OR ADSPLCR_AREA asz OR ADSPLCR_SWP),
        modify_32 AXI_ADSPLCR1 (\<lambda>reg. (reg XOR ADSPLCR_SPLITSEL ae) AND reg),
        modify_32 AXI_ADSPLCR3 (\<lambda>reg. reg OR 0 OR ADSPLCR_SPLITSEL extra_area_ch OR ADSPLCR_AREA esz OR ADSPLCR_SWP)])))))))"

definition dual_ecc_setting_linear :: "unit prog" where
  "dual_ecc_setting_linear =
     bnd set_ecc_enables (\<lambda>_.
     (let extra_split_enable = extra_split_check [0..<8] (area_bits extra_split_enable_bit 0) in
     bnd (gets area_size) (\<lambda>asz.
     bnd (gets extra_area_size) (\<lambda>esz.
     seqs
       [modify_32 AXI_ADSPLCR0 (\<lambda>reg. reg OR 0 OR ADSPLCR_SPLITSEL extra_split_enable OR ADSPLCR_AREA asz OR ADSPLCR_SWP),
        modify_32 AXI_ADSPLCR1 (\<lambda>reg. reg OR 0 OR ADSPLCR_SPLITSEL extra_split_enable OR ADSPLCR_AREA asz OR ADSPLCR_SWP),
        modify_32 AXI_ADSPLCR3 (\<lambda>reg. reg OR 0 OR ADSPLCR_AREA esz OR ADSPLCR_SWP)]))))"

abbreviation ECC_BASE1 :: u64 where "ECC_BASE1 \<equiv> 0x0400000000"
abbreviation ECC_BASE2 :: u64 where "ECC_BASE2 \<equiv> 0x0500000000"

text \<open>One round of the report loop for a whole area, and one for an extra area.\<close>

definition dual_area :: "u32 \<Rightarrow> u32 \<Rightarrow> u32 \<Rightarrow> nat \<Rightarrow> unit prog" where
  "dual_area fill_data prr area_size_byte i =
     whenp (area_ecc_enable_bit ! (7 - i) = 1 \<and> extra_split_enable_bit ! (7 - i) = 0)
      (let fill = (area_fill_enable_bit ! (7 - i) = 1);
           str = (if fill then ''Fill with 0'' else ''No fill'');
           lo = area_size_byte * of_nat i; hi = area_size_byte * of_nat i + (area_size_byte - 1);
           off = ucast area_size_byte * of_nat i :: u64 in
       seqs
        [whenp fill
          (seqs [exec_fillDMA fill_data (ECC_BASE1 + off) area_size_byte,
                 whenp (prr = RCAR_PRODUCT_H3) (exec_fillDMA fill_data (ECC_BASE2 + off) area_size_byte)]),
         notice_msg (''Area%d:0x04_%x - 0x04_%x %s'' @ [CHR 0x0A]) [ArgW (of_nat i), ArgW lo, ArgW hi, ArgS str],
         whenp (prr = RCAR_PRODUCT_H3)
          (notice_msg (''      0x05_%x - 0x05_%x %s'' @ [CHR 0x0A]) [ArgW lo, ArgW hi, ArgS str])])"

definition dual_extra_area :: "u32 \<Rightarrow> u32 \<Rightarrow> u32 \<Rightarrow> u32 \<Rightarrow> nat \<Rightarrow> nat \<Rightarrow> unit prog" where
  "dual_extra_area fill_data prr area_size_byte extra_area_size_byte i j =
     whenp (extra_area_ecc_enable_bit ! (7 - j) = 1)
      (let fill = (extra_area_fill_enable_bit ! (7 - j) = 1);
           str = (if fill then ''Fill with 0'' else ''No fill'');
           lo = area_size_byte * of_nat i + extra_area_size_byte * of_nat j;
           hi = area_size_byte * of_nat i + (extra_area_size_byte * of_nat j + (extra_area_size_byte - 1));
           off = ucast area_size_byte * of_nat i + ucast extra_area_size_byte * of_nat j :: u64 in
       seqs
        [whenp fill
          (seqs [exec_fillDMA fill_data (ECC_BASE1 + off) extra_area_size_byte,
                 whenp (prr = RCAR_PRODUCT_H3) (exec_fillDMA fill_data (ECC_BASE2 + off) extra_area_size_byte)]),
         notice_msg (''Extra Area %d-%d:0x04_%x - 0x04_%x %s'' @ [CHR 0x0A])
           [ArgW (of_nat i), ArgW (of_nat j), ArgW lo, ArgW hi, ArgS str],
         whenp (prr = RCAR_PRODUCT_H3)
          (notice_msg (''               0x05_%x - 0x05_%x %s'' @ [CHR 0x0A]) [ArgW lo, ArgW hi, ArgS str])])"

text \<open>The area sizes (as exponents) of the chips.\<close>

definition set_area_sizes :: "build \<Rightarrow> u32 \<Rightarrow> unit prog" where
  "set_area_sizes b prr =
     (let old = (prr AND RCAR_CUT_MASK < RCAR_CUT_VER30);
          sz = (\<lambda>a e. puts (\<lambda>s. s\<lparr>area_size := a, extra_area_size := e\<rparr>)) in
      if prr AND RCAR_PRODUCT_MASK = RCAR_PRODUCT_H3 then
        (if old then sz 0x1B 0x18 else if b_memconf_4gb b then sz 0x1B 0x18 else sz 0x1C 0x19)
      else if prr AND RCAR_PRODUCT_MASK = RCAR_PRODUCT_M3 then
        (if old then sz 0x1C 0x19 else sz 0x1D 0x1A)
      else seqs [ERROR (''Product ID Unknown.'' @ [CHR 0x0A]) [], panic])"

text \<open>The choice of the split mode, and the final loop that fills and reports the areas.\<close>

definition dual_ecc_setting :: "build \<Rightarrow> u32 \<Rightarrow> unit prog" where
  "dual_ecc_setting b prr =
     (case b_split b of
        SPLIT_AUTO \<Rightarrow> (if prr AND RCAR_PRODUCT_MASK = RCAR_PRODUCT_H3
                       then dual_ecc_setting_4ch else dual_ecc_setting_2ch)
      | SPLIT_4CH \<Rightarrow> dual_ecc_setting_4ch
      | SPLIT_2CH \<Rightarrow> dual_ecc_setting_2ch
      | SPLIT_LINEAR \<Rightarrow> dual_ecc_setting_linear)"

definition dual_areas :: "u32 \<Rightarrow> u32 \<Rightarrow> u32 \<Rightarrow> u32 \<Rightarrow> unit prog" where
  "dual_areas fill_data prr area_size_byte extra_area_size_byte =
     for_each [0..<8] (\<lambda>i.
       seqs
        [dual_area fill_data prr area_size_byte i,
         whenp (extra_split_enable_bit ! (7 - i) = 1)
           (seqs
             [NOTICE (''Extra split enable Area%d'' @ [CHR 0x0A]) [ArgW (of_nat i)],
              for_each [0..<8] (dual_extra_area fill_data prr area_size_byte extra_area_size_byte i)])])"

definition dram_dual_ecc_init :: "build \<Rightarrow> u32 \<Rightarrow> unit prog" where
  "dram_dual_ecc_init b fill_data =
     bnd (seqs
       [modify_32 MFIS_MFIERRCTLR4 (\<lambda>reg. reg OR 0x01000000),
        modify_32 MFIS_MFIERRTGTR4 (\<lambda>reg. reg OR 0x01000000),
        modify_32 EDC_EDCEN0 (\<lambda>reg. reg OR 0x8000),
        modify_32 EDC_EDCINTEN1 (\<lambda>reg. reg OR 0xE0000000)]) (\<lambda>_.
     bnd (mmio_read_32 RCAR_PRR) (\<lambda>prr0.
     bnd (set_area_sizes b prr0) (\<lambda>_.
     bnd (mmio_read_32 RCAR_PRR) (\<lambda>prr1.
     bnd (dual_ecc_setting b prr1) (\<lambda>_.
     bnd (gets area_ecc_enable) (\<lambda>ae.
     bnd (gets extra_area_ecc_enable) (\<lambda>eae.
     bnd (whenp (ae AND eae \<noteq> 0) (seqs [ERROR (''DRAM ECC area setting error'' @ [CHR 0x0A]) [], panic])) (\<lambda>_.
     bnd (modify_32 AXI_FUSACR (\<lambda>reg. reg OR push_bit 24 (eae AND 0xFF) OR push_bit 16 (ae AND 0xFF))) (\<lambda>_.
     bnd (NOTICE (''DRAM Dual ECC enable'' @ [CHR 0x0A]) []) (\<lambda>_.
     bnd (gets area_size) (\<lambda>asz.
     bnd (gets extra_area_size) (\<lambda>esz.
     bnd (mmio_read_32 RCAR_PRR) (\<lambda>prr2.
     dual_areas fill_data (prr2 AND RCAR_PRODUCT_MASK) (push_bit (unat asz) 1) (push_bit (unat esz) 1))))))))))))))"

section \<open>The dispatcher (ecc\_init.c)\<close>

definition ecc_init :: "build \<Rightarrow> u32 \<Rightarrow> unit prog" where
  "ecc_init b fill_data =
     (case b_ecc b of
        DRAM_SRAM_ECC_DISABLE \<Rightarrow> ret ()
      | SINGLE_ECC_OPT_ENABLE \<Rightarrow>
          bnd (mmio_read_32 RCAR_PRR) (\<lambda>prr.
          (let product = prr AND RCAR_PRODUCT_MASK in
           if product = RCAR_PRODUCT_H3 then
             (if prr AND RCAR_CUT_MASK < RCAR_CUT_VER20
              then seqs [ERROR (''R-Car H3 Ver.1.0/1.1 is not supported Single Channel ECC.'' @ [CHR 0x0A]) [], panic]
              else single_ecc_init fill_data)
           else if product = RCAR_PRODUCT_M3 then
             (if prr AND RCAR_CUT_MASK < RCAR_CUT_VER30
              then seqs [ERROR (''R-Car M3 Ver.1.0/1.1/1.2/1.3 is not supported Single Channel ECC.'' @ [CHR 0x0A]) [], panic]
              else single_ecc_init fill_data)
           else if product = RCAR_PRODUCT_M3N \<or> product = RCAR_PRODUCT_E3 then single_ecc_init fill_data
           else seqs [ERROR (''Product ID Unknown.'' @ [CHR 0x0A]) [], panic]))
      | DUAL_ECC_OPT_ENABLE \<Rightarrow>
          bnd (mmio_read_32 RCAR_PRR) (\<lambda>prr.
          (let product = prr AND RCAR_PRODUCT_MASK in
           if product = RCAR_PRODUCT_H3 \<or> product = RCAR_PRODUCT_M3 then dram_dual_ecc_init b fill_data
           else if product = RCAR_PRODUCT_M3N
             then seqs [ERROR (''R-Car M3N is not supported Dual Channel ECC.'' @ [CHR 0x0A]) [], panic]
           else seqs [ERROR (''Product ID Unknown.'' @ [CHR 0x0A]) [], panic])))"

section \<open>The messages fit their buffer\<close>

lemma notice_msg_run:
  assumes "format fmt args = Some out" and "length out < 128"
  shows "notice_msg fmt args s = Done () (say (bytes ''NOTICE:  '' @ takeWhile (\<lambda>c. c \<noteq> 0) out) s)"
proof -
  have "bytes (c_string (out @ 0 # r)) = takeWhile (\<lambda>c. c \<noteq> 0) out" for r
  proof -
    have "takeWhile (\<lambda>c. c \<noteq> 0) (out @ 0 # r) = takeWhile (\<lambda>c. c \<noteq> 0) out"
      by (induction out) auto
    moreover have "of_char (char_of (unat c)) = (c :: u8)" for c
    proof -
      have u: "unat c < 256" using unsigned_less [of c] by simp
      have "(of_char (char_of (unat c)) :: u8) = of_nat (of_char (char_of (unat c)))"
        by (rule of_nat_of_char [symmetric])
      also have "\<dots> = of_nat (unat c)"
        using u by (simp only: of_char_of) simp
      finally show ?thesis by simp
    qed
    ultimately show ?thesis by (simp add: bytes_def c_string_def map_idI)
  qed
  then show ?thesis
    using assms by (simp add: notice_msg_def sprintf_eq NOTICE_run [of "''%s''"])
qed

lemma length_sdec: "length (sdec n) \<le> 11"
  using length_dec_u32 [of n] length_dec_u32 [of "- n"] by (simp add: sdec_def)

lemma length_hex8 [simp]: "length (hex8 n) = 8"
  by (simp add: hex8_def)

section \<open>What a run writes\<close>

text \<open>
  \<open>acts e p W\<close>: in the environment \<open>e\<close> and after any history, \<open>p\<close> returns, changes nothing but
  the history, and the registers it writes satisfy \<open>W\<close>.
\<close>

definition acts :: "machine \<Rightarrow> unit prog \<Rightarrow> ((u32 \<times> u32) list \<Rightarrow> bool) \<Rightarrow> bool" where
  "acts e p W \<longleftrightarrow>
     (\<forall>tr. \<exists>tr' ws. p (e\<lparr>m_tr := tr\<rparr>) = Done () (e\<lparr>m_tr := tr'\<rparr>) \<and> writes tr' = writes tr @ ws \<and> W ws)"

named_theorems acting

lemma acts_ret [acting]: "acts e (ret ()) (\<lambda>ws. ws = [])"
  by (auto simp: acts_def ret_def)

lemma acts_bnd:
  assumes "acts e p V" and "acts e q W"
  shows "acts e (bnd p (\<lambda>_. q)) (\<lambda>ws. \<exists>u v. ws = u @ v \<and> V u \<and> W v)"
  unfolding acts_def
proof
  fix tr
  obtain tr1 u where 1: "p (e\<lparr>m_tr := tr\<rparr>) = Done () (e\<lparr>m_tr := tr1\<rparr>)" "writes tr1 = writes tr @ u" "V u"
    using assms(1) unfolding acts_def by metis
  obtain tr2 v where 2: "q (e\<lparr>m_tr := tr1\<rparr>) = Done () (e\<lparr>m_tr := tr2\<rparr>)" "writes tr2 = writes tr1 @ v" "W v"
    using assms(2) unfolding acts_def by metis
  show "\<exists>tr' ws. bnd p (\<lambda>_. q) (e\<lparr>m_tr := tr\<rparr>) = Done () (e\<lparr>m_tr := tr'\<rparr>) \<and>
      writes tr' = writes tr @ ws \<and> (\<exists>u v. ws = u @ v \<and> V u \<and> W v)"
    using 1 2 by (intro exI [of _ tr2] exI [of _ "u @ v"]) (auto simp: bnd_def)
qed

lemma acts_weaken: "acts e p V \<Longrightarrow> (\<And>ws. V ws \<Longrightarrow> W ws) \<Longrightarrow> acts e p W"
  unfolding acts_def by metis

lemma acts_seqs_Nil [acting]: "acts e (seqs []) (\<lambda>ws. ws = [])"
  by (simp add: acts_ret)

lemma acts_seqs_Cons [acting]:
  "acts e p V \<Longrightarrow> acts e (seqs ps) W \<Longrightarrow> acts e (seqs (p # ps)) (\<lambda>ws. \<exists>u v. ws = u @ v \<and> V u \<and> W v)"
  by (simp add: acts_bnd)

lemma acts_for_each:
  assumes "\<And>x. x \<in> set xs \<Longrightarrow> acts e (b x) (V x)"
  shows "acts e (for_each xs b) (\<lambda>ws. \<exists>us. ws = concat us \<and> list_all2 V xs us)"
  using assms
proof (induction xs)
  case Nil
  then show ?case by (auto intro: acts_weaken [OF acts_ret])
next
  case (Cons x xs)
  then have "acts e (for_each (x # xs) b)
      (\<lambda>ws. \<exists>u v. ws = u @ v \<and> V x u \<and> (\<exists>us. v = concat us \<and> list_all2 V xs us))"
    by (simp add: acts_bnd)
  then show ?case
    by (rule acts_weaken) (metis concat.simps(2) list_all2_Cons)
qed

lemma acts_write [acting]: "acts e (mmio_write_32 a v) (\<lambda>ws. ws = [(a, v)])"
  by (auto simp: acts_def steps_simps)

lemma acts_modify [acting]: "acts e (modify_32 a f) (\<lambda>ws. \<exists>reg. ws = [(a, f reg)])"
  unfolding acts_def
proof
  fix tr
  let ?r = "d_rd32 (m_dev e) tr a"
  show "\<exists>tr' ws. modify_32 a f (e\<lparr>m_tr := tr\<rparr>) = Done () (e\<lparr>m_tr := tr'\<rparr>) \<and>
      writes tr' = writes tr @ ws \<and> (\<exists>reg. ws = [(a, f reg)])"
    by (intro exI [of _ "Wr32 a (f ?r) # Rd32 a ?r # tr"] exI [of _ "[(a, f ?r)]"])
      (auto simp: modify_32_def steps_simps)
qed

lemma acts_say: "\<forall>s. \<exists>cs. p s = Done () (say cs s) \<Longrightarrow> acts e p (\<lambda>ws. ws = [])"
  unfolding acts_def
proof (intro allI)
  fix tr
  assume "\<forall>s. \<exists>cs. p s = Done () (say cs s)"
  then obtain cs where "p (e\<lparr>m_tr := tr\<rparr>) = Done () (say cs (e\<lparr>m_tr := tr\<rparr>))" by blast
  then show "\<exists>tr' ws. p (e\<lparr>m_tr := tr\<rparr>) = Done () (e\<lparr>m_tr := tr'\<rparr>) \<and> writes tr' = writes tr @ ws \<and> ws = []"
    by (auto simp: say_def)
qed

lemma acts_NOTICE [acting]: "format fmt args \<noteq> None \<Longrightarrow> acts e (NOTICE fmt args) (\<lambda>ws. ws = [])"
  by (rule acts_say) (use NOTICE_run in blast)

lemma acts_notice_msg:
  "format fmt args = Some out \<Longrightarrow> length out < 128 \<Longrightarrow> acts e (notice_msg fmt args) (\<lambda>ws. ws = [])"
  by (rule acts_say) (use notice_msg_run in blast)

lemma acts_fill:
  assumes "fill_finishes (m_dev e) (m_fuel e)" and "1024 \<le> unat len"
  shows "acts e (exec_fillDMA fd dst len) (fills fd dst len)"
  unfolding acts_def
proof
  fix tr
  have "fill_finishes (m_dev (e\<lparr>m_tr := tr\<rparr>)) (m_fuel (e\<lparr>m_tr := tr\<rparr>))" using assms(1) by simp
  from exec_fillDMA_fills [OF this assms(2)] obtain t ws where
    "exec_fillDMA fd dst len (e\<lparr>m_tr := tr\<rparr>) = Done () t" "t = e\<lparr>m_tr := tr\<rparr>\<lparr>m_tr := m_tr t\<rparr>"
    "writes (m_tr t) = writes tr @ ws" "fills fd dst len ws"
    by (metis machine.select_convs(3) machine.surjective machine.update_convs(3))
  then show "\<exists>tr' ws. exec_fillDMA fd dst len (e\<lparr>m_tr := tr\<rparr>) = Done () (e\<lparr>m_tr := tr'\<rparr>) \<and>
      writes tr' = writes tr @ ws \<and> fills fd dst len ws"
    by (intro exI [of _ "m_tr t"] exI [of _ ws]) simp
qed

lemma acts_run:
  assumes "acts (s\<lparr>m_tr := []\<rparr>) p W"
  shows "\<exists>tr ws. p s = Done () (s\<lparr>m_tr := tr\<rparr>) \<and> writes tr = writes (m_tr s) @ ws \<and> W ws"
  using assms [unfolded acts_def, rule_format, of "m_tr s"] by simp

section \<open>Single channel: the area is filled before checking starts\<close>

lemma dram_row_0:
  "dram_ecc_table ! 0 = \<lparr>fusa_addr = 0x0400000000, ecc_addr = 0x043FE00000, enable = SINGLE_ECC_ENABLE,
     fusa_size = 1, ecc_mode = MODE_8_5, fusa_fill = FUSA_0FILL_ENABLE\<rparr>"
  by (simp add: dram_ecc_table_def)

lemma dram_row_off: "0 < i \<Longrightarrow> i < 16 \<Longrightarrow> dram_ecc_table ! i = row_off"
  by (cases i) (simp_all add: dram_ecc_table_def)

lemma sram_row_off: "i < 8 \<Longrightarrow> sram_ecc_table ! i = row_off"
  by (simp add: sram_ecc_table_def)

text \<open>Every message of the ECC drivers fits, whatever the numbers in it.\<close>

definition fits :: "string \<Rightarrow> arg list \<Rightarrow> bool" where
  "fits fmt args \<longleftrightarrow> (\<exists>out. format fmt args = Some out \<and> length out < 128)"

lemma acts_fits: "fits fmt args \<Longrightarrow> acts e (notice_msg fmt args) (\<lambda>ws. ws = [])"
  unfolding fits_def using acts_notice_msg by blast

lemma length_bytes [simp]: "length (bytes x) = length x"
  by (simp add: bytes_def)

lemma single_msgs_fit:
  assumes "length str \<le> 20"
  shows "fits (''DRAM Fusa Area[%d]=0x%x_%x Size=0x%x %s'' @ [CHR 0x0A]) [ArgW i, ArgW a, ArgW b, ArgW c, ArgS str]"
    and "fits (''DRAM ECC  Area[%d]=0x%x_%x Mode=%s'' @ [CHR 0x0A]) [ArgW i, ArgW a, ArgW b, ArgS str]"
  using assms length_sdec [of i] by (simp_all add: fits_def)

lemma acts_dram_area_on:
  assumes "fill_finishes (m_dev e) (m_fuel e)" and "1024 \<le> unat (DSIZE_CALC (fusa_size r))"
    and on: "enable r = SINGLE_ECC_ENABLE" "fusa_fill r = FUSA_0FILL_ENABLE"
  shows "acts e (dram_ecc_area fd i r)
    (\<lambda>ws. \<exists>f. ws = [(DFUSAAREACR i, area_reg r), (DECCAREACR i, ecc_reg r)] @ f \<and>
       fills fd (fusa_addr r) (DSIZE_CALC (fusa_size r)) f)"
proof -
  note fill = acts_fill [OF assms(1,2)]
  have "length (ecc_mode_str (ecc_mode r)) \<le> 20" by (simp add: ecc_mode_str_def)
  note m = acts_fits [OF single_msgs_fit(1)] acts_fits [OF single_msgs_fit(2) [OF this]]
  have "length ''Fill with 0'' \<le> 20" by simp
  note m1 = m(1) [OF this]
  show ?thesis
    unfolding dram_ecc_area_def on whenp_def simp_thms if_True
    by (rule acts_weaken [OF acts_seqs_Cons [OF acts_write acts_seqs_Cons [OF acts_write acts_seqs_Cons
       [OF fill acts_seqs_Cons [OF m1 acts_seqs_Cons [OF m(2) acts_seqs_Nil]]]]]]) auto
qed

lemma acts_dram_area_0:
  assumes "fill_finishes (m_dev e) (m_fuel e)"
  shows "acts e (dram_ecc_area fd 0 (dram_ecc_table ! 0))
    (\<lambda>ws. \<exists>f. ws = [(0xE6785000, 0x81400000), (0xE6785040, 0x0043FE00)] @ f \<and> fills fd 0x0400000000 0x200000 f)"
  using acts_dram_area_on [OF assms, of "dram_ecc_table ! 0" fd 0]
  by (simp add: dram_row_0 DFUSAAREACR_def DECCAREACR_def area_reg_def ecc_reg_def DSIZE_CALC_def)

lemma acts_dram_area_off: "acts e (dram_ecc_area fd i row_off) (\<lambda>ws. ws = [])"
  by (simp add: dram_ecc_area_def row_off_def acts_ret)

lemma acts_sram_area_off: "acts e (sram_ecc_area fd i row_off) (\<lambda>ws. ws = [])"
  by (simp add: sram_ecc_area_def row_off_def acts_ret)

lemma acts_all_off:
  assumes "\<And>i. i \<in> set xs \<Longrightarrow> acts e (b i) (\<lambda>ws. ws = [])"
  shows "acts e (for_each xs b) (\<lambda>ws. ws = [])"
proof (rule acts_weaken [OF acts_for_each [of xs e b "\<lambda>_ ws. ws = []"]])
  fix ws
  assume "\<exists>us. ws = concat us \<and> list_all2 (\<lambda>_ ws. ws = []) xs us"
  then show "ws = []" by (auto simp: list_all2_conv_all_nth in_set_conv_nth)
qed (rule assms)

lemma acts_dram_areas:
  assumes "fill_finishes (m_dev e) (m_fuel e)"
  shows "acts e (for_each [0..<16] (\<lambda>i. dram_ecc_area fd i (dram_ecc_table ! i)))
    (\<lambda>ws. \<exists>f. ws = [(0xE6785000, 0x81400000), (0xE6785040, 0x0043FE00)] @ f \<and> fills fd 0x0400000000 0x200000 f)"
proof -
  have split: "[0..<16] = 0 # [Suc 0..<16]" by (simp add: upt_rec)
  have "acts e (for_each [Suc 0..<16] (\<lambda>i. dram_ecc_area fd i (dram_ecc_table ! i))) (\<lambda>ws. ws = [])"
    by (rule acts_all_off) (auto simp: dram_row_off acts_dram_area_off)
  from acts_bnd [OF acts_dram_area_0 [OF assms, of fd] this]
  show ?thesis by (simp only: split for_each.simps) (erule acts_weaken, auto)
qed

lemma acts_sram_areas: "acts e (for_each [0..<8] (\<lambda>i. sram_ecc_area fd i (sram_ecc_table ! i))) (\<lambda>ws. ws = [])"
  by (rule acts_all_off) (auto simp: sram_row_off acts_sram_area_off)

lemma single_ecc_init_run:
  assumes "fill_finishes (m_dev s) (m_fuel s)"
  shows "\<exists>t r1 r2 r3 r4 f r5 r6. single_ecc_init fd s = Done () (s\<lparr>m_tr := t\<rparr>) \<and>
    fills fd 0x0400000000 0x200000 f \<and>
    writes t = writes (m_tr s) @
      [(MFIS_MFIERRTGTR4, r1 AND NOT 0x01000000), (MFIS_MFIERRCTLR4, r2 OR 0x01000000),
       (MFIS_MFIERRTGTR8, r3 AND NOT 0x01800000), (MFIS_MFIERRCTLR8, r4 OR 0x01800000),
       (0xE6785000, 0x81400000), (0xE6785040, 0x0043FE00)] @ f @
      [(EDC_EDCEN0, r5 OR 0x8000), (EDC_EDCINTEN1, r6 OR 0xE0000000)]"
proof -
  let ?e = "s\<lparr>m_tr := []\<rparr>"
  have fin: "fill_finishes (m_dev ?e) (m_fuel ?e)" using assms by simp
  have n: "acts ?e (NOTICE (''Single Channel ECC enable'' @ [CHR 0x0A]) []) (\<lambda>ws. ws = [])"
    by (rule acts_NOTICE) simp
  note all = acts_seqs_Cons [OF acts_modify acts_seqs_Cons [OF acts_modify acts_seqs_Cons [OF acts_modify
    acts_seqs_Cons [OF acts_modify acts_seqs_Cons [OF n acts_seqs_Cons [OF acts_dram_areas [OF fin, of fd]
    acts_seqs_Cons [OF acts_sram_areas [of _ fd] acts_seqs_Cons [OF acts_modify acts_seqs_Cons [OF acts_modify acts_seqs_Nil]]]]]]]]]
  from acts_run [OF all [of MFIS_MFIERRTGTR4 "\<lambda>reg. reg AND NOT 0x01000000"
      MFIS_MFIERRCTLR4 "\<lambda>reg. reg OR 0x01000000" MFIS_MFIERRTGTR8 "\<lambda>reg. (reg AND NOT 0x01000000) AND NOT 0x00800000"
      MFIS_MFIERRCTLR8 "\<lambda>reg. reg OR 0x01000000 OR 0x00800000" EDC_EDCEN0 "\<lambda>reg. reg OR 0x8000"
      EDC_EDCINTEN1 "\<lambda>reg. reg OR 0xE0000000"], folded single_ecc_init_def]
  show ?thesis by (fastforce simp: and.assoc or.assoc)
qed

text \<open>
  Property C12 (single_ecc_init_correct): with a fill controller that finishes,
  \<^verbatim>\<open>single_ecc_init\<close> returns, its messages fit their buffer, and the registers it writes are, in
  this order: the error routing to the real-time domain, the protected area and its ECC area of the
  table, the channel programming that fills that whole area (2 MiB at 0x4\_0000\_0000), and only
  then the enables of the error detection, which keep the other bits of their registers.
\<close>

theorem single_ecc_init_correct:
  assumes "fill_finishes (m_dev s) (m_fuel s)"
  shows "\<exists>t r1 r2 r3 r4 f r5 r6. single_ecc_init fd s = Done () (s\<lparr>m_tr := t\<rparr>) \<and>
    fills fd 0x0400000000 0x200000 f \<and>
    writes t = writes (m_tr s) @
      [(MFIS_MFIERRTGTR4, r1 AND NOT 0x01000000), (MFIS_MFIERRCTLR4, r2 OR 0x01000000),
       (MFIS_MFIERRTGTR8, r3 AND NOT 0x01800000), (MFIS_MFIERRCTLR8, r4 OR 0x01800000),
       (0xE6785000, 0x81400000), (0xE6785040, 0x0043FE00)] @ f @
      [(EDC_EDCEN0, r5 OR 0x8000), (EDC_EDCINTEN1, r6 OR 0xE0000000)]"
  using assms by (rule single_ecc_init_run)

text \<open>Witness: on a controller whose end bits are always set.\<close>

theorem single_ecc_init_witness:
  "\<exists>t. single_ecc_init 0xE6302000 (boot_machine (const_device 3) 1) = Done () t \<and>
     (0xE6785000, 0x81400000) \<in> set (writes (m_tr t)) \<and>
     fst (last (writes (m_tr t))) = EDC_EDCINTEN1"
proof -
  have "fill_finishes (m_dev (boot_machine (const_device 3) 1)) (m_fuel (boot_machine (const_device 3) 1))"
    by (simp add: fill_finishes_def const_device_def boot_machine_def)
  from single_ecc_init_correct [OF this, of "0xE6302000"] show ?thesis
    by (auto simp: boot_machine_def)
qed

section \<open>Dual channel: the configured areas\<close>

text \<open>The split check leaves one area: the lowest one enabled.\<close>

lemma extra_split_check_bits:
  assumes "sorted_wrt (<) is" and "\<forall>i \<in> set is. i < 32" and "\<exists>i \<in> set is. bit v i"
  shows "\<exists>i \<in> set is. bit v i \<and> (\<forall>j \<in> set is. j < i \<longrightarrow> \<not> bit v j) \<and> extra_split_check is v = push_bit i 1"
  using assms
proof (induction "is")
  case (Cons i "is")
  have single: "v AND push_bit i 1 = (if bit v i then push_bit i 1 else 0)"
    by (rule bit_word_eqI) (auto simp: bit_simps)
  have nz: "push_bit i 1 \<noteq> (0 :: u32)" using Cons.prems(2) by (simp add: push_bit_eq_mult)
  show ?case
  proof (cases "bit v i")
    case True
    then have "extra_split_check (i # is) v = push_bit i 1"
      using nz by (simp only: extra_split_check.simps single if_True simp_thms)
    moreover have "\<forall>j \<in> set (i # is). j < i \<longrightarrow> \<not> bit v j"
      using Cons.prems(1) by force
    ultimately show ?thesis using True by (intro bexI [of _ i]) simp_all
  next
    case False
    then have eq: "extra_split_check (i # is) v = extra_split_check is v"
      by (simp only: extra_split_check.simps single if_False simp_thms)
    show ?thesis unfolding eq using Cons False by auto
  qed
qed simp

lemma area_bits_tables [simp]:
  "area_bits area_ecc_enable_bit 0 = 0" "area_bits extra_area_ecc_enable_bit 0 = 1"
  "area_bits extra_split_enable_bit 0 = 1" "area_bits extra_area 0 = 0xFF"
  by (simp_all add: area_bits_def area_ecc_enable_bit_def extra_area_ecc_enable_bit_def
      extra_split_enable_bit_def extra_area_def upt_rec)

lemma extra_split_check_1 [simp]: "extra_split_check [0..<8] 1 = 1"
  by (simp add: upt_rec)

text \<open>The split registers and the bits they get, by split mode.\<close>

definition split_regs :: "build \<Rightarrow> u32 \<Rightarrow> u32 list" where
  "split_regs b prr =
     (if b_split b = SPLIT_4CH \<or> b_split b = SPLIT_AUTO \<and> prr AND RCAR_PRODUCT_MASK = RCAR_PRODUCT_H3
      then [AXI_ADSPLCR1, AXI_ADSPLCR3] else [AXI_ADSPLCR0, AXI_ADSPLCR1, AXI_ADSPLCR3])"

lemma acts_read: "(\<And>v. acts e (f v) W) \<Longrightarrow> acts e (bnd (mmio_read_32 a) f) W"
  unfolding acts_def
proof
  fix tr
  let ?v = "d_rd32 (m_dev e) tr a"
  assume "\<And>v. \<forall>tr. \<exists>tr' ws. f v (e\<lparr>m_tr := tr\<rparr>) = Done () (e\<lparr>m_tr := tr'\<rparr>) \<and> writes tr' = writes tr @ ws \<and> W ws"
  from this [of ?v, rule_format, of "Rd32 a ?v # tr"]
  show "\<exists>tr' ws. bnd (mmio_read_32 a) f (e\<lparr>m_tr := tr\<rparr>) = Done () (e\<lparr>m_tr := tr'\<rparr>) \<and> writes tr' = writes tr @ ws \<and> W ws"
    by (simp add: steps_simps)
qed

lemma acts_read_const:
  assumes "\<forall>t. d_rd32 (m_dev e) t a = v" and "acts e (f v) W"
  shows "acts e (bnd (mmio_read_32 a) f) W"
  unfolding acts_def
proof
  fix tr
  show "\<exists>tr' ws. bnd (mmio_read_32 a) f (e\<lparr>m_tr := tr\<rparr>) = Done () (e\<lparr>m_tr := tr'\<rparr>) \<and> writes tr' = writes tr @ ws \<and> W ws"
    using assms(2) [unfolded acts_def, rule_format, of "Rd32 a v # tr"] by (simp add: steps_simps assms(1))
qed

lemma acts_gets: "(\<And>tr. h (e\<lparr>m_tr := tr\<rparr>) = h e) \<Longrightarrow> acts e (f (h e)) W \<Longrightarrow> acts e (bnd (gets h) f) W"
  by (simp add: acts_def steps_simps)

lemma acts_modify_Cons:
  assumes "acts e (seqs ps) (\<lambda>ws. map fst ws = as)"
  shows "acts e (seqs (modify_32 a f # ps)) (\<lambda>ws. map fst ws = a # as)"
  by (rule acts_weaken [OF acts_seqs_Cons [OF acts_modify assms]]) auto

lemma acts_modify_Nil: "acts e (seqs []) (\<lambda>ws. map fst ws = [])"
  by (rule acts_weaken [OF acts_seqs_Nil]) simp

lemma dual_ecc_setting_run:
  assumes "area_ecc_enable s = 0" and "extra_area_ecc_enable s = 0"
  shows "\<exists>tr ws. dual_ecc_setting b prr s = Done () (s\<lparr>extra_area_ecc_enable := 1, m_tr := tr\<rparr>) \<and>
    writes tr = writes (m_tr s) @ ws \<and> map fst ws = split_regs b prr"
proof -
  let ?s = "s\<lparr>extra_area_ecc_enable := 1\<rparr>"
  have set: "bnd set_ecc_enables f s = f () ?s" for f :: "unit \<Rightarrow> unit prog"
  proof -
    have "s\<lparr>area_ecc_enable := 0\<rparr> = s" using assms(1) by (cases s) simp
    then have "s\<lparr>area_ecc_enable := 0, extra_area_ecc_enable := 1\<rparr> = ?s" by (rule arg_cong)
    then show ?thesis by (simp only: set_ecc_enables_def bnd_puts assms area_bits_tables)
  qed
  let ?runs = "\<lambda>p s as. \<exists>tr ws. p s = Done () (?s\<lparr>m_tr := tr\<rparr>) \<and> writes tr = writes (m_tr s) @ ws \<and> map fst ws = as"
  have run: "?runs p ?s as" if "acts (?s\<lparr>m_tr := []\<rparr>) p (\<lambda>ws. map fst ws = as)" for p as
    using acts_run [OF that] by simp
  have m: "m_tr ?s = m_tr s" by simp
  note rules = acts_gets acts_read acts_modify_Cons acts_modify_Nil
  have "?runs dual_ecc_setting_4ch s [AXI_ADSPLCR1, AXI_ADSPLCR3]"
    unfolding dual_ecc_setting_4ch_def set Let_def m [symmetric] by (intro run rules) simp_all
  moreover have "?runs dual_ecc_setting_2ch s [AXI_ADSPLCR0, AXI_ADSPLCR1, AXI_ADSPLCR3]"
    unfolding dual_ecc_setting_2ch_def set Let_def m [symmetric] by (intro run rules) simp_all
  moreover have "?runs dual_ecc_setting_linear s [AXI_ADSPLCR0, AXI_ADSPLCR1, AXI_ADSPLCR3]"
    unfolding dual_ecc_setting_linear_def set Let_def m [symmetric] by (intro run rules) simp_all
  ultimately show ?thesis
    unfolding dual_ecc_setting_def split_regs_def by (cases "b_split b") simp_all
qed

lemma dual_msgs_fit:
  assumes "length str \<le> 20"
  shows "fits (''Extra Area %d-%d:0x04_%x - 0x04_%x %s'' @ [CHR 0x0A]) [ArgW i, ArgW j, ArgW a, ArgW b, ArgS str]"
    and "fits (''               0x05_%x - 0x05_%x %s'' @ [CHR 0x0A]) [ArgW a, ArgW b, ArgS str]"
  using assms length_sdec [of i] length_sdec [of j] by (simp_all add: fits_def)

definition dual_fills :: "u32 \<Rightarrow> bool \<Rightarrow> u32 \<Rightarrow> (u32 \<times> u32) list \<Rightarrow> bool" where
  "dual_fills fd h3 len ws \<longleftrightarrow>
     (\<exists>f g. ws = f @ g \<and> fills fd ECC_BASE1 len f \<and> (if h3 then fills fd ECC_BASE2 len g else g = []))"

lemma acts_dual_extra_0:
  assumes "fill_finishes (m_dev e) (m_fuel e)" and "1024 \<le> unat elen"
  shows "acts e (dual_extra_area fd prr alen elen 0 0) (dual_fills fd (prr = RCAR_PRODUCT_H3) elen)"
proof -
  have len: "length ''Fill with 0'' \<le> 20" by simp
  note msg = acts_fits [OF dual_msgs_fit(1) [OF len]] acts_fits [OF dual_msgs_fit(2) [OF len]]
  note fill = acts_fill [OF assms]
  have on: "extra_area_ecc_enable_bit ! 7 = 1" "extra_area_fill_enable_bit ! 7 = 1"
    by (simp_all add: extra_area_ecc_enable_bit_def extra_area_fill_enable_bit_def)
  show ?thesis
  proof (cases "prr = RCAR_PRODUCT_H3")
    case True
    have eq: "dual_extra_area fd prr alen elen 0 0 = seqs
        [seqs [exec_fillDMA fd ECC_BASE1 elen, exec_fillDMA fd ECC_BASE2 elen],
         notice_msg (''Extra Area %d-%d:0x04_%x - 0x04_%x %s'' @ [CHR 0x0A])
           [ArgW 0, ArgW 0, ArgW 0, ArgW (elen - 1), ArgS ''Fill with 0''],
         notice_msg (''               0x05_%x - 0x05_%x %s'' @ [CHR 0x0A]) [ArgW 0, ArgW (elen - 1), ArgS ''Fill with 0'']]"
      unfolding True by (simp add: dual_extra_area_def on Let_def)
    show ?thesis
      unfolding eq
      by (rule acts_weaken [OF acts_seqs_Cons [OF acts_seqs_Cons [OF fill acts_seqs_Cons [OF fill acts_seqs_Nil]]
            acts_seqs_Cons [OF msg(1) acts_seqs_Cons [OF msg(2) acts_seqs_Nil]]]])
        (auto simp: dual_fills_def True)
  next
    case False
    then have eq: "dual_extra_area fd prr alen elen 0 0 = seqs
        [seqs [exec_fillDMA fd ECC_BASE1 elen, ret ()],
         notice_msg (''Extra Area %d-%d:0x04_%x - 0x04_%x %s'' @ [CHR 0x0A])
           [ArgW 0, ArgW 0, ArgW 0, ArgW (elen - 1), ArgS ''Fill with 0''], ret ()]"
      by (simp add: dual_extra_area_def on Let_def)
    show ?thesis
      unfolding eq
      by (rule acts_weaken [OF acts_seqs_Cons [OF acts_seqs_Cons [OF fill acts_seqs_Cons [OF acts_ret acts_seqs_Nil]]
            acts_seqs_Cons [OF msg(1) acts_seqs_Cons [OF acts_ret acts_seqs_Nil]]]])
        (auto simp: dual_fills_def False)
  qed
qed

lemma dual_tables:
  "i < 8 \<Longrightarrow> area_ecc_enable_bit ! i = 0"
  "0 < j \<Longrightarrow> j < 8 \<Longrightarrow> extra_area_ecc_enable_bit ! (7 - j) = 0"
  "0 < j \<Longrightarrow> j < 8 \<Longrightarrow> extra_split_enable_bit ! (7 - j) = 0"
  "extra_split_enable_bit ! 7 = 1"
  by (auto simp: area_ecc_enable_bit_def extra_area_ecc_enable_bit_def extra_split_enable_bit_def
      nth_Cons split: nat.splits)

lemma acts_first_of:
  assumes "acts e (b 0) W" and "\<And>i. 0 < i \<Longrightarrow> i < 8 \<Longrightarrow> acts e (b i) (\<lambda>ws. ws = [])"
  shows "acts e (for_each [0..<8] b) W"
proof -
  have split: "[0..<8] = 0 # [Suc 0..<8]" by (simp add: upt_rec)
  have "acts e (for_each [Suc 0..<8] b) (\<lambda>ws. ws = [])"
    by (rule acts_all_off) (auto intro: assms(2))
  from acts_bnd [OF assms(1) this] show ?thesis
    by (simp only: split for_each.simps) (erule acts_weaken, auto)
qed

lemma acts_dual_areas:
  assumes "fill_finishes (m_dev e) (m_fuel e)" and "1024 \<le> unat elen"
  shows "acts e (dual_areas fd prr alen elen) (dual_fills fd (prr = RCAR_PRODUCT_H3) elen)"
  unfolding dual_areas_def
proof (rule acts_first_of)
  have off: "dual_extra_area fd prr alen elen 0 j = ret ()" if "0 < j" "j < 8" for j
    using that by (simp add: dual_extra_area_def dual_tables)
  have inner: "acts e (for_each [0..<8] (dual_extra_area fd prr alen elen 0)) (dual_fills fd (prr = RCAR_PRODUCT_H3) elen)"
    using acts_dual_extra_0 [OF assms] by (rule acts_first_of) (simp add: off acts_ret)
  have n: "acts e (NOTICE (''Extra split enable Area%d'' @ [CHR 0x0A]) [ArgW (of_nat 0)]) (\<lambda>ws. ws = [])"
    by (rule acts_NOTICE) simp
  have d0: "dual_area fd prr alen 0 = ret ()" by (simp add: dual_area_def dual_tables)
  show "acts e (seqs [dual_area fd prr alen 0, whenp (extra_split_enable_bit ! (7 - 0) = 1)
      (seqs [NOTICE (''Extra split enable Area%d'' @ [CHR 0x0A]) [ArgW (of_nat 0)],
         for_each [0..<8] (dual_extra_area fd prr alen elen 0)])]) (dual_fills fd (prr = RCAR_PRODUCT_H3) elen)"
    unfolding d0 diff_zero dual_tables(4) whenp_def simp_thms if_True
    by (rule acts_weaken [OF acts_seqs_Cons [OF acts_ret acts_seqs_Cons [OF
          acts_seqs_Cons [OF n acts_seqs_Cons [OF inner acts_seqs_Nil]] acts_seqs_Nil]]]) auto
  show "acts e (seqs [dual_area fd prr alen i, whenp (extra_split_enable_bit ! (7 - i) = 1)
      (seqs [NOTICE (''Extra split enable Area%d'' @ [CHR 0x0A]) [ArgW (of_nat i)],
         for_each [0..<8] (dual_extra_area fd prr alen elen i)])]) (\<lambda>ws. ws = [])" if "0 < i" "i < 8" for i
    using that by (simp add: dual_area_def dual_tables acts_ret)
qed

text \<open>The log2 of the sizes of an area and of an extra area, by chip.\<close>

definition dual_sizes :: "build \<Rightarrow> u32 \<Rightarrow> (nat \<times> nat) option" where
  "dual_sizes b prr =
     (if prr AND RCAR_PRODUCT_MASK = RCAR_PRODUCT_H3
      then Some (if prr AND RCAR_CUT_MASK < RCAR_CUT_VER30 \<or> b_memconf_4gb b then (27, 24) else (28, 25))
      else if prr AND RCAR_PRODUCT_MASK = RCAR_PRODUCT_M3
      then Some (if prr AND RCAR_CUT_MASK < RCAR_CUT_VER30 then (28, 25) else (29, 26))
      else None)"

lemma set_area_sizes_run:
  "dual_sizes b prr = Some (n, k) \<Longrightarrow>
     set_area_sizes b prr s = Done () (s\<lparr>area_size := of_nat n, extra_area_size := of_nat k\<rparr>)"
  by (cases "prr AND RCAR_PRODUCT_MASK = RCAR_PRODUCT_H3"; cases "prr AND RCAR_PRODUCT_MASK = RCAR_PRODUCT_M3";
      cases "prr AND RCAR_CUT_MASK < RCAR_CUT_VER30"; cases "b_memconf_4gb b")
    (simp_all add: dual_sizes_def set_area_sizes_def Let_def puts_def)

lemma dual_sizes_range: "dual_sizes b prr = Some (n, k) \<Longrightarrow> k \<in> {24, 25, 26} \<and> n = k + 3"
  by (auto simp: dual_sizes_def split: if_splits)

lemma dram_dual_ecc_init_run:
  assumes "fill_finishes (m_dev s) (m_fuel s)" and "\<forall>t. d_rd32 (m_dev s) t RCAR_PRR = prr"
    and "area_ecc_enable s = 0" and "extra_area_ecc_enable s = 0" and "dual_sizes b prr = Some (n, k)"
  shows "\<exists>t r1 r2 r3 r4 ws r f. dram_dual_ecc_init b fd s = Done () t \<and>
    writes (m_tr t) = writes (m_tr s) @
      [(MFIS_MFIERRCTLR4, r1 OR 0x01000000), (MFIS_MFIERRTGTR4, r2 OR 0x01000000),
       (EDC_EDCEN0, r3 OR 0x8000), (EDC_EDCINTEN1, r4 OR 0xE0000000)] @ ws @ [(AXI_FUSACR, r OR 0x01000000)] @ f \<and>
    map fst ws = split_regs b prr \<and> n = k + 3 \<and>
    dual_fills fd (prr AND RCAR_PRODUCT_MASK = RCAR_PRODUCT_H3) (push_bit k 1) f"
proof -
  let ?mods = "seqs
       [modify_32 MFIS_MFIERRCTLR4 (\<lambda>reg. reg OR 0x01000000),
        modify_32 MFIS_MFIERRTGTR4 (\<lambda>reg. reg OR 0x01000000),
        modify_32 EDC_EDCEN0 (\<lambda>reg. reg OR 0x8000),
        modify_32 EDC_EDCINTEN1 (\<lambda>reg. reg OR 0xE0000000)]"
  have "\<exists>tr r1 r2 r3 r4. ?mods s = Done () (s\<lparr>m_tr := tr\<rparr>) \<and> writes tr = writes (m_tr s) @
      [(MFIS_MFIERRCTLR4, r1 OR 0x01000000), (MFIS_MFIERRTGTR4, r2 OR 0x01000000),
       (EDC_EDCEN0, r3 OR 0x8000), (EDC_EDCINTEN1, r4 OR 0xE0000000)]"
  proof -
    have "acts (s\<lparr>m_tr := []\<rparr>) ?mods (\<lambda>ws. \<exists>r1 r2 r3 r4. ws =
      [(MFIS_MFIERRCTLR4, r1 OR 0x01000000), (MFIS_MFIERRTGTR4, r2 OR 0x01000000),
       (EDC_EDCEN0, r3 OR 0x8000), (EDC_EDCINTEN1, r4 OR 0xE0000000)])"
      by (rule acts_weaken [OF acts_seqs_Cons [OF acts_modify acts_seqs_Cons [OF acts_modify acts_seqs_Cons [OF acts_modify
        acts_seqs_Cons [OF acts_modify acts_seqs_Nil]]]]]) auto
    from acts_run [OF this] show ?thesis by blast
  qed
  then obtain tr1 r1 r2 r3 r4 where mods: "?mods s = Done () (s\<lparr>m_tr := tr1\<rparr>)" "writes tr1 = writes (m_tr s) @
      [(MFIS_MFIERRCTLR4, r1 OR 0x01000000), (MFIS_MFIERRTGTR4, r2 OR 0x01000000),
       (EDC_EDCEN0, r3 OR 0x8000), (EDC_EDCINTEN1, r4 OR 0xE0000000)]"
    by blast
  let ?s2 = "s\<lparr>area_size := of_nat n, extra_area_size := of_nat k, m_tr := Rd32 RCAR_PRR prr # Rd32 RCAR_PRR prr # tr1\<rparr>"
  have "area_ecc_enable ?s2 = 0" "extra_area_ecc_enable ?s2 = 0" using assms(3,4) by simp_all
  from dual_ecc_setting_run [OF this, of b prr] obtain tr3 ws where
    set: "dual_ecc_setting b prr ?s2 = Done () (?s2\<lparr>extra_area_ecc_enable := 1, m_tr := tr3\<rparr>)"
      "writes tr3 = writes tr1 @ ws" "map fst ws = split_regs b prr"
    by auto
  let ?e = "s\<lparr>area_size := of_nat n, extra_area_size := of_nat k, extra_area_ecc_enable := 1, m_tr := []\<rparr>"
  have k: "k \<in> {24, 25, 26}" "n = k + 3" using dual_sizes_range [OF assms(5)] by auto
  let ?tail = "bnd (modify_32 AXI_FUSACR (\<lambda>reg. reg OR 0x01000000)) (\<lambda>_.
     bnd (NOTICE (''DRAM Dual ECC enable'' @ [CHR 0x0A]) []) (\<lambda>_.
     bnd (gets area_size) (\<lambda>asz. bnd (gets extra_area_size) (\<lambda>esz.
     bnd (mmio_read_32 RCAR_PRR) (\<lambda>prr2.
     dual_areas fd (prr2 AND RCAR_PRODUCT_MASK) (push_bit (unat asz) 1) (push_bit (unat esz) 1))))))"
  have nk: "unat (of_nat n :: u32) = n" "unat (of_nat k :: u32) = k" using k by auto
  have tail: "acts ?e ?tail (\<lambda>ws. \<exists>r f. ws = [(AXI_FUSACR, r OR 0x01000000)] @ f \<and>
      dual_fills fd (prr AND RCAR_PRODUCT_MASK = RCAR_PRODUCT_H3) (push_bit k 1) f)"
  proof -
    have fin: "fill_finishes (m_dev ?e) (m_fuel ?e)" "1024 \<le> unat (push_bit k 1 :: u32)"
      using assms(1) k by (auto simp: push_bit_eq_mult)
    have prr: "\<forall>t. d_rd32 (m_dev ?e) t RCAR_PRR = prr" using assms(2) by simp
    have nt: "acts ?e (NOTICE (''DRAM Dual ECC enable'' @ [CHR 0x0A]) []) (\<lambda>ws. ws = [])"
      by (rule acts_NOTICE) simp
    have "acts ?e (bnd (gets area_size) (\<lambda>asz. bnd (gets extra_area_size) (\<lambda>esz. bnd (mmio_read_32 RCAR_PRR) (\<lambda>prr2.
        dual_areas fd (prr2 AND RCAR_PRODUCT_MASK) (push_bit (unat asz) 1) (push_bit (unat esz) 1)))))
      (dual_fills fd (prr AND RCAR_PRODUCT_MASK = RCAR_PRODUCT_H3) (push_bit k 1))"
      using acts_dual_areas [OF fin, of fd "prr AND RCAR_PRODUCT_MASK" "push_bit n 1"] nk
      by (intro acts_gets acts_read_const [OF prr]) simp_all
    then show ?thesis
      by (intro acts_weaken [OF acts_bnd [OF acts_modify acts_bnd [OF nt]]]) auto
  qed
  from tail [unfolded acts_def, rule_format, of tr3] obtain tr4 r f where
    t: "?tail (?e\<lparr>m_tr := tr3\<rparr>) = Done () (?e\<lparr>m_tr := tr4\<rparr>)"
      "writes tr4 = writes tr3 @ [(AXI_FUSACR, r OR 0x01000000)] @ f"
      "dual_fills fd (prr AND RCAR_PRODUCT_MASK = RCAR_PRODUCT_H3) (push_bit k 1) f"
    by blast
  have "dram_dual_ecc_init b fd s = ?tail (?e\<lparr>m_tr := tr3\<rparr>)"
    unfolding dram_dual_ecc_init_def
    by (simp add: bnd_Done [of ?mods, OF mods(1)] del: seqs.simps)
      (simp add: bnd_read_32 assms(2) bnd_Done [of "set_area_sizes b prr", OF set_area_sizes_run [OF assms(5)]]
        bnd_Done [of "dual_ecc_setting b prr", OF set(1)] bnd_gets assms(3))
  then show ?thesis
    using mods(2) set(2,3) t(2,3) k(2) t(1) by (intro exI [of _ "?e\<lparr>m_tr := tr4\<rparr>"]) auto
qed

text \<open>
  Property C13 (dram_dual_ecc_init_correct): started with the static variables as C initialises
  them, on an H3 or M3 chip and with a fill controller that finishes, \<^verbatim>\<open>dram_dual_ecc_init\<close>
  returns in every split mode and for every cut, without the configuration error and with messages
  that fit. It routes and enables the error detection, sets the split registers of the mode, selects
  extra area 0 in \<^verbatim>\<open>AXI_FUSACR\<close>, and then fills the whole extra area at the start of the DRAM,
  on H3 also at the second channel pair; the area is an eighth of the area of the chip.
\<close>

theorem dram_dual_ecc_init_correct:
  assumes "fill_finishes (m_dev s) (m_fuel s)" and "\<forall>t. d_rd32 (m_dev s) t RCAR_PRR = prr"
    and "area_ecc_enable s = 0" and "extra_area_ecc_enable s = 0" and "dual_sizes b prr = Some (n, k)"
  shows "\<exists>t r1 r2 r3 r4 ws r f. dram_dual_ecc_init b fd s = Done () t \<and>
    writes (m_tr t) = writes (m_tr s) @
      [(MFIS_MFIERRCTLR4, r1 OR 0x01000000), (MFIS_MFIERRTGTR4, r2 OR 0x01000000),
       (EDC_EDCEN0, r3 OR 0x8000), (EDC_EDCINTEN1, r4 OR 0xE0000000)] @ ws @ [(AXI_FUSACR, r OR 0x01000000)] @ f \<and>
    map fst ws = split_regs b prr \<and> n = k + 3 \<and>
    dual_fills fd (prr AND RCAR_PRODUCT_MASK = RCAR_PRODUCT_H3) (push_bit k 1) f"
  using assms by (rule dram_dual_ecc_init_run)

text \<open>Witness: an H3 version 3.0 with automatic split, on registers that all read as its PRR.\<close>

theorem dram_dual_ecc_init_witness:
  "\<exists>t. dram_dual_ecc_init (build_m3n\<lparr>b_split := SPLIT_AUTO\<rparr>) 0xE6302000 (boot_machine (const_device 0x4F22) 1) = Done () t \<and>
     fst (writes (m_tr t) ! 6) = AXI_FUSACR"
proof -
  let ?s = "boot_machine (const_device 0x4F22) 1" and ?b = "build_m3n\<lparr>b_split := SPLIT_AUTO\<rparr>"
  have "fill_finishes (m_dev ?s) (m_fuel ?s)"
    by (simp add: fill_finishes_def const_device_def boot_machine_def)
  moreover have "\<forall>t. d_rd32 (m_dev ?s) t RCAR_PRR = 0x4F22" "area_ecc_enable ?s = 0" "extra_area_ecc_enable ?s = 0"
    by (simp_all add: const_device_def boot_machine_def)
  moreover have "dual_sizes ?b 0x4F22 = Some (28, 25)" by (simp add: dual_sizes_def build_m3n_def)
  moreover have "split_regs ?b 0x4F22 = [AXI_ADSPLCR1, AXI_ADSPLCR3]" by (simp add: split_regs_def)
  moreover have "writes (m_tr ?s) = []" by (simp add: boot_machine_def)
  ultimately show ?thesis
    using dram_dual_ecc_init_correct [of ?s "0x4F22" ?b 28 25 "0xE6302000"] by auto
qed

section \<open>Dispatch by chip\<close>

text \<open>The chips on which each kind of error correction exists.\<close>

definition ecc_supported :: "build \<Rightarrow> u32 \<Rightarrow> bool" where
  "ecc_supported b prr =
     (let product = prr AND RCAR_PRODUCT_MASK; cut = prr AND RCAR_CUT_MASK in
      case b_ecc b of
        DRAM_SRAM_ECC_DISABLE \<Rightarrow> True
      | SINGLE_ECC_OPT_ENABLE \<Rightarrow>
          product = RCAR_PRODUCT_H3 \<and> RCAR_CUT_VER20 \<le> cut \<or> product = RCAR_PRODUCT_M3 \<and> RCAR_CUT_VER30 \<le> cut \<or>
          product \<in> {RCAR_PRODUCT_M3N, RCAR_PRODUCT_E3}
      | DUAL_ECC_OPT_ENABLE \<Rightarrow> product \<in> {RCAR_PRODUCT_H3, RCAR_PRODUCT_M3})"

lemma silent_panic:
  assumes "format f as \<noteq> None"
  shows "\<exists>t. seqs [ERROR f as, panic] s = Panic t \<and> writes (m_tr t) = writes (m_tr s)"
  using error_panic [OF assms, of s] by (auto simp: say_def)

text \<open>
  Property C14 (ecc_init_dispatch): \<^verbatim>\<open>ecc_init\<close> returns on every chip on which the configured
  kind of error correction exists, and on every other chip it panics before it has written any register.
\<close>

theorem ecc_init_dispatch:
  assumes "fill_finishes (m_dev s) (m_fuel s)" and prr: "\<forall>t. d_rd32 (m_dev s) t RCAR_PRR = prr"
    and "area_ecc_enable s = 0" and "extra_area_ecc_enable s = 0"
  shows "if ecc_supported b prr then \<exists>t. ecc_init b fd s = Done () t
    else \<exists>t. ecc_init b fd s = Panic t \<and> writes (m_tr t) = writes (m_tr s)"
proof -
  let ?s = "s\<lparr>m_tr := Rd32 RCAR_PRR prr # m_tr s\<rparr>"
  have w: "writes (m_tr ?s) = writes (m_tr s)" by simp
  have single: "\<exists>t. single_ecc_init fd ?s = Done () t"
    using single_ecc_init_run [of ?s fd] assms(1) by auto
  have dual: "\<exists>t. dram_dual_ecc_init b fd ?s = Done () t" if sz: "dual_sizes b prr \<noteq> None"
  proof -
    obtain n k where "dual_sizes b prr = Some (n, k)" using sz by auto
    from dram_dual_ecc_init_run [of ?s prr b n k fd, OF _ _ _ _ this] assms show ?thesis by auto
  qed
  note bad = silent_panic [where s = ?s, unfolded w]
  have read: "bnd (mmio_read_32 RCAR_PRR) f s = f prr ?s" for f :: "u32 \<Rightarrow> unit prog"
    using prr by (simp add: steps_simps)
  show ?thesis
  proof (cases "b_ecc b")
    case DRAM_SRAM_ECC_DISABLE
    then show ?thesis by (simp add: ecc_init_def ecc_supported_def ret_def)
  next
    case SINGLE_ECC_OPT_ENABLE
    show ?thesis
      using single
      by (simp only: ecc_init_def ecc_supported_def Let_def SINGLE_ECC_OPT_ENABLE ecc_opt.case read)
        (auto simp: not_less simp del: seqs.simps intro!: bad)
  next
    case DUAL_ECC_OPT_ENABLE
    show ?thesis
      using dual
      by (simp only: ecc_init_def ecc_supported_def Let_def DUAL_ECC_OPT_ENABLE ecc_opt.case read)
        (auto simp: dual_sizes_def simp del: seqs.simps intro!: bad)
  qed
qed

text \<open>Witness: single channel correction on the M3N of the board, on registers that read as its PRR.\<close>

theorem ecc_init_witness:
  "\<exists>t. ecc_init (build_m3n\<lparr>b_ecc := SINGLE_ECC_OPT_ENABLE\<rparr>) 0xE6302000 (boot_machine (const_device 0x5502) 1) = Done () t"
proof -
  let ?s = "boot_machine (const_device 0x5502) 1" and ?b = "build_m3n\<lparr>b_ecc := SINGLE_ECC_OPT_ENABLE\<rparr>"
  have "fill_finishes (m_dev ?s) (m_fuel ?s)"
    by (simp add: fill_finishes_def const_device_def boot_machine_def)
  moreover have "\<forall>t. d_rd32 (m_dev ?s) t RCAR_PRR = 0x5502" "area_ecc_enable ?s = 0" "extra_area_ecc_enable ?s = 0"
    by (simp_all add: const_device_def boot_machine_def)
  moreover have "ecc_supported ?b 0x5502" by (simp add: ecc_supported_def)
  ultimately show ?thesis
    using ecc_init_dispatch [of ?s "0x5502" ?b "0xE6302000"] by simp
qed

end
