(* ===== verification/Boot.thy ===== *)
theory Boot
  imports Ecc
begin

text \<open>
  The boot chain of the loader's second stage: the mask ROM interface (\<^verbatim>\<open>common/rom_api.c\<close>),
  the certificate reader (\<^verbatim>\<open>common/auth.c\<close>), the power controller of the application cores
  (\<^verbatim>\<open>common/rcar_pwrc.c\<close>) and \<^verbatim>\<open>tcm_loader/tcm_loader_main.c\<close>, which loads, checks and
  authenticates the RTOS image and returns its entry address. Out-parameters of the C functions are
  results here. The mask ROM is a parameter, the \<open>d_rom\<close> of the device.
\<close>

section \<open>The mask ROM interface (rom\_api.c)\<close>

abbreviation LCS_CM :: u32 where "LCS_CM \<equiv> 0"
abbreviation LCS_DM :: u32 where "LCS_DM \<equiv> 1"
abbreviation LCS_SD :: u32 where "LCS_SD \<equiv> 3"
abbreviation LCS_SE :: u32 where "LCS_SE \<equiv> 5"
abbreviation LCS_FA :: u32 where "LCS_FA \<equiv> 7"

abbreviation OLD_API_TABLE1 :: nat where "OLD_API_TABLE1 \<equiv> 0"
abbreviation OLD_API_TABLE2 :: nat where "OLD_API_TABLE2 \<equiv> 1"
abbreviation OLD_API_TABLE3 :: nat where "OLD_API_TABLE3 \<equiv> 2"
abbreviation NEW_API_TABLE :: nat where "NEW_API_TABLE \<equiv> 3"

definition get_table_index :: "nat prog" where
  "get_table_index =
     bnd (mmio_read_32 RCAR_PRR) (\<lambda>v1.
     bnd (mmio_read_32 RCAR_PRR) (\<lambda>v2.
     (let product = v1 AND RCAR_PRODUCT_MASK; cut_ver = v2 AND RCAR_CUT_MASK in
      ret (if product = RCAR_PRODUCT_H3 then
             (if cut_ver = RCAR_CUT_VER10 then OLD_API_TABLE1
              else if cut_ver = RCAR_CUT_VER11 then OLD_API_TABLE1
              else if cut_ver = RCAR_CUT_VER20 then OLD_API_TABLE2
              else NEW_API_TABLE)
           else if product = RCAR_PRODUCT_M3 then
             (if cut_ver = RCAR_CUT_VER10 then OLD_API_TABLE3 else NEW_API_TABLE)
           else NEW_API_TABLE))))"

definition ROM_SecureBootAPI_table :: "u32 list" where
  "ROM_SecureBootAPI_table = [0xEB101F54, 0xEB1041D4, 0xEB103EFC, 0xEB100100]"

definition ROM_GetLcs_table :: "u32 list" where
  "ROM_GetLcs_table = [0xEB1021B4, 0xEB104434, 0xEB10415C, 0xEB10010C]"

definition ROM_SecureBootAPI :: "u32 \<Rightarrow> u32 \<Rightarrow> u32 \<Rightarrow> u32 prog" where
  "ROM_SecureBootAPI pKeyCert pContentCert pFuncReadFlash =
     bnd get_table_index (\<lambda>index.
     bnd (rom_call (ROM_SecureBootAPI_table ! index) [pKeyCert, pContentCert, pFuncReadFlash]) (\<lambda>(r, _).
     ret r))"

text \<open>The result is the return value and the life cycle state stored through the pointer.\<close>

definition ROM_GetLcs :: "(u32 \<times> u32) prog" where
  "ROM_GetLcs = bnd get_table_index (\<lambda>index. rom_call (ROM_GetLcs_table ! index) [])"

section \<open>The certificate reader (auth.c)\<close>

abbreviation RCAR_BOOT_KEY_CERT_NEW :: u32 where "RCAR_BOOT_KEY_CERT_NEW \<equiv> 0xE6300F00"
abbreviation RCAR_CERT_MAGIC_NUM :: u32 where "RCAR_CERT_MAGIC_NUM \<equiv> 0xE291F358"

text \<open>Results: the certificate's offset and its size.\<close>

definition get_cert_info :: "(u32 \<times> u32) prog" where
  "get_cert_info =
     bnd (mmio_read_32 RCAR_BOOT_KEY_CERT_NEW) (\<lambda>v.
     bnd (puts (\<lambda>s. s\<lparr>magicNumber := v\<rparr>)) (\<lambda>_.
     ret (if v = RCAR_CERT_MAGIC_NUM then (0x00000B00, 0x1100) else (0x00000800, 0x300))))"

definition read_size_dest :: "u32 \<Rightarrow> u32 \<Rightarrow> u32 \<Rightarrow> (u32 \<times> u32) prog" where
  "read_size_dest cert_addr size_offset dst_offset =
     bnd (mmio_read_32 (cert_addr + size_offset)) (\<lambda>sz.
     bnd (mmio_read_32 (cert_addr + dst_offset)) (\<lambda>dst.
     ret (sz * 4, dst)))"

text \<open>Results: the image size in bytes and its destination.\<close>

definition get_info_from_cert :: "u32 \<Rightarrow> (u32 \<times> u32) prog" where
  "get_info_from_cert cert_addr =
     bnd (mmio_read_32 (cert_addr + 0xC)) (\<lambda>val.
     bnd (gets magicNumber) (\<lambda>magic.
     (let certInfo1 = drop_bit 21 val AND 3 in
      if magic = RCAR_CERT_MAGIC_NUM then
        (if certInfo1 = 2 then read_size_dest cert_addr 0x464 0x254
         else if certInfo1 = 1 then read_size_dest cert_addr 0x364 0x1D4
         else if certInfo1 = 0 then read_size_dest cert_addr 0x264 0x154
         else bnd (ERROR (''Cert is invalid.'' @ [CHR 0x0A]) []) (\<lambda>_. ret (0, 0)))
      else read_size_dest cert_addr 0x264 0x154)))"

section \<open>Power controller (rcar\_pwrc.c)\<close>

abbreviation RCAR_SYSCIER :: u32 where "RCAR_SYSCIER \<equiv> 0xE618000C"
abbreviation RCAR_SYSCIMR :: u32 where "RCAR_SYSCIMR \<equiv> 0xE6180010"
abbreviation RCAR_SYSCSR :: u32 where "RCAR_SYSCSR \<equiv> 0xE6180000"
abbreviation RCAR_SYSCISR :: u32 where "RCAR_SYSCISR \<equiv> 0xE6180004"
abbreviation RCAR_SYSCISCR :: u32 where "RCAR_SYSCISCR \<equiv> 0xE6180008"
abbreviation ARMREG_COMMON_0 :: u32 where "ARMREG_COMMON_0 \<equiv> 0xE6270000"
abbreviation DMS_SW :: u32 where "DMS_SW \<equiv> 0x10"
abbreviation REQ_RESUME :: u32 where "REQ_RESUME \<equiv> 2"
abbreviation STATUS_PWRDOWN :: u32 where "STATUS_PWRDOWN \<equiv> 1"

text \<open>The registers and constants that \<^verbatim>\<open>RCAR_KICK_MAIN_CPU\<close> selects.\<close>

record ca5x =
  PRR_CA5XEN :: u32
  NO_CA5X_CPUS :: u32
  RST_CA5XCPU0BARL :: u32
  RST_CA5XCPU0BARH :: u32
  RES_REG :: u32
  ON_REG :: u32
  UPPER_VALUE :: u32
  REG_SYSC_BIT :: u32
  REG_PWRONCR :: u32
  REG_PWRSR :: u32
  REG_PWRER :: u32

definition ca57_regs :: ca5x where
  "ca57_regs =
     \<lparr>PRR_CA5XEN = 0x80000000, NO_CA5X_CPUS = 0x80000000, RST_CA5XCPU0BARL = 0xE61600C4,
      RST_CA5XCPU0BARH = 0xE61600C0, RES_REG = 0xE6160040, ON_REG = 0xE6152010, UPPER_VALUE = 0xA5A50000,
      REG_SYSC_BIT = 0x00001000, REG_PWRONCR = 0xE61801CC, REG_PWRSR = 0xE61801C0, REG_PWRER = 0xE61801D4\<rparr>"

definition ca53_regs :: ca5x where
  "ca53_regs =
     \<lparr>PRR_CA5XEN = 0x04000000, NO_CA5X_CPUS = 0x04000000, RST_CA5XCPU0BARL = 0xE6160084,
      RST_CA5XCPU0BARH = 0xE6160080, RES_REG = 0xE6160044, ON_REG = 0xE6151010, UPPER_VALUE = 0x5A5A0000,
      REG_SYSC_BIT = 0x00200000, REG_PWRONCR = 0xE618014C, REG_PWRSR = 0xE6180140, REG_PWRER = 0xE6180154\<rparr>"

text \<open>The \<^verbatim>\<open>do ... while\<close> loop: the body once, then again while the error bit is set.\<close>

definition scu_request :: "ca5x \<Rightarrow> unit prog" where
  "scu_request c =
     seqs [poll_32 RCAR_SYSCSR (\<lambda>v. v AND REQ_RESUME = 0), mmio_write_32 (REG_PWRONCR c) 1]"

definition SCU_power_up :: "ca5x \<Rightarrow> unit prog" where
  "SCU_power_up c =
     bnd (mmio_read_32 (REG_PWRSR c)) (\<lambda>st.
     whenp (st AND STATUS_PWRDOWN \<noteq> 0)
       (seqs
         [modify_32 RCAR_SYSCIER (\<lambda>v. v OR REG_SYSC_BIT c),
          modify_32 RCAR_SYSCIMR (\<lambda>v. v OR REG_SYSC_BIT c),
          scu_request c,
          while_io (polled (REG_PWRER c) (\<lambda>v. v AND 1 \<noteq> 0)) (scu_request c),
          poll_32 RCAR_SYSCISR (\<lambda>v. v AND REG_SYSC_BIT c = 0),
          mmio_write_32 RCAR_SYSCISCR (REG_SYSC_BIT c)]))"

definition cpuon :: "ca5x \<Rightarrow> u32 \<Rightarrow> unit prog" where
  "cpuon c boot_addr =
     bnd (mmio_read_32 RCAR_PRR) (\<lambda>prr.
     seqs
       [whenp (prr AND PRR_CA5XEN c = NO_CA5X_CPUS c)
          (seqs [ERROR (''There are no specified CA5x CPUs'' @ [CHR 0x0A]) [], panic]),
        mmio_write_32 (RST_CA5XCPU0BARL c) boot_addr,
        mmio_write_32 (RST_CA5XCPU0BARH c) 0,
        SCU_power_up c,
        bnd (mmio_read_32 RCAR_PRR) (\<lambda>prr2.
          whenp (prr2 AND (RCAR_PRODUCT_MASK OR RCAR_CUT_MASK) = RCAR_PRODUCT_M3N_CUT10)
            (modify_32 ARMREG_COMMON_0 (\<lambda>reg. reg AND NOT DMS_SW))),
        mmio_write_32 (ON_REG c) 1,
        poll_32 (ON_REG c) (\<lambda>v. v AND 1 = 1),
        modify_32 (RES_REG c) (\<lambda>res. (res OR UPPER_VALUE c) AND NOT 8)])"

definition rcar_pwrc_cpuon :: "build \<Rightarrow> u32 \<Rightarrow> unit prog" where
  "rcar_pwrc_cpuon b boot_addr =
     (case b_kick b of
        MAIN_CPU_NONE \<Rightarrow> ret ()
      | MAIN_CPU_CA57 \<Rightarrow> cpuon ca57_regs boot_addr
      | MAIN_CPU_CA53 \<Rightarrow> cpuon ca53_regs boot_addr)"

section \<open>The second stage (tcm\_loader\_main.c)\<close>

abbreviation RTOS_MAX_SIZE :: u32 where "RTOS_MAX_SIZE \<equiv> 0x01800000"
abbreviation MAIN_LOADER_MAX_SIZE :: u32 where "MAIN_LOADER_MAX_SIZE \<equiv> 0x0002A800"
abbreviation FLASH_BASE :: u32 where "FLASH_BASE \<equiv> 0x08000000"
abbreviation FLASH_SIZE :: u32 where "FLASH_SIZE \<equiv> 0x04000000"
abbreviation FLASH_RTOS_CERT_ADDR :: u32 where "FLASH_RTOS_CERT_ADDR \<equiv> 0x080C0000"
abbreviation FLASH_CA5X_CERT_ADDR :: u32 where "FLASH_CA5X_CERT_ADDR \<equiv> 0x080C0800"
abbreviation FLASH_CA5X_IMAGE_ADDR :: u32 where "FLASH_CA5X_IMAGE_ADDR \<equiv> 0x08140000"
abbreviation FLASH_CERT_SIZE :: u32 where "FLASH_CERT_SIZE \<equiv> 0x480"
abbreviation SYSRAM_BASE :: u32 where "SYSRAM_BASE \<equiv> 0xE6300000"
abbreviation DRAM_BASE :: u32 where "DRAM_BASE \<equiv> 0x40000000"
abbreviation DRAM_END :: u32 where "DRAM_END \<equiv> 0xC0000000"
abbreviation RTOS_CERT_ADDR :: u32 where "RTOS_CERT_ADDR \<equiv> 0xE6302000"
abbreviation IPL_CERT_ADDR :: u32 where "IPL_CERT_ADDR \<equiv> 0xE6302000"
abbreviation ADDR_RANGE_TYPE0 :: nat where "ADDR_RANGE_TYPE0 \<equiv> 0"
abbreviation ADDR_RANGE_TYPE1 :: nat where "ADDR_RANGE_TYPE1 \<equiv> 1"
abbreviation MFISOFTMDR :: u32 where "MFISOFTMDR \<equiv> 0xE6260600"
abbreviation SEC_BOOT_CERT_ADDR :: "u32 \<Rightarrow> u32" where "SEC_BOOT_CERT_ADDR a \<equiv> SYSRAM_BASE + a + 0x400"

definition FLASH_RTOS_IMAGE_ADDR :: "build \<Rightarrow> u32" where
  "FLASH_RTOS_IMAGE_ADDR b = (if b_android b then 0x08780000 else 0x08740000)"

definition SYSRAM_END :: "build \<Rightarrow> u32" where
  "SYSRAM_END b = (if b_lsi b = LSI_E3 then 0xE6320000 else 0xE6360000)"

record address_range =
  topadd :: u32
  endadd :: u32

definition add_list :: "build \<Rightarrow> address_range list" where
  "add_list b =
     [\<lparr>topadd = DRAM_BASE, endadd = DRAM_END\<rparr>, \<lparr>topadd = SYSRAM_BASE, endadd = SYSRAM_END b\<rparr>]"

definition load_area_error :: "string \<Rightarrow> u32 \<Rightarrow> u32 \<Rightarrow> unit prog" where
  "load_area_error what a len =
     seqs [ERROR (''CR7: check load area ('' @ what @ '' address)'' @ [CHR 0x0A]) [],
           ERROR (''CR7: '' @ what @ '' address = 0x%x image size = 0x%x'' @ [CHR 0x0A]) [ArgW a, ArgW len],
           panic]"

definition check_load_area :: "build \<Rightarrow> u32 \<Rightarrow> u32 \<Rightarrow> u32 \<Rightarrow> nat \<Rightarrow> unit prog" where
  "check_load_area b dst src len load_check =
     seqs
       [whenp (src < FLASH_BASE \<or> FLASH_BASE + FLASH_SIZE < src + len) (load_area_error ''source'' src len),
        whenp (dst < topadd (add_list b ! load_check)) (load_area_error ''destination'' dst len),
        whenp (endadd (add_list b ! load_check) < dst + len) (load_area_error ''destination'' dst len)]"

text \<open>
  The decision whether the ROM authenticates the images: the pointer \<^verbatim>\<open>sbrom_SecureBootAPI\<close> is
  non-null exactly when the result is true.
\<close>

definition secure_boot_judgement :: "build \<Rightarrow> bool prog" where
  "secure_boot_judgement b =
     (if b_secure_boot b then
        bnd (mmio_read_32 RST_MODEMR) (\<lambda>m.
        bnd (mmio_read_32 MFISOFTMDR) (\<lambda>sm.
        bnd ROM_GetLcs (\<lambda>(r, lcs).
        bnd (whenp (r \<noteq> 0) (seqs [ERROR (''CR7: Failed to get the LCS. (%d)'' @ [CHR 0x0A]) [ArgW r], panic])) (\<lambda>_.
        (let md = drop_bit 5 (m AND 0x20); softmd = sm AND 1 in
         ret (if lcs = LCS_SE then softmd \<noteq> 1
              else if lcs = LCS_SD then False
              else md = 0))))))
      else ret False)"

text \<open>
  Loading one image: its certificate, the size check, the area check, the image and, in secure mode,
  its authentication by the ROM. The RTOS and the loader of the application cores follow the same
  steps with their own addresses, limits and messages.
\<close>

record image =
  i_name :: string
  i_cert :: u32
  i_flash_cert :: u32
  i_flash :: u32
  i_max :: u32
  i_range :: nat

definition rtos_image :: "build \<Rightarrow> image" where
  "rtos_image b =
     \<lparr>i_name = ''RTOS'', i_cert = RTOS_CERT_ADDR, i_flash_cert = FLASH_RTOS_CERT_ADDR,
      i_flash = FLASH_RTOS_IMAGE_ADDR b, i_max = RTOS_MAX_SIZE, i_range = ADDR_RANGE_TYPE0\<rparr>"

definition ca5x_image :: image where
  "ca5x_image =
     \<lparr>i_name = ''CA5x Loader'', i_cert = IPL_CERT_ADDR, i_flash_cert = FLASH_CA5X_CERT_ADDR,
      i_flash = FLASH_CA5X_IMAGE_ADDR, i_max = MAIN_LOADER_MAX_SIZE, i_range = ADDR_RANGE_TYPE1\<rparr>"

definition authenticate :: "u32 \<Rightarrow> image \<Rightarrow> unit prog" where
  "authenticate boot_cert_addr i =
     bnd (ROM_SecureBootAPI (SEC_BOOT_CERT_ADDR boot_cert_addr) (i_cert i) 0) (\<lambda>r.
     whenp (r \<noteq> 0)
       (seqs [ERROR (i_name i @ '' image Verification Failed!!!(0x%x)'' @ [CHR 0x0A]) [ArgW r], panic]))"

definition load_image :: "build \<Rightarrow> bool \<Rightarrow> u32 \<Rightarrow> image \<Rightarrow> u32 prog" where
  "load_image b secure boot_cert_addr i =
     bnd (execDMA (i_cert i) (i_flash_cert i) FLASH_CERT_SIZE) (\<lambda>_.
     bnd (get_info_from_cert (i_cert i)) (\<lambda>(siz, load_addr).
     bnd (seqs
       [whenp (siz = 0 \<or> i_max i < siz) (seqs [ERROR (i_name i @ '' image size error'' @ [CHR 0x0A]) [], panic]),
        check_load_area b load_addr (i_flash i) siz (i_range i),
        NOTICE (i_name i @ '' load address=0x%x '' @ i_name i @ '' image size=0x%x'' @ [CHR 0x0A])
          [ArgW load_addr, ArgW siz],
        execDMA load_addr (i_flash i) siz,
        whenp secure (authenticate boot_cert_addr i)]) (\<lambda>_.
     ret load_addr)))"

definition start_main_cpu :: "build \<Rightarrow> bool \<Rightarrow> u32 \<Rightarrow> u32 prog" where
  "start_main_cpu b secure boot_cert_addr =
     (if b_kick b = MAIN_CPU_NONE then ret 0
      else
        bnd (load_image b secure boot_cert_addr ca5x_image) (\<lambda>ca5x_load_addr.
        bnd (NOTICE ((if b_kick b = MAIN_CPU_CA57 then ''Kick CA57 as main CPU'' else ''Kick CA53 as main CPU'') @ [CHR 0x0A]) [])
          (\<lambda>_. ret ca5x_load_addr)))"

definition finish_boot :: "build \<Rightarrow> u32 \<Rightarrow> unit prog" where
  "finish_boot b ca5x_load_addr =
     seqs
       [asm Console_wait,
        swdt_release b,
        gic_security_setting,
        if b_lifec b then lifec_init b else NOTICE (''Skipping LifeC setting for testing'' @ [CHR 0x0A]) [],
        rcar_pwrc_cpuon b ca5x_load_addr,
        lifec_cr7_setting b]"

text \<open>
  Without secure boot the certificate offset and size stay uninitialised in the C code; they are
  then not used, and stand as zero here.
\<close>

definition tcm_loader_main :: "build \<Rightarrow> u32 \<Rightarrow> u32 prog" where
  "tcm_loader_main b fill_data =
     bnd (if b_secure_boot b then get_cert_info else ret (0, 0)) (\<lambda>(boot_cert_addr, siz).
     bnd (seqs [ecc_init b fill_data, initRPC, initDMA]) (\<lambda>_.
     bnd (secure_boot_judgement b) (\<lambda>secure.
     bnd (if secure
          then seqs [NOTICE (''Secure boot(CR7)'' @ [CHR 0x0A]) [],
                     execDMA (SEC_BOOT_CERT_ADDR boot_cert_addr) (FLASH_BASE + boot_cert_addr) siz]
          else NOTICE (''Normal boot(CR7)'' @ [CHR 0x0A]) []) (\<lambda>_.
     bnd (load_image b secure boot_cert_addr (rtos_image b)) (\<lambda>rtos_load_addr.
     bnd (start_main_cpu b secure boot_cert_addr) (\<lambda>ca5x_load_addr.
     bnd (finish_boot b ca5x_load_addr) (\<lambda>_.
     ret rtos_load_addr)))))))"

section \<open>What a run adds to the history\<close>

text \<open>
  \<open>only P p\<close>: on every device, when \<open>p\<close> returns, the accesses it has added to the history all
  satisfy \<open>P\<close>, the device is the same and the interrupt controller base is still one of its two values.
\<close>

definition only :: "(access \<Rightarrow> bool) \<Rightarrow> 'a prog \<Rightarrow> bool" where
  "only P p \<longleftrightarrow> (\<forall>s x t. gicc_known s \<longrightarrow> p s = Done x t \<longrightarrow>
     gicc_known t \<and> m_dev t = m_dev s \<and> (\<exists>u. m_tr t = u @ m_tr s \<and> list_all P u))"

lemma gicc_known_tr [simp]: "gicc_known (s\<lparr>m_tr := tr\<rparr>) = gicc_known s"
  by (simp add: gicc_known_def)

lemma only_run:
  assumes "only P p" and "gicc_known s" and "p s = Done x t"
  obtains u where "gicc_known t" "m_dev t = m_dev s" "m_tr t = u @ m_tr s" "list_all P u"
  using assms unfolding only_def by blast

lemma only_dev:
  assumes "only P p" and "gicc_known s" and "p s = Done x t"
  shows "gicc_known t" and "m_dev t = m_dev s" and "\<exists>u. m_tr t = u @ m_tr s"
  using assms unfolding only_def by blast+

named_theorems onlys

lemma only_ret [onlys]: "only P (ret x)"
  by (auto simp: only_def ret_def)

lemma only_stop [onlys]: "only P panic" "only P fault"
  by (auto simp: only_def panic_def fault_def)

lemma only_gets [onlys]: "only P (gets f)"
  by (auto simp: only_def gets_def)

lemma only_emit: "P e \<Longrightarrow> only P (emit e)"
  by (auto simp: only_def emit_def)

lemma only_puts [onlys]:
  "(\<And>s. m_tr (f s) = m_tr s) \<Longrightarrow> (\<And>s. g_gicc_base (f s) = g_gicc_base s) \<Longrightarrow>
     (\<And>s. m_dev (f s) = m_dev s) \<Longrightarrow> only P (puts f)"
  by (auto simp: only_def puts_def gicc_known_def)

lemma only_gicc:
  assumes "only P (f 0)" and "only P (f GICC_BASE)"
  shows "only P (bnd (gets g_gicc_base) f)"
  unfolding only_def bnd_gets
proof (intro allI impI)
  fix s x t
  assume s: "gicc_known s" "f (g_gicc_base s) s = Done x t"
  then have "only P (f (g_gicc_base s))" using assms by (auto simp: gicc_known_def)
  from only_run [OF this s] show "gicc_known t \<and> m_dev t = m_dev s \<and> (\<exists>u. m_tr t = u @ m_tr s \<and> list_all P u)"
    by metis
qed

lemma only_bnd [onlys]:
  assumes "only P p" and "\<And>x. only P (f x)"
  shows "only P (bnd p f)"
  unfolding only_def
proof (intro allI impI)
  fix s x t
  assume "gicc_known s" and "bnd p f s = Done x t"
  then obtain y u where 1: "p s = Done y u" and 2: "f y u = Done x t"
    by (auto simp: bnd_eq_Done)
  obtain a where "m_tr u = a @ m_tr s" "list_all P a" "gicc_known u" "m_dev u = m_dev s"
    using assms(1) 1 \<open>gicc_known s\<close> unfolding only_def by blast
  moreover from this obtain c where "m_tr t = c @ m_tr u" "list_all P c" "gicc_known t" "m_dev t = m_dev u"
    using assms(2) [of y] 2 unfolding only_def by blast
  ultimately show "gicc_known t \<and> m_dev t = m_dev s \<and> (\<exists>u. m_tr t = u @ m_tr s \<and> list_all P u)"
    by (intro conjI exI [of _ "c @ a"]) simp_all
qed

lemma only_write [onlys]: "P (Wr32 a v) \<Longrightarrow> only P (mmio_write_32 a v)"
  by (simp add: mmio_write_32_def only_emit)

lemma only_write_8 [onlys]: "P (Wr8 a w) \<Longrightarrow> only P (mmio_write_8 a w)"
  by (simp add: mmio_write_8_def only_emit)

lemma only_asm [onlys]: "P (Asm c) \<Longrightarrow> only P (asm c)"
  by (simp add: asm_def only_emit)

lemma only_read [onlys]: "(\<And>v. P (Rd32 a v)) \<Longrightarrow> only P (mmio_read_32 a)"
  by (auto simp: only_def mmio_read_32_def Let_def)

lemma only_read_8 [onlys]: "(\<And>v. P (Rd8 a v)) \<Longrightarrow> only P (mmio_read_8 a)"
  by (auto simp: only_def mmio_read_8_def Let_def)

lemma only_seqs [onlys]: "only P (seqs [])" "only P p \<Longrightarrow> only P (seqs ps) \<Longrightarrow> only P (seqs (p # ps))"
  by (simp_all add: onlys)

lemma only_if [onlys]: "only P p \<Longrightarrow> only P q \<Longrightarrow> only P (if c then p else q)"
  by simp

lemma only_whenp [onlys]: "only P p \<Longrightarrow> only P (whenp c p)"
  by (simp add: whenp_def onlys)

lemma only_for_each [onlys]: "(\<And>x. x \<in> set xs \<Longrightarrow> only P (b x)) \<Longrightarrow> only P (for_each xs b)"
  by (induction xs) (simp_all add: onlys)

lemma only_while_fuel: "only P c \<Longrightarrow> only P b \<Longrightarrow> only P (while_fuel n c b)"
proof (induction n)
  case 0
  show ?case by (simp add: only_def)
next
  case (Suc n)
  then show ?case unfolding while_fuel.simps by (intro only_bnd only_if only_ret)
qed

lemma only_while_st: "(\<And>x. only P (b x)) \<Longrightarrow> only P (while_st n c b x)"
proof (induction n arbitrary: x)
  case 0
  show ?case by (simp add: only_def)
next
  case (Suc n)
  then show ?case unfolding while_st.simps by (intro only_bnd only_if only_ret) blast+
qed

lemma only_while_io [onlys]:
  assumes "only P c" and "only P b"
  shows "only P (while_io c b)"
proof -
  have "only P (while_fuel n c b)" for n using assms by (rule only_while_fuel)
  then show ?thesis unfolding only_def while_io_def by blast
qed

lemma only_poll [onlys]: "(\<And>v. P (Rd32 a v)) \<Longrightarrow> only P (poll_32 a busy)"
  unfolding poll_32_def polled_def by (intro onlys) simp

lemma only_modify [onlys]: "(\<And>v. P (Rd32 a v)) \<Longrightarrow> (\<And>v. P (Wr32 a (f v))) \<Longrightarrow> only P (modify_32 a f)"
  unfolding modify_32_def by (intro onlys) simp_all

lemma only_printf:
  assumes "\<And>c. P (Putc c)"
  shows "only P (tf_printf fmt args)"
proof (cases "format fmt args")
  case None
  then show ?thesis using tf_printf_None [of fmt args] unfolding only_def by (metis outcome.distinct(3))
next
  case (Some out)
  then show ?thesis
    using assms tf_printf_Some [OF Some] by (auto simp: only_def say_def list_all_iff)
qed

lemma only_NOTICE [onlys]: "(\<And>c. P (Putc c)) \<Longrightarrow> only P (NOTICE fmt args)"
  unfolding NOTICE_def by (rule only_printf)

lemma only_ERROR [onlys]: "(\<And>c. P (Putc c)) \<Longrightarrow> only P (ERROR fmt args)"
  unfolding ERROR_def by (rule only_printf)

section \<open>The load area\<close>

lemma load_area_error_Panic:
  assumes "what \<in> {''source'', ''destination''}"
  shows "\<exists>t. load_area_error what a len s = Panic t \<and> writes (m_tr t) = writes (m_tr s)"
proof -
  have "format (''CR7: check load area ('' @ what @ '' address)'' @ [CHR 0x0A]) [] \<noteq> None"
    and 2: "format (''CR7: '' @ what @ '' address = 0x%x image size = 0x%x'' @ [CHR 0x0A]) [ArgW a, ArgW len] \<noteq> None"
    using assms by auto
  then obtain out where "format (''CR7: check load area ('' @ what @ '' address)'' @ [CHR 0x0A]) [] = Some out"
    by blast
  from ERROR_run [OF this, of s] silent_panic [OF 2, of "say (bytes ''ERROR:   '' @ out) s"]
  show ?thesis unfolding load_area_error_def by (simp add: bnd_def say_def)
qed

text \<open>The check, as a decision on words.\<close>

definition area_ok :: "build \<Rightarrow> u32 \<Rightarrow> u32 \<Rightarrow> u32 \<Rightarrow> nat \<Rightarrow> bool" where
  "area_ok b dst src len k \<longleftrightarrow>
     FLASH_BASE \<le> src \<and> src + len \<le> FLASH_BASE + FLASH_SIZE \<and>
     topadd (add_list b ! k) \<le> dst \<and> dst + len \<le> endadd (add_list b ! k)"

lemma check_load_area_run:
  "if area_ok b dst src len k then check_load_area b dst src len k s = Done () s
   else \<exists>t. check_load_area b dst src len k s = Panic t \<and> writes (m_tr t) = writes (m_tr s)"
proof -
  have stop: "\<exists>t. bnd (load_area_error what a len) f s = Panic t \<and> writes (m_tr t) = writes (m_tr s)"
    if "what \<in> {''source'', ''destination''}" for what a and f :: "unit \<Rightarrow> unit prog"
    using load_area_error_Panic [OF that, of a len s] by (auto simp: bnd_def)
  show ?thesis
    unfolding check_load_area_def area_ok_def
    by (simp add: whenp_def stop ret_run not_less [symmetric] del: not_less)
qed

text \<open>
  Property C7 (check_load_area_correct): when neither sum wraps, \<^verbatim>\<open>check_load_area\<close> returns, with
  nothing changed, exactly when the source lies in the flash window and the destination in the
  memory of the range type (DRAM or system RAM); otherwise it panics without a register write.
\<close>

theorem check_load_area_correct:
  assumes "unat dst + unat len < 2 ^ 32" and "unat src + unat len < 2 ^ 32" and "k < 2"
  shows "let (top, bottom) = [(0x40000000, 0xC0000000), (0xE6300000, if b_lsi b = LSI_E3 then 0xE6320000 else 0xE6360000)] ! k in
    if 0x08000000 \<le> unat src \<and> unat src + unat len \<le> 0x0C000000 \<and> top \<le> unat dst \<and> unat dst + unat len \<le> bottom
    then check_load_area b dst src len k s = Done () s
    else \<exists>t. check_load_area b dst src len k s = Panic t \<and> writes (m_tr t) = writes (m_tr s)"
proof -
  have sum: "unat (dst + len) = unat dst + unat len" "unat (src + len) = unat src + unat len"
    using assms(1,2) by (simp_all add: unat_add_no_wrap)
  have "k = 0 \<or> k = 1" using assms(3) by auto
  then show ?thesis
    using check_load_area_run [of b dst src len k s]
    by (auto simp: area_ok_def add_list_def SYSRAM_END_def word_le_nat_alt sum split: if_splits)
qed

text \<open>Witness: an RTOS of 16 MiB at the start of the DRAM.\<close>

theorem check_load_area_witness:
  "check_load_area build_m3n 0x40000000 0x08740000 0x01000000 0 (boot_machine (const_device 0) 1)
     = Done () (boot_machine (const_device 0) 1)"
  using check_load_area_correct [of "0x40000000" "0x01000000" "0x08740000" 0 build_m3n "boot_machine (const_device 0) 1"]
  by simp

text \<open>
  Property C8 (check_load_area_wraps): the sums are taken at 32 bits, so an RTOS of the accepted size
  16 MiB with the destination 0xFF000000 passes the check in every build, although it lies
  outside of the DRAM.
\<close>

theorem check_load_area_wraps:
  "check_load_area b 0xFF000000 (FLASH_RTOS_IMAGE_ADDR b) 0x01000000 ADDR_RANGE_TYPE0 s = Done () s \<and>
   0x01000000 \<le> RTOS_MAX_SIZE \<and> unat DRAM_END < unat (0xFF000000 :: u32)"
proof -
  have "area_ok b 0xFF000000 (FLASH_RTOS_IMAGE_ADDR b) 0x01000000 0"
    by (simp add: area_ok_def add_list_def FLASH_RTOS_IMAGE_ADDR_def)
  then show ?thesis
    using check_load_area_run [of b "0xFF000000" "FLASH_RTOS_IMAGE_ADDR b" "0x01000000" 0 s] by simp
qed

section \<open>Certificates\<close>

text \<open>The key size class of a certificate; the old format has one class.\<close>

definition cert_class :: "u32 \<Rightarrow> u32 \<Rightarrow> nat" where
  "cert_class magic word3 = (if magic = RCAR_CERT_MAGIC_NUM then unat (drop_bit 21 word3 AND 3) else 0)"

lemma cert_class_range: "cert_class magic w \<le> 3"
proof -
  have "unat (x AND 3) \<le> 3" for x :: u32
    using word_and_le1 [of x 3] by (simp add: word_le_nat_alt)
  then show ?thesis by (simp add: cert_class_def)
qed

lemma read_size_dest_run:
  assumes "\<forall>t. d_rd32 (m_dev s) t (cert + a) = sz" and "\<forall>t. d_rd32 (m_dev s) t (cert + c) = dst"
  shows "read_size_dest cert a c s = Done (sz * 4, dst) (s\<lparr>m_tr := Rd32 (cert + c) dst # Rd32 (cert + a) sz # m_tr s\<rparr>)"
  using assms by (simp add: read_size_dest_def steps_simps ret_run)

lemma get_info_run:
  assumes w: "\<forall>t. d_rd32 (m_dev s) t (cert + 0xC) = w" and c: "c = cert_class (magicNumber s) w"
    and sz: "\<forall>t. d_rd32 (m_dev s) t (cert + (0x264 + 0x100 * of_nat c)) = sz"
    and dst: "\<forall>t. d_rd32 (m_dev s) t (cert + (0x154 + 0x80 * of_nat c)) = dst"
  shows "\<exists>tr. get_info_from_cert cert s = Done (if c = 3 then (0, 0) else (sz * 4, dst)) (s\<lparr>m_tr := tr\<rparr>) \<and>
    writes tr = writes (m_tr s)"
proof -
  let ?s = "s\<lparr>m_tr := Rd32 (cert + 0xC) w # m_tr s\<rparr>" and ?ci = "drop_bit 21 w AND 3"
  let ?prog = "\<lambda>ci :: u32. if ci = 2 then read_size_dest cert 0x464 0x254 else if ci = 1 then read_size_dest cert 0x364 0x1D4
    else if ci = 0 then read_size_dest cert 0x264 0x154
    else bnd (ERROR (''Cert is invalid.'' @ [CHR 0x0A]) []) (\<lambda>_. ret (0, 0))"
  have "c \<le> 3" using c cert_class_range by simp
  then have c4: "c = 0 \<or> c = 1 \<or> c = 2 \<or> c = 3" by linarith
  have eq: "get_info_from_cert cert s = ?prog (of_nat c) ?s"
  proof (cases "magicNumber s = RCAR_CERT_MAGIC_NUM")
    case True
    then have "of_nat c = ?ci" using c by (simp add: cert_class_def)
    with True show ?thesis by (simp add: get_info_from_cert_def steps_simps w Let_def)
  next
    case False
    then have "c = 0" using c by (simp add: cert_class_def)
    with False show ?thesis by (simp add: get_info_from_cert_def steps_simps w Let_def)
  qed
  have run: "\<exists>tr. read_size_dest cert (0x264 + 0x100 * of_nat c) (0x154 + 0x80 * of_nat c) ?s = Done (sz * 4, dst) (s\<lparr>m_tr := tr\<rparr>) \<and>
      writes tr = writes (m_tr s)"
    using read_size_dest_run [of ?s cert "0x264 + 0x100 * of_nat c" sz "0x154 + 0x80 * of_nat c" dst] sz dst by auto
  have bad: "\<exists>tr. bnd (ERROR (''Cert is invalid.'' @ [CHR 0x0A]) []) (\<lambda>_. ret (0, 0)) ?s = Done (0, 0) (s\<lparr>m_tr := tr\<rparr>) \<and>
      writes tr = writes (m_tr s)"
  proof -
    obtain out where "format (''Cert is invalid.'' @ [CHR 0x0A]) [] = Some out" by auto
    from ERROR_run [OF this, of ?s] show ?thesis
      unfolding bnd_def
      by (intro exI [of _ "rev (map Putc (bytes ''ERROR:   '' @ out)) @ Rd32 (cert + 0xC) w # m_tr s"])
        (simp only: outcome.case, simp add: ret_def say_def)
  qed
  show ?thesis
    using c4 run bad unfolding eq by auto
qed

text \<open>
  Property C24 (get_info_from_cert_correct): the size and the destination come from the fields of
  the certificate's key size class (the word at offset 0x264, 0x364 or 0x464 times four, and the
  word at 0x154, 0x1D4 or 0x254); a certificate in the old format has class 0; the
  invalid class 3 gives size 0, which the loader rejects. No register is written.
\<close>

theorem get_info_from_cert_correct:
  assumes "\<forall>t. d_rd32 (m_dev s) t (cert + 0xC) = w" and "c = cert_class (magicNumber s) w"
    and "\<forall>t. d_rd32 (m_dev s) t (cert + (0x264 + 0x100 * of_nat c)) = sz"
    and "\<forall>t. d_rd32 (m_dev s) t (cert + (0x154 + 0x80 * of_nat c)) = dst"
  shows "\<exists>tr. get_info_from_cert cert s = Done (if c = 3 then (0, 0) else (sz * 4, dst)) (s\<lparr>m_tr := tr\<rparr>) \<and>
    writes tr = writes (m_tr s)"
  using assms by (rule get_info_run)

text \<open>Witness: a certificate in the new format with class 1, on memory that holds it.\<close>

definition cert_memory :: "u32 \<Rightarrow> u32" where
  "cert_memory = (\<lambda>_. 0)(0xE630200C := 0x00200000, 0xE6302364 := 0x1000, 0xE63021D4 := 0x40010000)"

definition rom_device :: "(u32 \<Rightarrow> u32) \<Rightarrow> device" where
  "rom_device mem = (const_device 0)\<lparr>d_rd32 := \<lambda>_. mem\<rparr>"

theorem get_info_from_cert_witness:
  "\<exists>t. get_info_from_cert 0xE6302000
     ((boot_machine (rom_device cert_memory) 1)\<lparr>magicNumber := RCAR_CERT_MAGIC_NUM\<rparr>) = Done (0x4000, 0x40010000) t"
  using get_info_from_cert_correct [of "(boot_machine (rom_device cert_memory) 1)\<lparr>magicNumber := RCAR_CERT_MAGIC_NUM\<rparr>"
      "0xE6302000" "0x00200000" 1 "0x1000" "0x40010000"]
  by (auto simp: boot_machine_def rom_device_def cert_memory_def cert_class_def)

section \<open>Authentication\<close>

text \<open>Accesses that do not program the destination of the loader's DMA channel.\<close>

definition no_load :: "access \<Rightarrow> bool" where
  "no_load e \<longleftrightarrow> (case e of Wr32 a v \<Rightarrow> a \<noteq> DMA_RDMDAR | _ \<Rightarrow> True)"

lemma no_load_simps [simp]:
  "no_load (Rd8 a w8)" "no_load (Rd32 a v)" "no_load (Wr8 a w8)" "no_load (Wr16 a w16)" "no_load (Putc c)" "no_load (Asm k)"
  "no_load (RomCall entry args r)" "no_load (Wr32 a v) \<longleftrightarrow> a \<noteq> DMA_RDMDAR"
  by (simp_all add: no_load_def)

lemma only_write_16 [onlys]: "P (Wr16 a w) \<Longrightarrow> only P (mmio_write_16 a w)"
  by (simp add: mmio_write_16_def only_emit)

lemma swdt_release_only: "only no_load (swdt_release b)"
  unfolding swdt_release_def swdt_disable_def arm_gic_cpuif_deactivate_def gicd_set_icenabler_def gicd_write_icenabler_def
    gicd_set_igroupr_def gicd_read_igroupr_def gicd_write_igroupr_def gicd_set_ipriorityr_def
    gicc_read_ctlr_def gicc_write_ctlr_def gicc_read_iidr_def Let_def
  by (intro only_gicc onlys) simp_all

lemma lifec_init_only: "only no_load (lifec_init b)" "only no_load (lifec_cr7_setting b)"
proof -
  have wait: "only no_load (lifec_wait prr reg)" for prr reg
  proof -
    have "only no_load (micro_wait n)" for n
      unfolding only_def micro_wait_def
    proof (intro allI impI)
      fix s x t
      assume "gicc_known s" and "bnd (mmio_read_32 GLOBAL_TIMER_COUNT_L) (\<lambda>count_init.
         let loop_num = n * GLOBAL_TIMER_CLOCK
         in bnd (while_st (m_fuel s) (\<lambda>count. count < loop_num)
              (\<lambda>_. bnd (mmio_read_32 GLOBAL_TIMER_COUNT_L) (\<lambda>count. ret (count - count_init))) 0) (\<lambda>_. ret ())) s = Done x t"
      moreover have "only no_load (bnd (mmio_read_32 GLOBAL_TIMER_COUNT_L) (\<lambda>count_init.
         let loop_num = n * GLOBAL_TIMER_CLOCK
         in bnd (while_st (m_fuel s) (\<lambda>count. count < loop_num)
              (\<lambda>_. bnd (mmio_read_32 GLOBAL_TIMER_COUNT_L) (\<lambda>count. ret (count - count_init))) 0) (\<lambda>_. ret ())))"
        unfolding Let_def by (intro onlys only_while_st) simp_all
      ultimately show "gicc_known t \<and> m_dev t = m_dev s \<and> (\<exists>u. m_tr t = u @ m_tr s \<and> list_all no_load u)"
        unfolding only_def by blast
    qed
    then show ?thesis unfolding lifec_wait_def by (intro onlys) simp_all
  qed
  have "fst ` set (lifec_reg_tbl b) \<subseteq> - {DMA_RDMDAR}"
    by (simp add: lifec_reg_tbl_def)
  then have "only no_load (case e of (addr, dat) \<Rightarrow> mmio_write_32 addr dat)" if "e \<in> set (lifec_reg_tbl b)" for e
    using that by (cases e) (force intro: only_write)
  then show "only no_load (lifec_init b)"
    unfolding lifec_init_def lifec_reg_write_def by (intro onlys wait) simp_all
  show "only no_load (lifec_cr7_setting b)"
    unfolding lifec_cr7_setting_def lifec_reg_write_def by (intro onlys wait) simp_all
qed

lemma cpuon_only: "only no_load (rcar_pwrc_cpuon b a)"
proof -
  have "only no_load (cpuon c a)" if "c \<in> {ca57_regs, ca53_regs}" for c
    unfolding cpuon_def SCU_power_up_def scu_request_def polled_def
    using that by (intro onlys) (auto simp: ca57_regs_def ca53_regs_def)
  then show ?thesis
    unfolding rcar_pwrc_cpuon_def by (auto split: main_cpu.split intro: onlys)
qed

lemma finish_boot_only: "only no_load (finish_boot b a)"
  unfolding finish_boot_def gic_security_setting_def gicc_write_pmr_def
  by (intro onlys swdt_release_only lifec_init_only cpuon_only) simp_all

lemma endDMA_only: "only no_load endDMA"
  unfolding endDMA_def wait_endRPC_def polled_def by (intro onlys) simp_all

text \<open>A run that passes a marked write.\<close>

lemma only_mark:
  assumes "only P p" and "only P q" and "gicc_known s"
    and "bnd p (\<lambda>_. bnd (mmio_write_32 a v) (\<lambda>_. q)) s = Done x t"
  shows "gicc_known t \<and> (\<exists>u w. m_tr t = u @ Wr32 a v # w @ m_tr s \<and> list_all P u \<and> list_all P w)"
proof -
  obtain y s1 where 1: "p s = Done y s1" and 2: "q (s1\<lparr>m_tr := Wr32 a v # m_tr s1\<rparr>) = Done x t"
    using assms(4) by (auto simp: bnd_eq_Done write_32_run)
  obtain w where w: "m_tr s1 = w @ m_tr s" "list_all P w" "gicc_known s1"
    using only_run [OF assms(1,3) 1] by metis
  then have "gicc_known (s1\<lparr>m_tr := Wr32 a v # m_tr s1\<rparr>)" by simp
  from only_run [OF assms(2) this 2] obtain u where "m_tr t = u @ Wr32 a v # m_tr s1" "list_all P u" "gicc_known t"
    by (metis machine.select_convs(3) machine.surjective machine.update_convs(3))
  with w show ?thesis by auto
qed

lemma execDMA_marks:
  assumes "gicc_known s" and "execDMA dst src len s = Done x t"
  shows "gicc_known t \<and>
    (\<exists>u w. m_tr t = u @ Wr32 DMA_RDMDAR dst # w @ m_tr s \<and> list_all no_load u \<and> list_all no_load w)"
proof -
  define n where "n = (if len AND DMA_FRACTION_MASK \<noteq> 0 then (len + DMA_SIZE_UNIT) AND NOT DMA_FRACTION_MASK else len)"
  define c1 where "c1 = whenp (src AND DMA_FRACTION_MASK \<noteq> 0)
          (seqs [ERROR (''DMA - Source address invalid'' @ [CHR 0x0A]
                   @ ''      source address  = 0x%x'' @ [CHR 0x0A]) [ArgW src], panic])"
  define c2 where "c2 = whenp (dst AND DMA_FRACTION_MASK \<noteq> 0)
          (seqs [ERROR (''DMA - Destination address invalid'' @ [CHR 0x0A]
                   @ ''      destination address = 0x%x'' @ [CHR 0x0A]) [ArgW dst], panic])"
  let ?p = "bnd c1 (\<lambda>_. bnd c2 (\<lambda>_. bnd (mmio_write_16 DMA_RDMOR RDMOR_INITIAL) (\<lambda>_.
     bnd (mmio_read_32 DMA_RDMSEC) (\<lambda>reg. mmio_write_32 DMA_RDMSEC (reg OR push_bit DMACH 1)))))"
  let ?q = "seqs [mmio_write_32 DMA_RDMSAR src, mmio_write_32 DMA_RDMTCR (drop_bit 6 n),
     mmio_write_32 DMA_RDMCHCR RDMCHCR_TRN_MODE, endDMA]"
  have eq: "execDMA dst src len = bnd ?p (\<lambda>_. bnd (mmio_write_32 DMA_RDMDAR dst) (\<lambda>_. ?q))"
    unfolding execDMA_def startDMA_def Let_def n_def [symmetric] c1_def [symmetric] c2_def [symmetric]
    by (simp add: bnd_assoc)
  have "only no_load c1" "only no_load c2"
    unfolding c1_def c2_def by (intro onlys; simp)+
  then have p: "only no_load ?p" by (intro onlys) simp_all
  have q: "only no_load ?q" by (intro onlys endDMA_only) simp_all
  from only_mark [OF p q assms(1) assms(2) [unfolded eq]] show ?thesis .
qed

lemma get_table_index_run:
  "\<exists>i < 4. \<exists>v1 v2. get_table_index s = Done i (s\<lparr>m_tr := Rd32 RCAR_PRR v2 # Rd32 RCAR_PRR v1 # m_tr s\<rparr>)"
proof -
  let ?v1 = "d_rd32 (m_dev s) (m_tr s) RCAR_PRR"
  let ?v2 = "d_rd32 (m_dev s) (Rd32 RCAR_PRR ?v1 # m_tr s) RCAR_PRR"
  have "\<exists>i. i < 4 \<and> bnd (mmio_read_32 RCAR_PRR) (\<lambda>v1. bnd (mmio_read_32 RCAR_PRR) (\<lambda>v2. ret (f v1 v2))) s
      = Done i (s\<lparr>m_tr := Rd32 RCAR_PRR ?v2 # Rd32 RCAR_PRR ?v1 # m_tr s\<rparr>)"
    if "\<And>v1 v2. f v1 v2 < 4" for f :: "u32 \<Rightarrow> u32 \<Rightarrow> nat"
    using that by (simp add: bnd_read_32 ret_run)
  then have "\<exists>i. i < 4 \<and> get_table_index s = Done i (s\<lparr>m_tr := Rd32 RCAR_PRR ?v2 # Rd32 RCAR_PRR ?v1 # m_tr s\<rparr>)"
    unfolding get_table_index_def Let_def by simp
  then show ?thesis by blast
qed

lemma ROM_SecureBootAPI_run:
  "\<exists>entry v1 v2 r. entry \<in> set ROM_SecureBootAPI_table \<and>
     ROM_SecureBootAPI key cert fn s =
       Done r (s\<lparr>m_tr := RomCall entry [key, cert, fn] r # Rd32 RCAR_PRR v2 # Rd32 RCAR_PRR v1 # m_tr s\<rparr>)"
proof -
  obtain k v1 v2 where k: "k < 4"
    and idx: "get_table_index s = Done k (s\<lparr>m_tr := Rd32 RCAR_PRR v2 # Rd32 RCAR_PRR v1 # m_tr s\<rparr>)"
    using get_table_index_run [of s] by blast
  let ?e = "ROM_SecureBootAPI_table ! k" and ?tr = "Rd32 RCAR_PRR v2 # Rd32 RCAR_PRR v1 # m_tr s"
  have "?e \<in> set ROM_SecureBootAPI_table" using k by (intro nth_mem) (simp add: ROM_SecureBootAPI_table_def)
  moreover obtain r out where "d_rom (m_dev s) ?tr ?e [key, cert, fn] = (r, out)" by fastforce
  ultimately show ?thesis
    unfolding ROM_SecureBootAPI_def
    by (intro exI [of _ ?e] exI [of _ v1] exI [of _ v2] exI [of _ r])
      (simp add: bnd_def idx rom_call_def ret_def)
qed

lemma authenticate_Done:
  assumes "authenticate bca i s = Done x t"
  shows "\<exists>entry tr. t = s\<lparr>m_tr := RomCall entry [SEC_BOOT_CERT_ADDR bca, i_cert i, 0] 0 # tr @ m_tr s\<rparr> \<and>
    entry \<in> set ROM_SecureBootAPI_table \<and> list_all no_load tr"
proof -
  obtain entry v1 v2 r where e: "entry \<in> set ROM_SecureBootAPI_table"
    and run: "ROM_SecureBootAPI (SEC_BOOT_CERT_ADDR bca) (i_cert i) 0 s =
       Done r (s\<lparr>m_tr := RomCall entry [SEC_BOOT_CERT_ADDR bca, i_cert i, 0] r # [Rd32 RCAR_PRR v2, Rd32 RCAR_PRR v1] @ m_tr s\<rparr>)"
    using ROM_SecureBootAPI_run [of "SEC_BOOT_CERT_ADDR bca" "i_cert i" 0 s] by auto
  define m where "m = ERROR (i_name i @ '' image Verification Failed!!!(0x%x)'' @ [CHR 0x0A]) [ArgW r]"
  have no: "bnd m (\<lambda>_. panic) u \<noteq> Done x t" for u by (simp add: bnd_eq_Done panic_def)
  have eq: "authenticate bca i s = whenp (r \<noteq> 0) (bnd m (\<lambda>_. panic))
      (s\<lparr>m_tr := RomCall entry [SEC_BOOT_CERT_ADDR bca, i_cert i, 0] r # [Rd32 RCAR_PRR v2, Rd32 RCAR_PRR v1] @ m_tr s\<rparr>)"
    unfolding authenticate_def bnd_Done [of "ROM_SecureBootAPI (SEC_BOOT_CERT_ADDR bca) (i_cert i) 0", OF run]
      m_def [symmetric] seqs.simps bnd_panic ..
  have "r = 0"
  proof (rule ccontr)
    assume "r \<noteq> 0"
    then have "whenp (r \<noteq> 0) (bnd m (\<lambda>_. panic)) = bnd m (\<lambda>_. panic)" by simp
    with assms no show False unfolding eq by (simp only:)
  qed
  then have "t = s\<lparr>m_tr := RomCall entry [SEC_BOOT_CERT_ADDR bca, i_cert i, 0] 0 # [Rd32 RCAR_PRR v2, Rd32 RCAR_PRR v1] @ m_tr s\<rparr>"
    using assms eq by (simp add: ret_def)
  then show ?thesis using e by (intro exI [of _ entry] exI [of _ "[Rd32 RCAR_PRR v2, Rd32 RCAR_PRR v1]"]) simp
qed

lemma get_info_only: "only no_load (get_info_from_cert cert)"
  unfolding get_info_from_cert_def read_size_dest_def Let_def by (intro onlys) simp_all

lemma check_load_area_only: "only no_load (check_load_area b dst src len k)"
  unfolding check_load_area_def load_area_error_def by (intro onlys) simp_all

text \<open>
  Every image that \<open>load_image\<close> returns in secure mode was the last one loaded when the ROM
  accepted its certificate, and nothing was loaded afterwards.
\<close>

definition verified :: "u32 \<Rightarrow> image \<Rightarrow> u32 \<Rightarrow> access list \<Rightarrow> bool" where
  "verified boot_cert_addr i load_addr tr \<longleftrightarrow>
     (\<exists>entry u w. tr = RomCall entry [SEC_BOOT_CERT_ADDR boot_cert_addr, i_cert i, 0] 0 # u @ Wr32 DMA_RDMDAR load_addr # w \<and>
        entry \<in> set ROM_SecureBootAPI_table \<and> list_all no_load u)"

lemma load_image_Done:
  assumes "gicc_known s" and "load_image b secure bca i s = Done a t"
  shows "gicc_known t \<and> (\<exists>tr. m_tr t = tr @ m_tr s \<and> (secure \<longrightarrow> verified bca i a tr))"
proof -
  define c1 where "c1 siz = whenp (siz = 0 \<or> i_max i < siz) (seqs [ERROR (i_name i @ '' image size error'' @ [CHR 0x0A]) [], panic])" for siz
  define c2 where "c2 la siz = NOTICE (i_name i @ '' load address=0x%x '' @ i_name i @ '' image size=0x%x'' @ [CHR 0x0A]) [ArgW la, ArgW siz]" for la siz
  have o: "only no_load (c1 siz)" "only no_load (c2 a siz)" for siz
    unfolding c1_def c2_def by (intro onlys; simp)+
  from assms(2) obtain s1 siz s2 s3 s4 s5 s6 x1 x3 x4 x5 x6 x7 where
    1: "execDMA (i_cert i) (i_flash_cert i) FLASH_CERT_SIZE s = Done x1 s1" and
    2: "get_info_from_cert (i_cert i) s1 = Done (siz, a) s2" and
    3: "c1 siz s2 = Done x3 s3" and 4: "check_load_area b a (i_flash i) siz (i_range i) s3 = Done x4 s4" and
    5: "c2 a siz s4 = Done x5 s5" and 6: "execDMA a (i_flash i) siz s5 = Done x6 s6" and
    7: "whenp secure (authenticate bca i) s6 = Done x7 t"
    unfolding load_image_def c1_def [symmetric] c2_def [symmetric]
    unfolding seqs.simps bnd_assoc by (auto simp: bnd_eq_Done ret_run)
  have k1: "gicc_known s1" and "\<exists>t1. m_tr s1 = t1 @ m_tr s"
    using execDMA_marks [OF assms(1) 1] by auto
  then obtain t1 where t1: "m_tr s1 = t1 @ m_tr s" by blast
  obtain t2 where k2: "gicc_known s2" and t2: "m_tr s2 = t2 @ m_tr s1"
    using only_run [OF get_info_only k1 2] by metis
  obtain t3 where k3: "gicc_known s3" and t3: "m_tr s3 = t3 @ m_tr s2"
    using only_run [OF o(1) k2 3] by metis
  obtain t4 where k4: "gicc_known s4" and t4: "m_tr s4 = t4 @ m_tr s3"
    using only_run [OF check_load_area_only k3 4] by metis
  obtain t5 where k5: "gicc_known s5" and t5: "m_tr s5 = t5 @ m_tr s4"
    using only_run [OF o(2) k4 5] by metis
  obtain u w where k6: "gicc_known s6" and t6: "m_tr s6 = u @ Wr32 DMA_RDMDAR a # w @ m_tr s5" "list_all no_load u"
    using execDMA_marks [OF k5 6] by blast
  let ?w = "w @ t5 @ t4 @ t3 @ t2 @ t1"
  have tr: "m_tr s6 = u @ Wr32 DMA_RDMDAR a # ?w @ m_tr s" using t1 t2 t3 t4 t5 t6 by simp
  show ?thesis
  proof (cases secure)
    case True
    with 7 obtain entry x where "t = s6\<lparr>m_tr := RomCall entry [SEC_BOOT_CERT_ADDR bca, i_cert i, 0] 0 # x @ m_tr s6\<rparr>"
      and e: "entry \<in> set ROM_SecureBootAPI_table" "list_all no_load x"
      using authenticate_Done [of bca i s6 x7 t] by auto
    then have t: "gicc_known t" "m_tr t = (RomCall entry [SEC_BOOT_CERT_ADDR bca, i_cert i, 0] 0 # (x @ u) @ Wr32 DMA_RDMDAR a # ?w) @ m_tr s"
      using k6 tr by simp_all
    have "verified bca i a (RomCall entry [SEC_BOOT_CERT_ADDR bca, i_cert i, 0] 0 # (x @ u) @ Wr32 DMA_RDMDAR a # ?w)"
      unfolding verified_def using e t6(2) by (intro exI [of _ entry] exI [of _ "x @ u"] exI [of _ ?w]) simp
    with t show ?thesis by blast
  next
    case False
    with 7 k6 tr show ?thesis by (auto simp: ret_def)
  qed
qed

section \<open>The boot chain\<close>

lemma only_mono: "only P p \<Longrightarrow> (\<And>e. P e \<Longrightarrow> Q e) \<Longrightarrow> only Q p"
  unfolding only_def list_all_iff by blast

lemma only_notice_msg: "(\<And>c. P (Putc c)) \<Longrightarrow> only P (notice_msg fmt args)"
  unfolding notice_msg_def by (cases "sprintf (replicate 128 0) (Some fmt) args") (auto intro!: onlys)

lemma fill_round_only: "only (\<lambda>_. True) (fill_round is res)"
  by (induction "is" arbitrary: res) (auto simp: Let_def intro!: only_ret only_bnd only_read only_if only_ERROR only_stop)

lemma fill_only: "only (\<lambda>_. True) (exec_fillDMA fd dst len)"
  unfolding exec_fillDMA_def start_fillDMA_def end_fillDMA_def Let_def
  by (intro onlys fill_round_only) simp_all

lemma only_write_64: "P (Wr64 a v) \<Longrightarrow> only P (mmio_write_64 a v)"
  by (simp add: mmio_write_64_def only_emit)

lemma single_ecc_only: "only (\<lambda>_. True) (single_ecc_init fd)"
  unfolding single_ecc_init_def dram_ecc_area_def sram_ecc_area_def exec_fill_sram_def
  by (intro onlys fill_only only_notice_msg only_write_64) simp_all

lemma dual_setting_only:
  "only (\<lambda>_. True) dual_ecc_setting_4ch" "only (\<lambda>_. True) dual_ecc_setting_2ch" "only (\<lambda>_. True) dual_ecc_setting_linear"
  unfolding dual_ecc_setting_4ch_def dual_ecc_setting_2ch_def dual_ecc_setting_linear_def set_ecc_enables_def Let_def
  by (intro onlys; simp)+

lemma dual_ecc_only: "only (\<lambda>_. True) (dram_dual_ecc_init b fd)"
proof -
  have "only (\<lambda>_. True) (dual_ecc_setting b prr)" for prr
    unfolding dual_ecc_setting_def using dual_setting_only by (cases "b_split b") (simp_all add: only_if)
  moreover have "only (\<lambda>_. True) (set_area_sizes b prr)" for prr
    unfolding set_area_sizes_def Let_def by (intro onlys) simp_all
  moreover have "only (\<lambda>_. True) (dual_areas fd prr al el)" for prr al el
    unfolding dual_areas_def dual_area_def dual_extra_area_def Let_def
    by (intro onlys fill_only only_notice_msg) simp_all
  ultimately show ?thesis
    unfolding dram_dual_ecc_init_def by (intro onlys) simp_all
qed

lemma ecc_init_only: "only (\<lambda>_. True) (ecc_init b fd)"
  unfolding ecc_init_def Let_def
  by (cases "b_ecc b"; simp only: ecc_opt.case) (intro onlys single_ecc_only dual_ecc_only TrueI)+

lemma init_only: "only (\<lambda>_. True) initRPC" "only (\<lambda>_. True) initDMA" "only (\<lambda>_. True) get_cert_info"
  unfolding initRPC_def enableRPC_def setupRPC_def initDMA_def enableDMA_def setupDMA_def mstpcr_write_def cpg_write_def
    get_cert_info_def Let_def
  by (intro onlys; simp)+

lemma execDMA_only: "only (\<lambda>_. True) (execDMA dst src len)"
  unfolding execDMA_def startDMA_def Let_def
  by (intro onlys only_mono [OF endDMA_only] TrueI)

text \<open>What the ROM and the mode registers answer, and when authentication is required.\<close>

definition boot_mode :: "device \<Rightarrow> u32 \<Rightarrow> u32 \<Rightarrow> u32 \<Rightarrow> bool" where
  "boot_mode d lcs md softmd \<longleftrightarrow>
     (\<forall>tr. d_rd32 d tr RST_MODEMR = md \<and> d_rd32 d tr MFISOFTMDR = softmd) \<and>
     (\<forall>tr. \<forall>entry \<in> set ROM_GetLcs_table. d_rom d tr entry [] = (0, lcs))"

definition secure_required :: "u32 \<Rightarrow> u32 \<Rightarrow> u32 \<Rightarrow> bool" where
  "secure_required lcs md softmd \<longleftrightarrow>
     (if lcs = LCS_SE then softmd AND 1 = 0 else lcs \<noteq> LCS_SD \<and> md AND 0x20 = 0)"

lemma ROM_GetLcs_run:
  assumes "boot_mode (m_dev s) lcs md softmd"
  shows "\<exists>tr. ROM_GetLcs s = Done (0, lcs) (s\<lparr>m_tr := tr @ m_tr s\<rparr>) \<and> writes tr = []"
proof -
  obtain k v1 v2 where k: "k < 4"
    and idx: "get_table_index s = Done k (s\<lparr>m_tr := [Rd32 RCAR_PRR v2, Rd32 RCAR_PRR v1] @ m_tr s\<rparr>)"
    using get_table_index_run [of s] by auto
  have "ROM_GetLcs_table ! k \<in> set ROM_GetLcs_table" using k by (intro nth_mem) (simp add: ROM_GetLcs_table_def)
  then have "ROM_GetLcs s = Done (0, lcs) (s\<lparr>m_tr := [RomCall (ROM_GetLcs_table ! k) [] 0, Rd32 RCAR_PRR v2, Rd32 RCAR_PRR v1] @ m_tr s\<rparr>)"
    using assms unfolding ROM_GetLcs_def by (simp add: bnd_def idx rom_call_def boot_mode_def)
  then show ?thesis
    by (intro exI [of _ "[RomCall (ROM_GetLcs_table ! k) [] 0, Rd32 RCAR_PRR v2, Rd32 RCAR_PRR v1]"]) simp
qed

lemma md5_zero: "drop_bit 5 m AND 1 = 0 \<longleftrightarrow> m AND 0x20 = (0 :: u32)"
proof -
  have "m AND 2 ^ 5 = 0 \<longleftrightarrow> \<not> bit m 5" by (rule and_exp_eq_0_iff_not_bit)
  then show ?thesis by (simp add: and_one_eq bit_iff_odd_drop_bit even_iff_mod_2_eq_zero)
qed

lemma softmd_one: "m AND 1 \<noteq> 1 \<longleftrightarrow> m AND 1 = (0 :: u32)"
  by (simp add: and_one_eq)

lemma secure_boot_judgement_run:
  assumes "boot_mode (m_dev s) lcs md softmd"
  shows "\<exists>tr. secure_boot_judgement b s = Done (b_secure_boot b \<and> secure_required lcs md softmd) (s\<lparr>m_tr := tr @ m_tr s\<rparr>) \<and>
    writes tr = []"
proof (cases "b_secure_boot b")
  case True
  let ?s = "s\<lparr>m_tr := [Rd32 MFISOFTMDR softmd, Rd32 RST_MODEMR md] @ m_tr s\<rparr>"
  have "boot_mode (m_dev ?s) lcs md softmd" using assms by simp
  from ROM_GetLcs_run [OF this] obtain tr where
    lcs: "ROM_GetLcs ?s = Done (0, lcs) (?s\<lparr>m_tr := tr @ m_tr ?s\<rparr>)" "writes tr = []"
    by blast
  have rd: "d_rd32 (m_dev s) tr RST_MODEMR = md" "d_rd32 (m_dev s) tr MFISOFTMDR = softmd" for tr
    using assms by (simp_all add: boot_mode_def)
  have "secure_boot_judgement b s = Done (secure_required lcs md softmd) (s\<lparr>m_tr := (tr @ [Rd32 MFISOFTMDR softmd, Rd32 RST_MODEMR md]) @ m_tr s\<rparr>)"
    using True lcs(1)
    by (simp add: secure_boot_judgement_def bnd_read_32 rd bnd_def [of ROM_GetLcs] Let_def ret_run secure_required_def md5_zero softmd_one)
  then show ?thesis
    using True lcs(2) by (intro exI [of _ "tr @ [Rd32 MFISOFTMDR softmd, Rd32 RST_MODEMR md]"]) simp
next
  case False
  then show ?thesis by (intro exI [of _ "[]"]) (simp add: secure_boot_judgement_def ret_run)
qed

lemma start_main_cpu_none: "b_kick b = MAIN_CPU_NONE \<Longrightarrow> start_main_cpu b secure bca s = Done 0 s"
  by (simp add: start_main_cpu_def ret_run)

lemma start_main_cpu_Done:
  assumes "gicc_known s" and "b_kick b \<noteq> MAIN_CPU_NONE" and "start_main_cpu b secure bca s = Done a t"
  shows "gicc_known t \<and> (\<exists>q tr. m_tr t = q @ tr @ m_tr s \<and> list_all no_load q \<and> (secure \<longrightarrow> verified bca ca5x_image a tr))"
proof -
  define m where "m = NOTICE ((if b_kick b = MAIN_CPU_CA57 then ''Kick CA57 as main CPU'' else ''Kick CA53 as main CPU'') @ [CHR 0x0A]) []"
  have m: "only no_load m" unfolding m_def by (intro onlys) simp
  from assms(2,3) obtain u x where 1: "load_image b secure bca ca5x_image s = Done a u" and 2: "m u = Done x t"
    unfolding start_main_cpu_def m_def [symmetric] by (auto simp: bnd_eq_Done ret_run)
  from load_image_Done [OF assms(1) 1] obtain tr where
    u: "gicc_known u" "m_tr u = tr @ m_tr s" "secure \<longrightarrow> verified bca ca5x_image a tr" by blast
  from only_run [OF m u(1) 2] u(2,3) show ?thesis by metis
qed

lemma tcm_loader_Done:
  assumes "gicc_known s" and "boot_mode (m_dev s) lcs md softmd" and "tcm_loader_main b fd s = Done a t"
  obtains secure bca pre rtos mid u ca post x where
    "secure = (b_secure_boot b \<and> secure_required lcs md softmd)"
    "gicc_known u" "m_tr u = rtos @ pre" "secure \<longrightarrow> verified bca (rtos_image b) a rtos"
    "start_main_cpu b secure bca u = Done ca mid"
    "m_tr t = post @ m_tr mid" "list_all no_load post" "finish_boot b ca mid = Done x t"
proof -
  let ?secure = "b_secure_boot b \<and> secure_required lcs md softmd"
  let ?cert = "if b_secure_boot b then get_cert_info else ret (0, 0)"
  let ?inits = "seqs [ecc_init b fd, initRPC, initDMA]"
  define first where "first sec bca siz = (if sec
          then seqs [NOTICE (''Secure boot(CR7)'' @ [CHR 0x0A]) [],
                     execDMA (SEC_BOOT_CERT_ADDR bca) (FLASH_BASE + bca) siz]
          else NOTICE (''Normal boot(CR7)'' @ [CHR 0x0A]) [])" for sec bca siz
  from assms(3) obtain bca siz s1 x2 s2 sec s3 x4 s4 s5 ca s6 x7 where
    1: "?cert s = Done (bca, siz) s1" and 2: "?inits s1 = Done x2 s2" and
    3: "secure_boot_judgement b s2 = Done sec s3" and 4: "first sec bca siz s3 = Done x4 s4" and
    5: "load_image b sec bca (rtos_image b) s4 = Done a s5" and
    6: "start_main_cpu b sec bca s5 = Done ca s6" and 7: "finish_boot b ca s6 = Done x7 t"
    unfolding tcm_loader_main_def first_def [symmetric] by (auto simp: bnd_eq_Done ret_run simp del: seqs.simps)
  have "only (\<lambda>_. True) ?cert" by (intro onlys init_only)
  from only_dev [OF this assms(1) 1] have k1: "gicc_known s1" and d1: "m_dev s1 = m_dev s" by auto
  have "only (\<lambda>_. True) ?inits" by (intro onlys init_only ecc_init_only)
  from only_dev [OF this k1 2] have k2: "gicc_known s2" and d2: "m_dev s2 = m_dev s" using d1 by auto
  have "boot_mode (m_dev s2) lcs md softmd" using assms(2) d2 by simp
  from secure_boot_judgement_run [OF this, of b] 3 have sec: "sec = ?secure" and k3: "gicc_known s3"
    using k2 by auto
  have "only (\<lambda>_. True) (first sec bca siz)" unfolding first_def by (intro onlys execDMA_only TrueI)
  from only_dev [OF this k3 4] have k4: "gicc_known s4" by auto
  from load_image_Done [OF k4 5] obtain tr where 
    s5: "gicc_known s5" "m_tr s5 = tr @ m_tr s4" "sec \<longrightarrow> verified bca (rtos_image b) a tr"
    by blast
  have k6: "gicc_known s6"
    using start_main_cpu_Done [OF s5(1) _ 6] start_main_cpu_none [of b sec bca s5] 6 s5(1) by (cases "b_kick b = MAIN_CPU_NONE") auto
  from only_run [OF finish_boot_only k6 7] obtain post where "m_tr t = post @ m_tr s6" "list_all no_load post" by metis
  then show thesis using that [OF sec s5 6 _ _ 7] by blast
qed

text \<open>
  Property C1 (secure_boot_verified): on every hardware on which the life cycle state and the mode
  pins require secure boot, whenever the second stage returns an entry address, the mask ROM has
  accepted the certificate of the image last loaded at that address, and nothing was loaded between
  loading and verifying it; without an application core to start, nothing is loaded afterwards
  either, and with one, its loader is verified in the same way. So no unverified image is started.
\<close>

theorem secure_boot_verified:
  assumes "gicc_known s" and "boot_mode (m_dev s) lcs md softmd" and "b_secure_boot b" and "secure_required lcs md softmd"
    and "tcm_loader_main b fd s = Done a t"
  shows "\<exists>bca post rtos pre. m_tr t = post @ rtos @ pre \<and> verified bca (rtos_image b) a rtos \<and>
    (if b_kick b = MAIN_CPU_NONE then list_all no_load post
     else \<exists>ca q r tr. post = q @ r @ tr \<and> list_all no_load q \<and> list_all no_load r \<and> verified bca ca5x_image ca tr)"
proof -
  obtain secure bca pre rtos mid u ca post x where
    sec: "secure = (b_secure_boot b \<and> secure_required lcs md softmd)" and
    u: "gicc_known u" "m_tr u = rtos @ pre" "secure \<longrightarrow> verified bca (rtos_image b) a rtos" and
    main: "start_main_cpu b secure bca u = Done ca mid" and
    post: "m_tr t = post @ m_tr mid" "list_all no_load post" and "finish_boot b ca mid = Done x t"
    by (rule tcm_loader_Done [OF assms(1,2,5)])
  have secure: secure using sec assms(3,4) by simp
  show ?thesis
  proof (cases "b_kick b = MAIN_CPU_NONE")
    case True
    then have "mid = u" using main by (simp add: start_main_cpu_none)
    then show ?thesis using True u post secure by (intro exI [of _ bca] exI [of _ post] exI [of _ rtos] exI [of _ pre]) simp
  next
    case False
    from start_main_cpu_Done [OF u(1) False main] obtain q tr where
      q: "m_tr mid = q @ tr @ m_tr u" "list_all no_load q" "verified bca ca5x_image ca tr" using secure by blast
    then have "m_tr t = (post @ q @ tr) @ rtos @ pre" using post(1) u(2) by simp
    moreover have "\<exists>ca' q' r' tr'. post @ q @ tr = q' @ r' @ tr' \<and> list_all no_load q' \<and> list_all no_load r' \<and>
        verified bca ca5x_image ca' tr'"
      using q(2,3) post(2) by blast
    ultimately show ?thesis
      using u(3) secure unfolding if_not_P [OF False] by blast
  qed
qed

section \<open>Starting an application core\<close>

lemma acts_poll:
  assumes "ready_32 (m_dev e) (m_fuel e) a busy"
  shows "acts e (poll_32 a busy) (\<lambda>ws. ws = [])"
  unfolding acts_def
proof
  fix tr
  have "ready_32 (m_dev (e\<lparr>m_tr := tr\<rparr>)) (m_fuel (e\<lparr>m_tr := tr\<rparr>)) a busy" using assms by simp
  from poll_32_ready [OF this] obtain n where
    "poll_32 a busy (e\<lparr>m_tr := tr\<rparr>) = Done () (e\<lparr>m_tr := poll_tr (m_dev e) a (Suc n) tr\<rparr>)" by auto
  then show "\<exists>tr' ws. poll_32 a busy (e\<lparr>m_tr := tr\<rparr>) = Done () (e\<lparr>m_tr := tr'\<rparr>) \<and> writes tr' = writes tr @ ws \<and> ws = []"
    by (intro exI [of _ "poll_tr (m_dev e) a (Suc n) tr"]) (simp del: poll_tr_simps)
qed

lemma acts_no_retry:
  assumes "\<forall>t. \<not> busy (d_rd32 (m_dev e) t a)" and "0 < m_fuel e"
  shows "acts e (while_io (polled a busy) body) (\<lambda>ws. ws = [])"
  unfolding acts_def
proof
  fix tr
  obtain n where "m_fuel e = Suc n" using assms(2) by (cases "m_fuel e") auto
  then have "while_io (polled a busy) body (e\<lparr>m_tr := tr\<rparr>) = Done () (e\<lparr>m_tr := Rd32 a (d_rd32 (m_dev e) tr a) # tr\<rparr>)"
    using assms(1) by (simp add: while_io_def polled_def steps_simps ret_def)
  then show "\<exists>tr' ws. while_io (polled a busy) body (e\<lparr>m_tr := tr\<rparr>) = Done () (e\<lparr>m_tr := tr'\<rparr>) \<and> writes tr' = writes tr @ ws \<and> ws = []"
    by (intro exI [of _ "Rd32 a (d_rd32 (m_dev e) tr a) # tr"]) simp
qed

lemma seqs_Panic: "p s = Panic t \<Longrightarrow> seqs (p # ps) s = Panic t"
  by (simp add: bnd_def)

text \<open>The power controller answers: it accepts requests, reports no error and completes.\<close>

definition core_ready :: "device \<Rightarrow> nat \<Rightarrow> ca5x \<Rightarrow> bool" where
  "core_ready d fuel c \<longleftrightarrow> 0 < fuel \<and> ready_32 d fuel RCAR_SYSCSR (\<lambda>v. v AND REQ_RESUME = 0) \<and>
     (\<forall>t. \<not> d_rd32 d t (REG_PWRER c) AND 1 \<noteq> 0) \<and> ready_32 d fuel RCAR_SYSCISR (\<lambda>v. v AND REG_SYSC_BIT c = 0) \<and>
     ready_32 d fuel (ON_REG c) (\<lambda>v. v AND 1 = 1)"

definition scu_regs :: "ca5x \<Rightarrow> u32 list" where
  "scu_regs c = [RCAR_SYSCIER, RCAR_SYSCIMR, REG_PWRONCR c, RCAR_SYSCISCR]"

lemma SCU_acts:
  assumes "core_ready (m_dev e) (m_fuel e) c"
  shows "acts e (SCU_power_up c) (\<lambda>ws. map fst ws \<in> {[], scu_regs c})"
  unfolding SCU_power_up_def
proof (rule acts_read)
  fix st
  have r: "acts e (scu_request c) (\<lambda>ws. ws = [(REG_PWRONCR c, 1)])"
    unfolding scu_request_def
    by (rule acts_weaken [OF acts_seqs_Cons [OF acts_poll acts_seqs_Cons [OF acts_write acts_seqs_Nil]]])
      (use assms in \<open>auto simp: core_ready_def\<close>)
  have w: "acts e (while_io (polled (REG_PWRER c) (\<lambda>v. v AND 1 \<noteq> 0)) (scu_request c)) (\<lambda>ws. ws = [])"
    using assms by (intro acts_no_retry) (simp_all add: core_ready_def)
  have p: "acts e (poll_32 RCAR_SYSCISR (\<lambda>v. v AND REG_SYSC_BIT c = 0)) (\<lambda>ws. ws = [])"
    using assms by (intro acts_poll) (simp add: core_ready_def)
  have all: "acts e (seqs
         [modify_32 RCAR_SYSCIER (\<lambda>v. v OR REG_SYSC_BIT c), modify_32 RCAR_SYSCIMR (\<lambda>v. v OR REG_SYSC_BIT c),
          scu_request c, while_io (polled (REG_PWRER c) (\<lambda>v. v AND 1 \<noteq> 0)) (scu_request c),
          poll_32 RCAR_SYSCISR (\<lambda>v. v AND REG_SYSC_BIT c = 0), mmio_write_32 RCAR_SYSCISCR (REG_SYSC_BIT c)])
      (\<lambda>ws. map fst ws = scu_regs c)"
    by (rule acts_weaken [OF acts_seqs_Cons [OF acts_modify acts_seqs_Cons [OF acts_modify acts_seqs_Cons [OF r
      acts_seqs_Cons [OF w acts_seqs_Cons [OF p acts_seqs_Cons [OF acts_write acts_seqs_Nil]]]]]]]) (auto simp: scu_regs_def)
  show "acts e (whenp (st AND STATUS_PWRDOWN \<noteq> 0) (seqs
         [modify_32 RCAR_SYSCIER (\<lambda>v. v OR REG_SYSC_BIT c), modify_32 RCAR_SYSCIMR (\<lambda>v. v OR REG_SYSC_BIT c),
          scu_request c, while_io (polled (REG_PWRER c) (\<lambda>v. v AND 1 \<noteq> 0)) (scu_request c),
          poll_32 RCAR_SYSCISR (\<lambda>v. v AND REG_SYSC_BIT c = 0), mmio_write_32 RCAR_SYSCISCR (REG_SYSC_BIT c)]))
      (\<lambda>ws. map fst ws \<in> {[], scu_regs c})"
  proof (cases "st AND STATUS_PWRDOWN \<noteq> 0")
    case True
    show ?thesis unfolding whenp_def if_P [OF True] by (rule acts_weaken [OF all]) simp
  next
    case False
    show ?thesis unfolding whenp_def if_not_P [OF False] by (rule acts_weaken [OF acts_ret]) simp
  qed
qed


text \<open>Witness: a CA57 on a chip where it exists, with the cluster down.\<close>

definition core_memory :: "u32 \<Rightarrow> u32" where
  "core_memory = (\<lambda>_. 0)(RCAR_SYSCSR := 2, REG_PWRSR ca57_regs := 1, RCAR_SYSCISR := 0x1000, RCAR_PRR := 0x5502)"


section \<open>The boot chain returns\<close>

text \<open>\<open>gives e p x W\<close> is \<open>acts\<close> for a program with a result: it returns \<open>x\<close>.\<close>

definition gives :: "machine \<Rightarrow> 'a prog \<Rightarrow> 'a \<Rightarrow> ((u32 \<times> u32) list \<Rightarrow> bool) \<Rightarrow> bool" where
  "gives e p x W \<longleftrightarrow>
     (\<forall>tr. \<exists>tr' ws. p (e\<lparr>m_tr := tr\<rparr>) = Done x (e\<lparr>m_tr := tr'\<rparr>) \<and> writes tr' = writes tr @ ws \<and> W ws)"

lemma gives_unit: "acts e p W \<Longrightarrow> gives e p () W"
  by (simp add: acts_def gives_def)

lemma gives_acts: "gives e p () W \<Longrightarrow> acts e p W"
  by (simp add: acts_def gives_def)

lemma gives_ret: "gives e (ret x) x (\<lambda>ws. ws = [])"
  by (auto simp: gives_def ret_def)

lemma gives_bnd:
  assumes "gives e p x V" and "gives e (f x) y W"
  shows "gives e (bnd p f) y (\<lambda>ws. \<exists>u v. ws = u @ v \<and> V u \<and> W v)"
  unfolding gives_def
proof
  fix tr
  obtain tr1 u where 1: "p (e\<lparr>m_tr := tr\<rparr>) = Done x (e\<lparr>m_tr := tr1\<rparr>)" "writes tr1 = writes tr @ u" "V u"
    using assms(1) unfolding gives_def by metis
  obtain tr2 v where 2: "f x (e\<lparr>m_tr := tr1\<rparr>) = Done y (e\<lparr>m_tr := tr2\<rparr>)" "writes tr2 = writes tr1 @ v" "W v"
    using assms(2) unfolding gives_def by metis
  show "\<exists>tr' ws. bnd p f (e\<lparr>m_tr := tr\<rparr>) = Done y (e\<lparr>m_tr := tr'\<rparr>) \<and>
      writes tr' = writes tr @ ws \<and> (\<exists>u v. ws = u @ v \<and> V u \<and> W v)"
    using 1 2 by (intro exI [of _ tr2] exI [of _ "u @ v"]) (auto simp: bnd_def)
qed

lemma gives_weaken: "gives e p x V \<Longrightarrow> (\<And>ws. V ws \<Longrightarrow> W ws) \<Longrightarrow> gives e p x W"
  unfolding gives_def by metis

lemma gives_run:
  assumes "gives (s\<lparr>m_tr := []\<rparr>) p x W"
  shows "\<exists>tr ws. p s = Done x (s\<lparr>m_tr := tr\<rparr>) \<and> writes tr = writes (m_tr s) @ ws \<and> W ws"
  using assms [unfolded gives_def, rule_format, of "m_tr s"] by simp

text \<open>A run on every history, as \<open>acts\<close> or \<open>gives\<close>.\<close>

lemma givesI:
  assumes "\<And>s. m_dev s = m_dev e \<Longrightarrow> m_fuel s = m_fuel e \<Longrightarrow> (\<exists>tr. s = e\<lparr>m_tr := tr\<rparr>) \<Longrightarrow>
      \<exists>t ws. p s = Done x t \<and> t = s\<lparr>m_tr := m_tr t\<rparr> \<and> writes (m_tr t) = writes (m_tr s) @ ws \<and> W ws"
  shows "gives e p x W"
  unfolding gives_def
proof
  fix tr
  obtain t ws where "p (e\<lparr>m_tr := tr\<rparr>) = Done x t" "t = e\<lparr>m_tr := tr\<rparr>\<lparr>m_tr := m_tr t\<rparr>"
      "writes (m_tr t) = writes tr @ ws" "W ws"
    using assms [of "e\<lparr>m_tr := tr\<rparr>"] by (metis machine.select_convs(1,2,3) machine.surjective machine.update_convs(3))
  then show "\<exists>tr' ws. p (e\<lparr>m_tr := tr\<rparr>) = Done x (e\<lparr>m_tr := tr'\<rparr>) \<and> writes tr' = writes tr @ ws \<and> W ws"
    by (intro exI [of _ "m_tr t"] exI [of _ ws]) simp
qed

definition dma_copy :: "u32 \<Rightarrow> u32 \<Rightarrow> u32 \<Rightarrow> (u32 \<times> u32) list \<Rightarrow> bool" where
  "dma_copy dst src len ws \<longleftrightarrow> (\<exists>n sec sec'. 64 * unat n = 256 * ((unat len + 255) div 256) \<and>
     ws = [(DMA_RDMSEC, sec OR 2), (DMA_RDMDAR, dst), (DMA_RDMSAR, src), (DMA_RDMTCR, n),
         (DMA_RDMCHCR, RDMCHCR_TRN_MODE), (DMA_RDMCHCLR, 2), (DMA_RDMSEC, sec' AND NOT 2)])"

lemma execDMA_gives:
  assumes "dma_finishes (m_dev e) (m_fuel e)" and "unat len \<le> 0xFFFFFF00" and "src AND 0xFF = 0" and "dst AND 0xFF = 0"
  shows "gives e (execDMA dst src len) () (dma_copy dst src len)"
proof (rule givesI)
  fix s :: machine
  assume "m_dev s = m_dev e" "m_fuel s = m_fuel e"
  with execDMA_run [of s len src dst] assms
  show "\<exists>t ws. execDMA dst src len s = Done () t \<and> t = s\<lparr>m_tr := m_tr t\<rparr> \<and> writes (m_tr t) = writes (m_tr s) @ ws \<and>
      dma_copy dst src len ws"
    unfolding dma_copy_def by auto
qed

lemma mstpcr_gives:
  assumes "ready_32 (m_dev e) (m_fuel e) sr (\<lambda>v. v AND tb \<noteq> 0)"
  shows "gives e (mstpcr_write cr sr tb) () (\<lambda>_. True)"
proof (rule givesI)
  fix s :: machine
  assume s: "m_dev s = m_dev e" "m_fuel s = m_fuel e"
  let ?v = "d_rd32 (m_dev s) (m_tr s) cr"
  let ?s = "s\<lparr>m_tr := Wr32 cr (?v AND NOT tb) # Wr32 CPG_CPGWPR (NOT (?v AND NOT tb)) # Rd32 cr ?v # m_tr s\<rparr>"
  have "ready_32 (m_dev ?s) (m_fuel ?s) sr (\<lambda>v. v AND tb \<noteq> 0)" using assms s by simp
  from poll_32_ready [OF this] obtain n where
    "poll_32 sr (\<lambda>v. v AND tb \<noteq> 0) ?s = Done () (?s\<lparr>m_tr := poll_tr (m_dev ?s) sr (Suc n) (m_tr ?s)\<rparr>)" by blast
  moreover have "mstpcr_write cr sr tb s = poll_32 sr (\<lambda>v. v AND tb \<noteq> 0) ?s"
    unfolding mstpcr_write_def cpg_write_def by (simp add: steps_simps)
  ultimately show "\<exists>t ws. mstpcr_write cr sr tb s = Done () t \<and> t = s\<lparr>m_tr := m_tr t\<rparr> \<and>
      writes (m_tr t) = writes (m_tr s) @ ws \<and> True"
    by simp
qed

lemma setupRPC_gives: "gives e setupRPC () (\<lambda>_. True)"
  by (rule givesI) (auto simp: setupRPC_def whenp_def Let_def steps_simps ret_def)

lemma gives_seq: "gives e p () V \<Longrightarrow> gives e (seqs ps) () W \<Longrightarrow> gives e (seqs (p # ps)) () (\<lambda>ws. \<exists>u v. ws = u @ v \<and> V u \<and> W v)"
  by (simp add: gives_bnd)

lemma gives_any: "gives e p x V \<Longrightarrow> gives e p x (\<lambda>_. True)"
  by (rule gives_weaken) auto

lemma gives_nil: "gives e (seqs []) () (\<lambda>ws. ws = [])"
  by (simp add: gives_ret)

text \<open>The hardware answers in time: clocks start, transfers end, the timer runs.\<close>

definition boot_ready :: "device \<Rightarrow> nat \<Rightarrow> (nat \<Rightarrow> nat) \<Rightarrow> bool" where
  "boot_ready d fuel clk \<longleftrightarrow> dma_finishes d fuel \<and> timer d clk \<and> 2000 < fuel \<and>
     ready_32 d fuel CPG_MSTPSR9 (\<lambda>v. v AND RPC_IF_BIT \<noteq> 0) \<and> ready_32 d fuel CPG_MSTPSR0 (\<lambda>v. v AND RT_DMAC_BIT \<noteq> 0)"

lemma inits_gives:
  assumes "boot_ready (m_dev e) (m_fuel e) clk" and "b_ecc b = DRAM_SRAM_ECC_DISABLE"
  shows "gives e (seqs [ecc_init b fd, initRPC, initDMA]) () (\<lambda>_. True)"
proof -
  have m: "gives e (mstpcr_write CPG_RMSTPCR9 CPG_MSTPSR9 RPC_IF_BIT) () (\<lambda>_. True)"
    "gives e (mstpcr_write CPG_RMSTPCR0 CPG_MSTPSR0 RT_DMAC_BIT) () (\<lambda>_. True)"
    using assms(1) by (simp_all add: boot_ready_def mstpcr_gives)
  have ecc: "gives e (ecc_init b fd) () (\<lambda>ws. ws = [])" using assms(2) by (simp add: ecc_init_def gives_ret)
  have rpc: "gives e initRPC () (\<lambda>_. True)"
    unfolding initRPC_def enableRPC_def
    by (rule gives_any [OF gives_seq [OF m(1) gives_seq [OF setupRPC_gives gives_nil]]])
  have dma: "gives e initDMA () (\<lambda>_. True)"
    unfolding initDMA_def enableDMA_def setupDMA_def
    by (rule gives_any [OF gives_seq [OF m(2) gives_seq [OF gives_unit [OF acts_write] gives_nil]]])
  show ?thesis by (rule gives_any [OF gives_seq [OF ecc gives_seq [OF rpc gives_seq [OF dma gives_nil]]]])
qed

lemma gives_NOTICE: "format fmt args \<noteq> None \<Longrightarrow> gives e (NOTICE fmt args) () (\<lambda>ws. ws = [])"
  by (rule gives_unit) (rule acts_NOTICE)

lemma finish_boot_gives:
  assumes "boot_ready (m_dev e) (m_fuel e) clk" and "b_kick b = MAIN_CPU_NONE" and "gicc_known e"
  shows "gives e (finish_boot b ca) () (\<lambda>_. True)"
proof -
  have a: "gives e (asm Console_wait) () (\<lambda>_. True)"
    by (rule givesI) (auto simp: asm_def emit_def)
  have sw: "gives e (swdt_release b) () (\<lambda>_. True)"
  proof (rule givesI)
    fix s :: machine
    assume "\<exists>tr. s = e\<lparr>m_tr := tr\<rparr>"
    then have s: "gicc_known s" using assms(3) by auto
    obtain tr where run: "swdt_release b s = Done () (s\<lparr>m_tr := tr\<rparr>)" using swdt_release_run [OF s] by blast
    from only_run [OF swdt_release_only s run] obtain u where "tr = u @ m_tr s"
      by (metis machine.select_convs(3) machine.surjective machine.update_convs(3))
    then show "\<exists>t ws. swdt_release b s = Done () t \<and> t = s\<lparr>m_tr := m_tr t\<rparr> \<and> writes (m_tr t) = writes (m_tr s) @ ws \<and> True"
      using run by auto
  qed
  have g: "gives e gic_security_setting () (\<lambda>ws. ws = [(GICC_BASE + GICC_PMR, GIC_PRI_MASK)])"
    unfolding gic_security_setting_def gicc_write_pmr_def by (rule gives_unit) (rule acts_write)
  have t: "timer (m_dev s) clk \<and> 2000 < m_fuel s" if "m_dev s = m_dev e" "m_fuel s = m_fuel e" for s :: machine
    using assms(1) that by (simp add: boot_ready_def)
  have l: "gives e (if b_lifec b then lifec_init b else NOTICE (''Skipping LifeC setting for testing'' @ [CHR 0x0A]) []) () (\<lambda>_. True)"
  proof (cases "b_lifec b")
    case True
    have "gives e (lifec_init b) () (\<lambda>_. True)"
    proof (rule givesI)
      fix s :: machine
      assume "m_dev s = m_dev e" "m_fuel s = m_fuel e"
      then have "timer (m_dev s) clk" "2000 < m_fuel s" using t by auto
      from lifec_init_run [OF this, of b]
      show "\<exists>t ws. lifec_init b s = Done () t \<and> t = s\<lparr>m_tr := m_tr t\<rparr> \<and> writes (m_tr t) = writes (m_tr s) @ ws \<and> True"
        by blast
    qed
    then show ?thesis using True by simp
  next
    case False
    have "gives e (NOTICE (''Skipping LifeC setting for testing'' @ [CHR 0x0A]) []) () (\<lambda>ws. ws = [])"
      by (rule gives_NOTICE) simp
    then show ?thesis using False by (simp only: if_False) (rule gives_any)
  qed
  have p: "gives e (rcar_pwrc_cpuon b ca) () (\<lambda>ws. ws = [])"
    using assms(2) by (simp add: rcar_pwrc_cpuon_def gives_ret)
  have c: "gives e (lifec_cr7_setting b) () (\<lambda>_. True)"
  proof (rule givesI)
    fix s :: machine
    assume s: "m_dev s = m_dev e" "m_fuel s = m_fuel e"
    let ?v = "d_rd32 (m_dev s) (m_tr s) RCAR_PRR"
    let ?u = "s\<lparr>m_tr := Wr32 SEC_SRC 0x0000001E # Rd32 RCAR_PRR ?v # m_tr s\<rparr>"
    obtain w where w: "lifec_wait ?v SEC_SRC ?u = Done () w" "w = ?u\<lparr>m_tr := m_tr w\<rparr>" "writes (m_tr w) = writes (m_tr ?u)"
      using lifec_wait_run [of ?u clk ?v SEC_SRC] t [of ?u] s by auto
    show "\<exists>t ws. lifec_cr7_setting b s = Done () t \<and> t = s\<lparr>m_tr := m_tr t\<rparr> \<and> writes (m_tr t) = writes (m_tr s) @ ws \<and> True"
    proof (cases "b_ns_master b")
      case True
      then have "lifec_cr7_setting b s = lifec_wait ?v SEC_SRC ?u"
        by (simp add: lifec_cr7_setting_def lifec_reg_write_def steps_simps)
      with w show ?thesis by simp
    next
      case False
      then show ?thesis by (simp add: lifec_cr7_setting_def ret_def)
    qed
  qed
  show ?thesis
    unfolding finish_boot_def
    by (rule gives_any [OF gives_seq [OF a gives_seq [OF sw gives_seq [OF g gives_seq [OF l gives_seq [OF p gives_seq [OF c gives_nil]]]]]]])
qed

text \<open>What the loader finds in memory: a certificate and a ROM that accepts it.\<close>

definition cert_at :: "device \<Rightarrow> u32 \<Rightarrow> u32 \<Rightarrow> u32 \<Rightarrow> u32 \<Rightarrow> bool" where
  "cert_at d magic cert siz dst \<longleftrightarrow> (\<exists>w sz. let c = cert_class magic w in
     c < 3 \<and> siz = sz * 4 \<and> (\<forall>t. d_rd32 d t (cert + 0xC) = w) \<and>
     (\<forall>t. d_rd32 d t (cert + (0x264 + 0x100 * of_nat c)) = sz) \<and> (\<forall>t. d_rd32 d t (cert + (0x154 + 0x80 * of_nat c)) = dst))"

definition rom_accepts :: "device \<Rightarrow> bool" where
  "rom_accepts d \<longleftrightarrow> (\<forall>tr. \<forall>entry \<in> set ROM_SecureBootAPI_table. \<forall>args. fst (d_rom d tr entry args) = 0)"

lemma authenticate_gives:
  assumes "rom_accepts (m_dev e)"
  shows "gives e (authenticate bca i) () (\<lambda>ws. ws = [])"
proof (rule givesI)
  fix s :: machine
  assume s: "m_dev s = m_dev e"
  obtain k v1 v2 where k: "k < 4"
    and idx: "get_table_index s = Done k (s\<lparr>m_tr := Rd32 RCAR_PRR v2 # Rd32 RCAR_PRR v1 # m_tr s\<rparr>)"
    using get_table_index_run [of s] by blast
  let ?e = "ROM_SecureBootAPI_table ! k" and ?tr = "Rd32 RCAR_PRR v2 # Rd32 RCAR_PRR v1 # m_tr s"
    and ?args = "[SEC_BOOT_CERT_ADDR bca, i_cert i, 0]"
  have "?e \<in> set ROM_SecureBootAPI_table" using k by (intro nth_mem) (simp add: ROM_SecureBootAPI_table_def)
  then obtain out where "d_rom (m_dev s) ?tr ?e ?args = (0, out)"
    using assms s unfolding rom_accepts_def by (metis prod.collapse)
  then have "ROM_SecureBootAPI (SEC_BOOT_CERT_ADDR bca) (i_cert i) 0 s = Done 0 (s\<lparr>m_tr := RomCall ?e ?args 0 # ?tr\<rparr>)"
    unfolding ROM_SecureBootAPI_def by (simp add: bnd_def idx rom_call_def ret_def)
  then have "authenticate bca i s = Done () (s\<lparr>m_tr := RomCall ?e ?args 0 # ?tr\<rparr>)"
    unfolding authenticate_def bnd_def [of "ROM_SecureBootAPI (SEC_BOOT_CERT_ADDR bca) (i_cert i) 0"] by (simp add: ret_def)
  then show "\<exists>t ws. authenticate bca i s = Done () t \<and> t = s\<lparr>m_tr := m_tr t\<rparr> \<and> writes (m_tr t) = writes (m_tr s) @ ws \<and> ws = []"
    by simp
qed

lemma cert_gives:
  assumes "cert_at (m_dev e) (magicNumber e) cert siz dst"
  shows "gives e (get_info_from_cert cert) (siz, dst) (\<lambda>ws. ws = [])"
proof (rule givesI)
  fix s :: machine
  assume s: "m_dev s = m_dev e" and "\<exists>tr. s = e\<lparr>m_tr := tr\<rparr>"
  then have "magicNumber s = magicNumber e" by auto
  with assms s obtain w sz c where c: "c = cert_class (magicNumber s) w" "c < 3" "siz = sz * 4"
      "\<forall>t. d_rd32 (m_dev s) t (cert + 0xC) = w" "\<forall>t. d_rd32 (m_dev s) t (cert + (0x264 + 0x100 * of_nat c)) = sz"
      "\<forall>t. d_rd32 (m_dev s) t (cert + (0x154 + 0x80 * of_nat c)) = dst"
    unfolding cert_at_def Let_def by auto
  from get_info_run [OF c(4,1,5,6)] c(2,3)
  show "\<exists>t ws. get_info_from_cert cert s = Done (siz, dst) t \<and> t = s\<lparr>m_tr := m_tr t\<rparr> \<and>
      writes (m_tr t) = writes (m_tr s) @ ws \<and> ws = []"
    by auto
qed

lemma load_rtos_gives:
  assumes "dma_finishes (m_dev e) (m_fuel e)" and "cert_at (m_dev e) (magicNumber e) RTOS_CERT_ADDR siz dst"
    and "siz \<noteq> 0" and "siz \<le> RTOS_MAX_SIZE" and "area_ok b dst (FLASH_RTOS_IMAGE_ADDR b) siz 0" and "dst AND 0xFF = 0"
    and "secure \<longrightarrow> rom_accepts (m_dev e)"
  shows "gives e (load_image b secure bca (rtos_image b)) dst
    (\<lambda>ws. \<exists>u v. ws = u @ v \<and> dma_copy RTOS_CERT_ADDR FLASH_RTOS_CERT_ADDR FLASH_CERT_SIZE u \<and>
       dma_copy dst (FLASH_RTOS_IMAGE_ADDR b) siz v)"
proof -
  let ?i = "rtos_image b"
  have sz: "unat siz \<le> 0xFFFFFF00" using assms(4) by (simp add: word_le_nat_alt)
  have c1: "gives e (execDMA (i_cert ?i) (i_flash_cert ?i) FLASH_CERT_SIZE) () (dma_copy RTOS_CERT_ADDR FLASH_RTOS_CERT_ADDR FLASH_CERT_SIZE)"
    using execDMA_gives [OF assms(1), of FLASH_CERT_SIZE FLASH_RTOS_CERT_ADDR RTOS_CERT_ADDR] by (simp add: rtos_image_def)
  have c2: "gives e (get_info_from_cert (i_cert ?i)) (siz, dst) (\<lambda>ws. ws = [])"
    using cert_gives [OF assms(2)] by (simp add: rtos_image_def)
  have c3: "whenp (siz = 0 \<or> i_max ?i < siz) p = ret ()" for p
    using assms(3,4) by (simp add: rtos_image_def not_less [symmetric])
  have c4: "gives e (check_load_area b dst (i_flash ?i) siz (i_range ?i)) () (\<lambda>ws. ws = [])"
    by (rule givesI) (use check_load_area_run [of b dst "i_flash ?i" siz "i_range ?i"] assms(5) in \<open>simp add: rtos_image_def\<close>)
  have c5: "gives e (NOTICE (i_name ?i @ '' load address=0x%x '' @ i_name ?i @ '' image size=0x%x'' @ [CHR 0x0A])
      [ArgW dst, ArgW siz]) () (\<lambda>ws. ws = [])"
    by (rule gives_NOTICE) (simp add: rtos_image_def)
  have c6: "gives e (execDMA dst (i_flash ?i) siz) () (dma_copy dst (FLASH_RTOS_IMAGE_ADDR b) siz)"
    using execDMA_gives [OF assms(1) sz, of "FLASH_RTOS_IMAGE_ADDR b" dst] assms(6)
    by (simp add: rtos_image_def FLASH_RTOS_IMAGE_ADDR_def split: if_splits)
  have c7: "gives e (whenp secure (authenticate bca ?i)) () (\<lambda>ws. ws = [])"
    using authenticate_gives assms(7) gives_ret [of e "()"] by (cases secure) simp_all
  note chk = gives_seq [OF gives_ret gives_seq [OF c4 gives_seq [OF c5 gives_seq [OF c6 gives_seq [OF c7 gives_nil]]]]]
  define body where "body z a = bnd (seqs
       [whenp (z = 0 \<or> i_max ?i < z) (seqs [ERROR (i_name ?i @ '' image size error'' @ [CHR 0x0A]) [], panic]),
        check_load_area b a (i_flash ?i) z (i_range ?i),
        NOTICE (i_name ?i @ '' load address=0x%x '' @ i_name ?i @ '' image size=0x%x'' @ [CHR 0x0A]) [ArgW a, ArgW z],
        execDMA a (i_flash ?i) z, whenp secure (authenticate bca ?i)]) (\<lambda>_. ret a)" for z a
  have "gives e (body siz dst) dst (dma_copy dst (FLASH_RTOS_IMAGE_ADDR b) siz)"
    unfolding body_def c3 by (rule gives_weaken [OF gives_bnd [OF chk gives_ret]]) auto
  then have "gives e (case (siz, dst) of (z, a) \<Rightarrow> body z a) dst (dma_copy dst (FLASH_RTOS_IMAGE_ADDR b) siz)" by simp
  from gives_bnd [where f = "\<lambda>(z, a). body z a", OF c2 this]
  have all: "gives e (bnd (execDMA (i_cert ?i) (i_flash_cert ?i) FLASH_CERT_SIZE) (\<lambda>_.
      bnd (get_info_from_cert (i_cert ?i)) (\<lambda>(z, a). body z a))) dst
      (\<lambda>ws. \<exists>u v. ws = u @ v \<and> dma_copy RTOS_CERT_ADDR FLASH_RTOS_CERT_ADDR FLASH_CERT_SIZE u \<and>
        (\<exists>u v'. v = u @ v' \<and> u = [] \<and> dma_copy dst (FLASH_RTOS_IMAGE_ADDR b) siz v'))"
    by (rule gives_bnd [OF c1])
  show ?thesis
    unfolding load_image_def body_def [symmetric] by (rule gives_weaken [OF all]) auto
qed

lemma tcm_loader_run:
  assumes "boot_ready (m_dev s) (m_fuel s) clk" and "boot_mode (m_dev s) lcs md softmd" and "gicc_known s"
    and "b_kick b = MAIN_CPU_NONE" and "b_ecc b = DRAM_SRAM_ECC_DISABLE" and "b_secure_boot b"
    and "\<forall>t. d_rd32 (m_dev s) t RCAR_BOOT_KEY_CERT_NEW = magic"
    and "cert_at (m_dev s) magic RTOS_CERT_ADDR siz dst" and "siz \<noteq> 0" and "siz \<le> RTOS_MAX_SIZE"
    and "area_ok b dst (FLASH_RTOS_IMAGE_ADDR b) siz 0" and "dst AND 0xFF = 0"
    and "secure_required lcs md softmd \<longrightarrow> rom_accepts (m_dev s)"
  shows "\<exists>t pre u v post. tcm_loader_main b fd s = Done dst t \<and> writes (m_tr t) = writes (m_tr s) @ pre @ u @ v @ post \<and>
    dma_copy RTOS_CERT_ADDR FLASH_RTOS_CERT_ADDR FLASH_CERT_SIZE u \<and> dma_copy dst (FLASH_RTOS_IMAGE_ADDR b) siz v"
proof -
  let ?e = "s\<lparr>magicNumber := magic, m_tr := []\<rparr>" and ?sec = "secure_required lcs md softmd"
  define bca where "bca = (if magic = RCAR_CERT_MAGIC_NUM then 0x00000B00 else 0x00000800 :: u32)"
  define csz where "csz = (if magic = RCAR_CERT_MAGIC_NUM then 0x1100 else 0x300 :: u32)"
  let ?s1 = "s\<lparr>magicNumber := magic, m_tr := Rd32 RCAR_BOOT_KEY_CERT_NEW magic # m_tr s\<rparr>"
  have cert: "get_cert_info s = Done (bca, csz) ?s1"
    using assms(7) by (simp add: get_cert_info_def steps_simps ret_run bca_def csz_def)
  define first where "first sec = (if sec
          then seqs [NOTICE (''Secure boot(CR7)'' @ [CHR 0x0A]) [],
                     execDMA (SEC_BOOT_CERT_ADDR bca) (FLASH_BASE + bca) csz]
          else NOTICE (''Normal boot(CR7)'' @ [CHR 0x0A]) [])" for sec
  define rest where "rest sec = bnd (first sec) (\<lambda>_. bnd (load_image b sec bca (rtos_image b)) (\<lambda>a.
     bnd (start_main_cpu b sec bca) (\<lambda>ca. bnd (finish_boot b ca) (\<lambda>_. ret a))))" for sec
  have dma: "dma_finishes (m_dev ?e) (m_fuel ?e)" using assms(1) by (simp add: boot_ready_def)
  have g1: "gives ?e (seqs [ecc_init b fd, initRPC, initDMA]) () (\<lambda>_. True)"
    by (rule inits_gives [of _ clk]) (use assms(1,5) in simp_all)
  have g2: "gives ?e (secure_boot_judgement b) ?sec (\<lambda>_. True)"
  proof (rule givesI)
    fix u :: machine
    assume "m_dev u = m_dev ?e"
    then have "boot_mode (m_dev u) lcs md softmd" using assms(2) by simp
    from secure_boot_judgement_run [OF this, of b] assms(6)
    show "\<exists>t ws. secure_boot_judgement b u = Done ?sec t \<and> t = u\<lparr>m_tr := m_tr t\<rparr> \<and> writes (m_tr t) = writes (m_tr u) @ ws \<and> True"
      by auto
  qed
  have g3: "gives ?e (first ?sec) () (\<lambda>_. True)"
  proof (cases ?sec)
    case True
    have d: "gives ?e (execDMA (SEC_BOOT_CERT_ADDR bca) (FLASH_BASE + bca) csz) () (dma_copy (SEC_BOOT_CERT_ADDR bca) (FLASH_BASE + bca) csz)"
      by (rule execDMA_gives [OF dma]) (simp_all add: bca_def csz_def)
    have n: "gives ?e (NOTICE (''Secure boot(CR7)'' @ [CHR 0x0A]) []) () (\<lambda>ws. ws = [])" by (rule gives_NOTICE) simp
    show ?thesis
      unfolding first_def if_P [OF True] by (rule gives_any [OF gives_seq [OF n gives_seq [OF d gives_nil]]])
  next
    case False
    show ?thesis unfolding first_def if_not_P [OF False] by (rule gives_any [OF gives_NOTICE]) simp
  qed
  have g4: "gives ?e (load_image b ?sec bca (rtos_image b)) dst
    (\<lambda>ws. \<exists>u v. ws = u @ v \<and> dma_copy RTOS_CERT_ADDR FLASH_RTOS_CERT_ADDR FLASH_CERT_SIZE u \<and>
       dma_copy dst (FLASH_RTOS_IMAGE_ADDR b) siz v)"
    by (rule load_rtos_gives [OF dma]) (use assms(8-13) in simp_all)
  have g5: "gives ?e (start_main_cpu b ?sec bca) 0 (\<lambda>ws. ws = [])"
    using assms(4) by (simp add: start_main_cpu_def gives_ret)
  have g6: "gives ?e (finish_boot b 0) () (\<lambda>_. True)"
    by (rule finish_boot_gives [of _ clk]) (use assms(1,3,4) in \<open>simp_all add: gicc_known_def\<close>)
  have g: "gives ?e (rest ?sec) dst (\<lambda>ws. \<exists>pre u v post. ws = pre @ u @ v @ post \<and>
     dma_copy RTOS_CERT_ADDR FLASH_RTOS_CERT_ADDR FLASH_CERT_SIZE u \<and> dma_copy dst (FLASH_RTOS_IMAGE_ADDR b) siz v)"
    unfolding rest_def
    by (rule gives_weaken, rule gives_bnd, rule g3, rule gives_bnd, rule g4, rule gives_bnd, rule g5,
        rule gives_bnd, rule g6, rule gives_ret) (auto, blast)
  have g': "gives ?e (bnd (seqs [ecc_init b fd, initRPC, initDMA]) (\<lambda>_. bnd (secure_boot_judgement b) rest)) dst
     (\<lambda>ws. \<exists>pre u v post. ws = pre @ u @ v @ post \<and>
     dma_copy RTOS_CERT_ADDR FLASH_RTOS_CERT_ADDR FLASH_CERT_SIZE u \<and> dma_copy dst (FLASH_RTOS_IMAGE_ADDR b) siz v)"
    by (rule gives_weaken, rule gives_bnd, rule g1, rule gives_bnd, rule g2, rule g) (metis append.assoc)
  have eq: "tcm_loader_main b fd s = bnd (seqs [ecc_init b fd, initRPC, initDMA]) (\<lambda>_. bnd (secure_boot_judgement b) rest) ?s1"
    unfolding tcm_loader_main_def rest_def first_def if_P [OF assms(6)] by (simp only: bnd_def [of get_cert_info] cert outcome.case prod.case)
  have "gives (?s1\<lparr>m_tr := []\<rparr>) (bnd (seqs [ecc_init b fd, initRPC, initDMA]) (\<lambda>_. bnd (secure_boot_judgement b) rest)) dst
     (\<lambda>ws. \<exists>pre u v post. ws = pre @ u @ v @ post \<and>
     dma_copy RTOS_CERT_ADDR FLASH_RTOS_CERT_ADDR FLASH_CERT_SIZE u \<and> dma_copy dst (FLASH_RTOS_IMAGE_ADDR b) siz v)"
    using g' by simp
  from gives_run [OF this] obtain tr pre u v post where
    "tcm_loader_main b fd s = Done dst (?s1\<lparr>m_tr := tr\<rparr>)" "writes tr = writes (m_tr s) @ pre @ u @ v @ post"
    "dma_copy RTOS_CERT_ADDR FLASH_RTOS_CERT_ADDR FLASH_CERT_SIZE u" "dma_copy dst (FLASH_RTOS_IMAGE_ADDR b) siz v"
    unfolding eq by auto
  then show ?thesis
    by (intro exI [of _ "?s1\<lparr>m_tr := tr\<rparr>"] exI [of _ pre] exI [of _ u] exI [of _ v] exI [of _ post]) simp
qed


text \<open>
  Witness: a chip in the life cycle state SE, so that authentication is required, whose ROM accepts
  the image; the memory holds a certificate in the old format of a 4 KiB image for 0x40010000.
\<close>

definition boot_memory :: "u32 \<Rightarrow> u32" where
  "boot_memory = (\<lambda>_. 0)(0xE6302264 := 0x400, 0xE6302154 := 0x40010000, DMA_RDMCHCR := 2, RPC_CMNSR := 1)"

definition boot_device :: device where
  "boot_device = (const_device 0)
     \<lparr>d_rd32 := \<lambda>t a. if a = GLOBAL_TIMER_COUNT_L then of_nat (timer_reads t) else boot_memory a,
      d_rom := \<lambda>_ entry _. (0, LCS_SE)\<rparr>"

lemma boot_device_facts:
  "boot_ready boot_device 3000 (\<lambda>n. n)" "boot_mode boot_device LCS_SE 0 0" "rom_accepts boot_device"
  "cert_at boot_device 0 RTOS_CERT_ADDR 0x1000 0x40010000"
  "d_rd32 boot_device t RCAR_BOOT_KEY_CERT_NEW = 0"
proof -
  show "boot_ready boot_device 3000 (\<lambda>n. n)"
    by (auto simp: boot_ready_def dma_finishes_def timer_def ready_32_def boot_device_def boot_memory_def intro!: exI [of _ 0])
  show "boot_mode boot_device LCS_SE 0 0" "rom_accepts boot_device" "d_rd32 boot_device t RCAR_BOOT_KEY_CERT_NEW = 0"
    by (simp_all add: boot_mode_def rom_accepts_def boot_device_def boot_memory_def)
  show "cert_at boot_device 0 RTOS_CERT_ADDR 0x1000 0x40010000"
    unfolding cert_at_def by (intro exI [of _ 0] exI [of _ "0x400"]) (simp add: cert_class_def boot_device_def boot_memory_def)
qed


lemma boot_device_boots:
  "\<exists>t. tcm_loader_main build_m3n 0 (boot_machine boot_device 3000) = Done 0x40010000 t"
proof -
  let ?s = "boot_machine boot_device 3000"
  have s: "m_dev ?s = boot_device" "m_fuel ?s = 3000" "gicc_known ?s"
    by (simp_all add: boot_machine_def gicc_known_def)
  have b: "b_kick build_m3n = MAIN_CPU_NONE" "b_ecc build_m3n = DRAM_SRAM_ECC_DISABLE" "b_secure_boot build_m3n"
    by (simp_all add: build_m3n_def)
  have "area_ok build_m3n 0x40010000 (FLASH_RTOS_IMAGE_ADDR build_m3n) 0x1000 0"
    by (simp add: area_ok_def add_list_def FLASH_RTOS_IMAGE_ADDR_def build_m3n_def)
  then show ?thesis
    using tcm_loader_run [where s = ?s and b = build_m3n and magic = 0 and siz = "0x1000" and dst = "0x40010000" and fd = 0,
      OF _ _ s(3) b] boot_device_facts
    unfolding s by fastforce
qed

text \<open>Witness of the safety property on the same chip: a run that returns exists, and it was verified.\<close>

theorem secure_boot_witness:
  "\<exists>t bca post rtos pre. tcm_loader_main build_m3n 0 (boot_machine boot_device 3000) = Done 0x40010000 t \<and>
     m_tr t = post @ rtos @ pre \<and> verified bca (rtos_image build_m3n) 0x40010000 rtos \<and> list_all no_load post"
proof -
  let ?s = "boot_machine boot_device 3000"
  obtain t where t: "tcm_loader_main build_m3n 0 ?s = Done 0x40010000 t" using boot_device_boots by blast
  have h: "gicc_known ?s" "boot_mode (m_dev ?s) LCS_SE 0 0" "b_secure_boot build_m3n" "secure_required LCS_SE 0 0"
    using boot_device_facts(2) by (simp_all add: boot_machine_def gicc_known_def build_m3n_def secure_required_def)
  have k: "b_kick build_m3n = MAIN_CPU_NONE" by (simp add: build_m3n_def)
  from secure_boot_verified [OF h t] obtain bca post rtos pre where
    v: "m_tr t = post @ rtos @ pre" "verified bca (rtos_image build_m3n) 0x40010000 rtos" "list_all no_load post"
    unfolding if_P [OF k] by blast
  show ?thesis by (intro exI [of _ t] exI [of _ bca] exI [of _ post] exI [of _ rtos] exI [of _ pre] conjI t v)
qed

end
