(* ===== verification/Pfc.thy ===== *)
theory Pfc
  imports Cpg
begin

text \<open>
  The pin function controller, \<^verbatim>\<open>CortexR7_Loader/pfc\<close>: what the five chip files share. A PFC
  register is writable only right after its complement was written to \<^verbatim>\<open>PMMR\<close>. The chip files
  write every register through their static \<^verbatim>\<open>pfc_reg_write\<close>; the locale \<open>pfc_writer\<close> is
  that function's contract, and a \<open>script\<close> lists what a chip's routine writes.

  The value of a register is an or of field macros, each \<^verbatim>\<open>value << shift\<close>; \<open>fields\<close> lists
  them, in the order of the source, as pairs of shift and value.
\<close>

abbreviation PFC_PMMR :: u32 where "PFC_PMMR \<equiv> 0xE6060000"
abbreviation GPIO_INOUTSEL0 :: u32 where "GPIO_INOUTSEL0 \<equiv> 0xE6050004"
abbreviation GPIO_INOUTSEL1 :: u32 where "GPIO_INOUTSEL1 \<equiv> 0xE6051004"
abbreviation GPIO_INOUTSEL2 :: u32 where "GPIO_INOUTSEL2 \<equiv> 0xE6052004"
abbreviation GPIO_INOUTSEL3 :: u32 where "GPIO_INOUTSEL3 \<equiv> 0xE6053004"
abbreviation GPIO_INOUTSEL4 :: u32 where "GPIO_INOUTSEL4 \<equiv> 0xE6054004"
abbreviation GPIO_INOUTSEL5 :: u32 where "GPIO_INOUTSEL5 \<equiv> 0xE6055004"
abbreviation GPIO_INOUTSEL6 :: u32 where "GPIO_INOUTSEL6 \<equiv> 0xE6055404"
abbreviation GPIO_INOUTSEL7 :: u32 where "GPIO_INOUTSEL7 \<equiv> 0xE6055804"
abbreviation GPIO_IOINTSEL0 :: u32 where "GPIO_IOINTSEL0 \<equiv> 0xE6050000"
abbreviation GPIO_IOINTSEL1 :: u32 where "GPIO_IOINTSEL1 \<equiv> 0xE6051000"
abbreviation GPIO_IOINTSEL2 :: u32 where "GPIO_IOINTSEL2 \<equiv> 0xE6052000"
abbreviation GPIO_IOINTSEL3 :: u32 where "GPIO_IOINTSEL3 \<equiv> 0xE6053000"
abbreviation GPIO_IOINTSEL4 :: u32 where "GPIO_IOINTSEL4 \<equiv> 0xE6054000"
abbreviation GPIO_IOINTSEL5 :: u32 where "GPIO_IOINTSEL5 \<equiv> 0xE6055000"
abbreviation GPIO_IOINTSEL6 :: u32 where "GPIO_IOINTSEL6 \<equiv> 0xE6055400"
abbreviation GPIO_IOINTSEL7 :: u32 where "GPIO_IOINTSEL7 \<equiv> 0xE6055800"
abbreviation GPIO_OUTDT0 :: u32 where "GPIO_OUTDT0 \<equiv> 0xE6050008"
abbreviation GPIO_OUTDT1 :: u32 where "GPIO_OUTDT1 \<equiv> 0xE6051008"
abbreviation GPIO_OUTDT2 :: u32 where "GPIO_OUTDT2 \<equiv> 0xE6052008"
abbreviation GPIO_OUTDT3 :: u32 where "GPIO_OUTDT3 \<equiv> 0xE6053008"
abbreviation GPIO_OUTDT5 :: u32 where "GPIO_OUTDT5 \<equiv> 0xE6055008"
abbreviation GPIO_OUTDT6 :: u32 where "GPIO_OUTDT6 \<equiv> 0xE6055408"
abbreviation GPIO_POSNEG0 :: u32 where "GPIO_POSNEG0 \<equiv> 0xE6050020"
abbreviation GPIO_POSNEG1 :: u32 where "GPIO_POSNEG1 \<equiv> 0xE6051020"
abbreviation GPIO_POSNEG2 :: u32 where "GPIO_POSNEG2 \<equiv> 0xE6052020"
abbreviation GPIO_POSNEG3 :: u32 where "GPIO_POSNEG3 \<equiv> 0xE6053020"
abbreviation GPIO_POSNEG4 :: u32 where "GPIO_POSNEG4 \<equiv> 0xE6054020"
abbreviation GPIO_POSNEG5 :: u32 where "GPIO_POSNEG5 \<equiv> 0xE6055020"
abbreviation GPIO_POSNEG6 :: u32 where "GPIO_POSNEG6 \<equiv> 0xE6055420"
abbreviation GPIO_POSNEG7 :: u32 where "GPIO_POSNEG7 \<equiv> 0xE6055820"
abbreviation PFC_DRVCTRL0 :: u32 where "PFC_DRVCTRL0 \<equiv> 0xE6060300"
abbreviation PFC_DRVCTRL1 :: u32 where "PFC_DRVCTRL1 \<equiv> 0xE6060304"
abbreviation PFC_DRVCTRL2 :: u32 where "PFC_DRVCTRL2 \<equiv> 0xE6060308"
abbreviation PFC_DRVCTRL3 :: u32 where "PFC_DRVCTRL3 \<equiv> 0xE606030C"
abbreviation PFC_DRVCTRL4 :: u32 where "PFC_DRVCTRL4 \<equiv> 0xE6060310"
abbreviation PFC_DRVCTRL5 :: u32 where "PFC_DRVCTRL5 \<equiv> 0xE6060314"
abbreviation PFC_DRVCTRL6 :: u32 where "PFC_DRVCTRL6 \<equiv> 0xE6060318"
abbreviation PFC_DRVCTRL7 :: u32 where "PFC_DRVCTRL7 \<equiv> 0xE606031C"
abbreviation PFC_DRVCTRL8 :: u32 where "PFC_DRVCTRL8 \<equiv> 0xE6060320"
abbreviation PFC_DRVCTRL9 :: u32 where "PFC_DRVCTRL9 \<equiv> 0xE6060324"
abbreviation PFC_DRVCTRL10 :: u32 where "PFC_DRVCTRL10 \<equiv> 0xE6060328"
abbreviation PFC_DRVCTRL11 :: u32 where "PFC_DRVCTRL11 \<equiv> 0xE606032C"
abbreviation PFC_DRVCTRL12 :: u32 where "PFC_DRVCTRL12 \<equiv> 0xE6060330"
abbreviation PFC_DRVCTRL13 :: u32 where "PFC_DRVCTRL13 \<equiv> 0xE6060334"
abbreviation PFC_DRVCTRL14 :: u32 where "PFC_DRVCTRL14 \<equiv> 0xE6060338"
abbreviation PFC_DRVCTRL15 :: u32 where "PFC_DRVCTRL15 \<equiv> 0xE606033C"
abbreviation PFC_DRVCTRL16 :: u32 where "PFC_DRVCTRL16 \<equiv> 0xE6060340"
abbreviation PFC_DRVCTRL17 :: u32 where "PFC_DRVCTRL17 \<equiv> 0xE6060344"
abbreviation PFC_DRVCTRL18 :: u32 where "PFC_DRVCTRL18 \<equiv> 0xE6060348"
abbreviation PFC_DRVCTRL19 :: u32 where "PFC_DRVCTRL19 \<equiv> 0xE606034C"
abbreviation PFC_DRVCTRL20 :: u32 where "PFC_DRVCTRL20 \<equiv> 0xE6060350"
abbreviation PFC_DRVCTRL21 :: u32 where "PFC_DRVCTRL21 \<equiv> 0xE6060354"
abbreviation PFC_DRVCTRL22 :: u32 where "PFC_DRVCTRL22 \<equiv> 0xE6060358"
abbreviation PFC_DRVCTRL23 :: u32 where "PFC_DRVCTRL23 \<equiv> 0xE606035C"
abbreviation PFC_DRVCTRL24 :: u32 where "PFC_DRVCTRL24 \<equiv> 0xE6060360"
abbreviation PFC_GPSR0 :: u32 where "PFC_GPSR0 \<equiv> 0xE6060100"
abbreviation PFC_GPSR1 :: u32 where "PFC_GPSR1 \<equiv> 0xE6060104"
abbreviation PFC_GPSR2 :: u32 where "PFC_GPSR2 \<equiv> 0xE6060108"
abbreviation PFC_GPSR3 :: u32 where "PFC_GPSR3 \<equiv> 0xE606010C"
abbreviation PFC_GPSR4 :: u32 where "PFC_GPSR4 \<equiv> 0xE6060110"
abbreviation PFC_GPSR5 :: u32 where "PFC_GPSR5 \<equiv> 0xE6060114"
abbreviation PFC_GPSR6 :: u32 where "PFC_GPSR6 \<equiv> 0xE6060118"
abbreviation PFC_GPSR7 :: u32 where "PFC_GPSR7 \<equiv> 0xE606011C"
abbreviation PFC_IPSR0 :: u32 where "PFC_IPSR0 \<equiv> 0xE6060200"
abbreviation PFC_IPSR1 :: u32 where "PFC_IPSR1 \<equiv> 0xE6060204"
abbreviation PFC_IPSR2 :: u32 where "PFC_IPSR2 \<equiv> 0xE6060208"
abbreviation PFC_IPSR3 :: u32 where "PFC_IPSR3 \<equiv> 0xE606020C"
abbreviation PFC_IPSR4 :: u32 where "PFC_IPSR4 \<equiv> 0xE6060210"
abbreviation PFC_IPSR5 :: u32 where "PFC_IPSR5 \<equiv> 0xE6060214"
abbreviation PFC_IPSR6 :: u32 where "PFC_IPSR6 \<equiv> 0xE6060218"
abbreviation PFC_IPSR7 :: u32 where "PFC_IPSR7 \<equiv> 0xE606021C"
abbreviation PFC_IPSR8 :: u32 where "PFC_IPSR8 \<equiv> 0xE6060220"
abbreviation PFC_IPSR9 :: u32 where "PFC_IPSR9 \<equiv> 0xE6060224"
abbreviation PFC_IPSR10 :: u32 where "PFC_IPSR10 \<equiv> 0xE6060228"
abbreviation PFC_IPSR11 :: u32 where "PFC_IPSR11 \<equiv> 0xE606022C"
abbreviation PFC_IPSR12 :: u32 where "PFC_IPSR12 \<equiv> 0xE6060230"
abbreviation PFC_IPSR13 :: u32 where "PFC_IPSR13 \<equiv> 0xE6060234"
abbreviation PFC_IPSR14 :: u32 where "PFC_IPSR14 \<equiv> 0xE6060238"
abbreviation PFC_IPSR15 :: u32 where "PFC_IPSR15 \<equiv> 0xE606023C"
abbreviation PFC_IPSR16 :: u32 where "PFC_IPSR16 \<equiv> 0xE6060240"
abbreviation PFC_IPSR17 :: u32 where "PFC_IPSR17 \<equiv> 0xE6060244"
abbreviation PFC_IPSR18 :: u32 where "PFC_IPSR18 \<equiv> 0xE6060248"
abbreviation PFC_MOD_SEL0 :: u32 where "PFC_MOD_SEL0 \<equiv> 0xE6060500"
abbreviation PFC_MOD_SEL1 :: u32 where "PFC_MOD_SEL1 \<equiv> 0xE6060504"
abbreviation PFC_MOD_SEL2 :: u32 where "PFC_MOD_SEL2 \<equiv> 0xE6060508"
abbreviation PFC_POCCTRL0 :: u32 where "PFC_POCCTRL0 \<equiv> 0xE6060380"
abbreviation PFC_POCCTRL2 :: u32 where "PFC_POCCTRL2 \<equiv> 0xE6060388"
abbreviation PFC_PUD0 :: u32 where "PFC_PUD0 \<equiv> 0xE6060440"
abbreviation PFC_PUD1 :: u32 where "PFC_PUD1 \<equiv> 0xE6060444"
abbreviation PFC_PUD2 :: u32 where "PFC_PUD2 \<equiv> 0xE6060448"
abbreviation PFC_PUD3 :: u32 where "PFC_PUD3 \<equiv> 0xE606044C"
abbreviation PFC_PUD4 :: u32 where "PFC_PUD4 \<equiv> 0xE6060450"
abbreviation PFC_PUD5 :: u32 where "PFC_PUD5 \<equiv> 0xE6060454"
abbreviation PFC_PUD6 :: u32 where "PFC_PUD6 \<equiv> 0xE6060458"
abbreviation PFC_PUEN0 :: u32 where "PFC_PUEN0 \<equiv> 0xE6060400"
abbreviation PFC_PUEN1 :: u32 where "PFC_PUEN1 \<equiv> 0xE6060404"
abbreviation PFC_PUEN2 :: u32 where "PFC_PUEN2 \<equiv> 0xE6060408"
abbreviation PFC_PUEN3 :: u32 where "PFC_PUEN3 \<equiv> 0xE606040C"
abbreviation PFC_PUEN4 :: u32 where "PFC_PUEN4 \<equiv> 0xE6060410"
abbreviation PFC_PUEN5 :: u32 where "PFC_PUEN5 \<equiv> 0xE6060414"
abbreviation PFC_PUEN6 :: u32 where "PFC_PUEN6 \<equiv> 0xE6060418"

text \<open>The value of an or of field macros.\<close>

fun fields :: "(nat \<times> u32) list \<Rightarrow> u32" where
  "fields [] = 0"
| "fields ((shift, value) # fs) = push_bit shift value OR fields fs"

definition pfc_reg_write :: "u32 \<Rightarrow> u32 \<Rightarrow> unit prog" where
  "pfc_reg_write addr data = seqs [mmio_write_32 PFC_PMMR (NOT data), mmio_write_32 addr data]"

text \<open>Reading a register, keeping the bits of a mask and setting fields.\<close>

definition pfc_modify :: "(u32 \<Rightarrow> u32 \<Rightarrow> unit prog) \<Rightarrow> u32 \<Rightarrow> u32 \<Rightarrow> (nat \<times> u32) list \<Rightarrow> unit prog" where
  "pfc_modify regw addr msk fs =
     bnd (mmio_read_32 addr) (\<lambda>reg. regw addr ((reg AND msk) OR fields fs))"

section \<open>Hardware that drops locked writes\<close>

definition pfc_locked :: "u32 \<Rightarrow> bool" where
  "pfc_locked a \<longleftrightarrow> a AND 0xFFFF0000 = 0xE6060000 \<and> a \<noteq> PFC_PMMR"

text \<open>
  One write on such hardware; the state is the register file and the write before. A write to a
  locked register is lost unless the write before gave its complement to \<^verbatim>\<open>PMMR\<close>.
\<close>

type_synonym pfc_hw = "(u32 \<Rightarrow> u32) \<times> (u32 \<times> u32) option"

fun hw_write :: "u32 \<times> u32 \<Rightarrow> pfc_hw \<Rightarrow> pfc_hw" where
  "hw_write (a, v) (m, prev) =
     (if pfc_locked a \<and> prev \<noteq> Some (PFC_PMMR, NOT v) then m else m(a := v), Some (a, v))"

fun guarded :: "(u32 \<times> u32) option \<Rightarrow> (u32 \<times> u32) list \<Rightarrow> bool" where
  "guarded prev [] \<longleftrightarrow> True"
| "guarded prev ((a, v) # ws) \<longleftrightarrow>
     (pfc_locked a \<longrightarrow> prev = Some (PFC_PMMR, NOT v)) \<and> guarded (Some (a, v)) ws"

lemma guarded_any: "guarded None ws \<Longrightarrow> guarded prev ws"
  by (cases ws) auto

lemma guarded_append: "guarded prev xs \<Longrightarrow> guarded None ys \<Longrightarrow> guarded prev (xs @ ys)"
  by (induction prev xs rule: guarded.induct) (auto intro: guarded_any)

text \<open>Guarded writes have the effect they would have on plain memory.\<close>

definition plain :: "(u32 \<times> u32) list \<Rightarrow> (u32 \<Rightarrow> u32) \<Rightarrow> (u32 \<Rightarrow> u32)" where
  "plain ws m = fold (\<lambda>(a, v) m. m(a := v)) ws m"

lemma guarded_effect: "guarded prev ws \<Longrightarrow> fst (fold hw_write ws (m, prev)) = plain ws m"
  unfolding plain_def
proof (induction prev ws arbitrary: m rule: guarded.induct)
  case (2 prev a v ws)
  then have "hw_write (a, v) (m, prev) = (m(a := v), Some (a, v))" by auto
  with 2 show ?case by (simp add: fun_upd_def)
qed simp

lemma plain_lookup: "plain ws m a = (case map_of (rev ws) a of None \<Rightarrow> m a | Some v \<Rightarrow> v)"
  unfolding plain_def by (induction ws arbitrary: m) (auto simp: map_add_def split: option.split)

section \<open>Scripts\<close>

text \<open>
  A script lists the registers that a routine writes, in order, and the values that do not depend
  on what the hardware answers (\<open>None\<close> stands for a value that does).
\<close>

type_synonym script = "(u32 \<times> u32 option) list"

definition matches :: "script \<Rightarrow> (u32 \<times> u32) list \<Rightarrow> bool" where
  "matches = list_all2 (\<lambda>(a, x) (b, v). a = b \<and> (x = None \<or> x = Some v))"

fun with_unlock :: "u32 \<times> u32 \<Rightarrow> (u32 \<times> u32) list" where
  "with_unlock (a, v) = (if pfc_locked a then [(PFC_PMMR, NOT v), (a, v)] else [(a, v)])"

definition emits :: "unit prog \<Rightarrow> script \<Rightarrow> bool" where
  "emits p sc \<longleftrightarrow> (\<forall>s. \<exists>xs ws. p s = Done () (grown xs s) \<and> matches sc ws \<and>
     writes xs = concat (map with_unlock ws))"

lemma emitsI:
  assumes "\<And>s. \<exists>xs ws. p s = Done () (grown xs s) \<and> matches sc ws \<and>
     writes xs = concat (map with_unlock ws)"
  shows "emits p sc"
  using assms by (simp add: emits_def)

lemma emitsE:
  assumes "emits p sc"
  obtains xs ws where "p s = Done () (grown xs s)" "matches sc ws" "writes xs = concat (map with_unlock ws)"
  using assms [unfolded emits_def, rule_format, of s] by (elim exE conjE) (rule that)

lemma emits_nil: "emits (seqs []) []"
  by (rule emitsI, rule exI [of _ "[]"], rule exI [of _ "[]"]) (simp add: matches_def ret_def)

lemma emits_append:
  assumes "emits p xs" and "emits q ys"
  shows "emits (bnd p (\<lambda>_. q)) (xs @ ys)"
proof (rule emitsI)
  fix s
  obtain h ws where 1: "p s = Done () (grown h s)" "matches xs ws" "writes h = concat (map with_unlock ws)"
    using assms(1) by (rule emitsE)
  obtain k vs where 2: "q (grown h s) = Done () (grown k (grown h s))" "matches ys vs"
      "writes k = concat (map with_unlock vs)"
    using assms(2) by (rule emitsE)
  from 1 2 show "\<exists>h ws. bnd p (\<lambda>_. q) s = Done () (grown h s) \<and> matches (xs @ ys) ws \<and>
      writes h = concat (map with_unlock ws)"
    by (intro exI [of _ "k @ h"] exI [of _ "ws @ vs"])
      (simp add: bnd_def matches_def list_all2_appendI)
qed

lemma emits_seqs: "emits p xs \<Longrightarrow> emits (seqs ps) ys \<Longrightarrow> emits (seqs (p # ps)) (xs @ ys)"
  using emits_append [of p xs "seqs ps" ys] by simp

lemma emits_write: "\<not> pfc_locked a \<Longrightarrow> emits (mmio_write_32 a v) [(a, Some v)]"
  by (rule emitsI, rule exI [of _ "[Wr32 a v]"], rule exI [of _ "[(a, v)]"]) (simp add: write_32_run matches_def)

lemma emits_write_16: "emits (mmio_write_16 a h) []"
  by (rule emitsI, rule exI [of _ "[Wr16 a h]"], rule exI [of _ "[]"]) (simp add: mmio_write_16_def emit_run matches_def)

text \<open>The contract of \<^verbatim>\<open>pfc_reg_write\<close> and what the chip routines get from it.\<close>

locale pfc_writer =
  fixes regw :: "u32 \<Rightarrow> u32 \<Rightarrow> unit prog"
  assumes regw_pair: "\<exists>xs. regw a v s = Done () (grown xs s) \<and> writes xs = [(PFC_PMMR, NOT v), (a, v)]"
begin

lemma emits_regw:
  assumes "pfc_locked a"
  shows "emits (regw a v) [(a, Some v)]"
proof (rule emitsI)
  fix s
  from regw_pair [of a v s] assms
  show "\<exists>xs ws. regw a v s = Done () (grown xs s) \<and> matches [(a, Some v)] ws \<and>
      writes xs = concat (map with_unlock ws)"
    by (auto simp: matches_def intro!: exI [of _ "[(a, v)]"])
qed

lemma emits_modify:
  assumes "pfc_locked a"
  shows "emits (pfc_modify regw a msk fs) [(a, None)]"
proof (rule emitsI)
  fix s :: machine
  let ?r = "d_rd32 (m_dev s) (m_tr s) a"
  let ?v = "(?r AND msk) OR fields fs"
  obtain xs where "regw a ?v (grown [Rd32 a ?r] s) = Done () (grown xs (grown [Rd32 a ?r] s))"
      "writes xs = [(PFC_PMMR, NOT ?v), (a, ?v)]"
    using regw_pair by blast
  with assms show "\<exists>xs ws. pfc_modify regw a msk fs s = Done () (grown xs s) \<and> matches [(a, None)] ws \<and>
      writes xs = concat (map with_unlock ws)"
    by (intro exI [of _ "xs @ [Rd32 a ?r]"] exI [of _ "[(a, ?v)]"])
      (simp add: pfc_modify_def bnd_read_32 matches_def)
qed

end

interpretation pfc: pfc_writer pfc_reg_write
proof
  fix a v s
  show "\<exists>xs. pfc_reg_write a v s = Done () (grown xs s) \<and> writes xs = [(PFC_PMMR, NOT v), (a, v)]"
    by (rule exI [of _ "[Wr32 a v, Wr32 PFC_PMMR (NOT v)]"]) (simp add: pfc_reg_write_def run_simps)
qed

lemma guarded_unlock: "guarded None (concat (map with_unlock ws))"
proof (induction ws)
  case (Cons w ws)
  obtain a v where "w = (a, v)" by (cases w)
  then have "guarded None (with_unlock w)" by (simp add: pfc_locked_def)
  with Cons show ?case by (simp add: guarded_append)
qed simp

text \<open>The last value of a register that a script fixes.\<close>

lemma matches_Cons: "matches ((a, x) # sc) ws \<longleftrightarrow>
    (\<exists>v vs. ws = (a, v) # vs \<and> (x = None \<or> x = Some v) \<and> matches sc vs)"
  by (auto simp: matches_def list_all2_Cons1)

lemma matches_map_of: "matches sc ws \<Longrightarrow> map_of sc a = Some (Some v) \<Longrightarrow> map_of ws a = Some v"
  unfolding matches_def
  by (induction sc ws rule: list_all2_induct) (auto split: if_splits)

lemma matches_rev: "matches sc ws \<Longrightarrow> matches (rev sc) (rev ws)"
  by (simp add: matches_def)

lemmas matches_lookup = matches_map_of [OF matches_rev]

lemma unlock_lookup:
  "a \<noteq> PFC_PMMR \<Longrightarrow> map_of (rev (concat (map with_unlock ws))) a = map_of (rev ws) a"
  by (induction ws) (auto simp: map_add_def split: option.split)

lemma script_value:
  assumes "matches sc ws" and "a \<noteq> PFC_PMMR" and "map_of (rev sc) a = Some (Some v)"
  shows "plain (concat (map with_unlock ws)) m a = v"
  using assms by (simp add: plain_lookup unlock_lookup matches_lookup)

lemma matches_addresses: "matches sc ws \<Longrightarrow> map fst ws = map fst sc"
  unfolding matches_def by (induction sc ws rule: list_all2_induct) auto

section \<open>Pins\<close>

text \<open>
  The groups of pins: a one in \<^verbatim>\<open>GPSR\<close> gives the pin to a peripheral, a one in
  \<^verbatim>\<open>INOUTSEL\<close> drives it as a general output with the level of \<^verbatim>\<open>OUTDT\<close>.
\<close>

definition gpsr_regs :: "u32 list" where
  "gpsr_regs = [PFC_GPSR0, PFC_GPSR1, PFC_GPSR2, PFC_GPSR3, PFC_GPSR4, PFC_GPSR5, PFC_GPSR6, PFC_GPSR7]"

definition inoutsel_regs :: "u32 list" where
  "inoutsel_regs = [GPIO_INOUTSEL0, GPIO_INOUTSEL1, GPIO_INOUTSEL2, GPIO_INOUTSEL3, GPIO_INOUTSEL4,
     GPIO_INOUTSEL5, GPIO_INOUTSEL6, GPIO_INOUTSEL7]"

definition outdt_regs :: "u32 list" where
  "outdt_regs = [GPIO_OUTDT0, GPIO_OUTDT1, GPIO_OUTDT2, GPIO_OUTDT3, GPIO_OUTDT5, GPIO_OUTDT6]"

datatype pin_role = Function | Direction | Level | Other

definition role :: "u32 \<Rightarrow> pin_role" where
  "role a = (if a \<in> set gpsr_regs then Function else if a \<in> set inoutsel_regs then Direction
     else if a \<in> set outdt_regs then Level else Other)"

text \<open>The pins that a script gives to a peripheral and also makes general outputs, per group.\<close>

definition pin_settings :: "script \<Rightarrow> script" where
  "pin_settings = filter (\<lambda>(a, _). role a = Function \<or> role a = Direction)"

fun claimed :: "u32 option option \<Rightarrow> u32 option option \<Rightarrow> u32 option" where
  "claimed (Some (Some g)) (Some (Some i)) = Some (g AND i)"
| "claimed g i = None"

definition doubly_used :: "script \<Rightarrow> u32 option list" where
  "doubly_used sc = (let r = rev (pin_settings sc) in
     map (\<lambda>(g, i). claimed (map_of r g) (map_of r i)) (zip gpsr_regs inoutsel_regs))"

text \<open>A chip with \<open>n\<close> groups that shares the pins \<open>pins\<close> of the group \<open>g\<close> only.\<close>

definition shared_pins :: "nat \<Rightarrow> nat \<Rightarrow> u32 \<Rightarrow> u32 option list" where
  "shared_pins n g pins = map (\<lambda>i. if i < n then Some (if i = g then pins else 0) else None) [0..<8]"

text \<open>No level is written after a direction.\<close>

fun levels_first :: "u32 list \<Rightarrow> bool" where
  "levels_first [] \<longleftrightarrow> True"
| "levels_first (a # as) \<longleftrightarrow>
     (if role a = Direction then list_all (\<lambda>b. role b \<noteq> Level) as else levels_first as)"

text \<open>Facts on each register, so that the scripts need no arithmetic on addresses.\<close>

lemma role_regs:
  "role GPIO_INOUTSEL0 = Direction" "role GPIO_INOUTSEL1 = Direction"
  "role GPIO_INOUTSEL2 = Direction" "role GPIO_INOUTSEL3 = Direction"
  "role GPIO_INOUTSEL4 = Direction" "role GPIO_INOUTSEL5 = Direction"
  "role GPIO_INOUTSEL6 = Direction" "role GPIO_INOUTSEL7 = Direction" "role GPIO_IOINTSEL0 = Other"
  "role GPIO_IOINTSEL1 = Other" "role GPIO_IOINTSEL2 = Other" "role GPIO_IOINTSEL3 = Other"
  "role GPIO_IOINTSEL4 = Other" "role GPIO_IOINTSEL5 = Other" "role GPIO_IOINTSEL6 = Other"
  "role GPIO_IOINTSEL7 = Other" "role GPIO_OUTDT0 = Level" "role GPIO_OUTDT1 = Level"
  "role GPIO_OUTDT2 = Level" "role GPIO_OUTDT3 = Level" "role GPIO_OUTDT5 = Level"
  "role GPIO_OUTDT6 = Level" "role GPIO_POSNEG0 = Other" "role GPIO_POSNEG1 = Other"
  "role GPIO_POSNEG2 = Other" "role GPIO_POSNEG3 = Other" "role GPIO_POSNEG4 = Other"
  "role GPIO_POSNEG5 = Other" "role GPIO_POSNEG6 = Other" "role GPIO_POSNEG7 = Other"
  "role PFC_DRVCTRL0 = Other" "role PFC_DRVCTRL1 = Other" "role PFC_DRVCTRL2 = Other"
  "role PFC_DRVCTRL3 = Other" "role PFC_DRVCTRL4 = Other" "role PFC_DRVCTRL5 = Other"
  "role PFC_DRVCTRL6 = Other" "role PFC_DRVCTRL7 = Other" "role PFC_DRVCTRL8 = Other"
  "role PFC_DRVCTRL9 = Other" "role PFC_DRVCTRL10 = Other" "role PFC_DRVCTRL11 = Other"
  "role PFC_DRVCTRL12 = Other" "role PFC_DRVCTRL13 = Other" "role PFC_DRVCTRL14 = Other"
  "role PFC_DRVCTRL15 = Other" "role PFC_DRVCTRL16 = Other" "role PFC_DRVCTRL17 = Other"
  "role PFC_DRVCTRL18 = Other" "role PFC_DRVCTRL19 = Other" "role PFC_DRVCTRL20 = Other"
  "role PFC_DRVCTRL21 = Other" "role PFC_DRVCTRL22 = Other" "role PFC_DRVCTRL23 = Other"
  "role PFC_DRVCTRL24 = Other" "role PFC_GPSR0 = Function" "role PFC_GPSR1 = Function"
  "role PFC_GPSR2 = Function" "role PFC_GPSR3 = Function" "role PFC_GPSR4 = Function"
  "role PFC_GPSR5 = Function" "role PFC_GPSR6 = Function" "role PFC_GPSR7 = Function"
  "role PFC_IPSR0 = Other" "role PFC_IPSR1 = Other" "role PFC_IPSR2 = Other"
  "role PFC_IPSR3 = Other" "role PFC_IPSR4 = Other" "role PFC_IPSR5 = Other"
  "role PFC_IPSR6 = Other" "role PFC_IPSR7 = Other" "role PFC_IPSR8 = Other"
  "role PFC_IPSR9 = Other" "role PFC_IPSR10 = Other" "role PFC_IPSR11 = Other"
  "role PFC_IPSR12 = Other" "role PFC_IPSR13 = Other" "role PFC_IPSR14 = Other"
  "role PFC_IPSR15 = Other" "role PFC_IPSR16 = Other" "role PFC_IPSR17 = Other"
  "role PFC_IPSR18 = Other" "role PFC_MOD_SEL0 = Other" "role PFC_MOD_SEL1 = Other"
  "role PFC_MOD_SEL2 = Other" "role PFC_POCCTRL0 = Other" "role PFC_POCCTRL2 = Other"
  "role PFC_PUD0 = Other" "role PFC_PUD1 = Other" "role PFC_PUD2 = Other" "role PFC_PUD3 = Other"
  "role PFC_PUD4 = Other" "role PFC_PUD5 = Other" "role PFC_PUD6 = Other" "role PFC_PUEN0 = Other"
  "role PFC_PUEN1 = Other" "role PFC_PUEN2 = Other" "role PFC_PUEN3 = Other"
  "role PFC_PUEN4 = Other" "role PFC_PUEN5 = Other" "role PFC_PUEN6 = Other"
  by (simp_all add: role_def gpsr_regs_def inoutsel_regs_def outdt_regs_def)

lemma pfc_locked_regs:
  "pfc_locked PFC_DRVCTRL0" "pfc_locked PFC_DRVCTRL1" "pfc_locked PFC_DRVCTRL2"
  "pfc_locked PFC_DRVCTRL3" "pfc_locked PFC_DRVCTRL4" "pfc_locked PFC_DRVCTRL5"
  "pfc_locked PFC_DRVCTRL6" "pfc_locked PFC_DRVCTRL7" "pfc_locked PFC_DRVCTRL8"
  "pfc_locked PFC_DRVCTRL9" "pfc_locked PFC_DRVCTRL10" "pfc_locked PFC_DRVCTRL11"
  "pfc_locked PFC_DRVCTRL12" "pfc_locked PFC_DRVCTRL13" "pfc_locked PFC_DRVCTRL14"
  "pfc_locked PFC_DRVCTRL15" "pfc_locked PFC_DRVCTRL16" "pfc_locked PFC_DRVCTRL17"
  "pfc_locked PFC_DRVCTRL18" "pfc_locked PFC_DRVCTRL19" "pfc_locked PFC_DRVCTRL20"
  "pfc_locked PFC_DRVCTRL21" "pfc_locked PFC_DRVCTRL22" "pfc_locked PFC_DRVCTRL23"
  "pfc_locked PFC_DRVCTRL24" "pfc_locked PFC_GPSR0" "pfc_locked PFC_GPSR1" "pfc_locked PFC_GPSR2"
  "pfc_locked PFC_GPSR3" "pfc_locked PFC_GPSR4" "pfc_locked PFC_GPSR5" "pfc_locked PFC_GPSR6"
  "pfc_locked PFC_GPSR7" "pfc_locked PFC_IPSR0" "pfc_locked PFC_IPSR1" "pfc_locked PFC_IPSR2"
  "pfc_locked PFC_IPSR3" "pfc_locked PFC_IPSR4" "pfc_locked PFC_IPSR5" "pfc_locked PFC_IPSR6"
  "pfc_locked PFC_IPSR7" "pfc_locked PFC_IPSR8" "pfc_locked PFC_IPSR9" "pfc_locked PFC_IPSR10"
  "pfc_locked PFC_IPSR11" "pfc_locked PFC_IPSR12" "pfc_locked PFC_IPSR13" "pfc_locked PFC_IPSR14"
  "pfc_locked PFC_IPSR15" "pfc_locked PFC_IPSR16" "pfc_locked PFC_IPSR17" "pfc_locked PFC_IPSR18"
  "pfc_locked PFC_MOD_SEL0" "pfc_locked PFC_MOD_SEL1" "pfc_locked PFC_MOD_SEL2"
  "pfc_locked PFC_POCCTRL0" "pfc_locked PFC_POCCTRL2" "pfc_locked PFC_PUD0" "pfc_locked PFC_PUD1"
  "pfc_locked PFC_PUD2" "pfc_locked PFC_PUD3" "pfc_locked PFC_PUD4" "pfc_locked PFC_PUD5"
  "pfc_locked PFC_PUD6" "pfc_locked PFC_PUEN0" "pfc_locked PFC_PUEN1" "pfc_locked PFC_PUEN2"
  "pfc_locked PFC_PUEN3" "pfc_locked PFC_PUEN4" "pfc_locked PFC_PUEN5" "pfc_locked PFC_PUEN6"
  by (simp_all add: pfc_locked_def)

lemma gpio_unlocked_regs:
  "\<not> pfc_locked GPIO_INOUTSEL0" "\<not> pfc_locked GPIO_INOUTSEL1"
  "\<not> pfc_locked GPIO_INOUTSEL2" "\<not> pfc_locked GPIO_INOUTSEL3"
  "\<not> pfc_locked GPIO_INOUTSEL4" "\<not> pfc_locked GPIO_INOUTSEL5"
  "\<not> pfc_locked GPIO_INOUTSEL6" "\<not> pfc_locked GPIO_INOUTSEL7"
  "\<not> pfc_locked GPIO_IOINTSEL0" "\<not> pfc_locked GPIO_IOINTSEL1"
  "\<not> pfc_locked GPIO_IOINTSEL2" "\<not> pfc_locked GPIO_IOINTSEL3"
  "\<not> pfc_locked GPIO_IOINTSEL4" "\<not> pfc_locked GPIO_IOINTSEL5"
  "\<not> pfc_locked GPIO_IOINTSEL6" "\<not> pfc_locked GPIO_IOINTSEL7"
  "\<not> pfc_locked GPIO_OUTDT0" "\<not> pfc_locked GPIO_OUTDT1" "\<not> pfc_locked GPIO_OUTDT2"
  "\<not> pfc_locked GPIO_OUTDT3" "\<not> pfc_locked GPIO_OUTDT5" "\<not> pfc_locked GPIO_OUTDT6"
  "\<not> pfc_locked GPIO_POSNEG0" "\<not> pfc_locked GPIO_POSNEG1"
  "\<not> pfc_locked GPIO_POSNEG2" "\<not> pfc_locked GPIO_POSNEG3"
  "\<not> pfc_locked GPIO_POSNEG4" "\<not> pfc_locked GPIO_POSNEG5"
  "\<not> pfc_locked GPIO_POSNEG6" "\<not> pfc_locked GPIO_POSNEG7"
  by (simp_all add: pfc_locked_def)

lemmas emits_intros = emits_seqs emits_nil emits_write emits_write_16 pfc_locked_regs gpio_unlocked_regs

lemma pin_settings_append: "pin_settings (xs @ ys) = pin_settings xs @ pin_settings ys"
  by (simp add: pin_settings_def)

lemma pin_settings_simps:
  "pin_settings [] = []"
  "pin_settings ((a, x) # sc) =
     (if role a = Function \<or> role a = Direction then (a, x) # pin_settings sc else pin_settings sc)"
  by (simp_all add: pin_settings_def)

lemmas pin_eval = pin_settings_append pin_settings_simps append_Nil append_Nil2 role_regs pin_role.distinct
  simp_thms if_True if_False

lemmas level_eval = append_Cons append_Nil list.map fst_conv levels_first.simps list.pred_inject
  role_regs pin_role.distinct simp_thms if_True if_False

lemma groups_upt: "[0..<8] = [0, 1, 2, 3, 4, 5, 6, 7 :: nat]"
  by (simp add: upt_rec)

lemmas used_eval = groups_upt shared_pins_def gpsr_regs_def inoutsel_regs_def zip_Cons_Cons zip_Nil list.map prod.case

section \<open>The result of a chip's routine\<close>

definition pins_set :: "nat \<Rightarrow> nat \<Rightarrow> u32 \<Rightarrow> (u32 \<times> u32) list \<Rightarrow> bool" where
  "pins_set n g pins ws \<longleftrightarrow> levels_first (map fst ws) \<and>
     (\<forall>i < n. \<forall>m. plain ws m (gpsr_regs ! i) AND plain ws m (inoutsel_regs ! i) = (if i = g then pins else 0))"

lemma map_of_filter_key: "P a \<Longrightarrow> map_of (filter (\<lambda>(b, _). P b) xs) a = map_of xs a"
  by (induction xs) auto

lemma pin_settings_lookup:
  "role a = Function \<or> role a = Direction \<Longrightarrow> map_of (rev (pin_settings sc)) a = map_of (rev sc) a"
  unfolding pin_settings_def rev_filter by (rule map_of_filter_key)

lemma levels_first_unlock: "levels_first (map fst (concat (map with_unlock ws))) = levels_first (map fst ws)"
proof (induction ws)
  case (Cons w ws)
  have other: "role PFC_PMMR = Other"
    by (simp add: role_def gpsr_regs_def inoutsel_regs_def outdt_regs_def)
  have "list_all (\<lambda>b. role b \<noteq> Level) (map fst (concat (map with_unlock ws))) =
      list_all (\<lambda>b. role b \<noteq> Level) (map fst ws)"
    by (induction ws) (auto simp: other split: if_splits)
  with Cons show ?case by (cases w) (simp add: other)
qed simp

lemma levels_first_skip:
  "list_all (\<lambda>a. role a = Other) as \<Longrightarrow> levels_first (as @ bs) = levels_first bs"
  by (induction as) simp_all

lemma claimed_Some: "claimed g i = Some x \<longleftrightarrow> (\<exists>u v. g = Some (Some u) \<and> i = Some (Some v) \<and> x = u AND v)"
  by (cases "(g, i)" rule: claimed.cases) auto

lemma pin_groups: "length gpsr_regs = 8" "length inoutsel_regs = 8"
  by (simp_all add: gpsr_regs_def inoutsel_regs_def)

lemma role_of_pins:
  assumes "i < 8"
  shows "role (gpsr_regs ! i) = Function" and "role (inoutsel_regs ! i) = Direction"
    and "gpsr_regs ! i \<noteq> PFC_PMMR" and "inoutsel_regs ! i \<noteq> PFC_PMMR"
proof -
  from assms have "i \<in> {0, 1, 2, 3, 4, 5, 6, 7}" by auto
  then show "role (gpsr_regs ! i) = Function" "role (inoutsel_regs ! i) = Direction"
      "gpsr_regs ! i \<noteq> PFC_PMMR" "inoutsel_regs ! i \<noteq> PFC_PMMR"
    by (elim insertE emptyE; simp add: gpsr_regs_def inoutsel_regs_def role_regs)+
qed

lemma script_pins:
  assumes "matches sc ws" and "doubly_used sc = shared_pins n g pins" and "levels_first (map fst sc)" and "n \<le> 8"
  shows "pins_set n g pins (concat (map with_unlock ws))"
proof -
  have "plain (concat (map with_unlock ws)) m (gpsr_regs ! i) AND
      plain (concat (map with_unlock ws)) m (inoutsel_regs ! i) = (if i = g then pins else 0)"
    if "i < n" for i m
  proof -
    have i: "i < 8" using that assms(4) by simp
    have "doubly_used sc ! i = Some (if i = g then pins else 0)"
      using that i by (simp add: assms(2) shared_pins_def)
    moreover have "doubly_used sc ! i = claimed (map_of (rev sc) (gpsr_regs ! i)) (map_of (rev sc) (inoutsel_regs ! i))"
      using i role_of_pins [OF i]
      by (simp add: doubly_used_def Let_def pin_settings_lookup pin_groups)
    ultimately show ?thesis
      using script_value [OF assms(1)] role_of_pins [OF i] by (auto simp: claimed_Some)
  qed
  moreover have "levels_first (map fst (concat (map with_unlock ws)))"
    by (simp only: levels_first_unlock matches_addresses [OF assms(1)] assms(3))
  ultimately show ?thesis by (simp add: pins_set_def)
qed

definition chip_done :: "nat \<Rightarrow> nat \<Rightarrow> u32 \<Rightarrow> machine \<Rightarrow> unit outcome \<Rightarrow> bool" where
  "chip_done n g pins s r \<longleftrightarrow> (\<exists>xs. r = Done () (grown xs s) \<and>
     guarded None (writes xs) \<and> pins_set n g pins (writes xs))"

lemma chip_done_script:
  assumes "\<exists>sc. emits p sc \<and> doubly_used sc = shared_pins n g pins \<and> levels_first (map fst sc)" and "n \<le> 8"
  shows "chip_done n g pins s (p s)"
proof -
  obtain sc where sc: "emits p sc" "doubly_used sc = shared_pins n g pins" "levels_first (map fst sc)"
    using assms(1) by blast
  obtain xs ws where "p s = Done () (grown xs s)" "matches sc ws" "writes xs = concat (map with_unlock ws)"
    using sc(1) by (rule emitsE)
  then show ?thesis
    using script_pins [OF \<open>matches sc ws\<close> sc(2,3) assms(2)] guarded_unlock by (auto simp: chip_done_def)
qed

text \<open>Writes to other registers may come first.\<close>

lemma pins_set_skip:
  assumes "list_all (\<lambda>a. role a = Other) (map fst vs)" and "pins_set n g pins ws" 
  shows "pins_set n g pins (vs @ ws)"
  using assms by (simp add: pins_set_def levels_first_skip plain_def)

lemma chip_done_after:
  assumes "p s = Done () (grown xs s)" and "list_all (\<lambda>a. role a = Other \<and> \<not> pfc_locked a) (map fst (writes xs))"
    and "chip_done n g pins (grown xs s) (q (grown xs s))"
  shows "chip_done n g pins s (bnd p (\<lambda>_. q) s)"
proof -
  obtain ys where q: "q (grown xs s) = Done () (grown ys (grown xs s))"
      "guarded None (writes ys)" "pins_set n g pins (writes ys)"
    using assms(3) by (auto simp: chip_done_def)
  have "guarded prev vs" if "list_all (\<lambda>a. role a = Other \<and> \<not> pfc_locked a) (map fst vs)" for prev vs
    using that by (induction vs arbitrary: prev) auto
  then have "guarded None (writes xs @ writes ys)" using assms(2) by (simp add: guarded_append q(2))
  moreover have "list_all (\<lambda>a. role a = Other) (map fst (writes xs))"
    using assms(2) by (auto simp: list_all_iff)
  ultimately show ?thesis
    using q(1,3) assms(1) pins_set_skip
    by (auto simp: chip_done_def bnd_def intro!: exI [of _ "ys @ xs"])
qed

end
