(* ===== verification/PfcM3.thy ===== *)
theory PfcM3
  imports Pfc
begin

text \<open>
  The pin function settings of one chip, \<^verbatim>\<open>CortexR7_Loader/pfc/M3/pfc_init_m3.c\<close>: one definition per block of the
  routine \<^verbatim>\<open>pfc_init_m3\<close>.
\<close>

abbreviation SCIF3_SCFCR :: u32 where "SCIF3_SCFCR \<equiv> 0xE6C50018"
abbreviation SCIF3_SCFDR :: u32 where "SCIF3_SCFDR \<equiv> 0xE6C5001C"
abbreviation SCFCR_DATA :: u16 where "SCFCR_DATA \<equiv> 0x0000"
abbreviation RMSTPCR0_RTDMAC :: u32 where "RMSTPCR0_RTDMAC \<equiv> 0x00200000"
abbreviation RTDMAC_CH :: u32 where "RTDMAC_CH \<equiv> 0"
abbreviation RTDMAC_BASE :: u32 where "RTDMAC_BASE \<equiv> 0xFFC10000"
abbreviation RTDMAC_RDMOR :: u32 where "RTDMAC_RDMOR \<equiv> RTDMAC_BASE + 0x0060"
abbreviation RTDMAC_RDMCHCLR :: u32 where "RTDMAC_RDMCHCLR \<equiv> RTDMAC_BASE + 0x0080"
abbreviation RTDMAC_RDMSAR :: "u32 \<Rightarrow> u32" where "RTDMAC_RDMSAR x \<equiv> RTDMAC_BASE + 0x8000 + 0x80 * x"
abbreviation RTDMAC_RDMDAR :: "u32 \<Rightarrow> u32" where "RTDMAC_RDMDAR x \<equiv> RTDMAC_BASE + 0x8004 + 0x80 * x"
abbreviation RTDMAC_RDMTCR :: "u32 \<Rightarrow> u32" where "RTDMAC_RDMTCR x \<equiv> RTDMAC_BASE + 0x8008 + 0x80 * x"
abbreviation RTDMAC_RDMCHCR :: "u32 \<Rightarrow> u32" where "RTDMAC_RDMCHCR x \<equiv> RTDMAC_BASE + 0x800C + 0x80 * x"
abbreviation RTDMAC_RDMCHCRB :: "u32 \<Rightarrow> u32" where "RTDMAC_RDMCHCRB x \<equiv> RTDMAC_BASE + 0x801C + 0x80 * x"
abbreviation RTDMAC_RDMDPBASE :: "u32 \<Rightarrow> u32" where "RTDMAC_RDMDPBASE x \<equiv> RTDMAC_BASE + 0x8050 + 0x80 * x"
abbreviation RTDMAC_DESC_BASE :: u32 where "RTDMAC_DESC_BASE \<equiv> RTDMAC_BASE + 0xA000"
abbreviation RTDMAC_DESC_RDMSAR :: u32 where "RTDMAC_DESC_RDMSAR \<equiv> RTDMAC_DESC_BASE + 0x0000"
abbreviation RTDMAC_DESC_RDMDAR :: u32 where "RTDMAC_DESC_RDMDAR \<equiv> RTDMAC_DESC_BASE + 0x0004"
abbreviation RTDMAC_DESC_RDMTCR :: u32 where "RTDMAC_DESC_RDMTCR \<equiv> RTDMAC_DESC_BASE + 0x0008"
abbreviation RDMOR_DME :: u16 where "RDMOR_DME \<equiv> 0x0001"
abbreviation RDMCHCR_DPM_INFINITE :: u32 where "RDMCHCR_DPM_INFINITE \<equiv> 0x30000000"
abbreviation RDMCHCR_RPT_TCR :: u32 where "RDMCHCR_RPT_TCR \<equiv> 0x02000000"
abbreviation RDMCHCR_TS_2 :: u32 where "RDMCHCR_TS_2 \<equiv> 0x00000008"
abbreviation RDMCHCR_RS_AUTO :: u32 where "RDMCHCR_RS_AUTO \<equiv> 0x00000400"
abbreviation RDMCHCR_DE :: u32 where "RDMCHCR_DE \<equiv> 0x00000001"
abbreviation RDMCHCRB_DRST :: u32 where "RDMCHCRB_DRST \<equiv> 0x00008000"
abbreviation RDMCHCRB_SLM_256 :: u32 where "RDMCHCRB_SLM_256 \<equiv> 0x00000080"
abbreviation RDMDPBASE_SEL_EXT :: u32 where "RDMDPBASE_SEL_EXT \<equiv> 0x00000001"
abbreviation RCAR_PRODUCT_M3_CUT10 :: u32 where "RCAR_PRODUCT_M3_CUT10 \<equiv> 0x00005200"

text \<open>The work-around for the first version: a transfer that keeps reading the product register.\<close>

definition rtdma_transfer :: "unit prog" where
  "rtdma_transfer = seqs
      [mmio_write_32 RTDMAC_RDMCHCLR (push_bit (unat RTDMAC_CH) 1),
       mmio_write_32 (RTDMAC_RDMCHCRB RTDMAC_CH) RDMCHCRB_DRST,
       mmio_write_16 RTDMAC_RDMOR RDMOR_DME,
       mmio_write_32 (RTDMAC_RDMSAR RTDMAC_CH) RCAR_PRR,
       mmio_write_32 (RTDMAC_RDMDAR RTDMAC_CH) SCIF3_SCFDR,
       mmio_write_32 (RTDMAC_RDMTCR RTDMAC_CH) 0x00000001,
       mmio_write_32 RTDMAC_DESC_RDMSAR 0x00000000,
       mmio_write_32 RTDMAC_DESC_RDMDAR 0x00000000,
       mmio_write_32 RTDMAC_DESC_RDMTCR 0x00200000,
       mmio_write_32 (RTDMAC_RDMCHCRB RTDMAC_CH) RDMCHCRB_SLM_256,
       mmio_write_32 (RTDMAC_RDMDPBASE RTDMAC_CH) (RTDMAC_DESC_BASE OR RDMDPBASE_SEL_EXT),
       mmio_write_32 (RTDMAC_RDMCHCR RTDMAC_CH)
         (RDMCHCR_DPM_INFINITE OR RDMCHCR_RPT_TCR OR RDMCHCR_TS_2 OR RDMCHCR_RS_AUTO OR RDMCHCR_DE)]"

definition StartRtDma0_Descriptor :: "unit prog" where
  "StartRtDma0_Descriptor =
     bnd (mmio_read_32 RCAR_PRR) (\<lambda>reg.
     whenp (reg AND (RCAR_PRODUCT_MASK OR RCAR_CUT_MASK) = RCAR_PRODUCT_M3_CUT10)
       (seqs [mstpcr_write CPG_RMSTPCR0 CPG_MSTPSR0 RMSTPCR0_RTDMAC, rtdma_transfer]))"

text \<open>The static \<^verbatim>\<open>pfc_reg_write\<close> of this file, with the dummy writes of the first version.\<close>

definition pfc_reg_write_m3 :: "u32 \<Rightarrow> u32 \<Rightarrow> unit prog" where
  "pfc_reg_write_m3 addr data =
     bnd (mmio_read_32 RCAR_PRR) (\<lambda>v.
     (let prr = v AND (RCAR_PRODUCT_MASK OR RCAR_CUT_MASK) in
      seqs
       [mmio_write_32 PFC_PMMR (NOT data),
        whenp (prr = RCAR_PRODUCT_M3_CUT10) (mmio_write_16 SCIF3_SCFCR SCFCR_DATA),
        mmio_write_32 addr data,
        whenp (prr = RCAR_PRODUCT_M3_CUT10) (mmio_write_16 SCIF3_SCFCR SCFCR_DATA)]))"

definition pfc_init_m3_modsel :: "unit prog" where
  "pfc_init_m3_modsel = seqs
      [pfc_reg_write_m3 PFC_MOD_SEL0 (fields [(29, 0), (27, 0), (24, 0), (23, 0), (22, 0), (21, 0),
           (20, 0), (19, 0), (17, 0), (16, 0), (15, 0), (13, 0), (12, 0), (11, 0), (10, 0), (8, 0),
           (6, 0), (5, 0), (3, 0)]),
       pfc_reg_write_m3 PFC_MOD_SEL1 (fields [(30, 0), (27, 0), (26, 0), (24, 0), (21, 0), (20, 0),
           (19, 0), (17, 0), (16, 0), (14, 0), (13, 0), (12, 0), (11, 0), (10, 0), (9, 0), (6, 0),
           (5, 0), (4, 0), (3, 0), (2, 0), (1, 0), (0, 0)]),
       pfc_reg_write_m3 PFC_MOD_SEL2 (fields [(31, 0), (30, 0), (29, 0), (27, 0), (26, 0), (23, 0),
           (22, 0), (21, 0), (20, 0), (19, 0), (18, 0), (17, 0), (0, 0)])]"

definition pfc_init_m3_ipsr :: "unit prog" where
  "pfc_init_m3_ipsr = seqs
      [pfc_reg_write_m3 PFC_IPSR0 (fields [(28, 0), (24, 0), (20, 0), (16, 0), (12, 0), (8, 0),
           (4, 0), (0, 0)]),
       pfc_reg_write_m3 PFC_IPSR1 (fields [(28, 6), (24, 0), (20, 0), (16, 0), (12, 3), (8, 3),
           (4, 3), (0, 3)]),
       pfc_reg_write_m3 PFC_IPSR2 (fields [(28, 0), (24, 6), (20, 6), (16, 6), (12, 6), (8, 6),
           (4, 6), (0, 6)]),
       pfc_reg_write_m3 PFC_IPSR3 (fields [(28, 6), (24, 6), (20, 6), (16, 6), (12, 6), (8, 0),
           (4, 0), (0, 0)]),
       pfc_reg_write_m3 PFC_IPSR4 (fields [(28, 0), (24, 0), (20, 0), (16, 0), (12, 0), (8, 6),
           (4, 6), (0, 6)]),
       pfc_reg_write_m3 PFC_IPSR5 (fields [(28, 0), (24, 0), (20, 0), (16, 0), (12, 0), (8, 6),
           (4, 0), (0, 0)]),
       pfc_reg_write_m3 PFC_IPSR6 (fields [(28, 6), (24, 6), (20, 6), (16, 6), (12, 6), (8, 0),
           (4, 0), (0, 0)]),
       pfc_reg_write_m3 PFC_IPSR7 (fields [(28, 0), (24, 0), (20, 0), (16, 0), (8, 6), (4, 6),
           (0, 6)]),
       pfc_reg_write_m3 PFC_IPSR8 (fields [(28, 1), (24, 1), (20, 1), (16, 1), (12, 0), (8, 0),
           (4, 0), (0, 0)]),
       pfc_reg_write_m3 PFC_IPSR9 (fields [(28, 0), (24, 0), (20, 0), (16, 0), (12, 0), (8, 0),
           (4, 0), (0, 0)]),
       pfc_reg_write_m3 PFC_IPSR10 (fields [(28, 1), (24, 0), (20, 0), (16, 0), (12, 0), (8, 0),
           (4, 0), (0, 0)]),
       pfc_reg_write_m3 PFC_IPSR11 (fields [(28, 0), (24, 4), (20, 0), (16, 0), (12, 0), (8, 0),
           (4, 0), (0, 1)]),
       pfc_reg_write_m3 PFC_IPSR12 (fields [(28, 0), (24, 0), (20, 0), (16, 0), (12, 0), (8, 4),
           (4, 0), (0, 0)]),
       pfc_reg_write_m3 PFC_IPSR13 (fields [(28, 8), (24, 0), (20, 0), (16, 0), (12, 0), (8, 3),
           (4, 0), (0, 0)]),
       pfc_reg_write_m3 PFC_IPSR14 (fields [(28, 0), (24, 0), (20, 0), (16, 0), (12, 0), (8, 0),
           (4, 3), (0, 8)]),
       pfc_reg_write_m3 PFC_IPSR15 (fields [(28, 0), (24, 0), (20, 0), (16, 0), (12, 0), (8, 0),
           (4, 0), (0, 0)]),
       pfc_reg_write_m3 PFC_IPSR16 (fields [(28, 0), (24, 0), (20, 0), (16, 0), (12, 0), (8, 0),
           (4, 0), (0, 0)]),
       pfc_reg_write_m3 PFC_IPSR17 (fields [(28, 0), (24, 0), (20, 0), (16, 0), (12, 0), (8, 0),
           (4, 1), (0, 0)]),
       pfc_reg_write_m3 PFC_IPSR18 (fields [(4, 0), (0, 0)])]"

definition pfc_init_m3_gpsr :: "unit prog" where
  "pfc_init_m3_gpsr = seqs
      [pfc_reg_write_m3 PFC_GPSR0 (fields [(15, 1), (14, 1), (13, 1), (12, 1), (11, 1), (10, 1),
           (9, 1), (8, 1)]),
       pfc_reg_write_m3 PFC_GPSR1 (fields [(28, 1), (27, 1), (19, 1), (18, 1), (17, 1), (16, 1),
           (15, 1), (14, 1), (13, 1), (12, 1), (7, 1), (6, 1), (5, 1), (4, 1), (3, 1), (2, 1),
           (1, 1), (0, 1)]),
       pfc_reg_write_m3 PFC_GPSR2 (fields [(14, 1), (13, 1), (12, 1), (11, 1), (9, 1), (8, 1),
           (7, 1), (5, 1), (4, 1), (3, 1), (2, 1), (1, 1), (0, 1)]),
       pfc_reg_write_m3 PFC_GPSR3 (fields [(13, 1), (12, 1), (11, 1), (10, 1), (9, 1), (8, 1),
           (5, 1), (4, 1), (3, 1), (2, 1), (1, 1), (0, 1)]),
       pfc_reg_write_m3 PFC_GPSR4 (fields [(16, 1), (15, 1), (12, 1), (11, 1), (10, 1), (9, 1),
           (8, 1), (7, 1), (6, 1), (5, 1), (4, 1), (3, 1), (2, 1), (1, 1), (0, 1)]),
       pfc_reg_write_m3 PFC_GPSR5 (fields [(21, 1), (19, 1), (18, 1), (16, 1), (15, 1), (14, 1),
           (13, 1), (12, 1), (11, 1), (10, 1), (9, 1), (8, 1), (7, 1), (6, 1), (5, 1), (4, 1),
           (0, 1)]),
       pfc_reg_write_m3 PFC_GPSR6 (fields [(29, 1), (28, 1), (27, 1), (26, 1), (25, 1), (24, 1),
           (23, 1), (22, 1), (20, 1), (19, 1), (18, 1), (17, 1), (15, 1), (14, 1), (10, 1), (9, 1),
           (8, 1), (3, 1), (2, 1), (1, 1), (0, 1)]),
       pfc_reg_write_m3 PFC_GPSR7 (fields [(1, 1), (0, 1)])]"

definition pfc_init_m3_poc :: "unit prog" where
  "pfc_init_m3_poc = seqs
      [pfc_reg_write_m3 PFC_POCCTRL0 (fields [(29, 1), (28, 1), (27, 1), (26, 1), (25, 1), (24, 1),
           (23, 1), (22, 1), (21, 1), (20, 1), (19, 1), (5, 1), (4, 1), (3, 1), (2, 1), (1, 1),
           (0, 1)])]"

definition pfc_init_m3_drv_1 :: "unit prog" where
  "pfc_init_m3_drv_1 = seqs
      [pfc_modify pfc_reg_write_m3 PFC_DRVCTRL0 0xCCCCCCCC [(28, 3), (24, 3), (20, 3), (16, 3),
           (12, 3), (8, 3), (4, 3), (0, 3)],
       pfc_modify pfc_reg_write_m3 PFC_DRVCTRL1 0xCCCCCCC8 [(28, 3), (24, 3), (20, 3), (16, 3),
           (12, 3), (8, 3), (4, 3), (0, 7)],
       pfc_modify pfc_reg_write_m3 PFC_DRVCTRL2 0x88888888 [(28, 7), (24, 7), (20, 7), (16, 7),
           (12, 7), (8, 3), (4, 3), (0, 3)],
       pfc_modify pfc_reg_write_m3 PFC_DRVCTRL3 0x88888888 [(28, 3), (24, 3), (20, 3), (16, 7),
           (12, 7), (8, 7), (4, 7), (0, 7)],
       pfc_modify pfc_reg_write_m3 PFC_DRVCTRL4 0x88888888 [(28, 7), (24, 7), (20, 7), (16, 7),
           (12, 7), (8, 7), (4, 7), (0, 7)],
       pfc_modify pfc_reg_write_m3 PFC_DRVCTRL5 0x88888888 [(28, 7), (24, 7), (20, 7), (16, 7),
           (12, 3), (8, 3), (4, 3), (0, 3)],
       pfc_modify pfc_reg_write_m3 PFC_DRVCTRL6 0x88888888 [(28, 3), (24, 3), (20, 3), (16, 3),
           (12, 7), (8, 7), (4, 7), (0, 7)],
       pfc_modify pfc_reg_write_m3 PFC_DRVCTRL7 0x88888888 [(28, 3), (24, 3), (20, 3), (16, 3),
           (12, 3), (8, 3), (4, 3), (0, 3)],
       pfc_modify pfc_reg_write_m3 PFC_DRVCTRL8 0x88888888 [(28, 7), (24, 7), (20, 7), (16, 7),
           (12, 7), (8, 7), (4, 7), (0, 7)],
       pfc_modify pfc_reg_write_m3 PFC_DRVCTRL9 0x88888888 [(28, 7), (24, 7), (20, 7), (16, 7),
           (12, 7), (8, 7), (4, 7), (0, 7)],
       pfc_modify pfc_reg_write_m3 PFC_DRVCTRL10 0x88888888 [(28, 7), (24, 7), (20, 3), (16, 3),
           (12, 3), (8, 3), (4, 3), (0, 3)],
       pfc_modify pfc_reg_write_m3 PFC_DRVCTRL11 0x888888CC [(28, 3), (24, 3), (20, 7), (16, 7),
           (12, 7), (8, 7), (4, 3), (0, 3)],
       pfc_modify pfc_reg_write_m3 PFC_DRVCTRL12 0xCCCFFFCF [(28, 3), (24, 3), (20, 3), (4, 3)],
       pfc_modify pfc_reg_write_m3 PFC_DRVCTRL13 0xCC888888 [(28, 3), (24, 3), (20, 7), (16, 7),
           (12, 7), (8, 7), (4, 7), (0, 7)],
       pfc_modify pfc_reg_write_m3 PFC_DRVCTRL14 0x88888888 [(28, 7), (24, 7), (20, 5), (16, 5),
           (12, 5), (8, 5), (4, 5), (0, 5)]]"

definition pfc_init_m3_drv_2 :: "unit prog" where
  "pfc_init_m3_drv_2 = seqs
      [pfc_modify pfc_reg_write_m3 PFC_DRVCTRL15 0x88888888 [(28, 5), (24, 5), (20, 5), (16, 5),
           (12, 5), (8, 7), (4, 7), (0, 7)],
       pfc_modify pfc_reg_write_m3 PFC_DRVCTRL16 0x88888888 [(28, 7), (24, 7), (20, 7), (16, 7),
           (12, 7), (8, 7), (4, 7), (0, 7)],
       pfc_modify pfc_reg_write_m3 PFC_DRVCTRL17 0x88888888 [(28, 7), (24, 7), (20, 7), (16, 7),
           (12, 7), (8, 7), (4, 7), (0, 7)],
       pfc_modify pfc_reg_write_m3 PFC_DRVCTRL18 0x88888888 [(28, 7), (24, 7), (20, 7), (16, 7),
           (12, 7), (8, 7), (4, 7), (0, 7)],
       pfc_modify pfc_reg_write_m3 PFC_DRVCTRL19 0x88888888 [(28, 7), (24, 7), (20, 7), (16, 7),
           (12, 7), (8, 7), (4, 7), (0, 7)],
       pfc_modify pfc_reg_write_m3 PFC_DRVCTRL20 0x88888888 [(28, 7), (24, 7), (20, 7), (16, 7),
           (12, 7), (8, 7), (4, 7), (0, 7)],
       pfc_modify pfc_reg_write_m3 PFC_DRVCTRL21 0x88888888 [(28, 7), (24, 7), (20, 7), (16, 7),
           (12, 7), (8, 7), (4, 7), (0, 7)],
       pfc_modify pfc_reg_write_m3 PFC_DRVCTRL22 0x88888888 [(28, 7), (24, 7), (20, 7), (16, 7),
           (12, 7), (8, 7), (4, 7), (0, 7)],
       pfc_modify pfc_reg_write_m3 PFC_DRVCTRL23 0x88888888 [(28, 7), (24, 7), (20, 7), (16, 7),
           (12, 7), (8, 7), (4, 7), (0, 7)],
       pfc_modify pfc_reg_write_m3 PFC_DRVCTRL24 0x8888888F [(28, 7), (24, 7), (20, 7), (16, 7),
           (12, 7), (8, 7), (4, 7)]]"

definition pfc_init_m3_pud :: "unit prog" where
  "pfc_init_m3_pud = seqs
      [pfc_reg_write_m3 PFC_PUD0 0x00005FBF,
       pfc_reg_write_m3 PFC_PUD1 0x00300FFE,
       pfc_reg_write_m3 PFC_PUD2 0x330001E6,
       pfc_reg_write_m3 PFC_PUD3 0x000002E0,
       pfc_reg_write_m3 PFC_PUD4 0xFFFFFF00,
       pfc_reg_write_m3 PFC_PUD5 0x7F5FFF87,
       pfc_reg_write_m3 PFC_PUD6 0x00000055]"

definition pfc_init_m3_puen :: "unit prog" where
  "pfc_init_m3_puen = seqs
      [pfc_reg_write_m3 PFC_PUEN0 0x00000FFF,
       pfc_reg_write_m3 PFC_PUEN1 0x00100234,
       pfc_reg_write_m3 PFC_PUEN2 0x000004C4,
       pfc_reg_write_m3 PFC_PUEN3 0x00000200,
       pfc_reg_write_m3 PFC_PUEN4 0x3E000000,
       pfc_reg_write_m3 PFC_PUEN5 0x1F000805,
       pfc_reg_write_m3 PFC_PUEN6 0x00000006]"

definition pfc_init_m3_posneg :: "unit prog" where
  "pfc_init_m3_posneg = seqs
      [mmio_write_32 GPIO_POSNEG0 0x00000000,
       mmio_write_32 GPIO_POSNEG1 0x00000000,
       mmio_write_32 GPIO_POSNEG2 0x00000000,
       mmio_write_32 GPIO_POSNEG3 0x00000000,
       mmio_write_32 GPIO_POSNEG4 0x00000000,
       mmio_write_32 GPIO_POSNEG5 0x00000000,
       mmio_write_32 GPIO_POSNEG6 0x00000000,
       mmio_write_32 GPIO_POSNEG7 0x00000000]"

definition pfc_init_m3_iointsel :: "unit prog" where
  "pfc_init_m3_iointsel = seqs
      [mmio_write_32 GPIO_IOINTSEL0 0x00000000,
       mmio_write_32 GPIO_IOINTSEL1 0x00000000,
       mmio_write_32 GPIO_IOINTSEL2 0x00000000,
       mmio_write_32 GPIO_IOINTSEL3 0x00000000,
       mmio_write_32 GPIO_IOINTSEL4 0x00000000,
       mmio_write_32 GPIO_IOINTSEL5 0x00000000,
       mmio_write_32 GPIO_IOINTSEL6 0x00000000,
       mmio_write_32 GPIO_IOINTSEL7 0x00000000]"

definition pfc_init_m3_outdt :: "unit prog" where
  "pfc_init_m3_outdt = seqs
      [mmio_write_32 GPIO_OUTDT1 0x00000000,
       mmio_write_32 GPIO_OUTDT2 0x00000400,
       mmio_write_32 GPIO_OUTDT3 0x0000C000,
       mmio_write_32 GPIO_OUTDT5 0x00000006,
       mmio_write_32 GPIO_OUTDT6 0x00003880]"

definition pfc_init_m3_inoutsel :: "unit prog" where
  "pfc_init_m3_inoutsel = seqs
      [mmio_write_32 GPIO_INOUTSEL0 0x00000000,
       mmio_write_32 GPIO_INOUTSEL1 0x01000A00,
       mmio_write_32 GPIO_INOUTSEL2 0x00000400,
       mmio_write_32 GPIO_INOUTSEL3 0x0000C000,
       mmio_write_32 GPIO_INOUTSEL4 0x00000000,
       mmio_write_32 GPIO_INOUTSEL5 0x0000020E,
       mmio_write_32 GPIO_INOUTSEL6 0x00013880,
       mmio_write_32 GPIO_INOUTSEL7 0x00000000]"

definition pfc_init_m3_settings :: "unit prog" where
  "pfc_init_m3_settings = seqs
     [pfc_init_m3_modsel, pfc_init_m3_ipsr, pfc_init_m3_gpsr, pfc_init_m3_poc, pfc_init_m3_drv_1,
         pfc_init_m3_drv_2, pfc_init_m3_pud, pfc_init_m3_puen, pfc_init_m3_posneg,
         pfc_init_m3_iointsel, pfc_init_m3_outdt, pfc_init_m3_inoutsel]"

definition pfc_init_m3 :: "unit prog" where
  "pfc_init_m3 = seqs [StartRtDma0_Descriptor, pfc_init_m3_settings]"

lemma pfc_reg_write_m3_run: "pfc_reg_write_m3 a v s = Done () (grown
    (let r = d_rd32 (m_dev s) (m_tr s) RCAR_PRR;
         d = (if r AND (RCAR_PRODUCT_MASK OR RCAR_CUT_MASK) = RCAR_PRODUCT_M3_CUT10
              then [Wr16 SCIF3_SCFCR SCFCR_DATA] else [])
     in d @ [Wr32 a v] @ d @ [Wr32 PFC_PMMR (NOT v), Rd32 RCAR_PRR r]) s)"
  by (cases "d_rd32 (m_dev s) (m_tr s) RCAR_PRR AND (RCAR_PRODUCT_MASK OR RCAR_CUT_MASK) = RCAR_PRODUCT_M3_CUT10")
    (simp_all add: pfc_reg_write_m3_def bnd_read_32 bnd_write_32 bnd_write_16 ret_run)

interpretation pfc_m3: pfc_writer pfc_reg_write_m3
  by (unfold_locales, rule exI, rule conjI, rule pfc_reg_write_m3_run) (simp add: Let_def)

lemmas pfc_init_m3_blocks =
  pfc_init_m3_modsel_def pfc_init_m3_ipsr_def pfc_init_m3_gpsr_def
  pfc_init_m3_poc_def pfc_init_m3_drv_1_def pfc_init_m3_drv_2_def
  pfc_init_m3_pud_def pfc_init_m3_puen_def pfc_init_m3_posneg_def
  pfc_init_m3_iointsel_def pfc_init_m3_outdt_def pfc_init_m3_inoutsel_def

text \<open>What the routine writes, as a script, and the pins that both registers claim.\<close>

lemma pfc_init_m3_emits: "\<exists>sc. emits pfc_init_m3_settings sc \<and> doubly_used sc = shared_pins 8 5 0x200 \<and>
    levels_first (map fst sc)"
  unfolding pfc_init_m3_settings_def pfc_init_m3_blocks
  by (rule exI, rule conjI, (rule emits_intros pfc_m3.emits_regw pfc_m3.emits_modify)+, rule conjI,
      unfold doubly_used_def, simp only: pin_eval, simp add: used_eval Let_def, simp only: level_eval)

end
