(* ===== verification/PfcE3.thy ===== *)
theory PfcE3
  imports Pfc
begin

text \<open>
  The pin function settings of one chip, \<^verbatim>\<open>CortexR7_Loader/pfc/E3/pfc_init_e3.c\<close>: one definition per block of the
  routine \<^verbatim>\<open>pfc_init_e3\<close>.
\<close>

definition pfc_init_e3_modsel :: "unit prog" where
  "pfc_init_e3_modsel = seqs
      [pfc_reg_write PFC_MOD_SEL0 (fields [(29, 0), (28, 0), (26, 0), (25, 0), (24, 0), (23, 0),
           (22, 0), (20, 0), (17, 0), (16, 0), (15, 0), (14, 0), (12, 0), (10, 0), (9, 0), (8, 0),
           (7, 0), (5, 0), (4, 0), (3, 0), (2, 0), (0, 0)]),
       pfc_reg_write PFC_MOD_SEL1 (fields [(31, 0), (30, 0), (29, 0), (28, 1), (26, 0), (25, 0),
           (22, 0), (19, 0), (18, 0), (17, 0), (16, 0), (15, 0), (13, 0), (11, 0), (9, 0), (8, 0),
           (7, 0), (5, 0), (4, 0)])]"

definition pfc_init_e3_ipsr :: "unit prog" where
  "pfc_init_e3_ipsr = seqs
      [pfc_reg_write PFC_IPSR0 (fields [(28, 0), (24, 0), (20, 0), (16, 0), (12, 0), (8, 0), (4, 0),
           (0, 0)]),
       pfc_reg_write PFC_IPSR1 (fields [(28, 0), (24, 0), (20, 0), (16, 0), (12, 0), (8, 0), (4, 0),
           (0, 0)]),
       pfc_reg_write PFC_IPSR2 (fields [(28, 1), (24, 0), (20, 0), (16, 2), (12, 0), (8, 0), (4, 0),
           (0, 0)]),
       pfc_reg_write PFC_IPSR3 (fields [(28, 5), (24, 0), (20, 0), (16, 0), (12, 5), (8, 5), (4, 5),
           (0, 1)]),
       pfc_reg_write PFC_IPSR4 (fields [(28, 5), (24, 5), (20, 5), (16, 5), (12, 5), (8, 5), (4, 5),
           (0, 5)]),
       pfc_reg_write PFC_IPSR5 (fields [(28, 5), (24, 5), (20, 5), (16, 5), (12, 5), (8, 5), (4, 5),
           (0, 5)]),
       pfc_reg_write PFC_IPSR6 (fields [(28, 5), (24, 5), (20, 5), (16, 2), (12, 5), (8, 5), (4, 0),
           (0, 5)]),
       pfc_reg_write PFC_IPSR7 (fields [(28, 0), (24, 0), (20, 5), (16, 5), (12, 0), (8, 0), (4, 0),
           (0, 5)]),
       pfc_reg_write PFC_IPSR8 (fields [(28, 0), (24, 0), (20, 0), (16, 0), (12, 0), (8, 0), (4, 0),
           (0, 0)]),
       pfc_reg_write PFC_IPSR9 (fields [(28, 0), (24, 0), (20, 0), (16, 0), (12, 0), (8, 0), (4, 0),
           (0, 0)]),
       pfc_reg_write PFC_IPSR10 (fields [(28, 0), (24, 0), (20, 0), (16, 0), (12, 0), (8, 0),
           (4, 0), (0, 0)]),
       pfc_reg_write PFC_IPSR11 (fields [(28, 0), (24, 0), (20, 2), (16, 2), (12, 0), (8, 0),
           (4, 0), (0, 0)]),
       pfc_reg_write PFC_IPSR12 (fields [(28, 0), (24, 0), (20, 0), (16, 0), (12, 0), (8, 0),
           (4, 2), (0, 0)]),
       pfc_reg_write PFC_IPSR13 (fields [(28, 0), (24, 0), (20, 0), (16, 0), (12, 0), (8, 2),
           (4, 1), (0, 1)]),
       pfc_reg_write PFC_IPSR14 (fields [(28, 3), (24, 0), (20, 0), (16, 0), (12, 0), (8, 0),
           (4, 0), (0, 0)]),
       pfc_reg_write PFC_IPSR15 (fields [(28, 0), (24, 0), (20, 0), (16, 1), (12, 1), (8, 0),
           (4, 0), (0, 3)])]"

definition pfc_init_e3_gpsr :: "unit prog" where
  "pfc_init_e3_gpsr = seqs
      [pfc_reg_write PFC_GPSR0 (fields [(16, 1), (15, 1), (11, 1), (10, 1), (9, 1), (8, 1), (7, 1),
           (6, 1), (5, 1), (3, 1), (2, 1), (1, 1), (0, 1)]),
       pfc_reg_write PFC_GPSR1 (fields [(22, 1), (21, 1), (19, 1), (18, 1), (17, 1), (16, 1),
           (15, 1), (14, 1), (13, 1), (12, 1), (11, 1), (10, 1), (9, 1), (8, 1), (4, 1), (3, 1),
           (2, 1), (1, 1), (0, 1)]),
       pfc_reg_write PFC_GPSR2 (fields [(27, 1), (26, 1), (23, 1), (21, 1), (20, 1), (19, 1),
           (18, 1), (17, 1), (16, 1), (15, 1), (14, 1), (13, 1), (12, 1), (11, 1), (10, 1), (9, 1),
           (8, 1), (7, 1), (6, 1), (5, 1), (4, 1), (3, 1), (2, 1), (1, 1), (0, 1)]),
       pfc_reg_write PFC_GPSR3 (fields [(15, 1), (14, 1), (13, 1), (12, 1), (11, 1), (10, 1),
           (9, 1), (8, 1), (7, 1), (6, 1), (5, 1), (4, 1), (3, 1), (2, 1), (1, 1), (0, 1)]),
       pfc_reg_write PFC_GPSR4 (fields [(10, 1), (9, 1), (8, 1), (7, 1), (6, 1), (5, 1), (4, 1),
           (3, 1), (2, 1), (1, 1), (0, 1)]),
       pfc_reg_write PFC_GPSR5 (fields [(16, 1), (15, 1), (14, 1), (9, 1), (8, 1), (7, 1), (4, 1),
           (3, 1)]),
       pfc_reg_write PFC_GPSR6 (fields [(17, 1), (16, 1), (15, 1), (12, 1), (11, 1), (10, 1),
           (9, 1), (8, 1), (7, 1), (6, 1), (5, 1), (3, 1), (2, 1), (1, 1), (0, 1)])]"

definition pfc_init_e3_poc :: "unit prog" where
  "pfc_init_e3_poc = seqs
      [pfc_modify pfc_reg_write PFC_POCCTRL0 0x0007F000 [(11, 1), (10, 1), (9, 1), (8, 1), (7, 1),
           (6, 1), (5, 1), (4, 1), (3, 1), (2, 1), (1, 1), (0, 1)],
       pfc_modify pfc_reg_write PFC_POCCTRL2 0xFFFFFFFE []]"

definition pfc_init_e3_pud :: "unit prog" where
  "pfc_init_e3_pud = seqs
      [pfc_reg_write PFC_PUD0 0xFDF80000,
       pfc_reg_write PFC_PUD1 0xCE298464,
       pfc_reg_write PFC_PUD2 0xA4C380F4,
       pfc_reg_write PFC_PUD3 0x0000079F,
       pfc_reg_write PFC_PUD4 0xFFF0FFFF,
       pfc_reg_write PFC_PUD5 0x40000000]"

definition pfc_init_e3_puen :: "unit prog" where
  "pfc_init_e3_puen = seqs
      [pfc_reg_write PFC_PUEN0 0xFFF00000,
       pfc_reg_write PFC_PUEN1 0x00000000,
       pfc_reg_write PFC_PUEN2 0x00000004,
       pfc_reg_write PFC_PUEN3 0x00000000,
       pfc_reg_write PFC_PUEN4 0x07800010,
       pfc_reg_write PFC_PUEN5 0x00000000]"

definition pfc_init_e3_posneg :: "unit prog" where
  "pfc_init_e3_posneg = seqs
      [mmio_write_32 GPIO_POSNEG0 0x00000000,
       mmio_write_32 GPIO_POSNEG1 0x00000000,
       mmio_write_32 GPIO_POSNEG2 0x00000000,
       mmio_write_32 GPIO_POSNEG3 0x00000000,
       mmio_write_32 GPIO_POSNEG4 0x00000000,
       mmio_write_32 GPIO_POSNEG5 0x00000000,
       mmio_write_32 GPIO_POSNEG6 0x00000000]"

definition pfc_init_e3_iointsel :: "unit prog" where
  "pfc_init_e3_iointsel = seqs
      [mmio_write_32 GPIO_IOINTSEL0 0x00020000,
       mmio_write_32 GPIO_IOINTSEL1 0x00000000,
       mmio_write_32 GPIO_IOINTSEL2 0x00000000,
       mmio_write_32 GPIO_IOINTSEL3 0x00000000,
       mmio_write_32 GPIO_IOINTSEL4 0x00000000,
       mmio_write_32 GPIO_IOINTSEL5 0x00000000,
       mmio_write_32 GPIO_IOINTSEL6 0x00000000]"

definition pfc_init_e3_outdt :: "unit prog" where
  "pfc_init_e3_outdt = seqs
      [mmio_write_32 GPIO_OUTDT0 0x00000010,
       mmio_write_32 GPIO_OUTDT1 0x00100000,
       mmio_write_32 GPIO_OUTDT2 0x00000000,
       mmio_write_32 GPIO_OUTDT3 0x00008000,
       mmio_write_32 GPIO_OUTDT5 0x00060000,
       mmio_write_32 GPIO_OUTDT6 0x00000000]"

definition pfc_init_e3_inoutsel :: "unit prog" where
  "pfc_init_e3_inoutsel = seqs
      [mmio_write_32 GPIO_INOUTSEL0 0x00000010,
       mmio_write_32 GPIO_INOUTSEL1 0x00100020,
       mmio_write_32 GPIO_INOUTSEL2 0x03000000,
       mmio_write_32 GPIO_INOUTSEL3 0x00008000,
       mmio_write_32 GPIO_INOUTSEL4 0x00000000,
       mmio_write_32 GPIO_INOUTSEL5 0x00060000,
       mmio_write_32 GPIO_INOUTSEL6 0x00004000]"

definition pfc_init_e3 :: "unit prog" where
  "pfc_init_e3 = seqs
     [pfc_init_e3_modsel, pfc_init_e3_ipsr, pfc_init_e3_gpsr, pfc_init_e3_poc, pfc_init_e3_pud,
         pfc_init_e3_puen, pfc_init_e3_posneg, pfc_init_e3_iointsel, pfc_init_e3_outdt,
         pfc_init_e3_inoutsel]"

lemmas pfc_init_e3_blocks =
  pfc_init_e3_modsel_def pfc_init_e3_ipsr_def pfc_init_e3_gpsr_def
  pfc_init_e3_poc_def pfc_init_e3_pud_def pfc_init_e3_puen_def
  pfc_init_e3_posneg_def pfc_init_e3_iointsel_def pfc_init_e3_outdt_def
  pfc_init_e3_inoutsel_def

text \<open>What the routine writes, as a script, and the pins that both registers claim.\<close>

lemma pfc_init_e3_emits: "\<exists>sc. emits pfc_init_e3 sc \<and> doubly_used sc = shared_pins 7 3 0x8000 \<and>
    levels_first (map fst sc)"
  unfolding pfc_init_e3_def pfc_init_e3_blocks
  by (rule exI, rule conjI, (rule emits_intros pfc.emits_regw pfc.emits_modify)+, rule conjI,
      unfold doubly_used_def, simp only: pin_eval, simp add: used_eval Let_def, simp only: level_eval)

end
