(* ===== verification/PfcH3V2.thy ===== *)
theory PfcH3V2
  imports Pfc
begin

text \<open>
  The pin function settings of one chip, \<^verbatim>\<open>CortexR7_Loader/pfc/H3/pfc_init_h3_v2.c\<close>: one definition per block of the
  routine \<^verbatim>\<open>pfc_init_h3_v2\<close>.
\<close>

definition pfc_init_h3_v2_modsel :: "unit prog" where
  "pfc_init_h3_v2_modsel = seqs
      [pfc_reg_write PFC_MOD_SEL0 (fields [(29, 0), (27, 0), (24, 0), (23, 0), (22, 0), (21, 0),
           (20, 0), (19, 0), (17, 0), (16, 0), (15, 0), (13, 0), (12, 0), (11, 0), (10, 0), (8, 0),
           (6, 0), (5, 0), (3, 0)]),
       pfc_reg_write PFC_MOD_SEL1 (fields [(30, 0), (27, 0), (26, 0), (24, 0), (21, 0), (20, 0),
           (19, 0), (17, 0), (16, 0), (14, 0), (13, 0), (12, 0), (11, 0), (10, 0), (9, 0), (6, 0),
           (5, 0), (4, 0), (3, 0), (2, 0), (1, 0), (0, 0)]),
       pfc_reg_write PFC_MOD_SEL2 (fields [(31, 0), (30, 0), (29, 0), (27, 0), (26, 0), (23, 0),
           (22, 0), (21, 0), (20, 0), (19, 0), (18, 0), (17, 0), (0, 0)])]"

definition pfc_init_h3_v2_ipsr :: "unit prog" where
  "pfc_init_h3_v2_ipsr = seqs
      [pfc_reg_write PFC_IPSR0 (fields [(28, 0), (24, 0), (20, 0), (16, 0), (12, 0), (8, 0), (4, 0),
           (0, 0)]),
       pfc_reg_write PFC_IPSR1 (fields [(28, 6), (24, 0), (20, 0), (16, 0), (12, 3), (8, 3), (4, 3),
           (0, 3)]),
       pfc_reg_write PFC_IPSR2 (fields [(28, 0), (24, 6), (20, 6), (16, 6), (12, 6), (8, 6), (4, 6),
           (0, 6)]),
       pfc_reg_write PFC_IPSR3 (fields [(28, 6), (24, 6), (20, 6), (16, 6), (12, 6), (8, 0), (4, 0),
           (0, 0)]),
       pfc_reg_write PFC_IPSR4 (fields [(28, 0), (24, 0), (20, 0), (16, 0), (12, 0), (8, 6), (4, 6),
           (0, 6)]),
       pfc_reg_write PFC_IPSR5 (fields [(28, 0), (24, 0), (20, 0), (16, 0), (12, 0), (8, 6), (4, 0),
           (0, 0)]),
       pfc_reg_write PFC_IPSR6 (fields [(28, 6), (24, 6), (20, 6), (16, 6), (12, 6), (8, 0), (4, 0),
           (0, 0)]),
       pfc_reg_write PFC_IPSR7 (fields [(28, 0), (24, 0), (20, 0), (16, 0), (8, 6), (4, 6), (0, 6)]),
       pfc_reg_write PFC_IPSR8 (fields [(28, 1), (24, 1), (20, 1), (16, 1), (12, 0), (8, 0), (4, 0),
           (0, 0)]),
       pfc_reg_write PFC_IPSR9 (fields [(28, 0), (24, 0), (20, 0), (16, 0), (12, 0), (8, 0), (4, 0),
           (0, 0)]),
       pfc_reg_write PFC_IPSR10 (fields [(28, 1), (24, 0), (20, 0), (16, 0), (12, 0), (8, 0),
           (4, 0), (0, 0)]),
       pfc_reg_write PFC_IPSR11 (fields [(28, 0), (24, 4), (20, 0), (16, 0), (12, 0), (8, 0),
           (4, 0), (0, 1)]),
       pfc_reg_write PFC_IPSR12 (fields [(28, 0), (24, 0), (20, 0), (16, 0), (12, 0), (8, 4),
           (4, 0), (0, 0)]),
       pfc_reg_write PFC_IPSR13 (fields [(28, 8), (24, 0), (20, 0), (16, 0), (12, 0), (8, 3),
           (4, 0), (0, 0)]),
       pfc_reg_write PFC_IPSR14 (fields [(28, 0), (24, 0), (20, 0), (16, 0), (12, 0), (8, 0),
           (4, 3), (0, 8)]),
       pfc_reg_write PFC_IPSR15 (fields [(28, 0), (24, 0), (20, 0), (16, 0), (12, 0), (8, 0),
           (4, 0), (0, 0)]),
       pfc_reg_write PFC_IPSR16 (fields [(28, 0), (24, 0), (20, 0), (16, 0), (12, 0), (8, 0),
           (4, 0), (0, 0)]),
       pfc_reg_write PFC_IPSR17 (fields [(28, 0), (24, 0), (20, 0), (16, 0), (12, 0), (8, 0),
           (4, 1), (0, 0)]),
       pfc_reg_write PFC_IPSR18 (fields [(4, 0), (0, 0)])]"

definition pfc_init_h3_v2_gpsr :: "unit prog" where
  "pfc_init_h3_v2_gpsr = seqs
      [pfc_reg_write PFC_GPSR0 (fields [(15, 1), (14, 1), (13, 1), (12, 1), (11, 1), (10, 1),
           (9, 1), (8, 1)]),
       pfc_reg_write PFC_GPSR1 (fields [(28, 1), (27, 1), (19, 1), (18, 1), (17, 1), (16, 1),
           (15, 1), (14, 1), (13, 1), (12, 1), (7, 1), (6, 1), (5, 1), (4, 1), (3, 1), (2, 1),
           (1, 1), (0, 1)]),
       pfc_reg_write PFC_GPSR2 (fields [(14, 1), (13, 1), (12, 1), (11, 1), (9, 1), (8, 1), (7, 1),
           (5, 1), (4, 1), (3, 1), (2, 1), (1, 1), (0, 1)]),
       pfc_reg_write PFC_GPSR3 (fields [(13, 1), (12, 1), (11, 1), (10, 1), (9, 1), (8, 1), (5, 1),
           (4, 1), (3, 1), (2, 1), (1, 1), (0, 1)]),
       pfc_reg_write PFC_GPSR4 (fields [(16, 1), (15, 1), (12, 1), (11, 1), (10, 1), (9, 1), (8, 1),
           (7, 1), (6, 1), (5, 1), (4, 1), (3, 1), (2, 1), (1, 1), (0, 1)]),
       pfc_reg_write PFC_GPSR5 (fields [(21, 1), (19, 1), (18, 1), (16, 1), (15, 1), (14, 1),
           (13, 1), (12, 1), (11, 1), (10, 1), (9, 1), (8, 1), (7, 1), (6, 1), (5, 1), (4, 1),
           (0, 1)]),
       pfc_reg_write PFC_GPSR6 (fields [(29, 1), (28, 1), (27, 1), (26, 1), (25, 1), (24, 1),
           (23, 1), (22, 1), (20, 1), (19, 1), (18, 1), (17, 1), (15, 1), (14, 1), (10, 1), (9, 1),
           (8, 1), (3, 1), (2, 1), (1, 1), (0, 1)]),
       pfc_reg_write PFC_GPSR7 (fields [(1, 1), (0, 1)])]"

definition pfc_init_h3_v2_poc :: "unit prog" where
  "pfc_init_h3_v2_poc = seqs
      [pfc_reg_write PFC_POCCTRL0 (fields [(29, 1), (28, 1), (27, 1), (26, 1), (25, 1), (24, 1),
           (23, 1), (22, 1), (21, 1), (20, 1), (19, 1), (5, 1), (4, 1), (3, 1), (2, 1), (1, 1),
           (0, 1)])]"

definition pfc_init_h3_v2_drv_1 :: "unit prog" where
  "pfc_init_h3_v2_drv_1 = seqs
      [pfc_modify pfc_reg_write PFC_DRVCTRL0 0xCCCCCCCC [(28, 3), (24, 3), (20, 3), (16, 3),
           (12, 3), (8, 3), (4, 3), (0, 3)],
       pfc_modify pfc_reg_write PFC_DRVCTRL1 0xCCCCCCC8 [(28, 3), (24, 3), (20, 3), (16, 3),
           (12, 3), (8, 3), (4, 3), (0, 7)],
       pfc_modify pfc_reg_write PFC_DRVCTRL2 0x88888888 [(28, 7), (24, 7), (20, 7), (16, 7),
           (12, 7), (8, 3), (4, 3), (0, 3)],
       pfc_modify pfc_reg_write PFC_DRVCTRL3 0x88888888 [(28, 3), (24, 3), (20, 3), (16, 7),
           (12, 7), (8, 7), (4, 7), (0, 7)],
       pfc_modify pfc_reg_write PFC_DRVCTRL4 0x88888888 [(28, 7), (24, 7), (20, 7), (16, 7),
           (12, 7), (8, 7), (4, 7), (0, 7)],
       pfc_modify pfc_reg_write PFC_DRVCTRL5 0x88888888 [(28, 7), (24, 7), (20, 7), (16, 7),
           (12, 3), (8, 3), (4, 3), (0, 3)],
       pfc_modify pfc_reg_write PFC_DRVCTRL6 0x88888888 [(28, 3), (24, 3), (20, 3), (16, 3),
           (12, 7), (8, 7), (4, 7), (0, 7)],
       pfc_modify pfc_reg_write PFC_DRVCTRL7 0x88888888 [(28, 3), (24, 3), (20, 3), (16, 3),
           (12, 3), (8, 3), (4, 3), (0, 3)],
       pfc_modify pfc_reg_write PFC_DRVCTRL8 0x88888888 [(28, 7), (24, 7), (20, 7), (16, 7),
           (12, 7), (8, 7), (4, 7), (0, 7)],
       pfc_modify pfc_reg_write PFC_DRVCTRL9 0x88888888 [(28, 7), (24, 7), (20, 7), (16, 7),
           (12, 7), (8, 7), (4, 7), (0, 7)],
       pfc_modify pfc_reg_write PFC_DRVCTRL10 0x88888888 [(28, 7), (24, 7), (20, 3), (16, 3),
           (12, 3), (8, 3), (4, 3), (0, 3)],
       pfc_modify pfc_reg_write PFC_DRVCTRL11 0x888888CC [(28, 3), (24, 3), (20, 7), (16, 7),
           (12, 7), (8, 7), (4, 3), (0, 3)],
       pfc_modify pfc_reg_write PFC_DRVCTRL12 0xCCCFFFCF [(28, 3), (24, 3), (20, 3), (4, 3)],
       pfc_modify pfc_reg_write PFC_DRVCTRL13 0xCC888888 [(28, 3), (24, 3), (20, 7), (16, 7),
           (12, 7), (8, 7), (4, 7), (0, 7)],
       pfc_modify pfc_reg_write PFC_DRVCTRL14 0x88888888 [(28, 7), (24, 7), (20, 5), (16, 5),
           (12, 5), (8, 5), (4, 5), (0, 5)]]"

definition pfc_init_h3_v2_drv_2 :: "unit prog" where
  "pfc_init_h3_v2_drv_2 = seqs
      [pfc_modify pfc_reg_write PFC_DRVCTRL15 0x88888888 [(28, 5), (24, 5), (20, 5), (16, 5),
           (12, 5), (8, 7), (4, 7), (0, 7)],
       pfc_modify pfc_reg_write PFC_DRVCTRL16 0x88888888 [(28, 7), (24, 7), (20, 7), (16, 7),
           (12, 7), (8, 7), (4, 7), (0, 7)],
       pfc_modify pfc_reg_write PFC_DRVCTRL17 0x88888888 [(28, 7), (24, 7), (20, 7), (16, 7),
           (12, 7), (8, 7), (4, 7), (0, 7)],
       pfc_modify pfc_reg_write PFC_DRVCTRL18 0x88888888 [(28, 7), (24, 7), (20, 7), (16, 7),
           (12, 7), (8, 7), (4, 7), (0, 7)],
       pfc_modify pfc_reg_write PFC_DRVCTRL19 0x88888888 [(28, 7), (24, 7), (20, 7), (16, 7),
           (12, 7), (8, 7), (4, 7), (0, 7)],
       pfc_modify pfc_reg_write PFC_DRVCTRL20 0x88888888 [(28, 7), (24, 7), (20, 7), (16, 7),
           (12, 7), (8, 7), (4, 7), (0, 7)],
       pfc_modify pfc_reg_write PFC_DRVCTRL21 0x88888888 [(28, 7), (24, 7), (20, 7), (16, 7),
           (12, 7), (8, 7), (4, 7), (0, 7)],
       pfc_modify pfc_reg_write PFC_DRVCTRL22 0x88888888 [(28, 7), (24, 7), (20, 7), (16, 7),
           (12, 7), (8, 7), (4, 7), (0, 7)],
       pfc_modify pfc_reg_write PFC_DRVCTRL23 0x88888888 [(28, 7), (24, 7), (20, 7), (16, 7),
           (12, 7), (8, 7), (4, 7), (0, 7)],
       pfc_modify pfc_reg_write PFC_DRVCTRL24 0x8888888F [(28, 7), (24, 7), (20, 7), (16, 7),
           (12, 7), (8, 7), (4, 7)]]"

definition pfc_init_h3_v2_pud :: "unit prog" where
  "pfc_init_h3_v2_pud = seqs
      [pfc_reg_write PFC_PUD0 0x00005FBF,
       pfc_reg_write PFC_PUD1 0x00300FFE,
       pfc_reg_write PFC_PUD2 0x330001E6,
       pfc_reg_write PFC_PUD3 0x000002E0,
       pfc_reg_write PFC_PUD4 0xFFFFFF00,
       pfc_reg_write PFC_PUD5 0x7F5FFF87,
       pfc_reg_write PFC_PUD6 0x00000055]"

definition pfc_init_h3_v2_puen :: "unit prog" where
  "pfc_init_h3_v2_puen = seqs
      [pfc_reg_write PFC_PUEN0 0x00000FFF,
       pfc_reg_write PFC_PUEN1 0x00100234,
       pfc_reg_write PFC_PUEN2 0x000004C4,
       pfc_reg_write PFC_PUEN3 0x00000200,
       pfc_reg_write PFC_PUEN4 0x3E000000,
       pfc_reg_write PFC_PUEN5 0x1F000805,
       pfc_reg_write PFC_PUEN6 0x00000006]"

definition pfc_init_h3_v2_posneg :: "unit prog" where
  "pfc_init_h3_v2_posneg = seqs
      [mmio_write_32 GPIO_POSNEG0 0x00000000,
       mmio_write_32 GPIO_POSNEG1 0x00000000,
       mmio_write_32 GPIO_POSNEG2 0x00000000,
       mmio_write_32 GPIO_POSNEG3 0x00000000,
       mmio_write_32 GPIO_POSNEG4 0x00000000,
       mmio_write_32 GPIO_POSNEG5 0x00000000,
       mmio_write_32 GPIO_POSNEG6 0x00000000,
       mmio_write_32 GPIO_POSNEG7 0x00000000]"

definition pfc_init_h3_v2_iointsel :: "unit prog" where
  "pfc_init_h3_v2_iointsel = seqs
      [mmio_write_32 GPIO_IOINTSEL0 0x00000000,
       mmio_write_32 GPIO_IOINTSEL1 0x00000000,
       mmio_write_32 GPIO_IOINTSEL2 0x00000000,
       mmio_write_32 GPIO_IOINTSEL3 0x00000000,
       mmio_write_32 GPIO_IOINTSEL4 0x00000000,
       mmio_write_32 GPIO_IOINTSEL5 0x00000000,
       mmio_write_32 GPIO_IOINTSEL6 0x00000000,
       mmio_write_32 GPIO_IOINTSEL7 0x00000000]"

definition pfc_init_h3_v2_outdt :: "unit prog" where
  "pfc_init_h3_v2_outdt = seqs
      [mmio_write_32 GPIO_OUTDT1 0x00000000,
       mmio_write_32 GPIO_OUTDT2 0x00000400,
       mmio_write_32 GPIO_OUTDT3 0x0000C000,
       mmio_write_32 GPIO_OUTDT5 0x00000006,
       mmio_write_32 GPIO_OUTDT6 0x00003880]"

definition pfc_init_h3_v2_inoutsel :: "unit prog" where
  "pfc_init_h3_v2_inoutsel = seqs
      [mmio_write_32 GPIO_INOUTSEL0 0x00000000,
       mmio_write_32 GPIO_INOUTSEL1 0x01000A00,
       mmio_write_32 GPIO_INOUTSEL2 0x00000400,
       mmio_write_32 GPIO_INOUTSEL3 0x0000C000,
       mmio_write_32 GPIO_INOUTSEL4 0x00000000,
       mmio_write_32 GPIO_INOUTSEL5 0x0000020E,
       mmio_write_32 GPIO_INOUTSEL6 0x00013880,
       mmio_write_32 GPIO_INOUTSEL7 0x00000000]"

definition pfc_init_h3_v2 :: "unit prog" where
  "pfc_init_h3_v2 = seqs
     [pfc_init_h3_v2_modsel, pfc_init_h3_v2_ipsr, pfc_init_h3_v2_gpsr, pfc_init_h3_v2_poc,
         pfc_init_h3_v2_drv_1, pfc_init_h3_v2_drv_2, pfc_init_h3_v2_pud, pfc_init_h3_v2_puen,
         pfc_init_h3_v2_posneg, pfc_init_h3_v2_iointsel, pfc_init_h3_v2_outdt,
         pfc_init_h3_v2_inoutsel]"

lemmas pfc_init_h3_v2_blocks =
  pfc_init_h3_v2_modsel_def pfc_init_h3_v2_ipsr_def pfc_init_h3_v2_gpsr_def
  pfc_init_h3_v2_poc_def pfc_init_h3_v2_drv_1_def pfc_init_h3_v2_drv_2_def
  pfc_init_h3_v2_pud_def pfc_init_h3_v2_puen_def pfc_init_h3_v2_posneg_def
  pfc_init_h3_v2_iointsel_def pfc_init_h3_v2_outdt_def pfc_init_h3_v2_inoutsel_def

text \<open>What the routine writes, as a script, and the pins that both registers claim.\<close>

lemma pfc_init_h3_v2_emits: "\<exists>sc. emits pfc_init_h3_v2 sc \<and> doubly_used sc = shared_pins 8 5 0x200 \<and>
    levels_first (map fst sc)"
  unfolding pfc_init_h3_v2_def pfc_init_h3_v2_blocks
  by (rule exI, rule conjI, (rule emits_intros pfc.emits_regw pfc.emits_modify)+, rule conjI,
      unfold doubly_used_def, simp only: pin_eval, simp add: used_eval Let_def, simp only: level_eval)

end
