(* ===== verification/PfcInit.thy ===== *)
theory PfcInit
  imports PfcM3N PfcM3 PfcE3 PfcH3V1 PfcH3V2
begin

text \<open>
  \<^verbatim>\<open>CortexR7_Loader/pfc/pfc_init.c\<close>: the choice of the chip's routine by build option and product
  register, and what the whole initialisation leaves in the pin registers.
\<close>

definition PFC_PRODUCT_ERR :: "u32 \<Rightarrow> unit prog" where
  "PFC_PRODUCT_ERR reg = seqs
     [ERROR (''LSI Product ID(PRR=0x%x) PFC '' @ ''initialize not supported.'' @ [CHR 0x0A]) [ArgW reg],
      panic]"

definition pfc_init_h3 :: "u32 \<Rightarrow> unit prog" where
  "pfc_init_h3 reg =
     (let lcut = reg AND RCAR_CUT_MASK in
      if lcut = PRR_PRODUCT_10 then pfc_init_h3_v1
      else if lcut = PRR_PRODUCT_11 then pfc_init_h3_v1
      else pfc_init_h3_v2)"

definition pfc_init_auto :: "u32 \<Rightarrow> unit prog" where
  "pfc_init_auto reg =
     (let product = reg AND RCAR_PRODUCT_MASK in
      if product = RCAR_PRODUCT_H3 then pfc_init_h3 reg
      else if product = RCAR_PRODUCT_M3 then pfc_init_m3
      else if product = RCAR_PRODUCT_M3N then pfc_init_m3n
      else PFC_PRODUCT_ERR reg)"

definition pfc_init_compat :: "build \<Rightarrow> u32 \<Rightarrow> unit prog" where
  "pfc_init_compat b reg =
     (let product = reg AND RCAR_PRODUCT_MASK in
      if product = RCAR_PRODUCT_H3 then
        (if b_lsi b \<noteq> LSI_H3 \<and> b_lsi b \<noteq> LSI_H3N then PFC_PRODUCT_ERR reg else pfc_init_h3 reg)
      else if product = RCAR_PRODUCT_M3 then
        (if b_lsi b \<noteq> LSI_M3 then PFC_PRODUCT_ERR reg else pfc_init_m3)
      else if product = RCAR_PRODUCT_M3N then
        (if b_lsi b \<noteq> LSI_M3N then PFC_PRODUCT_ERR reg else pfc_init_m3n)
      else if product = RCAR_PRODUCT_E3 then
        (if b_lsi b \<noteq> LSI_E3 then PFC_PRODUCT_ERR reg else pfc_init_e3)
      else PFC_PRODUCT_ERR reg)"

definition pfc_init_cut :: "build \<Rightarrow> lsi_cut \<Rightarrow> u32 \<Rightarrow> unit prog" where
  "pfc_init_cut b lcut reg =
     (let product = reg AND RCAR_PRODUCT_MASK; chip = reg AND (RCAR_PRODUCT_MASK OR RCAR_CUT_MASK) in
      if b_lsi b = LSI_H3 \<or> b_lsi b = LSI_H3N then
        (if lcut = LSI_CUT_10 then
           seqs [whenp (RCAR_PRODUCT_H3 OR PRR_PRODUCT_10 \<noteq> chip) (PFC_PRODUCT_ERR reg), pfc_init_h3_v1]
         else if lcut = LSI_CUT_11 then
           seqs [whenp (RCAR_PRODUCT_H3 OR PRR_PRODUCT_11 \<noteq> chip) (PFC_PRODUCT_ERR reg), pfc_init_h3_v1]
         else seqs [whenp (RCAR_PRODUCT_H3 \<noteq> product) (PFC_PRODUCT_ERR reg), pfc_init_h3_v2])
      else if b_lsi b = LSI_M3 then
        seqs [whenp (RCAR_PRODUCT_M3 \<noteq> product) (PFC_PRODUCT_ERR reg), pfc_init_m3]
      else if b_lsi b = LSI_M3N then
        seqs [whenp (RCAR_PRODUCT_M3N \<noteq> product) (PFC_PRODUCT_ERR reg), pfc_init_m3n]
      else
        seqs [whenp (RCAR_PRODUCT_E3 \<noteq> product) (PFC_PRODUCT_ERR reg), pfc_init_e3])"

definition pfc_init :: "build \<Rightarrow> lsi_cut \<Rightarrow> unit prog" where
  "pfc_init b lcut =
     bnd (mmio_read_32 RCAR_PRR) (\<lambda>reg.
     if b_lsi b = LSI_AUTO then pfc_init_auto reg
     else if lcut = CUT_COMPAT then pfc_init_compat b reg
     else pfc_init_cut b lcut reg)"

section \<open>What it achieves\<close>

definition pfc_accepts :: "build \<Rightarrow> lsi_cut \<Rightarrow> u32 \<Rightarrow> bool" where
  "pfc_accepts b lcut prr \<longleftrightarrow> prr AND RCAR_PRODUCT_MASK \<in> product_of (b_lsi b) \<and>
     (b_lsi b \<in> {LSI_H3, LSI_H3N} \<longrightarrow>
        (lcut = LSI_CUT_10 \<longrightarrow> prr AND RCAR_CUT_MASK = PRR_PRODUCT_10) \<and>
        (lcut = LSI_CUT_11 \<longrightarrow> prr AND RCAR_CUT_MASK = PRR_PRODUCT_11))"

definition pins_done :: "u32 \<Rightarrow> machine \<Rightarrow> unit outcome \<Rightarrow> bool" where
  "pins_done prr s r \<longleftrightarrow> (if prr AND RCAR_PRODUCT_MASK = RCAR_PRODUCT_E3
     then chip_done 7 3 0x8000 s r else chip_done 8 5 0x200 s r)"

lemma done_m3n: "chip_done 8 5 0x200 s (pfc_init_m3n s)"
  and done_e3: "chip_done 7 3 0x8000 s (pfc_init_e3 s)"
  and done_h3_v1: "chip_done 8 5 0x200 s (pfc_init_h3_v1 s)"
  and done_h3_v2: "chip_done 8 5 0x200 s (pfc_init_h3_v2 s)"
  and done_m3_settings: "chip_done 8 5 0x200 s (pfc_init_m3_settings s)"
  by (rule chip_done_script [OF pfc_init_m3n_emits] chip_done_script [OF pfc_init_e3_emits]
    chip_done_script [OF pfc_init_h3_v1_emits] chip_done_script [OF pfc_init_h3_v2_emits]
    chip_done_script [OF pfc_init_m3_emits]; simp)+

lemma done_h3: "chip_done 8 5 0x200 s (pfc_init_h3 reg s)"
  by (simp add: pfc_init_h3_def Let_def done_h3_v1 done_h3_v2)

abbreviation rtdmac_ready :: "machine \<Rightarrow> bool" where
  "rtdmac_ready s \<equiv> ready_32 (m_dev s) (m_fuel s) CPG_MSTPSR0 (\<lambda>v. v AND RMSTPCR0_RTDMAC \<noteq> 0)"

lemma mstpcr_write_ready:
  assumes "ready_32 (m_dev s) (m_fuel s) mstpsr (\<lambda>v. v AND tb \<noteq> 0)"
  shows "\<exists>xs. mstpcr_write mstpcr mstpsr tb s = Done () (grown xs s) \<and>
    writes xs = cpg_pairs [(mstpcr, d_rd32 (m_dev s) (m_tr s) mstpcr AND NOT tb)]"
proof -
  let ?v = "d_rd32 (m_dev s) (m_tr s) mstpcr"
  let ?w = "[Wr32 mstpcr (?v AND NOT tb), Wr32 CPG_CPGWPR (NOT (?v AND NOT tb)), Rd32 mstpcr ?v]"
  have "mstpcr_write mstpcr mstpsr tb s = poll_32 mstpsr (\<lambda>v. v AND tb \<noteq> 0) (grown ?w s)"
    by (simp add: mstpcr_write_def bnd_read_32 bnd_Done [OF cpg_write_run])
  moreover obtain xs where "poll_32 mstpsr (\<lambda>v. v AND tb \<noteq> 0) (grown ?w s) = Done () (grown xs (grown ?w s))"
      "writes xs = []"
    using poll_32_grows [of "grown ?w s" mstpsr] assms by auto
  ultimately show ?thesis
    by (intro exI [of _ "xs @ ?w"]) (simp add: cpg_pairs_def)
qed

text \<open>The work-around writes neither pin nor locked registers.\<close>

abbreviation harmless :: "u32 \<Rightarrow> bool" where
  "harmless a \<equiv> role a = Other \<and> \<not> pfc_locked a"

lemma rtdmac_harmless:
  "harmless CPG_CPGWPR"
  "harmless CPG_RMSTPCR0"
  "harmless (RTDMAC_RDMCHCLR)"
  "harmless (RTDMAC_RDMCHCRB RTDMAC_CH)"
  "harmless (RTDMAC_RDMSAR RTDMAC_CH)"
  "harmless (RTDMAC_RDMDAR RTDMAC_CH)"
  "harmless (RTDMAC_RDMTCR RTDMAC_CH)"
  "harmless (RTDMAC_DESC_RDMSAR)"
  "harmless (RTDMAC_DESC_RDMDAR)"
  "harmless (RTDMAC_DESC_RDMTCR)"
  "harmless (RTDMAC_RDMDPBASE RTDMAC_CH)"
  "harmless (RTDMAC_RDMCHCR RTDMAC_CH)"
  by (simp_all add: role_def gpsr_regs_def inoutsel_regs_def outdt_regs_def pfc_locked_def)

lemma harmless_unlock: "list_all harmless (map fst ws) \<Longrightarrow> concat (map with_unlock ws) = ws"
  by (induction ws) auto

lemma rtdma_transfer_emits: "\<exists>sc. emits rtdma_transfer sc \<and> list_all harmless (map fst sc)"
  unfolding rtdma_transfer_def
  by (rule exI, rule conjI, (rule emits_intros rtdmac_harmless [THEN conjunct2])+)
    (simp only: append_Cons append_Nil list.map fst_conv list.pred_inject rtdmac_harmless simp_thms)

definition harmless_run :: "machine \<Rightarrow> unit outcome \<Rightarrow> bool" where
  "harmless_run s r \<longleftrightarrow> (\<exists>xs. r = Done () (grown xs s) \<and> list_all harmless (map fst (writes xs)))"

lemma harmless_runI: "r = Done () (grown xs s) \<Longrightarrow> list_all harmless (map fst (writes xs)) \<Longrightarrow> harmless_run s r"
  unfolding harmless_run_def by blast

lemma harmless_runE:
  assumes "harmless_run s r"
  obtains xs where "r = Done () (grown xs s)" "list_all harmless (map fst (writes xs))"
  using assms unfolding harmless_run_def by (elim exE conjE) (rule that)

lemma harmless_run_ret: "harmless_run s (ret () s)"
  by (rule harmless_runI [where xs = "[]"]) (simp_all add: ret_def)

lemma harmless_run_read:
  assumes "harmless_run (grown [Rd32 a v] s) r"
  shows "harmless_run s r"
proof -
  obtain xs where "r = Done () (grown (xs @ [Rd32 a v]) s)" "list_all harmless (map fst (writes xs))"
    using assms by (auto simp: harmless_run_def)
  then show ?thesis by (intro harmless_runI [where xs = "xs @ [Rd32 a v]"]) simp_all
qed

lemma harmless_run_bnd:
  assumes "harmless_run s (p s)" and "\<And>xs. harmless_run (grown xs s) (q (grown xs s))"
  shows "harmless_run s (bnd p (\<lambda>_. q) s)"
proof -
  obtain xs where 1: "p s = Done () (grown xs s)" "list_all harmless (map fst (writes xs))"
    using assms(1) by (rule harmless_runE)
  obtain ys where 2: "q (grown xs s) = Done () (grown ys (grown xs s))" "list_all harmless (map fst (writes ys))"
    using assms(2) by (rule harmless_runE)
  show ?thesis
    by (rule harmless_runI [where xs = "ys @ xs"]) (use 1 2 in \<open>simp_all add: bnd_def\<close>)
qed

lemma harmless_run_transfer: "harmless_run s (rtdma_transfer s)"
proof -
  obtain sc where sc: "emits rtdma_transfer sc" "list_all harmless (map fst sc)"
    using rtdma_transfer_emits by blast
  obtain xs ws where run: "rtdma_transfer s = Done () (grown xs s)" "matches sc ws"
      "writes xs = concat (map with_unlock ws)"
    using sc(1) by (rule emitsE)
  have ws: "list_all harmless (map fst ws)"
    using sc(2) by (simp only: matches_addresses [OF run(2)])
  show ?thesis
    by (rule harmless_runI [OF run(1)]) (simp only: run(3) harmless_unlock [OF ws] ws)
qed

lemma harmless_run_mstpcr:
  assumes "rtdmac_ready s"
  shows "harmless_run s (mstpcr_write CPG_RMSTPCR0 CPG_MSTPSR0 RMSTPCR0_RTDMAC s)"
proof -
  obtain xs v where "mstpcr_write CPG_RMSTPCR0 CPG_MSTPSR0 RMSTPCR0_RTDMAC s = Done () (grown xs s)"
      "writes xs = cpg_pairs [(CPG_RMSTPCR0, v)]"
    using mstpcr_write_ready [OF assms, of CPG_RMSTPCR0] by (elim exE conjE) (rule that)
  then show ?thesis
    by (intro harmless_runI) (assumption, simp only: cpg_pairs_def list.map prod.case concat.simps append_Nil2
      fst_conv list.pred_inject rtdmac_harmless simp_thms)
qed

lemma harmless_run_start:
  assumes "rtdmac_ready s"
  shows "harmless_run s (StartRtDma0_Descriptor s)"
proof -
  let ?s = "grown [Rd32 RCAR_PRR (d_rd32 (m_dev s) (m_tr s) RCAR_PRR)] s"
  have "harmless_run ?s (bnd (mstpcr_write CPG_RMSTPCR0 CPG_MSTPSR0 RMSTPCR0_RTDMAC) (\<lambda>_. rtdma_transfer) ?s)"
    by (rule harmless_run_bnd, rule harmless_run_mstpcr, simp add: assms, rule harmless_run_transfer)
  then have "harmless_run ?s (whenp c (seqs [mstpcr_write CPG_RMSTPCR0 CPG_MSTPSR0 RMSTPCR0_RTDMAC, rtdma_transfer]) ?s)" for c
    using harmless_run_ret [of ?s] by (cases c) (simp_all only: whenp_simps seqs.simps bnd_ret_unit)
  from harmless_run_read [OF this] show ?thesis
    unfolding StartRtDma0_Descriptor_def bnd_read_32 by simp
qed

lemma done_m3:
  assumes "rtdmac_ready s"
  shows "chip_done 8 5 0x200 s (pfc_init_m3 s)"
proof -
  obtain xs where start: "StartRtDma0_Descriptor s = Done () (grown xs s)" "list_all harmless (map fst (writes xs))"
    using harmless_run_start [OF assms] by (rule harmless_runE)
  have "chip_done 8 5 0x200 s (bnd StartRtDma0_Descriptor (\<lambda>_. pfc_init_m3_settings) s)"
    by (rule chip_done_after, rule start(1), rule start(2), rule done_m3_settings)
  then show ?thesis by (simp add: pfc_init_m3_def bnd_ret_unit)
qed

definition refused :: "machine \<Rightarrow> unit outcome \<Rightarrow> bool" where
  "refused s r \<longleftrightarrow> (\<exists>xs. r = Panic (grown xs s) \<and> writes xs = [] \<and> no_asm xs)"

lemma refused_err: "refused s (PFC_PRODUCT_ERR reg s)"
proof -
  obtain cs where "PFC_PRODUCT_ERR reg s = Panic (say cs s)"
    unfolding PFC_PRODUCT_ERR_def using error_panic [of _ "[ArgW reg]" s] by fastforce
  then show ?thesis
    unfolding refused_def by (intro exI [of _ "rev (map Putc cs)"]) (auto simp: say_def)
qed

lemma refused_bnd: "refused s (p s) \<Longrightarrow> refused s (bnd p f s)"
  by (auto simp: refused_def bnd_def)

lemma chip_done_read:
  assumes "chip_done n g pins (grown [Rd32 a v] s) r"
  shows "chip_done n g pins s r"
proof -
  obtain xs where "r = Done () (grown (xs @ [Rd32 a v]) s)" "guarded None (writes xs)" "pins_set n g pins (writes xs)"
    using assms by (auto simp: chip_done_def)
  then show ?thesis unfolding chip_done_def by (intro exI [of _ "xs @ [Rd32 a v]"]) simp
qed

lemma refused_read:
  assumes "refused (grown [Rd32 a v] s) r"
  shows "refused s r"
proof -
  obtain xs where "r = Panic (grown (xs @ [Rd32 a v]) s)" "writes xs = []" "no_asm xs"
    using assms by (auto simp: refused_def)
  then show ?thesis unfolding refused_def by (intro exI [of _ "xs @ [Rd32 a v]"]) simp
qed

text \<open>An explicit check and then the routine, as the builds for one version do.\<close>

lemma checked_run:
  "seqs [whenp c (PFC_PRODUCT_ERR reg), p] s = (if c then PFC_PRODUCT_ERR reg s else p s)"
proof (cases c)
  case True
  then show ?thesis
    using refused_err [of s reg] by (auto simp: refused_def bnd_def)
qed (simp add: bnd_ret_unit)

lemma products_differ:
  "RCAR_PRODUCT_H3 \<noteq> RCAR_PRODUCT_M3" "RCAR_PRODUCT_H3 \<noteq> RCAR_PRODUCT_M3N"
  "RCAR_PRODUCT_M3 \<noteq> RCAR_PRODUCT_M3N" "RCAR_PRODUCT_E3 \<noteq> RCAR_PRODUCT_H3"
  "RCAR_PRODUCT_E3 \<noteq> RCAR_PRODUCT_M3" "RCAR_PRODUCT_E3 \<noteq> RCAR_PRODUCT_M3N"
  by simp_all

definition pfc_result :: "build \<Rightarrow> lsi_cut \<Rightarrow> u32 \<Rightarrow> machine \<Rightarrow> unit outcome \<Rightarrow> bool" where
  "pfc_result b lcut prr s r \<longleftrightarrow> (if pfc_accepts b lcut prr then pins_done prr s r else refused s r)"

lemma pfc_init_run:
  assumes "prr AND RCAR_PRODUCT_MASK = RCAR_PRODUCT_M3 \<Longrightarrow> rtdmac_ready s"
  shows "b_lsi b = LSI_AUTO \<Longrightarrow> pfc_result b lcut prr s (pfc_init_auto prr s)"
    and "b_lsi b \<noteq> LSI_AUTO \<Longrightarrow> pfc_result b CUT_COMPAT prr s (pfc_init_compat b prr s)"
    and "b_lsi b \<noteq> LSI_AUTO \<Longrightarrow> lcut \<noteq> CUT_COMPAT \<Longrightarrow> pfc_result b lcut prr s (pfc_init_cut b lcut prr s)"
proof -
  note defs = pfc_result_def pfc_accepts_def pins_done_def product_of_def Let_def
  note results = refused_err done_h3 done_h3_v1 done_h3_v2 done_m3n done_e3 done_m3
  show "pfc_result b lcut prr s (pfc_init_auto prr s)" if "b_lsi b = LSI_AUTO"
    using that assms by (auto simp: pfc_init_auto_def defs results)
  show "pfc_result b CUT_COMPAT prr s (pfc_init_compat b prr s)" if "b_lsi b \<noteq> LSI_AUTO"
    using that assms by (cases "b_lsi b") (auto simp: pfc_init_compat_def defs results)
  have w: "RCAR_PRODUCT_H3 OR c = prr AND (RCAR_PRODUCT_MASK OR RCAR_CUT_MASK) \<longleftrightarrow>
      prr AND RCAR_PRODUCT_MASK = RCAR_PRODUCT_H3 \<and> prr AND RCAR_CUT_MASK = c" if "c \<in> {0, 1}" for c :: u32
    using chip_word [of RCAR_PRODUCT_H3 c prr] that by (subst eq_commute) auto
  show "pfc_result b lcut prr s (pfc_init_cut b lcut prr s)" if "b_lsi b \<noteq> LSI_AUTO" "lcut \<noteq> CUT_COMPAT"
    using that assms w [of 0] w [of 1]
    by (cases "b_lsi b"; cases lcut)
      (auto simp: pfc_init_cut_def defs results checked_run eq_commute [of RCAR_PRODUCT_H3]
        eq_commute [of RCAR_PRODUCT_M3] simp del: seqs.simps)
qed

lemma pfc_result_read:
  "pfc_result b lcut prr (grown [Rd32 a v] s) r \<Longrightarrow> pfc_result b lcut prr s r"
  unfolding pfc_result_def pins_done_def using chip_done_read refused_read by metis

lemma pfc_init_result:
  assumes "d_rd32 (m_dev s) (m_tr s) RCAR_PRR AND RCAR_PRODUCT_MASK = RCAR_PRODUCT_M3 \<Longrightarrow> rtdmac_ready s"
  shows "pfc_result b lcut (d_rd32 (m_dev s) (m_tr s) RCAR_PRR) s (pfc_init b lcut s)"
proof -
  let ?p = "d_rd32 (m_dev s) (m_tr s) RCAR_PRR"
  let ?s = "grown [Rd32 RCAR_PRR ?p] s"
  have "pfc_result b lcut ?p ?s ((if b_lsi b = LSI_AUTO then pfc_init_auto ?p
      else if lcut = CUT_COMPAT then pfc_init_compat b ?p else pfc_init_cut b lcut ?p) ?s)"
    using pfc_init_run [of ?p ?s] assms by simp
  from pfc_result_read [OF this] show ?thesis
    by (simp add: pfc_init_def bnd_read_32)
qed

text \<open>The wrong product is refused whatever the rest of the hardware does.\<close>

lemma wrong_product_run:
  assumes "prr AND RCAR_PRODUCT_MASK \<notin> product_of (b_lsi b)"
  shows "b_lsi b = LSI_AUTO \<Longrightarrow> refused s (pfc_init_auto prr s)"
    and "b_lsi b \<noteq> LSI_AUTO \<Longrightarrow> refused s (pfc_init_compat b prr s)"
    and "b_lsi b \<noteq> LSI_AUTO \<Longrightarrow> refused s (pfc_init_cut b lcut prr s)"
proof -
  have "refused s (seqs [PFC_PRODUCT_ERR prr, p] s)" for p
    unfolding seqs.simps by (rule refused_bnd) (rule refused_err)
  note defs = product_of_def Let_def refused_err this
  show "refused s (pfc_init_auto prr s)" if "b_lsi b = LSI_AUTO"
    using that assms by (auto simp: pfc_init_auto_def defs)
  show "refused s (pfc_init_compat b prr s)" if "b_lsi b \<noteq> LSI_AUTO"
    using that assms by (cases "b_lsi b") (auto simp: pfc_init_compat_def defs)
  have w: "RCAR_PRODUCT_H3 OR c \<noteq> prr AND (RCAR_PRODUCT_MASK OR RCAR_CUT_MASK)"
    if "prr AND RCAR_PRODUCT_MASK \<noteq> RCAR_PRODUCT_H3" "c \<in> {0, 1}" for c :: u32
    using chip_word [of RCAR_PRODUCT_H3 c prr] that by (subst eq_commute) auto
  show "refused s (pfc_init_cut b lcut prr s)" if "b_lsi b \<noteq> LSI_AUTO"
    using that assms w [of 0] w [of 1]
    by (cases "b_lsi b"; cases lcut)
      (auto simp: pfc_init_cut_def defs checked_run eq_commute [of RCAR_PRODUCT_H3] eq_commute [of RCAR_PRODUCT_M3]
        simp del: seqs.simps)
qed

lemma pfc_wrong_product:
  assumes "d_rd32 (m_dev s) (m_tr s) RCAR_PRR AND RCAR_PRODUCT_MASK \<notin> product_of (b_lsi b)"
  shows "refused s (pfc_init b lcut s)"
proof -
  let ?p = "d_rd32 (m_dev s) (m_tr s) RCAR_PRR"
  let ?s = "grown [Rd32 RCAR_PRR ?p] s"
  have "refused ?s ((if b_lsi b = LSI_AUTO then pfc_init_auto ?p
      else if lcut = CUT_COMPAT then pfc_init_compat b ?p else pfc_init_cut b lcut ?p) ?s)"
    using wrong_product_run [OF assms] by simp
  from refused_read [OF this] show ?thesis by (simp add: pfc_init_def bnd_read_32)
qed

text \<open>
  Property C6 (pfc_init_correct): if the product register names a chip that the build accepts (and
  the version that it was built for), \<^verbatim>\<open>pfc_init\<close> returns, and on hardware that drops every
  write to a locked register without its unlocking write none of its writes is lost: the registers
  end as if each write had gone through. Otherwise it panics and has written nothing. On the first
  chip family the transfer engine must come out of its stop within the fuel.
\<close>

theorem pfc_init_correct:
  fixes s :: machine
  defines "prr \<equiv> d_rd32 (m_dev s) (m_tr s) RCAR_PRR"
  assumes "prr AND RCAR_PRODUCT_MASK = RCAR_PRODUCT_M3 \<Longrightarrow>
    ready_32 (m_dev s) (m_fuel s) CPG_MSTPSR0 (\<lambda>v. v AND RMSTPCR0_RTDMAC \<noteq> 0)"
  shows "if pfc_accepts b lcut prr
    then \<exists>tr ws. pfc_init b lcut s = Done () (s\<lparr>m_tr := tr\<rparr>) \<and> writes tr = writes (m_tr s) @ ws \<and>
      (\<forall>m prev. fst (fold hw_write ws (m, prev)) = plain ws m)
    else \<exists>t. pfc_init b lcut s = Panic t \<and> writes (m_tr t) = writes (m_tr s)"
proof (cases "pfc_accepts b lcut prr")
  case True
  then obtain xs where "pfc_init b lcut s = Done () (grown xs s)" "guarded None (writes xs)"
    using pfc_init_result [of s b lcut] assms(2)
    by (auto simp: prr_def pfc_result_def pins_done_def chip_done_def split: if_splits)
  moreover from this(2) have "fst (fold hw_write (writes xs) (m, prev)) = plain (writes xs) m" for m prev
    by (rule guarded_effect [OF guarded_any])
  ultimately show ?thesis using True by auto
next
  case False
  then show ?thesis
    using pfc_init_result [of s b lcut] assms(2) by (auto simp: prr_def pfc_result_def refused_def)
qed

text \<open>Witness: the chip of the board.\<close>

theorem pfc_init_witness:
  "(\<exists>tr ws. pfc_init build_m3n CUT_COMPAT (boot_machine (const_device 0x5500) 1)
      = Done () ((boot_machine (const_device 0x5500) 1)\<lparr>m_tr := tr\<rparr>) \<and> writes tr = ws \<and>
      (\<forall>m prev. fst (fold hw_write ws (m, prev)) = plain ws m)) \<and>
    (\<exists>t. pfc_init build_m3n CUT_COMPAT (boot_machine (const_device 0x5700) 1) = Panic t)"
  using pfc_init_correct [of "boot_machine (const_device 0x5500) 1" build_m3n CUT_COMPAT]
    pfc_init_correct [of "boot_machine (const_device 0x5700) 1" build_m3n CUT_COMPAT]
  by (auto simp: boot_machine_def const_device_def pfc_accepts_def product_of_def build_m3n_def)



end
