(* ===== verification/Qos.thy ===== *)
theory Qos
  imports Build
begin

text \<open>
  The bus arbitration settings, \<^verbatim>\<open>CortexR7_Loader/qos\<close>: what the ten chip files share. The
  routines write constants only, in the order the hardware needs: the DRAM controller's registers
  between its unlocking and its locking write, the bandwidth tables twice (two banks), and only then
  the start of the arbitration. \<open>qos_trace\<close> is that order as an automaton over the stores, and
  \<open>qos_triple\<close> a triple on it, with one rule per kind of statement.

  A build whose split of the DRAM the chip does not support stops with \<^verbatim>\<open>#error\<close> where the
  chip is fixed, and with a panic at run time where it is not; the model has the panic.
\<close>

datatype qos_type = QOS_TYPE_DEFAULT | QOS_NONE

record qos_build = build +
  q_type :: qos_type
  q_ref_default :: bool
  q_rewt :: bool

definition qos_build_m3n :: qos_build where
  "qos_build_m3n = build.extend build_m3n (qos_build.fields QOS_TYPE_DEFAULT True True)"

abbreviation MODEMR_BOOT_CPU_MASK :: u32 where "MODEMR_BOOT_CPU_MASK \<equiv> 0x000000C0"
abbreviation MODEMR_BOOT_CPU_CA57 :: u32 where "MODEMR_BOOT_CPU_CA57 \<equiv> 0x00000000"
abbreviation MODEMR_BOOT_CPU_CA53 :: u32 where "MODEMR_BOOT_CPU_CA53 \<equiv> 0x00000040"
abbreviation ADSPLCR0_ADRMODE_DEFAULT :: u32 where "ADSPLCR0_ADRMODE_DEFAULT \<equiv> push_bit 31 0"
abbreviation ADSPLCR0_SPLITSEL :: "u32 \<Rightarrow> u32" where "ADSPLCR0_SPLITSEL x \<equiv> push_bit 16 x"
abbreviation ADSPLCR0_AREA :: "u32 \<Rightarrow> u32" where "ADSPLCR0_AREA x \<equiv> push_bit 8 x"
abbreviation ADSPLCR0_SWP :: u32 where "ADSPLCR0_SWP \<equiv> 0x0C"
abbreviation OPERATING_FREQ :: u32 where "OPERATING_FREQ \<equiv> 400"
abbreviation BASE_SUB_SLOT_NUM :: u32 where "BASE_SUB_SLOT_NUM \<equiv> 0x6"
abbreviation SUB_SLOT_CYCLE :: u32 where "SUB_SLOT_CYCLE \<equiv> 0x7E"
abbreviation SL_INIT_REFFSSLOT :: u32 where "SL_INIT_REFFSSLOT \<equiv> push_bit 24 0x3"
abbreviation SL_INIT_SLOTSSLOT :: u32 where "SL_INIT_SLOTSSLOT \<equiv> push_bit 16 (BASE_SUB_SLOT_NUM - 1)"
abbreviation SL_INIT_SSLOTCLK :: u32 where "SL_INIT_SSLOTCLK \<equiv> SUB_SLOT_CYCLE - 1"
abbreviation QOSWT_WTSET0_CYCLE :: u32 where
  "QOSWT_WTSET0_CYCLE \<equiv> (SUB_SLOT_CYCLE * BASE_SUB_SLOT_NUM * 1000) div OPERATING_FREQ"

definition SUB_SLOT_CYCLE_M3N :: "qos_build \<Rightarrow> u32" where
  "SUB_SLOT_CYCLE_M3N b = (if q_ref_default b then 0x7E else 0xFC)"

definition SL_INIT_SSLOTCLK_M3N :: "qos_build \<Rightarrow> u32" where
  "SL_INIT_SSLOTCLK_M3N b = SUB_SLOT_CYCLE_M3N b - 1"

definition QOSWT_WTSET0_CYCLE_M3N :: "qos_build \<Rightarrow> u32" where
  "QOSWT_WTSET0_CYCLE_M3N b = (SUB_SLOT_CYCLE_M3N b * BASE_SUB_SLOT_NUM * 1000) div OPERATING_FREQ"

definition SUB_SLOT_CYCLE_H3_20 :: "qos_build \<Rightarrow> u32" where
  "SUB_SLOT_CYCLE_H3_20 b = (if q_ref_default b then 0x7E else 0xFC)"

definition SL_INIT_SSLOTCLK_H3_20 :: "qos_build \<Rightarrow> u32" where
  "SL_INIT_SSLOTCLK_H3_20 b = SUB_SLOT_CYCLE_H3_20 b - 1"

definition QOSWT_WTSET0_CYCLE_H3_20 :: "qos_build \<Rightarrow> u32" where
  "QOSWT_WTSET0_CYCLE_H3_20 b = (SUB_SLOT_CYCLE_H3_20 b * BASE_SUB_SLOT_NUM * 1000) div OPERATING_FREQ"

definition SUB_SLOT_CYCLE_H3_30 :: "qos_build \<Rightarrow> u32" where
  "SUB_SLOT_CYCLE_H3_30 b = SUB_SLOT_CYCLE_H3_20 b"

definition SL_INIT_SSLOTCLK_H3_30 :: "qos_build \<Rightarrow> u32" where
  "SL_INIT_SSLOTCLK_H3_30 b = SUB_SLOT_CYCLE_H3_30 b - 1"

definition QOSWT_WTSET0_CYCLE_H3_30 :: "qos_build \<Rightarrow> u32" where
  "QOSWT_WTSET0_CYCLE_H3_30 b = (SUB_SLOT_CYCLE_H3_30 b * BASE_SUB_SLOT_NUM * 1000) div OPERATING_FREQ"

definition SUB_SLOT_CYCLE_H3N :: "qos_build \<Rightarrow> u32" where
  "SUB_SLOT_CYCLE_H3N b = (if q_ref_default b then 0x7E else 0xFC)"

definition SL_INIT_SSLOTCLK_H3N :: "qos_build \<Rightarrow> u32" where
  "SL_INIT_SSLOTCLK_H3N b = SUB_SLOT_CYCLE_H3N b - 1"

definition QOSWT_WTSET0_CYCLE_H3N :: "qos_build \<Rightarrow> u32" where
  "QOSWT_WTSET0_CYCLE_H3N b = (SUB_SLOT_CYCLE_H3N b * BASE_SUB_SLOT_NUM * 1000) div OPERATING_FREQ"

definition SUB_SLOT_CYCLE_M3_11 :: "qos_build \<Rightarrow> u32" where
  "SUB_SLOT_CYCLE_M3_11 b = (if q_ref_default b then 0x7E else 0xFC)"

definition SL_INIT_SSLOTCLK_M3_11 :: "qos_build \<Rightarrow> u32" where
  "SL_INIT_SSLOTCLK_M3_11 b = SUB_SLOT_CYCLE_M3_11 b - 1"

definition QOSWT_WTSET0_CYCLE_M3_11 :: "qos_build \<Rightarrow> u32" where
  "QOSWT_WTSET0_CYCLE_M3_11 b = (SUB_SLOT_CYCLE_M3_11 b * BASE_SUB_SLOT_NUM * 1000) div OPERATING_FREQ"

definition SUB_SLOT_CYCLE_M3_30 :: "qos_build \<Rightarrow> u32" where
  "SUB_SLOT_CYCLE_M3_30 b = (if q_ref_default b then 0x7E else 0xFC)"

definition SL_INIT_SSLOTCLK_M3_30 :: "qos_build \<Rightarrow> u32" where
  "SL_INIT_SSLOTCLK_M3_30 b = SUB_SLOT_CYCLE_M3_30 b - 1"

definition QOSWT_WTSET0_CYCLE_M3_30 :: "qos_build \<Rightarrow> u32" where
  "QOSWT_WTSET0_CYCLE_M3_30 b = (SUB_SLOT_CYCLE_M3_30 b * BASE_SUB_SLOT_NUM * 1000) div OPERATING_FREQ"

definition SUB_SLOT_CYCLE_E3 :: "qos_build \<Rightarrow> u32" where
  "SUB_SLOT_CYCLE_E3 b = (if q_ref_default b then 0xAF else 0x15E)"

definition SL_INIT_SSLOTCLK_E3 :: "qos_build \<Rightarrow> u32" where
  "SL_INIT_SSLOTCLK_E3 b = SUB_SLOT_CYCLE_E3 b - 1"

abbreviation AXI_ADSPLCR2 :: u32 where "AXI_ADSPLCR2 \<equiv> 0xE6784010"
abbreviation AXI_MMCR :: u32 where "AXI_MMCR \<equiv> 0xE6784300"
abbreviation DBSC_DBSYSCNT0 :: u32 where "DBSC_DBSYSCNT0 \<equiv> 0xE6790100"
abbreviation DBSC_DBCAM0CNF1 :: u32 where "DBSC_DBCAM0CNF1 \<equiv> 0xE6790904"
abbreviation DBSC_DBCAM0CNF2 :: u32 where "DBSC_DBCAM0CNF2 \<equiv> 0xE6790908"
abbreviation DBSC_DBCAM0CNF3 :: u32 where "DBSC_DBCAM0CNF3 \<equiv> 0xE679090C"
abbreviation DBSC_DBSCHCNT0 :: u32 where "DBSC_DBSCHCNT0 \<equiv> 0xE6791000"
abbreviation DBSC_DBSCHCNT1 :: u32 where "DBSC_DBSCHCNT1 \<equiv> 0xE6791004"
abbreviation DBSC_DBSCHSZ0 :: u32 where "DBSC_DBSCHSZ0 \<equiv> 0xE6791010"
abbreviation DBSC_DBSCHRW0 :: u32 where "DBSC_DBSCHRW0 \<equiv> 0xE6791020"
abbreviation DBSC_DBSCHQOS00 :: u32 where "DBSC_DBSCHQOS00 \<equiv> 0xE6791030"
abbreviation DBSC_DBSCHQOS_0_0 :: u32 where "DBSC_DBSCHQOS_0_0 \<equiv> 0xE6791030"
abbreviation DBSC_DBSCHQOS01 :: u32 where "DBSC_DBSCHQOS01 \<equiv> 0xE6791034"
abbreviation DBSC_DBSCHQOS_0_1 :: u32 where "DBSC_DBSCHQOS_0_1 \<equiv> 0xE6791034"
abbreviation DBSC_DBSCHQOS02 :: u32 where "DBSC_DBSCHQOS02 \<equiv> 0xE6791038"
abbreviation DBSC_DBSCHQOS_0_2 :: u32 where "DBSC_DBSCHQOS_0_2 \<equiv> 0xE6791038"
abbreviation DBSC_DBSCHQOS03 :: u32 where "DBSC_DBSCHQOS03 \<equiv> 0xE679103C"
abbreviation DBSC_DBSCHQOS_0_3 :: u32 where "DBSC_DBSCHQOS_0_3 \<equiv> 0xE679103C"
abbreviation DBSC_DBSCHQOS40 :: u32 where "DBSC_DBSCHQOS40 \<equiv> 0xE6791070"
abbreviation DBSC_DBSCHQOS_4_0 :: u32 where "DBSC_DBSCHQOS_4_0 \<equiv> 0xE6791070"
abbreviation DBSC_DBSCHQOS41 :: u32 where "DBSC_DBSCHQOS41 \<equiv> 0xE6791074"
abbreviation DBSC_DBSCHQOS_4_1 :: u32 where "DBSC_DBSCHQOS_4_1 \<equiv> 0xE6791074"
abbreviation DBSC_DBSCHQOS42 :: u32 where "DBSC_DBSCHQOS42 \<equiv> 0xE6791078"
abbreviation DBSC_DBSCHQOS_4_2 :: u32 where "DBSC_DBSCHQOS_4_2 \<equiv> 0xE6791078"
abbreviation DBSC_DBSCHQOS43 :: u32 where "DBSC_DBSCHQOS43 \<equiv> 0xE679107C"
abbreviation DBSC_DBSCHQOS_4_3 :: u32 where "DBSC_DBSCHQOS_4_3 \<equiv> 0xE679107C"
abbreviation DBSC_DBSCHQOS90 :: u32 where "DBSC_DBSCHQOS90 \<equiv> 0xE67910C0"
abbreviation DBSC_DBSCHQOS_9_0 :: u32 where "DBSC_DBSCHQOS_9_0 \<equiv> 0xE67910C0"
abbreviation DBSC_DBSCHQOS91 :: u32 where "DBSC_DBSCHQOS91 \<equiv> 0xE67910C4"
abbreviation DBSC_DBSCHQOS_9_1 :: u32 where "DBSC_DBSCHQOS_9_1 \<equiv> 0xE67910C4"
abbreviation DBSC_DBSCHQOS92 :: u32 where "DBSC_DBSCHQOS92 \<equiv> 0xE67910C8"
abbreviation DBSC_DBSCHQOS_9_2 :: u32 where "DBSC_DBSCHQOS_9_2 \<equiv> 0xE67910C8"
abbreviation DBSC_DBSCHQOS93 :: u32 where "DBSC_DBSCHQOS93 \<equiv> 0xE67910CC"
abbreviation DBSC_DBSCHQOS_9_3 :: u32 where "DBSC_DBSCHQOS_9_3 \<equiv> 0xE67910CC"
abbreviation DBSC_DBSCHQOS120 :: u32 where "DBSC_DBSCHQOS120 \<equiv> 0xE67910F0"
abbreviation DBSC_DBSCHQOS121 :: u32 where "DBSC_DBSCHQOS121 \<equiv> 0xE67910F4"
abbreviation DBSC_DBSCHQOS122 :: u32 where "DBSC_DBSCHQOS122 \<equiv> 0xE67910F8"
abbreviation DBSC_DBSCHQOS123 :: u32 where "DBSC_DBSCHQOS123 \<equiv> 0xE67910FC"
abbreviation DBSC_DBSCHQOS130 :: u32 where "DBSC_DBSCHQOS130 \<equiv> 0xE6791100"
abbreviation DBSC_DBSCHQOS_13_0 :: u32 where "DBSC_DBSCHQOS_13_0 \<equiv> 0xE6791100"
abbreviation DBSC_DBSCHQOS131 :: u32 where "DBSC_DBSCHQOS131 \<equiv> 0xE6791104"
abbreviation DBSC_DBSCHQOS_13_1 :: u32 where "DBSC_DBSCHQOS_13_1 \<equiv> 0xE6791104"
abbreviation DBSC_DBSCHQOS132 :: u32 where "DBSC_DBSCHQOS132 \<equiv> 0xE6791108"
abbreviation DBSC_DBSCHQOS_13_2 :: u32 where "DBSC_DBSCHQOS_13_2 \<equiv> 0xE6791108"
abbreviation DBSC_DBSCHQOS133 :: u32 where "DBSC_DBSCHQOS133 \<equiv> 0xE679110C"
abbreviation DBSC_DBSCHQOS_13_3 :: u32 where "DBSC_DBSCHQOS_13_3 \<equiv> 0xE679110C"
abbreviation DBSC_DBSCHQOS140 :: u32 where "DBSC_DBSCHQOS140 \<equiv> 0xE6791110"
abbreviation DBSC_DBSCHQOS_14_0 :: u32 where "DBSC_DBSCHQOS_14_0 \<equiv> 0xE6791110"
abbreviation DBSC_DBSCHQOS141 :: u32 where "DBSC_DBSCHQOS141 \<equiv> 0xE6791114"
abbreviation DBSC_DBSCHQOS_14_1 :: u32 where "DBSC_DBSCHQOS_14_1 \<equiv> 0xE6791114"
abbreviation DBSC_DBSCHQOS142 :: u32 where "DBSC_DBSCHQOS142 \<equiv> 0xE6791118"
abbreviation DBSC_DBSCHQOS_14_2 :: u32 where "DBSC_DBSCHQOS_14_2 \<equiv> 0xE6791118"
abbreviation DBSC_DBSCHQOS143 :: u32 where "DBSC_DBSCHQOS143 \<equiv> 0xE679111C"
abbreviation DBSC_DBSCHQOS_14_3 :: u32 where "DBSC_DBSCHQOS_14_3 \<equiv> 0xE679111C"
abbreviation DBSC_DBSCHQOS150 :: u32 where "DBSC_DBSCHQOS150 \<equiv> 0xE6791120"
abbreviation DBSC_DBSCHQOS_15_0 :: u32 where "DBSC_DBSCHQOS_15_0 \<equiv> 0xE6791120"
abbreviation DBSC_DBSCHQOS151 :: u32 where "DBSC_DBSCHQOS151 \<equiv> 0xE6791124"
abbreviation DBSC_DBSCHQOS_15_1 :: u32 where "DBSC_DBSCHQOS_15_1 \<equiv> 0xE6791124"
abbreviation DBSC_DBSCHQOS152 :: u32 where "DBSC_DBSCHQOS152 \<equiv> 0xE6791128"
abbreviation DBSC_DBSCHQOS_15_2 :: u32 where "DBSC_DBSCHQOS_15_2 \<equiv> 0xE6791128"
abbreviation DBSC_DBSCHQOS153 :: u32 where "DBSC_DBSCHQOS153 \<equiv> 0xE679112C"
abbreviation DBSC_DBSCHQOS_15_3 :: u32 where "DBSC_DBSCHQOS_15_3 \<equiv> 0xE679112C"
abbreviation DBSC_SCFCTST2 :: u32 where "DBSC_SCFCTST2 \<equiv> 0xE679170C"
abbreviation AXI_TR3CR :: u32 where "AXI_TR3CR \<equiv> 0xE67D100C"
abbreviation AXI_TR4CR :: u32 where "AXI_TR4CR \<equiv> 0xE67D1014"
abbreviation MSTAT_FIX_QOS_BANK0 :: u32 where "MSTAT_FIX_QOS_BANK0 \<equiv> 0xE67E0000"
abbreviation QOSBW_FIX_QOS_BANK0 :: u32 where "QOSBW_FIX_QOS_BANK0 \<equiv> 0xE67E0000"
abbreviation QOSWT_FIX_WTQOS_BANK0 :: u32 where "QOSWT_FIX_WTQOS_BANK0 \<equiv> 0xE67E0800"
abbreviation MSTAT_FIX_QOS_BANK1 :: u32 where "MSTAT_FIX_QOS_BANK1 \<equiv> 0xE67E1000"
abbreviation QOSBW_FIX_QOS_BANK1 :: u32 where "QOSBW_FIX_QOS_BANK1 \<equiv> 0xE67E1000"
abbreviation QOSWT_FIX_WTQOS_BANK1 :: u32 where "QOSWT_FIX_WTQOS_BANK1 \<equiv> 0xE67E1800"
abbreviation MSTAT_BE_QOS_BANK0 :: u32 where "MSTAT_BE_QOS_BANK0 \<equiv> 0xE67E2000"
abbreviation QOSBW_BE_QOS_BANK0 :: u32 where "QOSBW_BE_QOS_BANK0 \<equiv> 0xE67E2000"
abbreviation QOSWT_BE_WTQOS_BANK0 :: u32 where "QOSWT_BE_WTQOS_BANK0 \<equiv> 0xE67E2800"
abbreviation MSTAT_BE_QOS_BANK1 :: u32 where "MSTAT_BE_QOS_BANK1 \<equiv> 0xE67E3000"
abbreviation QOSBW_BE_QOS_BANK1 :: u32 where "QOSBW_BE_QOS_BANK1 \<equiv> 0xE67E3000"
abbreviation QOSWT_BE_WTQOS_BANK1 :: u32 where "QOSWT_BE_WTQOS_BANK1 \<equiv> 0xE67E3800"
abbreviation MSTAT_SL_INIT :: u32 where "MSTAT_SL_INIT \<equiv> 0xE67E8000"
abbreviation QOSCTRL_SL_INIT :: u32 where "QOSCTRL_SL_INIT \<equiv> 0xE67E8000"
abbreviation MSTAT_REF_ARS :: u32 where "MSTAT_REF_ARS \<equiv> 0xE67E8004"
abbreviation QOSCTRL_REF_ARS :: u32 where "QOSCTRL_REF_ARS \<equiv> 0xE67E8004"
abbreviation MSTAT_STATQC :: u32 where "MSTAT_STATQC \<equiv> 0xE67E8008"
abbreviation QOSCTRL_STATQC :: u32 where "QOSCTRL_STATQC \<equiv> 0xE67E8008"
abbreviation QOSWT_WTEN :: u32 where "QOSWT_WTEN \<equiv> 0xE67E8030"
abbreviation QOSWT_WTREF :: u32 where "QOSWT_WTREF \<equiv> 0xE67E8034"
abbreviation QOSWT_WTSET0 :: u32 where "QOSWT_WTSET0 \<equiv> 0xE67E8038"
abbreviation QOSWT_WTSET1 :: u32 where "QOSWT_WTSET1 \<equiv> 0xE67E803C"
abbreviation QOSCTRL_RAS :: u32 where "QOSCTRL_RAS \<equiv> 0xE67F0000"
abbreviation RALLOC_RAS :: u32 where "RALLOC_RAS \<equiv> 0xE67F0000"
abbreviation RALLOC_FIXTH :: u32 where "RALLOC_FIXTH \<equiv> 0xE67F0004"
abbreviation QOSCTRL_RAEN :: u32 where "QOSCTRL_RAEN \<equiv> 0xE67F0018"
abbreviation RALLOC_RAEN :: u32 where "RALLOC_RAEN \<equiv> 0xE67F0018"
abbreviation RALLOC_REGGD :: u32 where "RALLOC_REGGD \<equiv> 0xE67F0020"
abbreviation QOSCTRL_DANN :: u32 where "QOSCTRL_DANN \<equiv> 0xE67F0030"
abbreviation RALLOC_DANN :: u32 where "RALLOC_DANN \<equiv> 0xE67F0030"
abbreviation QOSCTRL_DANT :: u32 where "QOSCTRL_DANT \<equiv> 0xE67F0038"
abbreviation RALLOC_DANT :: u32 where "RALLOC_DANT \<equiv> 0xE67F0038"
abbreviation RALLOC_EC :: u32 where "RALLOC_EC \<equiv> 0xE67F003C"
abbreviation RALLOC_EMS :: u32 where "RALLOC_EMS \<equiv> 0xE67F0040"
abbreviation QOSCTRL_FSS :: u32 where "QOSCTRL_FSS \<equiv> 0xE67F0048"
abbreviation RALLOC_FSS :: u32 where "RALLOC_FSS \<equiv> 0xE67F0048"
abbreviation QOSCTRL_INSFC :: u32 where "QOSCTRL_INSFC \<equiv> 0xE67F0050"
abbreviation RALLOC_INSFC :: u32 where "RALLOC_INSFC \<equiv> 0xE67F0050"
abbreviation RALLOC_BERR :: u32 where "RALLOC_BERR \<equiv> 0xE67F0054"
abbreviation QOSCTRL_EARLYR :: u32 where "QOSCTRL_EARLYR \<equiv> 0xE67F0060"
abbreviation QOSCTRL_RACNT0 :: u32 where "QOSCTRL_RACNT0 \<equiv> 0xE67F0080"
abbreviation RALLOC_RACNT0 :: u32 where "RALLOC_RACNT0 \<equiv> 0xE67F0080"
abbreviation QOSCTRL_STATGEN0 :: u32 where "QOSCTRL_STATGEN0 \<equiv> 0xE67F0088"
abbreviation CPU_ACT0 :: u32 where "CPU_ACT0 \<equiv> 0xF1300800"
abbreviation CPU_ACT1 :: u32 where "CPU_ACT1 \<equiv> 0xF1340800"
abbreviation CPU_ACT2 :: u32 where "CPU_ACT2 \<equiv> 0xF1380800"
abbreviation CPU_ACT3 :: u32 where "CPU_ACT3 \<equiv> 0xF13C0800"
abbreviation GPU_ACT0 :: u32 where "GPU_ACT0 \<equiv> 0xFD820800"
abbreviation GPU_ACT_GRD :: u32 where "GPU_ACT_GRD \<equiv> 0xFD820808"
abbreviation GPU_ACT1 :: u32 where "GPU_ACT1 \<equiv> 0xFD821800"
abbreviation GPU_ACT2 :: u32 where "GPU_ACT2 \<equiv> 0xFD822800"
abbreviation GPU_ACT3 :: u32 where "GPU_ACT3 \<equiv> 0xFD823800"
abbreviation GPU_ACT4 :: u32 where "GPU_ACT4 \<equiv> 0xFD824800"
abbreviation GPU_ACT5 :: u32 where "GPU_ACT5 \<equiv> 0xFD825800"
abbreviation GPU_ACT6 :: u32 where "GPU_ACT6 \<equiv> 0xFD826800"
abbreviation GPU_ACT7 :: u32 where "GPU_ACT7 \<equiv> 0xFD827800"
abbreviation RT_ACT0 :: u32 where "RT_ACT0 \<equiv> 0xFFC50800"
abbreviation RT_ACT1 :: u32 where "RT_ACT1 \<equiv> 0xFFC51800"
abbreviation OSWT_WTREF_SLOT0_EN_REQ1_SLOT :: nat where "OSWT_WTREF_SLOT0_EN_REQ1_SLOT \<equiv> 3"
abbreviation OSWT_WTREF_SLOT0_EN_REQ2_SLOT :: nat where "OSWT_WTREF_SLOT0_EN_REQ2_SLOT \<equiv> 9"
abbreviation QOSWT_TIME_BANK0 :: u32 where "QOSWT_TIME_BANK0 \<equiv> 20000000"
abbreviation QOSWT_WTEN_ENABLE :: u32 where "QOSWT_WTEN_ENABLE \<equiv> 0x1"
abbreviation QOSWT_WTREF_SLOT0_EN :: u32 where "QOSWT_WTREF_SLOT0_EN \<equiv> ((push_bit OSWT_WTREF_SLOT0_EN_REQ1_SLOT 0x1) OR (push_bit OSWT_WTREF_SLOT0_EN_REQ2_SLOT 0x1))"
abbreviation QOSWT_WTREF_SLOT1_EN :: u32 where "QOSWT_WTREF_SLOT1_EN \<equiv> QOSWT_WTREF_SLOT0_EN"
abbreviation QOSWT_WTSET0_REQ_SSLOT0 :: u32 where "QOSWT_WTSET0_REQ_SSLOT0 \<equiv> 5"
abbreviation WT_BASE_SUB_SLOT_NUM0 :: u32 where "WT_BASE_SUB_SLOT_NUM0 \<equiv> 12"
abbreviation QOSWT_WTSET0_SSLOT0 :: u32 where "QOSWT_WTSET0_SSLOT0 \<equiv> (QOSWT_WTSET0_REQ_SSLOT0 - 1)"
abbreviation QOSWT_WTSET0_SLOTSLOT0 :: u32 where "QOSWT_WTSET0_SLOTSLOT0 \<equiv> (WT_BASE_SUB_SLOT_NUM0 - 1)"
abbreviation QOSWT_WTSET1_SSLOT1 :: u32 where "QOSWT_WTSET1_SSLOT1 \<equiv> QOSWT_WTSET0_SSLOT0"
abbreviation QOSWT_WTSET1_SLOTSLOT1 :: u32 where "QOSWT_WTSET1_SLOTSLOT1 \<equiv> QOSWT_WTSET0_SLOTSLOT0"

definition io_write_32 :: "u32 \<Rightarrow> u32 \<Rightarrow> unit prog" where
  "io_write_32 addr v = emit (Wr32 addr v)"

definition io_write_64 :: "u32 \<Rightarrow> u64 \<Rightarrow> unit prog" where
  "io_write_64 addr v = emit (Wr64 addr v)"

text \<open>The loops that fill the two banks, from a table of values or of offsets and values.\<close>

definition qos_table :: "u32 \<Rightarrow> u32 \<Rightarrow> u64 list \<Rightarrow> unit prog" where
  "qos_table bank0 bank1 tbl = for_each [0..<length tbl] (\<lambda>i. seqs
     [io_write_64 (bank0 + of_nat i * 8) (tbl ! i), io_write_64 (bank1 + of_nat i * 8) (tbl ! i)])"

definition mstat_table :: "u32 \<Rightarrow> u32 \<Rightarrow> (u32 \<times> u64) list \<Rightarrow> unit prog" where
  "mstat_table bank0 bank1 tbl = for_each [0..<length tbl] (\<lambda>i. seqs
     [io_write_64 (bank0 + fst (tbl ! i)) (snd (tbl ! i)), io_write_64 (bank1 + fst (tbl ! i)) (snd (tbl ! i))])"

section \<open>The order of the stores\<close>

text \<open>The 32-bit and 64-bit writes of a history, oldest first.\<close>

fun stores :: "access list \<Rightarrow> access list" where
  "stores [] = []"
| "stores (Wr32 a v # t) = stores t @ [Wr32 a v]"
| "stores (Wr64 a v # t) = stores t @ [Wr64 a v]"
| "stores (_ # t) = stores t"

definition dbsc_reg :: "u32 \<Rightarrow> bool" where
  "dbsc_reg a \<longleftrightarrow> a AND 0xFFFF0000 = 0xE6790000 \<and> a \<noteq> DBSC_DBSYSCNT0"

definition free_reg :: "u32 \<Rightarrow> bool" where
  "free_reg a \<longleftrightarrow> \<not> dbsc_reg a \<and> a \<noteq> DBSC_DBSYSCNT0 \<and> a \<noteq> QOSCTRL_RAEN"

text \<open>
  The state: whether the DRAM controller accepts writes, whether the arbitration runs, and the entry
  of the first bank that the second bank still misses. A step is refused (\<open>None\<close>) when the
  controller is locked, the running arbitration's tables are touched, or the banks differ.
\<close>

datatype qos_state = Qos_State (dbsc_open: bool) (running: bool) (missing: "(u32 \<times> u64) option")

fun qos_step :: "access \<Rightarrow> qos_state \<Rightarrow> qos_state option" where
  "qos_step (Wr32 a v) (Qos_State d r w) =
     (if a = DBSC_DBSYSCNT0 then Some (Qos_State (v = 0x1234) r w)
      else if dbsc_reg a then (if d then Some (Qos_State d r w) else None)
      else if a = QOSCTRL_RAEN then Some (Qos_State d (v = 1) w)
      else Some (Qos_State d r w))"
| "qos_step (Wr64 a v) (Qos_State d r w) =
     (if r then None
      else if a = QOSCTRL_DANN \<or> a = RALLOC_EMS then Some (Qos_State d r w)
      else case w of
          None \<Rightarrow> Some (Qos_State d r (Some (a + 0x1000, v)))
        | Some x \<Rightarrow> if x = (a, v) then Some (Qos_State d r None) else None)"
| "qos_step _ q = Some q"

fun qos_trace :: "access list \<Rightarrow> qos_state \<Rightarrow> qos_state option" where
  "qos_trace [] q = Some q"
| "qos_trace (x # xs) q = Option.bind (qos_step x q) (qos_trace xs)"

lemma qos_trace_append: "qos_trace (xs @ ys) q = Option.bind (qos_trace xs q) (qos_trace ys)"
  by (induction xs q rule: qos_trace.induct) (auto split: Option.bind_split)

lemma stores_append [simp]: "stores (xs @ ys) = stores ys @ stores xs"
  by (induction xs rule: stores.induct) simp_all

lemma stores_Putc [simp]: "stores (rev (map Putc cs)) = []" "stores (map Putc cs) = []"
  by (induction cs) simp_all

section \<open>Triples\<close>

definition qos_triple :: "qos_state \<Rightarrow> unit prog \<Rightarrow> qos_state \<Rightarrow> bool" where
  "qos_triple q p q' \<longleftrightarrow> (\<forall>s. \<exists>xs. p s = Done () (grown xs s) \<and> qos_trace (stores xs) q = Some q')"

lemma qos_tripleI:
  assumes "\<And>s. p s = Done () (grown (h s) s)" and "\<And>s. qos_trace (stores (h s)) q = Some q'"
  shows "qos_triple q p q'"
  using assms by (auto simp: qos_triple_def)

lemma qos_tripleE:
  assumes "qos_triple q p q'"
  obtains xs where "p s = Done () (grown xs s)" "qos_trace (stores xs) q = Some q'"
  using assms [unfolded qos_triple_def, rule_format, of s] by (elim exE conjE) (rule that)

lemma qos_nil: "qos_triple q (ret ()) q"
  by (rule qos_tripleI [where h = "\<lambda>_. []"]) (simp_all add: ret_def)

lemma qos_bnd:
  assumes "qos_triple q p q1" and "qos_triple q1 p' q2"
  shows "qos_triple q (bnd p (\<lambda>_. p')) q2"
  unfolding qos_triple_def
proof
  fix s :: machine
  obtain xs where 1: "p s = Done () (grown xs s)" "qos_trace (stores xs) q = Some q1"
    using assms(1) by (rule qos_tripleE)
  obtain ys where 2: "p' (grown xs s) = Done () (grown ys (grown xs s))" "qos_trace (stores ys) q1 = Some q2"
    using assms(2) by (rule qos_tripleE)
  show "\<exists>xs. bnd p (\<lambda>_. p') s = Done () (grown xs s) \<and> qos_trace (stores xs) q = Some q2"
    by (rule exI [of _ "ys @ xs"]) (use 1 2 in \<open>simp add: bnd_def qos_trace_append\<close>)
qed

lemma qos_seqs: "qos_triple q p q1 \<Longrightarrow> qos_triple q1 (seqs ps) q2 \<Longrightarrow> qos_triple q (seqs (p # ps)) q2"
  unfolding seqs.simps by (rule qos_bnd)

lemma qos_skip: "qos_triple q (seqs []) q"
  unfolding seqs.simps by (rule qos_nil)

lemma qos_if:
  "(c \<Longrightarrow> qos_triple q p q') \<Longrightarrow> (\<not> c \<Longrightarrow> qos_triple q p' q') \<Longrightarrow> qos_triple q (if c then p else p') q'"
  by simp

lemma qos_whenp: "(c \<Longrightarrow> qos_triple q p q) \<Longrightarrow> qos_triple q (whenp c p) q"
  by (cases c) (simp_all add: qos_nil)

lemma qos_read:
  assumes "\<And>v. qos_triple q (f v) q'"
  shows "qos_triple q (bnd (mmio_read_32 a) f) q'"
  unfolding qos_triple_def
proof
  fix s :: machine
  let ?v = "d_rd32 (m_dev s) (m_tr s) a"
  obtain xs where "f ?v (grown [Rd32 a ?v] s) = Done () (grown xs (grown [Rd32 a ?v] s))"
      "qos_trace (stores xs) q = Some q'"
    using assms by (rule qos_tripleE)
  then show "\<exists>xs. bnd (mmio_read_32 a) f s = Done () (grown xs s) \<and> qos_trace (stores xs) q = Some q'"
    by (intro exI [of _ "xs @ [Rd32 a ?v]"]) (simp add: bnd_read_32)
qed

lemma qos_gets:
  assumes "\<And>v. qos_triple q (f v) q'"
  shows "qos_triple q (bnd (gets h) f) q'"
  using assms unfolding qos_triple_def bnd_gets by blast

lemma qos_let: "qos_triple q (f x) q' \<Longrightarrow> qos_triple q (let y = x in f y) q'"
  by simp

lemma qos_notice:
  assumes "format fmt args \<noteq> None"
  shows "qos_triple q (NOTICE fmt args) q"
proof -
  obtain out where "format fmt args = Some out" using assms by blast
  then show ?thesis
    by (intro qos_tripleI [where h = "\<lambda>_. rev (map Putc (bytes ''NOTICE:  '' @ out))"]) (simp_all add: NOTICE_run say_def)
qed

text \<open>One store.\<close>

lemma qos_store: "qos_step x q = Some q' \<Longrightarrow> stores [x] = [x] \<Longrightarrow> qos_triple q (emit x) q'"
  by (rule qos_tripleI [where h = "\<lambda>_. [x]"]) (simp_all add: emit_run)

lemma qos_unlock: "qos_triple (Qos_State d r w) (io_write_32 DBSC_DBSYSCNT0 0x1234) (Qos_State True r w)"
  and qos_lock: "qos_triple (Qos_State d r w) (io_write_32 DBSC_DBSYSCNT0 0) (Qos_State False r w)"
  and qos_start: "qos_triple (Qos_State d r w) (io_write_32 QOSCTRL_RAEN 1) (Qos_State d True w)"
  unfolding io_write_32_def by (rule qos_store; simp add: dbsc_reg_def)+

lemma qos_dbsc: "dbsc_reg a \<Longrightarrow> qos_triple (Qos_State True r w) (io_write_32 a v) (Qos_State True r w)"
  unfolding io_write_32_def by (rule qos_store) (auto simp: dbsc_reg_def)

lemma qos_free: "free_reg a \<Longrightarrow> qos_triple (Qos_State d r w) (io_write_32 a v) (Qos_State d r w)"
  unfolding io_write_32_def by (rule qos_store) (auto simp: free_reg_def)

lemma qos_dann: "qos_triple (Qos_State d False w) (io_write_64 QOSCTRL_DANN v) (Qos_State d False w)"
  and qos_ems: "qos_triple (Qos_State d False w) (io_write_64 RALLOC_EMS v) (Qos_State d False w)"
  unfolding io_write_64_def by (rule qos_store; simp)+

definition table_reg :: "u32 \<Rightarrow> bool" where
  "table_reg a \<longleftrightarrow> a \<noteq> QOSCTRL_DANN \<and> a \<noteq> RALLOC_EMS"

lemma qos_entry:
  assumes "table_reg a" and "table_reg (a + 0x1000)"
  shows "qos_triple (Qos_State d False None) (seqs [io_write_64 a v, io_write_64 (a + 0x1000) v])
    (Qos_State d False None)"
  by (rule qos_seqs [OF _ qos_seqs [OF _ qos_skip]]; unfold io_write_64_def, rule qos_store [where q' = "Qos_State d False (Some (a + 0x1000, v))"] qos_store)
    (use assms in \<open>auto simp: table_reg_def\<close>)

lemma qos_for_each:
  assumes "\<And>x. x \<in> set xs \<Longrightarrow> qos_triple q (f x) q"
  shows "qos_triple q (for_each xs f) q"
  using assms by (induction xs) (auto simp: qos_nil intro: qos_bnd)

text \<open>Both kinds of table: the offsets stay below the size of a bank.\<close>

definition bank_pair :: "u32 \<Rightarrow> u32 \<Rightarrow> bool" where
  "bank_pair b0 b1 \<longleftrightarrow> b0 \<in> {QOSBW_FIX_QOS_BANK0, QOSBW_BE_QOS_BANK0, QOSWT_FIX_WTQOS_BANK0, QOSWT_BE_WTQOS_BANK0} \<and> b1 = b0 + 0x1000"

lemma bank_offset:
  fixes off :: u32
  assumes "bank_pair b0 b1" and "off < 0x800"
  shows "table_reg (b0 + off)" and "table_reg (b0 + off + 0x1000)"
proof -
  have "unat off < 0x800" using assms(2) by (simp add: word_less_nat_alt)
  moreover have "b0 \<in> {0xE67E0000, 0xE67E2000, 0xE67E0800, 0xE67E2800}" using assms(1) by (auto simp: bank_pair_def)
  ultimately have "unat (b0 + off) = unat b0 + unat off" "unat (b0 + off + 0x1000) = unat b0 + unat off + 0x1000"
      "unat b0 + unat off + 0x1000 < 0xE67F0000"
    by (auto simp: unat_word_ariths)
  then show "table_reg (b0 + off)" "table_reg (b0 + off + 0x1000)"
    unfolding table_reg_def by (auto dest: arg_cong [where f = unat])
qed

lemma qos_table_ok:
  assumes "bank_pair b0 b1" and "length tbl \<le> 0x100"
  shows "qos_triple (Qos_State d False None) (qos_table b0 b1 tbl) (Qos_State d False None)"
  unfolding qos_table_def
proof (rule qos_for_each)
  fix i assume "i \<in> set [0..<length tbl]"
  then have "i < 0x100" using assms(2) by simp
  then have off: "(of_nat i * 8 :: u32) < 0x800"
    by (simp add: word_less_nat_alt unat_word_ariths unat_of_nat)
  have "b1 + of_nat i * 8 = b0 + of_nat i * 8 + 0x1000" using assms(1) by (simp add: bank_pair_def)
  with qos_entry [OF bank_offset [OF assms(1) off]]
  show "qos_triple (Qos_State d False None) (seqs [io_write_64 (b0 + of_nat i * 8) (tbl ! i),
      io_write_64 (b1 + of_nat i * 8) (tbl ! i)]) (Qos_State d False None)"
    by (simp only:)
qed

lemma mstat_table_ok:
  assumes "bank_pair b0 b1" and "list_all (\<lambda>(a, _). a < 0x800) tbl"
  shows "qos_triple (Qos_State d False None) (mstat_table b0 b1 tbl) (Qos_State d False None)"
  unfolding mstat_table_def
proof (rule qos_for_each)
  fix i assume "i \<in> set [0..<length tbl]"
  then have off: "fst (tbl ! i) < 0x800" using assms(2) by (auto simp: list_all_length split_beta)
  have "b1 + fst (tbl ! i) = b0 + fst (tbl ! i) + 0x1000" using assms(1) by (simp add: bank_pair_def)
  with qos_entry [OF bank_offset [OF assms(1) off]]
  show "qos_triple (Qos_State d False None) (seqs [io_write_64 (b0 + fst (tbl ! i)) (snd (tbl ! i)),
      io_write_64 (b1 + fst (tbl ! i)) (snd (tbl ! i))]) (Qos_State d False None)"
    by (simp only:)
qed

lemma bank_pairs:
  "bank_pair QOSBW_FIX_QOS_BANK0 QOSBW_FIX_QOS_BANK1" "bank_pair QOSBW_BE_QOS_BANK0 QOSBW_BE_QOS_BANK1"
  "bank_pair QOSWT_FIX_WTQOS_BANK0 QOSWT_FIX_WTQOS_BANK1" "bank_pair QOSWT_BE_WTQOS_BANK0 QOSWT_BE_WTQOS_BANK1"
  by (simp_all add: bank_pair_def)

text \<open>What each register is.\<close>

lemma dbsc_regs:
  "dbsc_reg DBSC_DBCAM0CNF1" "dbsc_reg DBSC_DBCAM0CNF2" "dbsc_reg DBSC_DBCAM0CNF3"
  "dbsc_reg DBSC_DBSCHCNT0" "dbsc_reg DBSC_DBSCHCNT1" "dbsc_reg DBSC_DBSCHSZ0"
  "dbsc_reg DBSC_DBSCHRW0" "dbsc_reg DBSC_DBSCHQOS00" "dbsc_reg DBSC_DBSCHQOS01"
  "dbsc_reg DBSC_DBSCHQOS02" "dbsc_reg DBSC_DBSCHQOS03" "dbsc_reg DBSC_DBSCHQOS40"
  "dbsc_reg DBSC_DBSCHQOS41" "dbsc_reg DBSC_DBSCHQOS42" "dbsc_reg DBSC_DBSCHQOS43"
  "dbsc_reg DBSC_DBSCHQOS90" "dbsc_reg DBSC_DBSCHQOS91" "dbsc_reg DBSC_DBSCHQOS92"
  "dbsc_reg DBSC_DBSCHQOS93" "dbsc_reg DBSC_DBSCHQOS120" "dbsc_reg DBSC_DBSCHQOS121"
  "dbsc_reg DBSC_DBSCHQOS122" "dbsc_reg DBSC_DBSCHQOS123" "dbsc_reg DBSC_DBSCHQOS130"
  "dbsc_reg DBSC_DBSCHQOS131" "dbsc_reg DBSC_DBSCHQOS132" "dbsc_reg DBSC_DBSCHQOS133"
  "dbsc_reg DBSC_DBSCHQOS140" "dbsc_reg DBSC_DBSCHQOS141" "dbsc_reg DBSC_DBSCHQOS142"
  "dbsc_reg DBSC_DBSCHQOS143" "dbsc_reg DBSC_DBSCHQOS150" "dbsc_reg DBSC_DBSCHQOS151"
  "dbsc_reg DBSC_DBSCHQOS152" "dbsc_reg DBSC_DBSCHQOS153" "dbsc_reg DBSC_SCFCTST2"
  by (simp_all add: dbsc_reg_def)

lemma free_regs:
  "free_reg 0xE6430800" "free_reg 0xE6431800" "free_reg 0xE6432800" "free_reg 0xE6433800"
  "free_reg 0xE6760800" "free_reg 0xE6768800" "free_reg AXI_ADSPLCR0" "free_reg AXI_ADSPLCR1"
  "free_reg AXI_ADSPLCR2" "free_reg AXI_ADSPLCR3" "free_reg AXI_MMCR" "free_reg 0xE67D1000"
  "free_reg 0xE67D1008" "free_reg AXI_TR3CR" "free_reg AXI_TR4CR" "free_reg MSTAT_SL_INIT"
  "free_reg MSTAT_REF_ARS" "free_reg MSTAT_STATQC" "free_reg QOSWT_WTEN" "free_reg QOSWT_WTREF"
  "free_reg QOSWT_WTSET0" "free_reg QOSWT_WTSET1" "free_reg QOSCTRL_RAS" "free_reg RALLOC_FIXTH"
  "free_reg RALLOC_REGGD" "free_reg QOSCTRL_DANT" "free_reg RALLOC_EC" "free_reg QOSCTRL_FSS"
  "free_reg QOSCTRL_INSFC" "free_reg RALLOC_BERR" "free_reg QOSCTRL_EARLYR"
  "free_reg QOSCTRL_RACNT0" "free_reg QOSCTRL_STATGEN0" "free_reg 0xE7760800" "free_reg 0xE7768800"
  "free_reg 0xEC620800" "free_reg 0xEC621800" "free_reg CPU_ACT0" "free_reg CPU_ACT1"
  "free_reg CPU_ACT2" "free_reg CPU_ACT3" "free_reg GPU_ACT0" "free_reg GPU_ACT_GRD"
  "free_reg GPU_ACT1" "free_reg GPU_ACT2" "free_reg GPU_ACT3" "free_reg GPU_ACT4"
  "free_reg GPU_ACT5" "free_reg GPU_ACT6" "free_reg GPU_ACT7" "free_reg 0xFEB89800"
  "free_reg 0xFEB8A800" "free_reg 0xFEB8B800" "free_reg 0xFEB8C800" "free_reg RT_ACT0"
  "free_reg RT_ACT1"
  by (simp_all add: free_reg_def dbsc_reg_def)

lemmas qos_struct = qos_seqs qos_skip qos_if qos_whenp qos_read qos_gets qos_let

lemmas qos_rules = qos_unlock qos_lock qos_start qos_dann qos_ems qos_dbsc qos_free dbsc_regs free_regs bank_pairs

section \<open>Unsupported splits\<close>

text \<open>A program that panics without a store, and one that panics after a good trace.\<close>

definition panics :: "unit prog \<Rightarrow> bool" where
  "panics p \<longleftrightarrow> (\<forall>s. \<exists>xs. p s = Panic (grown xs s) \<and> stores xs = [])"

definition qos_stops :: "qos_state \<Rightarrow> unit prog \<Rightarrow> bool" where
  "qos_stops q p \<longleftrightarrow> (\<forall>s. \<exists>xs. p s = Panic (grown xs s) \<and> qos_trace (stores xs) q = Some q)"

lemma panicsE:
  assumes "panics p"
  obtains xs where "p s = Panic (grown xs s)" "stores xs = []"
  using assms [unfolded panics_def, rule_format, of s] by (elim exE conjE) (rule that)

lemma panics_error:
  assumes "format f as \<noteq> None"
  shows "panics (seqs [ERROR f as, panic])"
  unfolding panics_def
proof
  fix s :: machine
  obtain cs where "seqs [ERROR f as, panic] s = Panic (say cs s)" using error_panic [OF assms] by blast
  then show "\<exists>xs. seqs [ERROR f as, panic] s = Panic (grown xs s) \<and> stores xs = []"
    by (intro exI [of _ "rev (map Putc cs)"]) (simp add: say_def)
qed

lemma qos_stops_seqs:
  assumes "qos_triple q p q" and "panics p'"
  shows "qos_stops q (seqs (p # p' # ps))"
  unfolding qos_stops_def
proof
  fix s :: machine
  obtain xs where 1: "p s = Done () (grown xs s)" "qos_trace (stores xs) q = Some q"
    using assms(1) by (rule qos_tripleE)
  obtain ys where 2: "p' (grown xs s) = Panic (grown ys (grown xs s))" "stores ys = []"
    using assms(2) by (rule panicsE)
  show "\<exists>xs. seqs (p # p' # ps) s = Panic (grown xs s) \<and> qos_trace (stores xs) q = Some q"
    by (rule exI [of _ "ys @ xs"]) (use 1 2 in \<open>simp add: bnd_def\<close>)
qed

end
