(* ===== verification/QosM3N.thy ===== *)
theory QosM3N
  imports Qos
begin

text \<open>
  The bus settings of one chip, \<^verbatim>\<open>CortexR7_Loader/qos/M3N/qos_init_m3n_v10.c\<close> and its table files.
\<close>

definition REF_ARS_ARBSTOPCYCLE_M3N :: "qos_build \<Rightarrow> u32" where
  "REF_ARS_ARBSTOPCYCLE_M3N b = (push_bit 16 ((SL_INIT_SSLOTCLK_M3N b) - 5))"

definition QOSWT_WTSET0_PERIOD0_M3N :: "qos_build \<Rightarrow> u32" where
  "QOSWT_WTSET0_PERIOD0_M3N b = ((QOSWT_TIME_BANK0 div (QOSWT_WTSET0_CYCLE_M3N b)) - 1)"

definition QOSWT_WTSET1_PERIOD1_M3N :: "qos_build \<Rightarrow> u32" where
  "QOSWT_WTSET1_PERIOD1_M3N b = (QOSWT_WTSET0_PERIOD0_M3N b)"

definition mstat_fix_m3n_v10_195 :: "u64 list" where
  "mstat_fix_m3n_v10_195 =
    [0, 0, 0, 0,
     0, 0, 0x001004320000FFFF, 0x001004320000FFFF,
     0x00140C5D0000FFFF, 0, 0x001404040000FFFF, 0x00140C940000FFFF,
     0x00140C940000FFFF, 0, 0x001404040000FFFF, 0,
     0, 0x0014041F0000FFFF, 0, 0,
     0x000C041D0000FFFF, 0x000C04090000FFFF, 0x000C040B0000FFFF, 0,
     0x000C041D0000FFFF, 0x000C04090000FFFF, 0x000C040B0000FFFF, 0,
     0, 0, 0x001024840000FFFF, 0x000C084F0000FFFF,
     0, 0, 0x00100C840000FFFF, 0x000C21E60000FFFF,
     0, 0, 0, 0x00100CA50000FFFF,
     0, 0, 0x001010C90000FFFF, 0,
     0x00100CA50000FFFF, 0, 0, 0x001008530000FFFF,
     0, 0, 0x00101D9D0000FFFF, 0,
     0x00100CA50000FFFF, 0, 0, 0,
     0x000C04010000FFFF, 0x000C04010000FFFF, 0, 0,
     0, 0x000C04010000FFFF, 0x000C04050000FFFF, 0,
     0, 0x000C04050000FFFF, 0x000C04050000FFFF, 0,
     0, 0, 0, 0,
     0, 0, 0, 0,
     0x000C08150000FFFF, 0x001408020000FFFF, 0x001404010000FFFF, 0x000C04090000FFFF,
     0, 0, 0x001408020000FFFF, 0x001404010000FFFF,
     0x000C04050000FFFF, 0x000C04050000FFFF, 0x001408050000FFFF, 0x000C04010000FFFF,
     0, 0, 0x000C04050000FFFF, 0x000C04050000FFFF,
     0x001408050000FFFF, 0x000C04010000FFFF, 0, 0,
     0, 0, 0, 0,
     0, 0, 0, 0,
     0, 0, 0, 0,
     0, 0, 0x000C04010000FFFF, 0x000C04010000FFFF,
     0x000C04050000FFFF, 0x000C04050000FFFF, 0]"

definition mstat_be_m3n_v10_195 :: "u64 list" where
  "mstat_be_m3n_v10_195 =
    [0, 0, 0, 0,
     0, 0x001200100BD03401, 0, 0,
     0, 0, 0, 0,
     0, 0, 0, 0,
     0, 0, 0, 0,
     0, 0, 0, 0,
     0, 0, 0, 0,
     0, 0, 0, 0,
     0, 0, 0, 0,
     0, 0, 0, 0,
     0, 0, 0, 0,
     0, 0, 0, 0,
     0, 0, 0, 0,
     0, 0, 0, 0,
     0x002106000BDFFC01, 0x002106000BDFFC01, 0, 0,
     0, 0, 0x002101000BDF2401, 0,
     0, 0, 0x002101000BDF2401, 0x001101000BDF2401,
     0x001101000BDF2401, 0, 0x001101000BDF2401, 0x001101000BDF2401,
     0x001201000BDF2401, 0x001101000BDF2401, 0x001201000BDF2401, 0x001101000BDF2401,
     0, 0, 0, 0,
     0, 0, 0, 0,
     0, 0, 0, 0,
     0, 0, 0, 0,
     0, 0, 0x001106000BDFFC01, 0x001106000BDFFC01,
     0, 0, 0, 0x001200100BD03401,
     0, 0, 0, 0,
     0, 0, 0, 0x001206000BDFFC01,
     0x001206000BDFFC01, 0x001200100BD03401, 0, 0,
     0, 0, 0x001200100BD03401]"

definition mstat_fix_m3n_v10_390 :: "u64 list" where
  "mstat_fix_m3n_v10_390 =
    [0, 0, 0, 0,
     0, 0, 0x001008630000FFFF, 0x001008630000FFFF,
     0x001418BA0000FFFF, 0, 0x001404070000FFFF, 0x001415270000FFFF,
     0x001415270000FFFF, 0, 0x001404070000FFFF, 0,
     0, 0x0014083E0000FFFF, 0, 0,
     0x000C08390000FFFF, 0x000C04110000FFFF, 0x000C04150000FFFF, 0,
     0x000C08390000FFFF, 0x000C04110000FFFF, 0x000C04150000FFFF, 0,
     0, 0, 0x001045080000FFFF, 0x000C0C9E0000FFFF,
     0, 0, 0x001015080000FFFF, 0x000C43CB0000FFFF,
     0, 0, 0, 0x0010194A0000FFFF,
     0, 0, 0x00101D910000FFFF, 0,
     0x0010194A0000FFFF, 0, 0, 0x00100CA50000FFFF,
     0, 0, 0x001037390000FFFF, 0,
     0x0010194A0000FFFF, 0, 0, 0,
     0x000C04010000FFFF, 0x000C04010000FFFF, 0, 0,
     0, 0x000C04020000FFFF, 0x000C04090000FFFF, 0,
     0, 0x000C04090000FFFF, 0x000C04090000FFFF, 0,
     0, 0, 0, 0,
     0, 0, 0, 0,
     0x000C0C2A0000FFFF, 0x001410040000FFFF, 0x001404020000FFFF, 0x000C08110000FFFF,
     0, 0, 0x001410040000FFFF, 0x001404020000FFFF,
     0x000C04090000FFFF, 0x000C04090000FFFF, 0x00140C090000FFFF, 0x000C04020000FFFF,
     0, 0, 0x000C04090000FFFF, 0x000C04090000FFFF,
     0x00140C090000FFFF, 0x000C04020000FFFF, 0, 0,
     0, 0, 0, 0,
     0, 0, 0, 0,
     0, 0, 0, 0,
     0, 0, 0x000C04020000FFFF, 0x000C04020000FFFF,
     0x000C04090000FFFF, 0x000C04090000FFFF, 0]"

definition mstat_be_m3n_v10_390 :: "u64 list" where
  "mstat_be_m3n_v10_390 =
    [0, 0, 0, 0,
     0, 0x0012001005E03401, 0, 0,
     0, 0, 0, 0,
     0, 0, 0, 0,
     0, 0, 0, 0,
     0, 0, 0, 0,
     0, 0, 0, 0,
     0, 0, 0, 0,
     0, 0, 0, 0,
     0, 0, 0, 0,
     0, 0, 0, 0,
     0, 0, 0, 0,
     0, 0, 0, 0,
     0, 0, 0, 0,
     0x0021060005EFFC01, 0x0021060005EFFC01, 0, 0,
     0, 0, 0x0021010005E79401, 0,
     0, 0, 0x0021010005E79401, 0x0011010005E79401,
     0x0011010005E79401, 0, 0x0011010005E79401, 0x0011010005E79401,
     0x0012010005E79401, 0x0011010005E79401, 0x0012010005E79401, 0x0011010005E79401,
     0, 0, 0, 0,
     0, 0, 0, 0,
     0, 0, 0, 0,
     0, 0, 0, 0,
     0, 0, 0x0011060005EFFC01, 0x0011060005EFFC01,
     0, 0, 0, 0x0012001005E03401,
     0, 0, 0, 0,
     0, 0, 0, 0x0012060005EFFC01,
     0x0012060005EFFC01, 0x0012001005E03401, 0, 0,
     0, 0, 0x0012001005E03401]"

definition mstat_fix_m3n_v10 :: "qos_build \<Rightarrow> u64 list" where
  "mstat_fix_m3n_v10 b = (if q_ref_default b then mstat_fix_m3n_v10_195 else mstat_fix_m3n_v10_390)"

definition mstat_be_m3n_v10 :: "qos_build \<Rightarrow> u64 list" where
  "mstat_be_m3n_v10 b = (if q_ref_default b then mstat_be_m3n_v10_195 else mstat_be_m3n_v10_390)"

definition qoswt_fix_m3n_v10_195 :: "u64 list" where
  "qoswt_fix_m3n_v10_195 =
    [0, 0, 0, 0,
     0, 0, 0x001004320000C010, 0x001004320000C010,
     0x00140C5D0000FFF0, 0, 0, 0x00140C940000C010,
     0x00140C940000C010, 0, 0, 0,
     0, 0x0014041F0000FFF0, 0, 0,
     0, 0, 0, 0,
     0, 0, 0, 0,
     0, 0, 0, 0,
     0, 0, 0, 0,
     0, 0, 0, 0,
     0, 0, 0, 0,
     0, 0, 0, 0,
     0, 0, 0, 0,
     0, 0, 0, 0,
     0, 0, 0, 0,
     0, 0, 0, 0,
     0, 0, 0, 0,
     0, 0, 0, 0,
     0, 0, 0, 0,
     0x000C08150000FFF0, 0x001408020000FFF0, 0x001404010000FFF0, 0x000C04090000FFF0,
     0, 0, 0x001408020000FFF0, 0x001404010000FFF0,
     0, 0, 0, 0,
     0, 0, 0, 0,
     0, 0, 0, 0,
     0, 0, 0, 0,
     0, 0, 0, 0,
     0, 0, 0, 0,
     0, 0, 0, 0,
     0, 0, 0]"

definition qoswt_be_m3n_v10_195 :: "u64 list" where
  "qoswt_be_m3n_v10_195 =
    [0, 0, 0, 0,
     0, 0, 0, 0,
     0, 0, 0, 0,
     0, 0, 0, 0,
     0, 0, 0, 0,
     0, 0, 0, 0,
     0, 0, 0, 0,
     0, 0, 0, 0,
     0, 0, 0, 0,
     0, 0, 0, 0,
     0, 0, 0, 0,
     0, 0, 0, 0,
     0, 0, 0, 0,
     0, 0, 0, 0,
     0, 0, 0, 0,
     0, 0, 0, 0,
     0, 0, 0, 0,
     0, 0, 0, 0,
     0, 0, 0, 0,
     0, 0, 0, 0,
     0, 0, 0, 0,
     0, 0, 0, 0,
     0, 0, 0, 0,
     0, 0, 0, 0,
     0, 0, 0, 0,
     0, 0, 0, 0,
     0, 0, 0, 0,
     0, 0, 0, 0,
     0, 0, 0]"

definition qoswt_fix_m3n_v10_390 :: "u64 list" where
  "qoswt_fix_m3n_v10_390 =
    [0, 0, 0, 0,
     0, 0, 0x001008630000C010, 0x001008630000C010,
     0x001418BA0000FFF0, 0, 0, 0x001415270000C010,
     0x001415270000C010, 0, 0, 0,
     0, 0x0014083E0000FFF0, 0, 0,
     0, 0, 0, 0,
     0, 0, 0, 0,
     0, 0, 0, 0,
     0, 0, 0, 0,
     0, 0, 0, 0,
     0, 0, 0, 0,
     0, 0, 0, 0,
     0, 0, 0, 0,
     0, 0, 0, 0,
     0, 0, 0, 0,
     0, 0, 0, 0,
     0, 0, 0, 0,
     0, 0, 0, 0,
     0, 0, 0, 0,
     0x000C0C2A0000FFF0, 0x001410040000FFF0, 0x001404020000FFF0, 0x000C08110000FFF0,
     0, 0, 0x001410040000FFF0, 0x001404020000FFF0,
     0, 0, 0, 0,
     0, 0, 0, 0,
     0, 0, 0, 0,
     0, 0, 0, 0,
     0, 0, 0, 0,
     0, 0, 0, 0,
     0, 0, 0, 0,
     0, 0, 0]"

definition qoswt_be_m3n_v10_390 :: "u64 list" where
  "qoswt_be_m3n_v10_390 =
    [0, 0, 0, 0,
     0, 0, 0, 0,
     0, 0, 0, 0,
     0, 0, 0, 0,
     0, 0, 0, 0,
     0, 0, 0, 0,
     0, 0, 0, 0,
     0, 0, 0, 0,
     0, 0, 0, 0,
     0, 0, 0, 0,
     0, 0, 0, 0,
     0, 0, 0, 0,
     0, 0, 0, 0,
     0, 0, 0, 0,
     0, 0, 0, 0,
     0, 0, 0, 0,
     0, 0, 0, 0,
     0, 0, 0, 0,
     0, 0, 0, 0,
     0, 0, 0, 0,
     0, 0, 0, 0,
     0, 0, 0, 0,
     0, 0, 0, 0,
     0, 0, 0, 0,
     0, 0, 0, 0,
     0, 0, 0, 0,
     0, 0, 0, 0,
     0, 0, 0, 0,
     0, 0, 0]"

definition qoswt_fix_m3n_v10 :: "qos_build \<Rightarrow> u64 list" where
  "qoswt_fix_m3n_v10 b = (if q_ref_default b then qoswt_fix_m3n_v10_195 else qoswt_fix_m3n_v10_390)"

definition qoswt_be_m3n_v10 :: "qos_build \<Rightarrow> u64 list" where
  "qoswt_be_m3n_v10 b = (if q_ref_default b then qoswt_be_m3n_v10_195 else qoswt_be_m3n_v10_390)"

definition dbsc_setting_m3n_v10 :: "unit prog" where
  "dbsc_setting_m3n_v10 = seqs
      [io_write_32 DBSC_DBSYSCNT0 0x00001234,
       io_write_32 DBSC_DBCAM0CNF1 0x00043218,
       io_write_32 DBSC_DBCAM0CNF2 0x000000F4,
       io_write_32 DBSC_DBSCHCNT0 0x000F0037,
       io_write_32 DBSC_DBSCHSZ0 0x00000001,
       io_write_32 DBSC_DBSCHRW0 0x22421111,
       bnd (mmio_read_32 RST_MODEMR) (\<lambda>v.
        (let md = drop_bit 17 (v AND 0x000A0000) in
         if md = 0x0 then io_write_32 DBSC_SCFCTST2 0x012F1123
         else if md = 0x1 then io_write_32 DBSC_SCFCTST2 0x012F1123
         else if md = 0x4 then io_write_32 DBSC_SCFCTST2 0x012F1123
         else io_write_32 DBSC_SCFCTST2 0x012F1123)),
       io_write_32 DBSC_DBSCHQOS00 0x00000F00,
       io_write_32 DBSC_DBSCHQOS01 0x00000B00,
       io_write_32 DBSC_DBSCHQOS02 0x00000000,
       io_write_32 DBSC_DBSCHQOS03 0x00000000,
       io_write_32 DBSC_DBSCHQOS40 0x00000300,
       io_write_32 DBSC_DBSCHQOS41 0x000002F0,
       io_write_32 DBSC_DBSCHQOS42 0x00000200,
       io_write_32 DBSC_DBSCHQOS43 0x00000100,
       io_write_32 DBSC_DBSCHQOS90 0x00000100,
       io_write_32 DBSC_DBSCHQOS91 0x000000F0,
       io_write_32 DBSC_DBSCHQOS92 0x000000A0,
       io_write_32 DBSC_DBSCHQOS93 0x00000040,
       io_write_32 DBSC_DBSCHQOS130 0x00000100,
       io_write_32 DBSC_DBSCHQOS131 0x000000F0,
       io_write_32 DBSC_DBSCHQOS132 0x000000A0,
       io_write_32 DBSC_DBSCHQOS133 0x00000040,
       io_write_32 DBSC_DBSCHQOS140 0x000000C0,
       io_write_32 DBSC_DBSCHQOS141 0x000000B0,
       io_write_32 DBSC_DBSCHQOS142 0x00000080,
       io_write_32 DBSC_DBSCHQOS143 0x00000040,
       io_write_32 DBSC_DBSCHQOS150 0x00000040,
       io_write_32 DBSC_DBSCHQOS151 0x00000030,
       io_write_32 DBSC_DBSCHQOS152 0x00000020,
       io_write_32 DBSC_DBSCHQOS153 0x00000010,
       io_write_32 DBSC_DBSYSCNT0 0x00000000]"

definition qos_split_m3n_v10 :: "qos_build \<Rightarrow> unit prog" where
  "qos_split_m3n_v10 b =
     (if b_split b = SPLIT_4CH then
        (seqs
          [ERROR ''DRAM Split 4ch not supported.(M3N)'' [],
           panic])
      else if b_split b = SPLIT_2CH then
        (seqs
          [ERROR ''DRAM Split 2ch not supported.(M3N)'' [],
           panic])
      else
        (NOTICE (''BL2: DRAM Split is OFF'' @ [CHR 0x0A]) []))"

definition qos_type_m3n_v10 :: "qos_build \<Rightarrow> unit prog" where
  "qos_type_m3n_v10 b =
     (if q_type b \<noteq> QOS_NONE then
        (seqs
          [whenp (q_type b = QOS_TYPE_DEFAULT)
            (NOTICE (''BL2: QoS is default setting(%s)'' @ [CHR 0x0A]) [ArgS ''rev.0.09'']),
           if q_ref_default b then
            (NOTICE (''BL2: DRAM refresh interval 1.95 usec'' @ [CHR 0x0A]) [])
          else
            (NOTICE (''BL2: DRAM refresh interval 3.9 usec'' @ [CHR 0x0A]) []),
           whenp (q_rewt b)
            (NOTICE (''BL2: Periodic Write DQ Training'' @ [CHR 0x0A]) []),
           io_write_32 QOSCTRL_RAS 0x00000028,
           io_write_64 QOSCTRL_DANN 0x0402000002020201,
           io_write_32 QOSCTRL_DANT 0x00100804,
           io_write_32 QOSCTRL_FSS 0x0000000A,
           io_write_32 QOSCTRL_INSFC 0x06330001,
           io_write_32 QOSCTRL_EARLYR 0x00000001,
           io_write_32 QOSCTRL_RACNT0 0x00010003,
           io_write_32 QOSCTRL_SL_INIT (SL_INIT_REFFSSLOT OR SL_INIT_SLOTSSLOT OR (SL_INIT_SSLOTCLK_M3N b)),
           io_write_32 QOSCTRL_REF_ARS (REF_ARS_ARBSTOPCYCLE_M3N b),
           qos_table QOSBW_FIX_QOS_BANK0 QOSBW_FIX_QOS_BANK1 (mstat_fix_m3n_v10 b),
           qos_table QOSBW_BE_QOS_BANK0 QOSBW_BE_QOS_BANK1 (mstat_be_m3n_v10 b),
           whenp (q_rewt b)
            (seqs
              [qos_table QOSWT_FIX_WTQOS_BANK0 QOSWT_FIX_WTQOS_BANK1 (qoswt_fix_m3n_v10 b),
               qos_table QOSWT_BE_WTQOS_BANK0 QOSWT_BE_WTQOS_BANK1 (qoswt_be_m3n_v10 b)]),
           io_write_32 RT_ACT0 0x00000000,
           io_write_32 RT_ACT1 0x00000000,
           io_write_32 CPU_ACT0 0x00000003,
           io_write_32 CPU_ACT1 0x00000003,
           io_write_32 QOSCTRL_RAEN 0x00000001,
           whenp (q_rewt b)
            (seqs
              [io_write_32 QOSWT_WTREF ((push_bit 16 QOSWT_WTREF_SLOT1_EN) OR QOSWT_WTREF_SLOT0_EN),
               io_write_32 QOSWT_WTSET0 ((push_bit 16 (QOSWT_WTSET0_PERIOD0_M3N b)) OR (push_bit 8 QOSWT_WTSET0_SSLOT0) OR QOSWT_WTSET0_SLOTSLOT0),
               io_write_32 QOSWT_WTSET1 ((push_bit 16 (QOSWT_WTSET1_PERIOD1_M3N b)) OR (push_bit 8 QOSWT_WTSET1_SSLOT1) OR QOSWT_WTSET1_SLOTSLOT1),
               io_write_32 QOSWT_WTEN QOSWT_WTEN_ENABLE]),
           io_write_32 QOSCTRL_STATQC 0x00000001])
      else
        (seqs
          [NOTICE (''BL2: QoS is None'' @ [CHR 0x0A]) [],
           io_write_32 QOSCTRL_RAEN 0x00000001]))"

definition qos_init_m3n_v10 :: "qos_build \<Rightarrow> unit prog" where
  "qos_init_m3n_v10 b = seqs [dbsc_setting_m3n_v10, qos_split_m3n_v10 b, qos_type_m3n_v10 b]"

lemma tables_m3n_v10:
  "length (mstat_fix_m3n_v10 b) \<le> 0x100"
  "length (mstat_be_m3n_v10 b) \<le> 0x100"
  "length (qoswt_fix_m3n_v10 b) \<le> 0x100"
  "length (qoswt_be_m3n_v10 b) \<le> 0x100"
  by (simp_all add: mstat_fix_m3n_v10_def mstat_be_m3n_v10_def qoswt_fix_m3n_v10_def
    qoswt_be_m3n_v10_def mstat_fix_m3n_v10_195_def mstat_be_m3n_v10_195_def
    mstat_fix_m3n_v10_390_def mstat_be_m3n_v10_390_def qoswt_fix_m3n_v10_195_def
    qoswt_be_m3n_v10_195_def qoswt_fix_m3n_v10_390_def qoswt_be_m3n_v10_390_def)

lemma dbsc_m3n_v10: "qos_triple (Qos_State False False None) dbsc_setting_m3n_v10 (Qos_State False False None)"
  unfolding dbsc_setting_m3n_v10_def by (rule qos_struct qos_rules qos_table_ok tables_m3n_v10 | (rule qos_notice, simp))+

lemma split_m3n_v10: "b_split b \<noteq> SPLIT_4CH \<Longrightarrow> b_split b \<noteq> SPLIT_2CH \<Longrightarrow> qos_triple (Qos_State d False None) (qos_split_m3n_v10 b) (Qos_State d False None)"
  unfolding qos_split_m3n_v10_def by (simp only: if_False simp_thms) (rule qos_struct qos_rules qos_table_ok tables_m3n_v10 | (rule qos_notice, simp))+

lemma no_split_m3n_v10: "b_split b \<in> {SPLIT_4CH, SPLIT_2CH} \<Longrightarrow> panics (qos_split_m3n_v10 b)"
  unfolding qos_split_m3n_v10_def by (auto simp del: seqs.simps intro!: panics_error)

lemma type_m3n_v10: "qos_triple (Qos_State d False None) (qos_type_m3n_v10 b) (Qos_State d True None)"
  unfolding qos_type_m3n_v10_def by (rule qos_struct qos_rules qos_table_ok tables_m3n_v10 | (rule qos_notice, simp))+

lemma qos_m3n_v10_ok: "b_split b \<noteq> SPLIT_4CH \<Longrightarrow> b_split b \<noteq> SPLIT_2CH \<Longrightarrow> qos_triple (Qos_State False False None) (qos_init_m3n_v10 b) (Qos_State False True None)"
  unfolding qos_init_m3n_v10_def
  by (rule qos_seqs qos_skip dbsc_m3n_v10 split_m3n_v10 type_m3n_v10 | assumption)+

lemma qos_m3n_v10_stops: "b_split b \<in> {SPLIT_4CH, SPLIT_2CH} \<Longrightarrow> qos_stops (Qos_State False False None) (qos_init_m3n_v10 b)"
  unfolding qos_init_m3n_v10_def by (rule qos_stops_seqs [OF dbsc_m3n_v10 no_split_m3n_v10])

end
