(* ===== verification/QosE3.thy ===== *)
theory QosE3
  imports Qos
begin

text \<open>
  The bus settings of one chip, \<^verbatim>\<open>CortexR7_Loader/qos/E3/qos_init_e3_v10.c\<close> and its table files.
\<close>

definition REF_ARS_ARBSTOPCYCLE_E3 :: "qos_build \<Rightarrow> u32" where
  "REF_ARS_ARBSTOPCYCLE_E3 b = (push_bit 16 ((SL_INIT_SSLOTCLK_E3 b) - 5))"

definition mstat_fix_e3_v10_390 :: "u64 list" where
  "mstat_fix_e3_v10_390 =
    [0, 0, 0, 0,
     0, 0, 0x001008620000FFFF, 0x001008620000FFFF,
     0, 0, 0, 0x001415260000FFFF,
     0x001415260000FFFF, 0, 0, 0,
     0, 0x001414930000FFFF, 0, 0,
     0x000C08380000FFFF, 0x000C04110000FFFF, 0x000C04150000FFFF, 0,
     0x000C08380000FFFF, 0x000C04110000FFFF, 0x000C04150000FFFF, 0,
     0, 0, 0x001018580000FFFF, 0x000C084F0000FFFF,
     0, 0, 0x001008580000FFFF, 0x000C21E40000FFFF,
     0, 0, 0, 0x001008530000FFFF,
     0, 0, 0x00100C960000FFFF, 0,
     0x001008530000FFFF, 0, 0, 0x0010042A0000FFFF,
     0, 0, 0x00101D8D0000FFFF, 0,
     0x001008530000FFFF, 0, 0, 0,
     0x000C04010000FFFF, 0x000C04010000FFFF, 0, 0,
     0, 0x000C04020000FFFF, 0x000C04090000FFFF, 0,
     0, 0x000C04090000FFFF, 0x000C04090000FFFF, 0,
     0, 0, 0, 0,
     0, 0, 0, 0,
     0x000C0C2A0000FFFF, 0x001410040000FFFF, 0x001404020000FFFF, 0x000C08110000FFFF,
     0, 0, 0x001410040000FFFF, 0x001404020000FFFF,
     0x000C04090000FFFF, 0x000C04090000FFFF, 0, 0x000C04020000FFFF,
     0, 0, 0x000C04090000FFFF, 0x000C04090000FFFF,
     0, 0x000C04020000FFFF, 0, 0,
     0, 0, 0, 0,
     0, 0, 0, 0,
     0, 0, 0, 0,
     0, 0, 0x000C04020000FFFF, 0x000C04020000FFFF,
     0x000C04090000FFFF, 0x000C04090000FFFF, 0]"

definition mstat_be_e3_v10_390 :: "u64 list" where
  "mstat_be_e3_v10_390 =
    [0, 0, 0, 0,
     0, 0x0012001005F03401, 0, 0,
     0, 0, 0, 0,
     0, 0, 0, 0,
     0, 0, 0, 0,
     0, 0, 0, 0,
     0, 0, 0, 0,
     0, 0, 0, 0,
     0, 0, 0, 0,
     0, 0, 0, 0,
     0, 0, 0, 0,
     0, 0, 0, 0,
     0, 0, 0, 0,
     0, 0, 0, 0,
     0x0021060005FFFC01, 0x0021060005FFFC01, 0, 0,
     0, 0, 0x0021010005F79801, 0,
     0, 0, 0x0021010005F79801, 0x0011010005F79801,
     0x0011010005F79801, 0, 0x0011010005F79801, 0x0011010005F79801,
     0x0012010005F79801, 0x0011010005F79801, 0x0012010005F79801, 0x0011010005F79801,
     0, 0, 0, 0,
     0, 0, 0, 0,
     0, 0, 0, 0,
     0, 0, 0, 0,
     0, 0, 0x0011060005FFFC01, 0x0011060005FFFC01,
     0, 0, 0, 0x0012001005F03401,
     0, 0, 0, 0,
     0, 0, 0, 0x0012060005FFFC01,
     0x0012060005FFFC01, 0x0012001005F03401, 0, 0,
     0, 0, 0x0012001005F03401]"

definition mstat_fix_e3_v10_780 :: "u64 list" where
  "mstat_fix_e3_v10_780 =
    [0, 0, 0, 0,
     0, 0, 0x001010C40000FFFF, 0x001010C40000FFFF,
     0, 0, 0, 0x00142A4B0000FFFF,
     0x00142A4B0000FFFF, 0, 0, 0,
     0, 0x001429260000FFFF, 0, 0,
     0x000C10700000FFFF, 0x000C08210000FFFF, 0x000C082A0000FFFF, 0,
     0x000C10700000FFFF, 0x000C08210000FFFF, 0x000C082A0000FFFF, 0,
     0, 0, 0x00102CAF0000FFFF, 0x000C0C9D0000FFFF,
     0, 0, 0x00100CAF0000FFFF, 0x000C43C80000FFFF,
     0, 0, 0, 0x00100CA50000FFFF,
     0, 0, 0x0010152C0000FFFF, 0,
     0x00100CA50000FFFF, 0, 0, 0x001008530000FFFF,
     0, 0, 0x001037190000FFFF, 0,
     0x00100CA50000FFFF, 0, 0, 0,
     0x000C04010000FFFF, 0x000C04010000FFFF, 0, 0,
     0, 0x000C04040000FFFF, 0x000C08110000FFFF, 0,
     0, 0x000C04110000FFFF, 0x000C08110000FFFF, 0,
     0, 0, 0, 0,
     0, 0, 0, 0,
     0x000C18530000FFFF, 0x00141C070000FFFF, 0x001404040000FFFF, 0x000C0C210000FFFF,
     0, 0, 0x00141C070000FFFF, 0x001404040000FFFF,
     0x000C04110000FFFF, 0x000C04110000FFFF, 0, 0x000C04040000FFFF,
     0, 0, 0x000C04110000FFFF, 0x000C04110000FFFF,
     0, 0x000C04040000FFFF, 0, 0,
     0, 0, 0, 0,
     0, 0, 0, 0,
     0, 0, 0, 0,
     0, 0, 0x000C04040000FFFF, 0x000C04040000FFFF,
     0x000C04110000FFFF, 0x000C04110000FFFF, 0]"

definition mstat_be_e3_v10_780 :: "u64 list" where
  "mstat_be_e3_v10_780 =
    [0, 0, 0, 0,
     0, 0x0012001002F03401, 0, 0,
     0, 0, 0, 0,
     0, 0, 0, 0,
     0, 0, 0, 0,
     0, 0, 0, 0,
     0, 0, 0, 0,
     0, 0, 0, 0,
     0, 0, 0, 0,
     0, 0, 0, 0,
     0, 0, 0, 0,
     0, 0, 0, 0,
     0, 0, 0, 0,
     0, 0, 0, 0,
     0x0021060002FFFC01, 0x0021060002FFFC01, 0, 0,
     0, 0, 0x0021010002F3CC01, 0,
     0, 0, 0x0021010002F3CC01, 0x0011010002F3CC01,
     0x0011010002F3CC01, 0, 0x0011010002F3CC01, 0x0011010002F3CC01,
     0x0012010002F3CC01, 0x0011010002F3CC01, 0x0012010002F3CC01, 0x0011010002F3CC01,
     0, 0, 0, 0,
     0, 0, 0, 0,
     0, 0, 0, 0,
     0, 0, 0, 0,
     0, 0, 0x0011060002FFFC01, 0x0011060002FFFC01,
     0, 0, 0, 0x0012001002F03401,
     0, 0, 0, 0,
     0, 0, 0, 0x0012060002FFFC01,
     0x0012060002FFFC01, 0x0012001002F03401, 0, 0,
     0, 0, 0x0012001002F03401]"

definition mstat_fix_e3_v10 :: "qos_build \<Rightarrow> u64 list" where
  "mstat_fix_e3_v10 b = (if q_ref_default b then mstat_fix_e3_v10_390 else mstat_fix_e3_v10_780)"

definition mstat_be_e3_v10 :: "qos_build \<Rightarrow> u64 list" where
  "mstat_be_e3_v10 b = (if q_ref_default b then mstat_be_e3_v10_390 else mstat_be_e3_v10_780)"

definition dbsc_setting_e3_v10 :: "unit prog" where
  "dbsc_setting_e3_v10 = seqs
      [io_write_32 DBSC_DBSYSCNT0 0x00001234,
       io_write_32 DBSC_DBCAM0CNF1 0x00043218,
       io_write_32 DBSC_DBCAM0CNF2 0x000000F4,
       io_write_32 DBSC_DBSCHCNT0 0x000F0037,
       io_write_32 DBSC_DBSCHSZ0 0x00000001,
       io_write_32 DBSC_DBSCHRW0 0x22421111,
       io_write_32 DBSC_SCFCTST2 0x012F1123,
       io_write_32 DBSC_DBSCHQOS00 0x00000F00,
       io_write_32 DBSC_DBSCHQOS01 0x00000B00,
       io_write_32 DBSC_DBSCHQOS02 0x00000000,
       io_write_32 DBSC_DBSCHQOS03 0x00000000,
       io_write_32 DBSC_DBSCHQOS40 0x00000300,
       io_write_32 DBSC_DBSCHQOS41 0x000002F0,
       io_write_32 DBSC_DBSCHQOS42 0x00000200,
       io_write_32 DBSC_DBSCHQOS43 0x00000100,
       io_write_32 DBSC_DBSCHQOS90 0x00000100,
       io_write_32 DBSC_DBSCHQOS91 0x000000F0,
       io_write_32 DBSC_DBSCHQOS92 0x000000A0,
       io_write_32 DBSC_DBSCHQOS93 0x00000040,
       io_write_32 DBSC_DBSCHQOS130 0x00000100,
       io_write_32 DBSC_DBSCHQOS131 0x000000F0,
       io_write_32 DBSC_DBSCHQOS132 0x000000A0,
       io_write_32 DBSC_DBSCHQOS133 0x00000040,
       io_write_32 DBSC_DBSCHQOS140 0x000000C0,
       io_write_32 DBSC_DBSCHQOS141 0x000000B0,
       io_write_32 DBSC_DBSCHQOS142 0x00000080,
       io_write_32 DBSC_DBSCHQOS143 0x00000040,
       io_write_32 DBSC_DBSCHQOS150 0x00000040,
       io_write_32 DBSC_DBSCHQOS151 0x00000030,
       io_write_32 DBSC_DBSCHQOS152 0x00000020,
       io_write_32 DBSC_DBSCHQOS153 0x00000010,
       io_write_32 DBSC_DBSYSCNT0 0x00000000]"

definition qos_split_e3_v10 :: "qos_build \<Rightarrow> unit prog" where
  "qos_split_e3_v10 b =
     (if b_split b = SPLIT_4CH then
        (seqs
          [ERROR ''DRAM Split 4ch not supported.(E3)'' [],
           panic])
      else if b_split b = SPLIT_2CH then
        (seqs
          [ERROR ''DRAM Split 2ch not supported.(E3)'' [],
           panic])
      else
        (NOTICE (''BL2: DRAM Split is OFF'' @ [CHR 0x0A]) []))"

definition qos_type_e3_v10 :: "qos_build \<Rightarrow> unit prog" where
  "qos_type_e3_v10 b =
     (if q_type b \<noteq> QOS_NONE then
        (seqs
          [whenp (q_type b = QOS_TYPE_DEFAULT)
            (NOTICE (''BL2: QoS is default setting(%s)'' @ [CHR 0x0A]) [ArgS ''rev.0.05'']),
           if q_ref_default b then
            (NOTICE (''BL2: DRAM refresh interval 3.9 usec'' @ [CHR 0x0A]) [])
          else
            (NOTICE (''BL2: DRAM refresh interval 7.8 usec'' @ [CHR 0x0A]) []),
           io_write_32 QOSCTRL_RAS 0x00000020,
           io_write_64 QOSCTRL_DANN 0x0404020002020201,
           io_write_32 QOSCTRL_DANT 0x00100804,
           io_write_32 QOSCTRL_FSS 0x0000000A,
           io_write_32 QOSCTRL_INSFC 0x06330001,
           io_write_32 QOSCTRL_EARLYR 0x00000000,
           io_write_32 QOSCTRL_RACNT0 0x00010003,
           io_write_32 QOSCTRL_SL_INIT (SL_INIT_REFFSSLOT OR SL_INIT_SLOTSSLOT OR (SL_INIT_SSLOTCLK_E3 b)),
           io_write_32 QOSCTRL_REF_ARS (REF_ARS_ARBSTOPCYCLE_E3 b),
           qos_table QOSBW_FIX_QOS_BANK0 QOSBW_FIX_QOS_BANK1 (mstat_fix_e3_v10 b),
           qos_table QOSBW_BE_QOS_BANK0 QOSBW_BE_QOS_BANK1 (mstat_be_e3_v10 b),
           io_write_32 RT_ACT0 0x00000000,
           io_write_32 RT_ACT1 0x00000000,
           io_write_32 CPU_ACT0 0x00000003,
           io_write_32 CPU_ACT1 0x00000003,
           io_write_32 QOSCTRL_RAEN 0x00000001,
           io_write_32 QOSCTRL_STATQC 0x00000001])
      else
        (seqs
          [NOTICE (''BL2: QoS is None'' @ [CHR 0x0A]) [],
           io_write_32 QOSCTRL_RAEN 0x00000001]))"

definition qos_init_e3_v10 :: "qos_build \<Rightarrow> unit prog" where
  "qos_init_e3_v10 b = seqs [dbsc_setting_e3_v10, qos_split_e3_v10 b, qos_type_e3_v10 b]"

lemma tables_e3_v10:
  "length (mstat_fix_e3_v10 b) \<le> 0x100"
  "length (mstat_be_e3_v10 b) \<le> 0x100"
  by (simp_all add: mstat_fix_e3_v10_def mstat_be_e3_v10_def mstat_fix_e3_v10_390_def
    mstat_be_e3_v10_390_def mstat_fix_e3_v10_780_def mstat_be_e3_v10_780_def)

lemma dbsc_e3_v10: "qos_triple (Qos_State False False None) dbsc_setting_e3_v10 (Qos_State False False None)"
  unfolding dbsc_setting_e3_v10_def by (rule qos_struct qos_rules qos_table_ok tables_e3_v10 | (rule qos_notice, simp))+

lemma split_e3_v10: "b_split b \<noteq> SPLIT_4CH \<Longrightarrow> b_split b \<noteq> SPLIT_2CH \<Longrightarrow> qos_triple (Qos_State d False None) (qos_split_e3_v10 b) (Qos_State d False None)"
  unfolding qos_split_e3_v10_def by (simp only: if_False simp_thms) (rule qos_struct qos_rules qos_table_ok tables_e3_v10 | (rule qos_notice, simp))+

lemma no_split_e3_v10: "b_split b \<in> {SPLIT_4CH, SPLIT_2CH} \<Longrightarrow> panics (qos_split_e3_v10 b)"
  unfolding qos_split_e3_v10_def by (auto simp del: seqs.simps intro!: panics_error)

lemma type_e3_v10: "qos_triple (Qos_State d False None) (qos_type_e3_v10 b) (Qos_State d True None)"
  unfolding qos_type_e3_v10_def by (rule qos_struct qos_rules qos_table_ok tables_e3_v10 | (rule qos_notice, simp))+

lemma qos_e3_v10_ok: "b_split b \<noteq> SPLIT_4CH \<Longrightarrow> b_split b \<noteq> SPLIT_2CH \<Longrightarrow> qos_triple (Qos_State False False None) (qos_init_e3_v10 b) (Qos_State False True None)"
  unfolding qos_init_e3_v10_def
  by (rule qos_seqs qos_skip dbsc_e3_v10 split_e3_v10 type_e3_v10 | assumption)+

lemma qos_e3_v10_stops: "b_split b \<in> {SPLIT_4CH, SPLIT_2CH} \<Longrightarrow> qos_stops (Qos_State False False None) (qos_init_e3_v10 b)"
  unfolding qos_init_e3_v10_def by (rule qos_stops_seqs [OF dbsc_e3_v10 no_split_e3_v10])

end
