(* ===== verification/QosH3V11.thy ===== *)
theory QosH3V11
  imports Qos
begin

text \<open>
  The bus settings of one chip, \<^verbatim>\<open>CortexR7_Loader/qos/H3/qos_init_h3_v11.c\<close>, with its tables.
\<close>

definition mstat_fix_h3_v11 :: "(u32 \<times> u64) list" where
  "mstat_fix_h3_v11 =
    [(0x0000, 0x0000000000000000), (0x0008, 0x0000000000000000), (0x0010, 0x0000000000000000),
     (0x0018, 0x0000000000000000), (0x0020, 0x0000000000000000), (0x0028, 0x0000000000000000),
     (0x0030, 0x001004030000FFFF), (0x0038, 0x001008060000FFFF), (0x0040, 0x001414090000FFFF),
     (0x0048, 0x0000000000000000), (0x0050, 0x001410010000FFFF), (0x0058, 0x00140C0C0000FFFF),
     (0x0060, 0x00140C0C0000FFFF), (0x0068, 0x0000000000000000), (0x0070, 0x001410010000FFFF),
     (0x0078, 0x001008060000FFFF), (0x0080, 0x001004020000FFFF), (0x0088, 0x001414090000FFFF),
     (0x0090, 0x00140C0C0000FFFF), (0x0098, 0x001408080000FFFF), (0x00A0, 0x000C08020000FFFF),
     (0x00A8, 0x000C04010000FFFF), (0x00B0, 0x000C04010000FFFF), (0x00B8, 0x0000000000000000),
     (0x00C0, 0x000C08020000FFFF), (0x00C8, 0x000C04010000FFFF), (0x00D0, 0x000C04010000FFFF),
     (0x00D8, 0x000C04030000FFFF), (0x00E0, 0x000C100F0000FFFF), (0x00E8, 0x0000000000000000),
     (0x00F0, 0x001010080000FFFF), (0x00F8, 0x001010080000FFFF), (0x0100, 0x0000000000000000),
     (0x0108, 0x000C04030000FFFF), (0x0110, 0x001010080000FFFF), (0x0118, 0x001010080000FFFF),
     (0x0120, 0x0000000000000000), (0x0128, 0x000C100E0000FFFF), (0x0130, 0x0000000000000000),
     (0x0138, 0x001008050000FFFF), (0x0140, 0x001008050000FFFF), (0x0148, 0x001008050000FFFF),
     (0x0150, 0x001008050000FFFF), (0x0158, 0x001008050000FFFF), (0x0160, 0x001008050000FFFF),
     (0x0168, 0x001008050000FFFF), (0x0170, 0x001008050000FFFF), (0x0178, 0x001004030000FFFF),
     (0x0180, 0x001004030000FFFF), (0x0188, 0x001004030000FFFF), (0x0190, 0x001014140000FFFF),
     (0x0198, 0x001014140000FFFF), (0x01A0, 0x001008050000FFFF), (0x01A8, 0x001008050000FFFF),
     (0x01B0, 0x001008050000FFFF), (0x01B8, 0x0000000000000000), (0x01C0, 0x0000000000000000),
     (0x01C8, 0x0000000000000000), (0x01D0, 0x0000000000000000), (0x01D8, 0x0000000000000000),
     (0x01E0, 0x0000000000000000), (0x01E8, 0x0000000000000000), (0x01F0, 0x0000000000000000),
     (0x01F8, 0x0000000000000000), (0x0200, 0x0000000000000000), (0x0208, 0x0000000000000000),
     (0x0210, 0x0000000000000000), (0x0218, 0x0000000000000000), (0x0220, 0x0000000000000000),
     (0x0228, 0x0000000000000000), (0x0230, 0x0000000000000000), (0x0238, 0x0000000000000000),
     (0x0240, 0x0000000000000000), (0x0248, 0x0000000000000000), (0x0250, 0x0000000000000000),
     (0x0258, 0x0000000000000000), (0x0260, 0x0000000000000000), (0x0268, 0x001408010000FFFF),
     (0x0270, 0x001404010000FFFF), (0x0278, 0x0000000000000000), (0x0280, 0x0000000000000000),
     (0x0288, 0x0000000000000000), (0x0290, 0x001408010000FFFF), (0x0298, 0x001404010000FFFF),
     (0x02A0, 0x000C04010000FFFF), (0x02A8, 0x000C04010000FFFF), (0x02B0, 0x001404010000FFFF),
     (0x02B8, 0x0000000000000000), (0x02C0, 0x0000000000000000), (0x02C8, 0x0000000000000000),
     (0x02D0, 0x000C04010000FFFF), (0x02D8, 0x000C04010000FFFF), (0x02E0, 0x001404010000FFFF),
     (0x02E8, 0x0000000000000000), (0x02F0, 0x0000000000000000), (0x02F8, 0x0000000000000000),
     (0x0300, 0x0000000000000000), (0x0308, 0x0000000000000000), (0x0310, 0x0000000000000000),
     (0x0318, 0x0000000000000000), (0x0320, 0x0000000000000000), (0x0328, 0x0000000000000000),
     (0x0330, 0x0000000000000000), (0x0338, 0x0000000000000000)]"

definition mstat_be_h3_v11 :: "(u32 \<times> u64) list" where
  "mstat_be_h3_v11 =
    [(0x0000, 0x001200100C89C401), (0x0008, 0x001200100C89C401), (0x0010, 0x001200100C89C401),
     (0x0018, 0x001200100C89C401), (0x0020, 0x001100100C803401), (0x0028, 0x001100100C80FC01),
     (0x0030, 0x0000000000000000), (0x0038, 0x0000000000000000), (0x0040, 0x0000000000000000),
     (0x0048, 0x0000000000000000), (0x0050, 0x0000000000000000), (0x0058, 0x0000000000000000),
     (0x0060, 0x0000000000000000), (0x0068, 0x001100100C803401), (0x0070, 0x0000000000000000),
     (0x0078, 0x0000000000000000), (0x0080, 0x0000000000000000), (0x0088, 0x0000000000000000),
     (0x0090, 0x0000000000000000), (0x0098, 0x0000000000000000), (0x00A0, 0x0000000000000000),
     (0x00A8, 0x0000000000000000), (0x00B0, 0x0000000000000000), (0x00B8, 0x001100100C803401),
     (0x00C0, 0x0000000000000000), (0x00C8, 0x0000000000000000), (0x00D0, 0x0000000000000000),
     (0x00D8, 0x0000000000000000), (0x00E0, 0x0000000000000000), (0x00E8, 0x001100100C803401),
     (0x00F0, 0x0000000000000000), (0x00F8, 0x0000000000000000), (0x0100, 0x0000000000000000),
     (0x0108, 0x0000000000000000), (0x0110, 0x0000000000000000), (0x0118, 0x0000000000000000),
     (0x0120, 0x0000000000000000), (0x0128, 0x0000000000000000), (0x0130, 0x001100100C803401),
     (0x0138, 0x0000000000000000), (0x0140, 0x0000000000000000), (0x0148, 0x0000000000000000),
     (0x0150, 0x0000000000000000), (0x0158, 0x0000000000000000), (0x0160, 0x0000000000000000),
     (0x0168, 0x0000000000000000), (0x0170, 0x0000000000000000), (0x0178, 0x0000000000000000),
     (0x0180, 0x0000000000000000), (0x0188, 0x0000000000000000), (0x0190, 0x0000000000000000),
     (0x0198, 0x0000000000000000), (0x01A0, 0x0000000000000000), (0x01A8, 0x0000000000000000),
     (0x01B0, 0x0000000000000000), (0x01B8, 0x001100100C803401), (0x01C0, 0x001100800C8FFC01),
     (0x01C8, 0x001100800C8FFC01), (0x01D0, 0x001100800C8FFC01), (0x01D8, 0x001100800C8FFC01),
     (0x01E0, 0x001100100C80FC01), (0x01E8, 0x001200100C80FC01), (0x01F0, 0x001100100C80FC01),
     (0x01F8, 0x001100100C803401), (0x0200, 0x001100100C80FC01), (0x0208, 0x001200100C80FC01),
     (0x0210, 0x001100100C80FC01), (0x0218, 0x001100100C825801), (0x0220, 0x001100100C825801),
     (0x0228, 0x001100100C803401), (0x0230, 0x001100100C825801), (0x0238, 0x001100100C825801),
     (0x0240, 0x001200100C8BB801), (0x0248, 0x001100200C8FFC01), (0x0250, 0x001200100C8BB801),
     (0x0258, 0x001100200C8FFC01), (0x0260, 0x001100100C84E401), (0x0268, 0x0000000000000000),
     (0x0270, 0x0000000000000000), (0x0278, 0x001100100C81F401), (0x0280, 0x001100100C803401),
     (0x0288, 0x001100100C803401), (0x0290, 0x0000000000000000), (0x0298, 0x0000000000000000),
     (0x02A0, 0x0000000000000000), (0x02A8, 0x0000000000000000), (0x02B0, 0x0000000000000000),
     (0x02B8, 0x001100100C803401), (0x02C0, 0x001100100C803401), (0x02C8, 0x001100100C803401),
     (0x02D0, 0x0000000000000000), (0x02D8, 0x0000000000000000), (0x02E0, 0x0000000000000000),
     (0x02E8, 0x001100100C803401), (0x02F0, 0x001100300C8FFC01), (0x02F8, 0x001100500C8FFC01),
     (0x0300, 0x001100100C803401), (0x0308, 0x001100300C8FFC01), (0x0310, 0x001100500C8FFC01),
     (0x0318, 0x001200100C803401), (0x0320, 0x001100300C8FFC01), (0x0328, 0x001100500C8FFC01),
     (0x0330, 0x001100300C8FFC01), (0x0338, 0x001100500C8FFC01)]"

definition dbsc_setting_h3_v11 :: "unit prog" where
  "dbsc_setting_h3_v11 = seqs
      [io_write_32 DBSC_DBCAM0CNF1 0x00044218,
       io_write_32 DBSC_DBCAM0CNF2 0x000000F4,
       io_write_32 DBSC_DBSCHCNT0 0x080F0037,
       io_write_32 DBSC_DBSCHCNT1 0x00001010,
       io_write_32 DBSC_DBSCHSZ0 0x00000001,
       io_write_32 DBSC_DBSCHRW0 0x22421111,
       bnd (mmio_read_32 RST_MODEMR) (\<lambda>v.
        (let md = drop_bit 17 (v AND 0x000A0000) in
         if md = 0x0 then io_write_32 DBSC_SCFCTST2 0x012F1123
         else if md = 0x1 then io_write_32 DBSC_SCFCTST2 0x012F1123
         else if md = 0x4 then io_write_32 DBSC_SCFCTST2 0x012F1123
         else io_write_32 DBSC_SCFCTST2 0x012F1123)),
       io_write_32 DBSC_DBSCHQOS_0_0 0x0000F000,
       io_write_32 DBSC_DBSCHQOS_0_1 0x0000E000,
       io_write_32 DBSC_DBSCHQOS_0_2 0x00007000,
       io_write_32 DBSC_DBSCHQOS_0_3 0x00000000,
       io_write_32 DBSC_DBSCHQOS_4_0 0x00000E00,
       io_write_32 DBSC_DBSCHQOS_4_1 0x00000DFF,
       io_write_32 DBSC_DBSCHQOS_4_2 0x00000400,
       io_write_32 DBSC_DBSCHQOS_4_3 0x00000200,
       io_write_32 DBSC_DBSCHQOS_9_0 0x00000C00,
       io_write_32 DBSC_DBSCHQOS_9_1 0x00000BFF,
       io_write_32 DBSC_DBSCHQOS_9_2 0x00000400,
       io_write_32 DBSC_DBSCHQOS_9_3 0x00000200,
       io_write_32 DBSC_DBSCHQOS_13_0 0x00000980,
       io_write_32 DBSC_DBSCHQOS_13_1 0x0000097F,
       io_write_32 DBSC_DBSCHQOS_13_2 0x00000300,
       io_write_32 DBSC_DBSCHQOS_13_3 0x00000180,
       io_write_32 DBSC_DBSCHQOS_14_0 0x00000800,
       io_write_32 DBSC_DBSCHQOS_14_1 0x000007FF,
       io_write_32 DBSC_DBSCHQOS_14_2 0x00000300,
       io_write_32 DBSC_DBSCHQOS_14_3 0x00000180,
       io_write_32 DBSC_DBSCHQOS_15_0 0x000007D0,
       io_write_32 DBSC_DBSCHQOS_15_1 0x000007CF,
       io_write_32 DBSC_DBSCHQOS_15_2 0x000005D0,
       io_write_32 DBSC_DBSCHQOS_15_3 0x000003D0]"

definition qos_split_h3_v11 :: "qos_build \<Rightarrow> unit prog" where
  "qos_split_h3_v11 b =
     (if b_split b = SPLIT_4CH \<or> b_split b = SPLIT_AUTO then
        (seqs
          [NOTICE (''BL2: DRAM Split is 4ch'' @ [CHR 0x0A]) [],
           io_write_32 AXI_ADSPLCR0 (ADSPLCR0_ADRMODE_DEFAULT OR (ADSPLCR0_SPLITSEL 0xFF) OR (ADSPLCR0_AREA 0x1B) OR ADSPLCR0_SWP),
           io_write_32 AXI_ADSPLCR1 0x00000000,
           io_write_32 AXI_ADSPLCR2 0xA8A90000,
           io_write_32 AXI_ADSPLCR3 0x00000000])
      else if b_split b = SPLIT_2CH then
        (seqs
          [NOTICE (''BL2: DRAM Split is 2ch'' @ [CHR 0x0A]) [],
           io_write_32 AXI_ADSPLCR0 0x00000000,
           io_write_32 AXI_ADSPLCR1 (ADSPLCR0_ADRMODE_DEFAULT OR (ADSPLCR0_SPLITSEL 0xFF) OR (ADSPLCR0_AREA 0x1B) OR ADSPLCR0_SWP),
           io_write_32 AXI_ADSPLCR2 0x00000000,
           io_write_32 AXI_ADSPLCR3 0x00000000])
      else
        (NOTICE (''BL2: DRAM Split is OFF'' @ [CHR 0x0A]) []))"

definition qos_type_h3_v11 :: "qos_build \<Rightarrow> unit prog" where
  "qos_type_h3_v11 b =
     (if q_type b \<noteq> QOS_NONE then
        (seqs
          [whenp (q_type b = QOS_TYPE_DEFAULT)
            (NOTICE (''BL2: QoS is default setting(%s)'' @ [CHR 0x0A]) [ArgS ''rev.0.37'']),
           io_write_32 0xE67D1000 0x00000100,
           io_write_32 0xE67D1008 0x00000100,
           if b_split b = SPLIT_2CH then
            (io_write_32 RALLOC_RAS 0x00000020)
          else
            (io_write_32 RALLOC_RAS 0x00000040),
           io_write_32 RALLOC_FIXTH 0x000F0005,
           io_write_32 RALLOC_REGGD 0x00000000,
           if b_split b = SPLIT_2CH then
            (seqs
              [io_write_64 RALLOC_DANN 0x0101010102020201,
               io_write_32 RALLOC_DANT 0x00181008])
          else
            (seqs
              [io_write_64 RALLOC_DANN 0x0101000004040401,
               io_write_32 RALLOC_DANT 0x003C2010]),
           io_write_32 RALLOC_EC 0x00080001,
           io_write_64 RALLOC_EMS 0x0000000000000000,
           io_write_32 RALLOC_INSFC 0xC7840001,
           io_write_32 RALLOC_BERR 0x00000000,
           io_write_32 RALLOC_RACNT0 0x00000000,
           io_write_32 MSTAT_SL_INIT (SL_INIT_REFFSSLOT OR SL_INIT_SLOTSSLOT OR SL_INIT_SSLOTCLK),
           io_write_32 MSTAT_REF_ARS 0x00330000,
           mstat_table MSTAT_FIX_QOS_BANK0 MSTAT_FIX_QOS_BANK1 mstat_fix_h3_v11,
           mstat_table MSTAT_BE_QOS_BANK0 MSTAT_BE_QOS_BANK1 mstat_be_h3_v11,
           io_write_32 0xFD820808 0x00001234,
           io_write_32 0xFD820800 0x0000003F,
           io_write_32 0xFD821800 0x0000003F,
           io_write_32 0xFD822800 0x0000003F,
           io_write_32 0xFD823800 0x0000003F,
           io_write_32 0xFD824800 0x0000003F,
           io_write_32 0xFD825800 0x0000003F,
           io_write_32 0xFD826800 0x0000003F,
           io_write_32 0xFD827800 0x0000003F,
           io_write_32 0xFEB89800 0x00000001,
           io_write_32 0xFEB8A800 0x00000001,
           io_write_32 0xFEB8B800 0x00000001,
           io_write_32 0xFEB8C800 0x00000001,
           io_write_32 0xE6430800 0x00000001,
           io_write_32 0xE6431800 0x00000001,
           io_write_32 0xE6432800 0x00000001,
           io_write_32 0xE6433800 0x00000001,
           io_write_32 0xEC620800 0x00000001,
           io_write_32 0xEC621800 0x00000001,
           io_write_32 0xE7760800 0x00000001,
           io_write_32 0xE7768800 0x00000001,
           io_write_32 0xE6760800 0x00000001,
           io_write_32 0xE6768800 0x00000001,
           io_write_32 0xFFC50800 0x00000001,
           io_write_32 0xFFC51800 0x00000001,
           bnd (mmio_read_32 RCAR_MODEMR) (\<lambda>v.
            whenp (v AND MODEMR_BOOT_CPU_MASK = MODEMR_BOOT_CPU_CA57 \<or> v AND MODEMR_BOOT_CPU_MASK = MODEMR_BOOT_CPU_CA53)
              (seqs
                [io_write_32 0xF1300800 0x00000001,
                 io_write_32 0xF1340800 0x00000001,
                 io_write_32 0xF1380800 0x00000001,
                 io_write_32 0xF13C0800 0x00000001])),
           io_write_32 RALLOC_RAEN 0x00000001,
           io_write_32 MSTAT_STATQC 0x00000001])
      else
        (seqs
          [NOTICE (''BL2: QoS is None'' @ [CHR 0x0A]) [],
           io_write_32 RALLOC_EC 0x00080001]))"

definition qos_init_h3_v11 :: "qos_build \<Rightarrow> unit prog" where
  "qos_init_h3_v11 b = seqs [dbsc_setting_h3_v11, qos_split_h3_v11 b, qos_type_h3_v11 b]"

lemma tables_h3_v11:
  "list_all (\<lambda>(a, _). a < 0x800) mstat_fix_h3_v11"
  "list_all (\<lambda>(a, _). a < 0x800) mstat_be_h3_v11"
  by (simp_all add: mstat_fix_h3_v11_def mstat_be_h3_v11_def)

lemma dbsc_h3_v11: "qos_triple (Qos_State True False None) dbsc_setting_h3_v11 (Qos_State True False None)"
  unfolding dbsc_setting_h3_v11_def by (rule qos_struct qos_rules mstat_table_ok tables_h3_v11 | (rule qos_notice, simp))+

lemma split_h3_v11: "qos_triple (Qos_State d False None) (qos_split_h3_v11 b) (Qos_State d False None)"
  unfolding qos_split_h3_v11_def by (rule qos_struct qos_rules mstat_table_ok tables_h3_v11 | (rule qos_notice, simp))+

lemma type_h3_v11: "qos_triple (Qos_State d False None) (qos_type_h3_v11 b) (Qos_State d (q_type b \<noteq> QOS_NONE) None)"
  unfolding qos_type_h3_v11_def
  by (cases "q_type b"; simp only: if_True if_False qos_type.distinct simp_thms not_False_eq_True) (rule qos_struct qos_rules mstat_table_ok tables_h3_v11 | (rule qos_notice, simp))+

lemma qos_h3_v11_ok: "qos_triple (Qos_State True False None) (qos_init_h3_v11 b) (Qos_State True (q_type b \<noteq> QOS_NONE) None)"
  unfolding qos_init_h3_v11_def
  by (rule qos_seqs qos_skip dbsc_h3_v11 split_h3_v11 type_h3_v11 | assumption)+

end
