(* ===== verification/QosH3V30.thy ===== *)
theory QosH3V30
  imports Qos
begin

text \<open>
  The bus settings of one chip, \<^verbatim>\<open>CortexR7_Loader/qos/H3/qos_init_h3_v30.c\<close> and its table files.
\<close>

definition QOSCTRL_REF_ARS_ARBSTOPCYCLE_H3_30 :: "qos_build \<Rightarrow> u32" where
  "QOSCTRL_REF_ARS_ARBSTOPCYCLE_H3_30 b = ((SL_INIT_SSLOTCLK_H3_30 b) - 0x5)"

definition QOSWT_WTSET0_PERIOD0_H3_30 :: "qos_build \<Rightarrow> u32" where
  "QOSWT_WTSET0_PERIOD0_H3_30 b = ((QOSWT_TIME_BANK0 div (QOSWT_WTSET0_CYCLE_H3_30 b)) - 1)"

definition QOSWT_WTSET1_PERIOD1_H3_30 :: "qos_build \<Rightarrow> u32" where
  "QOSWT_WTSET1_PERIOD1_H3_30 b = (QOSWT_WTSET0_PERIOD0_H3_30 b)"

definition mstat_fix_h3_v30_195 :: "u64 list" where
  "mstat_fix_h3_v30_195 =
    [0, 0, 0, 0,
     0, 0, 0x001004040000FFFF, 0x001008070000FFFF,
     0x001410070000FFFF, 0, 0x001404010000FFFF, 0x0014100D0000FFFF,
     0x0014100D0000FFFF, 0, 0x001404010000FFFF, 0x001008070000FFFF,
     0, 0x001410070000FFFF, 0x0014100D0000FFFF, 0,
     0x000C04020000FFFF, 0x000C04010000FFFF, 0x000C04010000FFFF, 0,
     0x000C04020000FFFF, 0x000C04010000FFFF, 0x000C04010000FFFF, 0x001024090000FFFF,
     0x00100C090000FFFF, 0, 0x001024090000FFFF, 0x000C100D0000FFFF,
     0, 0, 0x00100C090000FFFF, 0x000C1C1B0000FFFF,
     0x000C1C1B0000FFFF, 0, 0, 0x00100C0B0000FFFF,
     0x00100C0B0000FFFF, 0, 0x0010100D0000FFFF, 0x0010100D0000FFFF,
     0x00100C0B0000FFFF, 0x00100C0B0000FFFF, 0, 0x001008060000FFFF,
     0x001008060000FFFF, 0, 0x00102C2C0000FFFF, 0x00102C2C0000FFFF,
     0x00100C0B0000FFFF, 0x00100C0B0000FFFF, 0, 0,
     0x000C04010000FFFF, 0x000C04010000FFFF, 0x000C04010000FFFF, 0x000C04010000FFFF,
     0, 0x000C04010000FFFF, 0x000C04010000FFFF, 0,
     0, 0x000C04010000FFFF, 0x000C04010000FFFF, 0,
     0, 0, 0, 0,
     0, 0, 0, 0,
     0x000C08020000FFFF, 0x001408010000FFFF, 0x001404010000FFFF, 0x000C04010000FFFF,
     0, 0, 0x001408010000FFFF, 0x001404010000FFFF,
     0x000C04010000FFFF, 0x000C04010000FFFF, 0x001408010000FFFF, 0x000C04010000FFFF,
     0, 0, 0x000C04010000FFFF, 0x000C04010000FFFF,
     0x001408010000FFFF, 0x000C04010000FFFF, 0, 0,
     0, 0, 0, 0,
     0, 0, 0, 0,
     0, 0, 0, 0,
     0, 0]"

definition mstat_be_h3_v30_195 :: "u64 list" where
  "mstat_be_h3_v30_195 =
    [0x001200600BDFFC01, 0x001200600BDFFC01, 0x001200600BDFFC01, 0x001200600BDFFC01,
     0, 0x001200100BD0FC01, 0, 0,
     0, 0, 0, 0,
     0, 0, 0, 0,
     0, 0, 0, 0,
     0, 0, 0, 0,
     0, 0, 0, 0,
     0, 0, 0, 0,
     0, 0, 0, 0,
     0, 0, 0, 0,
     0, 0, 0, 0,
     0, 0, 0, 0,
     0, 0, 0, 0,
     0, 0, 0, 0,
     0x002100600BDFFC01, 0x002100600BDFFC01, 0x002100600BDFFC01, 0x002100600BDFFC01,
     0, 0, 0x002100100BDF2401, 0,
     0, 0, 0x002100100BDF2401, 0x001100100BDF2401,
     0x001100100BDF2401, 0, 0x001100100BDF2401, 0x001100100BDF2401,
     0x001200100BDF2401, 0x001100100BDF2401, 0x001200100BDF2401, 0x001100100BDF2401,
     0, 0, 0, 0,
     0, 0, 0, 0,
     0, 0, 0, 0,
     0, 0, 0, 0,
     0, 0, 0x001100600BDFFC01, 0x001100600BDFFC01,
     0, 0x001100600BDFFC01, 0x001100600BDFFC01, 0x001200100BD03401,
     0x001100600BDFFC01, 0x001100600BDFFC01, 0x001100600BDFFC01, 0x001100600BDFFC01,
     0, 0, 0, 0,
     0, 0x001200100BD0FC01]"

definition mstat_fix_h3_v30_390 :: "u64 list" where
  "mstat_fix_h3_v30_390 =
    [0, 0, 0, 0,
     0, 0, 0x001008070000FFFF, 0x0010100D0000FFFF,
     0x00141C0E0000FFFF, 0, 0x001408010000FFFF, 0x00141C190000FFFF,
     0x00141C190000FFFF, 0, 0x001408010000FFFF, 0x0010100D0000FFFF,
     0, 0x00141C0E0000FFFF, 0x00141C190000FFFF, 0,
     0x000C08040000FFFF, 0x000C04020000FFFF, 0x000C04020000FFFF, 0,
     0x000C08040000FFFF, 0x000C04020000FFFF, 0x000C04020000FFFF, 0x001044110000FFFF,
     0x001014110000FFFF, 0, 0x001044110000FFFF, 0x000C1C1A0000FFFF,
     0, 0, 0x001014110000FFFF, 0x000C38360000FFFF,
     0x000C38360000FFFF, 0, 0, 0x001018150000FFFF,
     0x001018150000FFFF, 0, 0x00101C190000FFFF, 0x00101C190000FFFF,
     0x001018150000FFFF, 0x001018150000FFFF, 0, 0x00100C0B0000FFFF,
     0x00100C0B0000FFFF, 0, 0x001058570000FFFF, 0x001058570000FFFF,
     0x001018150000FFFF, 0x001018150000FFFF, 0, 0,
     0x000C04010000FFFF, 0x000C04010000FFFF, 0x000C04010000FFFF, 0x000C04010000FFFF,
     0, 0x000C04010000FFFF, 0x000C04010000FFFF, 0,
     0, 0x000C04010000FFFF, 0x000C04010000FFFF, 0,
     0, 0, 0, 0,
     0, 0, 0, 0,
     0x000C0C030000FFFF, 0x001410010000FFFF, 0x001404010000FFFF, 0x000C08020000FFFF,
     0, 0, 0x001410010000FFFF, 0x001404010000FFFF,
     0x000C04010000FFFF, 0x000C04010000FFFF, 0x00140C010000FFFF, 0x000C04010000FFFF,
     0, 0, 0x000C04010000FFFF, 0x000C04010000FFFF,
     0x00140C010000FFFF, 0x000C04010000FFFF, 0, 0,
     0, 0, 0, 0,
     0, 0, 0, 0,
     0, 0, 0, 0,
     0, 0]"

definition mstat_be_h3_v30_390 :: "u64 list" where
  "mstat_be_h3_v30_390 =
    [0x0012006005EFFC01, 0x0012006005EFFC01, 0x0012006005EFFC01, 0x0012006005EFFC01,
     0, 0x0012001005E0FC01, 0, 0,
     0, 0, 0, 0,
     0, 0, 0, 0,
     0, 0, 0, 0,
     0, 0, 0, 0,
     0, 0, 0, 0,
     0, 0, 0, 0,
     0, 0, 0, 0,
     0, 0, 0, 0,
     0, 0, 0, 0,
     0, 0, 0, 0,
     0, 0, 0, 0,
     0, 0, 0, 0,
     0x0021006005EFFC01, 0x0021006005EFFC01, 0x0021006005EFFC01, 0x0021006005EFFC01,
     0, 0, 0x0021001005E79401, 0,
     0, 0, 0x0021001005E79401, 0x0011001005E79401,
     0x0011001005E79401, 0, 0x0011001005E79401, 0x0011001005E79401,
     0x0012001005E79401, 0x0011001005E79401, 0x0012001005E79401, 0x0011001005E79401,
     0, 0, 0, 0,
     0, 0, 0, 0,
     0, 0, 0, 0,
     0, 0, 0, 0,
     0, 0, 0x0011006005EFFC01, 0x0011006005EFFC01,
     0, 0x0011006005EFFC01, 0x0011006005EFFC01, 0x0012001005E03401,
     0x0011006005EFFC01, 0x0011006005EFFC01, 0x0011006005EFFC01, 0x0011006005EFFC01,
     0, 0, 0, 0,
     0, 0x0012001005E0FC01]"

definition mstat_fix_h3_v30 :: "qos_build \<Rightarrow> u64 list" where
  "mstat_fix_h3_v30 b = (if q_ref_default b then mstat_fix_h3_v30_195 else mstat_fix_h3_v30_390)"

definition mstat_be_h3_v30 :: "qos_build \<Rightarrow> u64 list" where
  "mstat_be_h3_v30 b = (if q_ref_default b then mstat_be_h3_v30_195 else mstat_be_h3_v30_390)"

definition qoswt_fix_h3_v30_195 :: "u64 list" where
  "qoswt_fix_h3_v30_195 =
    [0, 0, 0, 0,
     0, 0, 0x001004040000C010, 0x001008070000C010,
     0x001410070000FFF0, 0, 0, 0x0014100D0000C010,
     0x0014100D0000C010, 0, 0, 0x001008070000C010,
     0, 0x001410070000FFF0, 0x0014100D0000C010, 0,
     0, 0, 0, 0,
     0, 0, 0, 0,
     0, 0, 0, 0,
     0, 0, 0, 0,
     0, 0, 0, 0,
     0, 0, 0, 0,
     0, 0, 0, 0,
     0, 0, 0, 0,
     0, 0, 0, 0,
     0, 0, 0, 0,
     0, 0, 0, 0,
     0, 0, 0, 0,
     0, 0, 0, 0,
     0, 0, 0, 0,
     0x000C08020000FFF0, 0x001408010000FFF0, 0x001404010000FFF0, 0x000C04010000FFF0,
     0, 0, 0x001408010000FFF0, 0x001404010000FFF0,
     0, 0, 0, 0,
     0, 0, 0, 0,
     0, 0, 0, 0,
     0, 0, 0, 0,
     0, 0, 0, 0,
     0, 0, 0, 0,
     0, 0]"

definition qoswt_be_h3_v30_195 :: "u64 list" where
  "qoswt_be_h3_v30_195 =
    [0, 0, 0, 0,
     0, 0, 0, 0,
     0, 0, 0, 0,
     0, 0, 0, 0,
     0, 0, 0, 0,
     0, 0, 0, 0,
     0, 0, 0, 0,
     0, 0, 0, 0,
     0, 0, 0, 0,
     0, 0, 0, 0,
     0, 0, 0, 0,
     0, 0, 0, 0,
     0, 0, 0, 0,
     0, 0, 0, 0,
     0, 0, 0, 0,
     0, 0, 0, 0,
     0, 0, 0, 0,
     0, 0, 0, 0,
     0, 0, 0, 0,
     0, 0, 0, 0,
     0, 0, 0, 0,
     0, 0, 0, 0,
     0, 0, 0, 0,
     0, 0, 0, 0,
     0, 0, 0, 0,
     0, 0, 0, 0,
     0, 0, 0, 0,
     0, 0]"

definition qoswt_fix_h3_v30_390 :: "u64 list" where
  "qoswt_fix_h3_v30_390 =
    [0, 0, 0, 0,
     0, 0, 0x001008070000C010, 0x0010100D0000C010,
     0x00141C0E0000FFF0, 0, 0, 0x00141C190000C010,
     0x00141C190000C010, 0, 0, 0x0010100D0000C010,
     0, 0x00141C0E0000FFF0, 0x00141C190000C010, 0,
     0, 0, 0, 0,
     0, 0, 0, 0,
     0, 0, 0, 0,
     0, 0, 0, 0,
     0, 0, 0, 0,
     0, 0, 0, 0,
     0, 0, 0, 0,
     0, 0, 0, 0,
     0, 0, 0, 0,
     0, 0, 0, 0,
     0, 0, 0, 0,
     0, 0, 0, 0,
     0, 0, 0, 0,
     0, 0, 0, 0,
     0x000C0C030000FFF0, 0x001410010000FFF0, 0x001404010000FFF0, 0x000C08020000FFF0,
     0, 0, 0x001410010000FFF0, 0x001404010000FFF0,
     0, 0, 0, 0,
     0, 0, 0, 0,
     0, 0, 0, 0,
     0, 0, 0, 0,
     0, 0, 0, 0,
     0, 0, 0, 0,
     0, 0]"

definition qoswt_be_h3_v30_390 :: "u64 list" where
  "qoswt_be_h3_v30_390 =
    [0, 0, 0, 0,
     0, 0, 0, 0,
     0, 0, 0, 0,
     0, 0, 0, 0,
     0, 0, 0, 0,
     0, 0, 0, 0,
     0, 0, 0, 0,
     0, 0, 0, 0,
     0, 0, 0, 0,
     0, 0, 0, 0,
     0, 0, 0, 0,
     0, 0, 0, 0,
     0, 0, 0, 0,
     0, 0, 0, 0,
     0, 0, 0, 0,
     0, 0, 0, 0,
     0, 0, 0, 0,
     0, 0, 0, 0,
     0, 0, 0, 0,
     0, 0, 0, 0,
     0, 0, 0, 0,
     0, 0, 0, 0,
     0, 0, 0, 0,
     0, 0, 0, 0,
     0, 0, 0, 0,
     0, 0, 0, 0,
     0, 0, 0, 0,
     0, 0]"

definition qoswt_fix_h3_v30 :: "qos_build \<Rightarrow> u64 list" where
  "qoswt_fix_h3_v30 b = (if q_ref_default b then qoswt_fix_h3_v30_195 else qoswt_fix_h3_v30_390)"

definition qoswt_be_h3_v30 :: "qos_build \<Rightarrow> u64 list" where
  "qoswt_be_h3_v30 b = (if q_ref_default b then qoswt_be_h3_v30_195 else qoswt_be_h3_v30_390)"

definition dbsc_setting_h3_v30 :: "unit prog" where
  "dbsc_setting_h3_v30 = seqs
      [io_write_32 DBSC_DBSYSCNT0 0x00001234,
       io_write_32 DBSC_DBCAM0CNF1 0x00043218,
       io_write_32 DBSC_DBCAM0CNF2 0x000000F4,
       io_write_32 DBSC_DBCAM0CNF3 0x00000000,
       io_write_32 DBSC_DBSCHCNT0 0x000F0037,
       io_write_32 DBSC_DBSCHSZ0 0x00000001,
       io_write_32 DBSC_DBSCHRW0 0x22421111,
       bnd (mmio_read_32 RST_MODEMR) (\<lambda>v.
        (let md = drop_bit 17 (v AND 0x000A0000) in
         if md = 0x0 then io_write_32 DBSC_SCFCTST2 0x012F1123
         else if md = 0x1 then io_write_32 DBSC_SCFCTST2 0x012F1123
         else if md = 0x4 then io_write_32 DBSC_SCFCTST2 0x012F1123
         else io_write_32 DBSC_SCFCTST2 0x012F1123)),
       io_write_32 DBSC_DBSCHQOS00 0x00000F00,
       io_write_32 DBSC_DBSCHQOS01 0x00000B00,
       io_write_32 DBSC_DBSCHQOS02 0x00000000,
       io_write_32 DBSC_DBSCHQOS03 0x00000000,
       io_write_32 DBSC_DBSCHQOS40 0x00000300,
       io_write_32 DBSC_DBSCHQOS41 0x000002F0,
       io_write_32 DBSC_DBSCHQOS42 0x00000200,
       io_write_32 DBSC_DBSCHQOS43 0x00000100,
       io_write_32 DBSC_DBSCHQOS90 0x00000100,
       io_write_32 DBSC_DBSCHQOS91 0x000000F0,
       io_write_32 DBSC_DBSCHQOS92 0x000000A0,
       io_write_32 DBSC_DBSCHQOS93 0x00000040,
       io_write_32 DBSC_DBSCHQOS120 0x00000040,
       io_write_32 DBSC_DBSCHQOS121 0x00000030,
       io_write_32 DBSC_DBSCHQOS122 0x00000020,
       io_write_32 DBSC_DBSCHQOS123 0x00000010,
       io_write_32 DBSC_DBSCHQOS130 0x00000100,
       io_write_32 DBSC_DBSCHQOS131 0x000000F0,
       io_write_32 DBSC_DBSCHQOS132 0x000000A0,
       io_write_32 DBSC_DBSCHQOS133 0x00000040,
       io_write_32 DBSC_DBSCHQOS140 0x000000C0,
       io_write_32 DBSC_DBSCHQOS141 0x000000B0,
       io_write_32 DBSC_DBSCHQOS142 0x00000080,
       io_write_32 DBSC_DBSCHQOS143 0x00000040,
       io_write_32 DBSC_DBSCHQOS150 0x00000040,
       io_write_32 DBSC_DBSCHQOS151 0x00000030,
       io_write_32 DBSC_DBSCHQOS152 0x00000020,
       io_write_32 DBSC_DBSCHQOS153 0x00000010,
       io_write_32 DBSC_DBSYSCNT0 0x00000000]"

definition split_area_h3_v30 :: "qos_build \<Rightarrow> u32" where
  "split_area_h3_v30 b = (if b_memconf_4gb b then 0x1B else 0x1C)"

definition qos_split_h3_v30 :: "qos_build \<Rightarrow> unit prog" where
  "qos_split_h3_v30 b =
     (if b_split b = SPLIT_4CH \<or> b_split b = SPLIT_AUTO then
        (seqs
          [bnd (gets qos_init_ddr_phyvalid) (\<lambda>phyvalid. NOTICE (''BL2: DRAM Split is 4ch(DDR %x)'' @ [CHR 0x0A]) [ArgW (ucast phyvalid)]),
           io_write_32 AXI_ADSPLCR0 (ADSPLCR0_ADRMODE_DEFAULT OR (ADSPLCR0_SPLITSEL 0xFF) OR (ADSPLCR0_AREA (split_area_h3_v30 b)) OR ADSPLCR0_SWP),
           io_write_32 AXI_ADSPLCR1 0x00000000,
           io_write_32 AXI_ADSPLCR2 0x00001054,
           io_write_32 AXI_ADSPLCR3 0x00000000])
      else if b_split b = SPLIT_2CH then
        (seqs
          [bnd (gets qos_init_ddr_phyvalid) (\<lambda>phyvalid. NOTICE (''BL2: DRAM Split is 2ch(DDR %x)'' @ [CHR 0x0A]) [ArgW (ucast phyvalid)]),
           io_write_32 AXI_ADSPLCR0 (ADSPLCR0_AREA (split_area_h3_v30 b)),
           io_write_32 AXI_ADSPLCR1 (ADSPLCR0_ADRMODE_DEFAULT OR (ADSPLCR0_SPLITSEL 0xFF) OR (ADSPLCR0_AREA (split_area_h3_v30 b)) OR ADSPLCR0_SWP),
           io_write_32 AXI_ADSPLCR2 0x00001004,
           io_write_32 AXI_ADSPLCR3 0x00000000])
      else
        (seqs
          [io_write_32 AXI_ADSPLCR0 (ADSPLCR0_AREA (split_area_h3_v30 b)),
           bnd (gets qos_init_ddr_phyvalid) (\<lambda>phyvalid. NOTICE (''BL2: DRAM Split is OFF(DDR %x)'' @ [CHR 0x0A]) [ArgW (ucast phyvalid)])]))"

definition qos_type_h3_v30 :: "qos_build \<Rightarrow> unit prog" where
  "qos_type_h3_v30 b =
     (if q_type b \<noteq> QOS_NONE then
        (seqs
          [whenp (q_type b = QOS_TYPE_DEFAULT)
            (NOTICE (''BL2: QoS is default setting(%s)'' @ [CHR 0x0A]) [ArgS ''rev.0.11'']),
           if q_ref_default b then
            (NOTICE (''BL2: DRAM refresh interval 1.95 usec'' @ [CHR 0x0A]) [])
          else
            (NOTICE (''BL2: DRAM refresh interval 3.9 usec'' @ [CHR 0x0A]) []),
           whenp (q_rewt b)
            (NOTICE (''BL2: Periodic Write DQ Training'' @ [CHR 0x0A]) []),
           io_write_32 QOSCTRL_RAS 0x00000044,
           io_write_64 QOSCTRL_DANN 0x0404010002020201,
           io_write_32 QOSCTRL_DANT 0x0020100A,
           io_write_32 QOSCTRL_FSS 0x0000000A,
           io_write_32 QOSCTRL_INSFC 0x06330001,
           io_write_32 QOSCTRL_RACNT0 0x00010003,
           io_write_32 QOSCTRL_STATGEN0 0x00000001,
           io_write_32 QOSCTRL_SL_INIT (SL_INIT_REFFSSLOT OR SL_INIT_SLOTSSLOT OR (SL_INIT_SSLOTCLK_H3_30 b)),
           io_write_32 QOSCTRL_REF_ARS (push_bit 16 (QOSCTRL_REF_ARS_ARBSTOPCYCLE_H3_30 b)),
           qos_table QOSBW_FIX_QOS_BANK0 QOSBW_FIX_QOS_BANK1 (mstat_fix_h3_v30 b),
           qos_table QOSBW_BE_QOS_BANK0 QOSBW_BE_QOS_BANK1 (mstat_be_h3_v30 b),
           whenp (q_rewt b)
            (seqs
              [qos_table QOSWT_FIX_WTQOS_BANK0 QOSWT_FIX_WTQOS_BANK1 (qoswt_fix_h3_v30 b),
               qos_table QOSWT_BE_WTQOS_BANK0 QOSWT_BE_WTQOS_BANK1 (qoswt_be_h3_v30 b)]),
           io_write_32 AXI_MMCR 0x00010008,
           io_write_32 AXI_TR3CR 0x00010000,
           io_write_32 AXI_TR4CR 0x00010000,
           io_write_32 RT_ACT0 0x00000000,
           io_write_32 RT_ACT1 0x00000000,
           io_write_32 CPU_ACT0 0x00000003,
           io_write_32 CPU_ACT1 0x00000003,
           io_write_32 CPU_ACT2 0x00000003,
           io_write_32 CPU_ACT3 0x00000003,
           io_write_32 QOSCTRL_RAEN 0x00000001,
           whenp (q_rewt b)
            (seqs
              [io_write_32 QOSWT_WTREF ((push_bit 16 QOSWT_WTREF_SLOT1_EN) OR QOSWT_WTREF_SLOT0_EN),
               io_write_32 QOSWT_WTSET0 ((push_bit 16 (QOSWT_WTSET0_PERIOD0_H3_30 b)) OR (push_bit 8 QOSWT_WTSET0_SSLOT0) OR QOSWT_WTSET0_SLOTSLOT0),
               io_write_32 QOSWT_WTSET1 ((push_bit 16 (QOSWT_WTSET1_PERIOD1_H3_30 b)) OR (push_bit 8 QOSWT_WTSET1_SSLOT1) OR QOSWT_WTSET1_SLOTSLOT1),
               io_write_32 QOSWT_WTEN QOSWT_WTEN_ENABLE]),
           io_write_32 QOSCTRL_STATQC 0x00000001])
      else
        (seqs
          [NOTICE (''BL2: QoS is None'' @ [CHR 0x0A]) [],
           io_write_32 QOSCTRL_RAEN 0x00000001]))"

definition qos_init_h3_v30 :: "qos_build \<Rightarrow> unit prog" where
  "qos_init_h3_v30 b = seqs [dbsc_setting_h3_v30, qos_split_h3_v30 b, qos_type_h3_v30 b]"

lemma tables_h3_v30:
  "length (mstat_fix_h3_v30 b) \<le> 0x100"
  "length (mstat_be_h3_v30 b) \<le> 0x100"
  "length (qoswt_fix_h3_v30 b) \<le> 0x100"
  "length (qoswt_be_h3_v30 b) \<le> 0x100"
  by (simp_all add: mstat_fix_h3_v30_def mstat_be_h3_v30_def qoswt_fix_h3_v30_def
    qoswt_be_h3_v30_def mstat_fix_h3_v30_195_def mstat_be_h3_v30_195_def
    mstat_fix_h3_v30_390_def mstat_be_h3_v30_390_def qoswt_fix_h3_v30_195_def
    qoswt_be_h3_v30_195_def qoswt_fix_h3_v30_390_def qoswt_be_h3_v30_390_def)

lemma dbsc_h3_v30: "qos_triple (Qos_State False False None) dbsc_setting_h3_v30 (Qos_State False False None)"
  unfolding dbsc_setting_h3_v30_def by (rule qos_struct qos_rules qos_table_ok tables_h3_v30 | (rule qos_notice, simp))+

lemma split_h3_v30: "qos_triple (Qos_State d False None) (qos_split_h3_v30 b) (Qos_State d False None)"
  unfolding qos_split_h3_v30_def by (rule qos_struct qos_rules qos_table_ok tables_h3_v30 | (rule qos_notice, simp))+

lemma type_h3_v30: "qos_triple (Qos_State d False None) (qos_type_h3_v30 b) (Qos_State d True None)"
  unfolding qos_type_h3_v30_def by (rule qos_struct qos_rules qos_table_ok tables_h3_v30 | (rule qos_notice, simp))+

lemma qos_h3_v30_ok: "qos_triple (Qos_State False False None) (qos_init_h3_v30 b) (Qos_State False True None)"
  unfolding qos_init_h3_v30_def
  by (rule qos_seqs qos_skip dbsc_h3_v30 split_h3_v30 type_h3_v30 | assumption)+

end
