(* ===== verification/QosM3V10.thy ===== *)
theory QosM3V10
  imports Qos
begin

text \<open>
  The bus settings of one chip, \<^verbatim>\<open>CortexR7_Loader/qos/M3/qos_init_m3_v10.c\<close>, with its tables.
\<close>

definition mstat_fix_m3_v10 :: "(u32 \<times> u64) list" where
  "mstat_fix_m3_v10 =
    [(0x0000, 0x0000000000000000), (0x0008, 0x0000000000000000), (0x0010, 0x0000000000000000),
     (0x0018, 0x0000000000000000), (0x0020, 0x0000000000000000), (0x0028, 0x0000000000000000),
     (0x0030, 0x001004030000FFFF), (0x0038, 0x001004030000FFFF), (0x0040, 0x001414090000FFFF),
     (0x0048, 0x0000000000000000), (0x0050, 0x001410010000FFFF), (0x0058, 0x00140C090000FFFF),
     (0x0060, 0x00140C090000FFFF), (0x0068, 0x0000000000000000), (0x0070, 0x001410010000FFFF),
     (0x0078, 0x001004020000FFFF), (0x0080, 0x0000000000000000), (0x0088, 0x001414090000FFFF),
     (0x0090, 0x001408060000FFFF), (0x0098, 0x0000000000000000), (0x00A0, 0x000C08020000FFFF),
     (0x00A8, 0x000C04010000FFFF), (0x00B0, 0x000C04010000FFFF), (0x00B8, 0x0000000000000000),
     (0x00C0, 0x000C08020000FFFF), (0x00C8, 0x000C04010000FFFF), (0x00D0, 0x000C04010000FFFF),
     (0x00D8, 0x000C04030000FFFF), (0x00E0, 0x000C100F0000FFFF), (0x00E8, 0x0000000000000000),
     (0x00F0, 0x001010080000FFFF), (0x00F8, 0x0000000000000000), (0x0100, 0x0000000000000000),
     (0x0108, 0x0000000000000000), (0x0110, 0x001010080000FFFF), (0x0118, 0x0000000000000000),
     (0x0120, 0x0000000000000000), (0x0128, 0x0000000000000000), (0x0130, 0x0000000000000000),
     (0x0138, 0x00100C0A0000FFFF), (0x0140, 0x0000000000000000), (0x0148, 0x0000000000000000),
     (0x0150, 0x00100C0A0000FFFF), (0x0158, 0x0000000000000000), (0x0160, 0x00100C0A0000FFFF),
     (0x0168, 0x0000000000000000), (0x0170, 0x0000000000000000), (0x0178, 0x001008050000FFFF),
     (0x0180, 0x0000000000000000), (0x0188, 0x0000000000000000), (0x0190, 0x001028280000FFFF),
     (0x0198, 0x0000000000000000), (0x01A0, 0x00100C0A0000FFFF), (0x01A8, 0x0000000000000000),
     (0x01B0, 0x0000000000000000), (0x01B8, 0x0000000000000000), (0x01C0, 0x0000000000000000),
     (0x01C8, 0x0000000000000000), (0x01D0, 0x0000000000000000), (0x01D8, 0x0000000000000000),
     (0x01E0, 0x0000000000000000), (0x01E8, 0x0000000000000000), (0x01F0, 0x0000000000000000),
     (0x01F8, 0x0000000000000000), (0x0200, 0x0000000000000000), (0x0208, 0x0000000000000000),
     (0x0210, 0x0000000000000000), (0x0218, 0x0000000000000000), (0x0220, 0x0000000000000000),
     (0x0228, 0x0000000000000000), (0x0230, 0x0000000000000000), (0x0238, 0x0000000000000000),
     (0x0240, 0x0000000000000000), (0x0248, 0x0000000000000000), (0x0250, 0x0000000000000000),
     (0x0258, 0x0000000000000000), (0x0260, 0x0000000000000000), (0x0268, 0x001408010000FFFF),
     (0x0270, 0x001404010000FFFF), (0x0278, 0x0000000000000000), (0x0280, 0x0000000000000000),
     (0x0288, 0x0000000000000000), (0x0290, 0x001408010000FFFF), (0x0298, 0x001404010000FFFF),
     (0x02A0, 0x000C04010000FFFF), (0x02A8, 0x000C04010000FFFF), (0x02B0, 0x001404010000FFFF),
     (0x02B8, 0x0000000000000000), (0x02C0, 0x0000000000000000), (0x02C8, 0x0000000000000000),
     (0x02D0, 0x000C04010000FFFF), (0x02D8, 0x000C04010000FFFF), (0x02E0, 0x001404010000FFFF),
     (0x02E8, 0x0000000000000000), (0x02F0, 0x0000000000000000), (0x02F8, 0x0000000000000000),
     (0x0300, 0x0000000000000000), (0x0308, 0x0000000000000000), (0x0310, 0x0000000000000000),
     (0x0318, 0x0000000000000000), (0x0320, 0x0000000000000000), (0x0328, 0x0000000000000000),
     (0x0330, 0x0000000000000000), (0x0338, 0x0000000000000000), (0x0340, 0x0000000000000000),
     (0x0348, 0x0000000000000000), (0x0350, 0x0000000000000000)]"

definition mstat_be_m3_v10 :: "(u32 \<times> u64) list" where
  "mstat_be_m3_v10 =
    [(0x0000, 0x001200100C89C401), (0x0008, 0x001200100C89C401), (0x0010, 0x001200100C89C401),
     (0x0018, 0x001200100C89C401), (0x0020, 0x0000000000000000), (0x0028, 0x001100100C803401),
     (0x0030, 0x0000000000000000), (0x0038, 0x0000000000000000), (0x0040, 0x0000000000000000),
     (0x0048, 0x0000000000000000), (0x0050, 0x0000000000000000), (0x0058, 0x0000000000000000),
     (0x0060, 0x0000000000000000), (0x0068, 0x0000000000000000), (0x0070, 0x0000000000000000),
     (0x0078, 0x0000000000000000), (0x0080, 0x0000000000000000), (0x0088, 0x0000000000000000),
     (0x0090, 0x0000000000000000), (0x0098, 0x0000000000000000), (0x00A0, 0x0000000000000000),
     (0x00A8, 0x0000000000000000), (0x00B0, 0x0000000000000000), (0x00B8, 0x0000000000000000),
     (0x00C0, 0x0000000000000000), (0x00C8, 0x0000000000000000), (0x00D0, 0x0000000000000000),
     (0x00D8, 0x0000000000000000), (0x00E0, 0x0000000000000000), (0x00E8, 0x0000000000000000),
     (0x00F0, 0x0000000000000000), (0x00F8, 0x0000000000000000), (0x0100, 0x0000000000000000),
     (0x0108, 0x0000000000000000), (0x0110, 0x0000000000000000), (0x0118, 0x0000000000000000),
     (0x0120, 0x0000000000000000), (0x0128, 0x0000000000000000), (0x0130, 0x0000000000000000),
     (0x0138, 0x0000000000000000), (0x0140, 0x0000000000000000), (0x0148, 0x0000000000000000),
     (0x0150, 0x0000000000000000), (0x0158, 0x0000000000000000), (0x0160, 0x0000000000000000),
     (0x0168, 0x0000000000000000), (0x0170, 0x0000000000000000), (0x0178, 0x0000000000000000),
     (0x0180, 0x0000000000000000), (0x0188, 0x0000000000000000), (0x0190, 0x0000000000000000),
     (0x0198, 0x0000000000000000), (0x01A0, 0x0000000000000000), (0x01A8, 0x0000000000000000),
     (0x01B0, 0x0000000000000000), (0x01B8, 0x0000000000000000), (0x01C0, 0x001100500C8FFC01),
     (0x01C8, 0x001100500C8FFC01), (0x01D0, 0x001100500C8FFC01), (0x01D8, 0x001100500C8FFC01),
     (0x01E0, 0x0000000000000000), (0x01E8, 0x001200100C803401), (0x01F0, 0x001100100C80FC01),
     (0x01F8, 0x0000000000000000), (0x0200, 0x0000000000000000), (0x0208, 0x001200100C80FC01),
     (0x0210, 0x001100100C80FC01), (0x0218, 0x001100100C825801), (0x0220, 0x001100100C825801),
     (0x0228, 0x0000000000000000), (0x0230, 0x001100100C825801), (0x0238, 0x001100100C825801),
     (0x0240, 0x001200100C8BB801), (0x0248, 0x001100100C8EA401), (0x0250, 0x001200100C8BB801),
     (0x0258, 0x001100100C8EA401), (0x0260, 0x001100100C84E401), (0x0268, 0x0000000000000000),
     (0x0270, 0x0000000000000000), (0x0278, 0x001100100C81F401), (0x0280, 0x0000000000000000),
     (0x0288, 0x0000000000000000), (0x0290, 0x0000000000000000), (0x0298, 0x0000000000000000),
     (0x02A0, 0x0000000000000000), (0x02A8, 0x0000000000000000), (0x02B0, 0x0000000000000000),
     (0x02B8, 0x001100100C803401), (0x02C0, 0x0000000000000000), (0x02C8, 0x0000000000000000),
     (0x02D0, 0x0000000000000000), (0x02D8, 0x0000000000000000), (0x02E0, 0x0000000000000000),
     (0x02E8, 0x001100100C803401), (0x02F0, 0x001100300C8FFC01), (0x02F8, 0x001100500C8FFC01),
     (0x0300, 0x0000000000000000), (0x0308, 0x001100300C8FFC01), (0x0310, 0x001100500C8FFC01),
     (0x0318, 0x001200100C803401), (0x0320, 0x0000000000000000), (0x0328, 0x0000000000000000),
     (0x0330, 0x0000000000000000), (0x0338, 0x0000000000000000), (0x0340, 0x0000000000000000),
     (0x0348, 0x0000000000000000), (0x0350, 0x0000000000000000)]"

definition dbsc_setting_m3_v10 :: "unit prog" where
  "dbsc_setting_m3_v10 = seqs
      [io_write_32 DBSC_DBCAM0CNF1 0x00043218,
       io_write_32 DBSC_DBCAM0CNF2 0x000000F4,
       io_write_32 DBSC_DBCAM0CNF3 0x00000000,
       io_write_32 DBSC_DBSCHCNT0 0x080F0037,
       io_write_32 DBSC_DBSCHSZ0 0x00000001,
       io_write_32 DBSC_DBSCHRW0 0x22421111,
       bnd (mmio_read_32 RST_MODEMR) (\<lambda>v.
        (let md = drop_bit 17 (v AND 0x000A0000) in
         if md = 0x0 then io_write_32 DBSC_SCFCTST2 0x012F1123
         else if md = 0x1 then io_write_32 DBSC_SCFCTST2 0x012F1123
         else if md = 0x4 then io_write_32 DBSC_SCFCTST2 0x012F1123
         else io_write_32 DBSC_SCFCTST2 0x012F1123)),
       io_write_32 DBSC_DBSCHQOS_0_0 0x00000F00,
       io_write_32 DBSC_DBSCHQOS_0_1 0x00000B00,
       io_write_32 DBSC_DBSCHQOS_0_2 0x00000000,
       io_write_32 DBSC_DBSCHQOS_0_3 0x00000000,
       io_write_32 DBSC_DBSCHQOS_4_0 0x00000300,
       io_write_32 DBSC_DBSCHQOS_4_1 0x000002F0,
       io_write_32 DBSC_DBSCHQOS_4_2 0x00000200,
       io_write_32 DBSC_DBSCHQOS_4_3 0x00000100,
       io_write_32 DBSC_DBSCHQOS_9_0 0x00000300,
       io_write_32 DBSC_DBSCHQOS_9_1 0x000002F0,
       io_write_32 DBSC_DBSCHQOS_9_2 0x00000200,
       io_write_32 DBSC_DBSCHQOS_9_3 0x00000100,
       io_write_32 DBSC_DBSCHQOS_13_0 0x00000100,
       io_write_32 DBSC_DBSCHQOS_13_1 0x000000F0,
       io_write_32 DBSC_DBSCHQOS_13_2 0x000000A0,
       io_write_32 DBSC_DBSCHQOS_13_3 0x00000040,
       io_write_32 DBSC_DBSCHQOS_14_0 0x000000C0,
       io_write_32 DBSC_DBSCHQOS_14_1 0x000000B0,
       io_write_32 DBSC_DBSCHQOS_14_2 0x00000080,
       io_write_32 DBSC_DBSCHQOS_14_3 0x00000040,
       io_write_32 DBSC_DBSCHQOS_15_0 0x00000040,
       io_write_32 DBSC_DBSCHQOS_15_1 0x00000030,
       io_write_32 DBSC_DBSCHQOS_15_2 0x00000020,
       io_write_32 DBSC_DBSCHQOS_15_3 0x00000010]"

definition qos_split_m3_v10 :: "qos_build \<Rightarrow> unit prog" where
  "qos_split_m3_v10 b =
     (if b_split b = SPLIT_4CH then
        (seqs
          [ERROR ''DRAM Split 4ch not supported.(M3)'' [],
           panic])
      else if b_split b = SPLIT_2CH \<or> b_split b = SPLIT_AUTO then
        (seqs
          [NOTICE (''BL2: DRAM Split is 2ch'' @ [CHR 0x0A]) [],
           io_write_32 AXI_ADSPLCR0 0x00000000,
           io_write_32 AXI_ADSPLCR1 (ADSPLCR0_ADRMODE_DEFAULT OR (ADSPLCR0_SPLITSEL 0xFF) OR (ADSPLCR0_AREA 0x1C) OR ADSPLCR0_SWP),
           io_write_32 AXI_ADSPLCR2 0x089A0000,
           io_write_32 AXI_ADSPLCR3 0x00000000])
      else
        (NOTICE (''BL2: DRAM Split is OFF'' @ [CHR 0x0A]) []))"

definition qos_type_m3_v10 :: "qos_build \<Rightarrow> unit prog" where
  "qos_type_m3_v10 b =
     (if q_type b \<noteq> QOS_NONE then
        (seqs
          [whenp (q_type b = QOS_TYPE_DEFAULT)
            (NOTICE (''BL2: QoS is default setting(%s)'' @ [CHR 0x0A]) [ArgS ''rev.0.19'']),
           io_write_32 RALLOC_RAS 0x00000028,
           io_write_32 RALLOC_FIXTH 0x000F0005,
           io_write_32 RALLOC_REGGD 0x00000000,
           io_write_64 RALLOC_DANN 0x0101010102020201,
           io_write_32 RALLOC_DANT 0x00100804,
           io_write_32 RALLOC_EC 0x00000000,
           io_write_64 RALLOC_EMS 0x0000000000000000,
           io_write_32 RALLOC_FSS 0x000003e8,
           io_write_32 RALLOC_INSFC 0xC7840001,
           io_write_32 RALLOC_BERR 0x00000000,
           io_write_32 RALLOC_RACNT0 0x00000000,
           io_write_32 MSTAT_SL_INIT (SL_INIT_REFFSSLOT OR SL_INIT_SLOTSSLOT OR SL_INIT_SSLOTCLK),
           io_write_32 MSTAT_REF_ARS 0x00330000,
           mstat_table MSTAT_FIX_QOS_BANK0 MSTAT_FIX_QOS_BANK1 mstat_fix_m3_v10,
           mstat_table MSTAT_BE_QOS_BANK0 MSTAT_BE_QOS_BANK1 mstat_be_m3_v10,
           io_write_32 0xFD820808 0x00001234,
           io_write_32 0xFD820800 0x00000006,
           io_write_32 0xFD821800 0x00000006,
           io_write_32 0xFD822800 0x00000006,
           io_write_32 0xFD823800 0x00000006,
           io_write_32 0xFD824800 0x00000006,
           io_write_32 0xFD825800 0x00000006,
           io_write_32 0xFD826800 0x00000006,
           io_write_32 0xFD827800 0x00000006,
           io_write_32 0xFFC50800 0x00000000,
           io_write_32 0xFFC51800 0x00000000,
           io_write_32 RALLOC_RAEN 0x00000001,
           io_write_32 MSTAT_STATQC 0x00000001])
      else
        (seqs
          [NOTICE (''BL2: QoS is None'' @ [CHR 0x0A]) [],
           io_write_32 RALLOC_EC 0x00000000,
           io_write_32 RALLOC_RAEN 0x00000001]))"

definition qos_init_m3_v10 :: "qos_build \<Rightarrow> unit prog" where
  "qos_init_m3_v10 b = seqs [dbsc_setting_m3_v10, qos_split_m3_v10 b, qos_type_m3_v10 b]"

lemma tables_m3_v10:
  "list_all (\<lambda>(a, _). a < 0x800) mstat_fix_m3_v10"
  "list_all (\<lambda>(a, _). a < 0x800) mstat_be_m3_v10"
  by (simp_all add: mstat_fix_m3_v10_def mstat_be_m3_v10_def)

lemma dbsc_m3_v10: "qos_triple (Qos_State True False None) dbsc_setting_m3_v10 (Qos_State True False None)"
  unfolding dbsc_setting_m3_v10_def by (rule qos_struct qos_rules mstat_table_ok tables_m3_v10 | (rule qos_notice, simp))+

lemma split_m3_v10: "b_split b \<noteq> SPLIT_4CH \<Longrightarrow> qos_triple (Qos_State d False None) (qos_split_m3_v10 b) (Qos_State d False None)"
  unfolding qos_split_m3_v10_def by (simp only: if_False simp_thms) (rule qos_struct qos_rules mstat_table_ok tables_m3_v10 | (rule qos_notice, simp))+

lemma no_split_m3_v10: "b_split b \<in> {SPLIT_4CH} \<Longrightarrow> panics (qos_split_m3_v10 b)"
  unfolding qos_split_m3_v10_def by (auto simp del: seqs.simps intro!: panics_error)

lemma type_m3_v10: "qos_triple (Qos_State d False None) (qos_type_m3_v10 b) (Qos_State d True None)"
  unfolding qos_type_m3_v10_def by (rule qos_struct qos_rules mstat_table_ok tables_m3_v10 | (rule qos_notice, simp))+

lemma qos_m3_v10_ok: "b_split b \<noteq> SPLIT_4CH \<Longrightarrow> qos_triple (Qos_State True False None) (qos_init_m3_v10 b) (Qos_State True True None)"
  unfolding qos_init_m3_v10_def
  by (rule qos_seqs qos_skip dbsc_m3_v10 split_m3_v10 type_m3_v10 | assumption)+

lemma qos_m3_v10_stops: "b_split b \<in> {SPLIT_4CH} \<Longrightarrow> qos_stops (Qos_State True False None) (qos_init_m3_v10 b)"
  unfolding qos_init_m3_v10_def by (rule qos_stops_seqs [OF dbsc_m3_v10 no_split_m3_v10])

end
