(* ===== verification/QosInit.thy ===== *)
theory QosInit
  imports QosM3N QosE3 QosH3V10 QosH3V11 QosH3V20 QosH3V30 QosH3N QosM3V10 QosM3V11 QosM3V30
begin

text \<open>
  \<^verbatim>\<open>CortexR7_Loader/qos/qos_init.c\<close>: counting the DRAM channels, the choice of the chip's
  routine, and the refresh period. The mask of working channels that the DRAM initialisation found
  (\<^verbatim>\<open>get_boardcnf_phyvalid\<close>) is an argument.
\<close>

abbreviation DRAM_CH_CNT :: nat where "DRAM_CH_CNT \<equiv> 4"

definition QOS_PRODUCT_ERR :: "u32 \<Rightarrow> unit prog" where
  "QOS_PRODUCT_ERR reg = seqs
     [ERROR (''LSI Product ID(PRR=0x%x) QoS '' @ ''initialize not supported.'' @ [CHR 0x0A]) [ArgW reg],
      panic]"

definition count_ddr_ch :: "u8 \<Rightarrow> unit prog" where
  "count_ddr_ch phyvalid = seqs
     [puts (\<lambda>s. s\<lparr>qos_init_ddr_ch := 0\<rparr>),
      puts (\<lambda>s. s\<lparr>qos_init_ddr_phyvalid := phyvalid\<rparr>),
      for_each [0..<DRAM_CH_CNT] (\<lambda>i.
        bnd (gets qos_init_ddr_phyvalid) (\<lambda>p.
        whenp ((ucast p :: u32) AND push_bit i 1 \<noteq> 0)
          (puts (\<lambda>s. s\<lparr>qos_init_ddr_ch := qos_init_ddr_ch s + 1\<rparr>))))]"

definition qos_init_compat :: "qos_build \<Rightarrow> u32 \<Rightarrow> unit prog" where
  "qos_init_compat b reg =
     (let product = reg AND RCAR_PRODUCT_MASK; version = reg AND RCAR_CUT_MASK in
      if product = RCAR_PRODUCT_H3 then
        (if b_lsi b = LSI_AUTO \<or> b_lsi b = LSI_H3 then
           (if version = PRR_PRODUCT_10 then qos_init_h3_v10 b
            else if version = PRR_PRODUCT_11 then qos_init_h3_v11 b
            else if version = PRR_PRODUCT_20 then qos_init_h3_v20 b
            else qos_init_h3_v30 b)
         else if b_lsi b = LSI_H3N then qos_init_h3n_v30 b
         else QOS_PRODUCT_ERR reg)
      else if product = RCAR_PRODUCT_M3 then
        (if b_lsi b = LSI_AUTO \<or> b_lsi b = LSI_M3 then
           (if version = PRR_PRODUCT_10 then qos_init_m3_v10 b
            else if version = PRR_PRODUCT_20 \<or> version = PRR_PRODUCT_21 then qos_init_m3_v11 b
            else qos_init_m3_v30 b)
         else QOS_PRODUCT_ERR reg)
      else if product = RCAR_PRODUCT_M3N then
        (if b_lsi b = LSI_AUTO \<or> b_lsi b = LSI_M3N then qos_init_m3n_v10 b else QOS_PRODUCT_ERR reg)
      else if product = RCAR_PRODUCT_E3 then
        (if b_lsi b = LSI_E3 then qos_init_e3_v10 b else QOS_PRODUCT_ERR reg)
      else QOS_PRODUCT_ERR reg)"

definition qos_init_cut :: "qos_build \<Rightarrow> lsi_cut \<Rightarrow> u32 \<Rightarrow> unit prog" where
  "qos_init_cut b lcut reg =
     (let product = reg AND RCAR_PRODUCT_MASK; chip = reg AND (RCAR_PRODUCT_MASK OR RCAR_CUT_MASK) in
      if b_lsi b = LSI_H3 then
        (if lcut = LSI_CUT_10 then
           seqs [whenp (RCAR_PRODUCT_H3 OR PRR_PRODUCT_10 \<noteq> chip) (QOS_PRODUCT_ERR reg), qos_init_h3_v10 b]
         else if lcut = LSI_CUT_11 then
           seqs [whenp (RCAR_PRODUCT_H3 OR PRR_PRODUCT_11 \<noteq> chip) (QOS_PRODUCT_ERR reg), qos_init_h3_v11 b]
         else if lcut = LSI_CUT_20 then
           seqs [whenp (RCAR_PRODUCT_H3 OR PRR_PRODUCT_20 \<noteq> chip) (QOS_PRODUCT_ERR reg), qos_init_h3_v20 b]
         else seqs [whenp (RCAR_PRODUCT_H3 \<noteq> product) (QOS_PRODUCT_ERR reg), qos_init_h3_v30 b])
      else if b_lsi b = LSI_H3N then
        seqs [whenp (RCAR_PRODUCT_H3 \<noteq> product) (QOS_PRODUCT_ERR reg), qos_init_h3n_v30 b]
      else if b_lsi b = LSI_M3 then
        (if lcut = LSI_CUT_10 then
           seqs [whenp (RCAR_PRODUCT_M3 OR PRR_PRODUCT_10 \<noteq> chip) (QOS_PRODUCT_ERR reg), qos_init_m3_v10 b]
         else if lcut = LSI_CUT_11 then
           seqs [whenp (RCAR_PRODUCT_M3 OR PRR_PRODUCT_20 \<noteq> chip) (QOS_PRODUCT_ERR reg), qos_init_m3_v11 b]
         else if lcut = LSI_CUT_13 then
           seqs [whenp (RCAR_PRODUCT_M3 OR PRR_PRODUCT_21 \<noteq> chip) (QOS_PRODUCT_ERR reg), qos_init_m3_v11 b]
         else seqs [whenp (RCAR_PRODUCT_M3 \<noteq> product) (QOS_PRODUCT_ERR reg), qos_init_m3_v30 b])
      else if b_lsi b = LSI_M3N then
        seqs [whenp (RCAR_PRODUCT_M3N \<noteq> product) (QOS_PRODUCT_ERR reg), qos_init_m3n_v10 b]
      else
        seqs [whenp (RCAR_PRODUCT_E3 \<noteq> product) (QOS_PRODUCT_ERR reg), qos_init_e3_v10 b])"

definition qos_init :: "u8 \<Rightarrow> qos_build \<Rightarrow> lsi_cut \<Rightarrow> unit prog" where
  "qos_init phyvalid b lcut =
     seqs
      [whenp (b_lsi b \<noteq> LSI_E3) (count_ddr_ch phyvalid),
       bnd (mmio_read_32 RCAR_PRR) (\<lambda>reg.
       if b_lsi b = LSI_AUTO \<or> lcut = CUT_COMPAT then qos_init_compat b reg
       else qos_init_cut b lcut reg)]"

definition REFPERIOD_CYCLE :: "qos_build \<Rightarrow> u32" where
  "REFPERIOD_CYCLE b = ((if q_ref_default b then 126 else 252) * BASE_SUB_SLOT_NUM * 1000) div 400"

definition get_refperiod :: "qos_build \<Rightarrow> lsi_cut \<Rightarrow> u32 prog" where
  "get_refperiod b lcut =
     (let refperiod = QOSWT_WTSET0_CYCLE in
      if b_lsi b = LSI_AUTO \<or> lcut = CUT_COMPAT then
        bnd (mmio_read_32 RCAR_PRR) (\<lambda>reg.
        (let product = reg AND RCAR_PRODUCT_MASK; version = reg AND RCAR_CUT_MASK in
         ret
          (if product = RCAR_PRODUCT_H3 \<and> (b_lsi b = LSI_AUTO \<or> b_lsi b = LSI_H3) then
             (if version = PRR_PRODUCT_10 \<or> version = PRR_PRODUCT_11 then refperiod else REFPERIOD_CYCLE b)
           else if product = RCAR_PRODUCT_H3 \<and> b_lsi b = LSI_H3N then REFPERIOD_CYCLE b
           else if product = RCAR_PRODUCT_M3 \<and> (b_lsi b = LSI_AUTO \<or> b_lsi b = LSI_M3) then
             (if version = PRR_PRODUCT_10 then refperiod else REFPERIOD_CYCLE b)
           else if product = RCAR_PRODUCT_M3N \<and> (b_lsi b = LSI_AUTO \<or> b_lsi b = LSI_M3N) then REFPERIOD_CYCLE b
           else refperiod)))
      else ret
       (if b_lsi b = LSI_H3 then (if lcut = LSI_CUT_10 \<or> lcut = LSI_CUT_11 then refperiod else REFPERIOD_CYCLE b)
        else if b_lsi b = LSI_H3N then REFPERIOD_CYCLE b
        else if b_lsi b = LSI_M3 then (if lcut = LSI_CUT_10 then refperiod else REFPERIOD_CYCLE b)
        else if b_lsi b = LSI_M3N then REFPERIOD_CYCLE b
        else refperiod))"

section \<open>What the settings achieve\<close>

text \<open>The chips by routine, and what distinguishes them.\<close>

datatype qos_chip = H3_V10 | H3_V11 | H3_V20 | H3_V30 | H3N_V30 | M3_V10 | M3_V11 | M3_V30 | M3N_V10 | E3_V10

text \<open>The first versions have no write protection, and no split that they refuse.\<close>

definition unprotected :: "qos_chip \<Rightarrow> bool" where
  "unprotected c \<longleftrightarrow> c \<in> {H3_V10, H3_V11, M3_V10, M3_V11}"

definition refuses :: "qos_chip \<Rightarrow> dram_split set" where
  "refuses c = (if c \<in> {M3N_V10, E3_V10} then {SPLIT_4CH, SPLIT_2CH}
     else if c \<in> {H3N_V30, M3_V10, M3_V11, M3_V30} then {SPLIT_4CH} else {})"

text \<open>The arbitration runs in the end, but for H3 1.x without settings.\<close>

definition runs :: "qos_chip \<Rightarrow> qos_build \<Rightarrow> bool" where
  "runs c b \<longleftrightarrow> c \<in> {H3_V10, H3_V11} \<longrightarrow> q_type b \<noteq> QOS_NONE"

definition routine :: "qos_chip \<Rightarrow> qos_build \<Rightarrow> unit prog" where
  "routine c b = (case c of
     H3_V10 \<Rightarrow> qos_init_h3_v10 b | H3_V11 \<Rightarrow> qos_init_h3_v11 b | H3_V20 \<Rightarrow> qos_init_h3_v20 b
   | H3_V30 \<Rightarrow> qos_init_h3_v30 b | H3N_V30 \<Rightarrow> qos_init_h3n_v30 b | M3_V10 \<Rightarrow> qos_init_m3_v10 b
   | M3_V11 \<Rightarrow> qos_init_m3_v11 b | M3_V30 \<Rightarrow> qos_init_m3_v30 b | M3N_V10 \<Rightarrow> qos_init_m3n_v10 b
   | E3_V10 \<Rightarrow> qos_init_e3_v10 b)"

abbreviation qos_begin :: "qos_chip \<Rightarrow> qos_state" where
  "qos_begin c \<equiv> Qos_State (unprotected c) False None"

lemma routine_ok:
  assumes "b_split b \<notin> refuses c"
  shows "qos_triple (qos_begin c) (routine c b) (Qos_State (unprotected c) (runs c b) None)"
  using assms
  by (cases c) (auto simp: routine_def unprotected_def refuses_def runs_def
    qos_h3_v10_ok qos_h3_v11_ok qos_h3_v20_ok qos_h3_v30_ok qos_h3n_v30_ok qos_m3_v10_ok qos_m3_v11_ok
    qos_m3_v30_ok qos_m3n_v10_ok qos_e3_v10_ok)

lemma routine_stops:
  assumes "b_split b \<in> refuses c"
  shows "qos_stops (qos_begin c) (routine c b)"
  using assms qos_h3n_v30_stops qos_m3_v10_stops qos_m3_v11_stops qos_m3_v30_stops qos_m3n_v10_stops
    qos_e3_v10_stops
  by (cases c) (auto simp: routine_def unprotected_def refuses_def)


text \<open>
  Which routine a build uses on a chip. Built for one version, it is the common build on the chip of
  that version, and the early versions (not the last ones) are compared with the product register.
\<close>

definition chip_of :: "lsi \<Rightarrow> u32 \<Rightarrow> u32 \<Rightarrow> qos_chip" where
  "chip_of l product version =
     (if product = RCAR_PRODUCT_H3 then
        (if l = LSI_H3N then H3N_V30 else if version = PRR_PRODUCT_10 then H3_V10
         else if version = PRR_PRODUCT_11 then H3_V11 else if version = PRR_PRODUCT_20 then H3_V20 else H3_V30)
      else if product = RCAR_PRODUCT_M3 then
        (if version = PRR_PRODUCT_10 then M3_V10
         else if version \<in> {PRR_PRODUCT_20, PRR_PRODUCT_21} then M3_V11 else M3_V30)
      else if product = RCAR_PRODUCT_M3N then M3N_V10 else E3_V10)"

fun built_for :: "lsi \<Rightarrow> lsi_cut \<Rightarrow> u32 option" where
  "built_for LSI_H3 LSI_CUT_10 = Some PRR_PRODUCT_10"
| "built_for LSI_H3 LSI_CUT_11 = Some PRR_PRODUCT_11"
| "built_for LSI_H3 LSI_CUT_20 = Some PRR_PRODUCT_20"
| "built_for LSI_M3 LSI_CUT_10 = Some PRR_PRODUCT_10"
| "built_for LSI_M3 LSI_CUT_11 = Some PRR_PRODUCT_20"
| "built_for LSI_M3 LSI_CUT_13 = Some PRR_PRODUCT_21"
| "built_for _ _ = None"

definition qos_routine :: "lsi \<Rightarrow> lsi_cut \<Rightarrow> u32 \<Rightarrow> qos_chip option" where
  "qos_routine l lcut prr =
     (let product = prr AND RCAR_PRODUCT_MASK; version = prr AND RCAR_CUT_MASK in
      if product \<notin> product_of l then None
      else if l = LSI_AUTO \<or> lcut = CUT_COMPAT then Some (chip_of l product version)
      else case built_for l lcut of
          None \<Rightarrow> Some (chip_of l product 0x20)
        | Some v \<Rightarrow> if version = v then Some (chip_of l product v) else None)"

lemma panics_product: "panics (QOS_PRODUCT_ERR reg)"
  unfolding QOS_PRODUCT_ERR_def by (rule panics_error) simp

lemma panics_bnd: "panics p \<Longrightarrow> bnd p f s = p s"
  by (rule panicsE [of p s]) (simp_all add: bnd_def)

lemma product_checked:
  "seqs [whenp c (QOS_PRODUCT_ERR reg), p] = (if c then QOS_PRODUCT_ERR reg else p)"
  by (cases c) (auto simp: bnd_ret_unit panics_bnd [OF panics_product] fun_eq_iff)

lemma qos_dispatch:
  "(if b_lsi b = LSI_AUTO \<or> lcut = CUT_COMPAT then qos_init_compat b prr else qos_init_cut b lcut prr)
     = (case qos_routine (b_lsi b) lcut prr of None \<Rightarrow> QOS_PRODUCT_ERR prr | Some c \<Rightarrow> routine c b)"
proof (cases "b_lsi b = LSI_AUTO \<or> lcut = CUT_COMPAT")
  case True
  then show ?thesis
    by (cases "b_lsi b") (auto simp: qos_init_compat_def qos_routine_def chip_of_def product_of_def routine_def Let_def)
next
  case False
  have w: "p OR c = prr AND (RCAR_PRODUCT_MASK OR RCAR_CUT_MASK) \<longleftrightarrow>
      prr AND RCAR_PRODUCT_MASK = p \<and> prr AND RCAR_CUT_MASK = c"
    if "p \<in> {RCAR_PRODUCT_H3, RCAR_PRODUCT_M3}" "c \<in> {0, 1, 0x10, 0x11}" for p c :: u32
    using chip_word [of p c prr] that by (subst eq_commute) auto
  note ws = w [of RCAR_PRODUCT_H3 0] w [of RCAR_PRODUCT_H3 1] w [of RCAR_PRODUCT_H3 "0x10"]
    w [of RCAR_PRODUCT_M3 0] w [of RCAR_PRODUCT_M3 "0x10"] w [of RCAR_PRODUCT_M3 "0x11"]
  from False ws show ?thesis
    by (cases "b_lsi b"; cases lcut)
      (auto simp: qos_init_cut_def qos_routine_def chip_of_def product_of_def routine_def Let_def product_checked
        simp del: seqs.simps)
qed

lemma count_step: "(ucast p :: u32) AND 2 ^ i = 0 \<longleftrightarrow> \<not> bit p i" if "i < 8" for p :: u8
  using that by (simp add: and_exp_eq_0_iff_not_bit bit_ucast_iff)

lemma count_loop:
  assumes "n \<le> 8"
  shows "for_each [0..<n] (\<lambda>i. bnd (gets qos_init_ddr_phyvalid) (\<lambda>p.
      whenp ((ucast p :: u32) AND 2 ^ i \<noteq> 0)
        (puts (\<lambda>s. s\<lparr>qos_init_ddr_ch := qos_init_ddr_ch s + 1\<rparr>)))) s
    = Done () (s\<lparr>qos_init_ddr_ch := qos_init_ddr_ch s
        + of_nat (length (filter (bit (qos_init_ddr_phyvalid s)) [0..<n]))\<rparr>)"
  using assms
proof (induction n)
  case (Suc n)
  then show ?case
    by (cases "bit (qos_init_ddr_phyvalid s) n")
      (simp_all add: for_each_append bnd_Done bnd_gets bnd_ret_unit count_step ret_def puts_def algebra_simps)
qed (simp add: ret_def)

lemma count_ddr_ch_run:
  "count_ddr_ch phyvalid s = Done () (s\<lparr>qos_init_ddr_phyvalid := phyvalid,
     qos_init_ddr_ch := of_nat (length (filter (bit phyvalid) [0..<4]))\<rparr>)"
  by (simp add: count_ddr_ch_def bnd_Done [OF puts_run] bnd_ret_unit count_loop del: upt_rec_numeral)

text \<open>The state with the channels_counted channels, and the rest of the initialisation from there.\<close>

definition channels_counted :: "u8 \<Rightarrow> qos_build \<Rightarrow> machine \<Rightarrow> machine" where
  "channels_counted phyvalid b s = (if b_lsi b = LSI_E3 then s
     else s\<lparr>qos_init_ddr_phyvalid := phyvalid, qos_init_ddr_ch := of_nat (length (filter (bit phyvalid) [0..<4]))\<rparr>)"

lemma channels_counted_simps: "m_dev (channels_counted phyvalid b s) = m_dev s" "m_tr (channels_counted phyvalid b s) = m_tr s"
  by (simp_all add: channels_counted_def)

lemma qos_init_run:
  fixes s :: machine
  defines "prr \<equiv> d_rd32 (m_dev s) (m_tr s) RCAR_PRR"
  shows "qos_init phyvalid b lcut s =
     (case qos_routine (b_lsi b) lcut prr of None \<Rightarrow> QOS_PRODUCT_ERR prr | Some c \<Rightarrow> routine c b)
        (grown [Rd32 RCAR_PRR prr] (channels_counted phyvalid b s))"
proof -
  have "whenp (b_lsi b \<noteq> LSI_E3) (count_ddr_ch phyvalid) s = Done () (channels_counted phyvalid b s)"
    by (cases "b_lsi b = LSI_E3") (simp_all add: count_ddr_ch_run ret_def channels_counted_def del: upt_rec_numeral)
  then have "qos_init phyvalid b lcut s = bnd (mmio_read_32 RCAR_PRR) (\<lambda>reg.
      if b_lsi b = LSI_AUTO \<or> lcut = CUT_COMPAT then qos_init_compat b reg else qos_init_cut b lcut reg)
      (channels_counted phyvalid b s)"
    unfolding qos_init_def seqs.simps bnd_ret_unit by (rule bnd_Done)
  then show ?thesis
    by (simp only: bnd_read_32 qos_dispatch channels_counted_simps prr_def append_Cons append_Nil)
qed

text \<open>
  Property C5 (qos_init_correct): on a chip that the build does not support \<^verbatim>\<open>qos_init\<close> panics and
  has written nothing; on one that does not allow the build's split of the DRAM it panics with the
  DRAM controller locked again and the arbitration off. Otherwise it returns with the channels of
  the mask channels_counted, and in its stores the DRAM controller's registers are written only while it is
  unlocked, the two banks of each table get the same entries, no table is written once the
  arbitration runs, and at the end the controller is locked again (on chips that lock it) and the
  arbitration runs (except on H3 1.x built without settings).
\<close>

theorem qos_init_correct:
  "case qos_routine (b_lsi b) lcut (d_rd32 (m_dev s) (m_tr s) RCAR_PRR) of
     None \<Rightarrow> \<exists>xs. qos_init phyvalid b lcut s = Panic (grown xs (channels_counted phyvalid b s)) \<and> stores xs = []
   | Some c \<Rightarrow>
       if b_split b \<in> refuses c
       then \<exists>xs. qos_init phyvalid b lcut s = Panic (grown xs (channels_counted phyvalid b s)) \<and>
         qos_trace (stores xs) (Qos_State (unprotected c) False None) = Some (Qos_State (unprotected c) False None)
       else \<exists>xs. qos_init phyvalid b lcut s = Done () (grown xs (channels_counted phyvalid b s)) \<and>
         qos_trace (stores xs) (Qos_State (unprotected c) False None) = Some (Qos_State (unprotected c) (runs c b) None)"
proof -
  let ?prr = "d_rd32 (m_dev s) (m_tr s) RCAR_PRR"
  let ?c = "channels_counted phyvalid b s"
  let ?s = "grown [Rd32 RCAR_PRR ?prr] ?c"
  show ?thesis
  proof (cases "qos_routine (b_lsi b) lcut ?prr")
    case None
    obtain xs where "QOS_PRODUCT_ERR ?prr ?s = Panic (grown xs ?s)" "stores xs = []"
      using panics_product by (rule panicsE)
    then show ?thesis
      using None qos_init_run [of phyvalid b lcut s] by (simp add: exI [of _ "xs @ [Rd32 RCAR_PRR ?prr]"])
  next
    case (Some c)
    then have run: "qos_init phyvalid b lcut s = routine c b ?s"
      using qos_init_run [of phyvalid b lcut s] by simp
    show ?thesis
    proof (cases "b_split b \<in> refuses c")
      case True
      then obtain xs where "routine c b ?s = Panic (grown xs ?s)" "qos_trace (stores xs) (qos_begin c) = Some (qos_begin c)"
        using routine_stops [OF True, unfolded qos_stops_def, rule_format, of ?s] by (elim exE conjE) (rule that)
      then show ?thesis using Some True run by (simp add: exI [of _ "xs @ [Rd32 RCAR_PRR ?prr]"])
    next
      case False
      obtain xs where "routine c b ?s = Done () (grown xs ?s)"
          "qos_trace (stores xs) (qos_begin c) = Some (Qos_State (unprotected c) (runs c b) None)"
        using routine_ok [OF False] by (rule qos_tripleE)
      then show ?thesis using Some False run by (simp add: exI [of _ "xs @ [Rd32 RCAR_PRR ?prr]"])
    qed
  qed
qed

text \<open>The board's chip, and one that its build does not support.\<close>

theorem qos_init_witness:
  "(\<exists>t. qos_init 0x03 qos_build_m3n CUT_COMPAT (boot_machine (const_device 0x5500) 1) = Done () t \<and>
      qos_trace (stores (m_tr t)) (Qos_State False False None) = Some (Qos_State False True None)) \<and>
    qos_init_ddr_ch (channels_counted 0x03 qos_build_m3n (boot_machine (const_device 0x5500) 1)) = 2 \<and>
    (\<exists>t. qos_init 0x03 qos_build_m3n CUT_COMPAT (boot_machine (const_device 0x5700) 1) = Panic t)"
  using qos_init_correct [where phyvalid = "0x03" and b = qos_build_m3n and lcut = CUT_COMPAT
      and s = "boot_machine (const_device 0x5500) 1"]
    qos_init_correct [where phyvalid = "0x03" and b = qos_build_m3n and lcut = CUT_COMPAT
      and s = "boot_machine (const_device 0x5700) 1"]
  by (auto simp: boot_machine_def const_device_def qos_routine_def product_of_def chip_of_def refuses_def
      unprotected_def runs_def qos_build_m3n_def build_m3n_def channels_counted_def build.defs qos_build.defs upt_rec)

end
