(* ===== verification/Loader.thy ===== *)
theory Loader
  imports Boot PfcInit QosInit
begin

text \<open>
  The first stage, \<^verbatim>\<open>CortexR7_Loader/loader/loader_main.c\<close>: clocks, pins, console, interrupt
  controller and watchdog, the messages, the DRAM, the bus arbitration and the registers that the
  later stages need unlocked. The training of the DRAM (\<^verbatim>\<open>ddr/\<close>) is a parameter, and so is the
  message with the build time, which the Makefile generates.
\<close>

record loader_build = qos_build +
  l_cut :: lsi_cut
  l_channel :: nat
  l_ddr3l :: nat
  l_reg_check :: bool

record dram =
  InitDram :: "u32 prog"
  InitDram_regcheck :: "u32 prog"
  get_boardcnf_phyvalid :: "u8 prog"

abbreviation RCAR_M3_CUT_VER11 :: u32 where "RCAR_M3_CUT_VER11 \<equiv> 0x00000010"
abbreviation RCAR_MAJOR_MASK :: u32 where "RCAR_MAJOR_MASK \<equiv> 0x000000F0"
abbreviation RCAR_MINOR_MASK :: u32 where "RCAR_MINOR_MASK \<equiv> 0x0000000F"
abbreviation RCAR_MAJOR_SHIFT :: nat where "RCAR_MAJOR_SHIFT \<equiv> 4"
abbreviation RCAR_MAJOR_OFFSET :: u32 where "RCAR_MAJOR_OFFSET \<equiv> 1"
abbreviation RCAR_M3_MINOR_OFFSET :: u32 where "RCAR_M3_MINOR_OFFSET \<equiv> 2"
abbreviation MODEMR_BOOT_DEV_MASK :: u32 where "MODEMR_BOOT_DEV_MASK \<equiv> 0x0000001E"
abbreviation MODEMR_BOOT_DEV_HYPERFLASH160 :: u32 where "MODEMR_BOOT_DEV_HYPERFLASH160 \<equiv> 0x00000004"
abbreviation MODEMR_BOOT_DEV_HYPERFLASH80 :: u32 where "MODEMR_BOOT_DEV_HYPERFLASH80 \<equiv> 0x00000006"
abbreviation MODEMR_BOOT_DEV_QSPI_FLASH40 :: u32 where "MODEMR_BOOT_DEV_QSPI_FLASH40 \<equiv> 0x00000008"
abbreviation MODEMR_BOOT_DEV_QSPI_FLASH80 :: u32 where "MODEMR_BOOT_DEV_QSPI_FLASH80 \<equiv> 0x0000000C"
abbreviation CPGWPR_PASSWORD :: u32 where "CPGWPR_PASSWORD \<equiv> 0x5A5AFFFF"
abbreviation CPGWPCR_PASSWORD :: u32 where "CPGWPCR_PASSWORD \<equiv> 0xA5A50000"
abbreviation MFISWPCNTR :: u32 where "MFISWPCNTR \<equiv> 0xE6260900"
abbreviation MFISWPCNTR_PASSWORD :: u32 where "MFISWPCNTR_PASSWORD \<equiv> 0xACCE0000"
abbreviation WDTRSTCR_PASSWORD :: u32 where "WDTRSTCR_PASSWORD \<equiv> 0xA55A0000"
abbreviation WDTRSTCR_RWDT_RSTMSK :: u32 where "WDTRSTCR_RWDT_RSTMSK \<equiv> push_bit 0 1"
abbreviation RCAR_SSCG_MASK :: u32 where "RCAR_SSCG_MASK \<equiv> 0x1000"
abbreviation RCAR_SSCG_ENABLE :: u32 where "RCAR_SSCG_ENABLE \<equiv> 0x1000"
abbreviation WPD_DISABLE :: u32 where "WPD_DISABLE \<equiv> 0x1"
abbreviation INITDRAM_OK :: u32 where "INITDRAM_OK \<equiv> 0"
abbreviation version_of_renesas :: string where "version_of_renesas \<equiv> ''2.0.8''"

definition TARGET_PRODUCT :: "lsi \<Rightarrow> u32 option" where
  "TARGET_PRODUCT l = (case l of LSI_H3 \<Rightarrow> Some RCAR_PRODUCT_H3 | LSI_H3N \<Rightarrow> Some RCAR_PRODUCT_H3
     | LSI_M3 \<Rightarrow> Some RCAR_PRODUCT_M3 | LSI_M3N \<Rightarrow> Some RCAR_PRODUCT_M3N | LSI_E3 \<Rightarrow> Some RCAR_PRODUCT_E3
     | LSI_AUTO \<Rightarrow> None)"

definition TARGET_NAME :: "lsi \<Rightarrow> string" where
  "TARGET_NAME l = (case l of LSI_H3 \<Rightarrow> ''R-Car H3'' | LSI_H3N \<Rightarrow> ''R-Car H3'' | LSI_M3 \<Rightarrow> ''R-Car M3''
     | LSI_M3N \<Rightarrow> ''R-Car M3N'' | LSI_E3 \<Rightarrow> ''R-Car E3'' | LSI_AUTO \<Rightarrow> ''R-Car H3/M3/M3N'')"

definition loader_hardware :: "loader_build \<Rightarrow> unit prog" where
  "loader_hardware b = seqs
     [cpg_init (build.truncate b), pfc_init (build.truncate b) (l_cut b), asm Console_init, asm Aif_enable_a,
      arm_gic_init GICC_BASE GICD_BASE [ARM_IRQ_WDT], arm_gic_setup (build.truncate b),
      swdt_init (build.truncate b), asm Aif_enable_i]"

definition loader_banner :: "string \<Rightarrow> loader_build \<Rightarrow> unit prog" where
  "loader_banner build_message b = seqs
     [notice_msg (''%s Initial Program Loader(CR7)'' @ [CHR 0x0A]) [ArgS (TARGET_NAME (b_lsi b))],
      notice_msg (''Initial Program Loader (Rev.%s)'' @ [CHR 0x0A]) [ArgS version_of_renesas],
      NOTICE (''%s'' @ [CHR 0x0A]) [ArgS build_message]]"

definition product_name :: "u32 \<Rightarrow> string" where
  "product_name reg =
     (let product = reg AND RCAR_PRODUCT_MASK in
      if product = RCAR_PRODUCT_H3 then ''H3'' else if product = RCAR_PRODUCT_M3 then ''M3''
      else if product = RCAR_PRODUCT_M3N then ''M3N'' else if product = RCAR_PRODUCT_E3 then ''E3''
      else ''unknown'')"

definition version_notice :: "u32 \<Rightarrow> unit prog" where
  "version_notice reg =
     (if RCAR_PRODUCT_M3 = reg AND RCAR_PRODUCT_MASK \<and> RCAR_CUT_VER20 = reg AND RCAR_MAJOR_MASK then
        (if RCAR_M3_CUT_VER11 = reg AND RCAR_CUT_MASK then
           notice_msg (''PRR is R-Car %s Ver.1.1 / Ver.1.2'' @ [CHR 0x0A]) [ArgS (product_name reg)]
         else
           notice_msg (''PRR is R-Car %s Ver.1.%d'' @ [CHR 0x0A])
             [ArgS (product_name reg), ArgW ((reg AND RCAR_MINOR_MASK) + RCAR_M3_MINOR_OFFSET)])
      else
        notice_msg (''PRR is R-Car %s Ver.%d.%d'' @ [CHR 0x0A])
          [ArgS (product_name reg), ArgW (drop_bit RCAR_MAJOR_SHIFT (reg AND RCAR_MAJOR_MASK) + RCAR_MAJOR_OFFSET),
           ArgW (reg AND RCAR_MINOR_MASK)])"

definition product_check :: "loader_build \<Rightarrow> u32 \<Rightarrow> unit prog" where
  "product_check b reg =
     (case TARGET_PRODUCT (b_lsi b) of
        None \<Rightarrow> ret ()
      | Some target \<Rightarrow> whenp (reg AND RCAR_PRODUCT_MASK \<noteq> target) (seqs
          [ERROR (''This IPL has been built for the %s.'' @ [CHR 0x0A]) [ArgS (TARGET_NAME (b_lsi b))],
           ERROR (''Please write the correct IPL to flash memory.'' @ [CHR 0x0A]) [],
           panic]))"

definition clock_notice :: "unit prog" where
  "clock_notice =
     bnd (mmio_read_32 RCAR_PRR) (\<lambda>reg.
     whenp (reg AND RCAR_PRODUCT_MASK = RCAR_PRODUCT_E3)
       (bnd (mmio_read_32 RCAR_MODEMR) (\<lambda>modemr_sscg.
        notice_msg (''%s'' @ [CHR 0x0A])
          [ArgS (if modemr_sscg AND RCAR_SSCG_MASK = RCAR_SSCG_ENABLE then ''PLL1 SSCG Clock select''
                 else ''PLL1 nonSSCG Clock select'')])))"

definition boot_device_name :: "lsi \<Rightarrow> u32 \<Rightarrow> string" where
  "boot_device_name l modemr_boot_dev =
     (if modemr_boot_dev = MODEMR_BOOT_DEV_HYPERFLASH160
      then (if l = LSI_E3 then ''HyperFlash(150MHz)'' else ''HyperFlash(160MHz)'')
      else if modemr_boot_dev = MODEMR_BOOT_DEV_HYPERFLASH80 then ''HyperFlash(80MHz)''
      else if modemr_boot_dev = MODEMR_BOOT_DEV_QSPI_FLASH40 then ''QSPI Flash(40MHz)''
      else if modemr_boot_dev = MODEMR_BOOT_DEV_QSPI_FLASH80 then ''QSPI Flash(80MHz)''
      else ''unknown'')"

definition lcs_name :: "u32 \<Rightarrow> u32 \<Rightarrow> string" where
  "lcs_name reg lcs =
     (if reg = 0 then
        (if lcs = LCS_CM then ''CM'' else if lcs = LCS_DM then ''DM'' else if lcs = LCS_SD then ''SD''
         else if lcs = LCS_SE then ''SE'' else if lcs = LCS_FA then ''FA'' else ''unknown'')
      else ''unknown'')"

text \<open>
  The log of the memory configuration. Its argument is the register variable as the code leaves it,
  which at this place holds the result of \<^verbatim>\<open>ROM_GetLcs\<close>: the new read of the product register
  is commented out.
\<close>

definition memory_log :: "loader_build \<Rightarrow> u32 \<Rightarrow> unit prog" where
  "memory_log b reg = seqs
     [whenp (reg AND RCAR_PRODUCT_MASK = RCAR_PRODUCT_H3 \<and> RCAR_CUT_VER30 \<le> reg AND RCAR_CUT_MASK)
       (if b_memconf_4gb b then seqs
          [NOTICE (''CH0: 0x400000000 - 0x43fffffff, 1 GiB'' @ [CHR 0x0A]) [],
           NOTICE (''CH1: 0x500000000 - 0x53fffffff, 1 GiB'' @ [CHR 0x0A]) [],
           NOTICE (''CH2: 0x600000000 - 0x63fffffff, 1 GiB'' @ [CHR 0x0A]) [],
           NOTICE (''CH3: 0x700000000 - 0x73fffffff, 1 GiB'' @ [CHR 0x0A]) []]
        else if l_channel b = 5 \<and> b_split b = SPLIT_2CH then seqs
          [NOTICE (''CH0: 0x400000000 - 0x47fffffff, 2 GiB'' @ [CHR 0x0A]) [],
           NOTICE (''CH1: 0x500000000 - 0x57fffffff, 2 GiB'' @ [CHR 0x0A]) []]
        else if l_channel b = 15 then seqs
          [NOTICE (''CH0: 0x400000000 - 0x47fffffff, 2 GiB'' @ [CHR 0x0A]) [],
           NOTICE (''CH1: 0x500000000 - 0x57fffffff, 2 GiB'' @ [CHR 0x0A]) [],
           NOTICE (''CH2: 0x600000000 - 0x67fffffff, 2 GiB'' @ [CHR 0x0A]) [],
           NOTICE (''CH3: 0x700000000 - 0x77fffffff, 2 GiB'' @ [CHR 0x0A]) []]
        else ret ()),
      whenp (reg AND RCAR_PRODUCT_MASK = RCAR_PRODUCT_E3)
       (if l_ddr3l b = 0 then NOTICE (''0x400000000 - 0x43fffffff, 1 GiB'' @ [CHR 0x0A]) []
        else if l_ddr3l b = 1 then NOTICE (''0x400000000 - 0x47fffffff, 2 GiB'' @ [CHR 0x0A]) []
        else ret ())]"

definition dram_init :: "dram \<Rightarrow> unit prog" where
  "dram_init D =
     bnd (InitDram D) (\<lambda>r.
     whenp (r \<noteq> INITDRAM_OK) (seqs [ERROR (''Failed to DRAM initialize (%d)'' @ [CHR 0x0A]) [ArgW r], panic]))"

definition dram_regcheck :: "dram \<Rightarrow> loader_build \<Rightarrow> unit prog" where
  "dram_regcheck D b =
     whenp (l_reg_check b)
      (bnd (mmio_read_32 RCAR_PRR) (\<lambda>reg.
       (let product = reg AND RCAR_PRODUCT_MASK in
        whenp (b_lsi b \<noteq> LSI_E3 \<and>
            (product = RCAR_PRODUCT_H3 \<or> product = RCAR_PRODUCT_M3 \<or> product = RCAR_PRODUCT_M3N))
          (bnd (InitDram_regcheck D) (\<lambda>r.
           if r \<noteq> 0 then ERROR (''Failed to DDRPHY REG check (%d)'' @ [CHR 0x0A]) [ArgW r]
           else NOTICE (''DDRPHY REG check is OK (%d)'' @ [CHR 0x0A]) [ArgW r])))))"

definition loader_qos :: "dram \<Rightarrow> loader_build \<Rightarrow> unit prog" where
  "loader_qos D b =
     bnd (if b_lsi b = LSI_E3 then ret 0 else get_boardcnf_phyvalid D) (\<lambda>phyvalid.
     qos_init phyvalid (qos_build.truncate b) (l_cut b))"

definition loader_unlock :: "unit prog" where
  "loader_unlock =
     bnd (mmio_read_32 RST_WDTRSTCR) (\<lambda>r.
     bnd (mmio_write_32 RST_WDTRSTCR ((r AND NOT WDTRSTCR_RWDT_RSTMSK) OR WDTRSTCR_PASSWORD)) (\<lambda>_.
     bnd (mmio_write_32 CPG_CPGWPR CPGWPR_PASSWORD) (\<lambda>_.
     bnd (mmio_write_32 CPG_CPGWPCR CPGWPCR_PASSWORD) (\<lambda>_.
     bnd (mmio_read_32 RCAR_PRR) (\<lambda>reg.
     if RCAR_PRODUCT_M3 = reg AND RCAR_PRODUCT_MASK \<and> reg AND RCAR_CUT_MASK < RCAR_CUT_VER30 \<or>
        RCAR_PRODUCT_H3 = reg AND RCAR_PRODUCT_MASK \<and> reg AND RCAR_CUT_MASK < RCAR_CUT_VER20
     then ret ()
     else mmio_write_32 MFISWPCNTR (MFISWPCNTR_PASSWORD OR WPD_DISABLE))))))"

definition loader_report :: "string \<Rightarrow> loader_build \<Rightarrow> u32 \<Rightarrow> unit prog" where
  "loader_report build_message b modemr_boot_dev =
     bnd (loader_banner build_message b) (\<lambda>_.
     bnd (mmio_read_32 RCAR_PRR) (\<lambda>reg.
     bnd (version_notice reg) (\<lambda>_.
     bnd (product_check b reg) (\<lambda>_.
     bnd clock_notice (\<lambda>_.
     bnd (notice_msg (''Boot device is %s'' @ [CHR 0x0A]) [ArgS (boot_device_name (b_lsi b) modemr_boot_dev)]) (\<lambda>_.
     bnd ROM_GetLcs (\<lambda>(reg, lcs).
     bnd (NOTICE (''LCM state is %s'' @ [CHR 0x0A]) [ArgS (lcs_name reg lcs)]) (\<lambda>_.
     memory_log b reg))))))))"

definition loader_main :: "dram \<Rightarrow> string \<Rightarrow> loader_build \<Rightarrow> u32 prog" where
  "loader_main D build_message b =
     bnd (mmio_read_32 RCAR_MODEMR) (\<lambda>modemr.
     bnd (loader_hardware b) (\<lambda>_.
     bnd (loader_report build_message b (modemr AND MODEMR_BOOT_DEV_MASK)) (\<lambda>_.
     bnd (dram_init D) (\<lambda>_.
     bnd (dram_regcheck D b) (\<lambda>_.
     bnd (loader_qos D b) (\<lambda>_.
     bnd loader_unlock (\<lambda>_.
     ret 0)))))))"

section \<open>Runs that lengthen the history\<close>

text \<open>\<open>leads s p xs v t\<close>: from \<open>s\<close>, \<open>p\<close> returns \<open>v\<close> in \<open>t\<close> and adds \<open>xs\<close> to the history.\<close>

definition leads :: "machine \<Rightarrow> 'a prog \<Rightarrow> access list \<Rightarrow> 'a \<Rightarrow> machine \<Rightarrow> bool" where
  "leads s p xs v t \<longleftrightarrow> p s = Done v t \<and> m_tr t = xs @ m_tr s \<and> m_dev t = m_dev s \<and> m_fuel t = m_fuel s"

lemma leads_bnd: "leads s p xs v t \<Longrightarrow> leads t (f v) ys w u \<Longrightarrow> leads s (bnd p f) (ys @ xs) w u"
  by (simp add: leads_def bnd_def)

lemma leads_seqs: "leads s p xs () t \<Longrightarrow> leads t (seqs ps) ys () u \<Longrightarrow> leads s (seqs (p # ps)) (ys @ xs) () u"
  unfolding seqs.simps by (rule leads_bnd)

lemma leads_skip: "leads s (seqs []) [] () s"
  by (simp add: leads_def ret_def)

lemma leads_grown: "p s = Done v (grown xs s) \<Longrightarrow> leads s p xs v (grown xs s)"
  by (simp add: leads_def)

lemma leads_read: "leads s (mmio_read_32 a) [Rd32 a (d_rd32 (m_dev s) (m_tr s) a)] (d_rd32 (m_dev s) (m_tr s) a)
    (grown [Rd32 a (d_rd32 (m_dev s) (m_tr s) a)] s)"
  by (rule leads_grown) (simp add: mmio_read_32_def Let_def)

lemma leads_asm: "leads s (asm c) [Asm c] () (grown [Asm c] s)"
  by (rule leads_grown) (simp add: asm_def emit_run)

text \<open>Programs that only lengthen the history, on a device \<open>d\<close>, and without register writes if \<open>k\<close>.\<close>

definition logs :: "device \<Rightarrow> bool \<Rightarrow> 'a prog \<Rightarrow> bool" where
  "logs d k p \<longleftrightarrow> (\<forall>s. m_dev s = d \<longrightarrow> (\<exists>v xs. p s = Done v (grown xs s) \<and> (k \<longrightarrow> writes xs = [])))"

lemma logsE:
  assumes "logs d k p" and "m_dev s = d"
  obtains v xs where "p s = Done v (grown xs s)" "k \<longrightarrow> writes xs = []"
  using assms(1) [unfolded logs_def, rule_format, OF assms(2)] by (elim exE conjE) (rule that)

lemma logs_bnd:
  assumes "logs d k p" and "\<And>v. logs d k (f v)"
  shows "logs d k (bnd p f)"
  unfolding logs_def
proof (intro allI impI)
  fix s :: machine assume "m_dev s = d"
  with assms(1) obtain v xs where 1: "p s = Done v (grown xs s)" "k \<longrightarrow> writes xs = []" by (rule logsE)
  have "m_dev (grown xs s) = d" using \<open>m_dev s = d\<close> by simp
  with assms(2) [of v] obtain w ys where 2: "f v (grown xs s) = Done w (grown ys (grown xs s))" "k \<longrightarrow> writes ys = []"
    by (rule logsE)
  show "\<exists>v xs. bnd p f s = Done v (grown xs s) \<and> (k \<longrightarrow> writes xs = [])"
    by (rule exI [of _ w], rule exI [of _ "ys @ xs"]) (use 1 2 in \<open>simp add: bnd_def\<close>)
qed

lemma logs_ret: "logs d k (ret x)"
  unfolding logs_def by (intro allI impI exI [of _ x] exI [of _ "[]"]) (simp add: ret_def)

lemma logs_known:
  assumes "\<And>t. d_rd32 d t a = v" and "logs d k (f v)"
  shows "logs d k (bnd (mmio_read_32 a) f)"
  unfolding logs_def
proof (intro allI impI)
  fix s :: machine assume "m_dev s = d"
  then have "m_dev (grown [Rd32 a v] s) = d" by simp
  with assms(2) obtain w xs where "f v (grown [Rd32 a v] s) = Done w (grown xs (grown [Rd32 a v] s))" "k \<longrightarrow> writes xs = []"
    by (rule logsE)
  then show "\<exists>v xs. bnd (mmio_read_32 a) f s = Done v (grown xs s) \<and> (k \<longrightarrow> writes xs = [])"
    using \<open>m_dev s = d\<close> by (intro exI [of _ w] exI [of _ "xs @ [Rd32 a v]"]) (simp add: bnd_read_32 assms(1))
qed

lemma logs_read: "(\<And>v. logs d k (f v)) \<Longrightarrow> logs d k (bnd (mmio_read_32 a) f)"
  by (rule logs_bnd) (auto simp: logs_def mmio_read_32_def Let_def intro!: exI [of _ "[Rd32 _ _]"])

lemma logs_say: "(\<And>s. p s = Done () (say cs s)) \<Longrightarrow> logs d k p"
  by (auto simp: logs_def say_def intro!: exI [of _ "rev (map Putc cs)"])

lemma logs_notice: "format fmt args \<noteq> None \<Longrightarrow> logs d k (NOTICE fmt args)"
  and logs_error: "format fmt args \<noteq> None \<Longrightarrow> logs d k (ERROR fmt args)"
  by (auto intro: logs_say NOTICE_run ERROR_run)

lemma logs_msg: "format fmt args = Some out \<Longrightarrow> length out < 128 \<Longrightarrow> logs d k (notice_msg fmt args)"
  by (rule logs_say) (rule notice_msg_run)

lemma logs_whenp: "(c \<Longrightarrow> logs d k p) \<Longrightarrow> logs d k (whenp c p)"
  by (cases c) (simp_all add: logs_ret)

lemma logs_seqs: "logs d k p \<Longrightarrow> logs d k (seqs ps) \<Longrightarrow> logs d k (seqs (p # ps))"
  unfolding seqs.simps by (rule logs_bnd)

lemma logs_if: "(c \<Longrightarrow> logs d k p) \<Longrightarrow> (\<not> c \<Longrightarrow> logs d k q) \<Longrightarrow> logs d k (if c then p else q)"
  by simp

lemma logs_skip: "logs d k (seqs [])"
  by (simp add: logs_ret)

section \<open>The report\<close>

lemma logs_banner: "logs d k (loader_banner build_message b)"
  unfolding loader_banner_def
  by (rule logs_seqs, rule logs_msg, simp, simp add: TARGET_NAME_def bytes_def split: lsi.split)
    (rule logs_seqs, rule logs_msg, simp, simp add: bytes_def, rule logs_seqs logs_skip, rule logs_notice, simp, rule logs_skip)

lemma version_lengths:
  "length (product_name reg) < 96"
  "length (product_name reg) + length (sdec m) < 107"
  "length (product_name reg) + (length (sdec m) + length (sdec n)) < 108"
proof -
  have "length (product_name reg) \<le> 7" by (simp add: product_name_def Let_def)
  with length_sdec [of m] length_sdec [of n] show "length (product_name reg) < 96"
      "length (product_name reg) + length (sdec m) < 107"
      "length (product_name reg) + (length (sdec m) + length (sdec n)) < 108"
    by linarith+
qed

lemma logs_version: "logs d k (version_notice reg)"
  unfolding version_notice_def
  by (rule logs_if; (rule logs_if)?; rule logs_msg; simp add: bytes_def)
    (simp_all add: version_lengths)

lemma logs_product:
  assumes "reg AND RCAR_PRODUCT_MASK \<in> product_of (b_lsi b)"
  shows "logs d k (product_check b reg)"
  using assms unfolding product_check_def
  by (cases "b_lsi b") (simp_all add: TARGET_PRODUCT_def product_of_def logs_ret)

lemma logs_clock: "logs d k clock_notice"
  unfolding clock_notice_def
  by (rule logs_read, rule logs_whenp, rule logs_read, rule logs_msg, simp) (simp add: bytes_def)

lemma logs_boot_device: "logs d k (notice_msg (''Boot device is %s'' @ [CHR 0x0A]) [ArgS (boot_device_name l m)])"
  by (rule logs_msg, simp) (simp add: bytes_def boot_device_name_def)

lemma logs_rom_call: "logs d k (rom_call entry args)"
  unfolding logs_def
proof (intro allI impI)
  fix s :: machine
  show "\<exists>v xs. rom_call entry args s = Done v (grown xs s) \<and> (k \<longrightarrow> writes xs = [])"
    by (cases "d_rom (m_dev s) (m_tr s) entry args")
      (intro exI [of _ "d_rom (m_dev s) (m_tr s) entry args"]
        exI [of _ "[RomCall entry args (fst (d_rom (m_dev s) (m_tr s) entry args))]"], simp add: rom_call_def)
qed

lemma logs_GetLcs: "logs d k ROM_GetLcs"
  unfolding ROM_GetLcs_def get_table_index_def Let_def by (rule logs_bnd logs_read logs_ret logs_rom_call)+

lemma logs_memory: "logs d k (memory_log b reg)"
  unfolding memory_log_def by (rule logs_seqs logs_skip logs_whenp logs_if logs_ret | (rule logs_notice, simp))+

text \<open>After a successful call of the ROM the memory log is empty on every chip.\<close>

lemma memory_log_silent: "memory_log b 0 = ret ()"
  by (simp add: memory_log_def bnd_ret_unit)

lemma logs_report:
  assumes "\<And>t. d_rd32 d t RCAR_PRR = prr" and "prr AND RCAR_PRODUCT_MASK \<in> product_of (b_lsi b)"
  shows "logs d k (loader_report build_message b m)"
  unfolding loader_report_def
  by (rule logs_bnd [OF logs_banner], rule logs_known [OF assms(1)], rule logs_bnd [OF logs_version],
      rule logs_bnd [OF logs_product [OF assms(2)]], rule logs_bnd [OF logs_clock],
      rule logs_bnd [OF logs_boot_device], rule logs_bnd [OF logs_GetLcs])
    (simp only: case_prod_beta, rule logs_bnd, rule logs_notice, simp, rule logs_memory)

section \<open>The hardware\<close>

abbreviation core :: "loader_build \<Rightarrow> build" where
  "core b \<equiv> build.truncate b"

lemma core_simps: "b_lsi (core b) = b_lsi b" "b_ns_master (core b) = b_ns_master b"
  by (simp_all add: build.truncate_def)

lemma core_accepts: "pfc_accepts (core b) lcut prr \<Longrightarrow> prr AND RCAR_PRODUCT_MASK \<in> product_of (b_lsi b)"
  by (simp add: pfc_accepts_def core_simps)

lemma cpg_leads:
  assumes "d_rd32 (m_dev s) (m_tr s) RCAR_PRR AND RCAR_PRODUCT_MASK \<in> product_of (b_lsi b)"
  obtains xs tbl where "leads s (cpg_init (core b)) xs () (grown xs s)" "map fst tbl = cpg_regs"
    "writes xs = cpg_pairs tbl" "no_asm xs"
proof -
  have "programmed s (cpg_init (core b) s)"
    using assms by (intro cpg_init_programmed) (auto simp: core_simps product_of_def)
  then show ?thesis
    unfolding programmed_def by (elim exE conjE) (rule that, rule leads_grown)
qed

lemma pfc_leads:
  fixes s :: machine
  defines "prr \<equiv> d_rd32 (m_dev s) (m_tr s) RCAR_PRR"
  assumes "pfc_accepts (core b) lcut prr" and "prr AND RCAR_PRODUCT_MASK = RCAR_PRODUCT_M3 \<Longrightarrow> rtdmac_ready s"
  obtains xs where "leads s (pfc_init (core b) lcut) xs () (grown xs s)"
    "\<And>m prev. fst (fold hw_write (writes xs) (m, prev)) = plain (writes xs) m"
proof -
  obtain xs where run: "pfc_init (core b) lcut s = Done () (grown xs s)" "guarded None (writes xs)"
    using pfc_init_result [of s "core b" lcut] assms
    by (auto simp: pfc_result_def pins_done_def chip_done_def split: if_splits)
  show ?thesis
    by (rule that, rule leads_grown, rule run(1), rule guarded_effect [OF guarded_any], rule run(2))
qed

lemma gic_leads:
  assumes "behaves gicd_upd init (m_dev s) gicd_space" and "b_ns_master b"
  obtains t xs where "leads s (seqs [arm_gic_init GICC_BASE GICD_BASE [ARM_IRQ_WDT], arm_gic_setup (core b)]) xs () t"
    "view (regs gicd_upd init (xs @ m_tr s)) = a_setup [ARM_IRQ_WDT] (view (regs gicd_upd init (m_tr s)))"
proof -
  let ?s = "s\<lparr>g_gicc_base := GICC_BASE, g_gicd_base := GICD_BASE, g_irq_sec := [ARM_IRQ_WDT]\<rparr>"
  have "refines init (?s\<lparr>m_tr := []\<rparr>) (arm_gic_setup (core b)) (\<lambda>d. ((), a_setup [ARM_IRQ_WDT] d))"
    using arm_gic_setup_refines [of init "?s\<lparr>m_tr := []\<rparr>" "core b"] assms by (simp add: core_simps)
  from refines_run [OF this] obtain xs where "arm_gic_setup (core b) ?s = Done () (grown xs ?s)"
      "view (regs gicd_upd init (xs @ m_tr s)) = a_setup [ARM_IRQ_WDT] (view (regs gicd_upd init (m_tr s)))"
    by auto
  then show ?thesis
    by (intro that [of xs "grown xs ?s"]) (simp_all add: leads_def arm_gic_init_def puts_def bnd_def ret_def)
qed

lemma swdt_leads:
  assumes "ready_8 (m_dev s) (m_fuel s) SWDT_WTCSRA (\<lambda>v. v AND WTCSRA_WRFLG \<noteq> 0)"
  obtains xs csr where "leads s (swdt_init (core b)) xs () (grown xs s)"
    "last (writes xs) = (SWDT_WTCSRA, csr)" "csr AND SWDT_ENABLE \<noteq> 0"
proof -
  from swdt_init_grows [OF assms, of "core b"] show ?thesis
    by (elim exE conjE) (rule that, erule leads_grown, simp, rule bits_set(1))
qed

lemma leads_gic:
  assumes "leads s (seqs [p, q]) xs () t" and "leads t (seqs ps) ys () u"
  shows "leads s (seqs (p # q # ps)) (ys @ xs) () u"
  using leads_bnd [OF assms(1), of "\<lambda>_. seqs ps"] assms(2) by (simp add: bnd_assoc)

text \<open>What the hardware set-up adds to the history \<open>h\<close>, newest first.\<close>

definition hardware_done :: "(u32 \<Rightarrow> u32) \<Rightarrow> access list \<Rightarrow> access list \<Rightarrow> bool" where
  "hardware_done init h xs \<longleftrightarrow> (\<exists>clocks pins irqs wdt tbl csr.
     xs = [Asm Aif_enable_i] @ wdt @ irqs @ [Asm Aif_enable_a, Asm Console_init] @ pins @ clocks \<and>
     map fst tbl = cpg_regs \<and> writes clocks = cpg_pairs tbl \<and>
     (\<forall>m prev. fst (fold hw_write (writes pins) (m, prev)) = plain (writes pins) m) \<and>
     (let old = [Asm Aif_enable_a, Asm Console_init] @ pins @ clocks @ h in
      view (regs gicd_upd init (irqs @ old)) = a_setup [ARM_IRQ_WDT] (view (regs gicd_upd init old))) \<and>
     last (writes wdt) = (SWDT_WTCSRA, csr) \<and> csr AND SWDT_ENABLE \<noteq> 0)"

lemma hardware_leads:
  assumes prr: "\<And>t. d_rd32 (m_dev s) t RCAR_PRR = prr" and acc: "pfc_accepts (core b) (l_cut b) prr"
    and "prr AND RCAR_PRODUCT_MASK = RCAR_PRODUCT_M3 \<Longrightarrow> rtdmac_ready s"
    and gic: "behaves gicd_upd init (m_dev s) gicd_space" "b_ns_master b"
    and wdt: "ready_8 (m_dev s) (m_fuel s) SWDT_WTCSRA (\<lambda>v. v AND WTCSRA_WRFLG \<noteq> 0)"
  obtains t xs where "leads s (loader_hardware b) xs () t" "hardware_done init (m_tr s) xs"
proof -
  obtain clocks tbl where 1: "leads s (cpg_init (core b)) clocks () (grown clocks s)"
      "map fst tbl = cpg_regs" "writes clocks = cpg_pairs tbl"
    by (rule cpg_leads [of s b]) (use core_accepts [OF acc] prr in simp_all)
  let ?s1 = "grown clocks s"
  obtain pins where 2: "leads ?s1 (pfc_init (core b) (l_cut b)) pins () (grown pins ?s1)"
      "\<And>m prev. fst (fold hw_write (writes pins) (m, prev)) = plain (writes pins) m"
    by (rule pfc_leads [of b "l_cut b" ?s1]) (use acc prr assms(3) in simp_all)
  let ?s2 = "grown [Asm Aif_enable_a] (grown [Asm Console_init] (grown pins ?s1))"
  obtain t irqs where 3: "leads ?s2 (seqs [arm_gic_init GICC_BASE GICD_BASE [ARM_IRQ_WDT], arm_gic_setup (core b)]) irqs () t"
      "view (regs gicd_upd init (irqs @ m_tr ?s2)) = a_setup [ARM_IRQ_WDT] (view (regs gicd_upd init (m_tr ?s2)))"
    by (rule gic_leads [of init ?s2 b]) (use gic in simp_all)
  have dev: "m_dev t = m_dev s" "m_fuel t = m_fuel s" using 3(1) by (simp_all add: leads_def)
  obtain wdt csr where 4: "leads t (swdt_init (core b)) wdt () (grown wdt t)"
      "last (writes wdt) = (SWDT_WTCSRA, csr)" "csr AND SWDT_ENABLE \<noteq> 0"
    by (rule swdt_leads [of t b]) (use wdt dev in simp_all)
  have "leads s (loader_hardware b) ([Asm Aif_enable_i] @ wdt @ irqs @ [Asm Aif_enable_a, Asm Console_init] @ pins @ clocks) ()
      (grown [Asm Aif_enable_i] (grown wdt t))"
    using leads_seqs [OF 1(1) leads_seqs [OF 2(1) leads_seqs [OF leads_asm leads_seqs [OF leads_asm
      leads_gic [OF 3(1) leads_seqs [OF 4(1) leads_seqs [OF leads_asm leads_skip]]]]]]]
    by (simp add: loader_hardware_def del: seqs.simps)
  moreover have "hardware_done init (m_tr s) ([Asm Aif_enable_i] @ wdt @ irqs @ [Asm Aif_enable_a, Asm Console_init] @ pins @ clocks)"
    unfolding hardware_done_def Let_def
    by (intro exI conjI; (rule refl)?) (use 1(2,3) 2(2) 3(2) 4(2,3) in \<open>simp_all\<close>)
  ultimately show ?thesis by (rule that)
qed

section \<open>The DRAM, the bus and the registers to unlock\<close>

text \<open>
  What the loader relies on in the DRAM code: it returns success and only accesses devices.
\<close>

definition dram_works :: "dram \<Rightarrow> bool" where
  "dram_works D \<longleftrightarrow>
     (\<forall>s. \<exists>xs. InitDram D s = Done INITDRAM_OK (grown xs s)) \<and>
     (\<forall>s. \<exists>r xs. InitDram_regcheck D s = Done r (grown xs s)) \<and>
     (\<forall>s. \<exists>v xs. get_boardcnf_phyvalid D s = Done v (grown xs s))"

lemma dram_init_leads:
  assumes "dram_works D"
  obtains xs where "leads s (dram_init D) xs () (grown xs s)"
proof -
  obtain xs where "InitDram D s = Done INITDRAM_OK (grown xs s)"
    using assms unfolding dram_works_def by (elim conjE) (erule allE [of _ s], elim exE)
  then have "leads s (dram_init D) xs () (grown xs s)"
    by (intro leads_grown) (simp add: dram_init_def bnd_def ret_def)
  then show ?thesis by (rule that)
qed

lemma logs_regcheck:
  assumes "dram_works D"
  shows "logs d False (dram_regcheck D b)"
proof -
  have "logs d False (InitDram_regcheck D)" using assms by (simp add: logs_def dram_works_def)
  then show ?thesis
    unfolding dram_regcheck_def Let_def
    by (intro logs_whenp logs_read logs_bnd logs_if logs_notice logs_error) simp_all
qed

lemma phyvalid_leads:
  assumes "dram_works D"
  obtains v xs where "leads s (if b_lsi b = LSI_E3 then ret 0 else get_boardcnf_phyvalid D) xs v (grown xs s)"
proof (cases "b_lsi b = LSI_E3")
  case True
  then show ?thesis by (intro that [of "[]" 0]) (simp add: leads_def ret_def)
next
  case False
  obtain v xs where "get_boardcnf_phyvalid D s = Done v (grown xs s)"
    using assms unfolding dram_works_def by (elim conjE) (erule allE [of _ s], elim exE)
  with False show ?thesis by (intro that [of xs v]) (simp add: leads_grown)
qed

lemma qos_leads:
  assumes "qos_routine (b_lsi b) lcut (d_rd32 (m_dev s) (m_tr s) RCAR_PRR) = Some c" and "b_split b \<notin> refuses c"
  obtains t xs where "leads s (qos_init phyvalid b lcut) xs () t"
    "qos_trace (stores xs) (qos_begin c) = Some (Qos_State (unprotected c) (runs c b) None)"
proof -
  let ?c = "channels_counted phyvalid b s" and ?prr = "d_rd32 (m_dev s) (m_tr s) RCAR_PRR"
  let ?s = "grown [Rd32 RCAR_PRR ?prr] ?c"
  obtain xs where run: "routine c b ?s = Done () (grown xs ?s)"
      "qos_trace (stores xs) (qos_begin c) = Some (Qos_State (unprotected c) (runs c b) None)"
    using routine_ok [OF assms(2)] by (rule qos_tripleE)
  have "leads s (qos_init phyvalid b lcut) (xs @ [Rd32 RCAR_PRR ?prr]) () (grown xs ?s)"
    using qos_init_run [of phyvalid b lcut s] run(1) assms(1)
    by (simp add: leads_def channels_counted_def)
  then show ?thesis by (rule that) (simp add: run(2))
qed

text \<open>
  The last writes: the reset by the watchdog is unmasked, the write protection of the clock generator
  is opened, and that of the multi-function interface on the chips that have one.
\<close>

definition unlocks :: "u32 \<Rightarrow> (u32 \<times> u32) list \<Rightarrow> bool" where
  "unlocks prr ws \<longleftrightarrow> (\<exists>w. ws =
     [(RST_WDTRSTCR, (w AND NOT WDTRSTCR_RWDT_RSTMSK) OR WDTRSTCR_PASSWORD), (CPG_CPGWPR, CPGWPR_PASSWORD),
      (CPG_CPGWPCR, CPGWPCR_PASSWORD)] @
     (if prr AND RCAR_PRODUCT_MASK = RCAR_PRODUCT_M3 \<and> prr AND RCAR_CUT_MASK < RCAR_CUT_VER30 \<or>
         prr AND RCAR_PRODUCT_MASK = RCAR_PRODUCT_H3 \<and> prr AND RCAR_CUT_MASK < RCAR_CUT_VER20
      then [] else [(MFISWPCNTR, MFISWPCNTR_PASSWORD OR WPD_DISABLE)]))"

lemma unlock_leads:
  assumes "\<And>t. d_rd32 (m_dev s) t RCAR_PRR = prr"
  obtains xs where "leads s loader_unlock xs () (grown xs s)" "unlocks prr (writes xs)"
proof -
  let ?w = "d_rd32 (m_dev s) (m_tr s) RST_WDTRSTCR"
  let ?old = "prr AND RCAR_PRODUCT_MASK = RCAR_PRODUCT_M3 \<and> prr AND RCAR_CUT_MASK < RCAR_CUT_VER30 \<or>
          prr AND RCAR_PRODUCT_MASK = RCAR_PRODUCT_H3 \<and> prr AND RCAR_CUT_MASK < RCAR_CUT_VER20"
  let ?xs = "(if ?old then [] else [Wr32 MFISWPCNTR (MFISWPCNTR_PASSWORD OR WPD_DISABLE)]) @
     [Rd32 RCAR_PRR prr, Wr32 CPG_CPGWPCR CPGWPCR_PASSWORD, Wr32 CPG_CPGWPR CPGWPR_PASSWORD,
      Wr32 RST_WDTRSTCR ((?w AND NOT WDTRSTCR_RWDT_RSTMSK) OR WDTRSTCR_PASSWORD), Rd32 RST_WDTRSTCR ?w]"
  have "leads s loader_unlock ?xs () (grown ?xs s)"
    by (rule leads_grown)
      (auto simp: loader_unlock_def bnd_read_32 bnd_write_32 assms write_32_run ret_def simp del: push_bit_0_id)
  moreover have "unlocks prr (writes ?xs)"
    unfolding unlocks_def by (rule exI [of _ ?w]) (cases ?old; simp)
  ultimately show ?thesis by (rule that)
qed

text \<open>The stages from the report on, with the history that each adds.\<close>

lemma bus_leads:
  assumes "dram_works D" and "qos_routine (b_lsi b) (l_cut b) prr = Some c" and "b_split b \<notin> refuses c"
    and prr: "\<And>t. d_rd32 (m_dev s) t RCAR_PRR = prr"
  obtains t dram qos where "leads s (loader_qos D b) (qos @ dram) () t"
    "qos_trace (stores qos) (qos_begin c) = Some (Qos_State (unprotected c) (runs c (qos_build.truncate b)) None)"
proof -
  obtain v dram where 1: "leads s (if b_lsi b = LSI_E3 then ret 0 else get_boardcnf_phyvalid D) dram v (grown dram s)"
    using assms(1) by (rule phyvalid_leads)
  obtain t qos where 2: "leads (grown dram s) (qos_init v (qos_build.truncate b) (l_cut b)) qos () t"
      "qos_trace (stores qos) (qos_begin c) = Some (Qos_State (unprotected c) (runs c (qos_build.truncate b)) None)"
    by (rule qos_leads [of "qos_build.truncate b" "l_cut b" "grown dram s" c v])
      (use assms(2-) in \<open>simp_all add: qos_build.truncate_def\<close>)
  have "leads s (loader_qos D b) (qos @ dram) () t"
    unfolding loader_qos_def using 1 2(1) by (rule leads_bnd)
  then show ?thesis using 2(2) by (rule that)
qed

lemma rest_leads:
  assumes "dram_works D" and "qos_routine (b_lsi b) (l_cut b) prr = Some c" and "b_split b \<notin> refuses c"
    and prr: "\<And>t. d_rd32 (m_dev s) t RCAR_PRR = prr"
  obtains t dram qos unlock where
    "leads s (bnd (dram_init D) (\<lambda>_. bnd (dram_regcheck D b) (\<lambda>_. bnd (loader_qos D b) (\<lambda>_. bnd loader_unlock (\<lambda>_. ret (0 :: u32))))))
       (unlock @ qos @ dram) 0 t"
    "qos_trace (stores qos) (qos_begin c) = Some (Qos_State (unprotected c) (runs c (qos_build.truncate b)) None)"
    "unlocks prr (writes unlock)"
proof -
  obtain dram1 where 1: "leads s (dram_init D) dram1 () (grown dram1 s)"
    using assms(1) by (rule dram_init_leads)
  obtain v dram2 where "dram_regcheck D b (grown dram1 s) = Done v (grown dram2 (grown dram1 s))"
    by (rule logsE [OF logs_regcheck [OF assms(1)] refl])
  then have 2: "leads (grown dram1 s) (dram_regcheck D b) dram2 v (grown dram2 (grown dram1 s))"
    by (rule leads_grown)
  let ?s = "grown dram2 (grown dram1 s)"
  obtain u dram3 qos where 3: "leads ?s (loader_qos D b) (qos @ dram3) () u"
      "qos_trace (stores qos) (qos_begin c) = Some (Qos_State (unprotected c) (runs c (qos_build.truncate b)) None)"
    by (rule bus_leads [OF assms(1-3), of ?s]) (use prr in simp_all)
  have "d_rd32 (m_dev u) t RCAR_PRR = prr" for t using 3(1) prr by (simp add: leads_def)
  then obtain unlock where 4: "leads u loader_unlock unlock () (grown unlock u)" "unlocks prr (writes unlock)"
    by (rule unlock_leads)
  have "leads (grown unlock u) (ret 0) [] 0 (grown unlock u)" by (simp add: leads_def ret_def)
  note leads_bnd [OF 1 leads_bnd [OF 2 leads_bnd [OF 3(1) leads_bnd [OF 4(1) this]]]]
  then show ?thesis
    by (intro that [of unlock qos "dram3 @ dram2 @ dram1" "grown unlock u"]) (simp_all add: 3(2) 4(2))
qed

lemma hardware_done_read:
  assumes "hardware_done init (Rd32 a v # h) xs"
  shows "hardware_done init h (xs @ [Rd32 a v])"
proof -
  obtain clocks pins irqs wdt tbl csr where
     "xs = [Asm Aif_enable_i] @ wdt @ irqs @ [Asm Aif_enable_a, Asm Console_init] @ pins @ clocks"
     "map fst tbl = cpg_regs" "writes clocks = cpg_pairs tbl"
     "\<forall>m prev. fst (fold hw_write (writes pins) (m, prev)) = plain (writes pins) m"
     "let old = [Asm Aif_enable_a, Asm Console_init] @ pins @ clocks @ Rd32 a v # h in
      view (regs gicd_upd init (irqs @ old)) = a_setup [ARM_IRQ_WDT] (view (regs gicd_upd init old))"
     "last (writes wdt) = (SWDT_WTCSRA, csr)" "csr AND SWDT_ENABLE \<noteq> 0"
    using assms unfolding hardware_done_def by (elim exE conjE) (rule that)
  then show ?thesis
    unfolding hardware_done_def
    by (intro exI [of _ "clocks @ [Rd32 a v]"] exI [of _ pins] exI [of _ irqs] exI [of _ wdt] exI [of _ tbl]
      exI [of _ csr]) simp
qed


text \<open>Witness: a device with the product register of the board's chip, an interrupt controller and zeros.\<close>

definition board_device :: device where
  "board_device = (const_device 0)\<lparr>d_rd32 := \<lambda>t a. if a = RCAR_PRR then 0x5500 else regs gicd_upd (\<lambda>_. 0) t a\<rparr>"

definition board_build :: loader_build where
  "board_build = qos_build.extend qos_build_m3n (loader_build.fields CUT_COMPAT 15 1 False)"

definition trained_dram :: dram where
  "trained_dram = \<lparr>InitDram = ret 0, InitDram_regcheck = ret 0, get_boardcnf_phyvalid = ret 0x03\<rparr>"

lemma board_facts:
  "d_rd32 board_device t RCAR_PRR = 0x5500" "behaves gicd_upd (\<lambda>_. 0) board_device gicd_space"
  "ready_8 board_device 1 SWDT_WTCSRA (\<lambda>v. v AND WTCSRA_WRFLG \<noteq> 0)"
proof -
  have "gadr n \<noteq> RCAR_PRR" if "n < 0x1000" for n
    using that unat_gadr [OF that] by auto
  then show "behaves gicd_upd (\<lambda>_. 0) board_device gicd_space"
    by (auto simp: behaves_def board_device_def gicd_space_def)
qed (simp_all add: board_device_def ready_8_def const_device_def)

lemma trained: "dram_works trained_dram"
  by (auto simp: dram_works_def trained_dram_def ret_def intro!: exI [of _ "[]"])

lemma board_simps:
  "b_lsi board_build = LSI_M3N" "l_cut board_build = CUT_COMPAT" "b_ns_master board_build" "b_split board_build = SPLIT_LINEAR"
  by (simp_all add: board_build_def qos_build_m3n_def build_m3n_def qos_build.defs loader_build.defs build.defs)


text \<open>
  Property C35 (loader_wrong_chip): on a chip that the build is not for, \<^verbatim>\<open>loader_main\<close> panics in
  the clock or pin set-up, before the serial port is initialised and before any other device is
  written; its own product check, with the message to write the correct loader to the flash memory,
  is never reached.
\<close>

theorem loader_wrong_chip:
  fixes s :: machine
  assumes "\<And>t. d_rd32 (m_dev s) t RCAR_PRR = prr" and "prr AND RCAR_PRODUCT_MASK \<notin> product_of (b_lsi b)"
  shows "\<exists>xs tbl. loader_main D build_message b s = Panic (grown xs s) \<and> no_asm xs \<and>
    writes xs = cpg_pairs tbl \<and> (tbl = [] \<or> map fst tbl = cpg_regs)"
proof -
  let ?m = "Rd32 RCAR_MODEMR (d_rd32 (m_dev s) (m_tr s) RCAR_MODEMR)"
  let ?s = "grown [?m] s"
  have run: "loader_main D build_message b s = Panic u" if "loader_hardware b ?s = Panic u" for u
    using that unfolding loader_main_def bnd_read_32 by (simp add: bnd_def)
  show ?thesis
  proof (cases "b_lsi b = LSI_AUTO")
    case True
    then obtain xs where "cpg_init (core b) ?s = Panic (grown xs ?s)" "writes xs = []" "no_asm xs"
      using cpg_init_panics [of "core b" ?s] assms by (auto simp: core_simps product_of_def)
    then show ?thesis
      using run [of "grown xs ?s"]
      by (intro exI [of _ "xs @ [?m]"] exI [of _ "[]"]) (simp add: loader_hardware_def bnd_def cpg_pairs_def)
  next
    case False
    then have "programmed ?s (cpg_init (core b) ?s)" by (intro cpg_init_programmed) (simp add: core_simps)
    then obtain xs tbl where 1: "cpg_init (core b) ?s = Done () (grown xs ?s)" "map fst tbl = cpg_regs"
        "writes xs = cpg_pairs tbl" "no_asm xs"
      unfolding programmed_def by (elim exE conjE) (rule that)
    have "refused (grown xs ?s) (pfc_init (core b) (l_cut b) (grown xs ?s))"
      by (rule pfc_wrong_product) (simp add: assms core_simps)
    then obtain ys where "pfc_init (core b) (l_cut b) (grown xs ?s) = Panic (grown ys (grown xs ?s))"
        "writes ys = []" "no_asm ys"
      unfolding refused_def by (elim exE conjE) (rule that)
    with 1 show ?thesis
      using run [of "grown ys (grown xs ?s)"]
      by (intro exI [of _ "ys @ xs @ [?m]"] exI [of _ tbl]) (simp add: loader_hardware_def bnd_def)
  qed
qed

text \<open>Witness: the board's build on another chip.\<close>

theorem loader_wrong_chip_witness:
  "\<exists>xs. loader_main trained_dram ''Built : today'' board_build (boot_machine (const_device 0x5700) 1)
      = Panic (grown xs (boot_machine (const_device 0x5700) 1)) \<and> Asm Console_init \<notin> set xs"
proof -
  have prr: "\<And>t. d_rd32 (m_dev (boot_machine (const_device 0x5700) 1)) t RCAR_PRR = 0x5700"
    by (simp add: boot_machine_def const_device_def)
  have "0x5700 AND RCAR_PRODUCT_MASK \<notin> product_of (b_lsi board_build)"
    by (simp add: product_of_def board_simps)
  from loader_wrong_chip [OF prr this, of trained_dram "''Built : today''"] show ?thesis
    by (elim exE conjE) (rule exI, rule conjI, assumption, erule spec)
qed

end
