(* ===== verification/Slots.thy ===== *)
theory Slots
  imports Prelude
begin

text \<open>
  The cluster application (\<^verbatim>\<open>src/2d-wow-cluster-demo/src\<close>) hands out entries of fixed arrays in two
  places: the two file handles of the ROM file system and the fifty video memory buffers. Both
  search the first entry whose in-use flag is zero and mark it. The search and the contract the two
  clients rely on are stated here once; \<open>RomFs\<close> and \<open>Texture\<close> interpret the contract.

  The byte memory that both components read and write, and \<^verbatim>\<open>memcpy\<close> on it, are here as well.
\<close>

section \<open>First free entry\<close>

text \<open>The loop \<open>while (i < N) { if (InUse[i] == 0) break; i++; }\<close> on the in-use flags.\<close>

fun first_free :: "bool list \<Rightarrow> nat option" where
  "first_free [] = None"
| "first_free (used # us) = (if used then map_option Suc (first_free us) else Some 0)"

lemma first_free_None: "first_free us = None \<longleftrightarrow> (\<forall>u \<in> set us. u)"
  by (induction us) auto

lemma first_free_Some:
  "first_free us = Some i \<longleftrightarrow> i < length us \<and> \<not> us ! i \<and> (\<forall>j < i. us ! j)"
proof (induction us arbitrary: i)
  case (Cons u us)
  show ?case
    by (cases i) (auto simp: Cons.IH less_Suc_eq_0_disj)
qed simp

section \<open>The contract of an array of slots\<close>

text \<open>
  \<open>used s\<close> lists the in-use flags of state \<open>s\<close>; \<open>claim k\<close> marks a slot for the request \<open>k\<close> and returns
  it, \<open>release\<close> gives a slot back. The laws say which flag changes, and that a request that can be
  \<open>served\<close> in the state (the file exists, the video memory suffices) fails exactly when the array is
  full.
\<close>

locale slots =
  fixes used :: "'s \<Rightarrow> bool list"
    and served :: "'k \<Rightarrow> 's \<Rightarrow> bool"
    and claim :: "'k \<Rightarrow> 's \<Rightarrow> (nat \<times> 's) option"
    and release :: "nat \<Rightarrow> 's \<Rightarrow> 's"
  assumes claim_None: "served k s \<Longrightarrow> claim k s = None \<longleftrightarrow> (\<forall>u \<in> set (used s). u)"
    and claim_Some: "claim k s = Some (i, t) \<Longrightarrow>
      i < length (used s) \<and> \<not> used s ! i \<and> used t = (used s)[i := True]"
    and release_used: "used (release i s) = (used s)[i := False]"
begin

definition load :: "'s \<Rightarrow> nat" where
  "load s = length (filter id (used s))"

lemma load_le: "load s \<le> length (used s)"
  unfolding load_def by (rule length_filter_le)

lemma load_full: "load s = length (used s) \<longleftrightarrow> (\<forall>u \<in> set (used s). u)"
proof
  assume "load s = length (used s)"
  then show "\<forall>u \<in> set (used s). u"
    unfolding load_def
    by (metis (mono_tags) id_apply length_filter_less less_irrefl_nat)
next
  assume "\<forall>u \<in> set (used s). u"
  then show "load s = length (used s)"
    by (simp add: load_def)
qed

lemma claim_possible:
  assumes "served k s"
  shows "(\<exists>i t. claim k s = Some (i, t)) \<longleftrightarrow> load s < length (used s)"
proof -
  have "load s < length (used s) \<longleftrightarrow> load s \<noteq> length (used s)"
    using load_le [of s] by linarith
  also have "\<dots> \<longleftrightarrow> claim k s \<noteq> None"
    using assms by (simp add: load_full claim_None)
  finally show ?thesis
    by auto
qed

lemma filter_update_True:
  "i < length us \<Longrightarrow> \<not> us ! i \<Longrightarrow> length (filter id (us[i := True])) = Suc (length (filter id us))"
proof (induction us arbitrary: i)
  case (Cons u us)
  then show ?case
    by (cases i) auto
qed simp

lemma load_claim: "claim k s = Some (i, t) \<Longrightarrow> load t = Suc (load s)"
  by (drule claim_Some) (simp add: load_def filter_update_True)

lemma claim_release:
  assumes "claim k s = Some (i, t)"
  shows "used (release i t) = used s"
proof -
  from claim_Some [OF assms] have "used t = (used s)[i := True]" and "\<not> used s ! i"
    by simp_all
  then show ?thesis
    using release_used [of i t] list_update_id [of "used s" i] by simp
qed

text \<open>A sequence of requests, each of which has to be granted.\<close>

fun claims :: "'k list \<Rightarrow> 's \<Rightarrow> (nat list \<times> 's) option" where
  "claims [] s = Some ([], s)"
| "claims (k # ks) s =
     (case claim k s of None \<Rightarrow> None
      | Some (i, t) \<Rightarrow> (case claims ks t of None \<Rightarrow> None | Some (is, u) \<Rightarrow> Some (i # is, u)))"

lemma claims_Some:
  "claims ks s = Some (is, t) \<Longrightarrow>
     length is = length ks \<and> distinct is \<and> (\<forall>i \<in> set is. i < length (used s) \<and> \<not> used s ! i)
     \<and> length (used t) = length (used s) \<and> load t = load s + length ks"
proof (induction ks arbitrary: s "is")
  case (Cons k ks)
  then obtain i u js where c: "claim k s = Some (i, u)" and r: "claims ks u = Some (js, t)"
    and is_eq: "is = i # js"
    by (auto split: option.splits)
  have cs: "i < length (used s)" "\<not> used s ! i" "used u = (used s)[i := True]"
    using claim_Some [OF c] by simp_all
  have IH: "length js = length ks" "distinct js" "\<forall>j \<in> set js. j < length (used u) \<and> \<not> used u ! j"
    "length (used t) = length (used u)" "load t = load u + length ks"
    using Cons.IH [OF r] by simp_all
  have "i \<notin> set js"
    using IH(3) cs by auto
  moreover have "\<forall>j \<in> set js. j < length (used s) \<and> \<not> used s ! j"
    using IH(3) cs by (metis length_list_update nth_list_update)
  ultimately show ?case
    using is_eq IH cs load_claim [OF c] by simp
qed simp

text \<open>No more grants than slots, and the slots handed out are pairwise different.\<close>

lemma claims_bounded:
  assumes "claims ks s = Some (is, t)"
  shows "load s + length ks \<le> length (used s) \<and> distinct is"
  using claims_Some [OF assms] load_le [of t] by simp

end

section \<open>Byte memory\<close>

type_synonym memory = "u32 \<Rightarrow> u8"

text \<open>The \<open>n\<close> bytes at an address, and \<^verbatim>\<open>memcpy\<close> of \<open>n\<close> bytes.\<close>

definition bytes_at :: "memory \<Rightarrow> u32 \<Rightarrow> nat \<Rightarrow> u8 list" where
  "bytes_at m a n = map (\<lambda>k. m (a + of_nat k)) [0..<n]"

definition memcpy :: "u32 \<Rightarrow> u32 \<Rightarrow> u32 \<Rightarrow> memory \<Rightarrow> memory" where
  "memcpy dst src n m = (\<lambda>a. if a - dst < n then m (src + (a - dst)) else m a)"

text \<open>\<^verbatim>\<open>memcpy\<close> is undefined when the areas overlap.\<close>

definition overlap :: "u32 \<Rightarrow> u32 \<Rightarrow> u32 \<Rightarrow> bool" where
  "overlap dst src n \<longleftrightarrow> dst - src < n \<or> src - dst < n"

lemma length_bytes_at [simp]: "length (bytes_at m a n) = n"
  by (simp add: bytes_at_def)

lemma nth_bytes_at [simp]: "k < n \<Longrightarrow> bytes_at m a n ! k = m (a + of_nat k)"
  by (simp add: bytes_at_def)

lemma of_nat_less_word: "k < unat (n :: u32) \<Longrightarrow> of_nat k < n"
proof -
  assume k: "k < unat n"
  then have "k < 2 ^ LENGTH(32)"
    using unsigned_less [of n] by (rule order.strict_trans)
  then have "unat (of_nat k :: u32) = k"
    by (simp add: unsigned_of_nat take_bit_nat_eq_self)
  with k show ?thesis
    by (simp add: word_less_nat_alt)
qed

lemma memcpy_dst: "bytes_at (memcpy dst src n m) dst (unat n) = bytes_at m src (unat n)"
  by (rule nth_equalityI) (simp_all add: memcpy_def of_nat_less_word)

lemma memcpy_outside: "\<not> a - dst < n \<Longrightarrow> memcpy dst src n m a = m a"
  by (simp add: memcpy_def)

text \<open>Two areas, of \<open>n\<close> bytes at \<open>a\<close> and of \<open>k\<close> bytes at \<open>b\<close>, have no byte in common.\<close>

definition apart :: "u32 \<Rightarrow> u32 \<Rightarrow> u32 \<Rightarrow> u32 \<Rightarrow> bool" where
  "apart a n b k \<longleftrightarrow> k \<le> a - b \<and> n \<le> b - a"

lemma unat_swap: "a \<noteq> b \<Longrightarrow> unat (b - a :: u32) + unat (a - b) = 2 ^ 32"
proof -
  assume "a \<noteq> b"
  then have "unat a < unat b \<or> unat b < unat a"
    by (metis linorder_neqE_nat unsigned_word_eqI)
  moreover have "unat a < 2 ^ 32" "unat b < 2 ^ 32"
    using unsigned_less [of a] unsigned_less [of b] by simp_all
  ultimately show ?thesis
    by (auto simp: unat_sub_if_size word_size)
qed

lemma apart_forward:
  assumes ap: "apart a n b k" and j: "unat j < unat k"
  shows "unat n \<le> unat (b + j - a)"
proof -
  have k: "unat k \<le> unat (a - b)" and n: "unat n \<le> unat (b - a)"
    using ap by (simp_all add: apart_def word_le_nat_alt)
  then have "a \<noteq> b"
    using j by auto
  then have "unat (b - a) + unat j < 2 ^ LENGTH(32)"
    using unat_swap [of a b] j k by simp
  then have "unat (b - a + j) = unat (b - a) + unat j"
    by (rule unat_add_no_wrap)
  then have "unat (b + j - a) = unat (b - a) + unat j"
    by (simp only: diff_add_eq)
  then show ?thesis
    using n by linarith
qed

lemma apart_backward:
  assumes ap: "apart a n b k" and j: "unat j + unat n \<le> unat k"
  shows "unat n \<le> unat (a - (b + j))"
proof -
  have k: "unat k \<le> unat (a - b)"
    using ap by (simp add: apart_def word_le_nat_alt)
  then have "j \<le> a - b"
    using j by (simp add: word_le_nat_alt)
  then have "unat ((a - b) - j) = unat (a - b) - unat j"
    by (rule unat_sub)
  then have "unat (a - (b + j)) = unat (a - b) - unat j"
    by (simp only: diff_diff_eq)
  then show ?thesis
    using j k by linarith
qed

lemma apart_no_overlap:
  assumes "apart a n b k" and "unat j + unat n \<le> unat k"
  shows "\<not> overlap a (b + j) n"
proof (cases "n = 0")
  case False
  then have "unat j < unat k"
    using assms(2) unat_eq_zero [of n] by linarith
  then show ?thesis
    using apart_forward [OF assms(1), of j] apart_backward [OF assms]
    by (auto simp: overlap_def word_less_nat_alt)
qed (simp add: overlap_def)

lemma memcpy_keeps_apart:
  assumes "apart a n b k"
  shows "bytes_at (memcpy a src n m) b (unat k) = bytes_at m b (unat k)"
proof (rule nth_equalityI)
  fix i
  assume "i < length (bytes_at (memcpy a src n m) b (unat k))"
  then have i: "i < unat k"
    by simp
  then have "unat (of_nat i :: u32) < unat k"
    using of_nat_less_word [OF i] by (simp only: word_less_nat_alt)
  then have "\<not> b + of_nat i - a < n"
    using apart_forward [OF assms, of "of_nat i"] by (simp only: word_less_nat_alt not_less)
  with i show "bytes_at (memcpy a src n m) b (unat k) ! i = bytes_at m b (unat k) ! i"
    by (simp add: memcpy_outside)
qed simp

lemma bytes_at_append:
  "bytes_at m a (j + k) = bytes_at m a j @ bytes_at m (a + of_nat j) k"
proof (rule nth_equalityI)
  fix i
  assume "i < length (bytes_at m a (j + k))"
  then show "bytes_at m a (j + k) ! i = (bytes_at m a j @ bytes_at m (a + of_nat j) k) ! i"
    by (cases "i < j") (simp_all add: nth_append of_nat_diff)
qed simp

end
