(* ===== verification/RomFs.thy ===== *)
theory RomFs
  imports Slots
begin

text \<open>
  The ROM file system of the cluster application: \<^verbatim>\<open>misc/romfs_main.c\<close>, its interface
  \<^verbatim>\<open>misc/romfs_api.h\<close> and the file table \<^verbatim>\<open>misc/fs_data.c\<close>, in the build without
  \<^verbatim>\<open>USE_FLASH_IMAGE_DATA\<close> (the data is the array \<^verbatim>\<open>ClusterImageData\<close>, whose link address is the
  parameter \<open>img\<close>). A file pointer is an index of \<^verbatim>\<open>locHandle\<close>, \<open>None\<close> the null pointer. What C leaves
  undefined (a table without its terminator, a pointer that no open returned, overlapping copies, a
  division by zero) is an error value.
\<close>

section \<open>Data (romfs\_api.h)\<close>

record eeRomFs_File_t =
  Pos :: u32
  Size :: u32
  Address :: u32
  InUse :: u8

record eeRomFs_Data_t =
  d_Name :: string
  d_Size :: u32
  d_Address :: u32

datatype romfs_error = TableOverrun | BadFilePointer | CopyOverlap | DivisionByZero

abbreviation LOC_ROMFS_MAXOPEN :: nat where "LOC_ROMFS_MAXOPEN \<equiv> 2"
abbreviation EE_ROMFS_MAXNAMELENGTH :: nat where "EE_ROMFS_MAXNAMELENGTH \<equiv> 256"

text \<open>The two static variables; \<open>locRoot\<close> is null until \<^verbatim>\<open>eeRomFs_Init\<close>.\<close>

record romfs =
  locRoot :: "eeRomFs_Data_t list option"
  locHandle :: "eeRomFs_File_t list"

definition romfs_start :: romfs where
  "romfs_start =
     \<lparr>locRoot = None, locHandle = replicate LOC_ROMFS_MAXOPEN \<lparr>Pos = 0, Size = 0, Address = 0, InUse = 0\<rparr>\<rparr>"

section \<open>Operations (romfs\_main.c)\<close>

text \<open>The search of the table up to the entry with a null address.\<close>

fun find_file :: "string \<Rightarrow> eeRomFs_Data_t list \<Rightarrow> romfs_error + eeRomFs_Data_t option" where
  "find_file Name [] = Inl TableOverrun"
| "find_file Name (d # ds) =
     (if d_Address d = 0 then Inr None
      else if Name = d_Name d then Inr (Some d)
      else find_file Name ds)"

definition free_handle :: "romfs \<Rightarrow> nat option" where
  "free_handle s = first_free (map (\<lambda>h. InUse h \<noteq> 0) (locHandle s))"

definition eeRomFs_FOpen :: "u32 \<Rightarrow> string \<Rightarrow> romfs \<Rightarrow> romfs_error + nat option \<times> romfs" where
  "eeRomFs_FOpen img Name s =
     (case locRoot s of
        None \<Rightarrow> Inr (None, s)
      | Some root \<Rightarrow>
          (case free_handle s of
             None \<Rightarrow> Inr (None, s)
           | Some i \<Rightarrow>
               (case find_file Name root of
                  Inl e \<Rightarrow> Inl e
                | Inr None \<Rightarrow> Inr (None, s)
                | Inr (Some d) \<Rightarrow>
                    Inr (Some i,
                      s\<lparr>locHandle := (locHandle s)[i :=
                          \<lparr>Pos = 0, Size = d_Size d,
                           Address = d_Address d - d_Address (hd root) + img, InUse = 1\<rparr>]\<rparr>))))"

text \<open>The result is the C return value, \<open>-1\<close> for a null pointer.\<close>

definition eeRomFs_FClose :: "nat option \<Rightarrow> romfs \<Rightarrow> romfs_error + int \<times> romfs" where
  "eeRomFs_FClose Fp s =
     (case Fp of
        None \<Rightarrow> Inr (-1, s)
      | Some i \<Rightarrow>
          if i < length (locHandle s)
          then Inr (0, s\<lparr>locHandle := (locHandle s)[i := (locHandle s ! i)\<lparr>InUse := 0\<rparr>]\<rparr>)
          else Inl BadFilePointer)"

definition eeRomFs_FRead ::
    "u32 \<Rightarrow> u32 \<Rightarrow> u32 \<Rightarrow> nat option \<Rightarrow> memory \<times> romfs \<Rightarrow> romfs_error + u32 \<times> memory \<times> romfs" where
  "eeRomFs_FRead Buffer Siz Count Fp ms =
     (let (m, s) = ms in
      case Fp of
        None \<Rightarrow> Inr (0, m, s)
      | Some i \<Rightarrow>
          if Buffer = 0 then Inr (0, m, s)
          else if \<not> i < length (locHandle s) then Inl BadFilePointer
          else
            let h = locHandle s ! i;
                n = Siz * Count;
                n = (if Size h \<le> Pos h + n then Size h - Pos h else n)
            in if overlap Buffer (Address h + Pos h) n then Inl CopyOverlap
               else
                 let m' = memcpy Buffer (Address h + Pos h) n m;
                     s' = s\<lparr>locHandle := (locHandle s)[i := h\<lparr>Pos := Pos h + n\<rparr>]\<rparr>
                 in if Siz = 0 then Inl DivisionByZero else Inr (n div Siz, m', s'))"

definition eeRomFs_MMap :: "nat option \<Rightarrow> u32 \<Rightarrow> romfs \<Rightarrow> romfs_error + u32" where
  "eeRomFs_MMap Fp Offset s =
     (case Fp of
        None \<Rightarrow> Inl BadFilePointer
      | Some i \<Rightarrow> if i < length (locHandle s) then Inr (Address (locHandle s ! i) + Offset) else Inl BadFilePointer)"

definition eeRomFs_MUnmap :: "u32 \<Rightarrow> u32 \<Rightarrow> int" where
  "eeRomFs_MUnmap addr Siz = 0"

definition eeRomFs_Init :: "eeRomFs_Data_t list \<Rightarrow> romfs \<Rightarrow> int \<times> romfs" where
  "eeRomFs_Init PData s = (0, s\<lparr>locRoot := Some PData\<rparr>)"

definition eeRomFs_DeInit :: "romfs \<Rightarrow> int \<times> romfs" where
  "eeRomFs_DeInit s = (0, s)"

section \<open>The file table (fs\_data.c)\<close>

definition RomFileSystemData :: "eeRomFs_Data_t list" where
  "RomFileSystemData =
     [\<lparr>d_Name = ''icon_cluster.bin'', d_Size = 4416, d_Address = 0xF0000000\<rparr>,
      \<lparr>d_Name = ''cluster_background.bin'', d_Size = 783978, d_Address = 0xF0001140\<rparr>,
      \<lparr>d_Name = ''cluster_needle.bin'', d_Size = 22568, d_Address = 0xF00C07AA\<rparr>,
      \<lparr>d_Name = ''cluster_turn_left.bin'', d_Size = 11816, d_Address = 0xF00C5FD2\<rparr>,
      \<lparr>d_Name = ''cluster_turn_left_off.bin'', d_Size = 10621, d_Address = 0xF00C8DFA\<rparr>,
      \<lparr>d_Name = ''cluster_turn_right.bin'', d_Size = 11818, d_Address = 0xF00CB778\<rparr>,
      \<lparr>d_Name = ''cluster_turn_right_off.bin'', d_Size = 10636, d_Address = 0xF00CE5A2\<rparr>,
      \<lparr>d_Name = ''cluster_hazard_normal.bin'', d_Size = 6668, d_Address = 0xF00D0F2E\<rparr>,
      \<lparr>d_Name = ''cluster_hazard_selected.bin'', d_Size = 7265, d_Address = 0xF00D293A\<rparr>,
      \<lparr>d_Name = ''cluster_BatteryOff.bin'', d_Size = 10918, d_Address = 0xF00D459C\<rparr>,
      \<lparr>d_Name = ''cluster_BatteryOn.bin'', d_Size = 11457, d_Address = 0xF00D7042\<rparr>,
      \<lparr>d_Name = ''cluster_FanOff.bin'', d_Size = 11671, d_Address = 0xF00D9D04\<rparr>,
      \<lparr>d_Name = ''cluster_FanOn.bin'', d_Size = 12163, d_Address = 0xF00DCA9C\<rparr>,
      \<lparr>d_Name = ''cluster_HighLightOff.bin'', d_Size = 12185, d_Address = 0xF00DFA20\<rparr>,
      \<lparr>d_Name = ''cluster_HighLightOn.bin'', d_Size = 12410, d_Address = 0xF00E29BA\<rparr>,
      \<lparr>d_Name = ''cluster_LowLightOff.bin'', d_Size = 12602, d_Address = 0xF00E5A34\<rparr>,
      \<lparr>d_Name = ''cluster_LowLightOn.bin'', d_Size = 13744, d_Address = 0xF00E8B6E\<rparr>,
      \<lparr>d_Name = ''cluster_OilOff.bin'', d_Size = 9149, d_Address = 0xF00EC11E\<rparr>,
      \<lparr>d_Name = ''cluster_OilOn.bin'', d_Size = 9650, d_Address = 0xF00EE4DC\<rparr>,
      \<lparr>d_Name = ''cluster_AirbagOff.bin'', d_Size = 12340, d_Address = 0xF00F0A8E\<rparr>,
      \<lparr>d_Name = ''cluster_AirbagOn.bin'', d_Size = 13028, d_Address = 0xF00F3AC2\<rparr>,
      \<lparr>d_Name = ''cluster_BeltOff.bin'', d_Size = 11646, d_Address = 0xF00F6DA6\<rparr>,
      \<lparr>d_Name = ''cluster_BeltOn.bin'', d_Size = 12061, d_Address = 0xF00F9B24\<rparr>,
      \<lparr>d_Name = ''cluster_BrakeOff.bin'', d_Size = 13659, d_Address = 0xF00FCA42\<rparr>,
      \<lparr>d_Name = ''cluster_BrakeOn.bin'', d_Size = 13865, d_Address = 0xF00FFF9E\<rparr>,
      \<lparr>d_Name = ''cluster_WindshieldOff.bin'', d_Size = 12858, d_Address = 0xF01035C8\<rparr>,
      \<lparr>d_Name = ''cluster_WindshieldOn.bin'', d_Size = 13575, d_Address = 0xF0106802\<rparr>,
      \<lparr>d_Name = ''cluster_WipingOff.bin'', d_Size = 12284, d_Address = 0xF0109D0A\<rparr>,
      \<lparr>d_Name = ''cluster_WipingOn.bin'', d_Size = 12932, d_Address = 0xF010CD06\<rparr>,
      \<lparr>d_Name = ''cluster_CoolingLiquidOn.bin'', d_Size = 11684, d_Address = 0xF010FF8A\<rparr>,
      \<lparr>d_Name = ''cluster_CoolingLiquidOff.bin'', d_Size = 11092, d_Address = 0xF0112D2E\<rparr>,
      \<lparr>d_Name = ''cluster_FuelEmptyOn.bin'', d_Size = 11140, d_Address = 0xF0115882\<rparr>,
      \<lparr>d_Name = ''cluster_FuelEmptyOff.bin'', d_Size = 10364, d_Address = 0xF0118406\<rparr>,
      \<lparr>d_Name = ''cluster_gear_d_off.bin'', d_Size = 17961, d_Address = 0xF011AC82\<rparr>,
      \<lparr>d_Name = ''cluster_gear_d_on.bin'', d_Size = 18878, d_Address = 0xF011F2AC\<rparr>,
      \<lparr>d_Name = ''cluster_gear_n_off.bin'', d_Size = 17735, d_Address = 0xF0123C6A\<rparr>,
      \<lparr>d_Name = ''cluster_gear_n_on.bin'', d_Size = 18933, d_Address = 0xF01281B2\<rparr>,
      \<lparr>d_Name = ''cluster_gear_p_off.bin'', d_Size = 17703, d_Address = 0xF012CBA8\<rparr>,
      \<lparr>d_Name = ''cluster_gear_p_on.bin'', d_Size = 19026, d_Address = 0xF01310D0\<rparr>,
      \<lparr>d_Name = ''cluster_gear_r_off.bin'', d_Size = 17929, d_Address = 0xF0135B22\<rparr>,
      \<lparr>d_Name = ''cluster_gear_r_on.bin'', d_Size = 18630, d_Address = 0xF013A12C\<rparr>,
      \<lparr>d_Name = ''cluster_gear_s_off.bin'', d_Size = 17755, d_Address = 0xF013E9F2\<rparr>,
      \<lparr>d_Name = ''cluster_gear_s_on.bin'', d_Size = 19005, d_Address = 0xF0142F4E\<rparr>,
      \<lparr>d_Name = ''cluster_gear_s2_off.bin'', d_Size = 17755, d_Address = 0xF014798C\<rparr>,
      \<lparr>d_Name = ''cluster_gear_s2_on.bin'', d_Size = 19005, d_Address = 0xF014BEE8\<rparr>,
      \<lparr>d_Name = [], d_Size = 0, d_Address = 0\<rparr>]"

text \<open>The number of bytes of the array \<^verbatim>\<open>ClusterImageData\<close> (ImageData.c).\<close>

definition sizeofClusterImageData :: nat where
  "sizeofClusterImageData = 1378598"

section \<open>Opening and closing\<close>

definition files :: "eeRomFs_Data_t list \<Rightarrow> eeRomFs_Data_t list" where
  "files root = takeWhile (\<lambda>d. d_Address d \<noteq> 0) root"

definition terminated :: "eeRomFs_Data_t list \<Rightarrow> bool" where
  "terminated root \<longleftrightarrow> (\<exists>d \<in> set root. d_Address d = 0)"

definition in_use :: "romfs \<Rightarrow> bool list" where
  "in_use s = map (\<lambda>h. InUse h \<noteq> 0) (locHandle s)"

lemma find_file_eq:
  "terminated root \<Longrightarrow> find_file Name root = Inr (find (\<lambda>d. d_Name d = Name) (files root))"
proof (induction root)
  case (Cons d root)
  then show ?case
    by (cases "d_Address d = 0") (auto simp: files_def terminated_def)
qed (simp add: terminated_def)

lemma find_distinct:
  "distinct (map f xs) \<Longrightarrow> x \<in> set xs \<Longrightarrow> find (\<lambda>y. f y = f x) xs = Some x"
  by (induction xs) auto

lemma free_handle_None: "free_handle s = None \<longleftrightarrow> (\<forall>u \<in> set (in_use s). u)"
  by (simp add: free_handle_def in_use_def first_free_None)

lemma free_handle_Some:
  "free_handle s = Some i \<longleftrightarrow> i < length (in_use s) \<and> \<not> in_use s ! i \<and> (\<forall>j < i. in_use s ! j)"
  unfolding free_handle_def in_use_def by (rule first_free_Some)

text \<open>What an open file is: the handle that \<^verbatim>\<open>eeRomFs_FOpen\<close> fills.\<close>

definition opened :: "u32 \<Rightarrow> eeRomFs_Data_t list \<Rightarrow> eeRomFs_Data_t \<Rightarrow> eeRomFs_File_t" where
  "opened img root d =
     \<lparr>Pos = 0, Size = d_Size d, Address = d_Address d - d_Address (hd root) + img, InUse = 1\<rparr>"

lemma FOpen_eq:
  assumes "locRoot s = Some root" and "terminated root"
  shows "eeRomFs_FOpen img Name s =
    (case (free_handle s, find (\<lambda>d. d_Name d = Name) (files root)) of
       (Some i, Some d) \<Rightarrow> Inr (Some i, s\<lparr>locHandle := (locHandle s)[i := opened img root d]\<rparr>)
     | _ \<Rightarrow> Inr (None, s))"
  using assms by (simp add: eeRomFs_FOpen_def find_file_eq opened_def split: option.split)

text \<open>
  The handles as an array of slots: a request is a file name, it is served when the name is in the
  table, and closing releases the slot.
\<close>

definition open_slot :: "u32 \<Rightarrow> string \<Rightarrow> romfs \<Rightarrow> (nat \<times> romfs) option" where
  "open_slot img Name s =
     (case eeRomFs_FOpen img Name s of Inr (Some i, t) \<Rightarrow> Some (i, t) | _ \<Rightarrow> None)"

definition close_slot :: "nat \<Rightarrow> romfs \<Rightarrow> romfs" where
  "close_slot i s = (case eeRomFs_FClose (Some i) s of Inr (_, t) \<Rightarrow> t | Inl _ \<Rightarrow> s)"

definition has_file :: "string \<Rightarrow> romfs \<Rightarrow> bool" where
  "has_file Name s =
     (case locRoot s of None \<Rightarrow> False | Some root \<Rightarrow> terminated root \<and> Name \<in> d_Name ` set (files root))"

lemma FOpen_Some:
  assumes "eeRomFs_FOpen img Name s = Inr (Some i, t)"
  shows "free_handle s = Some i \<and> (\<exists>h. InUse h = 1 \<and> t = s\<lparr>locHandle := (locHandle s)[i := h]\<rparr>)"
proof -
  obtain root d where "free_handle s = Some i"
    and "t = s\<lparr>locHandle := (locHandle s)[i := opened img root d]\<rparr>"
    using assms by (auto simp: eeRomFs_FOpen_def opened_def split: option.splits sum.splits)
  then show ?thesis
    by (intro conjI exI [of _ "opened img root d"]) (simp_all add: opened_def)
qed

lemma has_fileE:
  assumes "has_file Name s"
  obtains root d where "locRoot s = Some root" and "terminated root"
    and "find (\<lambda>d. d_Name d = Name) (files root) = Some d"
proof -
  from assms obtain root where root: "locRoot s = Some root" "terminated root"
    and mem: "Name \<in> d_Name ` set (files root)"
    by (auto simp: has_file_def split: option.splits)
  from mem have "find (\<lambda>d. d_Name d = Name) (files root) \<noteq> None"
    by (auto simp: find_None_iff)
  then show thesis
    using root by (blast intro: that)
qed

interpretation handles: slots in_use has_file "open_slot img" close_slot for img
proof
  fix Name s
  assume "has_file Name s"
  then obtain root d where root: "locRoot s = Some root" "terminated root"
    and d: "find (\<lambda>d. d_Name d = Name) (files root) = Some d"
    by (rule has_fileE)
  show "(open_slot img Name s = None) = (\<forall>u \<in> set (in_use s). u)"
    unfolding free_handle_None [symmetric]
    by (simp add: open_slot_def FOpen_eq [OF root] d split: option.split)
next
  fix Name s i t
  assume "open_slot img Name s = Some (i, t)"
  then have "eeRomFs_FOpen img Name s = Inr (Some i, t)"
    by (auto simp: open_slot_def split: sum.splits option.splits)
  from FOpen_Some [OF this] show
    "i < length (in_use s) \<and> \<not> in_use s ! i \<and> in_use t = (in_use s)[i := True]"
    by (auto simp: free_handle_Some in_use_def map_update)
next
  fix i s
  show "in_use (close_slot i s) = (in_use s)[i := False]"
    by (cases "i < length (locHandle s)")
      (auto simp: close_slot_def eeRomFs_FClose_def in_use_def map_update list_update_beyond)
qed

lemma first_free_takeWhile:
  "first_free us = (let i = length (takeWhile id us) in if i < length us then Some i else None)"
  by (induction us) (auto simp: Let_def)

lemma free_handle_eq:
  "free_handle s = (let i = length (takeWhile (\<lambda>h. InUse h \<noteq> 0) (locHandle s)) in
     if i < length (locHandle s) then Some i else None)"
  by (simp add: free_handle_def first_free_takeWhile takeWhile_map comp_def Let_def)

lemma find_map_of: "find (\<lambda>d. f d = k) ds = map_of (map (\<lambda>d. (f d, d)) ds) k"
  by (induction ds) auto

section \<open>Properties\<close>

text \<open>
  On an initialised file system whose table has its terminator,
  opening a name succeeds exactly when a handle is free and the name is one of the files before the
  terminator; it then takes the lowest free handle, puts the file at its start with the size of the
  table and the address of its data, and leaves the other handle alone. Otherwise the null pointer is
  returned and nothing changes.
\<close>

theorem romfs_fopen_correct:
  assumes "locRoot s = Some root" and "terminated root"
  shows "eeRomFs_FOpen img Name s =
    (let i = length (takeWhile (\<lambda>h. InUse h \<noteq> 0) (locHandle s)) in
     case map_of (map (\<lambda>d. (d_Name d, d)) (files root)) Name of
       None \<Rightarrow> Inr (None, s)
     | Some d \<Rightarrow>
         if i < length (locHandle s)
         then Inr (Some i, s\<lparr>locHandle := (locHandle s)[i :=
                \<lparr>Pos = 0, Size = d_Size d, Address = d_Address d - d_Address (hd root) + img, InUse = 1\<rparr>]\<rparr>)
         else Inr (None, s))"
  by (simp add: FOpen_eq [OF assms] find_map_of free_handle_eq opened_def Let_def split: option.split)

text \<open>A small file system for the witnesses: two files, the first handle in use.\<close>

definition sample_table :: "eeRomFs_Data_t list" where
  "sample_table =
     [\<lparr>d_Name = ''a'', d_Size = 4, d_Address = 0xF0000000\<rparr>,
      \<lparr>d_Name = ''b'', d_Size = 6, d_Address = 0xF0000004\<rparr>,
      \<lparr>d_Name = [], d_Size = 0, d_Address = 0\<rparr>]"

definition sample_fs :: "eeRomFs_File_t \<Rightarrow> romfs" where
  "sample_fs h =
     \<lparr>locRoot = Some sample_table, locHandle = [\<lparr>Pos = 1, Size = 4, Address = 0x40000000, InUse = 1\<rparr>, h]\<rparr>"

theorem romfs_fopen_witness:
  "eeRomFs_FOpen 0x40000000 ''b'' (sample_fs \<lparr>Pos = 0, Size = 0, Address = 0, InUse = 0\<rparr>) =
   Inr (Some 1, sample_fs \<lparr>Pos = 0, Size = 6, Address = 0x40000004, InUse = 1\<rparr>)"
  using romfs_fopen_correct [of "sample_fs \<lparr>Pos = 0, Size = 0, Address = 0, InUse = 0\<rparr>" sample_table
    "0x40000000" "''b''"]
  by (simp add: sample_fs_def sample_table_def terminated_def files_def)

lemma replicate_numeral_2: "replicate 2 x = [x, x]"
  by (simp add: numeral_2_eq_2)

lemma open_limit:
  assumes len: "length (locHandle s) = LOC_ROMFS_MAXOPEN"
    and o1: "eeRomFs_FOpen img n1 s = Inr (Some i, t)" and o2: "eeRomFs_FOpen img n2 t = Inr (Some j, u)"
  shows "i \<noteq> j \<and> i < 2 \<and> j < 2 \<and> in_use u = [True, True] \<and> length (locHandle u) = 2"
proof -
  have c1: "open_slot img n1 s = Some (i, t)" and c2: "open_slot img n2 t = Some (j, u)"
    by (simp_all add: open_slot_def o1 o2)
  have l: "length (in_use s) = 2"
    using len by (simp add: in_use_def)
  from handles.claim_Some [OF c1] handles.claim_Some [OF c2] l
  have i: "i < 2" and j: "j < 2" and ne: "i \<noteq> j" and u: "in_use u = ((in_use s)[i := True])[j := True]"
    by (auto simp: nth_list_update split: if_splits)
  obtain a b where "in_use s = [a, b]"
    using l by (auto simp: numeral_2_eq_2 length_Suc_conv)
  then have "in_use u = [True, True]"
    using i j ne u by (auto simp: numeral_2_eq_2 less_Suc_eq)
  then show ?thesis
    using i j ne by (metis in_use_def length_map length_Cons list.size(3) numeral_2_eq_2)
qed

lemma FOpen_full: "in_use s = [True, True] \<Longrightarrow> eeRomFs_FOpen img Name s = Inr (None, s)"
proof -
  assume "in_use s = [True, True]"
  then have "free_handle s = None"
    by (simp add: free_handle_None)
  then show ?thesis
    by (simp add: eeRomFs_FOpen_def split: option.split)
qed

lemma reopen:
  assumes full: "in_use u = [True, True]" and len: "length (locHandle u) = 2" and i: "i < 2"
    and n: "has_file n u"
  shows "\<exists>v w. eeRomFs_FClose (Some i) u = Inr (0, v) \<and> eeRomFs_FOpen img n v = Inr (Some i, w)"
proof -
  define v where "v = u\<lparr>locHandle := (locHandle u)[i := (locHandle u ! i)\<lparr>InUse := 0\<rparr>]\<rparr>"
  have c: "eeRomFs_FClose (Some i) u = Inr (0, v)"
    using i len by (simp add: eeRomFs_FClose_def v_def)
  then have "in_use v = [True, True][i := False]"
    using handles.release_used [of i u] full by (simp add: close_slot_def)
  then have f: "free_handle v = Some i"
    using i by (auto simp: free_handle_Some less_2_cases_iff)
  have "has_file n v"
    using n by (simp add: has_file_def v_def)
  then obtain root d where "locRoot v = Some root" "terminated root"
    and "find (\<lambda>d. d_Name d = n) (files root) = Some d"
    by (rule has_fileE)
  then show ?thesis
    using c f by (simp add: FOpen_eq)
qed

text \<open>
  The two handles are a bounded resource. After two successful opens
  the handles are different and every further open returns the null pointer, whatever the name, and
  after closing one of the two a file of the table can be opened again, on the handle that was closed.
\<close>

theorem romfs_open_limit:
  assumes "length (locHandle s) = LOC_ROMFS_MAXOPEN"
    and "eeRomFs_FOpen img n1 s = Inr (Some i, t)" and "eeRomFs_FOpen img n2 t = Inr (Some j, u)"
  shows "i \<noteq> j
    \<and> (\<forall>n. eeRomFs_FOpen img n u = Inr (None, u))
    \<and> (\<forall>n k. has_file n u \<and> k \<in> {i, j} \<longrightarrow>
         (\<exists>v w. eeRomFs_FClose (Some k) u = Inr (0, v) \<and> eeRomFs_FOpen img n v = Inr (Some k, w)))"
proof -
  note l = open_limit [OF assms]
  then have "\<exists>v w. eeRomFs_FClose (Some k) u = Inr (0, v) \<and> eeRomFs_FOpen img n v = Inr (Some k, w)"
    if "has_file n u" and "k \<in> {i, j}" for n k
    using reopen [of u k n img] that by blast
  with l show ?thesis
    by (simp add: FOpen_full)
qed

theorem romfs_open_limit_witness:
  "(\<forall>n. eeRomFs_FOpen 0x40000000 n
      (sample_fs \<lparr>Pos = 0, Size = 6, Address = 0x40000004, InUse = 1\<rparr>
         \<lparr>locHandle := [opened 0x40000000 sample_table (sample_table ! 0), opened 0x40000000 sample_table (sample_table ! 1)]\<rparr>)
     = Inr (None,
      sample_fs \<lparr>Pos = 0, Size = 6, Address = 0x40000004, InUse = 1\<rparr>
         \<lparr>locHandle := [opened 0x40000000 sample_table (sample_table ! 0), opened 0x40000000 sample_table (sample_table ! 1)]\<rparr>))"
  (is "\<forall>n. ?P n")
proof -
  let ?s = "romfs_start\<lparr>locRoot := Some sample_table\<rparr>"
  let ?h1 = "opened 0x40000000 sample_table (sample_table ! 0)"
  let ?h2 = "opened 0x40000000 sample_table (sample_table ! 1)"
  let ?t = "?s\<lparr>locHandle := [?h1, \<lparr>Pos = 0, Size = 0, Address = 0, InUse = 0\<rparr>]\<rparr>"
  have "eeRomFs_FOpen 0x40000000 ''a'' ?s = Inr (Some 0, ?t)"
    and "eeRomFs_FOpen 0x40000000 ''b'' ?t = Inr (Some 1, ?t\<lparr>locHandle := [?h1, ?h2]\<rparr>)"
    and "length (locHandle ?s) = LOC_ROMFS_MAXOPEN"
    by (simp_all add: eeRomFs_FOpen_def romfs_start_def free_handle_def sample_table_def opened_def replicate_numeral_2)
  from romfs_open_limit [OF this(3,1,2)] show ?thesis
    by (simp add: sample_fs_def romfs_start_def)
qed

section \<open>Reading\<close>

text \<open>The contents of an open file.\<close>

definition contents :: "memory \<Rightarrow> eeRomFs_File_t \<Rightarrow> u8 list" where
  "contents m h = bytes_at m (Address h) (unat (Size h))"

lemma bytes_at_part:
  "p + k \<le> n \<Longrightarrow> bytes_at m (a + of_nat p) k = take k (drop p (bytes_at m a n))"
  by (rule nth_equalityI) (simp_all add: ac_simps)

lemma FRead_eq:
  assumes i: "i < length (locHandle s)" and h: "h = locHandle s ! i"
    and arg: "Buffer \<noteq> 0" "Siz \<noteq> 0"
    and n: "n = (if Size h \<le> Pos h + Siz * Count then Size h - Pos h else Siz * Count)"
    and no: "\<not> overlap Buffer (Address h + Pos h) n"
  shows "eeRomFs_FRead Buffer Siz Count (Some i) (m, s) =
    Inr (n div Siz, memcpy Buffer (Address h + Pos h) n m,
      s\<lparr>locHandle := (locHandle s)[i := h\<lparr>Pos := Pos h + n\<rparr>]\<rparr>)"
  using i arg h no by (simp add: eeRomFs_FRead_def Let_def n flip: h)

lemma read_length:
  assumes pos: "Pos h \<le> Size h" and nw: "unat (Pos h) + unat Siz * unat Count < 2 ^ 32"
    and n: "n = (if Size h \<le> Pos h + Siz * Count then Size h - Pos h else Siz * Count)"
  shows "unat n = min (unat Siz * unat Count) (unat (Size h) - unat (Pos h))"
proof -
  have m: "unat (Siz * Count) = unat Siz * unat Count"
    using nw by (simp add: unat_word_ariths)
  then have a: "unat (Pos h + Siz * Count) = unat (Pos h) + unat Siz * unat Count"
    using nw unat_add_no_wrap [of "Pos h" "Siz * Count"] by simp
  show ?thesis
    unfolding n using pos by (auto simp: word_le_nat_alt a m unat_sub [OF pos])
qed

lemma fread_run:
  assumes i: "i < length (locHandle s)" and h: "h = locHandle s ! i"
    and arg: "Buffer \<noteq> 0" "Siz \<noteq> 0"
    and pos: "Pos h \<le> Size h" and nw: "unat (Pos h) + unat Siz * unat Count < 2 ^ 32"
    and k: "k = min (unat Siz * unat Count) (unat (Size h) - unat (Pos h))"
    and ap: "apart Buffer (of_nat k) (Address h) (Size h)"
  shows "\<exists>m' h'.
    eeRomFs_FRead Buffer Siz Count (Some i) (m, s) =
      Inr (of_nat (k div unat Siz), m', s\<lparr>locHandle := (locHandle s)[i := h']\<rparr>)
    \<and> bytes_at m' Buffer k = take k (drop (unat (Pos h)) (contents m h))
    \<and> (\<forall>a. of_nat k \<le> a - Buffer \<longrightarrow> m' a = m a)
    \<and> contents m' h' = contents m h
    \<and> h' = h\<lparr>Pos := Pos h'\<rparr> \<and> unat (Pos h') = unat (Pos h) + k \<and> Pos h' \<le> Size h'"
proof -
  define n where "n = (if Size h \<le> Pos h + Siz * Count then Size h - Pos h else Siz * Count)"
  have nk: "unat n = k"
    unfolding k by (rule read_length [OF pos nw n_def])
  then have kn: "of_nat k = n"
    by auto
  with ap have ap': "apart Buffer n (Address h) (Size h)"
    by simp
  have fit: "unat (Pos h) + k \<le> unat (Size h)"
    using pos unfolding k word_le_nat_alt by linarith
  then have add: "unat (Pos h + n) = unat (Pos h) + k"
    using unat_add_no_wrap [of "Pos h" n] nk unsigned_less [of "Size h", where ?'a = nat] by simp
  let ?m = "memcpy Buffer (Address h + Pos h) n m"
  let ?h = "h\<lparr>Pos := Pos h + n\<rparr>"
  have "\<not> overlap Buffer (Address h + Pos h) n"
    by (rule apart_no_overlap [OF ap']) (use fit nk in simp)
  note run = FRead_eq [OF i h arg n_def this, of m]
  have "n div Siz = of_nat (k div unat Siz)"
    unfolding nk [symmetric] unat_div [symmetric] by simp
  moreover have "bytes_at ?m Buffer k = take k (drop (unat (Pos h)) (contents m h))"
    using memcpy_dst [of Buffer "Address h + Pos h" n m] bytes_at_part [OF fit, of m "Address h"] nk
    by (simp add: contents_def)
  moreover have "\<forall>a. of_nat k \<le> a - Buffer \<longrightarrow> ?m a = m a"
    by (simp add: kn memcpy_outside not_less)
  moreover have "contents ?m ?h = contents m h"
    using memcpy_keeps_apart [OF ap'] by (simp add: contents_def)
  moreover have "Pos ?h \<le> Size ?h"
    using fit add by (simp add: word_le_nat_alt)
  ultimately show ?thesis
    using run add by (intro exI [of _ ?m] exI [of _ ?h]) simp
qed

text \<open>
  Property C30 (romfs_fread_correct): a read refines reading from a byte sequence with a position. As
  long as the position plus the requested length does not exceed 32 bits and the buffer lies outside
  the file, exactly the next \<open>min(Size * Count, remaining)\<close> bytes of the file reach the buffer and no
  other byte of memory changes, the position advances by that number and stays within the file, the
  file's contents are unchanged, and the number of complete elements is returned.
\<close>

theorem romfs_fread_correct:
  assumes "i < length (locHandle s)" and "h = locHandle s ! i"
    and "Buffer \<noteq> 0" "Siz \<noteq> 0"
    and "Pos h \<le> Size h" and "unat (Pos h) + unat Siz * unat Count < 2 ^ 32"
    and "k = min (unat Siz * unat Count) (unat (Size h) - unat (Pos h))"
    and "apart Buffer (of_nat k) (Address h) (Size h)"
  shows "\<exists>m' h'.
    eeRomFs_FRead Buffer Siz Count (Some i) (m, s) =
      Inr (of_nat (k div unat Siz), m', s\<lparr>locHandle := (locHandle s)[i := h']\<rparr>)
    \<and> bytes_at m' Buffer k = take k (drop (unat (Pos h)) (contents m h))
    \<and> (\<forall>a. of_nat k \<le> a - Buffer \<longrightarrow> m' a = m a)
    \<and> contents m' h' = contents m h
    \<and> h' = h\<lparr>Pos := Pos h'\<rparr> \<and> unat (Pos h') = unat (Pos h) + k \<and> Pos h' \<le> Size h'"
  using assms by (rule fread_run)

theorem romfs_fread_witness:
  "\<exists>m' h'. eeRomFs_FRead 0x1000 2 3 (Some 1)
      (\<lambda>a. ucast a, sample_fs \<lparr>Pos = 2, Size = 6, Address = 0x40000004, InUse = 1\<rparr>) =
      Inr (2, m', sample_fs h') \<and> bytes_at m' 0x1000 4 = [6, 7, 8, 9] \<and> unat (Pos h') = 6"
proof -
  let ?h = "\<lparr>Pos = 2, Size = 6, Address = 0x40000004, InUse = 1\<rparr> :: eeRomFs_File_t"
  let ?m = "\<lambda>a. ucast a :: u8"
  have c: "take 4 (drop 2 (contents ?m ?h)) = [6, 7, 8, 9]"
    by (simp add: contents_def bytes_at_def upt_rec)
  have pre: "1 < length (locHandle (sample_fs ?h))" "?h = locHandle (sample_fs ?h) ! 1"
    "(0x1000 :: u32) \<noteq> 0" "(2 :: u32) \<noteq> 0" "Pos ?h \<le> Size ?h"
    "unat (Pos ?h) + unat (2 :: u32) * unat (3 :: u32) < 2 ^ 32"
    "4 = min (unat (2 :: u32) * unat (3 :: u32)) (unat (Size ?h) - unat (Pos ?h))"
    "apart 0x1000 (of_nat 4) (Address ?h) (Size ?h)"
    by (simp_all add: sample_fs_def apart_def)
  from romfs_fread_correct [OF pre, of ?m]
  obtain m' h' where run: "eeRomFs_FRead 0x1000 2 3 (Some 1) (?m, sample_fs ?h) =
      Inr (of_nat (4 div unat (2 :: u32)), m', (sample_fs ?h)\<lparr>locHandle := (locHandle (sample_fs ?h))[1 := h']\<rparr>)"
    and b: "bytes_at m' 0x1000 4 = take 4 (drop (unat (Pos ?h)) (contents ?m ?h))"
    and p: "unat (Pos h') = unat (Pos ?h) + 4"
    by (elim exE conjE)
  have "(sample_fs ?h)\<lparr>locHandle := (locHandle (sample_fs ?h))[1 := h']\<rparr> = sample_fs h'"
    by (simp add: sample_fs_def)
  with run have "eeRomFs_FRead 0x1000 2 3 (Some 1) (?m, sample_fs ?h) = Inr (2, m', sample_fs h')"
    by simp
  moreover have "bytes_at m' 0x1000 4 = [6, 7, 8, 9]" and "unat (Pos h') = 6"
    using b c p by simp_all
  ultimately show ?thesis
    by blast
qed

text \<open>
  The range check of \<^verbatim>\<open>eeRomFs_FRead\<close> wraps: a count for which position plus length is a multiple of
  \<open>2\<^sup>3\<^sup>2\<close> passes it, and the copy of almost the whole address space overlaps itself.
\<close>

lemma romfs_fread_wraps:
  assumes "i < length (locHandle s)" and "h = locHandle s ! i"
    and "Buffer \<noteq> 0" and "0 < Size h" and "0 < Pos h" and "unat (Pos h) < 2 ^ 31"
  shows "eeRomFs_FRead Buffer 1 (- Pos h) (Some i) (m, s) = Inl CopyOverlap"
proof -
  let ?n = "- Pos h" and ?d = "Buffer - (Address h + Pos h)"
  have n: "unat ?n = 2 ^ 32 - unat (Pos h)"
    using unat_swap [of "Pos h" 0] assms(5) by (simp add: word_neq_0_conv)
  have "?d = 0 \<or> unat ?d < unat ?n \<or> unat (- ?d) < unat ?n"
    using unat_swap [of ?d 0] n assms(6) by auto
  moreover have "0 < ?n"
    using n assms(6) by (simp add: word_less_nat_alt)
  ultimately have "overlap Buffer (Address h + Pos h) ?n"
    by (auto simp: overlap_def word_less_nat_alt)
  moreover have "\<not> Size h \<le> 0"
    using assms(4) by simp
  ultimately show ?thesis
    using assms(1-3) by (simp add: eeRomFs_FRead_def Let_def)
qed

section \<open>The table of the application\<close>

definition file_end :: "eeRomFs_Data_t \<Rightarrow> nat" where
  "file_end d = unat (d_Address d) + unat (d_Size d) + unat (d_Size d) mod 2"

fun chained :: "eeRomFs_Data_t list \<Rightarrow> bool" where
  "chained (d # e # ds) \<longleftrightarrow> unat (d_Address e) = file_end d \<and> chained (e # ds)"
| "chained _ \<longleftrightarrow> True"

lemma table_files: "files RomFileSystemData = butlast RomFileSystemData"
  by (simp add: files_def RomFileSystemData_def)

lemma table_terminated: "terminated RomFileSystemData"
  by (simp add: terminated_def RomFileSystemData_def)

lemma table_distinct: "distinct (map d_Name (files RomFileSystemData))"
  unfolding table_files by (simp add: RomFileSystemData_def)

lemma table_chained: "chained (files RomFileSystemData)"
  unfolding table_files by (simp add: RomFileSystemData_def file_end_def)

text \<open>
  Property C31 (romfs_table_correct): the file table of the application is well formed: it ends with its
  terminator, the 45 names are different and short enough for their field, the first file starts the
  image data, each file starts where the previous one ends, rounded up to an even address, and the
  last one ends the 1378598 bytes of \<^verbatim>\<open>ClusterImageData\<close>; so after initialisation every file opens, with
  its own size and at its own data.
\<close>

theorem romfs_table_correct:
  "terminated RomFileSystemData \<and> length (files RomFileSystemData) = 45
   \<and> distinct (map d_Name (files RomFileSystemData))
   \<and> list_all (\<lambda>d. length (d_Name d) < EE_ROMFS_MAXNAMELENGTH) (files RomFileSystemData)
   \<and> chained (files RomFileSystemData)
   \<and> file_end (last (files RomFileSystemData)) = unat (d_Address (hd RomFileSystemData)) + sizeofClusterImageData
   \<and> list_all (\<lambda>d. eeRomFs_FOpen img (d_Name d) (snd (eeRomFs_Init RomFileSystemData romfs_start)) =
        Inr (Some 0, \<lparr>locRoot = Some RomFileSystemData,
          locHandle = [\<lparr>Pos = 0, Size = d_Size d, Address = img + (d_Address d - 0xF0000000), InUse = 1\<rparr>,
                       \<lparr>Pos = 0, Size = 0, Address = 0, InUse = 0\<rparr>]\<rparr>))
      (files RomFileSystemData)"
proof (intro conjI table_terminated table_distinct table_chained)
  show "length (files RomFileSystemData) = 45"
    and "list_all (\<lambda>d. length (d_Name d) < EE_ROMFS_MAXNAMELENGTH) (files RomFileSystemData)"
    and "file_end (last (files RomFileSystemData)) = unat (d_Address (hd RomFileSystemData)) + sizeofClusterImageData"
    unfolding table_files
    by (simp_all add: RomFileSystemData_def file_end_def sizeofClusterImageData_def)
  let ?s = "snd (eeRomFs_Init RomFileSystemData romfs_start)"
  have root: "locRoot ?s = Some RomFileSystemData"
    by (simp add: eeRomFs_Init_def)
  have fh: "free_handle ?s = Some 0"
    by (simp add: eeRomFs_Init_def romfs_start_def free_handle_def replicate_numeral_2)
  have hd: "d_Address (hd RomFileSystemData) = 0xF0000000"
    by (simp add: RomFileSystemData_def)
  show "list_all (\<lambda>d. eeRomFs_FOpen img (d_Name d) ?s =
        Inr (Some 0, \<lparr>locRoot = Some RomFileSystemData,
          locHandle = [\<lparr>Pos = 0, Size = d_Size d, Address = img + (d_Address d - 0xF0000000), InUse = 1\<rparr>,
                       \<lparr>Pos = 0, Size = 0, Address = 0, InUse = 0\<rparr>]\<rparr>)) (files RomFileSystemData)"
    unfolding list_all_iff
  proof
    fix d
    assume "d \<in> set (files RomFileSystemData)"
    note f = find_distinct [OF table_distinct this]
    show "eeRomFs_FOpen img (d_Name d) ?s =
        Inr (Some 0, \<lparr>locRoot = Some RomFileSystemData,
          locHandle = [\<lparr>Pos = 0, Size = d_Size d, Address = img + (d_Address d - 0xF0000000), InUse = 1\<rparr>,
                       \<lparr>Pos = 0, Size = 0, Address = 0, InUse = 0\<rparr>]\<rparr>)"
      unfolding FOpen_eq [OF root table_terminated] fh f
      by (simp add: opened_def hd eeRomFs_Init_def romfs_start_def replicate_numeral_2 algebra_simps)
  qed
qed

end
