(* ===== verification/Rle.thy ===== *)
theory Rle
  imports Slots
begin

text \<open>
  The run-length decoder of \<^verbatim>\<open>misc/texture.c\<close>: \<^verbatim>\<open>locVMemWrite8/16/32\<close>, \<^verbatim>\<open>loc_D2DWritePixel\<close> and
  \<^verbatim>\<open>locDecompressRLE\<close>, on the byte memory of theory \<open>Slots\<close> (the R7 runs little endian). A stream is a
  sequence of packets, each a header byte (bit 7: run, low bits: number of pixels less one) followed
  by one pixel or by that many pixels.
\<close>

section \<open>Writing a pixel\<close>

definition locVMemWrite8 :: "u32 \<Rightarrow> u8 \<Rightarrow> memory \<Rightarrow> memory" where
  "locVMemWrite8 Addr Value m = m(Addr := Value)"

definition locVMemWrite16 :: "u32 \<Rightarrow> u16 \<Rightarrow> memory \<Rightarrow> memory" where
  "locVMemWrite16 Addr Value m = m(Addr := ucast Value, Addr + 1 := ucast (drop_bit 8 Value))"

definition locVMemWrite32 :: "u32 \<Rightarrow> u32 \<Rightarrow> memory \<Rightarrow> memory" where
  "locVMemWrite32 Addr Value m =
     m(Addr := ucast Value, Addr + 1 := ucast (drop_bit 8 Value),
       Addr + 2 := ucast (drop_bit 16 Value), Addr + 3 := ucast (drop_bit 24 Value))"

text \<open>The loop \<open>for (tmp = 0; tmp < Bpp; tmp++) value |= *Src++ << (tmp << 3)\<close>.\<close>

definition pixel_value :: "memory \<Rightarrow> u32 \<Rightarrow> nat \<Rightarrow> u32" where
  "pixel_value m Src n = fold (\<lambda>tmp value. value OR push_bit (8 * tmp) (ucast (m (Src + of_nat tmp)))) [0..<n] 0"

text \<open>The loop of the default case, byte by byte.\<close>

fun copy_pixel :: "nat \<Rightarrow> u32 \<Rightarrow> u32 \<Rightarrow> memory \<Rightarrow> memory" where
  "copy_pixel 0 Dst Src m = m"
| "copy_pixel (Suc tmp) Dst Src m = copy_pixel tmp (Dst + 1) (Src + 1) (locVMemWrite8 Dst (m Src) m)"

definition loc_D2DWritePixel :: "u32 \<Rightarrow> u32 \<Rightarrow> u8 \<Rightarrow> memory \<Rightarrow> memory" where
  "loc_D2DWritePixel Dst Src Bpp m =
     (if Bpp = 4 then locVMemWrite32 Dst (pixel_value m Src 4) m
      else if Bpp = 2 then locVMemWrite16 Dst (ucast (pixel_value m Src 2)) m
      else copy_pixel (unat Bpp) Dst Src m)"

section \<open>The decoder\<close>

record rle_state =
  r_mem :: memory
  r_dst :: u32
  r_src :: u32
  r_size :: u32

text \<open>
  The inner loop: \<open>n\<close> is \<^verbatim>\<open>pixelcounter\<close>, \<open>rle\<close> the packet kind (\<^verbatim>\<open>nextpixelrle\<close>).
\<close>

fun rle_pixels :: "u8 \<Rightarrow> bool \<Rightarrow> u32 \<Rightarrow> nat \<Rightarrow> rle_state \<Rightarrow> rle_state" where
  "rle_pixels Bpp rle rlestart 0 s = s"
| "rle_pixels Bpp rle rlestart (Suc pixelcounter) s =
     (let src = (if rle then rlestart else r_src s);
          siz = (if \<not> rle \<or> rle \<and> pixelcounter = 1
                 then (if ucast Bpp \<le> r_size s then r_size s - ucast Bpp else 0)
                 else r_size s)
      in rle_pixels Bpp rle rlestart pixelcounter
           \<lparr>r_mem = loc_D2DWritePixel (r_dst s) src Bpp (r_mem s),
            r_dst = r_dst s + ucast Bpp, r_src = src + ucast Bpp, r_size = siz\<rparr>)"

text \<open>One packet; \<open>r_size\<close> is not zero. The result has size zero where the loop breaks.\<close>

definition rle_packet :: "u8 \<Rightarrow> rle_state \<Rightarrow> rle_state" where
  "rle_packet Bpp s =
     (let tmp = r_mem s (r_src s);
          pixelcounter = (tmp AND 0x7F) + 1;
          nextpixelrle = drop_bit 7 tmp;
          s' = s\<lparr>r_src := r_src s + 1, r_size := r_size s - 1\<rparr>
      in if r_size s' = 0 then s'
         else rle_pixels Bpp (nextpixelrle \<noteq> 0) (r_src s') (unat pixelcounter) s')"

lemma rle_pixels_size: "r_size (rle_pixels Bpp rle rlestart n s) \<le> r_size s"
proof (induction n arbitrary: s)
  case (Suc n)
  have le: "(if c then (if b \<le> x then x - b else 0) else x) \<le> x" for c and b x :: u32
    by (simp add: word_sub_le)
  show ?case
    unfolding rle_pixels.simps Let_def
    by (rule order.trans [OF Suc.IH]) (simp only: rle_state.simps le)
qed simp

lemma rle_packet_size: "r_size s \<noteq> 0 \<Longrightarrow> unat (r_size (rle_packet Bpp s)) < unat (r_size s)"
proof -
  assume nz: "r_size s \<noteq> 0"
  then have lt: "unat (r_size s - 1) < unat (r_size s)"
    by (metis unat_1 unat_eq_zero unat_minus_one diff_Suc_less neq0_conv One_nat_def)
  show ?thesis
    using lt rle_pixels_size
    by (fastforce simp: rle_packet_def Let_def word_le_nat_alt intro: order.strict_trans1)
qed

function locDecompressRLE :: "u8 \<Rightarrow> rle_state \<Rightarrow> rle_state" where
  "locDecompressRLE Bpp s = (if r_size s = 0 then s else locDecompressRLE Bpp (rle_packet Bpp s))"
  by pat_completeness auto
termination
  by (relation "measure (\<lambda>(Bpp, s). unat (r_size s))") (simp_all add: rle_packet_size)

declare locDecompressRLE.simps [simp del]

section \<open>Memory with a block of bytes written\<close>

definition store :: "memory \<Rightarrow> u32 \<Rightarrow> u8 list \<Rightarrow> memory" where
  "store m a bs = (\<lambda>x. if unat (x - a) < length bs then bs ! unat (x - a) else m x)"

lemma store_Nil [simp]: "store m a [] = m"
  by (simp add: store_def)

lemma memcpy_store: "memcpy dst src n m = store m dst (bytes_at m src (unat n))"
proof
  fix x
  show "memcpy dst src n m x = store m dst (bytes_at m src (unat n)) x"
    by (simp add: memcpy_def store_def word_less_nat_alt)
qed

lemma store_append:
  assumes "length xs + length ys \<le> 2 ^ 32"
  shows "store (store m a xs) (a + of_nat (length xs)) ys = store m a (xs @ ys)"
proof
  fix x
  let ?k = "unat (x - a)" and ?n = "of_nat (length xs) :: u32"
  show "store (store m a xs) (a + ?n) ys x = store m a (xs @ ys) x"
  proof (cases "?k < length xs")
    case True
    then have n: "unat ?n = length xs \<or> ys = []"
      using assms by (cases ys) (auto simp: unat_of_nat)
    show ?thesis
    proof (cases "ys = []")
      case False
      with n have n: "unat ?n = length xs"
        by simp
      have "x - (a + ?n) = - (?n - (x - a))"
        by simp
      moreover have "unat (?n - (x - a)) = length xs - ?k"
        using True n by (simp add: unat_sub word_le_nat_alt)
      moreover have "?n - (x - a) \<noteq> 0"
        using True n by auto
      ultimately have "unat (x - (a + ?n)) + (length xs - ?k) = 2 ^ 32"
        using unat_swap [of "?n - (x - a)" 0] by (metis diff_0 diff_0_right)
      then have "\<not> unat (x - (a + ?n)) < length ys"
        using assms True by simp
      then show ?thesis
        using True by (simp add: store_def nth_append)
    qed simp
  next
    case False
    have lt: "?k < 2 ^ 32"
      using unsigned_less [of "x - a", where ?'a = nat] by simp
    then have n: "unat ?n = length xs"
      using False by (simp add: unat_of_nat)
    then have "unat (x - (a + ?n)) = ?k - length xs"
      using False by (simp add: diff_diff_eq [symmetric] unat_sub word_le_nat_alt)
    then show ?thesis
      using False by (auto simp: store_def nth_append)
  qed
qed

text \<open>Bytes outside the block; \<open>apart_at\<close> is \<open>apart\<close> with lengths as numbers.\<close>

definition clear_of :: "u32 \<Rightarrow> nat \<Rightarrow> u32 \<Rightarrow> nat \<Rightarrow> bool" where
  "clear_of a n b k \<longleftrightarrow> (\<forall>i < k. n \<le> unat (b + of_nat i - a))"

lemma bytes_at_store: "clear_of a (length bs) b k \<Longrightarrow> bytes_at (store m a bs) b k = bytes_at m b k"
  by (auto simp: bytes_at_def store_def clear_of_def)

lemma apart_clear_of:
  assumes "apart a n b k"
  shows "clear_of a (unat n) b (unat k)"
  unfolding clear_of_def
proof (intro allI impI)
  fix i
  assume "i < unat k"
  then have "unat (of_nat i :: u32) < unat k"
    using of_nat_less_word by (simp only: word_less_nat_alt [symmetric])
  then show "unat n \<le> unat (b + of_nat i - a)"
    by (rule apart_forward [OF assms])
qed

lemma clear_of_part:
  "clear_of a n b k \<Longrightarrow> n' \<le> n \<Longrightarrow> p + k' \<le> k \<Longrightarrow> clear_of a n' (b + of_nat p) k'"
  unfolding clear_of_def
proof (intro allI impI)
  fix i
  assume *: "\<forall>i < k. n \<le> unat (b + of_nat i - a)" "n' \<le> n" "p + k' \<le> k" "i < k'"
  have "n \<le> unat (b + of_nat (p + i) - a)"
    by (rule *(1) [rule_format]) (use * in simp)
  then show "n' \<le> unat (b + of_nat p + of_nat i - a)"
    using *(2) by (simp add: ac_simps)
qed

section \<open>A pixel is a block copy\<close>

lemma store_Cons:
  assumes "length bs < 2 ^ 32"
  shows "store m a (v # bs) = store (m(a := v)) (a + 1) bs"
proof -
  have "store m a [v] = m(a := v)"
    by (auto simp: store_def unat_eq_zero)
  then show ?thesis
    using store_append [of "[v]" bs m a] assms by simp
qed

lemma bytes_at_Suc: "bytes_at m a (Suc n) = m a # bytes_at m (a + 1) n"
  using bytes_at_append [of m a 1 n] by (simp add: bytes_at_def)

lemma copy_pixel_eq:
  "clear_of Dst n Src n \<Longrightarrow> n < 2 ^ 32 \<Longrightarrow> copy_pixel n Dst Src m = store m Dst (bytes_at m Src n)"
proof (induction n arbitrary: Dst Src m)
  case (Suc n)
  have far: "Suc n \<le> unat (Src + of_nat i - Dst)" if "i < Suc n" for i
    using Suc.prems(1) that by (simp only: clear_of_def)
  have c: "clear_of (Dst + 1) n (Src + 1) n"
    unfolding clear_of_def
  proof (intro allI impI)
    fix i
    assume "i < n"
    then have "Suc n \<le> unat (Src + of_nat i - Dst)"
      by (simp add: far)
    moreover have "Src + of_nat i - Dst = Src + 1 + of_nat i - (Dst + 1)"
      by simp
    ultimately show "n \<le> unat (Src + 1 + of_nat i - (Dst + 1))"
      by simp
  qed
  have "bytes_at (m(Dst := m Src)) (Src + 1) n = bytes_at m (Src + 1) n"
  proof (rule nth_equalityI)
    fix i
    assume i: "i < length (bytes_at (m(Dst := m Src)) (Src + 1) n)"
    then have "Suc n \<le> unat (Src + of_nat (Suc i) - Dst)"
      by (intro far) simp
    then have "Src + 1 + of_nat i \<noteq> Dst"
      by (auto simp: ac_simps)
    with i show "bytes_at (m(Dst := m Src)) (Src + 1) n ! i = bytes_at m (Src + 1) n ! i"
      by simp
  qed simp
  moreover have "copy_pixel n (Dst + 1) (Src + 1) (m(Dst := m Src)) =
      store (m(Dst := m Src)) (Dst + 1) (bytes_at (m(Dst := m Src)) (Src + 1) n)"
    by (rule Suc.IH [OF c]) (use Suc.prems(2) in simp)
  ultimately show ?case
    using Suc.prems(2) by (simp only: copy_pixel.simps locVMemWrite8_def bytes_at_Suc store_Cons length_bytes_at Suc_lessD)
qed (simp add: bytes_at_def)

lemma byte_no_bit: "8 \<le> k \<Longrightarrow> \<not> bit (b :: u8) k"
  using bit_imp_le_length [of b k] by auto

lemma pixel_value_4:
  shows "ucast (pixel_value m Src 4) = m Src"
    and "ucast (drop_bit 8 (pixel_value m Src 4)) = m (Src + 1)"
    and "ucast (drop_bit 16 (pixel_value m Src 4)) = m (Src + 2)"
    and "ucast (drop_bit 24 (pixel_value m Src 4)) = m (Src + 3)"
  by (simp_all add: pixel_value_def upt_rec) (auto intro!: bit_eqI simp: bit_simps byte_no_bit)

lemma pixel_value_2:
  shows "ucast (ucast (pixel_value m Src 2) :: u16) = m Src"
    and "ucast (drop_bit 8 (ucast (pixel_value m Src 2) :: u16)) = m (Src + 1)"
  by (simp_all add: pixel_value_def upt_rec) (auto intro!: bit_eqI simp: bit_simps byte_no_bit)

lemma bytes_at_2: "bytes_at m a 2 = [m a, m (a + 1)]"
  and bytes_at_4: "bytes_at m a 4 = [m a, m (a + 1), m (a + 2), m (a + 3)]"
  by (simp_all add: bytes_at_def upt_rec)

lemma loc_D2DWritePixel_eq:
  assumes "clear_of Dst (unat Bpp) Src (unat Bpp)"
  shows "loc_D2DWritePixel Dst Src Bpp m = store m Dst (bytes_at m Src (unat Bpp))"
proof -
  have "unat Bpp < 2 ^ 32"
    using unsigned_less [of Bpp, where ?'a = nat] by simp
  then have c: "copy_pixel (unat Bpp) Dst Src m = store m Dst (bytes_at m Src (unat Bpp))"
    by (rule copy_pixel_eq [OF assms])
  consider "Bpp = 4" | "Bpp = 2" | "Bpp \<noteq> 4" "Bpp \<noteq> 2"
    by blast
  then show ?thesis
  proof cases
    case 1
    then show ?thesis
      by (simp add: loc_D2DWritePixel_def locVMemWrite32_def bytes_at_4 pixel_value_4 store_Cons add.assoc)
  next
    case 2
    then show ?thesis
      by (simp add: loc_D2DWritePixel_def locVMemWrite16_def bytes_at_2 pixel_value_2 store_Cons)
  next
    case 3
    then show ?thesis
      by (simp add: loc_D2DWritePixel_def c)
  qed
qed

section \<open>Streams of packets\<close>

text \<open>
  The reference: a packet is a run of one pixel or a list of pixels; \<open>encode\<close> is its byte stream and
  \<open>expand\<close> the pixels it stands for. A run has at least two pixels here (see \<open>rle_single_run\<close>).
\<close>

datatype packet = Run "u8 list" nat | Raw "u8 list list"

fun encode :: "packet \<Rightarrow> u8 list" where
  "encode (Run px n) = (0x80 OR of_nat (n - 1)) # px"
| "encode (Raw pxs) = of_nat (length pxs - 1) # concat pxs"

fun expand :: "packet \<Rightarrow> u8 list" where
  "expand (Run px n) = concat (replicate n px)"
| "expand (Raw pxs) = concat pxs"

fun valid_packet :: "nat \<Rightarrow> packet \<Rightarrow> bool" where
  "valid_packet bpp (Run px n) \<longleftrightarrow> length px = bpp \<and> 2 \<le> n \<and> n \<le> 128"
| "valid_packet bpp (Raw pxs) \<longleftrightarrow> (\<forall>px \<in> set pxs. length px = bpp) \<and> pxs \<noteq> [] \<and> length pxs \<le> 128"

lemma header_raw:
  assumes "n < 128"
  shows "(of_nat n :: u8) AND 0x7F = of_nat n" and "drop_bit 7 (of_nat n :: u8) = 0"
    and "(0x80 OR of_nat n :: u8) AND 0x7F = of_nat n" and "drop_bit 7 (0x80 OR of_nat n :: u8) = 1"
proof -
  let ?x = "of_nat n :: u8"
  have "unat ?x = n"
    using assms by (simp add: unat_of_nat)
  then have "unat (drop_bit 7 ?x) = 0"
    using assms by (simp add: unat_drop_bit)
  then show d: "drop_bit 7 ?x = 0"
    by (simp add: unat_eq_zero)
  then have x7: "\<not> bit ?x 7"
    using bit_drop_bit_eq [of 7 ?x] by (metis add.right_neutral bit_0_eq bot_apply bot_bool_def comp_apply)
  have m: "bit (0x7F :: u8) k \<longleftrightarrow> k < 7" for k
  proof -
    have "(0x7F :: u8) = mask 7"
      by (simp add: mask_eq_exp_minus_1)
    then show ?thesis
      by (simp only: bit_mask_iff possible_bit_word) auto
  qed
  have h: "bit (0x80 :: u8) k \<longleftrightarrow> k = 7" for k
  proof -
    have "(0x80 :: u8) = push_bit 7 1"
      by simp
    then show ?thesis
      by (auto simp only: bit_push_bit_iff bit_1_iff) (auto simp: possible_bit_word)
  qed
  have seven: "k < 7 \<or> k = 7" if "k < LENGTH(8)" for k :: nat
    using that by simp linarith
  show "?x AND 0x7F = ?x"
  proof (rule bit_word_eqI)
    fix k
    assume "k < LENGTH(8)"
    then show "bit (?x AND 0x7F) k \<longleftrightarrow> bit ?x k"
      unfolding bit_and_iff m using seven [of k] x7 by blast
  qed
  show "(0x80 OR ?x) AND 0x7F = ?x"
  proof (rule bit_word_eqI)
    fix k
    assume "k < LENGTH(8)"
    then show "bit ((0x80 OR ?x) AND 0x7F) k \<longleftrightarrow> bit ?x k"
      unfolding bit_and_iff bit_or_iff m h using seven [of k] x7 by blast
  qed
  have "drop_bit 7 (0x80 OR ?x) = drop_bit 7 0x80 OR drop_bit 7 ?x"
    by (rule drop_bit_or)
  then show "drop_bit 7 (0x80 OR ?x) = 1"
    using d by simp
qed

lemma header_count: "n < 128 \<Longrightarrow> unat ((of_nat n :: u8) + 1) = Suc n"
proof -
  assume "n < 128"
  then have "unat (of_nat (Suc n) :: u8) = Suc n"
    by (subst unat_of_nat) simp
  then show ?thesis
    by (simp add: ac_simps)
qed

lemma write_pixel_at:
  assumes cl: "clear_of D K S N" and K: "K \<le> 2 ^ 32"
    and w: "length w + unat Bpp \<le> K" and p: "p + unat Bpp \<le> N"
  shows "loc_D2DWritePixel (D + of_nat (length w)) (S + of_nat p) Bpp (store m0 D w) =
    store m0 D (w @ bytes_at m0 (S + of_nat p) (unat Bpp))"
proof (cases "Bpp = 0")
  case True
  then show ?thesis
    by (simp add: loc_D2DWritePixel_def bytes_at_def)
next
  case False
  then have "length w < K"
    using w unat_eq_zero [of Bpp] by linarith
  then have lw: "unat (of_nat (length w) :: u32) = length w"
    using K by (simp add: unat_of_nat)
  have "clear_of (D + of_nat (length w)) (unat Bpp) (S + of_nat p) (unat Bpp)"
    unfolding clear_of_def
  proof (intro allI impI)
    fix i
    assume i: "i < unat Bpp"
    have "K \<le> unat (S + of_nat (p + i) - D)"
      using cl p i by (simp only: clear_of_def)
    then have far: "K \<le> unat (S + of_nat p + of_nat i - D)"
      by (simp add: ac_simps)
    then have "unat (S + of_nat p + of_nat i - D - of_nat (length w)) =
        unat (S + of_nat p + of_nat i - D) - length w"
      using w lw by (simp add: unat_sub word_le_nat_alt)
    then show "unat Bpp \<le> unat (S + of_nat p + of_nat i - (D + of_nat (length w)))"
      using far w by (simp only: diff_diff_eq)
  qed
  then have "loc_D2DWritePixel (D + of_nat (length w)) (S + of_nat p) Bpp (store m0 D w) =
      store (store m0 D w) (D + of_nat (length w)) (bytes_at (store m0 D w) (S + of_nat p) (unat Bpp))"
    by (rule loc_D2DWritePixel_eq)
  also have "bytes_at (store m0 D w) (S + of_nat p) (unat Bpp) = bytes_at m0 (S + of_nat p) (unat Bpp)"
    by (rule bytes_at_store, rule clear_of_part [OF cl]) (use w p in simp_all)
  also have "store (store m0 D w) (D + of_nat (length w)) \<dots> = store m0 D (w @ \<dots>)"
    by (rule store_append) (use w K in simp)
  finally show ?thesis .
qed

text \<open>The position of a decoder: \<open>w\<close> is written at \<open>D\<close>, \<open>p\<close> bytes of the stream at \<open>S\<close> are consumed.\<close>

definition at_pos :: "memory \<Rightarrow> u32 \<Rightarrow> u32 \<Rightarrow> u8 list \<Rightarrow> nat \<Rightarrow> u32 \<Rightarrow> rle_state" where
  "at_pos m0 D S w p siz =
     \<lparr>r_mem = store m0 D w, r_dst = D + of_nat (length w), r_src = S + of_nat p, r_size = siz\<rparr>"

lemma unat_ucast_u8: "unat (ucast (b :: u8) :: u32) = unat b"
proof -
  have "unat b < 2 ^ 8"
    using unsigned_less [of b, where ?'a = nat] by simp
  then show ?thesis
    unfolding unsigned_eq_of_nat by (simp only: unsigned_of_nat) (simp add: take_bit_nat_eq_self)
qed

lemma rle_pixels_raw:
  assumes cl: "clear_of D K S N" and K: "K \<le> 2 ^ 32"
  shows "(\<forall>px \<in> set pxs. length px = unat Bpp) \<Longrightarrow>
    bytes_at m0 (S + of_nat p) (length (concat pxs)) = concat pxs \<Longrightarrow>
    length w + length (concat pxs) \<le> K \<Longrightarrow> p + length (concat pxs) \<le> N \<Longrightarrow>
    length (concat pxs) \<le> unat siz \<Longrightarrow>
    rle_pixels Bpp False rs (length pxs) (at_pos m0 D S w p siz) =
      at_pos m0 D S (w @ concat pxs) (p + length (concat pxs)) (siz - of_nat (length (concat pxs)))"
proof (induction pxs arbitrary: w p siz)
  case (Cons px pxs)
  have px: "length px = unat Bpp"
    using Cons.prems(1) by simp
  have pix: "bytes_at m0 (S + of_nat p) (unat Bpp) = px"
    and rest: "bytes_at m0 (S + of_nat (p + unat Bpp)) (length (concat pxs)) = concat pxs"
    using Cons.prems(2) px by (simp_all add: bytes_at_append ac_simps)
  have wr: "loc_D2DWritePixel (D + of_nat (length w)) (S + of_nat p) Bpp (store m0 D w) = store m0 D (w @ px)"
    using write_pixel_at [OF cl K, of w Bpp p m0] Cons.prems px by (simp add: pix)
  have ub: "(ucast Bpp :: u32) = of_nat (unat Bpp)"
    by simp
  have le: "ucast Bpp \<le> siz"
    using Cons.prems(5) px by (simp add: word_le_nat_alt unat_ucast_u8)
  have "rle_pixels Bpp False rs (length (px # pxs)) (at_pos m0 D S w p siz) =
      rle_pixels Bpp False rs (length pxs) (at_pos m0 D S (w @ px) (p + unat Bpp) (siz - ucast Bpp))"
    using le px by (simp add: at_pos_def wr ac_simps)
  also have "\<dots> = at_pos m0 D S ((w @ px) @ concat pxs) (p + unat Bpp + length (concat pxs))
      (siz - ucast Bpp - of_nat (length (concat pxs)))"
  proof (rule Cons.IH)
    show "\<forall>px \<in> set pxs. length px = unat Bpp"
      using Cons.prems(1) by simp
    show "length (w @ px) + length (concat pxs) \<le> K" "p + unat Bpp + length (concat pxs) \<le> N"
      using Cons.prems(3,4) px by simp_all
    show "length (concat pxs) \<le> unat (siz - ucast Bpp)"
      unfolding unat_sub [OF le] unat_ucast_u8 using Cons.prems(5) px by simp
  qed (rule rest)
  also have "p + unat Bpp + length (concat pxs) = p + length (concat (px # pxs))"
    using px by simp
  also have "siz - ucast Bpp - of_nat (length (concat pxs)) = siz - of_nat (length (concat (px # pxs)))"
    using px by (simp add: diff_diff_eq)
  finally show ?case
    by simp
qed simp

lemma rle_pixels_run_size:
  "r_size (rle_pixels Bpp True rs n s) =
     (if 2 \<le> n then (if ucast Bpp \<le> r_size s then r_size s - ucast Bpp else 0) else r_size s)"
proof (induction n arbitrary: s)
  case (Suc n)
  show ?case
    by (cases "n = 1") (auto simp: Suc.IH Let_def)
qed simp

lemma rle_pixels_run:
  assumes cl: "clear_of D K S N" and K: "K \<le> 2 ^ 32" and p: "p + unat Bpp \<le> N"
    and px: "bytes_at m0 (S + of_nat p) (unat Bpp) = px"
  shows "length w + n * unat Bpp \<le> K \<Longrightarrow> 0 < n \<Longrightarrow> \<exists>siz'.
    rle_pixels Bpp True (S + of_nat p) n \<lparr>r_mem = store m0 D w, r_dst = D + of_nat (length w), r_src = x, r_size = siz\<rparr> =
      at_pos m0 D S (w @ concat (replicate n px)) (p + unat Bpp) siz'"
proof (induction n arbitrary: w x siz)
  case (Suc n)
  have lpx: "length px = unat Bpp"
    using px by auto
  have wr: "loc_D2DWritePixel (D + of_nat (length w)) (S + of_nat p) Bpp (store m0 D w) = store m0 D (w @ px)"
    using write_pixel_at [OF cl K, of w Bpp p m0] Suc.prems p by (simp add: px)
  define siz' where "siz' = (if n = 1 then (if ucast Bpp \<le> siz then siz - ucast Bpp else 0) else siz)"
  let ?s = "\<lparr>r_mem = store m0 D (w @ px), r_dst = D + of_nat (length (w @ px)), r_src = S + of_nat p + ucast Bpp, r_size = siz'\<rparr>"
  have step: "rle_pixels Bpp True (S + of_nat p) (Suc n)
      \<lparr>r_mem = store m0 D w, r_dst = D + of_nat (length w), r_src = x, r_size = siz\<rparr> =
      rle_pixels Bpp True (S + of_nat p) n ?s"
    by (simp add: wr lpx siz'_def Let_def ac_simps)
  show ?case
  proof (cases "n = 0")
    case True
    then show ?thesis
      unfolding step by (intro exI [of _ siz']) (simp add: at_pos_def ac_simps)
  next
    case False
    have "length (w @ px) + n * unat Bpp \<le> K"
      using Suc.prems lpx by simp
    from Suc.IH [OF this, of "S + of_nat p + ucast Bpp" siz'] False show ?thesis
      unfolding step by (simp only: replicate_Suc concat.simps append_assoc)
  qed
qed simp

lemma length_expand_run [simp]: "length (concat (replicate n px)) = n * length px"
  by (induction n) simp_all

lemma rle_packet_at:
  assumes cl: "clear_of D K S N" and K: "K \<le> 2 ^ 32"
    and v: "valid_packet (unat Bpp) pk" and pos: "0 < unat Bpp"
    and src: "bytes_at m0 (S + of_nat p) (length (encode pk)) = encode pk"
    and w: "length w + length (expand pk) \<le> K" and N: "p + length (encode pk) \<le> N"
    and siz: "length (encode pk) \<le> unat siz"
  shows "rle_packet Bpp (at_pos m0 D S w p siz) =
    at_pos m0 D S (w @ expand pk) (p + length (encode pk)) (siz - of_nat (length (encode pk)))"
proof -
  obtain h bs where e: "encode pk = h # bs"
    by (cases pk) auto
  have c1: "clear_of D (length w) (S + of_nat p) 1"
    by (rule clear_of_part [OF cl]) (use w N e in simp_all)
  have "bytes_at m0 (S + of_nat p) (Suc (length bs)) = h # bs"
    using src e by simp
  then have m0: "m0 (S + of_nat p) = h" and bs: "bytes_at m0 (S + of_nat (p + 1)) (length bs) = bs"
    by (simp_all add: bytes_at_Suc ac_simps)
  have hd: "store m0 D w (S + of_nat p) = h"
    using bytes_at_store [OF c1, of m0] m0 by (simp add: bytes_at_def)
  have bsn: "0 < length bs"
  proof (cases pk)
    case (Raw pxs)
    then obtain px pxs' where "pxs = px # pxs'" and "length px = unat Bpp"
      using v by (cases pxs) auto
    then have "unat Bpp \<le> length bs"
      using e Raw by auto
    then show ?thesis
      using pos by linarith
  qed (use v e pos in auto)
  have one: "1 \<le> siz"
    using siz e by (simp add: word_le_nat_alt)
  then have s1: "unat (siz - 1) = unat siz - 1"
    by (simp add: unat_sub)
  then have ne: "siz - 1 \<noteq> 0"
    using siz e bsn by auto
  let ?n = "unat ((h AND 0x7F) + 1)" and ?r = "drop_bit 7 h \<noteq> 0"
  have "rle_packet Bpp (at_pos m0 D S w p siz) =
      rle_pixels Bpp ?r (S + of_nat (p + 1)) ?n (at_pos m0 D S w (p + 1) (siz - 1))"
    using ne by (simp add: rle_packet_def at_pos_def hd ac_simps)
  also have "\<dots> = at_pos m0 D S (w @ expand pk) (p + 1 + length bs) (siz - 1 - of_nat (length bs))"
  proof (cases pk)
    case (Raw pxs)
    have len: "0 < length pxs" "length pxs - 1 < 128" and all: "\<forall>px \<in> set pxs. length px = unat Bpp"
      using v Raw by auto
    have h: "h = of_nat (length pxs - 1)" and b: "bs = concat pxs"
      using e Raw by simp_all
    have n: "?n = length pxs"
      unfolding h header_raw [OF len(2)] header_count [OF len(2)] using len by simp
    have r: "?r = False"
      unfolding h header_raw [OF len(2)] by simp
    show ?thesis
      unfolding n r
      using rle_pixels_raw [OF cl K all, of m0 "p + 1" w "siz - 1" "S + of_nat (p + 1)"] bs w N siz s1 e
      unfolding b Raw by simp
  next
    case (Run px n)
    have len: "2 \<le> n" "n - 1 < 128" and px: "length px = unat Bpp"
      using v Run by auto
    have h: "h = 0x80 OR of_nat (n - 1)" and b: "bs = px"
      using e Run by simp_all
    have n: "?n = n"
      unfolding h header_raw [OF len(2)] header_count [OF len(2)] using len by simp
    have r: "?r = True"
      unfolding h header_raw [OF len(2)] by simp
    have k1: "p + 1 + unat Bpp \<le> N" and k2: "length w + n * unat Bpp \<le> K"
      and k3: "bytes_at m0 (S + of_nat (p + 1)) (unat Bpp) = px"
      using N w bs px e unfolding b Run by simp_all
    obtain siz' where run: "rle_pixels Bpp True (S + of_nat (p + 1)) n (at_pos m0 D S w (p + 1) (siz - 1)) =
        at_pos m0 D S (w @ concat (replicate n px)) (p + 1 + unat Bpp) siz'"
      using rle_pixels_run [OF cl K k1 k3 k2, of "S + of_nat (p + 1)" "siz - 1"] len
      unfolding at_pos_def by auto
    have "unat Bpp \<le> unat siz - 1"
      using siz e px unfolding b by simp
    then have "ucast Bpp \<le> siz - 1"
      by (simp add: word_le_nat_alt unat_ucast_u8 s1)
    then have "siz' = siz - 1 - of_nat (length bs)"
      using rle_pixels_run_size [of Bpp "S + of_nat (p + 1)" n "at_pos m0 D S w (p + 1) (siz - 1)"] len px
      unfolding run b by (simp add: at_pos_def)
    then show ?thesis
      unfolding n r run Run b using px by simp
  qed
  finally show ?thesis
    using e by (simp add: diff_diff_eq)
qed

lemma decompress_packets:
  assumes cl: "clear_of D K S N" and K: "K \<le> 2 ^ 32" and pos: "0 < unat Bpp"
  shows "(\<forall>pk \<in> set ps. valid_packet (unat Bpp) pk) \<Longrightarrow>
    bytes_at m0 (S + of_nat p) (length (concat (map encode ps))) = concat (map encode ps) \<Longrightarrow>
    length w + length (concat (map expand ps)) \<le> K \<Longrightarrow> p + length (concat (map encode ps)) \<le> N \<Longrightarrow>
    unat siz = length (concat (map encode ps)) \<Longrightarrow>
    r_mem (locDecompressRLE Bpp (at_pos m0 D S w p siz)) = store m0 D (w @ concat (map expand ps))"
proof (induction ps arbitrary: w p siz)
  case Nil
  then have "siz = 0"
    by (simp add: unat_eq_zero)
  then show ?case
    by (simp add: locDecompressRLE.simps at_pos_def)
next
  case (Cons pk ps)
  let ?e = "encode pk" and ?es = "concat (map encode ps)"
  have src: "bytes_at m0 (S + of_nat p) (length ?e) = ?e"
    and rest: "bytes_at m0 (S + of_nat (p + length ?e)) (length ?es) = ?es"
    using Cons.prems(2) by (simp_all add: bytes_at_append ac_simps)
  have siz: "length ?e \<le> unat siz"
    using Cons.prems(5) by simp
  have "0 < length ?e"
    by (cases pk) simp_all
  then have nz: "siz \<noteq> 0"
    using siz by auto
  have le: "of_nat (length ?e) \<le> siz" and ul: "unat (of_nat (length ?e) :: u32) = length ?e"
    using siz unsigned_less [of siz, where ?'a = nat] by (simp_all add: word_le_nat_alt unat_of_nat)
  have step: "rle_packet Bpp (at_pos m0 D S w p siz) =
      at_pos m0 D S (w @ expand pk) (p + length ?e) (siz - of_nat (length ?e))"
    by (rule rle_packet_at [OF cl K _ pos src _ _ siz]) (use Cons.prems in simp_all)
  have "r_mem (locDecompressRLE Bpp (at_pos m0 D S (w @ expand pk) (p + length ?e) (siz - of_nat (length ?e)))) =
      store m0 D ((w @ expand pk) @ concat (map expand ps))"
  proof (rule Cons.IH [OF _ rest])
    show "unat (siz - of_nat (length ?e)) = length ?es"
      unfolding unat_sub [OF le] ul using Cons.prems(5) by simp
  qed (use Cons.prems in simp_all)
  then show ?case
    using nz by (subst locDecompressRLE.simps) (simp add: step, simp add: at_pos_def)
qed

lemma decompress_run:
  assumes "\<forall>pk \<in> set ps. valid_packet (unat Bpp) pk" and "0 < Bpp"
    and "enc = concat (map encode ps)" and "out = concat (map expand ps)"
    and "bytes_at m Src (length enc) = enc" and "length enc < 2 ^ 32" and "length out < 2 ^ 32"
    and "apart Dst (of_nat (length out)) Src (of_nat (length enc))"
  shows "let m' = r_mem (locDecompressRLE Bpp \<lparr>r_mem = m, r_dst = Dst, r_src = Src, r_size = of_nat (length enc)\<rparr>)
    in bytes_at m' Dst (length out) = out \<and> (\<forall>a. length out \<le> unat (a - Dst) \<longrightarrow> m' a = m a)"
proof -
  have lens: "unat (of_nat (length enc) :: u32) = length enc" "unat (of_nat (length out) :: u32) = length out"
    using assms(6,7) by (simp_all add: unat_of_nat)
  have cl: "clear_of Dst (length out) Src (length enc)"
    using apart_clear_of [OF assms(8)] by (simp only: lens)
  have pos: "0 < unat Bpp"
    using assms(2) by (simp add: word_less_nat_alt)
  have "r_mem (locDecompressRLE Bpp (at_pos m Dst Src [] 0 (of_nat (length enc)))) = store m Dst ([] @ out)"
    unfolding assms(4)
    by (rule decompress_packets [OF cl _ pos assms(1)]) (use assms(3-7) lens in simp_all)
  then have m': "r_mem (locDecompressRLE Bpp \<lparr>r_mem = m, r_dst = Dst, r_src = Src, r_size = of_nat (length enc)\<rparr>) =
      store m Dst out"
    by (simp add: at_pos_def)
  have "bytes_at (store m Dst out) Dst (length out) = out"
    by (rule nth_equalityI) (use assms(7) in \<open>simp_all add: store_def unat_of_nat\<close>)
  then show ?thesis
    unfolding m' Let_def by (simp add: store_def)
qed

section \<open>Properties\<close>

text \<open>
  Property C27 (rle_decompress_correct): decompression inverts compression. For every pixel width and
  every stream of well-formed packets that fits the address space and lies apart from the
  destination, the decoder stops and memory then holds the expanded pixels at the destination, every
  other byte is as before.
\<close>

theorem rle_decompress_correct:
  assumes "\<forall>pk \<in> set ps. valid_packet (unat Bpp) pk" and "0 < Bpp"
    and "enc = concat (map encode ps)" and "out = concat (map expand ps)"
    and "bytes_at m Src (length enc) = enc" and "length enc < 2 ^ 32" and "length out < 2 ^ 32"
    and "apart Dst (of_nat (length out)) Src (of_nat (length enc))"
  shows "let m' = r_mem (locDecompressRLE Bpp \<lparr>r_mem = m, r_dst = Dst, r_src = Src, r_size = of_nat (length enc)\<rparr>)
    in bytes_at m' Dst (length out) = out \<and> (\<forall>a. length out \<le> unat (a - Dst) \<longrightarrow> m' a = m a)"
  using assms by (rule decompress_run)

theorem rle_decompress_witness:
  "bytes_at (r_mem (locDecompressRLE 4
      \<lparr>r_mem = store (\<lambda>_. 0) 0x100 [0x82, 1, 2, 3, 4, 0, 5, 6, 7, 8], r_dst = 0x1000, r_src = 0x100, r_size = 10\<rparr>))
     0x1000 16 = [1, 2, 3, 4, 1, 2, 3, 4, 1, 2, 3, 4, 5, 6, 7, 8]"
proof -
  let ?ps = "[Run [1, 2, 3, 4] 3, Raw [[5, 6, 7, 8]]]"
  let ?enc = "[0x82, 1, 2, 3, 4, 0, 5, 6, 7, 8] :: u8 list"
  let ?out = "[1, 2, 3, 4, 1, 2, 3, 4, 1, 2, 3, 4, 5, 6, 7, 8] :: u8 list"
  have enc: "?enc = concat (map encode ?ps)" and out: "?out = concat (map expand ?ps)"
    by (simp_all add: numeral_3_eq_3)
  have src: "bytes_at (store (\<lambda>_. 0) 0x100 ?enc) 0x100 (length ?enc) = ?enc"
    by (simp add: bytes_at_def store_def upt_rec)
  have len: "16 = length ?out"
    by simp
  show ?thesis
    unfolding len using rle_decompress_correct [OF _ _ enc out src, of 4 "0x1000"]
    by (simp add: apart_def Let_def)
qed

text \<open>
  Property C33 (rle_single_run): the remaining size is not reduced by the pixel of a run of length one
  (header \<open>0x80\<close>): the source pointer moves past header and pixel, the size only past the header, so the
  decoder later reads that many bytes beyond the end of the stream.
\<close>

theorem rle_single_run:
  assumes "r_mem s (r_src s) = 0x80" and "1 < r_size s"
  shows "r_src (rle_packet Bpp s) = r_src s + 1 + ucast Bpp \<and> r_size (rle_packet Bpp s) = r_size s - 1"
proof -
  have "r_size s - 1 \<noteq> 0"
    using assms(2) by auto
  then show ?thesis
    using assms(1) by (simp add: rle_packet_def Let_def)
qed

theorem rle_single_run_witness:
  "r_src (rle_packet 4 \<lparr>r_mem = store (\<lambda>_. 0) 0x100 [0x80, 1, 2, 3, 4], r_dst = 0x1000, r_src = 0x100, r_size = 5\<rparr>) = 0x105
   \<and> r_size (rle_packet 4 \<lparr>r_mem = store (\<lambda>_. 0) 0x100 [0x80, 1, 2, 3, 4], r_dst = 0x1000, r_src = 0x100, r_size = 5\<rparr>) = 4"
  using rle_single_run [of "\<lparr>r_mem = store (\<lambda>_. 0) 0x100 [0x80, 1, 2, 3, 4], r_dst = 0x1000, r_src = 0x100, r_size = 5\<rparr>" 4]
  by (simp add: store_def)

end
