(* ===== verification/Texture.thy ===== *)
theory Texture
  imports RomFs Rle
begin

text \<open>
  Images of the cluster application: the image descriptor (\<^verbatim>\<open>misc/img_format.h\<close>), the fifty video memory
  buffers of \<^verbatim>\<open>demo_cluster.c\<close>, and \<^verbatim>\<open>Init2DImg\<close>/\<^verbatim>\<open>Deinit2DImg\<close> of \<^verbatim>\<open>misc/texture.c\<close>, which bring an image
  from the ROM file system into video memory and release it.

  The graphics driver is not part of the repository: its three video memory operations are the record
  \<open>dhd\<close>, an argument of the definitions, acting on a driver state of any type. A \<^verbatim>\<open>void *\<close> is null, an address,
  or the address of an entry of \<^verbatim>\<open>vidmembuffer\<close>. The endless loops of \<^verbatim>\<open>ClusterError\<close> and
  \<^verbatim>\<open>demo_getvidmemptr\<close> are the error \<open>Hang\<close>.
\<close>

section \<open>Image descriptors (img\_format.h)\<close>

abbreviation IMG_ALPHA8 :: u32 where "IMG_ALPHA8 \<equiv> 0"
abbreviation IMG_RGB565 :: u32 where "IMG_RGB565 \<equiv> 1"
abbreviation IMG_ARGB8888 :: u32 where "IMG_ARGB8888 \<equiv> 2"
abbreviation IMG_ARGB1555 :: u32 where "IMG_ARGB1555 \<equiv> 4"
abbreviation IMG_RGB888 :: u32 where "IMG_RGB888 \<equiv> 5"
abbreviation IMG_MODE_RLE :: u32 where "IMG_MODE_RLE \<equiv> 16"

abbreviation IMG_ATTRIBUTE_IS_RLE_COMPRESSED :: u32 where "IMG_ATTRIBUTE_IS_RLE_COMPRESSED \<equiv> 1"
abbreviation IMG_ATTRIBUTE_USE_FROM_PERSISTENT_MEMORY :: u32 where
  "IMG_ATTRIBUTE_USE_FROM_PERSISTENT_MEMORY \<equiv> 2"

text \<open>\<open>Data\<close> names the static pointer variable the descriptor refers to; no image has an index table.\<close>

record Img_t =
  Name :: string
  Width :: u32
  Height :: u32
  Colourformat :: u32
  IsIndexed :: u32
  Attributes :: u32
  IndexLength :: u32
  IndexEntrys :: u32
  Data :: string
  DataLength :: u32

section \<open>Video memory buffers (demo\_cluster.c)\<close>

datatype ptr = Null | Addr u32 | VidBuf nat

definition ptr_of :: "u32 \<Rightarrow> ptr" where
  "ptr_of a = (if a = 0 then Null else Addr a)"

record 'd dhd =
  dhd_alloc_vidmem :: "'d \<Rightarrow> u32 \<Rightarrow> (u32 \<times> 'd) option"
  dhd_free_vidmem :: "'d \<Rightarrow> u32 \<Rightarrow> 'd"
  dhd_upload_vidmem :: "u32 \<Rightarrow> u32 \<Rightarrow> u32 \<Rightarrow> memory \<Rightarrow> memory"

abbreviation VIDMEMBUFFERS :: nat where "VIDMEMBUFFERS \<equiv> 50"

record 'd gfx =
  vidmembuffer :: "u32 list"
  vidmembuffer_alloced :: "bool list"
  driver :: 'd
  mem :: memory
  filesys :: romfs
  img_data :: "string \<Rightarrow> ptr"

datatype gfx_error = Hang | WrongPointer | FileError romfs_error

definition ClusterError :: "int \<Rightarrow> gfx_error + unit" where
  "ClusterError Err = (if Err \<noteq> 0 then Inl Hang else Inr ())"

abbreviation ERR_TEXTURE_SETUP_FAILED :: int where "ERR_TEXTURE_SETUP_FAILED \<equiv> -20"

text \<open>A failed driver allocation returns the null pointer but leaves the entry marked.\<close>

definition demo_allocvidmem :: "'d dhd \<Rightarrow> u32 \<Rightarrow> 'd gfx \<Rightarrow> ptr \<times> 'd gfx" where
  "demo_allocvidmem D siz s =
     (case first_free (vidmembuffer_alloced s) of
        None \<Rightarrow> (Null, s)
      | Some i \<Rightarrow>
          let s' = s\<lparr>vidmembuffer_alloced := (vidmembuffer_alloced s)[i := True]\<rparr> in
          case dhd_alloc_vidmem D (driver s') siz of
            None \<Rightarrow> (Null, s')
          | Some (gpu, d) \<Rightarrow> (VidBuf i, s'\<lparr>vidmembuffer := (vidmembuffer s')[i := gpu], driver := d\<rparr>))"

definition demo_freevidmem :: "'d dhd \<Rightarrow> ptr \<Rightarrow> 'd gfx \<Rightarrow> 'd gfx" where
  "demo_freevidmem D p s =
     (case p of
        VidBuf i \<Rightarrow>
          if i < length (vidmembuffer_alloced s)
          then s\<lparr>driver := dhd_free_vidmem D (driver s) (vidmembuffer s ! i),
                 vidmembuffer_alloced := (vidmembuffer_alloced s)[i := False]\<rparr>
          else s
      | _ \<Rightarrow> s)"

definition demo_copytovidmem :: "'d dhd \<Rightarrow> ptr \<Rightarrow> u32 \<Rightarrow> u32 \<Rightarrow> 'd gfx \<Rightarrow> gfx_error + 'd gfx" where
  "demo_copytovidmem D dst src siz s =
     (case dst of
        VidBuf i \<Rightarrow> Inr (s\<lparr>mem := dhd_upload_vidmem D src (vidmembuffer s ! i) siz (mem s)\<rparr>)
      | _ \<Rightarrow> Inl WrongPointer)"

definition demo_getvidmemptr :: "ptr \<Rightarrow> 'd gfx \<Rightarrow> gfx_error + u32" where
  "demo_getvidmemptr vidbuf s =
     (case vidbuf of
        Null \<Rightarrow> Inl Hang
      | VidBuf i \<Rightarrow> if vidmembuffer s ! i = 0 then Inl Hang else Inr (vidmembuffer s ! i)
      | Addr a \<Rightarrow> Inl WrongPointer)"

section \<open>Preparing and releasing an image (texture.c)\<close>

definition andthen :: "'e + 'a \<Rightarrow> ('a \<Rightarrow> 'e + 'b) \<Rightarrow> 'e + 'b" where
  "andthen r f = (case r of Inl e \<Rightarrow> Inl e | Inr x \<Rightarrow> f x)"

lemma andthen_simps [simp]: "andthen (Inl e) f = Inl e" "andthen (Inr x) f = f x"
  by (simp_all add: andthen_def)

definition file_result :: "romfs_error + 'a \<Rightarrow> gfx_error + 'a" where
  "file_result r = (case r of Inl e \<Rightarrow> Inl (FileError e) | Inr x \<Rightarrow> Inr x)"

lemma file_result_simps [simp]: "file_result (Inl e) = Inl (FileError e)" "file_result (Inr x) = Inr x"
  by (simp_all add: file_result_def)

text \<open>
  Opening and mapping the image's file: the file pointer and the address, or nothing when one of the
  two failed (a file whose mapping failed stays open).
\<close>

definition open_image :: "u32 \<Rightarrow> Img_t \<Rightarrow> 'd gfx \<Rightarrow> gfx_error + (nat \<times> u32) option \<times> 'd gfx" where
  "open_image base Img s =
     andthen (file_result (eeRomFs_FOpen base (Name Img) (filesys s))) (\<lambda>(fp, fs).
     case fp of
       None \<Rightarrow> Inr (None, s\<lparr>filesys := fs\<rparr>)
     | Some i \<Rightarrow>
         andthen (file_result (eeRomFs_MMap (Some i) 0 fs)) (\<lambda>mm_data_addr.
         if mm_data_addr = 0 then Inr (None, s\<lparr>filesys := fs\<rparr>)
         else Inr (Some (i, mm_data_addr), s\<lparr>filesys := fs\<rparr>)))"

text \<open>\<^verbatim>\<open>eeRomFs_MUnmap\<close> has no effect; then the file is closed.\<close>

definition close_image :: "nat \<Rightarrow> 'd gfx \<Rightarrow> gfx_error + 'd gfx" where
  "close_image fp s =
     andthen (file_result (eeRomFs_FClose (Some fp) (filesys s))) (\<lambda>(r, fs). Inr (s\<lparr>filesys := fs\<rparr>))"

definition img_bpp :: "u32 \<Rightarrow> u8 option" where
  "img_bpp f =
     (if f = IMG_ARGB8888 \<or> f = IMG_ARGB8888 OR IMG_MODE_RLE then Some 4
      else if f = IMG_RGB888 then Some 4
      else if f = IMG_RGB888 OR IMG_MODE_RLE then Some 3
      else if f = IMG_ARGB1555 \<or> f = IMG_ARGB1555 OR IMG_MODE_RLE \<or> f = IMG_RGB565 \<or> f = IMG_RGB565 OR IMG_MODE_RLE then Some 2
      else if f = IMG_ALPHA8 \<or> f = IMG_ALPHA8 OR IMG_MODE_RLE then Some 1
      else None)"

text \<open>Decompression of \<open>Img\<close> from \<open>src\<close> into the buffer \<open>data\<close>.\<close>

definition decompress_image :: "Img_t \<Rightarrow> ptr \<Rightarrow> u32 \<Rightarrow> u8 \<Rightarrow> 'd gfx \<Rightarrow> gfx_error + 'd gfx" where
  "decompress_image Img data src bpp s =
     andthen (demo_getvidmemptr data s) (\<lambda>gpu.
     Inr (s\<lparr>mem := r_mem (locDecompressRLE bpp
             \<lparr>r_mem = mem s, r_dst = gpu, r_src = src, r_size = DataLength Img\<rparr>)\<rparr>))"

text \<open>The copy of the image data into the allocated buffer; the result is false when the file is missing.\<close>

definition fill_image :: "'d dhd \<Rightarrow> u32 \<Rightarrow> Img_t \<Rightarrow> ptr \<Rightarrow> u8 \<Rightarrow> 'd gfx \<Rightarrow> gfx_error + bool \<times> 'd gfx" where
  "fill_image D base Img data bpp s =
     (if Attributes Img AND IMG_ATTRIBUTE_IS_RLE_COMPRESSED \<noteq> 0 \<and> Colourformat Img AND IMG_MODE_RLE = 0 then
        (case img_data s (Data Img) of
           Null \<Rightarrow>
             andthen (open_image base Img s) (\<lambda>(f, s1).
             case f of
               None \<Rightarrow> Inr (False, demo_freevidmem D data s1)
             | Some (fp, mm_data_addr) \<Rightarrow>
                 andthen (decompress_image Img data mm_data_addr bpp s1) (\<lambda>s2.
                 andthen (close_image fp s2) (\<lambda>s3. Inr (True, s3))))
         | Addr a \<Rightarrow> andthen (decompress_image Img data a bpp s) (\<lambda>s1. Inr (True, s1))
         | VidBuf i \<Rightarrow> Inl WrongPointer)
      else
        (if img_data s (Data Img) = Null then
           andthen (open_image base Img s) (\<lambda>(f, s1).
           case f of
             None \<Rightarrow> Inr (False, demo_freevidmem D data s1)
           | Some (fp, mm_data_addr) \<Rightarrow>
               andthen (demo_copytovidmem D data mm_data_addr (DataLength Img) s1) (\<lambda>s2.
               andthen (close_image fp s2) (\<lambda>s3. Inr (True, s3))))
         else andthen (demo_copytovidmem D data 0 (DataLength Img) s) (\<lambda>s1. Inr (True, s1))))"

definition Init2DImg :: "'d dhd \<Rightarrow> u32 \<Rightarrow> Img_t option \<Rightarrow> 'd gfx \<Rightarrow> gfx_error + ptr \<times> 'd gfx" where
  "Init2DImg D base I s =
     (case I of
        None \<Rightarrow> Inr (Null, s)
      | Some Img \<Rightarrow>
          if Attributes Img AND IMG_ATTRIBUTE_USE_FROM_PERSISTENT_MEMORY \<noteq> 0 then
            (if img_data s (Data Img) = Null then
               andthen (open_image base Img s) (\<lambda>(f, s1).
               case f of
                 None \<Rightarrow> Inr (Null, s1)
               | Some (fp, mm_data_addr) \<Rightarrow>
                   andthen (close_image fp s1) (\<lambda>s2.
                   Inr (img_data s2 (Data Img), s2\<lparr>img_data := (img_data s2)(Data Img := ptr_of mm_data_addr)\<rparr>)))
             else Inr (img_data s (Data Img), s))
          else
            (case img_bpp (Colourformat Img) of
               None \<Rightarrow> andthen (ClusterError ERR_TEXTURE_SETUP_FAILED) (\<lambda>_. Inr (img_data s (Data Img), s))
             | Some bpp \<Rightarrow>
                 let (data, s1) = demo_allocvidmem D (Height Img * Width Img * ucast bpp) s in
                 if data = Null
                 then andthen (ClusterError ERR_TEXTURE_SETUP_FAILED) (\<lambda>_. Inr (img_data s1 (Data Img), s1))
                 else
                   andthen (fill_image D base Img data bpp s1) (\<lambda>(ok, s2).
                   if ok
                   then Inr (img_data s2 (Data Img), s2\<lparr>img_data := (img_data s2)(Data Img := data)\<rparr>)
                   else Inr (Null, s2))))"

definition Deinit2DImg :: "'d dhd \<Rightarrow> Img_t \<Rightarrow> ptr \<Rightarrow> 'd gfx \<Rightarrow> 'd gfx" where
  "Deinit2DImg D Img Original s =
     (let s' = (if Attributes Img AND IMG_ATTRIBUTE_USE_FROM_PERSISTENT_MEMORY \<noteq> 0 then s
                else demo_freevidmem D (img_data s (Data Img)) s)
      in s'\<lparr>img_data := (img_data s')(Data Img := Original)\<rparr>)"

text \<open>\<^verbatim>\<open>GetDrw2dFormat\<close> (img\_format\_convert.c); the formats of the drawing library are its names.\<close>

datatype r_drw2d_PixelFormat_t =
  R_DRW2D_PIXELFORMAT_NONE | R_DRW2D_PIXELFORMAT_ALPHA8 | R_DRW2D_PIXELFORMAT_RGB565
  | R_DRW2D_PIXELFORMAT_ARGB8888 | R_DRW2D_PIXELFORMAT_ARGB1555 | R_DRW2D_PIXELFORMAT_zero

definition translation :: "r_drw2d_PixelFormat_t list" where
  "translation =
     [R_DRW2D_PIXELFORMAT_ALPHA8, R_DRW2D_PIXELFORMAT_RGB565, R_DRW2D_PIXELFORMAT_ARGB8888,
      R_DRW2D_PIXELFORMAT_zero, R_DRW2D_PIXELFORMAT_ARGB1555, R_DRW2D_PIXELFORMAT_ARGB8888]"

definition GetDrw2dFormat :: "u32 \<Rightarrow> r_drw2d_PixelFormat_t" where
  "GetDrw2dFormat ColorFormat =
     (let c = unat (ColorFormat AND 0xF) in
      if length translation \<le> c then R_DRW2D_PIXELFORMAT_NONE else translation ! c)"

section \<open>The buffers as an array of slots\<close>

definition vid_claim :: "'d dhd \<Rightarrow> u32 \<Rightarrow> 'd gfx \<Rightarrow> (nat \<times> 'd gfx) option" where
  "vid_claim D siz s = (case demo_allocvidmem D siz s of (VidBuf i, t) \<Rightarrow> Some (i, t) | _ \<Rightarrow> None)"

definition vid_served :: "'d dhd \<Rightarrow> u32 \<Rightarrow> 'd gfx \<Rightarrow> bool" where
  "vid_served D siz s \<longleftrightarrow> dhd_alloc_vidmem D (driver s) siz \<noteq> None"

lemma allocvidmem_VidBuf:
  assumes "demo_allocvidmem D siz s = (VidBuf i, t)"
  obtains gpu d where "first_free (vidmembuffer_alloced s) = Some i"
    and "dhd_alloc_vidmem D (driver s) siz = Some (gpu, d)"
    and "t = s\<lparr>vidmembuffer_alloced := (vidmembuffer_alloced s)[i := True],
      vidmembuffer := (vidmembuffer s)[i := gpu], driver := d\<rparr>"
  using assms by (auto simp: demo_allocvidmem_def Let_def split: option.splits)

interpretation vidmem: slots vidmembuffer_alloced "vid_served D" "vid_claim D"
  "\<lambda>i. demo_freevidmem D (VidBuf i)" for D
proof
  fix siz and s :: "'a gfx"
  assume "vid_served D siz s"
  then show "(vid_claim D siz s = None) = (\<forall>u \<in> set (vidmembuffer_alloced s). u)"
    unfolding first_free_None [symmetric]
    by (auto simp: vid_claim_def vid_served_def demo_allocvidmem_def Let_def split: option.split)
next
  fix siz and s :: "'a gfx" and i t
  assume "vid_claim D siz s = Some (i, t)"
  then have "demo_allocvidmem D siz s = (VidBuf i, t)"
    by (auto simp: vid_claim_def split: prod.splits ptr.splits)
  then obtain gpu d where "first_free (vidmembuffer_alloced s) = Some i"
    and "t = s\<lparr>vidmembuffer_alloced := (vidmembuffer_alloced s)[i := True],
      vidmembuffer := (vidmembuffer s)[i := gpu], driver := d\<rparr>"
    by (rule allocvidmem_VidBuf)
  then show "i < length (vidmembuffer_alloced s) \<and> \<not> vidmembuffer_alloced s ! i
      \<and> vidmembuffer_alloced t = (vidmembuffer_alloced s)[i := True]"
    by (simp add: first_free_Some)
next
  fix i and s :: "'a gfx"
  show "vidmembuffer_alloced (demo_freevidmem D (VidBuf i) s) = (vidmembuffer_alloced s)[i := False]"
    by (auto simp: demo_freevidmem_def list_update_beyond)
qed

lemma allocvidmem_cases:
  "case demo_allocvidmem D siz s of
     (VidBuf i, t) \<Rightarrow>
       i < length (vidmembuffer_alloced s) \<and> \<not> vidmembuffer_alloced s ! i
       \<and> (\<forall>j < i. vidmembuffer_alloced s ! j)
       \<and> vidmembuffer_alloced t = (vidmembuffer_alloced s)[i := True]
       \<and> (\<exists>gpu d. dhd_alloc_vidmem D (driver s) siz = Some (gpu, d) \<and> vidmembuffer t = (vidmembuffer s)[i := gpu])
       \<and> vidmembuffer_alloced (demo_freevidmem D (VidBuf i) t) = vidmembuffer_alloced s
   | (Null, t) \<Rightarrow>
       (\<forall>u \<in> set (vidmembuffer_alloced s). u) \<and> t = s
       \<or> (\<exists>i < length (vidmembuffer_alloced s). \<not> vidmembuffer_alloced s ! i
           \<and> dhd_alloc_vidmem D (driver s) siz = None
           \<and> t = s\<lparr>vidmembuffer_alloced := (vidmembuffer_alloced s)[i := True]\<rparr>)
   | (Addr _, _) \<Rightarrow> False"
proof -
  obtain p t where r: "demo_allocvidmem D siz s = (p, t)"
    by fastforce
  show ?thesis
  proof (cases p)
    case (VidBuf i)
    then obtain gpu d where f: "first_free (vidmembuffer_alloced s) = Some i"
      and "dhd_alloc_vidmem D (driver s) siz = Some (gpu, d)"
      and "t = s\<lparr>vidmembuffer_alloced := (vidmembuffer_alloced s)[i := True],
        vidmembuffer := (vidmembuffer s)[i := gpu], driver := d\<rparr>"
      using r allocvidmem_VidBuf by metis
    moreover have "vidmembuffer_alloced (demo_freevidmem D (VidBuf i) t) = vidmembuffer_alloced s"
      by (rule vidmem.claim_release [of D siz]) (simp add: vid_claim_def r VidBuf)
    ultimately show ?thesis
      using VidBuf by (simp add: r first_free_Some)
  next
    case Null
    then show ?thesis
      using r by (auto simp: demo_allocvidmem_def Let_def first_free_None first_free_Some split: option.splits)
  next
    case (Addr a)
    then show ?thesis
      using r by (auto simp: demo_allocvidmem_def Let_def split: option.splits)
  qed
qed

text \<open>
  An allocation that succeeds returns a buffer that was free, the
  lowest one, with the address the driver gave; no other buffer changes, and freeing it gives back
  exactly the previous set of buffers. An allocation fails only when all buffers are in use, and then
  nothing changes, or when the driver fails; in that case the buffer stays marked as allocated
  although nobody owns it.
\<close>

theorem vidmem_alloc_correct:
  "case demo_allocvidmem D siz s of
     (VidBuf i, t) \<Rightarrow>
       i < length (vidmembuffer_alloced s) \<and> \<not> vidmembuffer_alloced s ! i
       \<and> (\<forall>j < i. vidmembuffer_alloced s ! j)
       \<and> vidmembuffer_alloced t = (vidmembuffer_alloced s)[i := True]
       \<and> (\<exists>gpu d. dhd_alloc_vidmem D (driver s) siz = Some (gpu, d) \<and> vidmembuffer t = (vidmembuffer s)[i := gpu])
       \<and> vidmembuffer_alloced (demo_freevidmem D (VidBuf i) t) = vidmembuffer_alloced s
   | (Null, t) \<Rightarrow>
       (\<forall>u \<in> set (vidmembuffer_alloced s). u) \<and> t = s
       \<or> (\<exists>i < length (vidmembuffer_alloced s). \<not> vidmembuffer_alloced s ! i
           \<and> dhd_alloc_vidmem D (driver s) siz = None
           \<and> t = s\<lparr>vidmembuffer_alloced := (vidmembuffer_alloced s)[i := True]\<rparr>)
   | (Addr _, _) \<Rightarrow> False"
  by (rule allocvidmem_cases)

text \<open>A driver for the witnesses: it hands out increasing addresses and fails on an empty request.\<close>

definition sample_dhd :: "u32 dhd" where
  "sample_dhd =
     \<lparr>dhd_alloc_vidmem = (\<lambda>d n. if n = 0 then None else Some (d, d + n)),
      dhd_free_vidmem = (\<lambda>d p. d), dhd_upload_vidmem = (\<lambda>src dst n. memcpy dst src n)\<rparr>"

definition sample_gfx :: "memory \<Rightarrow> romfs \<Rightarrow> u32 gfx" where
  "sample_gfx m fs =
     \<lparr>vidmembuffer = [0, 0], vidmembuffer_alloced = [True, False], driver = 0x80000000,
      mem = m, filesys = fs, img_data = (\<lambda>_. Null)\<rparr>"

theorem vidmem_alloc_witness:
  "\<exists>t. demo_allocvidmem sample_dhd 64 (sample_gfx (\<lambda>_. 0) romfs_start) = (VidBuf 1, t)
     \<and> vidmembuffer t = [0, 0x80000000]
     \<and> vidmembuffer_alloced (demo_freevidmem sample_dhd (VidBuf 1) t) = [True, False]"
proof -
  obtain t where r: "demo_allocvidmem sample_dhd 64 (sample_gfx (\<lambda>_. 0) romfs_start) = (VidBuf 1, t)"
    by (simp add: demo_allocvidmem_def sample_dhd_def sample_gfx_def)
  show ?thesis
    using vidmem_alloc_correct [where D = sample_dhd and siz = 64 and s = "sample_gfx (\<lambda>_. 0) romfs_start"] unfolding r
    by (intro exI [of _ t]) (auto simp: sample_dhd_def sample_gfx_def)
qed

section \<open>Images from the file system\<close>

lemma open_image_Some:
  assumes "open_image base Img s = Inr (Some (i, a), t)"
  shows "\<exists>fs. t = s\<lparr>filesys := fs\<rparr> \<and> locRoot fs = locRoot (filesys s) \<and> a \<noteq> 0
    \<and> free_handle (filesys s) = Some i \<and> in_use fs = (in_use (filesys s))[i := True]"
proof -
  from assms obtain fs where f: "eeRomFs_FOpen base (Name Img) (filesys s) = Inr (Some i, fs)"
    and t: "t = s\<lparr>filesys := fs\<rparr>" "a \<noteq> 0"
    by (auto simp: open_image_def andthen_def file_result_def split: sum.splits option.splits if_splits)
  then have "open_slot base (Name Img) (filesys s) = Some (i, fs)"
    by (simp add: open_slot_def)
  then show ?thesis
    using FOpen_Some [OF f] handles.claim_Some t by auto
qed

lemma open_image_None:
  "open_image base Img s = Inr (None, t) \<Longrightarrow> \<exists>fs. t = s\<lparr>filesys := fs\<rparr>"
  by (auto simp: open_image_def andthen_def file_result_def split: sum.splits option.splits if_splits)

lemma close_image_Inr:
  assumes "close_image i s = Inr t"
  shows "\<exists>fs. t = s\<lparr>filesys := fs\<rparr> \<and> locRoot fs = locRoot (filesys s) \<and> in_use fs = (in_use (filesys s))[i := False]"
proof -
  from assms obtain r fs where f: "eeRomFs_FClose (Some i) (filesys s) = Inr (r, fs)" and t: "t = s\<lparr>filesys := fs\<rparr>"
    by (auto simp: close_image_def andthen_def file_result_def split: sum.splits)
  then have "locRoot fs = locRoot (filesys s)" and "close_slot i (filesys s) = fs"
    by (auto simp: eeRomFs_FClose_def close_slot_def split: if_splits)
  then show ?thesis
    using t handles.release_used [of i "filesys s"] by auto
qed

text \<open>What loading an image leaves alone: the buffers, the other images and the number of open files.\<close>

definition same_resources :: "'d gfx \<Rightarrow> 'd gfx \<Rightarrow> bool" where
  "same_resources s t \<longleftrightarrow>
     vidmembuffer_alloced t = vidmembuffer_alloced s \<and> img_data t = img_data s
     \<and> in_use (filesys t) = in_use (filesys s) \<and> locRoot (filesys t) = locRoot (filesys s)"

lemma open_close:
  assumes o: "open_image base Img s = Inr (Some (i, a), s1)"
    and c: "close_image i s2 = Inr t"
    and k: "vidmembuffer_alloced s2 = vidmembuffer_alloced s1" "img_data s2 = img_data s1" "filesys s2 = filesys s1"
  shows "same_resources s t"
proof -
  from open_image_Some [OF o] close_image_Inr [OF c] k show ?thesis
    by (auto simp: same_resources_def free_handle_Some list_update_same_conv)
qed

lemma fill_image_resources:
  assumes "fill_image D base Img data bpp s = Inr (True, t)" and "img_data s (Data Img) = Null"
  shows "same_resources s t"
proof -
  from assms obtain i a s1 where o: "open_image base Img s = Inr (Some (i, a), s1)"
    by (auto simp: fill_image_def andthen_def split: sum.splits option.splits if_splits)
  show ?thesis
    using assms o
    by (auto simp: fill_image_def decompress_image_def demo_copytovidmem_def andthen_def
        split: sum.splits if_splits ptr.splits intro: open_close [OF o])
qed

lemma fill_image_False:
  assumes "fill_image D base Img data bpp s = Inr (False, t)"
  shows "img_data t = img_data s"
  using assms
  by (auto simp: fill_image_def andthen_def demo_freevidmem_def split: sum.splits option.splits if_splits ptr.splits
      dest!: open_image_None)

lemma allocvidmem_img_data: "demo_allocvidmem D siz s = (p, t) \<Longrightarrow> img_data t = img_data s \<and> filesys t = filesys s \<and> mem t = mem s"
  by (auto simp: demo_allocvidmem_def Let_def split: option.splits)

lemma Deinit_restores:
  assumes r: "same_resources s1 s2" and a: "demo_allocvidmem D siz s = (VidBuf i, s1)"
    and np: "Attributes Img AND IMG_ATTRIBUTE_USE_FROM_PERSISTENT_MEMORY = 0"
  shows "same_resources s (Deinit2DImg D Img (img_data s (Data Img)) (s2\<lparr>img_data := (img_data s2)(Data Img := VidBuf i)\<rparr>))"
proof -
  have "vid_claim D siz s = Some (i, s1)"
    by (simp add: vid_claim_def a)
  from vidmem.claim_Some [OF this]
  have "i < length (vidmembuffer_alloced s)" "\<not> vidmembuffer_alloced s ! i"
    "vidmembuffer_alloced s1 = (vidmembuffer_alloced s)[i := True]"
    by simp_all
  then show ?thesis
    using r np allocvidmem_img_data [OF a]
    by (auto simp: same_resources_def Deinit2DImg_def demo_freevidmem_def list_update_same_conv)
qed

lemma init_deinit:
  assumes run: "Init2DImg D base (Some Img) s = Inr (old, t)"
    and null: "img_data s (Data Img) = Null" and ok: "img_data t (Data Img) \<noteq> Null"
  shows "old = Null \<and> same_resources s (Deinit2DImg D Img old t)"
proof (cases "Attributes Img AND IMG_ATTRIBUTE_USE_FROM_PERSISTENT_MEMORY = 0")
  case True
  obtain bpp data s1 where b: "img_bpp (Colourformat Img) = Some bpp"
    and a: "demo_allocvidmem D (Height Img * Width Img * ucast bpp) s = (data, s1)" and d: "data \<noteq> Null"
    using run True
    by (auto simp: Init2DImg_def ClusterError_def Let_def split: option.splits prod.splits if_splits)
  then obtain i where data: "data = VidBuf i"
    using allocvidmem_cases [where D = D and s = s and siz = "Height Img * Width Img * ucast bpp"]
    by (cases data) auto
  have s1: "img_data s1 = img_data s"
    using allocvidmem_img_data [OF a] by simp
  from run True b a data obtain ok' s2 where f: "fill_image D base Img data bpp s1 = Inr (ok', s2)"
    and t: "(old, t) = (if ok' then (img_data s2 (Data Img), s2\<lparr>img_data := (img_data s2)(Data Img := data)\<rparr>) else (Null, s2))"
    by (auto simp: Init2DImg_def andthen_def split: sum.splits if_splits)
  have "ok'"
    using f t fill_image_False [of D base Img data bpp s1 s2] ok null s1 by (cases ok') auto
  with f null s1 have r: "same_resources s1 s2"
    using fill_image_resources by fastforce
  then show ?thesis
    using t \<open>ok'\<close> Deinit_restores [OF r a [unfolded data] True] null s1
    by (simp add: data same_resources_def)
next
  case False
  obtain i a s1 s2 where o: "open_image base Img s = Inr (Some (i, a), s1)" and c: "close_image i s1 = Inr s2"
    and t: "old = img_data s2 (Data Img)" "t = s2\<lparr>img_data := (img_data s2)(Data Img := ptr_of a)\<rparr>"
    using run False null ok open_image_None [of base Img s]
    by (fastforce simp: Init2DImg_def andthen_def split: sum.splits option.splits)
  have "same_resources s s2"
    by (rule open_close [OF o c]) simp_all
  then show ?thesis
    using t False null by (auto simp: same_resources_def Deinit2DImg_def)
qed

section \<open>Properties of the image operations\<close>

text \<open>
  Property C29 (init2dimg_roundtrip): an image that comes from the file system and has been prepared
  successfully is released completely: after \<^verbatim>\<open>Deinit2DImg\<close> with the pointer that \<^verbatim>\<open>Init2DImg\<close>
  returned, the pointer of every image, the allocated video buffers and the open files are as they
  were before.
\<close>

theorem init2dimg_roundtrip:
  assumes "Init2DImg D base (Some Img) s = Inr (old, t)"
    and "img_data s (Data Img) = Null" and "img_data t (Data Img) \<noteq> Null"
  shows "let u = Deinit2DImg D Img old t in
    img_data u = img_data s \<and> vidmembuffer_alloced u = vidmembuffer_alloced s
    \<and> in_use (filesys u) = in_use (filesys s)"
  using init_deinit [OF assms] unfolding same_resources_def Let_def by blast

lemma rom_image_decompressed:
  assumes att: "Attributes Img AND IMG_ATTRIBUTE_USE_FROM_PERSISTENT_MEMORY = 0"
      "Attributes Img AND IMG_ATTRIBUTE_IS_RLE_COMPRESSED \<noteq> 0" "Colourformat Img AND IMG_MODE_RLE = 0"
    and bpp: "img_bpp (Colourformat Img) = Some bpp" and null: "img_data s (Data Img) = Null"
    and root: "locRoot (filesys s) = Some root" "terminated root"
    and d: "map_of (map (\<lambda>d. (d_Name d, d)) (files root)) (Name Img) = Some d"
    and h: "free_handle (filesys s) = Some h" and i: "first_free (vidmembuffer_alloced s) = Some i"
    and len: "length (vidmembuffer s) = length (vidmembuffer_alloced s)"
    and gpu: "dhd_alloc_vidmem D (driver s) (Height Img * Width Img * ucast bpp) = Some (gpu, dr)" "gpu \<noteq> 0"
    and src: "src = d_Address d - d_Address (hd root) + base" "src \<noteq> 0"
  shows "\<exists>t. Init2DImg D base (Some Img) s = Inr (Null, t)
    \<and> img_data t = (img_data s)(Data Img := VidBuf i)
    \<and> vidmembuffer_alloced t = (vidmembuffer_alloced s)[i := True]
    \<and> in_use (filesys t) = in_use (filesys s)
    \<and> mem t = r_mem (locDecompressRLE bpp \<lparr>r_mem = mem s, r_dst = gpu, r_src = src, r_size = DataLength Img\<rparr>)"
proof -
  define s1 where "s1 = s\<lparr>vidmembuffer_alloced := (vidmembuffer_alloced s)[i := True],
    vidmembuffer := (vidmembuffer s)[i := gpu], driver := dr\<rparr>"
  have a: "demo_allocvidmem D (Height Img * Width Img * ucast bpp) s = (VidBuf i, s1)"
    by (simp add: demo_allocvidmem_def i gpu s1_def)
  define fs where "fs = filesys s\<lparr>locHandle := (locHandle (filesys s))[h := opened base root d]\<rparr>"
  have hl: "h < length (locHandle (filesys s))"
    using h by (simp add: free_handle_Some in_use_def)
  have o: "open_image base Img s1 = Inr (Some (h, src), s1\<lparr>filesys := fs\<rparr>)"
    using hl src by (simp add: open_image_def s1_def FOpen_eq [OF root] h find_map_of d fs_def eeRomFs_MMap_def opened_def)
  define s2 where "s2 = s1\<lparr>filesys := fs,
    mem := r_mem (locDecompressRLE bpp \<lparr>r_mem = mem s, r_dst = gpu, r_src = src, r_size = DataLength Img\<rparr>)\<rparr>"
  have "i < length (vidmembuffer s)"
    using i len by (simp add: first_free_Some)
  then have dec: "decompress_image Img (VidBuf i) src bpp (s1\<lparr>filesys := fs\<rparr>) = Inr s2"
    using gpu(2) by (simp add: decompress_image_def demo_getvidmemptr_def s1_def s2_def)
  obtain s3 where c: "close_image h s2 = Inr s3"
    using hl by (simp add: close_image_def eeRomFs_FClose_def s2_def fs_def)
  have r: "same_resources s1 s3"
    by (rule open_close [OF o c]) (simp_all add: s2_def)
  have m: "mem s3 = mem s2"
    using close_image_Inr [OF c] by auto
  have n1: "img_data s1 (Data Img) = Null"
    using null by (simp add: s1_def)
  have "fill_image D base Img (VidBuf i) bpp s1 = Inr (True, s3)"
    using att(2,3) by (simp add: fill_image_def n1 o dec c)
  then have "Init2DImg D base (Some Img) s =
      Inr (img_data s3 (Data Img), s3\<lparr>img_data := (img_data s3)(Data Img := VidBuf i)\<rparr>)"
    using att(1) bpp by (simp add: Init2DImg_def a)
  then show ?thesis
    using r m null by (simp add: same_resources_def s1_def s2_def)
qed

text \<open>
  Property C28 (init2dimg_rom_correct): preparing a compressed image of the file system brings its
  pixels into video memory. When the file exists, a handle and a buffer are free, the driver grants
  the memory, and the file holds the packets of \<open>ps\<close> with the descriptor's length, then
  \<^verbatim>\<open>Init2DImg\<close> returns the null pointer the descriptor had, the descriptor now refers to the lowest
  free buffer, that buffer holds the expanded pixels, no other byte of memory changes and the file is
  closed again.
\<close>

theorem init2dimg_rom_correct:
  assumes "Attributes Img AND IMG_ATTRIBUTE_USE_FROM_PERSISTENT_MEMORY = 0"
      "Attributes Img AND IMG_ATTRIBUTE_IS_RLE_COMPRESSED \<noteq> 0" "Colourformat Img AND IMG_MODE_RLE = 0"
    and "img_bpp (Colourformat Img) = Some bpp" and "img_data s (Data Img) = Null"
    and "locRoot (filesys s) = Some root" "terminated root"
    and "map_of (map (\<lambda>d. (d_Name d, d)) (files root)) (Name Img) = Some d"
    and "free_handle (filesys s) = Some h" and "first_free (vidmembuffer_alloced s) = Some i"
    and "length (vidmembuffer s) = length (vidmembuffer_alloced s)"
    and "dhd_alloc_vidmem D (driver s) (Height Img * Width Img * ucast bpp) = Some (gpu, dr)" "gpu \<noteq> 0"
    and "src = d_Address d - d_Address (hd root) + base" "src \<noteq> 0"
    and "\<forall>pk \<in> set ps. valid_packet (unat bpp) pk" and "0 < bpp"
    and "enc = concat (map encode ps)" and "out = concat (map expand ps)"
    and "bytes_at (mem s) src (length enc) = enc" and "length enc < 2 ^ 32" and "length out < 2 ^ 32"
    and "apart gpu (of_nat (length out)) src (of_nat (length enc))"
    and "DataLength Img = of_nat (length enc)"
  shows "\<exists>t. Init2DImg D base (Some Img) s = Inr (Null, t)
    \<and> img_data t = (img_data s)(Data Img := VidBuf i)
    \<and> vidmembuffer_alloced t = (vidmembuffer_alloced s)[i := True]
    \<and> in_use (filesys t) = in_use (filesys s)
    \<and> bytes_at (mem t) gpu (length out) = out
    \<and> (\<forall>a. length out \<le> unat (a - gpu) \<longrightarrow> mem t a = mem s a)"
proof -
  obtain t where "Init2DImg D base (Some Img) s = Inr (Null, t)"
    and "img_data t = (img_data s)(Data Img := VidBuf i)"
    and "vidmembuffer_alloced t = (vidmembuffer_alloced s)[i := True]"
    and "in_use (filesys t) = in_use (filesys s)"
    and "mem t = r_mem (locDecompressRLE bpp \<lparr>r_mem = mem s, r_dst = gpu, r_src = src, r_size = of_nat (length enc)\<rparr>)"
    using rom_image_decompressed [OF assms(1-15)] assms(24) by auto
  then show ?thesis
    using decompress_run [OF assms(16-23)] by (intro exI [of _ t]) (simp add: Let_def)
qed

text \<open>A compressed image of one packet for the witnesses: three equal pixels.\<close>

definition sample_img :: Img_t where
  "sample_img =
     \<lparr>Name = ''b'', Width = 3, Height = 1, Colourformat = IMG_ARGB8888, IsIndexed = 0,
      Attributes = IMG_ATTRIBUTE_IS_RLE_COMPRESSED, IndexLength = 0, IndexEntrys = 0, Data = ''p'', DataLength = 5\<rparr>"

definition sample_rom :: "u32 gfx" where
  "sample_rom =
     sample_gfx (store (\<lambda>_. 0) 0x40000004 [0x82, 1, 2, 3, 4])
       (sample_fs \<lparr>Pos = 0, Size = 0, Address = 0, InUse = 0\<rparr>)"

theorem init2dimg_rom_witness:
  "\<exists>t. Init2DImg sample_dhd 0x40000000 (Some sample_img) sample_rom = Inr (Null, t)
     \<and> img_data t = (\<lambda>_. Null)(''p'' := VidBuf 1)
     \<and> bytes_at (mem t) 0x80000000 12 = [1, 2, 3, 4, 1, 2, 3, 4, 1, 2, 3, 4]"
proof -
  let ?enc = "[0x82, 1, 2, 3, 4] :: u8 list" and ?out = "[1, 2, 3, 4, 1, 2, 3, 4, 1, 2, 3, 4] :: u8 list"
  let ?ps = "[Run [1, 2, 3, 4] 3]"
  have enc: "?enc = concat (map encode ?ps)" and out: "?out = concat (map expand ?ps)"
    by (simp_all add: numeral_3_eq_3)
  have src: "bytes_at (mem sample_rom) 0x40000004 (length ?enc) = ?enc"
    by (simp add: bytes_at_def store_def upt_rec sample_rom_def sample_gfx_def)
  have len: "12 = length ?out"
    by simp
  have "\<exists>t. Init2DImg sample_dhd 0x40000000 (Some sample_img) sample_rom = Inr (Null, t)
    \<and> img_data t = (img_data sample_rom)(Data sample_img := VidBuf 1)
    \<and> vidmembuffer_alloced t = (vidmembuffer_alloced sample_rom)[1 := True]
    \<and> in_use (filesys t) = in_use (filesys sample_rom)
    \<and> bytes_at (mem t) 0x80000000 (length ?out) = ?out
    \<and> (\<forall>a. length ?out \<le> unat (a - 0x80000000) \<longrightarrow> mem t a = mem sample_rom a)"
    by (rule init2dimg_rom_correct [where bpp = 4 and root = sample_table and d = "sample_table ! 1" and h = 1
          and dr = "0x8000000C" and src = "0x40000004" and ps = ?ps, OF _ _ _ _ _ _ _ _ _ _ _ _ _ _ _ _ _ enc out src])
      (simp_all add: sample_img_def sample_rom_def sample_gfx_def sample_fs_def sample_table_def sample_dhd_def
        img_bpp_def terminated_def files_def free_handle_def apart_def)
  then show ?thesis
    unfolding len by (auto simp: sample_rom_def sample_gfx_def sample_img_def)
qed

lemma sample_init:
  "\<exists>t. Init2DImg sample_dhd 0x40000000 (Some sample_img) sample_rom = Inr (Null, t) \<and> img_data t ''p'' = VidBuf 1"
proof -
  have "\<exists>t. Init2DImg sample_dhd 0x40000000 (Some sample_img) sample_rom = Inr (Null, t)
    \<and> img_data t = (img_data sample_rom)(Data sample_img := VidBuf 1)
    \<and> vidmembuffer_alloced t = (vidmembuffer_alloced sample_rom)[1 := True]
    \<and> in_use (filesys t) = in_use (filesys sample_rom)
    \<and> mem t = r_mem (locDecompressRLE 4 \<lparr>r_mem = mem sample_rom, r_dst = 0x80000000, r_src = 0x40000004,
        r_size = DataLength sample_img\<rparr>)"
    by (rule rom_image_decompressed [where root = sample_table and d = "sample_table ! 1" and h = 1 and dr = "0x8000000C"])
      (simp_all add: sample_img_def sample_rom_def sample_gfx_def sample_fs_def sample_table_def sample_dhd_def
        img_bpp_def terminated_def files_def free_handle_def)
  then show ?thesis
    by (auto simp: sample_img_def)
qed

theorem init2dimg_roundtrip_witness:
  "\<exists>t. Init2DImg sample_dhd 0x40000000 (Some sample_img) sample_rom = Inr (Null, t)
     \<and> img_data (Deinit2DImg sample_dhd sample_img Null t) = (\<lambda>_. Null)
     \<and> vidmembuffer_alloced (Deinit2DImg sample_dhd sample_img Null t) = [True, False]"
proof -
  obtain t where t: "Init2DImg sample_dhd 0x40000000 (Some sample_img) sample_rom = Inr (Null, t)"
    and p: "img_data t ''p'' = VidBuf 1"
    using sample_init by blast
  have d: "Data sample_img = ''p''" and n: "img_data sample_rom = (\<lambda>_. Null)"
    and v: "vidmembuffer_alloced sample_rom = [True, False]"
    by (simp_all add: sample_img_def sample_rom_def sample_gfx_def)
  show ?thesis
    using init2dimg_roundtrip [OF t] t p by (intro exI [of _ t]) (simp add: d n v Let_def)
qed

text \<open>
  An image whose file is not in the table is not prepared: the
  null pointer is returned, the descriptor still has no data, the video buffer that was allocated for
  it is free again and no file is left open.
\<close>

theorem init2dimg_missing_file:
  assumes "Attributes Img AND IMG_ATTRIBUTE_USE_FROM_PERSISTENT_MEMORY = 0"
    and "img_bpp (Colourformat Img) = Some bpp" and "img_data s (Data Img) = Null"
    and "locRoot (filesys s) = Some root" "terminated root" and "Name Img \<notin> d_Name ` set (files root)"
    and "first_free (vidmembuffer_alloced s) = Some i"
    and "dhd_alloc_vidmem D (driver s) (Height Img * Width Img * ucast bpp) = Some (gpu, dr)"
  shows "\<exists>t. Init2DImg D base (Some Img) s = Inr (Null, t) \<and> img_data t = img_data s
    \<and> vidmembuffer_alloced t = vidmembuffer_alloced s \<and> filesys t = filesys s \<and> mem t = mem s"
proof -
  define s1 where "s1 = s\<lparr>vidmembuffer_alloced := (vidmembuffer_alloced s)[i := True],
    vidmembuffer := (vidmembuffer s)[i := gpu], driver := dr\<rparr>"
  have a: "demo_allocvidmem D (Height Img * Width Img * ucast bpp) s = (VidBuf i, s1)"
    by (simp add: demo_allocvidmem_def assms(7,8) s1_def)
  have f: "find (\<lambda>d. d_Name d = Name Img) (files root) = None"
    using assms(6) unfolding find_None_iff by force
  have o: "open_image base Img s1 = Inr (None, s1)"
    by (simp add: open_image_def s1_def FOpen_eq [OF assms(4,5)] f split: option.split)
  have "img_data s1 (Data Img) = Null"
    using assms(3) by (simp add: s1_def)
  then have "fill_image D base Img (VidBuf i) bpp s1 = Inr (False, demo_freevidmem D (VidBuf i) s1)"
    by (simp add: fill_image_def o)
  then have run: "Init2DImg D base (Some Img) s = Inr (Null, demo_freevidmem D (VidBuf i) s1)"
    using assms(1,2) by (simp add: Init2DImg_def a)
  have "i < length (vidmembuffer_alloced s)" "\<not> vidmembuffer_alloced s ! i"
    using assms(7) by (simp_all add: first_free_Some)
  then show ?thesis
    by (intro exI [of _ "demo_freevidmem D (VidBuf i) s1"])
      (auto simp: run demo_freevidmem_def s1_def list_update_same_conv)
qed

theorem init2dimg_missing_file_witness:
  "\<exists>t. Init2DImg sample_dhd 0x40000000 (Some (sample_img\<lparr>Name := ''c''\<rparr>)) sample_rom = Inr (Null, t)
     \<and> vidmembuffer_alloced t = [True, False]"
  using init2dimg_missing_file [where Img = "sample_img\<lparr>Name := ''c''\<rparr>" and s = sample_rom and D = sample_dhd
    and base = "0x40000000" and root = sample_table and bpp = 4 and i = 1 and gpu = "0x80000000" and dr = "0x8000000C"]
  by (simp add: sample_img_def sample_rom_def sample_gfx_def sample_fs_def sample_table_def sample_dhd_def
        img_bpp_def terminated_def files_def) metis

end
