(* ===== verification/Images.thy ===== *)
theory Images
  imports Texture
begin

text \<open>
  The image descriptors of the cluster application (\<^verbatim>\<open>image/*.c\<close>, one per file), in the order of the file
  table, and how they agree with the files they name.
\<close>

definition IconCluster :: Img_t where
  "IconCluster =
     \<lparr>Name = ''icon_cluster.bin'', Width = 48, Height = 46, Colourformat = IMG_RGB565, IsIndexed = 0,
      Attributes = 0, IndexLength = 0, IndexEntrys = 0,
      Data = ''locIconClusterDataPtr'', DataLength = 4416\<rparr>"

definition ClusterBackGround :: Img_t where
  "ClusterBackGround =
     \<lparr>Name = ''cluster_background.bin'', Width = 1920, Height = 720, Colourformat = IMG_ARGB8888, IsIndexed = 0,
      Attributes = 0, IndexLength = 0, IndexEntrys = 0,
      Data = ''locClusterBackGroundDataPtr'', DataLength = 5529600\<rparr>"

definition ClusterNeedle :: Img_t where
  "ClusterNeedle =
     \<lparr>Name = ''cluster_needle.bin'', Width = 217, Height = 26, Colourformat = IMG_ARGB8888, IsIndexed = 0,
      Attributes = IMG_ATTRIBUTE_IS_RLE_COMPRESSED, IndexLength = 0, IndexEntrys = 0,
      Data = ''locClusterNeedleDataPtr'', DataLength = 22620\<rparr>"

definition TurnLeft :: Img_t where
  "TurnLeft =
     \<lparr>Name = ''cluster_turn_left.bin'', Width = 64, Height = 62, Colourformat = IMG_ARGB8888, IsIndexed = 0,
      Attributes = IMG_ATTRIBUTE_IS_RLE_COMPRESSED, IndexLength = 0, IndexEntrys = 0,
      Data = ''locTurnLeftDataPtr'', DataLength = 11816\<rparr>"

definition TurnLeftOff :: Img_t where
  "TurnLeftOff =
     \<lparr>Name = ''cluster_turn_left_off.bin'', Width = 64, Height = 62, Colourformat = IMG_ARGB8888, IsIndexed = 0,
      Attributes = IMG_ATTRIBUTE_IS_RLE_COMPRESSED, IndexLength = 0, IndexEntrys = 0,
      Data = ''locTurnLeftOffDataPtr'', DataLength = 10621\<rparr>"

definition TurnRight :: Img_t where
  "TurnRight =
     \<lparr>Name = ''cluster_turn_right.bin'', Width = 64, Height = 62, Colourformat = IMG_ARGB8888, IsIndexed = 0,
      Attributes = IMG_ATTRIBUTE_IS_RLE_COMPRESSED, IndexLength = 0, IndexEntrys = 0,
      Data = ''locTurnRightDataPtr'', DataLength = 11818\<rparr>"

definition TurnRightOff :: Img_t where
  "TurnRightOff =
     \<lparr>Name = ''cluster_turn_right_off.bin'', Width = 64, Height = 62, Colourformat = IMG_ARGB8888, IsIndexed = 0,
      Attributes = IMG_ATTRIBUTE_IS_RLE_COMPRESSED, IndexLength = 0, IndexEntrys = 0,
      Data = ''locTurnRightOffDataPtr'', DataLength = 10636\<rparr>"

definition HazardNormal :: Img_t where
  "HazardNormal =
     \<lparr>Name = ''cluster_hazard_normal.bin'', Width = 56, Height = 45, Colourformat = IMG_ARGB8888, IsIndexed = 0,
      Attributes = IMG_ATTRIBUTE_IS_RLE_COMPRESSED, IndexLength = 0, IndexEntrys = 0,
      Data = ''locHazardNormalDataPtr'', DataLength = 6668\<rparr>"

definition HazardSelected :: Img_t where
  "HazardSelected =
     \<lparr>Name = ''cluster_hazard_selected.bin'', Width = 56, Height = 45, Colourformat = IMG_ARGB8888, IsIndexed = 0,
      Attributes = IMG_ATTRIBUTE_IS_RLE_COMPRESSED, IndexLength = 0, IndexEntrys = 0,
      Data = ''locHazardSelectedDataPtr'', DataLength = 7265\<rparr>"

definition BatteryOff :: Img_t where
  "BatteryOff =
     \<lparr>Name = ''cluster_BatteryOff.bin'', Width = 60, Height = 50, Colourformat = IMG_ARGB8888, IsIndexed = 0,
      Attributes = IMG_ATTRIBUTE_IS_RLE_COMPRESSED, IndexLength = 0, IndexEntrys = 0,
      Data = ''locBatteryOffDataPtr'', DataLength = 10918\<rparr>"

definition BatteryOn :: Img_t where
  "BatteryOn =
     \<lparr>Name = ''cluster_BatteryOn.bin'', Width = 60, Height = 50, Colourformat = IMG_ARGB8888, IsIndexed = 0,
      Attributes = IMG_ATTRIBUTE_IS_RLE_COMPRESSED, IndexLength = 0, IndexEntrys = 0,
      Data = ''locBatteryOnDataPtr'', DataLength = 11457\<rparr>"

definition FanOff :: Img_t where
  "FanOff =
     \<lparr>Name = ''cluster_FanOff.bin'', Width = 56, Height = 56, Colourformat = IMG_ARGB8888, IsIndexed = 0,
      Attributes = IMG_ATTRIBUTE_IS_RLE_COMPRESSED, IndexLength = 0, IndexEntrys = 0,
      Data = ''locFanOffDataPtr'', DataLength = 11671\<rparr>"

definition FanOn :: Img_t where
  "FanOn =
     \<lparr>Name = ''cluster_FanOn.bin'', Width = 56, Height = 56, Colourformat = IMG_ARGB8888, IsIndexed = 0,
      Attributes = IMG_ATTRIBUTE_IS_RLE_COMPRESSED, IndexLength = 0, IndexEntrys = 0,
      Data = ''locFanOnDataPtr'', DataLength = 12163\<rparr>"

definition HighLightOff :: Img_t where
  "HighLightOff =
     \<lparr>Name = ''cluster_HighLightOff.bin'', Width = 72, Height = 50, Colourformat = IMG_ARGB8888, IsIndexed = 0,
      Attributes = IMG_ATTRIBUTE_IS_RLE_COMPRESSED, IndexLength = 0, IndexEntrys = 0,
      Data = ''locHighLightOffDataPtr'', DataLength = 12185\<rparr>"

definition HighLightOn :: Img_t where
  "HighLightOn =
     \<lparr>Name = ''cluster_HighLightOn.bin'', Width = 72, Height = 50, Colourformat = IMG_ARGB8888, IsIndexed = 0,
      Attributes = IMG_ATTRIBUTE_IS_RLE_COMPRESSED, IndexLength = 0, IndexEntrys = 0,
      Data = ''locHighLightOnDataPtr'', DataLength = 12410\<rparr>"

definition LowLightOff :: Img_t where
  "LowLightOff =
     \<lparr>Name = ''cluster_LowLightOff.bin'', Width = 68, Height = 58, Colourformat = IMG_ARGB8888, IsIndexed = 0,
      Attributes = IMG_ATTRIBUTE_IS_RLE_COMPRESSED, IndexLength = 0, IndexEntrys = 0,
      Data = ''locLowLightOffDataPtr'', DataLength = 12602\<rparr>"

definition LowLightOn :: Img_t where
  "LowLightOn =
     \<lparr>Name = ''cluster_LowLightOn.bin'', Width = 70, Height = 58, Colourformat = IMG_ARGB8888, IsIndexed = 0,
      Attributes = IMG_ATTRIBUTE_IS_RLE_COMPRESSED, IndexLength = 0, IndexEntrys = 0,
      Data = ''locLowLightOnDataPtr'', DataLength = 13744\<rparr>"

definition OilOff :: Img_t where
  "OilOff =
     \<lparr>Name = ''cluster_OilOff.bin'', Width = 53, Height = 55, Colourformat = IMG_ARGB8888, IsIndexed = 0,
      Attributes = IMG_ATTRIBUTE_IS_RLE_COMPRESSED, IndexLength = 0, IndexEntrys = 0,
      Data = ''locOilOffDataPtr'', DataLength = 9149\<rparr>"

definition OilOn :: Img_t where
  "OilOn =
     \<lparr>Name = ''cluster_OilOn.bin'', Width = 53, Height = 56, Colourformat = IMG_ARGB8888, IsIndexed = 0,
      Attributes = IMG_ATTRIBUTE_IS_RLE_COMPRESSED, IndexLength = 0, IndexEntrys = 0,
      Data = ''locOilOnDataPtr'', DataLength = 9650\<rparr>"

definition AirbagOff :: Img_t where
  "AirbagOff =
     \<lparr>Name = ''cluster_AirbagOff.bin'', Width = 56, Height = 62, Colourformat = IMG_ARGB8888, IsIndexed = 0,
      Attributes = IMG_ATTRIBUTE_IS_RLE_COMPRESSED, IndexLength = 0, IndexEntrys = 0,
      Data = ''locAirbagOffDataPtr'', DataLength = 12340\<rparr>"

definition AirbagOn :: Img_t where
  "AirbagOn =
     \<lparr>Name = ''cluster_AirbagOn.bin'', Width = 56, Height = 62, Colourformat = IMG_ARGB8888, IsIndexed = 0,
      Attributes = IMG_ATTRIBUTE_IS_RLE_COMPRESSED, IndexLength = 0, IndexEntrys = 0,
      Data = ''locAirbagOnDataPtr'', DataLength = 13028\<rparr>"

definition BeltOff :: Img_t where
  "BeltOff =
     \<lparr>Name = ''cluster_BeltOff.bin'', Width = 55, Height = 62, Colourformat = IMG_ARGB8888, IsIndexed = 0,
      Attributes = IMG_ATTRIBUTE_IS_RLE_COMPRESSED, IndexLength = 0, IndexEntrys = 0,
      Data = ''locBeltOffDataPtr'', DataLength = 11646\<rparr>"

definition BeltOn :: Img_t where
  "BeltOn =
     \<lparr>Name = ''cluster_BeltOn.bin'', Width = 55, Height = 62, Colourformat = IMG_ARGB8888, IsIndexed = 0,
      Attributes = IMG_ATTRIBUTE_IS_RLE_COMPRESSED, IndexLength = 0, IndexEntrys = 0,
      Data = ''locBeltOnDataPtr'', DataLength = 12061\<rparr>"

definition BrakeOff :: Img_t where
  "BrakeOff =
     \<lparr>Name = ''cluster_BrakeOff.bin'', Width = 65, Height = 55, Colourformat = IMG_ARGB8888, IsIndexed = 0,
      Attributes = IMG_ATTRIBUTE_IS_RLE_COMPRESSED, IndexLength = 0, IndexEntrys = 0,
      Data = ''locBrakeOffDataPtr'', DataLength = 13659\<rparr>"

definition BrakeOn :: Img_t where
  "BrakeOn =
     \<lparr>Name = ''cluster_BrakeOn.bin'', Width = 65, Height = 55, Colourformat = IMG_ARGB8888, IsIndexed = 0,
      Attributes = IMG_ATTRIBUTE_IS_RLE_COMPRESSED, IndexLength = 0, IndexEntrys = 0,
      Data = ''locBrakeOnDataPtr'', DataLength = 13865\<rparr>"

definition WindshieldOff :: Img_t where
  "WindshieldOff =
     \<lparr>Name = ''cluster_WindshieldOff.bin'', Width = 63, Height = 53, Colourformat = IMG_ARGB8888, IsIndexed = 0,
      Attributes = IMG_ATTRIBUTE_IS_RLE_COMPRESSED, IndexLength = 0, IndexEntrys = 0,
      Data = ''locWindshieldOffDataPtr'', DataLength = 11755\<rparr>"

definition WindshieldOn :: Img_t where
  "WindshieldOn =
     \<lparr>Name = ''cluster_WindshieldOn.bin'', Width = 65, Height = 53, Colourformat = IMG_ARGB8888, IsIndexed = 0,
      Attributes = IMG_ATTRIBUTE_IS_RLE_COMPRESSED, IndexLength = 0, IndexEntrys = 0,
      Data = ''locWindshieldOnDataPtr'', DataLength = 12391\<rparr>"

definition WipingOff :: Img_t where
  "WipingOff =
     \<lparr>Name = ''cluster_WipingOff.bin'', Width = 63, Height = 58, Colourformat = IMG_ARGB8888, IsIndexed = 0,
      Attributes = IMG_ATTRIBUTE_IS_RLE_COMPRESSED, IndexLength = 0, IndexEntrys = 0,
      Data = ''locWipingOffDataPtr'', DataLength = 12284\<rparr>"

definition WipingOn :: Img_t where
  "WipingOn =
     \<lparr>Name = ''cluster_WipingOn.bin'', Width = 65, Height = 58, Colourformat = IMG_ARGB8888, IsIndexed = 0,
      Attributes = IMG_ATTRIBUTE_IS_RLE_COMPRESSED, IndexLength = 0, IndexEntrys = 0,
      Data = ''locWipingOnDataPtr'', DataLength = 12932\<rparr>"

definition CoolingLiquidOn :: Img_t where
  "CoolingLiquidOn =
     \<lparr>Name = ''cluster_CoolingLiquidOn.bin'', Width = 58, Height = 60, Colourformat = IMG_ARGB8888, IsIndexed = 0,
      Attributes = IMG_ATTRIBUTE_IS_RLE_COMPRESSED, IndexLength = 0, IndexEntrys = 0,
      Data = ''locCoolingLiquidOnDataPtr'', DataLength = 11684\<rparr>"

definition CoolingLiquidOff :: Img_t where
  "CoolingLiquidOff =
     \<lparr>Name = ''cluster_CoolingLiquidOff.bin'', Width = 58, Height = 60, Colourformat = IMG_ARGB8888, IsIndexed = 0,
      Attributes = IMG_ATTRIBUTE_IS_RLE_COMPRESSED, IndexLength = 0, IndexEntrys = 0,
      Data = ''locCoolingLiquidOffDataPtr'', DataLength = 11092\<rparr>"

definition FuelEmptyOn :: Img_t where
  "FuelEmptyOn =
     \<lparr>Name = ''cluster_FuelEmptyOn.bin'', Width = 51, Height = 55, Colourformat = IMG_ARGB8888, IsIndexed = 0,
      Attributes = IMG_ATTRIBUTE_IS_RLE_COMPRESSED, IndexLength = 0, IndexEntrys = 0,
      Data = ''locFuelEmptyOnDataPtr'', DataLength = 11140\<rparr>"

definition FuelEmptyOff :: Img_t where
  "FuelEmptyOff =
     \<lparr>Name = ''cluster_FuelEmptyOff.bin'', Width = 51, Height = 55, Colourformat = IMG_ARGB8888, IsIndexed = 0,
      Attributes = IMG_ATTRIBUTE_IS_RLE_COMPRESSED, IndexLength = 0, IndexEntrys = 0,
      Data = ''locFuelEmptyOffDataPtr'', DataLength = 10370\<rparr>"

definition GearDOff :: Img_t where
  "GearDOff =
     \<lparr>Name = ''cluster_gear_d_off.bin'', Width = 62, Height = 102, Colourformat = IMG_ARGB8888, IsIndexed = 0,
      Attributes = IMG_ATTRIBUTE_IS_RLE_COMPRESSED, IndexLength = 0, IndexEntrys = 0,
      Data = ''locGearDOffDataPtr'', DataLength = 17961\<rparr>"

definition GearDOn :: Img_t where
  "GearDOn =
     \<lparr>Name = ''cluster_gear_d_on.bin'', Width = 62, Height = 102, Colourformat = IMG_ARGB8888, IsIndexed = 0,
      Attributes = IMG_ATTRIBUTE_IS_RLE_COMPRESSED, IndexLength = 0, IndexEntrys = 0,
      Data = ''locGearDOnDataPtr'', DataLength = 18878\<rparr>"

definition GearNOff :: Img_t where
  "GearNOff =
     \<lparr>Name = ''cluster_gear_n_off.bin'', Width = 62, Height = 101, Colourformat = IMG_ARGB8888, IsIndexed = 0,
      Attributes = IMG_ATTRIBUTE_IS_RLE_COMPRESSED, IndexLength = 0, IndexEntrys = 0,
      Data = ''locGearNOffDataPtr'', DataLength = 17735\<rparr>"

definition GearNOn :: Img_t where
  "GearNOn =
     \<lparr>Name = ''cluster_gear_n_on.bin'', Width = 62, Height = 102, Colourformat = IMG_ARGB8888, IsIndexed = 0,
      Attributes = IMG_ATTRIBUTE_IS_RLE_COMPRESSED, IndexLength = 0, IndexEntrys = 0,
      Data = ''locGearNOnDataPtr'', DataLength = 18933\<rparr>"

definition GearPOff :: Img_t where
  "GearPOff =
     \<lparr>Name = ''cluster_gear_p_off.bin'', Width = 62, Height = 101, Colourformat = IMG_ARGB8888, IsIndexed = 0,
      Attributes = IMG_ATTRIBUTE_IS_RLE_COMPRESSED, IndexLength = 0, IndexEntrys = 0,
      Data = ''locGearPOffDataPtr'', DataLength = 17703\<rparr>"

definition GearPOn :: Img_t where
  "GearPOn =
     \<lparr>Name = ''cluster_gear_p_on.bin'', Width = 62, Height = 102, Colourformat = IMG_ARGB8888, IsIndexed = 0,
      Attributes = IMG_ATTRIBUTE_IS_RLE_COMPRESSED, IndexLength = 0, IndexEntrys = 0,
      Data = ''locGearPOnDataPtr'', DataLength = 19022\<rparr>"

definition GearROff :: Img_t where
  "GearROff =
     \<lparr>Name = ''cluster_gear_r_off.bin'', Width = 62, Height = 101, Colourformat = IMG_ARGB8888, IsIndexed = 0,
      Attributes = IMG_ATTRIBUTE_IS_RLE_COMPRESSED, IndexLength = 0, IndexEntrys = 0,
      Data = ''locGearROffDataPtr'', DataLength = 17929\<rparr>"

definition GearROn :: Img_t where
  "GearROn =
     \<lparr>Name = ''cluster_gear_r_on.bin'', Width = 62, Height = 102, Colourformat = IMG_ARGB8888, IsIndexed = 0,
      Attributes = IMG_ATTRIBUTE_IS_RLE_COMPRESSED, IndexLength = 0, IndexEntrys = 0,
      Data = ''locGearROnDataPtr'', DataLength = 18630\<rparr>"

definition GearSOff :: Img_t where
  "GearSOff =
     \<lparr>Name = ''cluster_gear_s_off.bin'', Width = 62, Height = 101, Colourformat = IMG_ARGB8888, IsIndexed = 0,
      Attributes = IMG_ATTRIBUTE_IS_RLE_COMPRESSED, IndexLength = 0, IndexEntrys = 0,
      Data = ''locGearSOffDataPtr'', DataLength = 17755\<rparr>"

definition GearSOn :: Img_t where
  "GearSOn =
     \<lparr>Name = ''cluster_gear_s_on.bin'', Width = 62, Height = 102, Colourformat = IMG_ARGB8888, IsIndexed = 0,
      Attributes = IMG_ATTRIBUTE_IS_RLE_COMPRESSED, IndexLength = 0, IndexEntrys = 0,
      Data = ''locGearSOnDataPtr'', DataLength = 19005\<rparr>"

definition GearSOff2 :: Img_t where
  "GearSOff2 =
     \<lparr>Name = ''cluster_gear_s2_off.bin'', Width = 62, Height = 101, Colourformat = IMG_ARGB8888, IsIndexed = 0,
      Attributes = IMG_ATTRIBUTE_IS_RLE_COMPRESSED, IndexLength = 0, IndexEntrys = 0,
      Data = ''locGearSOff2DataPtr'', DataLength = 17755\<rparr>"

definition GearSOn2 :: Img_t where
  "GearSOn2 =
     \<lparr>Name = ''cluster_gear_s2_on.bin'', Width = 62, Height = 102, Colourformat = IMG_ARGB8888, IsIndexed = 0,
      Attributes = IMG_ATTRIBUTE_IS_RLE_COMPRESSED, IndexLength = 0, IndexEntrys = 0,
      Data = ''locGearSOn2DataPtr'', DataLength = 19005\<rparr>"

definition cluster_images :: "Img_t list" where
  "cluster_images =
     [IconCluster, ClusterBackGround, ClusterNeedle, TurnLeft, TurnLeftOff,
      TurnRight, TurnRightOff, HazardNormal, HazardSelected, BatteryOff,
      BatteryOn, FanOff, FanOn, HighLightOff, HighLightOn,
      LowLightOff, LowLightOn, OilOff, OilOn, AirbagOff,
      AirbagOn, BeltOff, BeltOn, BrakeOff, BrakeOn,
      WindshieldOff, WindshieldOn, WipingOff, WipingOn, CoolingLiquidOn,
      CoolingLiquidOff, FuelEmptyOn, FuelEmptyOff, GearDOff, GearDOn,
      GearNOff, GearNOn, GearPOff, GearPOn, GearROff,
      GearROn, GearSOff, GearSOn, GearSOff2, GearSOn2]"

section \<open>Agreement with the file table\<close>

lemmas image_defs =
  IconCluster_def ClusterBackGround_def ClusterNeedle_def TurnLeft_def TurnLeftOff_def TurnRight_def
  TurnRightOff_def HazardNormal_def HazardSelected_def BatteryOff_def BatteryOn_def FanOff_def FanOn_def
  HighLightOff_def HighLightOn_def LowLightOff_def LowLightOn_def OilOff_def OilOn_def AirbagOff_def
  AirbagOn_def BeltOff_def BeltOn_def BrakeOff_def BrakeOn_def WindshieldOff_def WindshieldOn_def
  WipingOff_def WipingOn_def CoolingLiquidOn_def CoolingLiquidOff_def FuelEmptyOn_def FuelEmptyOff_def
  GearDOff_def GearDOn_def GearNOff_def GearNOn_def GearPOff_def GearPOn_def GearROff_def GearROn_def
  GearSOff_def GearSOn_def GearSOff2_def GearSOn2_def

lemma image_names: "map Name cluster_images = map d_Name (files RomFileSystemData)"
  unfolding table_files by (simp add: cluster_images_def image_defs RomFileSystemData_def)

lemma image_data: "distinct (map Data cluster_images)"
  by (simp add: cluster_images_def image_defs)

text \<open>The images whose descriptor gives another length than the file has, with both lengths.\<close>

definition length_mismatches :: "(string \<times> u32 \<times> u32) list" where
  "length_mismatches =
     map (\<lambda>(I, d). (Name I, DataLength I, d_Size d))
       (filter (\<lambda>(I, d). DataLength I \<noteq> d_Size d) (zip cluster_images (files RomFileSystemData)))"

definition stored_raw :: "Img_t \<Rightarrow> bool" where
  "stored_raw I \<longleftrightarrow> Attributes I AND IMG_ATTRIBUTE_IS_RLE_COMPRESSED = 0"

lemma length_mismatches_eq:
  "length_mismatches =
     [(''cluster_background.bin'', 5529600, 783978), (''cluster_needle.bin'', 22620, 22568),
      (''cluster_WindshieldOff.bin'', 11755, 12858), (''cluster_WindshieldOn.bin'', 12391, 13575),
      (''cluster_FuelEmptyOff.bin'', 10370, 10364), (''cluster_gear_p_on.bin'', 19022, 19026)]"
  unfolding length_mismatches_def table_files
  by (simp add: cluster_images_def image_defs RomFileSystemData_def)

text \<open>
  Property C32 (image_descriptors): every image descriptor names its own file of the table and has its
  own data pointer, a format whose pixel size is known, and is not used from persistent memory. The
  uncompressed ones have the length of their pixels. For all but six images the descriptor has the
  length of the file. The six disagree: the background is described as 5529600 uncompressed bytes
  although its file has 783978, the needle as compressed although its file has exactly the size of
  its pixels; needle and FuelEmptyOff make the decoder read past the end of the file, the other three
  stop before it.
\<close>

theorem image_descriptors:
  "map Name cluster_images = map d_Name (files RomFileSystemData)
   \<and> distinct (map Data cluster_images)
   \<and> list_all (\<lambda>I. img_bpp (Colourformat I) \<in> {Some 4, Some 2}
        \<and> Attributes I AND IMG_ATTRIBUTE_USE_FROM_PERSISTENT_MEMORY = 0) cluster_images
   \<and> map Name (filter stored_raw cluster_images) = [''icon_cluster.bin'', ''cluster_background.bin'']
   \<and> DataLength IconCluster = Width IconCluster * Height IconCluster * 2
   \<and> DataLength ClusterBackGround = Width ClusterBackGround * Height ClusterBackGround * 4
   \<and> length_mismatches =
       [(''cluster_background.bin'', 5529600, 783978), (''cluster_needle.bin'', 22620, 22568),
        (''cluster_WindshieldOff.bin'', 11755, 12858), (''cluster_WindshieldOn.bin'', 12391, 13575),
        (''cluster_FuelEmptyOff.bin'', 10370, 10364), (''cluster_gear_p_on.bin'', 19022, 19026)]
   \<and> \<not> stored_raw ClusterNeedle \<and> Width ClusterNeedle * Height ClusterNeedle * 4 = 22568"
proof (intro conjI image_names image_data length_mismatches_eq)
  show "list_all (\<lambda>I. img_bpp (Colourformat I) \<in> {Some 4, Some 2}
        \<and> Attributes I AND IMG_ATTRIBUTE_USE_FROM_PERSISTENT_MEMORY = 0) cluster_images"
    by (simp add: cluster_images_def image_defs img_bpp_def)
  show "map Name (filter stored_raw cluster_images) = [''icon_cluster.bin'', ''cluster_background.bin'']"
    by (simp add: cluster_images_def image_defs stored_raw_def)
qed (simp_all add: image_defs stored_raw_def)

end
