(* ===== verification/CarModel.thy ===== *)
theory CarModel
  imports Prelude Complex_Main
begin

text \<open>
  The car model of the cluster application (\<^verbatim>\<open>app_cl_carmodel.c\<close>, \<^verbatim>\<open>app_cl_carmodel.h\<close>): the structure
  \<^verbatim>\<open>CarData\<close> with the static counters of the update functions, one definition per function, and
  \<^verbatim>\<open>CarModelUpdate\<close>, which the render loop calls once per frame.

  \<^item> \<^verbatim>\<open>float\<close> and \<^verbatim>\<open>double\<close> values are the rationals they denote; \<open>f32\<close> and \<open>f64\<close> round to the nearest
    representable number, ties to even, with the exponent ranges of IEEE 754. The speed stays between 10
    and 240, so no operation of the model reaches an infinity.
  \<^item> Assignments to \<^verbatim>\<open>int8_t\<close> and to one-bit fields wrap (\<open>int8\<close>, \<open>bit1\<close>; a one-bit \<^verbatim>\<open>int\<close> field is
    signed, so the value 1 is stored as -1). An increment of an \<^verbatim>\<open>int\<close> beyond its range is the error
    \<open>SignedOverflow\<close>, and the gear loop may not end (\<open>NoReturn\<close>).
\<close>

section \<open>Floating point\<close>

text \<open>The largest exponent not above \<open>e\<close> with \<open>2\<^sup>e \<le> \<bar>x\<bar>\<close>, searched for \<open>n\<close> steps.\<close>

fun find_exp :: "nat \<Rightarrow> int \<Rightarrow> rat \<Rightarrow> int" where
  "find_exp 0 e x = e"
| "find_exp (Suc n) e x = (if 2 powi e \<le> \<bar>x\<bar> then e else find_exp n (e - 1) x)"

definition rne :: "rat \<Rightarrow> int" where
  "rne x =
     (let d = x - of_int \<lfloor>x\<rfloor> in
      if d < 1 / 2 \<or> d = 1 / 2 \<and> even \<lfloor>x\<rfloor> then \<lfloor>x\<rfloor> else \<lfloor>x\<rfloor> + 1)"

definition round_at :: "int \<Rightarrow> rat \<Rightarrow> rat" where
  "round_at e x = of_int (rne (x / 2 powi e)) * 2 powi e"

definition f32 :: "rat \<Rightarrow> rat" where
  "f32 x = round_at (find_exp 253 127 x - 23) x"

definition f64 :: "rat \<Rightarrow> rat" where
  "f64 x = round_at (find_exp 2045 1023 x - 52) x"

section \<open>State (app\_cl\_carmodel.h)\<close>

datatype car_error = SignedOverflow | NoReturn

record carmodel =
  Rpm :: u16
  Speed :: rat
  Gear :: int
  Direction :: int
  FuelLevel :: u8
  CoolingTemp :: int
  GearSelect :: u8
  Left :: int
  Right :: int
  HighLight :: int
  LowLight :: int
  Fan :: int
  Oil :: int
  Battery :: int
  Airbag :: int
  Belt :: int
  Break :: int
  Windshield :: int
  Wiping :: int
  cc_turn :: u32
  cc_speed :: int
  cc_light :: int
  cc_fan :: int
  cc_oil :: int
  cc_battery :: int
  cc_airbag :: int
  cc_belt :: int
  cc_break :: int
  cc_windshield :: int
  cc_wiping :: int
  cooling_inc :: int
  cc_fuel :: int
  cc_gear :: int

definition int8 :: "int \<Rightarrow> int" where
  "int8 x = sint (word_of_int x :: 8 word)"

definition bit1 :: "int \<Rightarrow> int" where
  "bit1 x = sint (word_of_int x :: 1 word)"

definition INT_MAX :: int where
  "INT_MAX = 2147483647"

text \<open>\<open>cc++\<close> on the static \<^verbatim>\<open>int\<close> counter that \<open>get\<close> and \<open>put\<close> access.\<close>

definition tick :: "(carmodel \<Rightarrow> int) \<Rightarrow> (int \<Rightarrow> carmodel \<Rightarrow> carmodel) \<Rightarrow> carmodel \<Rightarrow> car_error + carmodel" where
  "tick get put c = (if get c = INT_MAX then Inl SignedOverflow else Inr (put (get c + 1) c))"

section \<open>The update functions (app\_cl\_carmodel.c)\<close>

abbreviation LOC_CM_SPEED_MAX :: rat where "LOC_CM_SPEED_MAX \<equiv> 240"
abbreviation LOC_CM_SPEED_MIN :: rat where "LOC_CM_SPEED_MIN \<equiv> 10"
abbreviation LOC_CM_SPEED_MID :: rat where "LOC_CM_SPEED_MID \<equiv> 50"
abbreviation LOC_CM_RPM_MAX :: u16 where "LOC_CM_RPM_MAX \<equiv> 8000"
abbreviation LOC_CM_RPM_MIN :: u16 where "LOC_CM_RPM_MIN \<equiv> 100"
abbreviation LOC_CM_GEARDOWN_RPM :: u16 where "LOC_CM_GEARDOWN_RPM \<equiv> 2700"
abbreviation LOC_CM_GEARUP_RPM :: u16 where "LOC_CM_GEARUP_RPM \<equiv> 5500"
abbreviation LOC_CM_GEAR_MAX :: int where "LOC_CM_GEAR_MAX \<equiv> 5"
abbreviation LOC_CM_GEAR_MIN :: int where "LOC_CM_GEAR_MIN \<equiv> 1"

definition LOC_ACCELERATION_FACTOR :: rat where
  "LOC_ACCELERATION_FACTOR = f64 (95 / 100)"

definition locGearTrans :: "rat list" where
  "locGearTrans = [200, 200, 150, 100, 50, 25]"

definition locUpdateTurnSignals :: "carmodel \<Rightarrow> carmodel" where
  "locUpdateTurnSignals c =
     (let c' =
        (if cc_turn c = 1 then c\<lparr>Left := bit1 1, Right := bit1 0\<rparr>
         else if cc_turn c = 500 then c\<lparr>Left := bit1 0, Right := bit1 0\<rparr>
         else if cc_turn c = 1500 then c\<lparr>Left := bit1 0, Right := bit1 1\<rparr>
         else if cc_turn c = 2000 then c\<lparr>Left := bit1 0, Right := bit1 0\<rparr>
         else if cc_turn c = 2500 then c\<lparr>Left := bit1 1, Right := bit1 1\<rparr>
         else if 3000 < cc_turn c then c\<lparr>cc_turn := 0\<rparr>
         else c)
      in c'\<lparr>cc_turn := cc_turn c' + 1\<rparr>)"

text \<open>The new speed: the sum in double precision, stored as a float, then the two limits.\<close>

definition accelerate :: "carmodel \<Rightarrow> carmodel" where
  "accelerate c =
     (let v = f32 (f64 (Speed c + f64 (LOC_ACCELERATION_FACTOR * of_int (Direction c)))) in
      if LOC_CM_SPEED_MAX < v then c\<lparr>Speed := LOC_CM_SPEED_MAX, Direction := -1\<rparr>
      else if v \<le> LOC_CM_SPEED_MIN then c\<lparr>Speed := LOC_CM_SPEED_MIN, Direction := 1\<rparr>
      else c\<lparr>Speed := v\<rparr>)"

definition holding :: "carmodel \<Rightarrow> bool" where
  "holding c \<longleftrightarrow>
     Speed c \<le> LOC_CM_SPEED_MIN
     \<or> LOC_CM_SPEED_MID \<le> Speed c \<and> Speed c < f64 (LOC_CM_SPEED_MID + LOC_ACCELERATION_FACTOR)
     \<or> LOC_CM_SPEED_MAX \<le> Speed c"

definition locUpdateSpeed :: "carmodel \<Rightarrow> carmodel" where
  "locUpdateSpeed c =
     (if holding c \<and> cc_speed c < 100 then
        (let c' = c\<lparr>cc_speed := cc_speed c + 1\<rparr> in
         if cc_speed c' < 100 then c' else accelerate (c'\<lparr>cc_speed := 0\<rparr>))
      else accelerate c)"

definition rpm_of :: "rat \<Rightarrow> int \<Rightarrow> u16" where
  "rpm_of v g = word_of_int \<lfloor>f32 (v * locGearTrans ! nat g)\<rfloor>"

text \<open>The body of the \<^verbatim>\<open>do\<close> loop.\<close>

definition shift_gear :: "carmodel \<Rightarrow> carmodel" where
  "shift_gear c =
     (let c1 = c\<lparr>Rpm := rpm_of (Speed c) (Gear c)\<rparr> in
      if LOC_CM_GEARUP_RPM < Rpm c1 \<and> 0 < Direction c1 then
        (if Gear c1 < LOC_CM_GEAR_MAX
         then (let c2 = c1\<lparr>Gear := int8 (Gear c1 + 1)\<rparr> in c2\<lparr>Rpm := rpm_of (Speed c2) (Gear c2)\<rparr>)
         else c1)
      else if Rpm c1 < LOC_CM_GEARDOWN_RPM \<and> Direction c1 < 0 then
        (if LOC_CM_GEAR_MIN < Gear c1
         then (let c2 = c1\<lparr>Gear := int8 (Gear c1 - 1)\<rparr> in c2\<lparr>Rpm := rpm_of (Speed c2) (Gear c2)\<rparr>)
         else c1)
      else c1)"

definition rpm_bad :: "carmodel \<Rightarrow> bool" where
  "rpm_bad c \<longleftrightarrow> LOC_CM_RPM_MAX < Rpm c \<or> Rpm c < LOC_CM_RPM_MIN"

partial_function (option) gear_loop :: "carmodel \<Rightarrow> carmodel option" where
  "gear_loop c = (let c' = shift_gear c in if rpm_bad c' then gear_loop c' else Some c')"

definition locUpdateRpm :: "carmodel \<Rightarrow> car_error + carmodel" where
  "locUpdateRpm c = (case gear_loop c of None \<Rightarrow> Inl NoReturn | Some c' \<Rightarrow> Inr c')"

definition locUpdateLight :: "carmodel \<Rightarrow> car_error + carmodel" where
  "locUpdateLight c =
     tick cc_light (\<lambda>v. cc_light_update (\<lambda>_. v))
       (if cc_light c < 100 then c\<lparr>HighLight := bit1 0, LowLight := bit1 0\<rparr>
        else if cc_light c < 200 then c\<lparr>HighLight := bit1 0, LowLight := bit1 1\<rparr>
        else if cc_light c < 250 then c\<lparr>HighLight := bit1 1, LowLight := bit1 1\<rparr>
        else c\<lparr>cc_light := 0\<rparr>)"

definition locUpdateFan :: "carmodel \<Rightarrow> car_error + carmodel" where
  "locUpdateFan c =
     tick cc_fan (\<lambda>v. cc_fan_update (\<lambda>_. v))
       (if cc_fan c < 200 then c\<lparr>Fan := bit1 0\<rparr>
        else if cc_fan c < 300 then c\<lparr>Fan := bit1 1\<rparr>
        else c\<lparr>cc_fan := 0\<rparr>)"

definition locUpdateOil :: "carmodel \<Rightarrow> car_error + carmodel" where
  "locUpdateOil c =
     tick cc_oil (\<lambda>v. cc_oil_update (\<lambda>_. v))
       (if cc_oil c < 250 then c\<lparr>Oil := bit1 0\<rparr>
        else if cc_oil c < 325 then c\<lparr>Oil := bit1 1\<rparr>
        else c\<lparr>cc_oil := 0\<rparr>)"

definition locUpdateBattery :: "carmodel \<Rightarrow> car_error + carmodel" where
  "locUpdateBattery c =
     tick cc_battery (\<lambda>v. cc_battery_update (\<lambda>_. v))
       (if cc_battery c < 125 then c\<lparr>Battery := bit1 1\<rparr>
        else if cc_battery c < 225 then c\<lparr>Battery := bit1 0\<rparr>
        else c\<lparr>cc_battery := 0\<rparr>)"

definition locUpdateAirbag :: "carmodel \<Rightarrow> car_error + carmodel" where
  "locUpdateAirbag c =
     tick cc_airbag (\<lambda>v. cc_airbag_update (\<lambda>_. v))
       (if cc_airbag c < 115 then c\<lparr>Airbag := bit1 1\<rparr>
        else if cc_airbag c < 1005 then c\<lparr>Airbag := bit1 0\<rparr>
        else c\<lparr>cc_airbag := 0\<rparr>)"

definition locUpdateBelt :: "carmodel \<Rightarrow> car_error + carmodel" where
  "locUpdateBelt c =
     tick cc_belt (\<lambda>v. cc_belt_update (\<lambda>_. v))
       (if cc_belt c < 415 then c\<lparr>Belt := bit1 1\<rparr>
        else if cc_belt c < 705 then c\<lparr>Belt := bit1 0\<rparr>
        else c\<lparr>cc_belt := 0\<rparr>)"

definition locUpdateBreak :: "carmodel \<Rightarrow> car_error + carmodel" where
  "locUpdateBreak c =
     tick cc_break (\<lambda>v. cc_break_update (\<lambda>_. v))
       (if cc_break c < 215 then c\<lparr>Break := bit1 1\<rparr>
        else if cc_break c < 305 then c\<lparr>Break := bit1 0\<rparr>
        else c\<lparr>cc_break := 0\<rparr>)"

definition locUpdateWindshield :: "carmodel \<Rightarrow> car_error + carmodel" where
  "locUpdateWindshield c =
     tick cc_windshield (\<lambda>v. cc_windshield_update (\<lambda>_. v))
       (if cc_windshield c < 95 then c\<lparr>Windshield := bit1 1\<rparr>
        else if cc_windshield c < 285 then c\<lparr>Windshield := bit1 0\<rparr>
        else c\<lparr>cc_windshield := 0\<rparr>)"

definition locUpdateWiping :: "carmodel \<Rightarrow> car_error + carmodel" where
  "locUpdateWiping c =
     tick cc_wiping (\<lambda>v. cc_wiping_update (\<lambda>_. v))
       (if cc_wiping c < 625 then c\<lparr>Wiping := bit1 1\<rparr>
        else if cc_wiping c < 1305 then c\<lparr>Wiping := bit1 0\<rparr>
        else c\<lparr>cc_wiping := 0\<rparr>)"

definition locUpdateCoolingLiquid :: "carmodel \<Rightarrow> carmodel" where
  "locUpdateCoolingLiquid c =
     (let c' = c\<lparr>CoolingTemp := int8 (CoolingTemp c + cooling_inc c)\<rparr> in
      if 100 < CoolingTemp c' then c'\<lparr>cooling_inc := -1\<rparr>
      else if CoolingTemp c' < 20 then c'\<lparr>cooling_inc := 1\<rparr>
      else c')"

definition locUpdateFuel :: "carmodel \<Rightarrow> car_error + carmodel" where
  "locUpdateFuel c =
     (case tick cc_fuel (\<lambda>v. cc_fuel_update (\<lambda>_. v)) c of
        Inl e \<Rightarrow> Inl e
      | Inr c \<Rightarrow>
          if cc_fuel c mod 2 = 0
          then (let c' = (if FuelLevel c = 0 then c\<lparr>FuelLevel := 100\<rparr> else c)
                in Inr (c'\<lparr>FuelLevel := FuelLevel c' - 1\<rparr>))
          else Inr c)"

definition locUpdateGearSelect :: "carmodel \<Rightarrow> car_error + carmodel" where
  "locUpdateGearSelect c =
     (case tick cc_gear (\<lambda>v. cc_gear_update (\<lambda>_. v)) c of
        Inl e \<Rightarrow> Inl e
      | Inr c \<Rightarrow>
          if cc_gear c mod 50 = 0
          then (let c' = c\<lparr>GearSelect := push_bit 1 (GearSelect c)\<rparr>
                in Inr (if 16 < GearSelect c' then c'\<lparr>GearSelect := 1\<rparr> else c'))
          else Inr c)"

text \<open>The functions in the order of \<^verbatim>\<open>CarModelUpdate\<close>; an error stops the sequence.\<close>

fun in_turn :: "(carmodel \<Rightarrow> car_error + carmodel) list \<Rightarrow> carmodel \<Rightarrow> car_error + carmodel" where
  "in_turn [] c = Inr c"
| "in_turn (f # fs) c = (case f c of Inl e \<Rightarrow> Inl e | Inr c' \<Rightarrow> in_turn fs c')"

definition CarModelUpdate :: "carmodel \<Rightarrow> car_error + carmodel" where
  "CarModelUpdate =
     in_turn
       [\<lambda>c. Inr (locUpdateSpeed c), locUpdateRpm, \<lambda>c. Inr (locUpdateTurnSignals c), locUpdateLight,
        locUpdateFan, locUpdateOil, locUpdateBattery, locUpdateAirbag, locUpdateBelt, locUpdateBreak,
        locUpdateWindshield, locUpdateWiping, \<lambda>c. Inr (locUpdateCoolingLiquid c), locUpdateFuel,
        locUpdateGearSelect]"

definition InitCarModel :: "carmodel \<Rightarrow> carmodel" where
  "InitCarModel c = c\<lparr>Speed := 30, Rpm := 25, Gear := 1, GearSelect := 1, Direction := 1\<rparr>"

definition DeInitCarModel :: "carmodel \<Rightarrow> carmodel" where
  "DeInitCarModel c = c"

text \<open>The static data at program start.\<close>

definition car_start :: carmodel where
  "car_start =
     \<lparr>Rpm = 0, Speed = 0, Gear = 0, Direction = 0, FuelLevel = 0, CoolingTemp = 0, GearSelect = 0,
      Left = 0, Right = 0, HighLight = 0, LowLight = 0, Fan = 0, Oil = 0,
      Battery = 0, Airbag = 0, Belt = 0, Break = 0, Windshield = 0, Wiping = 0,
      cc_turn = 0, cc_speed = 0, cc_light = 0,
      cc_fan = 0, cc_oil = 0, cc_battery = 0, cc_airbag = 0, cc_belt = 0, cc_break = 0, cc_windshield = 0, cc_wiping = 0,
      cooling_inc = 1, cc_fuel = 0, cc_gear = 0\<rparr>"

section \<open>The values shown\<close>

definition uint8 :: "int \<Rightarrow> u8" where
  "uint8 x = word_of_int x"

definition CarModelSpeedGet :: "carmodel \<Rightarrow> rat" where "CarModelSpeedGet c = Speed c"
definition CarModelRpmGet :: "carmodel \<Rightarrow> u16" where "CarModelRpmGet c = Rpm c"
definition CarModelLeftGet :: "carmodel \<Rightarrow> u8" where "CarModelLeftGet c = uint8 (Left c)"
definition CarModelRightGet :: "carmodel \<Rightarrow> u8" where "CarModelRightGet c = uint8 (Right c)"
definition CarModelHighLightGet :: "carmodel \<Rightarrow> u8" where "CarModelHighLightGet c = uint8 (HighLight c)"
definition CarModelLowLightGet :: "carmodel \<Rightarrow> u8" where "CarModelLowLightGet c = uint8 (LowLight c)"
definition CarModelFanGet :: "carmodel \<Rightarrow> u8" where "CarModelFanGet c = uint8 (Fan c)"
definition CarModelOilGet :: "carmodel \<Rightarrow> u8" where "CarModelOilGet c = uint8 (Oil c)"
definition CarModelBatteryGet :: "carmodel \<Rightarrow> u8" where "CarModelBatteryGet c = uint8 (Battery c)"
definition CarModelAirbagGet :: "carmodel \<Rightarrow> u8" where "CarModelAirbagGet c = uint8 (Airbag c)"
definition CarModelBeltGet :: "carmodel \<Rightarrow> u8" where "CarModelBeltGet c = uint8 (Belt c)"
definition CarModelBreakGet :: "carmodel \<Rightarrow> u8" where "CarModelBreakGet c = uint8 (Break c)"
definition CarModelWindshieldGet :: "carmodel \<Rightarrow> u8" where "CarModelWindshieldGet c = uint8 (Windshield c)"
definition CarModelWipingGet :: "carmodel \<Rightarrow> u8" where "CarModelWipingGet c = uint8 (Wiping c)"
definition CarModelFuelEmptyGet :: "carmodel \<Rightarrow> u8" where
  "CarModelFuelEmptyGet c = (if 10 < FuelLevel c then 0 else 1)"
definition CarModelCoolingHotGet :: "carmodel \<Rightarrow> u8" where
  "CarModelCoolingHotGet c = (if CoolingTemp c < 90 then 0 else 1)"
definition CarModelFuelLevelGet :: "carmodel \<Rightarrow> u8" where "CarModelFuelLevelGet c = FuelLevel c"
definition CarModelCoolingTempGet :: "carmodel \<Rightarrow> int" where "CarModelCoolingTempGet c = CoolingTemp c"
definition CarModelGearPGet :: "carmodel \<Rightarrow> u8" where "CarModelGearPGet c = GearSelect c AND 1"
definition CarModelGearRGet :: "carmodel \<Rightarrow> u8" where "CarModelGearRGet c = GearSelect c AND 2"
definition CarModelGearNGet :: "carmodel \<Rightarrow> u8" where "CarModelGearNGet c = GearSelect c AND 4"
definition CarModelGearDGet :: "carmodel \<Rightarrow> u8" where "CarModelGearDGet c = GearSelect c AND 8"
definition CarModelGearSGet :: "carmodel \<Rightarrow> u8" where "CarModelGearSGet c = GearSelect c AND 16"

section \<open>Rounding errors\<close>

lemma rne_error: "\<bar>of_int (rne y) - y\<bar> \<le> 1 / 2"
proof -
  have "of_int \<lfloor>y\<rfloor> \<le> y" and "y < of_int \<lfloor>y\<rfloor> + 1"
    by linarith+
  moreover have "rne y = \<lfloor>y\<rfloor> \<and> y - of_int \<lfloor>y\<rfloor> \<le> 1 / 2 \<or> rne y = \<lfloor>y\<rfloor> + 1 \<and> 1 / 2 \<le> y - of_int \<lfloor>y\<rfloor>"
    by (auto simp: rne_def Let_def)
  ultimately show ?thesis
    by (elim disjE conjE) (simp_all only: abs_le_iff of_int_add of_int_1, linarith+)
qed

lemma round_at_error: "\<bar>round_at e x - x\<bar> \<le> 2 powi e / 2"
proof -
  have p: "0 < (2 powi e :: rat)"
    by simp
  have "round_at e x - x = (of_int (rne (x / 2 powi e)) - x / 2 powi e) * 2 powi e"
    by (simp add: round_at_def algebra_simps)
  then have "\<bar>round_at e x - x\<bar> = \<bar>of_int (rne (x / 2 powi e)) - x / 2 powi e\<bar> * 2 powi e"
    using p by (simp add: abs_mult)
  also have "\<dots> \<le> 1 / 2 * 2 powi e"
    using p by (intro mult_right_mono rne_error) simp
  finally show ?thesis
    by simp
qed

lemma find_exp_bound:
  assumes "\<bar>x\<bar> < 2 powi k" and "e - int n < k"
  shows "find_exp n e x < k"
  using assms
proof (induction n arbitrary: e)
  case (Suc n)
  show ?case
  proof (cases "2 powi e \<le> \<bar>x\<bar>")
    case True
    then have "2 powi e < (2 powi k :: rat)"
      using assms(1) by linarith
    then have "e < k"
      using power_int_increasing [of k e "2 :: rat"] by (cases "e < k") auto
    then show ?thesis
      using True by simp
  next
    case False
    then show ?thesis
      using Suc.IH [of "e - 1"] Suc.prems by simp
  qed
qed simp

lemma powi_half: "(2 powi e :: rat) / 2 = 2 powi (e - 1)"
  by (simp add: power_int_diff)

lemma round_error:
  assumes "find_exp n e x < k"
  shows "\<bar>round_at (find_exp n e x - p) x - x\<bar> \<le> 2 powi (k - p - 2)"
proof -
  have "\<bar>round_at (find_exp n e x - p) x - x\<bar> \<le> 2 powi (find_exp n e x - p - 1)"
    using round_at_error [of "find_exp n e x - p" x] by (simp only: powi_half)
  also have "\<dots> \<le> 2 powi (k - p - 2)"
    using assms by (intro power_int_increasing) auto
  finally show ?thesis .
qed

lemma f32_error: "\<bar>x\<bar> < 2 powi k \<Longrightarrow> -126 < k \<Longrightarrow> \<bar>f32 x - x\<bar> \<le> 2 powi (k - 25)"
  unfolding f32_def using round_error [OF find_exp_bound, of x k 127 253 23] by simp

lemma f64_error: "\<bar>x\<bar> < 2 powi k \<Longrightarrow> -1022 < k \<Longrightarrow> \<bar>f64 x - x\<bar> \<le> 2 powi (k - 54)"
  unfolding f64_def using round_error [OF find_exp_bound, of x k 1023 2045 52] by simp

text \<open>The errors for the magnitudes of the model: speeds below 256 and engine speeds below 65536.\<close>

lemma f32_speed: "\<bar>x\<bar> < 256 \<Longrightarrow> \<bar>f32 x - x\<bar> \<le> 1 / 131072"
  using f32_error [of x 8] by (simp add: power_int_minus)

lemma f32_rpm: "\<bar>x\<bar> < 65536 \<Longrightarrow> \<bar>f32 x - x\<bar> \<le> 1 / 512"
  using f32_error [of x 16] by (simp add: power_int_minus)

lemma f64_speed: "\<bar>x\<bar> < 256 \<Longrightarrow> \<bar>f64 x - x\<bar> \<le> 1 / 131072"
proof -
  assume "\<bar>x\<bar> < 256"
  then have "\<bar>f64 x - x\<bar> \<le> 2 powi (8 - 54)"
    using f64_error [of x 8] by simp
  also have "(2 powi (8 - 54) :: rat) \<le> 1 / 131072"
    by (simp add: power_int_minus)
  finally show ?thesis .
qed

section \<open>Speed, gear and engine speed\<close>

lemma int8_id: "-128 \<le> x \<Longrightarrow> x < 128 \<Longrightarrow> int8 x = x"
  by (simp add: int8_def signed_of_int signed_take_bit_int_eq_self)

definition ratio :: "int \<Rightarrow> rat" where
  "ratio g = locGearTrans ! nat g"

lemma ratio_simps [simp]:
  "ratio 1 = 200" "ratio 2 = 150" "ratio 3 = 100" "ratio 4 = 50" "ratio 5 = 25"
  by (simp_all add: ratio_def locGearTrans_def)

lemma gear_cases:
  assumes "1 \<le> g" and "g \<le> (5 :: int)"
  obtains "g = 1" | "g = 2" | "g = 3" | "g = 4" | "g = 5"
  using assms by linarith

lemma ratio_bounds: "1 \<le> g \<Longrightarrow> g \<le> 5 \<Longrightarrow> 25 \<le> ratio g \<and> ratio g \<le> 200"
  by (erule gear_cases, assumption) simp_all

lemma ratio_down: "1 < g \<Longrightarrow> g \<le> 5 \<Longrightarrow> ratio (g - 1) \<le> 2 * ratio g"
proof -
  assume g: "1 < g" "g \<le> 5"
  then have "1 \<le> g"
    by simp
  then show ?thesis
    using g(2) by (rule gear_cases) (use g in \<open>auto simp: ratio_def locGearTrans_def\<close>)
qed

lemma product_bounds:
  assumes "10 \<le> v" "v \<le> 240" "1 \<le> g" "g \<le> 5"
  shows "250 \<le> v * ratio g" and "v * ratio g \<le> 48000"
proof -
  have t: "25 \<le> ratio g" "ratio g \<le> 200"
    using ratio_bounds assms by auto
  have "10 * 25 \<le> v * ratio g"
    using assms(1) t by (intro mult_mono) auto
  then show "250 \<le> v * ratio g"
    by simp
  have "v * ratio g \<le> 240 * 200"
    using assms t by (intro mult_mono) auto
  then show "v * ratio g \<le> 48000"
    by simp
qed

lemma rpm_of_bounds:
  assumes "10 \<le> v" "v \<le> 240" "1 \<le> g" "g \<le> 5"
  shows "of_nat (unat (rpm_of v g)) \<le> v * ratio g + 1 / 512"
    and "v * ratio g - 1 / 512 - 1 < of_nat (unat (rpm_of v g))"
proof -
  let ?x = "v * ratio g"
  note x = product_bounds [OF assms]
  have e: "\<bar>f32 ?x - ?x\<bar> \<le> 1 / 512"
    by (rule f32_rpm) (use x in simp)
  then have f: "0 \<le> \<lfloor>f32 ?x\<rfloor>" "\<lfloor>f32 ?x\<rfloor> < 65536"
    using x unfolding le_floor_iff floor_less_iff by linarith+
  have "int (unat (rpm_of v g)) = \<lfloor>f32 ?x\<rfloor>"
    using f unfolding rpm_of_def ratio_def [symmetric]
    by (simp add: unsigned_of_int take_bit_int_eq_self nat_eq_iff)
  then have r: "(of_nat (unat (rpm_of v g)) :: rat) = of_int \<lfloor>f32 ?x\<rfloor>"
    by (metis of_int_of_nat_eq)
  show "of_nat (unat (rpm_of v g)) \<le> v * ratio g + 1 / 512"
    and "v * ratio g - 1 / 512 - 1 < of_nat (unat (rpm_of v g))"
    unfolding r using e by linarith+
qed

lemma rpm_compare:
  "rpm_of v g < numeral n \<longleftrightarrow> (of_nat (unat (rpm_of v g)) :: rat) < of_nat (unat (numeral n :: u16))"
  "numeral n < rpm_of v g \<longleftrightarrow> (of_nat (unat (numeral n :: u16)) :: rat) < of_nat (unat (rpm_of v g))"
  by (simp_all only: word_less_nat_alt of_nat_less_iff)

text \<open>
  Between two updates the product of speed and transmission is bounded, more tightly while slowing
  down; \<open>driving\<close> holds between updates, \<open>moved\<close> after the change of speed.
\<close>

definition moved :: "carmodel \<Rightarrow> bool" where
  "moved c \<longleftrightarrow>
     10 \<le> Speed c \<and> Speed c \<le> 240 \<and> 1 \<le> Gear c \<and> Gear c \<le> 5
     \<and> Direction c \<in> {1, -1} \<and> 0 \<le> cc_speed c \<and> cc_speed c < 100
     \<and> (Direction c = -1 \<longrightarrow> Speed c * ratio (Gear c) \<le> 6000)"

definition driving :: "carmodel \<Rightarrow> bool" where
  "driving c \<longleftrightarrow> moved c \<and> Speed c * ratio (Gear c) \<le> 8002"

lemma new_speed:
  assumes "10 \<le> v" "v \<le> 240" "d = 1 \<or> d = (-1 :: int)"
  shows "\<bar>f32 (f64 (v + f64 (LOC_ACCELERATION_FACTOR * of_int d))) - (v + 95 / 100 * of_int d)\<bar> \<le> 1 / 10000"
proof -
  have a: "\<bar>LOC_ACCELERATION_FACTOR - 95 / 100\<bar> \<le> 1 / 131072"
    unfolding LOC_ACCELERATION_FACTOR_def by (rule f64_speed) simp
  let ?a = "LOC_ACCELERATION_FACTOR * of_int d" and ?b = "95 / 100 * of_int d :: rat"
  have ab: "?a = LOC_ACCELERATION_FACTOR \<and> ?b = 95 / 100 \<or> ?a = - LOC_ACCELERATION_FACTOR \<and> ?b = - (95 / 100)"
    using assms(3) by auto
  then have ad: "\<bar>?a - ?b\<bar> \<le> 1 / 131072" and bb: "\<bar>?b\<bar> \<le> 1"
    using a by linarith+
  have b: "\<bar>f64 ?a - ?a\<bar> \<le> 1 / 131072"
    by (rule f64_speed) (use ad bb in linarith)
  have c: "\<bar>f64 (v + f64 ?a) - (v + f64 ?a)\<bar> \<le> 1 / 131072"
    by (rule f64_speed) (use ad b bb assms(1,2) in linarith)
  have "\<bar>f32 (f64 (v + f64 ?a)) - f64 (v + f64 ?a)\<bar> \<le> 1 / 131072"
    by (rule f32_speed) (use ad b c bb assms(1,2) in linarith)
  then show ?thesis
    using ad b c by linarith
qed

lemma accelerate_moved:
  assumes "driving c"
  shows "moved (accelerate c)"
proof -
  have sp: "10 \<le> Speed c" "Speed c \<le> 240" and g: "1 \<le> Gear c" "Gear c \<le> 5"
    and d: "Direction c = 1 \<or> Direction c = -1" and cc: "0 \<le> cc_speed c" "cc_speed c < 100"
    and down: "Direction c = -1 \<longrightarrow> Speed c * ratio (Gear c) \<le> 6000" and prod: "Speed c * ratio (Gear c) \<le> 8002"
    using assms by (auto simp: driving_def moved_def)
  define v where "v = f32 (f64 (Speed c + f64 (LOC_ACCELERATION_FACTOR * of_int (Direction c))))"
  have v: "\<bar>v - (Speed c + 95 / 100 * of_int (Direction c))\<bar> \<le> 1 / 10000"
    unfolding v_def by (rule new_speed [OF sp d])
  note r = ratio_bounds [OF g]
  have dr: "of_int (Direction c) = (1 :: rat) \<or> of_int (Direction c) = (-1 :: rat)"
    using d by auto
  show ?thesis
  proof (cases "240 < v")
    case True
    then have "239 \<le> Speed c"
      using v dr by linarith
    then have "239 * ratio (Gear c) \<le> Speed c * ratio (Gear c)"
      using r by (intro mult_right_mono) auto
    then have "ratio (Gear c) < 50"
      using prod by linarith
    then have "Gear c = 5"
      using g by (elim gear_cases) simp_all
    then show ?thesis
      using True g cc by (simp add: accelerate_def moved_def Let_def flip: v_def)
  next
    case False
    have "Direction c = -1 \<longrightarrow> v * ratio (Gear c) \<le> 6000"
    proof
      assume dn: "Direction c = -1"
      then have "of_int (Direction c) = (-1 :: rat)"
        by simp
      then have "v \<le> Speed c"
        using v by linarith
      then have "v * ratio (Gear c) \<le> Speed c * ratio (Gear c)"
        using r by (intro mult_right_mono) auto
      then show "v * ratio (Gear c) \<le> 6000"
        using down dn by simp
    qed
    then show ?thesis
      using False g cc d by (auto simp: accelerate_def moved_def Let_def simp flip: v_def)
  qed
qed

lemma locUpdateSpeed_moved: "driving c \<Longrightarrow> moved (locUpdateSpeed c)"
proof -
  assume d: "driving c"
  then have h: "moved (c\<lparr>cc_speed := cc_speed c + 1\<rparr>)" if "cc_speed c + 1 < 100"
    using that by (auto simp: driving_def moved_def)
  from d have "driving (c\<lparr>cc_speed := 0\<rparr>)"
    by (auto simp: driving_def moved_def)
  then show ?thesis
    using h accelerate_moved [OF d] accelerate_moved [of "c\<lparr>cc_speed := 0\<rparr>"]
    by (auto simp: locUpdateSpeed_def Let_def)
qed

lemma rpm_le:
  assumes "10 \<le> v" "v \<le> 240" "1 \<le> g" "g \<le> 5" and "v * ratio g \<le> of_nat N"
  shows "unat (rpm_of v g) \<le> N"
proof -
  have "(of_nat (unat (rpm_of v g)) :: rat) < of_nat (Suc N)"
    using rpm_of_bounds(1) [OF assms(1-4)] assms(5) by simp
  then show ?thesis
    by (simp only: of_nat_less_iff)
qed

lemma rpm_ge:
  assumes "10 \<le> v" "v \<le> 240" "1 \<le> g" "g \<le> 5" and "unat (rpm_of v g) \<le> N"
  shows "v * ratio g < of_nat N + 2"
proof -
  have "(of_nat (unat (rpm_of v g)) :: rat) \<le> of_nat N"
    using assms(5) by (simp only: of_nat_le_iff)
  then show ?thesis
    using rpm_of_bounds(2) [OF assms(1-4)] by linarith
qed

lemma rpm_min:
  assumes "10 \<le> v" "v \<le> 240" "1 \<le> g" "g \<le> 5"
  shows "100 \<le> unat (rpm_of v g)"
proof -
  have "(of_nat 100 :: rat) < of_nat (unat (rpm_of v g))"
    using rpm_of_bounds(2) [OF assms] product_bounds(1) [OF assms] by simp
  then show ?thesis
    by (simp only: of_nat_less_iff)
qed

definition settled :: "carmodel \<Rightarrow> carmodel \<Rightarrow> bool" where
  "settled c c' \<longleftrightarrow>
     driving c' \<and> c' = c\<lparr>Rpm := Rpm c', Gear := Gear c'\<rparr>
     \<and> Rpm c' = rpm_of (Speed c') (Gear c') \<and> 100 \<le> Rpm c' \<and> Rpm c' \<le> 8000"

lemma settledI:
  assumes "moved c" and c': "c' = c\<lparr>Rpm := rpm_of (Speed c) g, Gear := g\<rparr>"
    and g: "1 \<le> g" "g \<le> 5" and ok: "unat (rpm_of (Speed c) g) \<le> 8000"
    and dn: "Direction c = -1 \<longrightarrow> Speed c * ratio g \<le> 6000"
  shows "settled c c'"
proof -
  have v: "10 \<le> Speed c" "Speed c \<le> 240"
    using assms(1) by (auto simp: moved_def)
  have "Speed c * ratio g \<le> 8002"
    using rpm_ge [OF v g ok] by simp
  then show ?thesis
    using assms(1) g ok dn rpm_min [OF v g]
    by (simp add: settled_def c' driving_def moved_def word_le_nat_alt)
qed

lemma gear_loop_up:
  "moved c \<Longrightarrow> Direction c = 1 \<Longrightarrow> \<exists>c'. gear_loop c = Some c' \<and> settled c c'"
proof (induction "nat (5 - Gear c)" arbitrary: c rule: less_induct)
  case (less c)
  have v: "10 \<le> Speed c" "Speed c \<le> 240" and g: "1 \<le> Gear c" "Gear c \<le> 5"
    using less.prems by (auto simp: moved_def)
  let ?r = "rpm_of (Speed c) (Gear c)" and ?r2 = "rpm_of (Speed c) (Gear c + 1)"
  show ?case
  proof (cases "5500 < ?r \<and> Gear c < 5")
    case True
    let ?c = "c\<lparr>Rpm := ?r2, Gear := Gear c + 1\<rparr>"
    have sh: "shift_gear c = ?c"
      using True less.prems(2) g by (simp add: shift_gear_def Let_def int8_id)
    have m: "moved ?c" and d: "Direction ?c = 1"
      using less.prems True by (auto simp: moved_def)
    show ?thesis
    proof (cases "rpm_bad ?c")
      case True
      have "nat (5 - Gear ?c) < nat (5 - Gear c)"
        using \<open>5500 < ?r \<and> Gear c < 5\<close> by simp
      from less.hyps [OF this m d] obtain c' where "gear_loop ?c = Some c'" and "settled ?c c'"
        by blast
      moreover have "settled ?c c' \<longleftrightarrow> settled c c'"
        by (simp only: settled_def) simp
      ultimately show ?thesis
        using True by (subst gear_loop.simps) (simp add: sh)
    next
      case False
      then have "unat ?r2 \<le> 8000"
        by (simp add: rpm_bad_def word_less_nat_alt)
      then have "settled c ?c"
        using less.prems True g by (intro settledI [of c _ "Gear c + 1"]) auto
      then show ?thesis
        using False by (intro exI [of _ ?c]) (subst gear_loop.simps, simp add: sh)
    qed
  next
    case False
    let ?c = "c\<lparr>Rpm := ?r\<rparr>"
    have sh: "shift_gear c = ?c"
      using False less.prems(2) by (auto simp: shift_gear_def Let_def)
    have ok: "unat ?r \<le> 8000"
    proof (cases "5500 < ?r")
      case True
      then have "Gear c = 5"
        using False g by simp
      then have "Speed c * ratio (Gear c) \<le> of_nat 8000"
        using v by simp
      then show ?thesis
        by (rule rpm_le [OF v g])
    qed (simp add: word_less_nat_alt)
    then have "\<not> rpm_bad ?c"
      using rpm_min [OF v g] by (simp add: rpm_bad_def word_less_nat_alt)
    moreover have "settled c ?c"
      using less.prems g ok by (intro settledI [of c _ "Gear c"]) auto
    ultimately show ?thesis
      by (intro exI [of _ ?c]) (subst gear_loop.simps, simp add: sh)
  qed
qed

lemma gear_loop_down:
  assumes m: "moved c" and d: "Direction c = -1"
  shows "\<exists>c'. gear_loop c = Some c' \<and> settled c c'"
proof -
  have v: "10 \<le> Speed c" "Speed c \<le> 240" and g: "1 \<le> Gear c" "Gear c \<le> 5"
    and p: "Speed c * ratio (Gear c) \<le> 6000"
    using m d by (auto simp: moved_def)
  define g' where "g' = (if rpm_of (Speed c) (Gear c) < 2700 \<and> 1 < Gear c then Gear c - 1 else Gear c)"
  let ?c = "c\<lparr>Rpm := rpm_of (Speed c) g', Gear := g'\<rparr>"
  have sh: "shift_gear c = ?c"
    using d g by (auto simp: shift_gear_def Let_def int8_id g'_def)
  have g': "1 \<le> g'" "g' \<le> 5"
    using g by (auto simp: g'_def)
  have p': "Speed c * ratio g' \<le> 6000"
  proof (cases "rpm_of (Speed c) (Gear c) < 2700 \<and> 1 < Gear c")
    case True
    then have "unat (rpm_of (Speed c) (Gear c)) \<le> 2699"
      by (simp add: word_less_nat_alt)
    from rpm_ge [OF v g this] have "Speed c * ratio (Gear c) \<le> 2702"
      by simp
    moreover have "Speed c * ratio (Gear c - 1) \<le> Speed c * (2 * ratio (Gear c))"
      using ratio_down [of "Gear c"] True g v by (intro mult_left_mono) auto
    ultimately show ?thesis
      using True by (simp add: g'_def)
  qed (use p in \<open>auto simp: g'_def\<close>)
  then have ok: "unat (rpm_of (Speed c) g') \<le> 8000"
    by (intro rpm_le [OF v g']) simp
  then have "\<not> rpm_bad ?c"
    using rpm_min [OF v g'] by (simp add: rpm_bad_def word_less_nat_alt)
  moreover have "settled c ?c"
    using m g' ok p' by (intro settledI [of c _ g']) auto
  ultimately show ?thesis
    by (intro exI [of _ ?c]) (subst gear_loop.simps, simp add: sh)
qed

lemma locUpdateRpm_settled:
  assumes "moved c"
  shows "\<exists>c'. locUpdateRpm c = Inr c' \<and> settled c c'"
  using assms gear_loop_up [of c] gear_loop_down [of c] unfolding locUpdateRpm_def moved_def by fastforce

section \<open>The other values\<close>

definition others_ok :: "carmodel \<Rightarrow> bool" where
  "others_ok c \<longleftrightarrow>
     cc_turn c \<le> 3001
     \<and> 0 \<le> cc_light c \<and> cc_light c \<le> 250
     \<and> 0 \<le> cc_fan c \<and> cc_fan c \<le> 300
     \<and> 0 \<le> cc_oil c \<and> cc_oil c \<le> 325
     \<and> 0 \<le> cc_battery c \<and> cc_battery c \<le> 225
     \<and> 0 \<le> cc_airbag c \<and> cc_airbag c \<le> 1005
     \<and> 0 \<le> cc_belt c \<and> cc_belt c \<le> 705
     \<and> 0 \<le> cc_break c \<and> cc_break c \<le> 305
     \<and> 0 \<le> cc_windshield c \<and> cc_windshield c \<le> 285
     \<and> 0 \<le> cc_wiping c \<and> cc_wiping c \<le> 1305
     \<and> (cooling_inc c = 1 \<and> 0 \<le> CoolingTemp c \<and> CoolingTemp c \<le> 100
        \<or> cooling_inc c = -1 \<and> 20 \<le> CoolingTemp c \<and> CoolingTemp c \<le> 101)
     \<and> FuelLevel c \<le> 99 \<and> GearSelect c \<in> {1, 2, 4, 8, 16}"

text \<open>The counters of the fuel and gear display count the updates.\<close>

definition counted :: "int \<Rightarrow> carmodel \<Rightarrow> bool" where
  "counted n c \<longleftrightarrow> cc_fuel c = n \<and> cc_gear c = n"

definition car_ok :: "int \<Rightarrow> carmodel \<Rightarrow> bool" where
  "car_ok n c \<longleftrightarrow> driving c \<and> 100 \<le> Rpm c \<and> Rpm c \<le> 8000 \<and> others_ok c \<and> counted n c"

lemma in_turn_append:
  "in_turn (fs @ gs) c = (case in_turn fs c of Inl e \<Rightarrow> Inl e | Inr c' \<Rightarrow> in_turn gs c')"
  by (induction fs arbitrary: c) (auto split: sum.split)

definition keeps :: "(carmodel \<Rightarrow> bool) \<Rightarrow> (carmodel \<Rightarrow> car_error + carmodel) \<Rightarrow> bool" where
  "keeps I f \<longleftrightarrow> (\<forall>c. I c \<longrightarrow> (\<exists>c'. f c = Inr c' \<and> I c'))"

lemma in_turn_keeps: "(\<forall>f \<in> set fs. keeps I f) \<Longrightarrow> keeps I (in_turn fs)"
proof (induction fs)
  case (Cons f fs)
  show ?case
    unfolding keeps_def
  proof (intro allI impI)
    fix c
    assume "I c"
    then obtain c1 where c1: "f c = Inr c1" "I c1"
      using Cons.prems by (auto simp: keeps_def)
    then show "\<exists>c'. in_turn (f # fs) c = Inr c' \<and> I c'"
      using Cons by (simp add: keeps_def)
  qed
qed (simp add: keeps_def)

lemmas car_ok_defs = car_ok_def driving_def moved_def others_ok_def counted_def tick_def INT_MAX_def

lemma keeps_turn: "keeps (car_ok n) (\<lambda>c. Inr (locUpdateTurnSignals c))"
proof -
  have t: "x + 1 \<le> 3001" if "\<not> 3000 < x" "x \<le> 3001" for x :: u32
    using that by (simp add: word_less_nat_alt word_le_nat_alt unat_word_ariths)
  show ?thesis
    unfolding keeps_def locUpdateTurnSignals_def by (auto simp: car_ok_defs Let_def intro: t)
qed

lemma keeps_light: "keeps (car_ok n) locUpdateLight"
  unfolding keeps_def locUpdateLight_def by (auto simp: car_ok_defs)

lemma keeps_fan: "keeps (car_ok n) locUpdateFan"
  unfolding keeps_def locUpdateFan_def by (auto simp: car_ok_defs)

lemma keeps_oil: "keeps (car_ok n) locUpdateOil"
  unfolding keeps_def locUpdateOil_def by (auto simp: car_ok_defs)

lemma keeps_battery: "keeps (car_ok n) locUpdateBattery"
  unfolding keeps_def locUpdateBattery_def by (auto simp: car_ok_defs)

lemma keeps_airbag: "keeps (car_ok n) locUpdateAirbag"
  unfolding keeps_def locUpdateAirbag_def by (auto simp: car_ok_defs)

lemma keeps_belt: "keeps (car_ok n) locUpdateBelt"
  unfolding keeps_def locUpdateBelt_def by (auto simp: car_ok_defs)

lemma keeps_break: "keeps (car_ok n) locUpdateBreak"
  unfolding keeps_def locUpdateBreak_def by (auto simp: car_ok_defs)

lemma keeps_windshield: "keeps (car_ok n) locUpdateWindshield"
  unfolding keeps_def locUpdateWindshield_def by (auto simp: car_ok_defs)

lemma keeps_wiping: "keeps (car_ok n) locUpdateWiping"
  unfolding keeps_def locUpdateWiping_def by (auto simp: car_ok_defs)

lemma keeps_cooling: "keeps (car_ok n) (\<lambda>c. Inr (locUpdateCoolingLiquid c))"
  unfolding keeps_def locUpdateCoolingLiquid_def by (auto simp: car_ok_defs Let_def int8_id)

lemmas keeps_middle = keeps_turn keeps_light keeps_fan keeps_oil keeps_battery keeps_airbag keeps_belt keeps_break keeps_windshield keeps_wiping keeps_cooling

lemma fuel_step:
  assumes "car_ok n c" and "n < INT_MAX"
  shows "\<exists>c'. locUpdateFuel c = Inr c' \<and> c' = c\<lparr>cc_fuel := n + 1, FuelLevel := FuelLevel c'\<rparr> \<and> FuelLevel c' \<le> 99"
proof -
  have f: "FuelLevel c \<le> 99" and n: "cc_fuel c = n"
    using assms by (auto simp: car_ok_def others_ok_def counted_def)
  have "FuelLevel c - 1 \<le> 99" if "FuelLevel c \<noteq> 0"
  proof -
    have "1 \<le> FuelLevel c"
      using that word_less_one_iff [of "FuelLevel c"] by (metis not_le)
    then have "FuelLevel c - 1 \<le> FuelLevel c"
      by (rule word_sub_le)
    then show ?thesis
      using f by (rule order.trans)
  qed
  then show ?thesis
    using f n assms(2) by (auto simp: locUpdateFuel_def tick_def Let_def)
qed

lemma gear_select_step:
  assumes "GearSelect c \<in> {1, 2, 4, 8, 16}" and "cc_gear c = n" and "n < INT_MAX"
  shows "\<exists>c'. locUpdateGearSelect c = Inr c' \<and> c' = c\<lparr>cc_gear := n + 1, GearSelect := GearSelect c'\<rparr>
    \<and> GearSelect c' \<in> {1, 2, 4, 8, 16}"
  using assms by (auto simp: locUpdateGearSelect_def tick_def Let_def)

lemma CarModelUpdate_eq:
  "CarModelUpdate =
     in_turn ([\<lambda>c. Inr (locUpdateSpeed c), locUpdateRpm] @
       [\<lambda>c. Inr (locUpdateTurnSignals c), locUpdateLight, locUpdateFan, locUpdateOil, locUpdateBattery,
        locUpdateAirbag, locUpdateBelt, locUpdateBreak, locUpdateWindshield, locUpdateWiping,
        \<lambda>c. Inr (locUpdateCoolingLiquid c)] @ [locUpdateFuel, locUpdateGearSelect])"
  by (simp add: CarModelUpdate_def)

lemma locUpdateSpeed_others:
  "others_ok (locUpdateSpeed c) = others_ok c" "counted n (locUpdateSpeed c) = counted n c"
  by (simp_all add: locUpdateSpeed_def accelerate_def Let_def others_ok_def counted_def)

lemma settled_others:
  assumes "settled c c'"
  shows "others_ok c' = others_ok c" "counted n c' = counted n c"
proof -
  obtain r g where "c' = c\<lparr>Rpm := r, Gear := g\<rparr>"
    using assms unfolding settled_def by blast
  then show "others_ok c' = others_ok c" "counted n c' = counted n c"
    by (simp_all add: others_ok_def counted_def)
qed

lemma drive_step:
  assumes "driving c" "others_ok c" "counted n c"
  shows "\<exists>c'. in_turn [\<lambda>c. Inr (locUpdateSpeed c), locUpdateRpm] c = Inr c' \<and> car_ok n c'"
proof -
  obtain c' where "locUpdateRpm (locUpdateSpeed c) = Inr c'" and s: "settled (locUpdateSpeed c) c'"
    using locUpdateRpm_settled [OF locUpdateSpeed_moved [OF assms(1)]] by blast
  moreover have "others_ok c'" "counted n c'"
    using assms(2,3) by (simp_all add: settled_others [OF s] locUpdateSpeed_others)
  moreover from this s have "car_ok n c'"
    unfolding settled_def car_ok_def by blast
  ultimately show ?thesis
    by simp
qed

lemma last_step:
  assumes "car_ok n c" and "n < INT_MAX"
  shows "\<exists>c'. in_turn [locUpdateFuel, locUpdateGearSelect] c = Inr c' \<and> car_ok (n + 1) c'"
proof -
  obtain c1 f where c1: "locUpdateFuel c = Inr c1" "c1 = c\<lparr>cc_fuel := n + 1, FuelLevel := f\<rparr>" "f \<le> 99"
    using fuel_step [OF assms] by blast
  have g: "GearSelect c1 \<in> {1, 2, 4, 8, 16}" and n: "cc_gear c1 = n"
    using assms(1) unfolding c1(2) car_ok_def others_ok_def counted_def by simp_all
  obtain c2 s where c2: "locUpdateGearSelect c1 = Inr c2" "c2 = c1\<lparr>cc_gear := n + 1, GearSelect := s\<rparr>" "s \<in> {1, 2, 4, 8, 16}"
    using gear_select_step [OF g n assms(2)] by blast
  have "car_ok (n + 1) c2"
    using assms(1) c1(3) c2(3) unfolding c2(2) c1(2)
    by (simp add: car_ok_def driving_def moved_def others_ok_def counted_def)
  then show ?thesis
    by (simp add: c1(1) c2(1))
qed

lemma update_ok:
  assumes "driving c" "others_ok c" "counted n c" and "n < INT_MAX"
  shows "\<exists>c'. CarModelUpdate c = Inr c' \<and> car_ok (n + 1) c'"
proof -
  let ?mid = "[\<lambda>c. Inr (locUpdateTurnSignals c), locUpdateLight, locUpdateFan, locUpdateOil, locUpdateBattery,
        locUpdateAirbag, locUpdateBelt, locUpdateBreak, locUpdateWindshield, locUpdateWiping,
        \<lambda>c. Inr (locUpdateCoolingLiquid c)]"
  obtain c1 where c1: "in_turn [\<lambda>c. Inr (locUpdateSpeed c), locUpdateRpm] c = Inr c1" "car_ok n c1"
    using drive_step [OF assms(1-3)] by blast
  have "keeps (car_ok n) (in_turn ?mid)"
    by (rule in_turn_keeps) (simp add: keeps_middle)
  then obtain c2 where c2: "in_turn ?mid c1 = Inr c2" "car_ok n c2"
    using c1(2) unfolding keeps_def by blast
  obtain c3 where c3: "in_turn [locUpdateFuel, locUpdateGearSelect] c2 = Inr c3" "car_ok (n + 1) c3"
    using last_step [OF c2(2) assms(4)] by blast
  then show ?thesis
    unfolding CarModelUpdate_eq in_turn_append c1(1) c2(1) sum.case c3(1) by simp
qed

section \<open>Properties\<close>

text \<open>The model after \<open>n\<close> frames of the application: initialisation, then one update per frame.\<close>

fun frames :: "nat \<Rightarrow> car_error + carmodel" where
  "frames 0 = Inr (InitCarModel car_start)"
| "frames (Suc n) = (case frames n of Inl e \<Rightarrow> Inl e | Inr c \<Rightarrow> CarModelUpdate c)"

lemma start_ok: "driving (InitCarModel car_start)" "others_ok (InitCarModel car_start)" "counted 0 (InitCarModel car_start)"
  by (simp_all add: InitCarModel_def car_start_def driving_def moved_def others_ok_def counted_def)

lemma frames_ok:
  "int n \<le> INT_MAX \<Longrightarrow> \<exists>c. frames n = Inr c \<and> driving c \<and> others_ok c \<and> counted (int n) c \<and> (0 < n \<longrightarrow> car_ok (int n) c)"
proof (induction n)
  case 0
  then show ?case
    using start_ok by simp
next
  case (Suc n)
  then obtain c where c: "frames n = Inr c" "driving c" "others_ok c" "counted (int n) c"
    by auto
  obtain c' where "CarModelUpdate c = Inr c'" "car_ok (int n + 1) c'"
    using update_ok [OF c(2-4)] Suc.prems by auto
  moreover have "int (Suc n) = int n + 1"
    by simp
  ultimately have "frames (Suc n) = Inr c'" "car_ok (int (Suc n)) c'"
    by (simp_all only: frames.simps c(1) sum.case)
  then show ?case
    unfolding car_ok_def by blast
qed

text \<open>
  Property C26 (car_model_runs): during the first \<open>2\<^sup>3\<^sup>1 - 1\<close> frames the model runs without undefined
  behaviour and every update returns, in particular the gear loop ends. After each update the speed is
  between 10 and 240, the gear between 1 and 5, the engine speed between 100 and 8000 and the one that
  belongs to speed and gear, the temperature between 0 and 101, the fuel level below 100, and exactly
  one selector position is shown.
\<close>

theorem car_model_runs:
  assumes "0 < n" and "n < 2 ^ 31"
  shows "\<exists>c. frames n = Inr c
    \<and> 10 \<le> Speed c \<and> Speed c \<le> 240 \<and> 1 \<le> Gear c \<and> Gear c \<le> 5
    \<and> 100 \<le> Rpm c \<and> Rpm c \<le> 8000 \<and> Direction c \<in> {1, -1}
    \<and> 0 \<le> CoolingTemp c \<and> CoolingTemp c \<le> 101 \<and> FuelLevel c \<le> 99
    \<and> GearSelect c \<in> {1, 2, 4, 8, 16}"
proof -
  have "int n \<le> INT_MAX"
    using assms(2) by (simp add: INT_MAX_def)
  then obtain c where "frames n = Inr c" "car_ok (int n) c"
    using frames_ok assms(1) by blast
  then show ?thesis
    by (intro exI [of _ c]) (auto simp: car_ok_def driving_def moved_def others_ok_def)
qed

theorem car_model_runs_witness:
  "\<exists>c. frames 1000000 = Inr c \<and> Speed c \<le> 240 \<and> Rpm c \<le> 8000"
proof -
  have "(0 :: nat) < 1000000" "(1000000 :: nat) < 2 ^ 31"
    by simp_all
  from car_model_runs [OF this] show ?thesis
    by blast
qed

lemma update_overflow:
  assumes "driving c" "others_ok c" "counted INT_MAX c"
  shows "CarModelUpdate c = Inl SignedOverflow"
proof -
  let ?mid = "[\<lambda>c. Inr (locUpdateTurnSignals c), locUpdateLight, locUpdateFan, locUpdateOil, locUpdateBattery,
        locUpdateAirbag, locUpdateBelt, locUpdateBreak, locUpdateWindshield, locUpdateWiping,
        \<lambda>c. Inr (locUpdateCoolingLiquid c)]"
  obtain c1 where c1: "in_turn [\<lambda>c. Inr (locUpdateSpeed c), locUpdateRpm] c = Inr c1" "car_ok INT_MAX c1"
    using drive_step [OF assms] by blast
  have "keeps (car_ok INT_MAX) (in_turn ?mid)"
    by (rule in_turn_keeps) (simp add: keeps_middle)
  then obtain c2 where c2: "in_turn ?mid c1 = Inr c2" "car_ok INT_MAX c2"
    using c1(2) unfolding keeps_def by blast
  have "locUpdateFuel c2 = Inl SignedOverflow"
    using c2(2) by (simp add: locUpdateFuel_def tick_def car_ok_def counted_def)
  then show ?thesis
    unfolding CarModelUpdate_eq in_turn_append c1(1) c2(1) sum.case by simp
qed

text \<open>
  The counters of fuel and gear display are never reset, so frame
  \<open>2\<^sup>3\<^sup>1\<close> increments an \<^verbatim>\<open>int\<close> beyond its maximum, which C leaves undefined; the model stops there.
\<close>

theorem car_model_overflow: "frames (2 ^ 31 + k) = Inl SignedOverflow"
proof (induction k)
  case 0
  have e: "(2 ^ 31 :: nat) = Suc 2147483647"
    by simp
  obtain c where c: "frames 2147483647 = Inr c" "driving c" "others_ok c" "counted (int 2147483647) c"
    using frames_ok [of 2147483647] by (auto simp: INT_MAX_def)
  then have "CarModelUpdate c = Inl SignedOverflow"
    by (intro update_overflow) (simp_all add: INT_MAX_def)
  then show ?case
    unfolding add_0_right e frames.simps(2) c(1) by simp
qed (simp only: add_Suc_right frames.simps sum.case)

end
