(* ===== verification/Draw.thy ===== *)
theory Draw
  imports Images CarModel
begin

text \<open>
  The interface of the cluster application to the vendor libraries, and the conversions of
  \<^verbatim>\<open>demo_cluster.c\<close> to the structures of the drawing library.

  Drawing library, window manager, memory manager and log are not in the repository. Their functions
  are the constructors of \<open>call\<close>, with the arguments the application passes, and the record \<open>library\<close>,
  an argument of the definitions, answers a call as a function of the calls before it. The state
  of the application keeps the calls made so far, the latest first, so the theorems speak about what
  the application asked the libraries to draw. The library's conversion to fixed point numbers and
  the functions \<^verbatim>\<open>sin\<close> and \<^verbatim>\<open>cos\<close> of the C library, whose accuracy C leaves to the implementation, are
  fields of the same record.
\<close>

section \<open>The vendor libraries\<close>

datatype texture_flag = R_DRW2D_TEX_PERSPECTIVE | R_DRW2D_TEX_BILINEAR
datatype fill_mode = R_DRW2D_FILLMODE_SOLID | R_DRW2D_FILLMODE_TEXTURE
datatype blend_mode = R_DRW2D_BLENDMODE_SRC | R_DRW2D_BLENDMODE_CUSTOM
datatype blend_factor =
  R_DRW2D_BLEND_ZERO | R_DRW2D_BLEND_ONE | R_DRW2D_BLEND_SRC_ALPHA | R_DRW2D_BLEND_ONE_MINUS_SRC_ALPHA
datatype line_join = R_DRW2D_LINEJOIN_NONE
datatype line_cap = R_DRW2D_LINECAP_BUTT | R_DRW2D_LINECAP_SQUARE
datatype edge_flag = R_DRW2D_EDGE_AB | R_DRW2D_EDGE_BC | R_DRW2D_EDGE_CA

record r_drw2d_Buffer_t =
  buf_Pitch :: u32
  buf_Width :: u32
  buf_Height :: u32
  buf_PixelFormat :: r_drw2d_PixelFormat_t
  buf_Data :: ptr

record r_drw2d_Framebuffer_t =
  fb_Flags :: u32
  fb_Handle :: u32
  fb_Buffer :: r_drw2d_Buffer_t

record r_drw2d_Texture_t =
  tex_Flags :: "texture_flag list"
  tex_Handle :: u32
  tex_Buffer :: r_drw2d_Buffer_t

record r_drw2d_Point_t =
  pt_X :: int
  pt_Y :: int

record r_drw2d_Rect_t =
  rect_X :: int
  rect_Y :: int
  rect_Width :: int
  rect_Height :: int

record r_drw2d_LineStyle_t =
  ls_LineJoin :: line_join
  ls_LineCap :: line_cap
  ls_Width :: int
  ls_MiterLimit :: int
  ls_IsClosed :: bool

record r_wm_Surface_t =
  srf_PosX :: u32
  srf_PosY :: u32
  srf_PosZ :: u32
  srf_Width :: u32
  srf_Height :: u32
  srf_StrideY :: u32
  srf_StrideC :: u32
  srf_FBuf :: u32

datatype screen_property = R_WM_SCREEN_PROP_FMT | R_WM_SCREEN_PROP_BKGCOLOR u32
datatype surface_property = R_WM_SURF_PROP_POS | R_WM_SURF_PROP_SIZE | R_WM_SURF_PROP_BUFFER

datatype display = R_WM_DEV_VOUT0 | R_WM_DEV_VOUT1

datatype call =
    R_DRW2D_CtxTextureSet u32 r_drw2d_Texture_t
  | R_DRW2D_CtxFillMode fill_mode
  | R_DRW2D_CtxBlendMode blend_mode
  | R_DRW2D_CtxBlendFactors blend_factor blend_factor blend_factor blend_factor
  | R_DRW2D_CtxIdentity
  | R_DRW2D_CtxFgColor u32
  | R_DRW2D_CtxBgColor u32
  | R_DRW2D_CtxLineStyle r_drw2d_LineStyle_t
  | R_DRW2D_TextureBlit "r_drw2d_Rect_t option" r_drw2d_Rect_t
  | R_DRW2D_DrawRect r_drw2d_Rect_t
  | R_DRW2D_DrawLines "r_drw2d_Point_t list"
  | R_DRW2D_DrawTriangles "r_drw2d_Point_t list" "edge_flag list"
  | R_DRW2D_FramebufferSet r_drw2d_Framebuffer_t
  | R_DRW2D_FramebufferClear
  | R_DRW2D_GpuFinish
  | R_DRW2D_Init
  | R_DRW2D_Open
  | R_DRW2D_NativeDriverBegin
  | R_DRW2D_NativeDriverHandleGet
  | R_DRW2D_NativeDriverEnd
  | R_WM_DevInit display
  | R_WM_DevDeinit display
  | R_WM_ScreenPropertySet display screen_property
  | R_WM_DevInfoGet display
  | R_WM_ScreenEnable display
  | R_WM_SurfaceGet display r_wm_Surface_t
  | R_WM_SurfaceRelease display
  | R_WM_SurfacePropertySet display surface_property r_wm_Surface_t
  | R_WM_ScreenSurfacesFlush display
  | R_OSAL_MmngrAlloc u32 u32 nat
  | R_OSAL_MmngrGetHwAddr nat
  | R_OSAL_ThreadInitializeThreadConfigSt
  | R_OSAL_ThreadCreate string u32
  | R_OSAL_ThreadJoin string
  | dhd_server_main u32 u32
  | R_PRR_GetDevice
  | R_PRINT_Log string

text \<open>
  \<open>lib_result\<close> is the return value of a call after the calls before it, zero for success.
  \<open>screen_size\<close>, \<open>hw_address\<close> and \<open>is_e3\<close> are the further results of \<^verbatim>\<open>R_WM_DevInfoGet\<close>,
  \<^verbatim>\<open>R_OSAL_MmngrGetHwAddr\<close> and \<^verbatim>\<open>R_PRR_GetDevice\<close>; \<open>g_hndl_mmngr\<close> tells whether the handle of the memory
  manager, a variable of another program part, is not null. The display handle that \<^verbatim>\<open>R_WM_SurfaceGet\<close>
  fills in is opaque and left out.
\<close>

record library =
  lib_result :: "call list \<Rightarrow> call \<Rightarrow> u32"
  R_DRW2D_2X :: "rat \<Rightarrow> int"
  lib_sin :: "rat \<Rightarrow> rat"
  lib_cos :: "rat \<Rightarrow> rat"
  screen_size :: "call list \<Rightarrow> u32 \<times> u32"
  hw_address :: "call list \<Rightarrow> nat \<Rightarrow> u32"
  is_e3 :: "call list \<Rightarrow> bool"
  g_hndl_mmngr :: bool

text \<open>The part of the application's state that drawing uses.\<close>

record 'd drawing =
  images :: "'d gfx"
  calls :: "call list"
  demo_cur_fb :: r_drw2d_Framebuffer_t

definition invoke :: "library \<Rightarrow> call \<Rightarrow> ('d, 'x) drawing_scheme \<Rightarrow> u32 \<times> ('d, 'x) drawing_scheme" where
  "invoke L c s = (lib_result L (calls s) c, s\<lparr>calls := c # calls s\<rparr>)"

text \<open>A sequence of statements \<^verbatim>\<open>ret |= call\<close>.\<close>

fun invoke_all ::
    "library \<Rightarrow> call list \<Rightarrow> u32 \<Rightarrow> ('d, 'x) drawing_scheme \<Rightarrow> u32 \<times> ('d, 'x) drawing_scheme" where
  "invoke_all L [] ret s = (ret, s)"
| "invoke_all L (c # cs) ret s = (let (r, s') = invoke L c s in invoke_all L cs (ret OR r) s')"

text \<open>Calls whose result is ignored, and the report that ends a drawing function.\<close>

definition perform :: "library \<Rightarrow> call list \<Rightarrow> ('d, 'x) drawing_scheme \<Rightarrow> ('d, 'x) drawing_scheme" where
  "perform L cs s = snd (invoke_all L cs 0 s)"

definition report :: "string \<Rightarrow> u32 \<times> ('d, 'x) drawing_scheme \<Rightarrow> ('d, 'x) drawing_scheme" where
  "report msg rs = (let (ret, s) = rs in if ret \<noteq> 0 then s\<lparr>calls := R_PRINT_Log msg # calls s\<rparr> else s)"

lemma invoke_all_state: "snd (invoke_all L cs ret s) = s\<lparr>calls := rev cs @ calls s\<rparr>"
  by (induction cs arbitrary: ret s) (simp_all add: invoke_def)

lemma perform_eq [simp]: "perform L cs s = s\<lparr>calls := rev cs @ calls s\<rparr>"
  by (simp add: perform_def invoke_all_state)

section \<open>Conversions (demo\_cluster.c)\<close>

definition demo_set_fb :: "r_drw2d_Framebuffer_t \<Rightarrow> ('d, 'x) drawing_scheme \<Rightarrow> ('d, 'x) drawing_scheme" where
  "demo_set_fb f s = s\<lparr>demo_cur_fb := f\<rparr>"

definition demo_get_fb :: "('d, 'x) drawing_scheme \<Rightarrow> r_drw2d_Framebuffer_t" where
  "demo_get_fb s = demo_cur_fb s"

text \<open>The pointer to the pixels, which both conversions compute first.\<close>

definition image_pixels :: "Img_t \<Rightarrow> ('d, 'x) drawing_scheme \<Rightarrow> gfx_error + ptr" where
  "image_pixels Img s =
     (if Attributes Img AND IMG_ATTRIBUTE_USE_FROM_PERSISTENT_MEMORY \<noteq> 0 then Inr (img_data (images s) (Data Img))
      else andthen (demo_getvidmemptr (img_data (images s) (Data Img)) (images s)) (\<lambda>a. Inr (ptr_of a)))"

definition image_buffer :: "Img_t \<Rightarrow> ptr \<Rightarrow> r_drw2d_Buffer_t" where
  "image_buffer Img pImageData =
     \<lparr>buf_Pitch = Width Img, buf_Width = Width Img, buf_Height = Height Img,
      buf_PixelFormat = GetDrw2dFormat (Colourformat Img), buf_Data = pImageData\<rparr>"

definition demo_img2fb :: "Img_t \<Rightarrow> ('d, 'x) drawing_scheme \<Rightarrow> gfx_error + r_drw2d_Framebuffer_t" where
  "demo_img2fb Img s =
     andthen (image_pixels Img s) (\<lambda>pImageData.
     Inr \<lparr>fb_Flags = 0, fb_Handle = 0, fb_Buffer = image_buffer Img pImageData\<rparr>)"

definition demo_img2tex ::
    "Img_t \<Rightarrow> texture_flag list \<Rightarrow> ('d, 'x) drawing_scheme \<Rightarrow> gfx_error + r_drw2d_Texture_t" where
  "demo_img2tex Img Flags s =
     andthen (image_pixels Img s) (\<lambda>pImageData.
     Inr \<lparr>tex_Flags = Flags, tex_Handle = 0, tex_Buffer = image_buffer Img pImageData\<rparr>)"

definition demo_fb2tex :: "r_drw2d_Framebuffer_t \<Rightarrow> texture_flag list \<Rightarrow> r_drw2d_Texture_t" where
  "demo_fb2tex Fb Flags = \<lparr>tex_Flags = Flags, tex_Handle = 0, tex_Buffer = fb_Buffer Fb\<rparr>"

definition demo_int2rect :: "library \<Rightarrow> int \<Rightarrow> int \<Rightarrow> int \<Rightarrow> int \<Rightarrow> r_drw2d_Rect_t" where
  "demo_int2rect L X Y W H =
     \<lparr>rect_X = R_DRW2D_2X L (of_int X), rect_Y = R_DRW2D_2X L (of_int Y),
      rect_Width = R_DRW2D_2X L (of_int W), rect_Height = R_DRW2D_2X L (of_int H)\<rparr>"

section \<open>Images that can be drawn\<close>

text \<open>An image is ready when it has a video buffer with an address; drawing any other one never returns.\<close>

definition pixels_at :: "'d gfx \<Rightarrow> Img_t \<Rightarrow> u32" where
  "pixels_at g Img = (case img_data g (Data Img) of VidBuf i \<Rightarrow> vidmembuffer g ! i | _ \<Rightarrow> 0)"

definition ready :: "'d gfx \<Rightarrow> Img_t \<Rightarrow> bool" where
  "ready g Img \<longleftrightarrow>
     Attributes Img AND IMG_ATTRIBUTE_USE_FROM_PERSISTENT_MEMORY = 0 \<and> pixels_at g Img \<noteq> 0"

definition texture_of :: "'d gfx \<Rightarrow> Img_t \<Rightarrow> texture_flag list \<Rightarrow> r_drw2d_Texture_t" where
  "texture_of g Img fl =
     \<lparr>tex_Flags = fl, tex_Handle = 0, tex_Buffer = image_buffer Img (Addr (pixels_at g Img))\<rparr>"

definition framebuffer_of :: "'d gfx \<Rightarrow> Img_t \<Rightarrow> r_drw2d_Framebuffer_t" where
  "framebuffer_of g Img = \<lparr>fb_Flags = 0, fb_Handle = 0, fb_Buffer = image_buffer Img (Addr (pixels_at g Img))\<rparr>"

lemma image_pixels_ready: "ready (images s) Img \<Longrightarrow> image_pixels Img s = Inr (Addr (pixels_at (images s) Img))"
  by (auto simp: ready_def pixels_at_def image_pixels_def demo_getvidmemptr_def ptr_of_def split: ptr.splits)

lemma demo_img2tex_ready: "ready (images s) Img \<Longrightarrow> demo_img2tex Img fl s = Inr (texture_of (images s) Img fl)"
  by (simp add: demo_img2tex_def image_pixels_ready texture_of_def)

lemma demo_img2fb_ready: "ready (images s) Img \<Longrightarrow> demo_img2fb Img s = Inr (framebuffer_of (images s) Img)"
  by (simp add: demo_img2fb_def image_pixels_ready framebuffer_of_def)

lemma demo_img2tex_missing:
  assumes "img_data (images s) (Data Img) = Null" and "Attributes Img AND IMG_ATTRIBUTE_USE_FROM_PERSISTENT_MEMORY = 0"
  shows "demo_img2tex Img fl s = Inl Hang"
  using assms by (simp add: demo_img2tex_def image_pixels_def demo_getvidmemptr_def)

section \<open>Loops over a table\<close>

fun each_entry :: "('a \<Rightarrow> 's \<Rightarrow> 'e + 's) \<Rightarrow> 'a list \<Rightarrow> 's \<Rightarrow> 'e + 's" where
  "each_entry f [] s = Inr s"
| "each_entry f (x # xs) s = andthen (f x s) (each_entry f xs)"

lemma each_entry_append: "each_entry f (xs @ ys) s = andthen (each_entry f xs s) (each_entry f ys)"
  by (induction xs arbitrary: s) (simp_all add: andthen_def split: sum.split)

end
