(* ===== verification/Trig.thy ===== *)
theory Trig
  imports TrigTable
begin

text \<open>
  Access to the trigonometric tables: an entry by line and column, and the bounds and the monotonicity
  of the entries from 123 to 246 degrees, which the fuel pointer uses.
\<close>

section \<open>Entries\<close>

text \<open>Access to an entry by line and column.\<close>

lemma concat_nth_rows:
  "list_all (\<lambda>r. length r = n) rs \<Longrightarrow> i < n * length rs \<Longrightarrow> concat rs ! i = rs ! (i div n) ! (i mod n)"
proof (induction rs arbitrary: i)
  case (Cons r rs)
  show ?case
  proof (cases "i < n")
    case False
    then have "concat (r # rs) ! i = concat rs ! (i - n)"
      using Cons.prems by (simp add: nth_append)
    also have "\<dots> = rs ! ((i - n) div n) ! ((i - n) mod n)"
      using Cons False by (intro Cons.IH) auto
    finally show ?thesis
      using False Cons.prems by (cases "n = 0") (simp_all add: le_div_geq le_mod_geq)
  qed (use Cons.prems in \<open>simp add: nth_append\<close>)
qed simp

lemma row_lengths: "list_all (\<lambda>r. length r = 200) s_rows" "list_all (\<lambda>r. length r = 200) c_rows"
proof -
  have *: "list_all2 (good_row n) xss yss \<Longrightarrow> list_all (\<lambda>r. length r = n) xss \<and> list_all (\<lambda>r. length r = n) yss" for n xss yss
    by (induction rule: list_all2_induct) (auto simp: good_row_def)
  show "list_all (\<lambda>r. length r = 200) s_rows" "list_all (\<lambda>r. length r = 200) c_rows"
    using * [OF middle_rows] by simp_all
qed

lemma entry_row:
  assumes "0 < i" "i \<le> 8000"
  shows "s_STable ! i = s_rows ! ((i - 1) div 200) ! ((i - 1) mod 200)"
    and "s_CTable ! i = c_rows ! ((i - 1) div 200) ! ((i - 1) mod 200)"
proof -
  have l: "length s_rows = 40" "length c_rows = 40" "length (concat s_rows) = 8000" "length (concat c_rows) = 8000"
    using good_rows_concat [OF middle_rows] list_all2_lengthD [OF middle_rows] by (simp_all add: tables_eq)
  have f: "length s_STable_row0 = 1" "length s_CTable_row0 = 1"
    using first_row by (simp_all add: good_row_def)
  have "s_STable ! i = concat s_rows ! (i - 1)" "s_CTable ! i = concat c_rows ! (i - 1)"
    using assms by (auto simp: tables_eq nth_append l f)
  then show "s_STable ! i = s_rows ! ((i - 1) div 200) ! ((i - 1) mod 200)"
    "s_CTable ! i = c_rows ! ((i - 1) div 200) ! ((i - 1) mod 200)"
    using assms concat_nth_rows [OF row_lengths(1), of "i - 1"] concat_nth_rows [OF row_lengths(2), of "i - 1"] by (simp_all add: l)
qed

lemma row_entries:
  assumes "list_all (list_all P) (take n (drop m c_rows))" and "m * 200 < i" "i \<le> (m + n) * 200" "m + n \<le> 40"
  shows "P (s_CTable ! i)"
proof -
  let ?k = "(i - 1) div 200"
  have "length c_rows = 40"
    using list_all2_lengthD [OF middle_rows] by (simp add: tables_eq)
  then have k: "m \<le> ?k" "?k < m + n" "?k < length c_rows"
    using assms(2-4) by auto
  then have "c_rows ! ?k = take n (drop m c_rows) ! (?k - m)"
    by simp
  also have "\<dots> \<in> set (take n (drop m c_rows))"
    using k by (intro nth_mem) (simp add: less_diff_conv2; linarith)
  finally have "list_all P (c_rows ! ?k)"
    using assms(1) by (simp add: list_all_iff)
  moreover have "(i - 1) mod 200 < length (c_rows ! ?k)"
    using row_lengths(2) k by (simp add: list_all_length)
  ultimately show ?thesis
    using assms(2-4) by (simp add: entry_row list_all_length)
qed

lemma fuel_cosine: "2800 < i \<Longrightarrow> i \<le> 5600 \<Longrightarrow> s_CTable ! i \<le> 0"
  using row_entries [OF fuel_cosines, of i] by simp

lemma tip_cosine: "3400 < i \<Longrightarrow> i \<le> 4800 \<Longrightarrow> s_CTable ! i \<le> - 840000"
  using row_entries [OF tip_cosines, of i] by simp

lemma fuel_sine:
  assumes "2800 < i" "i \<le> j" "j \<le> 5600"
  shows "s_STable ! j \<le> s_STable ! i"
proof -
  have fr: "fuel_rows = take 14 (drop 14 s_rows)"
    by (simp add: fuel_rows_def s_rows_def)
  have l: "list_all (\<lambda>r. length r = 200) fuel_rows" "length fuel_rows = 14"
    using row_lengths(1) unfolding fr by (auto simp: list_all_iff tables_eq dest: in_set_takeD in_set_dropD)
  have e: "s_STable ! k = concat fuel_rows ! (k - 2801)" if "2800 < k" "k \<le> 5600" for k
  proof -
    have k: "k - 1 = (k - 2801) + 14 * 200" and "(k - 2801) div 200 < 14"
      using that by simp_all
    then have "fuel_rows ! ((k - 2801) div 200) = s_rows ! ((k - 1) div 200)"
      unfolding k fr div_mult_self1 [OF zero_neq_numeral [symmetric]] by (simp add: tables_eq add.commute)
    moreover have "(k - 2801) mod 200 = (k - 1) mod 200"
      unfolding k by (simp only: mod_mult_self1)
    moreover have "concat fuel_rows ! (k - 2801) = fuel_rows ! ((k - 2801) div 200) ! ((k - 2801) mod 200)"
      using that l by (intro concat_nth_rows) simp_all
    ultimately show ?thesis
      using that by (simp add: entry_row)
  qed
  have "length (concat fuel_rows) = 2800"
    using l by (simp add: length_concat list_all_iff fuel_rows_def)
  then show ?thesis
    using assms fuel_sines_descend by (cases "i = j") (auto simp: e sorted_wrt_iff_nth_less)
qed

lemma fuel_sine_values:
  "s_STable ! 3526 = 423390" "s_STable ! 3539 = 414337" "s_STable ! 3595 = 374875" "s_STable ! 3686 = 309309" "s_STable ! 3754 = 259313"
  "s_STable ! 4369 = - 207862" "s_STable ! 4437 = - 258572" "s_STable ! 4778 = - 499557" "s_STable ! 4801 = - 514760"
  by (simp_all add: entry_row s_rows_def s_STable_row18_def s_STable_row19_def s_STable_row22_def
      s_STable_row23_def s_STable_row24_def s_STable_row25_def)

end
