(* ===== verification/Gauge.thy ===== *)
theory Gauge
  imports Trig
begin

text \<open>
  The gauge screen of the cluster application (\<^verbatim>\<open>app_cl_gauge.c\<close>) in the build of the repository
  (\<^verbatim>\<open>SINGLE_CLUSTER\<close> and \<^verbatim>\<open>EXPAND_CENTER\<close> defined, \<^verbatim>\<open>RESCALE_SCREEN\<close> one, not \<^verbatim>\<open>WIN32\<close>): the table of
  icons, the needles with their filter, the fuel pointer, the two initial frames that merge the icons
  with the background, and the loading and releasing of the images.

  Single and double precision operations are rounded as in theory \<open>CarModel\<close>. A conversion of a
  floating point value that does not fit the integer type is the error \<open>FloatConversion\<close>. The
  calls of the drawing library that \<^verbatim>\<open>SINGLE_CLUSTER\<close> removes (engine speed needle, cooling pointer) are
  left out together with the values computed for them only.
\<close>

section \<open>Constants and types\<close>

abbreviation LOC_SPEED_POSX :: int where "LOC_SPEED_POSX \<equiv> 105"
abbreviation LOC_SPEED_POSY :: int where "LOC_SPEED_POSY \<equiv> 123"
abbreviation LOC_SPEED_CENTERX :: int where "LOC_SPEED_CENTERX \<equiv> 241"
abbreviation LOC_SPEED_CENTERY :: int where "LOC_SPEED_CENTERY \<equiv> 241"
abbreviation LOC_FGAUGE_POSX :: int where "LOC_FGAUGE_POSX \<equiv> 0"
abbreviation LOC_FGAUGE_POSY :: int where "LOC_FGAUGE_POSY \<equiv> 212"
abbreviation LOC_FGAUGE_WIDTH :: int where "LOC_FGAUGE_WIDTH \<equiv> 94"
abbreviation LOC_FGAUGE_HEIGHT :: int where "LOC_FGAUGE_HEIGHT \<equiv> 349"
abbreviation LOC_FUEL_CENTERX :: int where "LOC_FUEL_CENTERX \<equiv> 378"
abbreviation LOC_FUEL_CENTERY :: int where "LOC_FUEL_CENTERY \<equiv> 360"
abbreviation LOC_FUEL_SIZE :: int where "LOC_FUEL_SIZE \<equiv> 375"
abbreviation LOC_FUEL_TRISIZE :: int where "LOC_FUEL_TRISIZE \<equiv> 30"
abbreviation LOC_NEEDLE_CENTER_X :: int where "LOC_NEEDLE_CENTER_X \<equiv> 217"
abbreviation LOC_TURNSIGNAL_FREQ :: u32 where "LOC_TURNSIGNAL_FREQ \<equiv> 30"
abbreviation LOC_BUF_NUM :: u32 where "LOC_BUF_NUM \<equiv> 2"
abbreviation LOC_EL_MAX_UPDATE :: u8 where "LOC_EL_MAX_UPDATE \<equiv> 4"
abbreviation LOC_ELFLAG_FLASH :: u32 where "LOC_ELFLAG_FLASH \<equiv> 1"
abbreviation LOC_ELFLAG_DRAW_ALWAYS :: u32 where "LOC_ELFLAG_DRAW_ALWAYS \<equiv> 2"

definition LOC_PI_DEC :: rat where
  "LOC_PI_DEC = f32 (314159265358979323846 / 100000000000000000000)"

definition M_PI :: rat where
  "M_PI = f64 (314159265358979323846 / 100000000000000000000)"

definition LOC_DEGREE :: "rat \<Rightarrow> rat" where
  "LOC_DEGREE arg = f32 (f32 (arg / 180) * LOC_PI_DEC)"

datatype screen_error = GfxError gfx_error | CarError car_error | FloatConversion

record locElement_t =
  Flags :: u32
  OnImg :: "Img_t option"
  OffImg :: "Img_t option"
  PosX :: int
  PosY :: int
  GetStatus :: "(carmodel \<Rightarrow> u8) option"

record GclNeedle_t =
  CurrentAngleNeedle :: rat
  LastAngleNeedle :: "rat list"

text \<open>
  The static variables. The two backup pointers of a table entry are lists beside the table, and the
  static variables inside functions are \<open>on_counter\<close> (\<^verbatim>\<open>locRenderElements\<close>), \<open>fuel_angle\<close>, \<open>cooling_angle\<close> and
  \<open>setup_init\<close> (\<^verbatim>\<open>locElementSetupRender\<close>).
\<close>

record 'd screen = "'d drawing" +
  car :: carmodel
  NeedleSpeed :: GclNeedle_t
  NeedleRpm :: GclNeedle_t
  locElementOldStatus :: "u8 list list"
  locInit :: u8
  locFrameCnt :: u32
  on_counter :: u32
  fuel_angle :: rat
  cooling_angle :: rat
  setup_init :: bool
  OnBackupData :: "ptr list"
  OffBackupData :: "ptr list"
  locOldBackgroundData :: ptr
  locOldNeedleData :: ptr
  One_Div_BackgroudW_F :: rat
  One_Div_BackgroudH_F :: rat
  One_Div_BackgroudW_F2 :: rat
  One_Div_BackgroudH_F2 :: rat
  One_Div_NeedleW_F :: rat
  One_Div_NeedleH_F :: rat

section \<open>Sine and cosine by table\<close>

definition truncate_rat :: "rat \<Rightarrow> int" where
  "truncate_rat x = (if x < 0 then \<lceil>x\<rceil> else \<lfloor>x\<rfloor>)"

definition to_int32 :: "rat \<Rightarrow> screen_error + int" where
  "to_int32 x =
     (let n = truncate_rat x in if - INT_MAX - 1 \<le> n \<and> n \<le> INT_MAX then Inr n else Inl FloatConversion)"

definition to_uint32 :: "rat \<Rightarrow> screen_error + int" where
  "to_uint32 x = (let n = truncate_rat x in if 0 \<le> n \<and> n < 2 ^ 32 then Inr n else Inl FloatConversion)"

definition rad_scale :: rat where
  "rad_scale = f32 (8192 / f32 (f32 (1745329251994329576 / 100000000000000000000) * 360))"

definition RadToId :: "rat \<Rightarrow> screen_error + nat" where
  "RadToId fltRad = andthen (to_int32 (f32 (fltRad * rad_scale))) (\<lambda>n. Inr (nat (n mod 8192)))"

definition sinfCl :: "rat \<Rightarrow> screen_error + rat" where
  "sinfCl fltRad = andthen (RadToId fltRad) (\<lambda>i. Inr (f32 (of_int (s_STable ! i) / 1000000)))"

definition cosfCl :: "rat \<Rightarrow> screen_error + rat" where
  "cosfCl fltRad = andthen (RadToId fltRad) (\<lambda>i. Inr (f32 (of_int (s_CTable ! i) / 1000000)))"

section \<open>The icons\<close>

definition locGetHazard :: "carmodel \<Rightarrow> u8" where
  "locGetHazard c = CarModelLeftGet c AND CarModelRightGet c"

definition locElement :: "locElement_t list" where
  "locElement =
     [\<lparr>Flags = LOC_ELFLAG_FLASH, OnImg = Some HazardSelected, OffImg = Some HazardNormal,
       PosX = 463, PosY = 659, GetStatus = Some locGetHazard\<rparr>,
      \<lparr>Flags = LOC_ELFLAG_FLASH, OnImg = Some TurnLeft, OffImg = Some TurnLeftOff,
       PosX = 100, PosY = 18, GetStatus = Some CarModelLeftGet\<rparr>,
      \<lparr>Flags = LOC_ELFLAG_FLASH, OnImg = Some TurnRight, OffImg = Some TurnRightOff,
       PosX = 514, PosY = 18, GetStatus = Some CarModelRightGet\<rparr>,
      \<lparr>Flags = 0, OnImg = Some HighLightOn, OffImg = Some HighLightOff,
       PosX = 160, PosY = 656, GetStatus = Some CarModelHighLightGet\<rparr>,
      \<lparr>Flags = 0, OnImg = Some LowLightOn, OffImg = Some LowLightOff,
       PosX = 244, PosY = 652, GetStatus = Some CarModelLowLightGet\<rparr>,
      \<lparr>Flags = 0, OnImg = Some OilOn, OffImg = Some OilOff,
       PosX = 320, PosY = 654, GetStatus = Some CarModelOilGet\<rparr>,
      \<lparr>Flags = 0, OnImg = Some BatteryOn, OffImg = Some BatteryOff,
       PosX = 379, PosY = 656, GetStatus = Some CarModelBatteryGet\<rparr>,
      \<lparr>Flags = LOC_ELFLAG_DRAW_ALWAYS, OnImg = Some FuelEmptyOn, OffImg = Some FuelEmptyOff,
       PosX = 68, PosY = 113, GetStatus = Some CarModelFuelEmptyGet\<rparr>,
      \<lparr>Flags = 0, OnImg = Some GearSOn2, OffImg = Some GearSOff2,
       PosX = 2112, PosY = 16, GetStatus = Some CarModelGearSGet\<rparr>]"

abbreviation LOC_ELEMENT_NUM :: nat where "LOC_ELEMENT_NUM \<equiv> 9"

definition image_rect :: "library \<Rightarrow> int \<Rightarrow> int \<Rightarrow> Img_t \<Rightarrow> r_drw2d_Rect_t" where
  "image_rect L x y Img = demo_int2rect L x y (uint (Width Img)) (uint (Height Img))"

text \<open>Drawing one icon into the frame buffer.\<close>

definition draw_element ::
    "library \<Rightarrow> locElement_t \<Rightarrow> Img_t \<Rightarrow> 'd screen \<Rightarrow> screen_error + 'd screen" where
  "draw_element L e img s =
     andthen (map_sum GfxError id (demo_img2tex img [] s)) (\<lambda>tmp_tex.
     Inr (report ''error render elements'' (invoke_all L
       [R_DRW2D_CtxTextureSet 0 tmp_tex,
        R_DRW2D_TextureBlit None (image_rect L (PosX e) (PosY e) img)] 0 s)))"

definition element_status :: "locElement_t \<Rightarrow> carmodel \<Rightarrow> u8" where
  "element_status e c = (case GetStatus e of None \<Rightarrow> 1 | Some f \<Rightarrow> f c)"

text \<open>The image and the status after the flashing of the turn signals.\<close>

definition flash :: "locElement_t \<Rightarrow> u32 \<Rightarrow> u8 \<Rightarrow> Img_t option \<times> u8" where
  "flash e count status =
     (if status \<noteq> 0 then
        (if Flags e AND LOC_ELFLAG_FLASH \<noteq> 0 \<and> LOC_TURNSIGNAL_FREQ < count then (OffImg e, 0) else (OnImg e, status))
      else (OffImg e, status))"

definition buffer_index :: "'d screen \<Rightarrow> nat" where
  "buffer_index s = unat (locFrameCnt s mod LOC_BUF_NUM)"

text \<open>
  One iteration of the loop. \<open>decide_element\<close> is the decision, the status to remember and the image to
  draw; the update counter is threaded through the loop.
\<close>

definition decide_element :: "'d screen \<Rightarrow> nat \<Rightarrow> u8 \<Rightarrow> u8 \<times> Img_t option" where
  "decide_element s i update =
     (let e = locElement ! i;
          status = element_status e (car s);
          oldstatus = (if locFrameCnt s < LOC_BUF_NUM then (if status = 0 then 1 else 0)
                       else locElementOldStatus s ! i ! buffer_index s);
          (img, status) = flash e (on_counter s) status;
          always = Flags e AND LOC_ELFLAG_DRAW_ALWAYS \<noteq> 0
      in if (always \<or> status \<noteq> oldstatus) \<and> img \<noteq> None then
           (if locFrameCnt s < LOC_BUF_NUM \<or> update \<le> LOC_EL_MAX_UPDATE \<or> always then (status, img)
            else (oldstatus, None))
         else (status, None))"

definition render_element ::
    "library \<Rightarrow> nat \<Rightarrow> u8 \<times> 'd screen \<Rightarrow> screen_error + u8 \<times> 'd screen" where
  "render_element L i us =
     (let (update, s) = us;
          (status, img) = decide_element s i update
      in andthen
           (case img of
              None \<Rightarrow> Inr (update, s)
            | Some I \<Rightarrow> andthen (draw_element L (locElement ! i) I s) (\<lambda>s1. Inr (update + 1, s1)))
           (\<lambda>(update, s1).
              Inr (update, s1\<lparr>locElementOldStatus :=
                (locElementOldStatus s1)[i := (locElementOldStatus s1 ! i)[buffer_index s1 := status]]\<rparr>)))"

definition locRenderElements :: "library \<Rightarrow> 'd screen \<Rightarrow> screen_error + 'd screen" where
  "locRenderElements L s =
     andthen (each_entry (render_element L) [0 ..< LOC_ELEMENT_NUM - 1] (0, s)) (\<lambda>(update, s1).
     let n = on_counter s1 + 1
     in Inr (s1\<lparr>on_counter := (if n \<noteq> 1 \<and> 2 * LOC_TURNSIGNAL_FREQ < n then 0 else n)\<rparr>))"

section \<open>The needles\<close>

definition needle_tip :: "library \<Rightarrow> Img_t \<Rightarrow> int \<Rightarrow> int \<Rightarrow> rat \<Rightarrow> screen_error + int \<times> int" where
  "needle_tip L Texture ScrCenterX ScrCenterY Angle =
     (let a = f64 (f64 (Angle * M_PI) / 180); w = of_int (uint (Width Texture)) in
      andthen (to_uint32 (f64 (f64 (f64 (lib_cos L a) * w) + of_int ScrCenterX))) (\<lambda>NeedleArrowPosX.
      andthen (to_uint32 (f64 (f64 (- f64 (lib_sin L a) * w) + of_int ScrCenterY))) (\<lambda>NeedleArrowPosY.
      Inr (NeedleArrowPosX, NeedleArrowPosY))))"

definition to_point :: "library \<Rightarrow> rat \<Rightarrow> rat \<Rightarrow> r_drw2d_Point_t" where
  "to_point L x y = \<lparr>pt_X = R_DRW2D_2X L x, pt_Y = R_DRW2D_2X L y\<rparr>"

definition locRenderNeedle ::
    "library \<Rightarrow> Img_t \<Rightarrow> int \<Rightarrow> int \<Rightarrow> rat \<Rightarrow> 'd screen \<Rightarrow> screen_error + 'd screen" where
  "locRenderNeedle L Texture ScrCenterX ScrCenterY Angle s =
     andthen (map_sum GfxError id (demo_img2tex Texture [R_DRW2D_TEX_PERSPECTIVE, R_DRW2D_TEX_BILINEAR] s)) (\<lambda>tmp_tex.
     andthen (needle_tip L Texture ScrCenterX ScrCenterY Angle) (\<lambda>(x, y).
     Inr (report ''error render needle'' (invoke_all L
       [R_DRW2D_CtxTextureSet 0 tmp_tex,
        R_DRW2D_CtxFillMode R_DRW2D_FILLMODE_TEXTURE,
        R_DRW2D_CtxBlendMode R_DRW2D_BLENDMODE_CUSTOM,
        R_DRW2D_CtxBlendFactors R_DRW2D_BLEND_ONE R_DRW2D_BLEND_ONE_MINUS_SRC_ALPHA
          R_DRW2D_BLEND_ZERO R_DRW2D_BLEND_ONE,
        R_DRW2D_CtxLineStyle
          \<lparr>ls_LineJoin = R_DRW2D_LINEJOIN_NONE, ls_LineCap = R_DRW2D_LINECAP_BUTT,
           ls_Width = R_DRW2D_2X L (of_int (uint (Height Texture))), ls_MiterLimit = R_DRW2D_2X L 1, ls_IsClosed = False\<rparr>,
        R_DRW2D_DrawLines
          [to_point L (of_int x) (of_int y), to_point L (of_int ScrCenterX) (of_int ScrCenterY)]] 0 s))))"

definition locRenderGlasNeedle :: "library \<Rightarrow> int \<Rightarrow> int \<Rightarrow> rat \<Rightarrow> 'd screen \<Rightarrow> screen_error + 'd screen" where
  "locRenderGlasNeedle L CenterX CenterY Angle s = locRenderNeedle L ClusterNeedle CenterX CenterY Angle s"

definition locConvertSpeed2Angle :: "rat \<Rightarrow> rat" where
  "locConvertSpeed2Angle v = f32 (210 - f32 (f32 (180 * v) / 180))"

definition locConvertRpm2Angle :: "rat \<Rightarrow> rat" where
  "locConvertRpm2Angle r = f32 (210 - f32 (f32 (270 * r) / 8000))"

definition locFilterGauge :: "rat \<Rightarrow> rat \<Rightarrow> rat" where
  "locFilterGauge Old New =
     (let diff = f32 (New - Old);
          hdiff = (if diff < 0 then - diff else diff)
      in if 0 \<le> hdiff \<and> hdiff < 1 then New
         else
           let hdiff = (if 20 < hdiff then 5 / 4 else if 5 < hdiff then 1 else 3 / 4);
               diff = (if 0 < diff then hdiff else - hdiff)
           in f32 (Old + diff))"

definition locInitNeedlePosition :: "rat \<Rightarrow> GclNeedle_t" where
  "locInitNeedlePosition initAngle = \<lparr>CurrentAngleNeedle = initAngle, LastAngleNeedle = [initAngle, initAngle]\<rparr>"

definition locSetNextNeedlePosition :: "rat \<Rightarrow> GclNeedle_t \<Rightarrow> GclNeedle_t" where
  "locSetNextNeedlePosition newAngle n =
     \<lparr>CurrentAngleNeedle = newAngle, LastAngleNeedle = [CurrentAngleNeedle n, LastAngleNeedle n ! 0]\<rparr>"

definition locNeedleSpeedRender :: "library \<Rightarrow> 'd screen \<Rightarrow> screen_error + 'd screen" where
  "locNeedleSpeedRender L s =
     (let new_angle = locConvertSpeed2Angle (CarModelSpeedGet (car s));
          new_angle = locFilterGauge (CurrentAngleNeedle (NeedleSpeed s)) new_angle;
          s = s\<lparr>NeedleSpeed := locSetNextNeedlePosition new_angle (NeedleSpeed s)\<rparr>
      in locRenderGlasNeedle L (LOC_SPEED_POSX + LOC_SPEED_CENTERX) (LOC_SPEED_POSY + LOC_SPEED_CENTERY)
           (CurrentAngleNeedle (NeedleSpeed s)) s)"

definition locNeedleRpmRender :: "'d screen \<Rightarrow> 'd screen" where
  "locNeedleRpmRender s =
     (let new_angle = locConvertRpm2Angle (of_int (uint (CarModelRpmGet (car s))));
          new_angle = locFilterGauge (CurrentAngleNeedle (NeedleRpm s)) new_angle
      in s\<lparr>NeedleRpm := locSetNextNeedlePosition new_angle (NeedleRpm s)\<rparr>)"

section \<open>Fuel and cooling\<close>

text \<open>The corners of the triangle: the tip and two points behind it, 30 degrees to either side.\<close>

definition triangle_corners :: "int \<Rightarrow> int \<Rightarrow> int \<Rightarrow> int \<Rightarrow> rat \<Rightarrow> screen_error + (rat \<times> rat) list" where
  "triangle_corners CenterX CenterY Siz TriSize Angle =
     andthen (sinfCl (LOC_DEGREE Angle)) (\<lambda>s0.
     andthen (cosfCl (LOC_DEGREE Angle)) (\<lambda>c0.
     let x0 = f32 (of_int CenterX + f32 (c0 * of_int Siz));
         y0 = f32 (of_int CenterY - f32 (s0 * of_int Siz))
     in
     andthen (sinfCl (LOC_DEGREE (f32 (Angle + 30)))) (\<lambda>s1.
     andthen (cosfCl (LOC_DEGREE (f32 (Angle + 30)))) (\<lambda>c1.
     andthen (sinfCl (LOC_DEGREE (f32 (Angle - 30)))) (\<lambda>s2.
     andthen (cosfCl (LOC_DEGREE (f32 (Angle - 30)))) (\<lambda>c2.
     Inr [(x0, y0),
          (f32 (x0 + f32 (c1 * of_int (- TriSize))), f32 (y0 - f32 (s1 * of_int (- TriSize)))),
          (f32 (x0 + f32 (c2 * of_int (- TriSize))), f32 (y0 - f32 (s2 * of_int (- TriSize))))]))))))"

definition locRenderTrianglePointer ::
    "library \<Rightarrow> u32 \<Rightarrow> int \<Rightarrow> int \<Rightarrow> int \<Rightarrow> int \<Rightarrow> rat \<Rightarrow> 'd screen \<Rightarrow> screen_error + 'd screen" where
  "locRenderTrianglePointer L Color CenterX CenterY Siz TriSize Angle s =
     andthen (triangle_corners CenterX CenterY Siz TriSize Angle) (\<lambda>tris.
     Inr (report ''error render triangle'' (invoke_all L
       [R_DRW2D_CtxFgColor Color,
        R_DRW2D_CtxBgColor Color,
        R_DRW2D_CtxFillMode R_DRW2D_FILLMODE_SOLID,
        R_DRW2D_DrawTriangles (map (\<lambda>(x, y). to_point L x y) tris) [R_DRW2D_EDGE_AB, R_DRW2D_EDGE_BC, R_DRW2D_EDGE_CA],
        R_DRW2D_CtxFillMode R_DRW2D_FILLMODE_TEXTURE] 0 s)))"

definition locConvertFuel2Angle :: "u8 \<Rightarrow> rat" where
  "locConvertFuel2Angle Fuel = f32 (210 - f32 (f32 (55 * of_int (uint Fuel)) / 100))"

text \<open>From green to red; the intermediate value is stored in a byte.\<close>

definition fuel_color :: "u8 \<Rightarrow> u32" where
  "fuel_color Fuel =
     (let color = 0xFF * (ucast Fuel :: u32) div 100; b = ucast (ucast color :: u8)
      in push_bit 24 0xFF + push_bit 16 (0xFF - b) + push_bit 8 b)"

definition locFuelRender :: "library \<Rightarrow> 'd screen \<Rightarrow> screen_error + 'd screen" where
  "locFuelRender L s =
     (let fuel = CarModelFuelLevelGet (car s);
          new_angle = locConvertFuel2Angle fuel;
          s = s\<lparr>fuel_angle := (if fuel_angle s < 0 then new_angle else locFilterGauge (fuel_angle s) new_angle)\<rparr>
      in locRenderTrianglePointer L (fuel_color fuel) LOC_FUEL_CENTERX LOC_FUEL_CENTERY
           LOC_FUEL_SIZE LOC_FUEL_TRISIZE (fuel_angle s) s)"

definition locConvertCooling2Angle :: "int \<Rightarrow> rat" where
  "locConvertCooling2Angle Temp = f32 (- 35 + f32 (f32 (60 * of_int Temp) / 100))"

definition locCoolingRender :: "'d screen \<Rightarrow> 'd screen" where
  "locCoolingRender s =
     s\<lparr>cooling_angle := locFilterGauge (cooling_angle s) (locConvertCooling2Angle (CarModelCoolingTempGet (car s)))\<rparr>"

section \<open>Background\<close>

definition locBackGroundRestore ::
    "library \<Rightarrow> int \<Rightarrow> int \<Rightarrow> int \<Rightarrow> int \<Rightarrow> 'd screen \<Rightarrow> screen_error + 'd screen" where
  "locBackGroundRestore L X Y W H s =
     andthen (map_sum GfxError id (demo_img2tex ClusterBackGround [] s)) (\<lambda>tmp_tex.
     Inr (report ''error BG restore'' (invoke_all L
       [R_DRW2D_CtxIdentity,
        R_DRW2D_CtxTextureSet 0 tmp_tex,
        R_DRW2D_CtxBlendMode R_DRW2D_BLENDMODE_SRC,
        R_DRW2D_CtxFillMode R_DRW2D_FILLMODE_TEXTURE,
        R_DRW2D_DrawRect (demo_int2rect L X Y W H)] 0 s)))"

text \<open>The line is reported once before and once after it is drawn; the second report covers both parts.\<close>

definition locNeedleBackgroundRestore ::
    "library \<Rightarrow> int \<Rightarrow> int \<Rightarrow> int \<Rightarrow> int \<Rightarrow> int \<Rightarrow> rat \<Rightarrow> Img_t \<Rightarrow> 'd screen \<Rightarrow> screen_error + 'd screen" where
  "locNeedleBackgroundRestore L X Y CenterX CenterY NeedleLength AngleNeedle Texture s =
     andthen (cosfCl (LOC_DEGREE AngleNeedle)) (\<lambda>c.
     andthen (sinfCl (LOC_DEGREE AngleNeedle)) (\<lambda>sn.
     let x = f64 (of_int (X + CenterX) + f64 (c * of_int NeedleLength));
         y = f64 (of_int (Y + CenterY) - f64 (sn * of_int NeedleLength))
     in
     andthen (map_sum GfxError id (demo_img2tex Texture [] s)) (\<lambda>tmp_tex.
     let (ret, s1) = invoke_all L
           [R_DRW2D_CtxIdentity,
            R_DRW2D_CtxTextureSet 0 tmp_tex,
            R_DRW2D_CtxBlendMode R_DRW2D_BLENDMODE_SRC,
            R_DRW2D_CtxFillMode R_DRW2D_FILLMODE_TEXTURE,
            R_DRW2D_CtxLineStyle
              \<lparr>ls_LineJoin = R_DRW2D_LINEJOIN_NONE, ls_LineCap = R_DRW2D_LINECAP_SQUARE,
               ls_Width = R_DRW2D_2X L (of_int (uint (Height ClusterNeedle))),
               ls_MiterLimit = R_DRW2D_2X L 20, ls_IsClosed = True\<rparr>] 0 s;
         s2 = report ''error needle restore'' (ret, s1)
     in Inr (report ''error needle 2 restore'' (invoke_all L
          [R_DRW2D_DrawLines
             [to_point L (of_int (X + CenterX)) (of_int (Y + CenterY)), to_point L x y],
           R_DRW2D_CtxFillMode R_DRW2D_FILLMODE_TEXTURE] ret s2)))))"

definition locNeedleSpeedRestore :: "library \<Rightarrow> 'd screen \<Rightarrow> screen_error + 'd screen" where
  "locNeedleSpeedRestore L s =
     locNeedleBackgroundRestore L LOC_SPEED_POSX LOC_SPEED_POSY LOC_SPEED_CENTERX LOC_SPEED_CENTERY
       LOC_NEEDLE_CENTER_X (LastAngleNeedle (NeedleSpeed s) ! 0) ClusterBackGround s"

text \<open>The restoration of the engine speed needle is removed by \<^verbatim>\<open>SINGLE_CLUSTER\<close>.\<close>

definition locNeedleRPMRestore :: "'d screen \<Rightarrow> 'd screen" where
  "locNeedleRPMRestore s = s"

section \<open>A frame\<close>

definition setup_image :: "'d screen \<Rightarrow> nat \<Rightarrow> Img_t option" where
  "setup_image s i = (if setup_init s then OnImg (locElement ! i) else OffImg (locElement ! i))"

definition blend_icons :: "call list" where
  "blend_icons =
     [R_DRW2D_CtxBlendMode R_DRW2D_BLENDMODE_CUSTOM,
      R_DRW2D_CtxBlendFactors R_DRW2D_BLEND_SRC_ALPHA R_DRW2D_BLEND_ONE_MINUS_SRC_ALPHA
        R_DRW2D_BLEND_ZERO R_DRW2D_BLEND_ONE]"

text \<open>The first loop draws an icon over the background.\<close>

definition setup_draw :: "library \<Rightarrow> nat \<Rightarrow> u32 \<times> 'd screen \<Rightarrow> screen_error + u32 \<times> 'd screen" where
  "setup_draw L i rs =
     (let (ret, s) = rs; e = locElement ! i in
      case setup_image s i of
        None \<Rightarrow> Inr (ret, s)
      | Some img \<Rightarrow>
          andthen (map_sum GfxError id (demo_img2tex img [] s)) (\<lambda>tex.
          Inr (invoke_all L
            [R_DRW2D_CtxTextureSet 0 tex,
             R_DRW2D_TextureBlit (Some (image_rect L 0 0 img)) (image_rect L (PosX e) (PosY e) img)] ret s)))"

text \<open>The second loop copies that part of the frame buffer back into the image.\<close>

definition setup_copy :: "library \<Rightarrow> nat \<Rightarrow> u32 \<times> 'd screen \<Rightarrow> screen_error + u32 \<times> 'd screen" where
  "setup_copy L i rs =
     (let (ret, s) = rs; e = locElement ! i in
      case setup_image s i of
        None \<Rightarrow> Inr (ret, s)
      | Some img \<Rightarrow>
          andthen (map_sum GfxError id (demo_img2fb img s)) (\<lambda>tmp_fb.
          let (ret, s1) = invoke_all L
                [R_DRW2D_FramebufferSet tmp_fb,
                 R_DRW2D_TextureBlit (Some (image_rect L (PosX e) (PosY e) img)) (image_rect L 0 0 img)] ret s
          in Inr (ret, report ''error render elements'' (ret, s1))))"

definition locElementSetupRender :: "library \<Rightarrow> 'd screen \<Rightarrow> screen_error + 'd screen" where
  "locElementSetupRender L s =
     (let (ret, s) = invoke L (R_DRW2D_CtxBlendMode R_DRW2D_BLENDMODE_SRC) s in
      andthen (locBackGroundRestore L 0 0 (uint (Width ClusterBackGround)) (uint (Height ClusterBackGround)) s) (\<lambda>s.
      andthen (each_entry (setup_draw L) [0 ..< LOC_ELEMENT_NUM] (invoke_all L blend_icons ret s)) (\<lambda>(ret, s).
      let (ret, s) = invoke_all L
            [R_DRW2D_CtxBlendMode R_DRW2D_BLENDMODE_SRC,
             R_DRW2D_CtxTextureSet 0 (demo_fb2tex (demo_get_fb s) [])] ret s
      in
      andthen (each_entry (setup_copy L) [0 ..< LOC_ELEMENT_NUM] (ret, s)) (\<lambda>(ret, s).
      Inr (perform L [R_DRW2D_FramebufferSet (demo_get_fb s)] (s\<lparr>setup_init := \<not> setup_init s\<rparr>))))))"

definition RenderClGaugeScreen :: "library \<Rightarrow> 'd screen \<Rightarrow> screen_error + 'd screen" where
  "RenderClGaugeScreen L s =
     andthen
       (if locInit s < 2
        then locElementSetupRender L (perform L [R_DRW2D_CtxBgColor 0xFFFFFFFF, R_DRW2D_FramebufferClear] s)
        else Inr s) (\<lambda>s.
     let s = perform L [R_DRW2D_CtxBlendMode R_DRW2D_BLENDMODE_SRC] s in
     andthen
       (if locInit s < 2
        then locBackGroundRestore L 0 0 (uint (Width ClusterBackGround)) (uint (Height ClusterBackGround))
               (s\<lparr>locInit := locInit s + 1\<rparr>)
        else locBackGroundRestore L LOC_FGAUGE_POSX LOC_FGAUGE_POSY LOC_FGAUGE_WIDTH LOC_FGAUGE_HEIGHT s) (\<lambda>s.
     andthen (locRenderElements L (perform L blend_icons s)) (\<lambda>s.
     andthen (locNeedleSpeedRestore L (perform L blend_icons s)) (\<lambda>s.
     andthen (locFuelRender L (locNeedleRPMRestore s)) (\<lambda>s.
     andthen (locNeedleSpeedRender L (locNeedleRpmRender (locCoolingRender s))) (\<lambda>s.
     Inr (s\<lparr>locFrameCnt := locFrameCnt s + 1\<rparr>)))))))"

section \<open>Loading and releasing the images\<close>

definition init_image :: "'d dhd \<Rightarrow> u32 \<Rightarrow> Img_t option \<Rightarrow> 'd screen \<Rightarrow> screen_error + ptr \<times> 'd screen" where
  "init_image D base I s =
     (case I of
        None \<Rightarrow> Inr (Null, s)
      | Some img \<Rightarrow>
          andthen (map_sum GfxError id (Init2DImg D base (Some img) (images s))) (\<lambda>(p, g).
          Inr (p, s\<lparr>images := g\<rparr>)))"

definition init_element :: "'d dhd \<Rightarrow> u32 \<Rightarrow> nat \<Rightarrow> 'd screen \<Rightarrow> screen_error + 'd screen" where
  "init_element D base i s =
     andthen (init_image D base (OnImg (locElement ! i)) s) (\<lambda>(p, s).
     andthen (init_image D base (OffImg (locElement ! i)) (s\<lparr>OnBackupData := (OnBackupData s)[i := p]\<rparr>)) (\<lambda>(p, s).
     Inr (s\<lparr>OffBackupData := (OffBackupData s)[i := p]\<rparr>)))"

definition GaugeScreenInit :: "'d dhd \<Rightarrow> u32 \<Rightarrow> 'd screen \<Rightarrow> screen_error + 'd screen" where
  "GaugeScreenInit D base s =
     andthen (init_image D base (Some ClusterBackGround) (s\<lparr>locInit := 0, locFrameCnt := 0\<rparr>)) (\<lambda>(p, s).
     andthen (init_image D base (Some ClusterNeedle) (s\<lparr>locOldBackgroundData := p\<rparr>)) (\<lambda>(p, s).
     andthen (each_entry (init_element D base) [0 ..< LOC_ELEMENT_NUM] (s\<lparr>locOldNeedleData := p\<rparr>)) (\<lambda>s.
     let w = f32 (1 / of_int (uint (Width ClusterBackGround)));
         h = f32 (1 / of_int (uint (Height ClusterBackGround)))
     in Inr (s\<lparr>
       NeedleRpm := locInitNeedlePosition (locConvertRpm2Angle (of_int (uint (CarModelRpmGet (car s))))),
       NeedleSpeed := locInitNeedlePosition (locConvertSpeed2Angle (CarModelSpeedGet (car s))),
       One_Div_BackgroudW_F := w, One_Div_BackgroudH_F := h,
       One_Div_BackgroudW_F2 := f32 (w / 2), One_Div_BackgroudH_F2 := f32 (h / 2),
       One_Div_NeedleW_F := f32 (1 / of_int (uint (Width ClusterNeedle))),
       One_Div_NeedleH_F := f32 (1 / of_int (uint (Height ClusterNeedle)))\<rparr>))))"

definition deinit_image :: "'d dhd \<Rightarrow> Img_t option \<Rightarrow> ptr \<Rightarrow> 'd screen \<Rightarrow> 'd screen" where
  "deinit_image D I p s = (case I of None \<Rightarrow> s | Some img \<Rightarrow> s\<lparr>images := Deinit2DImg D img p (images s)\<rparr>)"

definition deinit_element :: "'d dhd \<Rightarrow> nat \<Rightarrow> 'd screen \<Rightarrow> 'd screen" where
  "deinit_element D i s =
     deinit_image D (OffImg (locElement ! i)) (OffBackupData s ! i)
       (deinit_image D (OnImg (locElement ! i)) (OnBackupData s ! i) s)"

definition GaugeScreenDeInit :: "'d dhd \<Rightarrow> 'd screen \<Rightarrow> 'd screen" where
  "GaugeScreenDeInit D s =
     (let s = fold (deinit_element D) [0 ..< LOC_ELEMENT_NUM] s;
          s = deinit_image D (Some ClusterNeedle) (locOldNeedleData s) s
      in deinit_image D (Some ClusterBackGround) (locOldBackgroundData s) s)"

text \<open>The two format functions at the end of the file; nothing calls them. The driver's formats are their names.\<close>

datatype dhd_pixel_org =
  dhd_pixel_org_zero | E_DHD_TEXEL_ORG_ARGB_8888 | E_DHD_TEXEL_ORG_AL_8 | E_DHD_TEXEL_ORG_RGB_565
  | E_DHD_TEXEL_ORG_ARGB_1555 | E_DHD_PIXEL_ORG_ARGB_8888_PRE

definition ImageFormat_to_dhdorg :: "u32 \<Rightarrow> dhd_pixel_org" where
  "ImageFormat_to_dhdorg f =
     (if f = IMG_ARGB8888 then E_DHD_TEXEL_ORG_ARGB_8888
      else if f = IMG_ALPHA8 then E_DHD_TEXEL_ORG_AL_8
      else if f = IMG_RGB565 then E_DHD_TEXEL_ORG_RGB_565
      else if f = IMG_ARGB1555 then E_DHD_TEXEL_ORG_ARGB_1555
      else if f = IMG_RGB888 then E_DHD_PIXEL_ORG_ARGB_8888_PRE
      else dhd_pixel_org_zero)"

definition Image_HasAlpha :: "u32 \<Rightarrow> bool" where
  "Image_HasAlpha f \<longleftrightarrow> f = IMG_ARGB8888 \<or> f = IMG_ALPHA8 \<or> f = IMG_ARGB1555"

end
