(* ===== verification/Needle.thy ===== *)
theory Needle
  imports Gauge
begin

text \<open>
  The needles and pointers of the gauge screen: the filter moves a needle to its target in bounded steps
  and never past it, angles stay in range, the index into the trigonometric tables is the angle up to
  rounding, and the fuel pointer stays in the area that is redrawn for all but high fuel levels.
\<close>

section \<open>Rounding\<close>

lemma f32_512: "\<bar>x\<bar> < 512 \<Longrightarrow> \<bar>f32 x - x\<bar> \<le> 1 / 65536"
  using f32_error [of x 9] by (simp add: power_int_minus)

lemma f32_1024: "\<bar>x\<bar> < 1024 \<Longrightarrow> \<bar>f32 x - x\<bar> \<le> 1 / 32768"
  using f32_error [of x 10] by (simp add: power_int_minus)

lemma f32_2048: "\<bar>x\<bar> < 2048 \<Longrightarrow> \<bar>f32 x - x\<bar> \<le> 1 / 16384"
  using f32_error [of x 11] by (simp add: power_int_minus)

lemma f32_16384: "\<bar>x\<bar> < 16384 \<Longrightarrow> \<bar>f32 x - x\<bar> \<le> 1 / 2048"
  using f32_error [of x 14] by (simp add: power_int_minus)

lemma f32_4M: "\<bar>x\<bar> < 4194304 \<Longrightarrow> \<bar>f32 x - x\<bar> \<le> 1 / 8"
  using f32_error [of x 22] by (simp add: power_int_minus)

lemma f32_8: "\<bar>x\<bar> < 8 \<Longrightarrow> \<bar>f32 x - x\<bar> \<le> 1 / 4194304"
  using f32_error [of x 3] by (simp add: power_int_minus)

lemma f32_small: "\<bar>x\<bar> < 1 / 32 \<Longrightarrow> \<bar>f32 x - x\<bar> \<le> 1 / 1073741824"
  using f32_error [of x "-5"] by (simp add: power_int_minus)

lemma f64_1024: "\<bar>x\<bar> < 1024 \<Longrightarrow> \<bar>f64 x - x\<bar> \<le> 1 / 32768"
proof -
  assume "\<bar>x\<bar> < 1024"
  then have "\<bar>f64 x - x\<bar> \<le> 2 powi (10 - 54)"
    using f64_error [of x 10] by simp
  also have "(2 powi (10 - 54) :: rat) \<le> 1 / 32768"
    by (simp add: power_int_minus)
  finally show ?thesis .
qed

lemma rne_0: "rne 0 = 0"
  by (simp add: rne_def)

lemma f32_0: "f32 0 = 0"
  by (simp add: f32_def round_at_def rne_0)

text \<open>The product of two values known up to an error.\<close>

lemma product_error:
  fixes x y x' y' :: rat
  assumes "\<bar>x - x'\<bar> \<le> e" "\<bar>y - y'\<bar> \<le> d" "\<bar>x\<bar> \<le> X" "\<bar>y'\<bar> \<le> Y"
  shows "\<bar>x * y - x' * y'\<bar> \<le> X * d + Y * e"
proof -
  have "x * y - x' * y' = x * (y - y') + (x - x') * y'"
    by (simp add: algebra_simps)
  then have "\<bar>x * y - x' * y'\<bar> \<le> \<bar>x\<bar> * \<bar>y - y'\<bar> + \<bar>x - x'\<bar> * \<bar>y'\<bar>"
    using abs_triangle_ineq [of "x * (y - y')" "(x - x') * y'"] by (simp add: abs_mult)
  also have "\<dots> \<le> X * d + e * Y"
    using assms by (intro add_mono mult_mono) (auto intro: order.trans [OF abs_ge_zero])
  finally show ?thesis
    by (simp add: mult.commute)
qed

section \<open>The filter\<close>

text \<open>
  One step of the filter: it reaches the target, or moves by 0.74 to 1.26 degrees towards it without
  passing it.
\<close>

definition step_towards :: "rat \<Rightarrow> rat \<Rightarrow> rat \<Rightarrow> bool" where
  "step_towards Old New r \<longleftrightarrow>
     (if Old < New then Old + 74 / 100 \<le> r \<and> r \<le> Old + 126 / 100 \<and> r < New
      else Old - 126 / 100 \<le> r \<and> r \<le> Old - 74 / 100 \<and> New < r)"

lemma filter_step:
  assumes "\<bar>Old\<bar> \<le> 250" and "\<bar>New\<bar> \<le> 250"
  shows "locFilterGauge Old New = New \<and> \<bar>New - Old\<bar> \<le> 101 / 100
    \<or> step_towards Old New (locFilterGauge Old New)"
proof -
  define D where "D = f32 (New - Old)"
  have D: "\<bar>D - (New - Old)\<bar> \<le> 1 / 65536"
    using assms unfolding D_def by (intro f32_512) linarith
  define h :: rat where "h = (if 20 < \<bar>D\<bar> then 5 / 4 else if 5 < \<bar>D\<bar> then 1 else 3 / 4)"
  define x where "x = Old + (if 0 < D then h else - h)"
  have eq: "locFilterGauge Old New = (if \<bar>D\<bar> < 1 then New else f32 x)"
    by (auto simp: locFilterGauge_def D_def [symmetric] h_def x_def Let_def abs_if)
  show ?thesis
  proof (cases "\<bar>D\<bar> < 1")
    case True
    then have "\<bar>New - Old\<bar> \<le> 101 / 100"
      using D by linarith
    then show ?thesis
      using True by (simp add: eq)
  next
    case False
    have h: "3 / 4 \<le> h" "h \<le> 5 / 4" "h \<le> \<bar>D\<bar> - 1 / 4"
      using False by (auto simp: h_def)
    have "\<bar>x\<bar> < 256"
      using assms h by (auto simp: x_def)
    then have "\<bar>f32 x - x\<bar> \<le> 1 / 131072"
      by (rule f32_speed)
    then have "step_towards Old New (f32 x)"
      using False D h by (auto simp: step_towards_def x_def abs_if split: if_splits)
    then show ?thesis
      using False by (simp add: eq)
  qed
qed

lemma filter_target: "locFilterGauge New New = New"
  by (simp add: locFilterGauge_def f32_0)

lemma filter_range:
  assumes "lo \<le> Old" "Old \<le> hi" "lo \<le> New" "New \<le> hi" "- 250 \<le> lo" "hi \<le> 250"
  shows "lo \<le> locFilterGauge Old New \<and> locFilterGauge Old New \<le> hi"
proof -
  have "\<bar>Old\<bar> \<le> 250" "\<bar>New\<bar> \<le> 250"
    using assms by (auto simp: abs_le_iff)
  from filter_step [OF this] show ?thesis
    using assms by (auto simp: step_towards_def split: if_splits)
qed

lemma filter_iterate:
  assumes "\<bar>Old\<bar> \<le> 250" and "\<bar>New\<bar> \<le> 250" and "\<bar>New - Old\<bar> \<le> 74 / 100 * of_nat n"
  shows "((\<lambda>a. locFilterGauge a New) ^^ Suc n) Old = New"
  using assms
proof (induction n arbitrary: Old)
  case 0
  then show ?case
    by (simp add: filter_target)
next
  case (Suc n)
  have stay: "((\<lambda>a. locFilterGauge a New) ^^ m) New = New" for m
    by (induction m) (simp_all add: filter_target)
  let ?r = "locFilterGauge Old New"
  have e: "((\<lambda>a. locFilterGauge a New) ^^ Suc (Suc n)) Old = ((\<lambda>a. locFilterGauge a New) ^^ Suc n) ?r"
    by (simp only: funpow_Suc_right comp_def)
  from filter_step [OF Suc.prems(1,2)] show ?case
  proof
    assume "?r = New \<and> \<bar>New - Old\<bar> \<le> 101 / 100"
    then show ?thesis
      unfolding e using stay [of "Suc n"] by simp
  next
    assume s: "step_towards Old New ?r"
    have "\<bar>?r\<bar> \<le> 250"
      using s Suc.prems(1,2) by (auto simp: step_towards_def abs_if split: if_splits)
    moreover have "\<bar>New - ?r\<bar> \<le> 74 / 100 * of_nat n"
      using s Suc.prems(3) by (auto simp: step_towards_def abs_if algebra_simps split: if_splits)
    ultimately show ?thesis
      unfolding e using Suc.IH [OF _ Suc.prems(2)] by blast
  qed
qed

section \<open>Angles\<close>

lemma speed_angle:
  assumes "0 \<le> v" "v \<le> 240"
  shows "- 31 \<le> locConvertSpeed2Angle v \<and> locConvertSpeed2Angle v \<le> 211
    \<and> \<bar>locConvertSpeed2Angle v - (210 - v)\<bar> \<le> 1 / 1000"
proof -
  have a: "\<bar>f32 (180 * v) - 180 * v\<bar> \<le> 1 / 512"
    using assms by (intro f32_rpm) simp
  then have b: "\<bar>f32 (180 * v) / 180 - v\<bar> \<le> 1 / 92160"
    by linarith
  have c: "\<bar>f32 (f32 (180 * v) / 180) - f32 (180 * v) / 180\<bar> \<le> 1 / 131072"
    using b assms by (intro f32_speed) linarith
  have "\<bar>f32 (210 - f32 (f32 (180 * v) / 180)) - (210 - f32 (f32 (180 * v) / 180))\<bar> \<le> 1 / 131072"
    using b c assms by (intro f32_speed) linarith
  then show ?thesis
    using b c assms unfolding locConvertSpeed2Angle_def by linarith
qed

lemma rpm_angle:
  assumes "0 \<le> r" "r \<le> 8000"
  shows "- 61 \<le> locConvertRpm2Angle r \<and> locConvertRpm2Angle r \<le> 211"
proof -
  have a: "\<bar>f32 (270 * r) - 270 * r\<bar> \<le> 1 / 8"
    using assms by (intro f32_4M) simp
  then have b: "\<bar>f32 (270 * r) / 8000 - 270 * r / 8000\<bar> \<le> 1 / 64000"
    by linarith
  have c: "\<bar>f32 (f32 (270 * r) / 8000) - f32 (270 * r) / 8000\<bar> \<le> 1 / 65536"
    using b assms by (intro f32_512) linarith
  have "\<bar>f32 (210 - f32 (f32 (270 * r) / 8000)) - (210 - f32 (f32 (270 * r) / 8000))\<bar> \<le> 1 / 65536"
    using b c assms by (intro f32_512) linarith
  then show ?thesis
    using b c assms unfolding locConvertRpm2Angle_def by linarith
qed

lemma fuel_angle_value:
  assumes "F \<le> 100"
  shows "\<bar>locConvertFuel2Angle F - (210 - 55 * of_int (uint F) / 100)\<bar> \<le> 1 / 1000"
proof -
  define f :: rat where "f = of_int (uint F)"
  have "of_int 0 \<le> f" "f \<le> of_int 100"
    unfolding f_def of_int_le_iff using assms by (simp_all add: word_le_def)
  then have f: "0 \<le> f" "f \<le> 100"
    by simp_all
  have a: "\<bar>f32 (55 * f) - 55 * f\<bar> \<le> 1 / 512"
    using f by (intro f32_rpm) simp
  then have b: "\<bar>f32 (55 * f) / 100 - 55 * f / 100\<bar> \<le> 1 / 51200"
    by linarith
  have c: "\<bar>f32 (f32 (55 * f) / 100) - f32 (55 * f) / 100\<bar> \<le> 1 / 131072"
    using b f by (intro f32_speed) linarith
  have "\<bar>f32 (210 - f32 (f32 (55 * f) / 100)) - (210 - f32 (f32 (55 * f) / 100))\<bar> \<le> 1 / 131072"
    using b c f by (intro f32_speed) linarith
  then show ?thesis
    using b c f unfolding locConvertFuel2Angle_def f_def [symmetric] by linarith
qed

section \<open>The index of an angle\<close>

lemma pi_value: "\<bar>LOC_PI_DEC - 314159265358979323846 / 100000000000000000000\<bar> \<le> 1 / 4194304"
  unfolding LOC_PI_DEC_def by (rule f32_8) simp

lemma rad_scale_value: "\<bar>rad_scale - 1303797 / 1000\<bar> \<le> 1 / 500"
proof -
  define k where "k = f32 (1745329251994329576 / 100000000000000000000)"
  define m where "m = f32 (k * 360)"
  have "\<bar>k - 1745329251994329576 / 100000000000000000000\<bar> \<le> 1 / 1073741824"
    unfolding k_def by (rule f32_small) simp
  then have k: "6283184 / 1000000 \<le> k * 360" "k * 360 \<le> 6283187 / 1000000"
    by linarith+
  then have "\<bar>m - k * 360\<bar> \<le> 1 / 4194304"
    unfolding m_def by (intro f32_8) simp
  then have m: "6283183 / 1000000 \<le> m" "m \<le> 6283188 / 1000000" "0 < m"
    using k by linarith+
  define q where "q = 8192 / m"
  have q: "q \<le> 13037982 / 10000" "13037962 / 10000 \<le> q"
    using m by (simp_all add: q_def field_simps)
  then have "\<bar>f32 q - q\<bar> \<le> 1 / 2048"
    by (intro f32_16384) simp
  moreover have "rad_scale = f32 q"
    by (simp add: rad_scale_def q_def m_def k_def)
  ultimately show ?thesis
    using q by linarith
qed

text \<open>The argument of the look-up before it is made an index: the angle in units of 360/8192 degrees.\<close>

lemma rad_units:
  assumes "\<bar>a\<bar> \<le> 400"
  shows "\<bar>f32 (LOC_DEGREE a * rad_scale) - a * 8192 / 360\<bar> \<le> 1 / 20"
proof -
  let ?pi = "314159265358979323846 / 100000000000000000000 :: rat"
  define t where "t = f32 (a / 180)"
  have t: "\<bar>t - a / 180\<bar> \<le> 1 / 4194304"
    unfolding t_def using assms by (intro f32_8) linarith
  then have "\<bar>t\<bar> \<le> 3"
    using assms by linarith
  from product_error [OF t pi_value this, of "4"]
  have p: "\<bar>t * LOC_PI_DEC - a / 180 * ?pi\<bar> \<le> 7 / 4194304"
    by simp
  define u where "u = f32 (t * LOC_PI_DEC)"
  have "\<bar>u - t * LOC_PI_DEC\<bar> \<le> 1 / 4194304"
    unfolding u_def using p assms by (intro f32_8) linarith
  then have u: "\<bar>u - a / 180 * ?pi\<bar> \<le> 8 / 4194304"
    using p by linarith
  then have "\<bar>u\<bar> \<le> 8"
    using assms by linarith
  from product_error [OF u rad_scale_value this, of "1304"]
  have v: "\<bar>u * rad_scale - a / 180 * ?pi * (1303797 / 1000)\<bar> \<le> 1 / 40"
    by simp
  have "\<bar>f32 (u * rad_scale) - u * rad_scale\<bar> \<le> 1 / 2048"
    using v assms by (intro f32_16384) linarith
  moreover have d: "LOC_DEGREE a = u"
    by (simp add: LOC_DEGREE_def u_def t_def)
  ultimately show ?thesis
    using v assms unfolding d by linarith
qed

lemma truncate_floor: "0 \<le> x \<Longrightarrow> truncate_rat x = \<lfloor>x\<rfloor>"
  by (simp add: truncate_rat_def)

lemma truncate_bounds: "\<bar>of_int (truncate_rat x)\<bar> \<le> \<bar>x\<bar>"
proof (cases "x < 0")
  case True
  then have "x \<le> of_int \<lceil>x\<rceil>" "of_int \<lceil>x\<rceil> \<le> (0 :: rat)"
    by simp_all
  then show ?thesis
    using True by (simp add: truncate_rat_def)
next
  case False
  then have "of_int \<lfloor>x\<rfloor> \<le> x" "(0 :: rat) \<le> of_int \<lfloor>x\<rfloor>"
    by simp_all
  then show ?thesis
    using False by (simp add: truncate_rat_def)
qed

lemma to_int32_ok: "\<bar>x\<bar> < 2147483647 \<Longrightarrow> to_int32 x = Inr (truncate_rat x)"
  using truncate_bounds [of x] by (simp add: to_int32_def INT_MAX_def Let_def) linarith

lemma RadToId_ok:
  assumes "\<bar>a\<bar> \<le> 400"
  shows "\<exists>i < 8192. RadToId (LOC_DEGREE a) = Inr i"
proof -
  have "\<bar>f32 (LOC_DEGREE a * rad_scale)\<bar> < 2147483647"
    using rad_units [OF assms] assms by linarith
  then show ?thesis
    by (simp add: RadToId_def to_int32_ok nat_less_iff)
qed

lemma RadToId_index:
  assumes "1 \<le> a" "a \<le> 359"
  shows "\<exists>i. RadToId (LOC_DEGREE a) = Inr i \<and> i < 8192
    \<and> of_nat i \<le> a * 8192 / 360 + 1 / 20 \<and> a * 8192 / 360 - 1 / 20 < of_nat i + 1"
proof -
  define x where "x = f32 (LOC_DEGREE a * rad_scale)"
  have x: "\<bar>x - a * 8192 / 360\<bar> \<le> 1 / 20"
    unfolding x_def using assms by (intro rad_units) simp
  then have r: "0 \<le> x" "x < 8192"
    using assms by linarith+
  then have f: "0 \<le> \<lfloor>x\<rfloor>" "\<lfloor>x\<rfloor> < 8192"
    by (simp_all add: floor_less_iff)
  then have "RadToId (LOC_DEGREE a) = Inr (nat \<lfloor>x\<rfloor>)"
    using r by (simp add: RadToId_def x_def [symmetric] to_int32_ok truncate_floor)
  moreover have "of_nat (nat \<lfloor>x\<rfloor>) = (of_int \<lfloor>x\<rfloor> :: rat)" "nat \<lfloor>x\<rfloor> < 8192"
    using f by linarith+
  moreover have "of_int \<lfloor>x\<rfloor> \<le> a * 8192 / 360 + 1 / 20" "a * 8192 / 360 - 1 / 20 < of_int \<lfloor>x\<rfloor> + 1"
    using x by linarith+
  ultimately show ?thesis
    by (intro exI [of _ "nat \<lfloor>x\<rfloor>"]) simp
qed

lemma table_value:
  assumes "\<bar>x\<bar> \<le> 1000001"
  shows "\<bar>f32 (of_int x / 1000000) - of_int x / 1000000\<bar> \<le> 1 / 4194304"
proof -
  have "\<bar>of_int x\<bar> \<le> (of_int 1000001 :: rat)"
    unfolding of_int_abs [symmetric] of_int_le_iff by (rule assms)
  then show ?thesis
    by (intro f32_8) (simp add: abs_divide)
qed

section \<open>The fuel pointer\<close>

text \<open>Sine and cosine of an angle by table, with the index.\<close>

lemma lookup:
  assumes "1 \<le> a" "a \<le> 359"
  obtains i s c where "i < 8192" "of_nat i \<le> a * 8192 / 360 + 1 / 20" "a * 8192 / 360 - 1 / 20 < of_nat i + (1 :: rat)"
    and "sinfCl (LOC_DEGREE a) = Inr s" "\<bar>s - of_int (s_STable ! i) / 1000000\<bar> \<le> 1 / 4194304"
    and "cosfCl (LOC_DEGREE a) = Inr c" "\<bar>c - of_int (s_CTable ! i) / 1000000\<bar> \<le> 1 / 4194304"
proof -
  obtain i where i: "RadToId (LOC_DEGREE a) = Inr i" "i < 8192" "of_nat i \<le> a * 8192 / 360 + 1 / 20"
    "a * 8192 / 360 - 1 / 20 < of_nat i + 1"
    using RadToId_index [OF assms] by blast
  show ?thesis
    using table_value [OF entries_bounded(1) [OF i(2)]] table_value [OF entries_bounded(2) [OF i(2)]]
    by (intro that [OF i(2-4)]) (simp_all add: sinfCl_def cosfCl_def i(1))
qed

lemma point_error:
  assumes "\<bar>b\<bar> \<le> 800" "\<bar>r\<bar> \<le> 400" "\<bar>c\<bar> \<le> 101 / 100" "\<bar>c - d\<bar> \<le> 1 / 4194304"
  shows "\<bar>f32 (b + f32 (c * r)) - (b + d * r)\<bar> \<le> 1 / 1000"
    and "\<bar>f32 (b - f32 (c * r)) - (b - d * r)\<bar> \<le> 1 / 1000"
proof -
  have cr: "\<bar>c * r\<bar> \<le> 404"
    using mult_mono [OF assms(3,2)] by (simp add: abs_mult)
  have "\<bar>c * r - d * r\<bar> = \<bar>c - d\<bar> * \<bar>r\<bar>"
    by (simp add: abs_mult [symmetric] algebra_simps)
  also have "\<dots> \<le> 1 / 4194304 * 400"
    using assms by (intro mult_mono) auto
  finally have d: "\<bar>c * r - d * r\<bar> \<le> 1 / 4194304 * 400" .
  have f: "\<bar>f32 (c * r) - c * r\<bar> \<le> 1 / 65536"
    using cr by (intro f32_512) linarith
  have "\<bar>f32 (b + f32 (c * r)) - (b + f32 (c * r))\<bar> \<le> 1 / 16384"
    "\<bar>f32 (b - f32 (c * r)) - (b - f32 (c * r))\<bar> \<le> 1 / 16384"
    using cr f assms(1) by (intro f32_2048; linarith)+
  then show "\<bar>f32 (b + f32 (c * r)) - (b + d * r)\<bar> \<le> 1 / 1000"
    "\<bar>f32 (b - f32 (c * r)) - (b - d * r)\<bar> \<le> 1 / 1000"
    using d f by linarith+
qed

text \<open>A corner of the triangle lies within a hundredth of a pixel of the point given by the table entries.\<close>

definition near :: "rat \<times> rat \<Rightarrow> rat \<times> rat \<Rightarrow> bool" where
  "near p q \<longleftrightarrow> \<bar>fst p - fst q\<bar> \<le> 1 / 100 \<and> \<bar>snd p - snd q\<bar> \<le> 1 / 100"

definition table_sin :: "nat \<Rightarrow> rat" where
  "table_sin i = of_int (s_STable ! i) / 1000000"

definition table_cos :: "nat \<Rightarrow> rat" where
  "table_cos i = of_int (s_CTable ! i) / 1000000"

lemma table_bounded:
  assumes "i < 8192"
  shows "\<bar>table_sin i\<bar> \<le> 1000001 / 1000000" and "\<bar>table_cos i\<bar> \<le> 1000001 / 1000000"
proof -
  have *: "\<bar>of_int x / 1000000\<bar> \<le> (1000001 / 1000000 :: rat)" if "\<bar>x\<bar> \<le> 1000001" for x
  proof -
    have "\<bar>of_int x\<bar> \<le> (of_int 1000001 :: rat)"
      unfolding of_int_abs [symmetric] of_int_le_iff by (rule that)
    then show ?thesis
      by (simp add: abs_divide)
  qed
  show "\<bar>table_sin i\<bar> \<le> 1000001 / 1000000" and "\<bar>table_cos i\<bar> \<le> 1000001 / 1000000"
    unfolding table_sin_def table_cos_def using * entries_bounded [OF assms] by blast+
qed

text \<open>\<open>indexed a i\<close>: entry \<open>i\<close> is the one for the angle \<open>a\<close>.\<close>

definition indexed :: "rat \<Rightarrow> nat \<Rightarrow> bool" where
  "indexed a i \<longleftrightarrow> i < 8192 \<and> of_nat i \<le> a * 8192 / 360 + 1 / 10 \<and> a * 8192 / 360 - 11 / 10 < of_nat i"

lemma lookup_near:
  assumes "10 \<le> a" "a \<le> 350" "\<bar>a' - a\<bar> \<le> 1 / 65536"
  obtains i s c where "indexed a i"
    and "sinfCl (LOC_DEGREE a') = Inr s" "\<bar>s - table_sin i\<bar> \<le> 1 / 4194304" "\<bar>s\<bar> \<le> 101 / 100"
    and "cosfCl (LOC_DEGREE a') = Inr c" "\<bar>c - table_cos i\<bar> \<le> 1 / 4194304" "\<bar>c\<bar> \<le> 101 / 100"
proof -
  have "1 \<le> a'" "a' \<le> 359"
    using assms by linarith+
  from lookup [OF this] obtain i s c where i: "i < 8192" "of_nat i \<le> a' * 8192 / 360 + 1 / 20"
    "a' * 8192 / 360 - 1 / 20 < of_nat i + (1 :: rat)"
    and sc: "sinfCl (LOC_DEGREE a') = Inr s" "\<bar>s - table_sin i\<bar> \<le> 1 / 4194304"
      "cosfCl (LOC_DEGREE a') = Inr c" "\<bar>c - table_cos i\<bar> \<le> 1 / 4194304"
    unfolding table_sin_def table_cos_def by blast
  show ?thesis
  proof (rule that)
    show "indexed a i"
      unfolding indexed_def using i assms(3) by linarith
  qed (use sc table_bounded [OF i(1)] in \<open>linarith+ | simp\<close>)+
qed

lemma near_behind:
  assumes "\<bar>x - u\<bar> \<le> 1 / 1000" "\<bar>y - v\<bar> \<le> 1 / 1000" "\<bar>x\<bar> \<le> 800" "\<bar>y\<bar> \<le> 800"
    and "\<bar>c - d\<bar> \<le> 1 / 4194304" "\<bar>c\<bar> \<le> 101 / 100" "\<bar>s - t\<bar> \<le> 1 / 4194304" "\<bar>s\<bar> \<le> 101 / 100"
  shows "near (f32 (x + f32 (c * (- 30))), f32 (y - f32 (s * (- 30)))) (u - 30 * d, v + 30 * t)"
proof -
  have "\<bar>f32 (x + f32 (c * (- 30))) - (x + d * (- 30))\<bar> \<le> 1 / 1000"
    "\<bar>f32 (y - f32 (s * (- 30))) - (y - t * (- 30))\<bar> \<le> 1 / 1000"
    using assms by (intro point_error; simp)+
  then show ?thesis
    unfolding near_def fst_conv snd_conv using assms(1,2) by linarith
qed

lemma fuel_corners:
  assumes "150 \<le> a" "a \<le> 211"
  obtains i j k ps where "indexed a i" "indexed (a + 30) j" "indexed (a - 30) k"
    and "triangle_corners LOC_FUEL_CENTERX LOC_FUEL_CENTERY LOC_FUEL_SIZE LOC_FUEL_TRISIZE a = Inr ps"
    and "list_all2 near ps
      (let x = 378 + 375 * table_cos i; y = 360 - 375 * table_sin i
       in [(x, y), (x - 30 * table_cos j, y + 30 * table_sin j), (x - 30 * table_cos k, y + 30 * table_sin k)])"
proof -
  obtain i s0 c0 where 0: "indexed a i" "sinfCl (LOC_DEGREE a) = Inr s0" "\<bar>s0 - table_sin i\<bar> \<le> 1 / 4194304" "\<bar>s0\<bar> \<le> 101 / 100"
    "cosfCl (LOC_DEGREE a) = Inr c0" "\<bar>c0 - table_cos i\<bar> \<le> 1 / 4194304" "\<bar>c0\<bar> \<le> 101 / 100"
    using assms by (elim lookup_near [of a a, rotated 3]) simp_all
  obtain j s1 c1 where 1: "indexed (a + 30) j" "sinfCl (LOC_DEGREE (f32 (a + 30))) = Inr s1"
    "\<bar>s1 - table_sin j\<bar> \<le> 1 / 4194304" "\<bar>s1\<bar> \<le> 101 / 100"
    "cosfCl (LOC_DEGREE (f32 (a + 30))) = Inr c1" "\<bar>c1 - table_cos j\<bar> \<le> 1 / 4194304" "\<bar>c1\<bar> \<le> 101 / 100"
    using assms f32_512 [of "a + 30"] by (elim lookup_near [of "a + 30" "f32 (a + 30)", rotated 3]) simp_all
  obtain k s2 c2 where 2: "indexed (a - 30) k" "sinfCl (LOC_DEGREE (f32 (a - 30))) = Inr s2"
    "\<bar>s2 - table_sin k\<bar> \<le> 1 / 4194304" "\<bar>s2\<bar> \<le> 101 / 100"
    "cosfCl (LOC_DEGREE (f32 (a - 30))) = Inr c2" "\<bar>c2 - table_cos k\<bar> \<le> 1 / 4194304" "\<bar>c2\<bar> \<le> 101 / 100"
    using assms f32_512 [of "a - 30"] by (elim lookup_near [of "a - 30" "f32 (a - 30)", rotated 3]) simp_all
  define x0 where "x0 = f32 (378 + f32 (c0 * 375))"
  define y0 where "y0 = f32 (360 - f32 (s0 * 375))"
  have x0: "\<bar>x0 - (378 + table_cos i * 375)\<bar> \<le> 1 / 1000" and y0: "\<bar>y0 - (360 - table_sin i * 375)\<bar> \<le> 1 / 1000"
    using point_error(1) [of 378 375 c0 "table_cos i"] point_error(2) [of 360 375 s0 "table_sin i"] 0
    unfolding x0_def y0_def by simp_all
  have b: "\<bar>x0\<bar> \<le> 800" "\<bar>y0\<bar> \<le> 800"
    using x0 y0 table_bounded [of i] 0(1) unfolding indexed_def by linarith+
  have "near (x0, y0) (378 + 375 * table_cos i, 360 - 375 * table_sin i)"
    using x0 y0 by (simp add: near_def mult.commute)
  moreover have "near (f32 (x0 + f32 (c1 * (- 30))), f32 (y0 - f32 (s1 * (- 30))))
      (378 + 375 * table_cos i - 30 * table_cos j, 360 - 375 * table_sin i + 30 * table_sin j)"
    by (rule near_behind) (use 1 b x0 y0 in \<open>simp_all add: mult.commute\<close>)
  moreover have "near (f32 (x0 + f32 (c2 * (- 30))), f32 (y0 - f32 (s2 * (- 30))))
      (378 + 375 * table_cos i - 30 * table_cos k, 360 - 375 * table_sin i + 30 * table_sin k)"
    by (rule near_behind) (use 2 b x0 y0 in \<open>simp_all add: mult.commute\<close>)
  ultimately show ?thesis
    by (intro that [OF 0(1) 1(1) 2(1)], simp add: triangle_corners_def 0 1 2 Let_def x0_def [symmetric] y0_def [symmetric])
      (simp add: Let_def)
qed

lemma nat_bounds:
  fixes i :: nat and x y :: rat
  shows "of_nat i \<le> x \<Longrightarrow> x < of_nat n + 1 \<Longrightarrow> i \<le> n" and "y < of_nat i \<Longrightarrow> of_nat n - 1 \<le> y \<Longrightarrow> n \<le> i"
proof -
  show "i \<le> n" if "of_nat i \<le> x" "x < of_nat n + 1"
  proof -
    have "(of_nat i :: rat) < of_nat (Suc n)"
      using that by simp
    then show ?thesis
      unfolding of_nat_less_iff by simp
  qed
  show "n \<le> i" if "y < of_nat i" "of_nat n - 1 \<le> y"
  proof -
    have "(of_nat n :: rat) < of_nat (Suc i)"
      using that by simp
    then show ?thesis
      unfolding of_nat_less_iff by simp
  qed
qed

lemma indexed_bounds:
  assumes "indexed a i"
  shows "a * 8192 + 36 < 360 * (of_nat n + 1) \<Longrightarrow> i \<le> n" and "360 * (of_nat n - 1) \<le> a * 8192 - 396 \<Longrightarrow> n \<le> i"
proof -
  have i: "of_nat i \<le> a * 8192 / 360 + 1 / 10" "a * 8192 / 360 - 11 / 10 < of_nat i"
    using assms unfolding indexed_def by blast+
  show "i \<le> n" if "a * 8192 + 36 < 360 * (of_nat n + 1)"
    using that by (intro nat_bounds(1) [OF i(1)]) (simp add: field_simps)
  show "n \<le> i" if "360 * (of_nat n - 1) \<le> a * 8192 - 396"
    using that by (intro nat_bounds(2) [OF i(2)]) (simp add: field_simps)
qed

lemmas indexed_le = indexed_bounds(1) [where n = "numeral n" for n, unfolded of_nat_numeral]
lemmas indexed_ge = indexed_bounds(2) [where n = "numeral n" for n, unfolded of_nat_numeral]

lemma table_sin_mono: "2800 < i \<Longrightarrow> i \<le> j \<Longrightarrow> j \<le> 5600 \<Longrightarrow> table_sin j \<le> table_sin i"
  unfolding table_sin_def using fuel_sine by (simp add: divide_right_mono)

lemma table_sin_values:
  "table_sin 3526 = 423390 / 1000000" "table_sin 3539 = 414337 / 1000000" "table_sin 3595 = 374875 / 1000000" "table_sin 3686 = 309309 / 1000000"
  "table_sin 3754 = 259313 / 1000000" "table_sin 4369 = - 207862 / 1000000" "table_sin 4437 = - 258572 / 1000000"
  "table_sin 4778 = - 499557 / 1000000" "table_sin 4801 = - 514760 / 1000000"
  by (simp_all add: table_sin_def fuel_sine_values)

lemma table_cos_values:
  "2800 < i \<Longrightarrow> i \<le> 5600 \<Longrightarrow> table_cos i \<le> 0"
  "3400 < i \<Longrightarrow> i \<le> 4800 \<Longrightarrow> table_cos i \<le> - 84 / 100"
proof -
  show "2800 < i \<Longrightarrow> i \<le> 5600 \<Longrightarrow> table_cos i \<le> 0"
    using fuel_cosine by (simp add: table_cos_def)
  assume "3400 < i" "i \<le> 4800"
  then have "of_int (s_CTable ! i) \<le> (of_int (- 840000) :: rat)"
    unfolding of_int_le_iff by (rule tip_cosine)
  then show "table_cos i \<le> - 84 / 100"
    by (simp add: table_cos_def)
qed

text \<open>The area of the fuel gauge that \<^verbatim>\<open>RenderClGaugeScreen\<close> redraws in every frame.\<close>

definition in_fuel_area :: "rat \<times> rat \<Rightarrow> bool" where
  "in_fuel_area p \<longleftrightarrow>
     of_int LOC_FGAUGE_POSX \<le> fst p \<and> fst p \<le> of_int (LOC_FGAUGE_POSX + LOC_FGAUGE_WIDTH)
     \<and> of_int LOC_FGAUGE_POSY \<le> snd p \<and> snd p \<le> of_int (LOC_FGAUGE_POSY + LOC_FGAUGE_HEIGHT)"

lemma fuel_indices:
  assumes a: "158 \<le> a" "a \<le> 210 + 1 / 200" and i: "indexed a i" and j: "indexed (a + 30) j" and k: "indexed (a - 30) k"
  shows "3595 \<le> i" "i \<le> 4778" "4277 \<le> j" "j \<le> 5461" "2912 \<le> k" "k \<le> 4096"
  using a by (intro indexed_le [OF i] indexed_ge [OF i] indexed_le [OF j] indexed_ge [OF j] indexed_le [OF k] indexed_ge [OF k]; simp add: distrib_right left_diff_distrib)+

lemma fuel_sines_area:
  assumes a: "158 \<le> a" "a \<le> 210 + 1 / 200" and i: "indexed a i" and j: "indexed (a + 30) j" and k: "indexed (a - 30) k"
  defines "y \<equiv> 360 - 375 * table_sin i"
  shows "213 \<le> y \<and> y \<le> 560" "213 \<le> y + 30 * table_sin j \<and> y + 30 * table_sin j \<le> 560"
    "213 \<le> y + 30 * table_sin k \<and> y + 30 * table_sin k \<le> 560"
proof -
  note r = fuel_indices [OF a i j k]
  have s: "table_sin 4778 \<le> table_sin i" "table_sin i \<le> table_sin 3595" "table_sin k \<ge> table_sin 4369"
    "table_sin j \<le> table_sin 3754"
    using r by (auto intro!: table_sin_mono)
  note b = table_bounded(1) [of i] table_bounded(1) [of j] table_bounded(1) [of k]
  have jk: "table_sin j \<le> 26 / 100" "- 21 / 100 \<le> table_sin k" "table_sin k \<le> 101 / 100" "- 101 / 100 \<le> table_sin j"
    using s b r by (simp_all add: table_sin_values abs_le_iff)
  consider "a \<le> 162" | "162 \<le> a" "a \<le> 195" | "195 \<le> a"
    by linarith
  then have "table_sin i \<le> 375 / 1000 \<and> 309 / 1000 \<le> table_sin i \<and> - 208 / 1000 \<le> table_sin j
    \<or> table_sin i \<le> 31 / 100 \<and> - 26 / 100 \<le> table_sin i
    \<or> table_sin i \<le> - 25 / 100 \<and> - 5 / 10 \<le> table_sin i \<and> table_sin k \<le> 26 / 100"
  proof cases
    case 1
    then have "i \<le> 3686" "j \<le> 4369"
      using a by (intro indexed_le [OF i] indexed_le [OF j]; simp add: distrib_right left_diff_distrib)+
    then have "table_sin 3686 \<le> table_sin i" "table_sin 4369 \<le> table_sin j"
      using r by (auto intro!: table_sin_mono)
    then show ?thesis
      using s by (simp add: table_sin_values)
  next
    case 2
    then have "3686 \<le> i" "i \<le> 4437"
      by (intro indexed_le [OF i] indexed_ge [OF i]; simp add: distrib_right left_diff_distrib)+
    then have "table_sin i \<le> table_sin 3686" "table_sin 4437 \<le> table_sin i"
      using r by (auto intro!: table_sin_mono)
    then show ?thesis
      by (simp add: table_sin_values)
  next
    case 3
    then have "4437 \<le> i" "3754 \<le> k"
      by (intro indexed_ge [OF i] indexed_ge [OF k]; simp add: distrib_right left_diff_distrib)+
    then have "table_sin i \<le> table_sin 4437" "table_sin k \<le> table_sin 3754"
      using r by (auto intro!: table_sin_mono)
    then show ?thesis
      using s by (simp add: table_sin_values)
  qed
  then show "213 \<le> y \<and> y \<le> 560" "213 \<le> y + 30 * table_sin j \<and> y + 30 * table_sin j \<le> 560"
    "213 \<le> y + 30 * table_sin k \<and> y + 30 * table_sin k \<le> 560"
    unfolding y_def using jk by linarith+
qed

lemma fuel_cosines_area:
  assumes a: "158 \<le> a" "a \<le> 210 + 1 / 200" and i: "indexed a i" and j: "indexed (a + 30) j" and k: "indexed (a - 30) k"
  defines "x \<equiv> 378 + 375 * table_cos i"
  shows "1 \<le> x \<and> x \<le> 93" "1 \<le> x - 30 * table_cos j \<and> x - 30 * table_cos j \<le> 93 + 9 / 10"
    "1 \<le> x - 30 * table_cos k \<and> x - 30 * table_cos k \<le> 93 + 9 / 10"
proof -
  note r = fuel_indices [OF a i j k]
  then show "1 \<le> x \<and> x \<le> 93" "1 \<le> x - 30 * table_cos j \<and> x - 30 * table_cos j \<le> 93 + 9 / 10"
    "1 \<le> x - 30 * table_cos k \<and> x - 30 * table_cos k \<le> 93 + 9 / 10"
    using table_bounded(2) [of i] table_bounded(2) [of j] table_bounded(2) [of k] table_cos_values(2) [of i]
      table_cos_values(1) [of j] table_cos_values(1) [of k] unfolding x_def by (simp_all add: abs_le_iff)
qed

lemma fuel_pointer_area:
  assumes "158 \<le> a" "a \<le> 210 + 1 / 200"
  shows "\<exists>ps. triangle_corners LOC_FUEL_CENTERX LOC_FUEL_CENTERY LOC_FUEL_SIZE LOC_FUEL_TRISIZE a = Inr ps
    \<and> list_all in_fuel_area ps"
proof -
  have "150 \<le> a" "a \<le> 211"
    using assms by simp_all
  then obtain i j k ps where i: "indexed a i" "indexed (a + 30) j" "indexed (a - 30) k"
    and ps: "triangle_corners LOC_FUEL_CENTERX LOC_FUEL_CENTERY LOC_FUEL_SIZE LOC_FUEL_TRISIZE a = Inr ps"
    and n: "list_all2 near ps
      (let x = 378 + 375 * table_cos i; y = 360 - 375 * table_sin i
       in [(x, y), (x - 30 * table_cos j, y + 30 * table_sin j), (x - 30 * table_cos k, y + 30 * table_sin k)])"
    by (rule fuel_corners)
  have *: "in_fuel_area p" if "near p (x, y)" "1 \<le> x \<and> x \<le> 93 + 9 / 10" "213 \<le> y \<and> y \<le> 560" for p x y
  proof -
    have "\<bar>fst p - x\<bar> \<le> 1 / 100" "\<bar>snd p - y\<bar> \<le> 1 / 100"
      using that(1) by (simp_all add: near_def)
    then have "0 \<le> fst p" "fst p \<le> 94" "212 \<le> snd p" "snd p \<le> 561"
      using that(2,3) by linarith+
    then show ?thesis
      by (simp add: in_fuel_area_def)
  qed
  show ?thesis
    using ps n fuel_sines_area [OF assms i] fuel_cosines_area [OF assms i]
    by (intro exI [of _ ps]) (force simp: Let_def list_all2_Cons2 intro: *)
qed

text \<open>At a fuel level of 99 the tip is above the area.\<close>

lemma fuel_pointer_full:
  "\<exists>p ps. triangle_corners LOC_FUEL_CENTERX LOC_FUEL_CENTERY LOC_FUEL_SIZE LOC_FUEL_TRISIZE (locConvertFuel2Angle 99) = Inr (p # ps)
    \<and> snd p < of_int LOC_FGAUGE_POSY - 5"
proof -
  define a where "a = locConvertFuel2Angle 99"
  have a: "\<bar>a - (210 - 55 * 99 / 100)\<bar> \<le> 1 / 1000"
    unfolding a_def using fuel_angle_value [of 99] by simp
  have a': "15554 / 100 \<le> a" "a \<le> 15556 / 100"
    using a by linarith+
  then have "150 \<le> a" "a \<le> 211"
    by simp_all
  then obtain i j k ps where i: "indexed a i"
    and ps: "triangle_corners LOC_FUEL_CENTERX LOC_FUEL_CENTERY LOC_FUEL_SIZE LOC_FUEL_TRISIZE a = Inr ps"
    and n: "list_all2 near ps
      (let x = 378 + 375 * table_cos i; y = 360 - 375 * table_sin i
       in [(x, y), (x - 30 * table_cos j, y + 30 * table_sin j), (x - 30 * table_cos k, y + 30 * table_sin k)])"
    by (rule fuel_corners)
  have "i \<le> 3539" "3500 \<le> i"
    using a' by (intro indexed_le [OF i] indexed_ge [OF i]; simp add: distrib_right left_diff_distrib)+
  then have "table_sin 3539 \<le> table_sin i"
    by (intro table_sin_mono) simp_all
  then have "360 - 375 * table_sin i \<le> 205"
    by (simp add: table_sin_values)
  moreover obtain p ps' where p: "ps = p # ps'" "near p (378 + 375 * table_cos i, 360 - 375 * table_sin i)"
    using n by (auto simp: Let_def list_all2_Cons2)
  ultimately have "snd p < 207"
    unfolding near_def fst_conv snd_conv by linarith
  then show ?thesis
    using ps p(1) unfolding a_def by simp
qed

lemma fuel_levels:
  "158 \<le> locConvertFuel2Angle 94" "locConvertFuel2Angle 94 \<le> 159" "209 \<le> locConvertFuel2Angle 0"
  "locConvertFuel2Angle 0 \<le> 210 + 1 / 200"
proof -
  have "\<bar>locConvertFuel2Angle 94 - 1583 / 10\<bar> \<le> 1 / 1000" "\<bar>locConvertFuel2Angle 0 - 210\<bar> \<le> 1 / 1000"
    using fuel_angle_value [of 94] fuel_angle_value [of 0] by simp_all
  then show "158 \<le> locConvertFuel2Angle 94" "locConvertFuel2Angle 94 \<le> 159" "209 \<le> locConvertFuel2Angle 0"
    "locConvertFuel2Angle 0 \<le> 210 + 1 / 200"
    by linarith+
qed

section \<open>Properties\<close>

text \<open>
  Property C39 (needle_converges): a needle follows its target. With the target fixed, every frame
  moves the needle by at most 1.26 degrees and never away from the target, and after \<open>n + 1\<close> frames it
  stands exactly on it, where \<open>n\<close> is the distance divided by 0.74 degrees.
\<close>

theorem needle_converges:
  assumes "\<bar>Old\<bar> \<le> 250" and "\<bar>New\<bar> \<le> 250" and "\<bar>New - Old\<bar> \<le> 74 / 100 * of_nat n"
  shows "((\<lambda>a. locFilterGauge a New) ^^ Suc n) Old = New
    \<and> (\<forall>k. let a = ((\<lambda>a. locFilterGauge a New) ^^ k) Old; b = locFilterGauge a New
           in \<bar>b - a\<bar> \<le> 126 / 100 \<and> \<bar>New - b\<bar> \<le> \<bar>New - a\<bar>)"
proof (intro conjI allI)
  show "((\<lambda>a. locFilterGauge a New) ^^ Suc n) Old = New"
    by (rule filter_iterate [OF assms])
  fix k
  define a where "a = ((\<lambda>a. locFilterGauge a New) ^^ k) Old"
  have "- 250 \<le> a \<and> a \<le> 250"
    unfolding a_def
  proof (induction k)
    case (Suc k)
    then show ?case
      using assms(2) filter_range [of "- 250" _ 250 New] by simp
  qed (use assms(1) in \<open>simp add: abs_le_iff\<close>)
  then have "\<bar>a\<bar> \<le> 250"
    by (simp add: abs_le_iff)
  from filter_step [OF this assms(2)]
  have "\<bar>locFilterGauge a New - a\<bar> \<le> 126 / 100 \<and> \<bar>New - locFilterGauge a New\<bar> \<le> \<bar>New - a\<bar>"
    by (auto simp: step_towards_def split: if_splits)
  then show "let a = ((\<lambda>a. locFilterGauge a New) ^^ k) Old; b = locFilterGauge a New
      in \<bar>b - a\<bar> \<le> 126 / 100 \<and> \<bar>New - b\<bar> \<le> \<bar>New - a\<bar>"
    by (simp add: a_def Let_def)
qed

theorem needle_converges_witness: "((\<lambda>a. locFilterGauge a 0) ^^ 285) 210 = 0"
  using needle_converges [of 210 0 284] by (simp add: eval_nat_numeral)

text \<open>
  Property C40 (fuel_pointer_restored): at every angle between the fuel levels 0 and 94 the three
  corners of the fuel pointer are inside the rectangle that is redrawn before each frame, so no
  pixels of an old pointer remain. At level 99 the tip is above that rectangle.
\<close>

theorem fuel_pointer_restored:
  assumes "locConvertFuel2Angle 94 \<le> a" and "a \<le> locConvertFuel2Angle 0"
  shows "(\<exists>ps. triangle_corners LOC_FUEL_CENTERX LOC_FUEL_CENTERY LOC_FUEL_SIZE LOC_FUEL_TRISIZE a = Inr ps
      \<and> list_all in_fuel_area ps)
    \<and> (\<exists>p ps. triangle_corners LOC_FUEL_CENTERX LOC_FUEL_CENTERY LOC_FUEL_SIZE LOC_FUEL_TRISIZE
        (locConvertFuel2Angle 99) = Inr (p # ps) \<and> \<not> in_fuel_area p)"
proof (intro conjI)
  show "\<exists>ps. triangle_corners LOC_FUEL_CENTERX LOC_FUEL_CENTERY LOC_FUEL_SIZE LOC_FUEL_TRISIZE a = Inr ps
      \<and> list_all in_fuel_area ps"
    using assms fuel_levels by (intro fuel_pointer_area) linarith+
  show "\<exists>p ps. triangle_corners LOC_FUEL_CENTERX LOC_FUEL_CENTERY LOC_FUEL_SIZE LOC_FUEL_TRISIZE
        (locConvertFuel2Angle 99) = Inr (p # ps) \<and> \<not> in_fuel_area p"
    using fuel_pointer_full unfolding in_fuel_area_def by fastforce
qed

theorem fuel_pointer_witness:
  "\<exists>ps. triangle_corners LOC_FUEL_CENTERX LOC_FUEL_CENTERY LOC_FUEL_SIZE LOC_FUEL_TRISIZE 200 = Inr ps
     \<and> list_all in_fuel_area ps"
proof -
  have "locConvertFuel2Angle 94 \<le> 200" "200 \<le> locConvertFuel2Angle 0"
    using fuel_levels by linarith+
  from fuel_pointer_restored [OF this] show ?thesis
    by blast
qed

end
