(* ===== verification/Picture.thy ===== *)
theory Picture
  imports Needle
begin

text \<open>
  What the gauge screen shows. From the calls of the drawing library the function \<open>shown\<close> computes
  which image was painted last over a pixel of a frame buffer. Background, needle and fuel pointer of
  the gauge screen are then functions on pictures: what they do to the pixels at the corners of the
  icons.
\<close>

section \<open>Pictures\<close>

text \<open>The frame buffer, texture and line width in force after some calls (latest first).\<close>

primrec target :: "call list \<Rightarrow> ptr option" where
  "target [] = None"
| "target (c # h) = (case c of R_DRW2D_FramebufferSet f \<Rightarrow> Some (buf_Data (fb_Buffer f)) | _ \<Rightarrow> target h)"

primrec texture :: "call list \<Rightarrow> ptr option" where
  "texture [] = None"
| "texture (c # h) = (case c of R_DRW2D_CtxTextureSet n t \<Rightarrow> Some (buf_Data (tex_Buffer t)) | _ \<Rightarrow> texture h)"

primrec line_width :: "call list \<Rightarrow> int" where
  "line_width [] = 0"
| "line_width (c # h) = (case c of R_DRW2D_CtxLineStyle l \<Rightarrow> ls_Width l | _ \<Rightarrow> line_width h)"

type_synonym pixel = "int \<times> int"

definition inside :: "r_drw2d_Rect_t \<Rightarrow> pixel \<Rightarrow> bool" where
  "inside r p \<longleftrightarrow>
     rect_X r \<le> fst p \<and> fst p < rect_X r + rect_Width r \<and> rect_Y r \<le> snd p \<and> snd p < rect_Y r + rect_Height r"

text \<open>The box around some points, with a margin on every side.\<close>

definition in_box :: "int \<Rightarrow> r_drw2d_Point_t list \<Rightarrow> pixel \<Rightarrow> bool" where
  "in_box w qs p \<longleftrightarrow>
     (\<exists>q \<in> set qs. pt_X q - w \<le> fst p) \<and> (\<exists>q \<in> set qs. fst p \<le> pt_X q + w)
     \<and> (\<exists>q \<in> set qs. pt_Y q - w \<le> snd p) \<and> (\<exists>q \<in> set qs. snd p \<le> pt_Y q + w)"

text \<open>The pixels that a call may change, and what a pixel shows then: nothing known after lines and triangles.\<close>

definition touches :: "call list \<Rightarrow> call \<Rightarrow> pixel \<Rightarrow> bool" where
  "touches h c p =
     (case c of
        R_DRW2D_TextureBlit src r \<Rightarrow> inside r p
      | R_DRW2D_DrawRect r \<Rightarrow> inside r p
      | R_DRW2D_DrawLines qs \<Rightarrow> in_box (line_width h) qs p
      | R_DRW2D_DrawTriangles qs fl \<Rightarrow> in_box 0 qs p
      | R_DRW2D_FramebufferClear \<Rightarrow> True
      | _ \<Rightarrow> False)"

definition paint :: "call list \<Rightarrow> call \<Rightarrow> ptr option" where
  "paint h c =
     (case c of R_DRW2D_TextureBlit src r \<Rightarrow> texture h | R_DRW2D_DrawRect r \<Rightarrow> texture h | _ \<Rightarrow> None)"

primrec shown :: "call list \<Rightarrow> ptr \<Rightarrow> pixel \<Rightarrow> ptr option" where
  "shown [] b p = None"
| "shown (c # h) b p = (if target h = Some b \<and> touches h c p then paint h c else shown h b p)"

section \<open>Calls that leave the icons alone\<close>

text \<open>The pixel at the upper left corner of an icon; the loop draws the first eight.\<close>

definition corner :: "library \<Rightarrow> nat \<Rightarrow> pixel" where
  "corner L i = (R_DRW2D_2X L (of_int (PosX (locElement ! i))), R_DRW2D_2X L (of_int (PosY (locElement ! i))))"

definition same_icons :: "library \<Rightarrow> call list \<Rightarrow> call list \<Rightarrow> bool" where
  "same_icons L h h' \<longleftrightarrow> target h' = target h \<and> (\<forall>b. \<forall>i < 8. shown h' b (corner L i) = shown h b (corner L i))"

lemma same_icons_refl [simp]: "same_icons L h h"
  by (simp add: same_icons_def)

lemma same_icons_trans: "same_icons L h h' \<Longrightarrow> same_icons L h' h'' \<Longrightarrow> same_icons L h h''"
  by (simp add: same_icons_def)

definition plain_call :: "call \<Rightarrow> bool" where
  "plain_call c \<longleftrightarrow>
     (case c of
        R_DRW2D_TextureBlit src r \<Rightarrow> False
      | R_DRW2D_DrawRect r \<Rightarrow> False
      | R_DRW2D_DrawLines qs \<Rightarrow> False
      | R_DRW2D_DrawTriangles qs fl \<Rightarrow> False
      | R_DRW2D_FramebufferClear \<Rightarrow> False
      | R_DRW2D_FramebufferSet f \<Rightarrow> False
      | _ \<Rightarrow> True)"

lemma plain_same: "plain_call c \<Longrightarrow> same_icons L h (c # h)"
  by (auto simp: same_icons_def plain_call_def touches_def split: call.splits)

lemma untouched_same:
  assumes "\<And>i. i < 8 \<Longrightarrow> \<not> touches h c (corner L i)" and "\<And>f. c \<noteq> R_DRW2D_FramebufferSet f"
  shows "same_icons L h (c # h)"
  using assms by (auto simp: same_icons_def split: call.splits)

lemma same_icons_Cons: "same_icons L h h' \<Longrightarrow> plain_call c \<Longrightarrow> same_icons L h (c # h')"
  by (rule same_icons_trans [OF _ plain_same])

lemma report_eq: "\<exists>logs. report msg (r, s) = s\<lparr>calls := logs @ calls s\<rparr> \<and> (logs = [] \<or> logs = [R_PRINT_Log msg])"
  by (auto simp: report_def intro: exI [of _ "[]"] exI [of _ "[R_PRINT_Log msg]"])

lemma report_invoke_all:
  "\<exists>logs. report msg (invoke_all L cs r s) = s\<lparr>calls := logs @ rev cs @ calls s\<rparr>
     \<and> (logs = [] \<or> logs = [R_PRINT_Log msg])"
proof -
  have "invoke_all L cs r s = (fst (invoke_all L cs r s), s\<lparr>calls := rev cs @ calls s\<rparr>)"
    by (simp add: invoke_all_state [of L cs r s, symmetric])
  then show ?thesis
    using report_eq [of msg "fst (invoke_all L cs r s)" "s\<lparr>calls := rev cs @ calls s\<rparr>"] by simp
qed

lemma logs_same: "logs = [] \<or> logs = [R_PRINT_Log msg] \<Longrightarrow> same_icons L h (logs @ h)"
  by (auto intro!: plain_same simp: plain_call_def)

section \<open>Geometry\<close>

text \<open>
  The library converts a number that fits 16 integer bits to a fixed point number with 16 fractional
  bits, rounding in any direction.
\<close>

definition fixed_point :: "library \<Rightarrow> bool" where
  "fixed_point L \<longleftrightarrow> (\<forall>x. \<bar>x\<bar> \<le> 32767 \<longrightarrow> \<bar>of_int (R_DRW2D_2X L x) - x * 65536\<bar> \<le> 1)"

abbreviation short :: "int \<Rightarrow> bool" where
  "short n \<equiv> \<bar>n\<bar> \<le> 32767"

lemma fixed_int:
  assumes "fixed_point L" "short n"
  shows "n * 65536 - 1 \<le> R_DRW2D_2X L (of_int n)" "R_DRW2D_2X L (of_int n) \<le> n * 65536 + 1"
proof -
  have "\<bar>of_int n\<bar> \<le> (of_int 32767 :: rat)"
    using assms(2) unfolding of_int_abs [symmetric] of_int_le_iff .
  then have "\<bar>of_int (R_DRW2D_2X L (of_int n)) - of_int (n * 65536)\<bar> \<le> (of_int 1 :: rat)"
    using assms(1) by (simp add: fixed_point_def)
  then have "\<bar>R_DRW2D_2X L (of_int n) - n * 65536\<bar> \<le> 1"
    unfolding of_int_diff [symmetric] of_int_abs [symmetric] of_int_le_iff .
  then show "n * 65536 - 1 \<le> R_DRW2D_2X L (of_int n)" "R_DRW2D_2X L (of_int n) \<le> n * 65536 + 1"
    by linarith+
qed

lemma inside_int:
  assumes "fixed_point L" "short X" "short Y" "short W" "short H"
  shows "X < x \<and> x < X + W \<and> Y < y \<and> y < Y + H \<Longrightarrow> short x \<Longrightarrow> short y \<Longrightarrow>
      inside (demo_int2rect L X Y W H) (R_DRW2D_2X L (of_int x), R_DRW2D_2X L (of_int y))"
    and "0 < W \<and> 0 < H \<Longrightarrow> inside (demo_int2rect L X Y W H) (R_DRW2D_2X L (of_int X), R_DRW2D_2X L (of_int Y))"
    and "x < X \<or> X + W < x \<or> y < Y \<or> Y + H < y \<Longrightarrow> short x \<Longrightarrow> short y \<Longrightarrow>
      \<not> inside (demo_int2rect L X Y W H) (R_DRW2D_2X L (of_int x), R_DRW2D_2X L (of_int y))"
  using fixed_int [OF assms(1), of x] fixed_int [OF assms(1), of y] fixed_int [OF assms(1,2)] fixed_int [OF assms(1,3)]
    fixed_int [OF assms(1,4)] fixed_int [OF assms(1,5)]
  by (auto simp: inside_def demo_int2rect_def)

lemma icon_positions:
  assumes "i < 8"
  shows "68 \<le> PosX (locElement ! i) \<and> PosX (locElement ! i) \<le> 514
    \<and> (18 \<le> PosY (locElement ! i) \<and> PosY (locElement ! i) \<le> 113 \<or> 652 \<le> PosY (locElement ! i) \<and> PosY (locElement ! i) \<le> 659)"
proof -
  have "list_all (\<lambda>e. 68 \<le> PosX e \<and> PosX e \<le> 514 \<and> (18 \<le> PosY e \<and> PosY e \<le> 113 \<or> 652 \<le> PosY e \<and> PosY e \<le> 659)) (take 8 locElement)"
    by (simp add: locElement_def)
  moreover have "locElement ! i = take 8 locElement ! i"
    using assms by simp
  moreover have "i < length (take 8 locElement)"
    using assms by (simp add: locElement_def)
  ultimately show ?thesis
    unfolding list_all_length by metis
qed

lemma background_covers:
  "fixed_point L \<Longrightarrow> i < 8 \<Longrightarrow> inside (demo_int2rect L 0 0 1920 720) (corner L i)"
  unfolding corner_def using icon_positions [of i] by (intro inside_int(1)) auto

lemma fuel_area_misses:
  "fixed_point L \<Longrightarrow> i < 8 \<Longrightarrow>
    \<not> inside (demo_int2rect L LOC_FGAUGE_POSX LOC_FGAUGE_POSY LOC_FGAUGE_WIDTH LOC_FGAUGE_HEIGHT) (corner L i)"
  unfolding corner_def using icon_positions [of i] by (intro inside_int(3)) auto

text \<open>Lines and triangles in the middle of the screen do not reach an icon.\<close>

lemma box_misses:
  assumes "fixed_point L" "i < 8" "\<forall>q \<in> set qs. 115 * 65536 \<le> pt_Y q - w \<and> pt_Y q + w \<le> 650 * 65536"
  shows "\<not> in_box w qs (corner L i)"
proof
  assume "in_box w qs (corner L i)"
  then obtain q q' where "q \<in> set qs" "pt_Y q - w \<le> snd (corner L i)" "q' \<in> set qs" "snd (corner L i) \<le> pt_Y q' + w"
    unfolding in_box_def by blast
  then have "115 * 65536 \<le> snd (corner L i)" "snd (corner L i) \<le> 650 * 65536"
    using assms(3) by (meson order.trans)+
  then show False
    using icon_positions [OF assms(2)] fixed_int [OF assms(1), of "PosY (locElement ! i)"] unfolding corner_def by auto
qed

lemma to_point_middle:
  assumes "fixed_point L" "142 \<le> y" "y \<le> 600" "0 \<le> w" "w \<le> 26 * 65536 + 1"
  shows "115 * 65536 \<le> pt_Y (to_point L x y) - w \<and> pt_Y (to_point L x y) + w \<le> 650 * 65536"
proof -
  have "\<bar>of_int (R_DRW2D_2X L y) - y * 65536\<bar> \<le> 1"
    using assms(1-3) by (simp add: fixed_point_def abs_le_iff)
  then have "(of_int (142 * 65536 - 1) :: rat) \<le> of_int (R_DRW2D_2X L y)" "of_int (R_DRW2D_2X L y) \<le> (of_int (600 * 65536 + 1) :: rat)"
    using assms(2,3) by (simp_all add: abs_le_iff)
  then have "142 * 65536 - 1 \<le> R_DRW2D_2X L y" "R_DRW2D_2X L y \<le> 600 * 65536 + 1"
    unfolding of_int_le_iff .
  then show ?thesis
    using assms(4,5) by (simp add: to_point_def)
qed

section \<open>The background\<close>

abbreviation bg_pixels :: "'d gfx \<Rightarrow> ptr" where
  "bg_pixels g \<equiv> Addr (pixels_at g ClusterBackGround)"

lemma background_calls:
  assumes "ready (images s) ClusterBackGround"
  shows "\<exists>logs h. locBackGroundRestore L X Y W H s = Inr (s\<lparr>calls := logs @ R_DRW2D_DrawRect (demo_int2rect L X Y W H) # h\<rparr>)
    \<and> (logs = [] \<or> logs = [R_PRINT_Log ''error BG restore'']) \<and> same_icons L (calls s) h \<and> texture h = Some (bg_pixels (images s))"
proof -
  let ?cs = "[R_DRW2D_CtxIdentity, R_DRW2D_CtxTextureSet 0 (texture_of (images s) ClusterBackGround []),
    R_DRW2D_CtxBlendMode R_DRW2D_BLENDMODE_SRC, R_DRW2D_CtxFillMode R_DRW2D_FILLMODE_TEXTURE,
    R_DRW2D_DrawRect (demo_int2rect L X Y W H)]"
  obtain logs where "report ''error BG restore'' (invoke_all L ?cs 0 s) = s\<lparr>calls := logs @ rev ?cs @ calls s\<rparr>"
    "logs = [] \<or> logs = [R_PRINT_Log ''error BG restore'']"
    using report_invoke_all by blast
  then show ?thesis
    by (intro exI [of _ logs] exI [of _ "rev (butlast ?cs) @ calls s"])
      (simp add: locBackGroundRestore_def demo_img2tex_ready [OF assms] same_icons_Cons plain_call_def texture_of_def image_buffer_def)
qed

lemma background_same:
  assumes "ready (images s) ClusterBackGround" "\<And>i. i < 8 \<Longrightarrow> \<not> inside (demo_int2rect L X Y W H) (corner L i)"
  shows "\<exists>h. locBackGroundRestore L X Y W H s = Inr (s\<lparr>calls := h\<rparr>) \<and> same_icons L (calls s) h"
proof -
  obtain logs h where h: "locBackGroundRestore L X Y W H s = Inr (s\<lparr>calls := logs @ R_DRW2D_DrawRect (demo_int2rect L X Y W H) # h\<rparr>)"
    "logs = [] \<or> logs = [R_PRINT_Log ''error BG restore'']" "same_icons L (calls s) h"
    using background_calls [OF assms(1)] by blast
  have "same_icons L h (R_DRW2D_DrawRect (demo_int2rect L X Y W H) # h)"
    using assms(2) by (intro untouched_same) (simp_all add: touches_def)
  then have "same_icons L (calls s) (logs @ R_DRW2D_DrawRect (demo_int2rect L X Y W H) # h)"
    by (rule same_icons_trans [OF same_icons_trans [OF h(3)] logs_same [OF h(2)]])
  then show ?thesis
    using h(1) by blast
qed

text \<open>After the whole background is drawn, every icon's corner of the current frame buffer shows it.\<close>

definition icons_show :: "library \<Rightarrow> call list \<Rightarrow> call list \<Rightarrow> (nat \<Rightarrow> ptr option) \<Rightarrow> bool" where
  "icons_show L h h' f \<longleftrightarrow>
     target h' = target h
     \<and> (\<forall>b. \<forall>i < 8. shown h' b (corner L i) = (if target h = Some b then f i else shown h b (corner L i)))"

lemma icons_show_same: "icons_show L h h' f \<Longrightarrow> same_icons L h' h'' \<Longrightarrow> icons_show L h h'' f"
  unfolding icons_show_def same_icons_def by simp

lemma same_icons_show: "same_icons L h h' \<Longrightarrow> icons_show L h' h'' f \<Longrightarrow> icons_show L h h'' f"
  unfolding icons_show_def same_icons_def by simp

lemma background_full:
  assumes "ready (images s) ClusterBackGround" "fixed_point L"
  shows "\<exists>h. locBackGroundRestore L 0 0 1920 720 s = Inr (s\<lparr>calls := h\<rparr>)
    \<and> icons_show L (calls s) h (\<lambda>i. Some (bg_pixels (images s)))"
proof -
  let ?r = "demo_int2rect L 0 0 1920 720"
  obtain logs h where h: "locBackGroundRestore L 0 0 1920 720 s = Inr (s\<lparr>calls := logs @ R_DRW2D_DrawRect ?r # h\<rparr>)"
    "logs = [] \<or> logs = [R_PRINT_Log ''error BG restore'']" "same_icons L (calls s) h" "texture h = Some (bg_pixels (images s))"
    using background_calls [OF assms(1)] by blast
  then have "icons_show L (calls s) (R_DRW2D_DrawRect ?r # h) (\<lambda>i. Some (bg_pixels (images s)))"
    unfolding icons_show_def same_icons_def by (simp add: touches_def paint_def background_covers [OF assms(2)])
  then have "icons_show L (calls s) (logs @ R_DRW2D_DrawRect ?r # h) (\<lambda>i. Some (bg_pixels (images s)))"
    using logs_same [OF h(2)] by (rule icons_show_same)
  then show ?thesis
    using h(1) by blast
qed

section \<open>Needle and fuel pointer\<close>

lemma invoke_all_pair: "\<exists>ret. invoke_all L cs r s = (ret, s\<lparr>calls := rev cs @ calls s\<rparr>)"
  by (metis invoke_all_state prod.collapse)

lemma lookup_total:
  assumes "\<bar>a\<bar> \<le> 400"
  obtains s c where "sinfCl (LOC_DEGREE a) = Inr s" "\<bar>s\<bar> \<le> 101 / 100" "cosfCl (LOC_DEGREE a) = Inr c" "\<bar>c\<bar> \<le> 101 / 100"
proof -
  obtain i where i: "i < 8192" "RadToId (LOC_DEGREE a) = Inr i"
    using RadToId_ok [OF assms] by blast
  have "\<bar>f32 (table_sin i)\<bar> \<le> 101 / 100" "\<bar>f32 (table_cos i)\<bar> \<le> 101 / 100"
    using table_bounded [OF i(1)] table_value [OF entries_bounded(1) [OF i(1)]] table_value [OF entries_bounded(2) [OF i(1)]]
    unfolding table_sin_def table_cos_def by linarith+
  then show ?thesis
    by (intro that [of "f32 (table_sin i)" "f32 (table_cos i)"])
      (simp_all add: sinfCl_def cosfCl_def i table_sin_def table_cos_def)
qed

text \<open>A coordinate at most 217 pixels, the length of the needle, from the middle.\<close>

lemma needle_offset: "\<bar>m\<bar> \<le> 101 / 100 \<Longrightarrow> \<bar>f64 (m * 217)\<bar> \<le> 2193 / 10"
proof -
  assume "\<bar>m\<bar> \<le> 101 / 100"
  then have "\<bar>m * 217\<bar> \<le> 219 + 2 / 10"
    by linarith
  moreover from this have "\<bar>f64 (m * 217) - m * 217\<bar> \<le> 1 / 32768"
    by (intro f64_1024) linarith
  ultimately show ?thesis
    by linarith
qed

lemma reach:
  assumes "\<bar>v\<bar> \<le> 2193 / 10" "0 \<le> b" "b \<le> 400"
  shows "\<bar>f64 (b + v) - b\<bar> \<le> 220"
proof -
  have "\<bar>f64 (b + v) - (b + v)\<bar> \<le> 1 / 32768"
    using assms by (intro f64_1024) linarith
  then show ?thesis
    using assms(1) by linarith
qed

lemma needle_width: "fixed_point L \<Longrightarrow> 0 \<le> R_DRW2D_2X L 26 \<and> R_DRW2D_2X L 26 \<le> 26 * 65536 + 1"
  using fixed_int [of L 26] by simp

lemma lines_same:
  assumes "fixed_point L" "line_width h = R_DRW2D_2X L 26" "142 \<le> y" "y \<le> 600" "142 \<le> y'" "y' \<le> 600"
  shows "same_icons L h (R_DRW2D_DrawLines [to_point L x y, to_point L x' y'] # h)"
  using box_misses [OF assms(1)] to_point_middle [OF assms(1)] needle_width [OF assms(1)] assms(2-)
  by (intro untouched_same) (simp_all add: touches_def)

lemma speed_restore_same:
  assumes "fixed_point L" "ready (images s) ClusterBackGround" "\<bar>LastAngleNeedle (NeedleSpeed s) ! 0\<bar> \<le> 400"
  shows "\<exists>h. locNeedleSpeedRestore L s = Inr (s\<lparr>calls := h\<rparr>) \<and> same_icons L (calls s) h"
proof -
  let ?a = "LastAngleNeedle (NeedleSpeed s) ! 0"
  obtain sn c where sc: "sinfCl (LOC_DEGREE ?a) = Inr sn" "\<bar>sn\<bar> \<le> 101 / 100" "cosfCl (LOC_DEGREE ?a) = Inr c"
    using lookup_total [OF assms(3)] by blast
  define x where "x = f64 (346 + f64 (c * 217))"
  define y where "y = f64 (364 - f64 (sn * 217))"
  have y: "142 \<le> y" "y \<le> 600"
    using reach [of "- f64 (sn * 217)" 364] needle_offset [OF sc(2)] unfolding y_def by simp_all
  let ?cs = "[R_DRW2D_CtxIdentity, R_DRW2D_CtxTextureSet 0 (texture_of (images s) ClusterBackGround []),
      R_DRW2D_CtxBlendMode R_DRW2D_BLENDMODE_SRC, R_DRW2D_CtxFillMode R_DRW2D_FILLMODE_TEXTURE,
      R_DRW2D_CtxLineStyle \<lparr>ls_LineJoin = R_DRW2D_LINEJOIN_NONE, ls_LineCap = R_DRW2D_LINECAP_SQUARE,
        ls_Width = R_DRW2D_2X L 26, ls_MiterLimit = R_DRW2D_2X L 20, ls_IsClosed = True\<rparr>]"
  let ?h1 = "rev ?cs @ calls s"
  obtain ret where r: "invoke_all L ?cs 0 s = (ret, s\<lparr>calls := ?h1\<rparr>)"
    using invoke_all_pair by blast
  obtain l1 where l1: "report ''error needle restore'' (ret, s\<lparr>calls := ?h1\<rparr>) = s\<lparr>calls := l1 @ ?h1\<rparr>"
    "l1 = [] \<or> l1 = [R_PRINT_Log ''error needle restore'']"
    using report_eq [of _ ret "s\<lparr>calls := ?h1\<rparr>"] by auto
  let ?ds = "[R_DRW2D_DrawLines [to_point L 346 364, to_point L x y], R_DRW2D_CtxFillMode R_DRW2D_FILLMODE_TEXTURE]"
  obtain l2 where l2: "report ''error needle 2 restore'' (invoke_all L ?ds ret (s\<lparr>calls := l1 @ ?h1\<rparr>))
      = s\<lparr>calls := l2 @ rev ?ds @ l1 @ ?h1\<rparr>" "l2 = [] \<or> l2 = [R_PRINT_Log ''error needle 2 restore'']"
    using report_invoke_all [of _ L ?ds ret "s\<lparr>calls := l1 @ ?h1\<rparr>"] by auto
  have "locNeedleSpeedRestore L s = Inr (s\<lparr>calls := l2 @ rev ?ds @ l1 @ ?h1\<rparr>)"
    using r l1(1) l2(1)
    by (simp add: locNeedleSpeedRestore_def locNeedleBackgroundRestore_def sc demo_img2tex_ready [OF assms(2)]
        x_def [symmetric] y_def [symmetric] Let_def ClusterNeedle_def del: invoke_all.simps)
  moreover have "same_icons L (calls s) (l1 @ ?h1)"
    by (rule same_icons_trans [OF _ logs_same [OF l1(2)]]) (simp add: same_icons_Cons plain_call_def)
  moreover have "line_width (l1 @ ?h1) = R_DRW2D_2X L 26"
    using l1(2) by auto
  then have "same_icons L (l1 @ ?h1) (R_DRW2D_DrawLines [to_point L 346 364, to_point L x y] # l1 @ ?h1)"
    using y by (intro lines_same [OF assms(1)]) simp_all
  then have "same_icons L (l1 @ ?h1) (rev ?ds @ l1 @ ?h1)"
    by (simp add: same_icons_Cons plain_call_def)
  then have "same_icons L (l1 @ ?h1) (l2 @ rev ?ds @ l1 @ ?h1)"
    by (rule same_icons_trans [OF _ logs_same [OF l2(2)]])
  ultimately show ?thesis
    using same_icons_trans by blast
qed

text \<open>The C library's sine and cosine do not exceed one.\<close>

definition trig_ok :: "library \<Rightarrow> bool" where
  "trig_ok L \<longleftrightarrow> (\<forall>x. \<bar>lib_sin L x\<bar> \<le> 1 \<and> \<bar>lib_cos L x\<bar> \<le> 1)"

lemma to_uint32_ok: "0 \<le> x \<Longrightarrow> x < 4294967296 \<Longrightarrow> to_uint32 x = Inr \<lfloor>x\<rfloor>"
  by (simp add: to_uint32_def truncate_floor floor_less_iff)

lemma needle_tip_ok:
  assumes "trig_ok L"
  obtains x y where "needle_tip L ClusterNeedle 346 364 a = Inr (x, y)" "144 \<le> y" "y \<le> 584"
proof -
  let ?a = "f64 (f64 (a * M_PI) / 180)"
  have "\<bar>lib_cos L ?a\<bar> \<le> 1" "\<bar>lib_sin L ?a\<bar> \<le> 1"
    using assms unfolding trig_ok_def by blast+
  moreover from this have "\<bar>f64 (lib_cos L ?a) - lib_cos L ?a\<bar> \<le> 1 / 131072"
    "\<bar>f64 (lib_sin L ?a) - lib_sin L ?a\<bar> \<le> 1 / 131072"
    by (intro f64_speed; linarith)+
  ultimately have "\<bar>f64 (lib_cos L ?a)\<bar> \<le> 101 / 100" "\<bar>- f64 (lib_sin L ?a)\<bar> \<le> 101 / 100"
    by linarith+
  note o = this [THEN needle_offset]
  define x where "x = f64 (f64 (f64 (lib_cos L ?a) * 217) + 346)"
  define y where "y = f64 (f64 (- f64 (lib_sin L ?a) * 217) + 364)"
  have x: "\<bar>x - 346\<bar> \<le> 220" and y: "\<bar>y - 364\<bar> \<le> 220"
    unfolding x_def y_def using reach [OF o(1), of 346] reach [OF o(2), of 364] by (simp_all add: add.commute)
  have "to_uint32 x = Inr \<lfloor>x\<rfloor>" "to_uint32 y = Inr \<lfloor>y\<rfloor>"
    using x y by (intro to_uint32_ok; linarith)+
  then have "needle_tip L ClusterNeedle 346 364 a = Inr (\<lfloor>x\<rfloor>, \<lfloor>y\<rfloor>)"
    by (simp add: needle_tip_def x_def y_def ClusterNeedle_def Let_def)
  moreover have "144 \<le> \<lfloor>y\<rfloor>" "\<lfloor>y\<rfloor> \<le> 584"
    using y by (simp_all add: le_floor_iff floor_le_iff abs_le_iff)
  ultimately show ?thesis
    by (rule that)
qed

definition next_speed :: "'d screen \<Rightarrow> GclNeedle_t" where
  "next_speed s =
     locSetNextNeedlePosition (locFilterGauge (CurrentAngleNeedle (NeedleSpeed s)) (locConvertSpeed2Angle (Speed (car s))))
       (NeedleSpeed s)"

lemma speed_render_same:
  assumes "fixed_point L" "trig_ok L" "ready (images s) ClusterNeedle"
  shows "\<exists>h. locNeedleSpeedRender L s = Inr (s\<lparr>NeedleSpeed := next_speed s, calls := h\<rparr>) \<and> same_icons L (calls s) h"
proof -
  let ?a = "CurrentAngleNeedle (next_speed s)"
  obtain x y where t: "needle_tip L ClusterNeedle 346 364 ?a = Inr (x, y)" "144 \<le> y" "y \<le> 584"
    using needle_tip_ok [OF assms(2)] by blast
  let ?t = "texture_of (images s) ClusterNeedle [R_DRW2D_TEX_PERSPECTIVE, R_DRW2D_TEX_BILINEAR]"
  let ?cs = "[R_DRW2D_CtxTextureSet 0 ?t, R_DRW2D_CtxFillMode R_DRW2D_FILLMODE_TEXTURE,
      R_DRW2D_CtxBlendMode R_DRW2D_BLENDMODE_CUSTOM,
      R_DRW2D_CtxBlendFactors R_DRW2D_BLEND_ONE R_DRW2D_BLEND_ONE_MINUS_SRC_ALPHA R_DRW2D_BLEND_ZERO R_DRW2D_BLEND_ONE,
      R_DRW2D_CtxLineStyle \<lparr>ls_LineJoin = R_DRW2D_LINEJOIN_NONE, ls_LineCap = R_DRW2D_LINECAP_BUTT,
        ls_Width = R_DRW2D_2X L 26, ls_MiterLimit = R_DRW2D_2X L 1, ls_IsClosed = False\<rparr>]"
  let ?d = "R_DRW2D_DrawLines [to_point L (of_int x) (of_int y), to_point L 346 364]"
  let ?s = "s\<lparr>NeedleSpeed := next_speed s\<rparr>"
  obtain logs where l: "report ''error render needle'' (invoke_all L (?cs @ [?d]) 0 ?s) = ?s\<lparr>calls := logs @ ?d # rev ?cs @ calls s\<rparr>"
    "logs = [] \<or> logs = [R_PRINT_Log ''error render needle'']"
    using report_invoke_all [of _ L "?cs @ [?d]" 0 ?s] by auto
  have r: "ready (images ?s) ClusterNeedle"
    using assms(3) by simp
  have "locNeedleSpeedRender L s = Inr (s\<lparr>NeedleSpeed := next_speed s, calls := logs @ ?d # rev ?cs @ calls s\<rparr>)"
    using l(1) t(1) demo_img2tex_ready [OF r]
    by (simp add: locNeedleSpeedRender_def locRenderGlasNeedle_def locRenderNeedle_def next_speed_def CarModelSpeedGet_def
        ClusterNeedle_def Let_def del: invoke_all.simps)
  moreover have "same_icons L (calls s) (rev ?cs @ calls s)"
    by (simp add: same_icons_Cons plain_call_def)
  moreover have "same_icons L (rev ?cs @ calls s) (?d # rev ?cs @ calls s)"
  proof -
    have "(142 :: rat) \<le> of_int y" "of_int y \<le> (600 :: rat)"
      using t(2,3) by linarith+
    then show ?thesis
      by (intro lines_same [OF assms(1)]) simp_all
  qed
  ultimately show ?thesis
    using logs_same [OF l(2)] same_icons_trans by blast
qed

definition next_fuel :: "'d screen \<Rightarrow> rat" where
  "next_fuel s =
     (let new_angle = locConvertFuel2Angle (FuelLevel (car s))
      in if fuel_angle s < 0 then new_angle else locFilterGauge (fuel_angle s) new_angle)"

lemma fuel_triangle:
  assumes "155 \<le> a" "a \<le> 211"
  obtains ps where "triangle_corners LOC_FUEL_CENTERX LOC_FUEL_CENTERY LOC_FUEL_SIZE LOC_FUEL_TRISIZE a = Inr ps"
    and "\<forall>p \<in> set ps. 142 \<le> snd p \<and> snd p \<le> 600"
proof -
  have "150 \<le> a"
    using assms by simp
  then obtain i j k ps where i: "indexed a i" and j: "indexed (a + 30) j" and k: "indexed (a - 30) k"
    and ps: "triangle_corners LOC_FUEL_CENTERX LOC_FUEL_CENTERY LOC_FUEL_SIZE LOC_FUEL_TRISIZE a = Inr ps"
    and n: "list_all2 near ps
      (let x = 378 + 375 * table_cos i; y = 360 - 375 * table_sin i
       in [(x, y), (x - 30 * table_cos j, y + 30 * table_sin j), (x - 30 * table_cos k, y + 30 * table_sin k)])"
    using assms(2) by (rule fuel_corners)
  have "3526 \<le> i" "i \<le> 4801"
    using assms by (intro indexed_le [OF i] indexed_ge [OF i]; simp add: distrib_right left_diff_distrib)+
  then have "table_sin 4801 \<le> table_sin i" "table_sin i \<le> table_sin 3526"
    by (intro table_sin_mono; simp)+
  moreover have "\<bar>table_sin j\<bar> \<le> 1000001 / 1000000" "\<bar>table_sin k\<bar> \<le> 1000001 / 1000000"
    using j k unfolding indexed_def by (blast intro: table_bounded)+
  ultimately have y: "201 \<le> 360 - 375 * table_sin i" "360 - 375 * table_sin i \<le> 554"
    "- 31 \<le> 30 * table_sin j" "30 * table_sin j \<le> 31" "- 31 \<le> 30 * table_sin k" "30 * table_sin k \<le> 31"
    by (simp_all add: table_sin_values abs_le_iff)
  have *: "142 \<le> snd p \<and> snd p \<le> 600" if "near p (u, v)" "160 \<le> v" "v \<le> 590" for p u v
    using that unfolding near_def snd_conv by linarith
  show ?thesis
  proof (rule that [OF ps])
    show "\<forall>p \<in> set ps. 142 \<le> snd p \<and> snd p \<le> 600"
      using n y unfolding Let_def list_all2_Cons2 by (auto dest!: *)
  qed
qed

lemma fuel_same:
  assumes "fixed_point L" "155 \<le> next_fuel s" "next_fuel s \<le> 211"
  shows "\<exists>h. locFuelRender L s = Inr (s\<lparr>fuel_angle := next_fuel s, calls := h\<rparr>) \<and> same_icons L (calls s) h"
proof -
  obtain ps where ps: "triangle_corners LOC_FUEL_CENTERX LOC_FUEL_CENTERY LOC_FUEL_SIZE LOC_FUEL_TRISIZE (next_fuel s) = Inr ps"
    "\<forall>p \<in> set ps. 142 \<le> snd p \<and> snd p \<le> 600"
    using fuel_triangle [OF assms(2,3)] by blast
  let ?c = "fuel_color (FuelLevel (car s))"
  let ?cs = "[R_DRW2D_CtxFgColor ?c, R_DRW2D_CtxBgColor ?c, R_DRW2D_CtxFillMode R_DRW2D_FILLMODE_SOLID]"
  let ?d = "R_DRW2D_DrawTriangles (map (\<lambda>(x, y). to_point L x y) ps) [R_DRW2D_EDGE_AB, R_DRW2D_EDGE_BC, R_DRW2D_EDGE_CA]"
  let ?e = "R_DRW2D_CtxFillMode R_DRW2D_FILLMODE_TEXTURE"
  let ?s = "s\<lparr>fuel_angle := next_fuel s\<rparr>"
  obtain logs where l: "report ''error render triangle'' (invoke_all L (?cs @ [?d, ?e]) 0 ?s)
      = ?s\<lparr>calls := logs @ ?e # ?d # rev ?cs @ calls s\<rparr>" "logs = [] \<or> logs = [R_PRINT_Log ''error render triangle'']"
    using report_invoke_all [of _ L "?cs @ [?d, ?e]" 0 ?s] by auto
  have "locFuelRender L s = Inr (s\<lparr>fuel_angle := next_fuel s, calls := logs @ ?e # ?d # rev ?cs @ calls s\<rparr>)"
    using l(1) ps(1) by (simp add: locFuelRender_def locRenderTrianglePointer_def next_fuel_def CarModelFuelLevelGet_def Let_def
        del: invoke_all.simps)
  moreover have 1: "same_icons L (calls s) (rev ?cs @ calls s)"
    by (simp add: same_icons_Cons plain_call_def)
  have 2: "same_icons L (rev ?cs @ calls s) (?d # rev ?cs @ calls s)"
  proof (rule untouched_same)
    have m: "\<forall>q \<in> set (map (\<lambda>(x, y). to_point L x y) ps). 115 * 65536 \<le> pt_Y q - 0 \<and> pt_Y q + 0 \<le> 650 * 65536"
    proof
      fix q
      assume "q \<in> set (map (\<lambda>(x, y). to_point L x y) ps)"
      then obtain p where p: "p \<in> set ps" "q = to_point L (fst p) (snd p)"
        by auto
      show "115 * 65536 \<le> pt_Y q - 0 \<and> pt_Y q + 0 \<le> 650 * 65536"
        unfolding p(2) using ps(2) p(1) by (intro to_point_middle [OF assms(1)]) simp_all
    qed
    show "\<not> touches h ?d (corner L i)" if "i < 8" for h i
      using box_misses [OF assms(1) that m] by (simp add: touches_def)
  qed simp
  have "same_icons L (calls s) (?e # ?d # rev ?cs @ calls s)"
    by (rule same_icons_Cons [OF same_icons_trans [OF 1 2]]) (simp add: plain_call_def)
  then have "same_icons L (calls s) (logs @ ?e # ?d # rev ?cs @ calls s)"
    by (rule same_icons_trans [OF _ logs_same [OF l(2)]])
  ultimately show ?thesis
    by blast
qed

end
