(* ===== verification/Icons.thy ===== *)
theory Icons
  imports Picture
begin

text \<open>
  The icons of the gauge screen. The table \<^verbatim>\<open>locElementOldStatus\<close> that decides which icons are drawn
  again agrees with the picture: the corner of an icon shows the icon in the state that the
  table records, and that state is the one the car model asks for, except that two of the icons may
  lag behind when many others change in the same frame.
\<close>

section \<open>Images of an icon\<close>

definition icon_image :: "nat \<Rightarrow> bool \<Rightarrow> Img_t" where
  "icon_image i on = the (if on then OnImg (locElement ! i) else OffImg (locElement ! i))"

definition icon_pixels :: "'d gfx \<Rightarrow> nat \<Rightarrow> u8 \<Rightarrow> ptr" where
  "icon_pixels g i st = Addr (pixels_at g (icon_image i (st \<noteq> 0)))"

definition images_ready :: "'d gfx \<Rightarrow> bool" where
  "images_ready g \<longleftrightarrow>
     ready g ClusterBackGround \<and> ready g ClusterNeedle \<and> (\<forall>i < LOC_ELEMENT_NUM. \<forall>on. ready g (icon_image i on))"

text \<open>A statement on the table's entries holds if it holds for each of them.\<close>

lemma all_elements: "(\<forall>i < 9. P i) \<longleftrightarrow> P 0 \<and> P 1 \<and> P 2 \<and> P 3 \<and> P 4 \<and> P 5 \<and> P 6 \<and> P 7 \<and> P (8 :: nat)"
  by (simp add: All_less_Suc numeral_eq_Suc) (simp add: conj_ac)

lemma all_icons: "(\<forall>i < 8. P i) \<longleftrightarrow> P 0 \<and> P 1 \<and> P 2 \<and> P 3 \<and> P 4 \<and> P 5 \<and> P 6 \<and> P (7 :: nat)"
  by (simp add: All_less_Suc numeral_eq_Suc) (simp add: conj_ac)

lemma element_images:
  "\<forall>i < 9. OnImg (locElement ! i) = Some (icon_image i True) \<and> OffImg (locElement ! i) = Some (icon_image i False)"
  unfolding all_elements by (simp add: locElement_def icon_image_def)

lemmas icon_sizes = image_defs locElement_def icon_image_def

lemma icon_nonempty:
  "\<forall>i < 8. \<forall>on. 0 < uint (Width (icon_image i on)) \<and> uint (Width (icon_image i on)) \<le> 200
     \<and> 0 < uint (Height (icon_image i on)) \<and> uint (Height (icon_image i on)) \<le> 200"
  unfolding all_icons all_bool_eq by (simp add: icon_sizes)

definition separate :: "nat \<Rightarrow> Img_t \<Rightarrow> nat \<Rightarrow> bool" where
  "separate i img j \<longleftrightarrow>
     (let e = locElement ! i; e' = locElement ! j
      in PosX e' < PosX e \<or> PosX e + uint (Width img) < PosX e' \<or> PosY e' < PosY e \<or> PosY e + uint (Height img) < PosY e')"

lemma icons_separate: "\<forall>i < 8. \<forall>on. \<forall>j < 8. j \<noteq> i \<longrightarrow> separate i (icon_image i on) j"
  unfolding all_icons all_bool_eq by (simp add: separate_def Let_def icon_sizes)

lemma icon_blit:
  assumes "fixed_point L" "i < 8" "j < 8"
  shows "inside (image_rect L (PosX (locElement ! i)) (PosY (locElement ! i)) (icon_image i on)) (corner L j) \<longleftrightarrow> j = i"
proof -
  have p: "short (PosX (locElement ! k))" "short (PosY (locElement ! k))" if "k < 8" for k
    using icon_positions [OF that] by auto
  have w: "short (uint (Width (icon_image i on)))" "short (uint (Height (icon_image i on)))"
    "0 < uint (Width (icon_image i on)) \<and> 0 < uint (Height (icon_image i on))"
    using icon_nonempty assms(2) by (smt (verit))+
  note rect = inside_int [OF assms(1) p(1) [OF assms(2)] p(2) [OF assms(2)] w(1,2)]
  show ?thesis
  proof (cases "j = i")
    case True
    then show ?thesis
      using rect(2) [OF w(3)] unfolding image_rect_def corner_def by simp
  next
    case False
    then have "separate i (icon_image i on) j"
      using icons_separate assms by blast
    then show ?thesis
      using False rect(3) [OF _ p(1) [OF assms(3)] p(2) [OF assms(3)]]
      unfolding separate_def Let_def image_rect_def corner_def by blast
  qed
qed

section \<open>Drawing one icon\<close>

text \<open>Only the icon's own corner of the current frame buffer changes.\<close>

definition icon_set :: "library \<Rightarrow> call list \<Rightarrow> call list \<Rightarrow> nat \<Rightarrow> ptr \<Rightarrow> bool" where
  "icon_set L h h' i v \<longleftrightarrow>
     target h' = target h
     \<and> (\<forall>b. \<forall>j < 8. shown h' b (corner L j) = (if j = i \<and> target h = Some b then Some v else shown h b (corner L j)))"

lemma draw_element_icon:
  assumes "fixed_point L" "i < 8" "ready (images s) (icon_image i on)"
  shows "\<exists>h. draw_element L (locElement ! i) (icon_image i on) s = Inr (s\<lparr>calls := h\<rparr>)
    \<and> icon_set L (calls s) h i (Addr (pixels_at (images s) (icon_image i on)))"
proof -
  let ?I = "icon_image i on"
  let ?t = "R_DRW2D_CtxTextureSet 0 (texture_of (images s) ?I [])"
  let ?d = "R_DRW2D_TextureBlit None (image_rect L (PosX (locElement ! i)) (PosY (locElement ! i)) ?I)"
  obtain logs where l: "report ''error render elements'' (invoke_all L [?t, ?d] 0 s) = s\<lparr>calls := logs @ ?d # ?t # calls s\<rparr>"
    "logs = [] \<or> logs = [R_PRINT_Log ''error render elements'']"
    using report_invoke_all [of _ L "[?t, ?d]" 0 s] by auto
  have "icon_set L (calls s) (?d # ?t # calls s) i (Addr (pixels_at (images s) ?I))"
    unfolding icon_set_def using assms(2)
    by (simp add: touches_def paint_def icon_blit [OF assms(1,2)] texture_of_def image_buffer_def)
  then have "icon_set L (calls s) (logs @ ?d # ?t # calls s) i (Addr (pixels_at (images s) ?I))"
    using logs_same [OF l(2), of L "?d # ?t # calls s"] unfolding icon_set_def same_icons_def by simp
  then show ?thesis
    using l(1) by (intro exI [of _ "logs @ ?d # ?t # calls s"])
      (simp add: draw_element_def demo_img2tex_ready [OF assms(3)] del: invoke_all.simps)
qed

section \<open>The decision\<close>

text \<open>The status the car model and the flashing ask for, and the one recorded for the current buffer.\<close>

definition wanted :: "'d screen \<Rightarrow> nat \<Rightarrow> u8" where
  "wanted s i = snd (flash (locElement ! i) (on_counter s) (element_status (locElement ! i) (car s)))"

definition recorded :: "'d screen \<Rightarrow> nat \<Rightarrow> u8" where
  "recorded s i = locElementOldStatus s ! i ! buffer_index s"

lemma flash_image:
  assumes "i < 8"
  shows "flash (locElement ! i) n st
    = (Some (icon_image i (snd (flash (locElement ! i) n st) \<noteq> 0)), snd (flash (locElement ! i) n st))"
  using element_images assms by (auto simp: flash_def)

lemma draw_always: "i < 8 \<Longrightarrow> Flags (locElement ! i) AND LOC_ELFLAG_DRAW_ALWAYS \<noteq> 0 \<longleftrightarrow> i = 7"
proof -
  have "\<forall>i < 8. Flags (locElement ! i) AND LOC_ELFLAG_DRAW_ALWAYS \<noteq> 0 \<longleftrightarrow> i = 7"
    unfolding all_icons by (simp add: locElement_def)
  then show "i < 8 \<Longrightarrow> Flags (locElement ! i) AND LOC_ELFLAG_DRAW_ALWAYS \<noteq> 0 \<longleftrightarrow> i = 7"
    by blast
qed

lemma decide_first:
  assumes "i < 8" "locFrameCnt s < 2" "on_counter s \<le> 30"
  shows "decide_element s i u = (wanted s i, Some (icon_image i (wanted s i \<noteq> 0)))"
proof -
  let ?st = "element_status (locElement ! i) (car s)"
  have "\<not> 30 < on_counter s"
    using assms(3) by simp
  then have "wanted s i = ?st"
    by (simp add: wanted_def flash_def)
  moreover from this have "flash (locElement ! i) (on_counter s) ?st = (Some (icon_image i (?st \<noteq> 0)), ?st)"
    using flash_image [OF assms(1), of "on_counter s" ?st] by (simp add: wanted_def)
  ultimately show ?thesis
    using assms(2) by (simp add: decide_element_def Let_def)
qed

lemma decide_later:
  assumes "i < 8" "\<not> locFrameCnt s < 2"
  obtains "decide_element s i u = (wanted s i, Some (icon_image i (wanted s i \<noteq> 0)))"
  | "decide_element s i u = (recorded s i, None)" "wanted s i = recorded s i \<or> 4 < u \<and> i \<noteq> 7"
proof -
  let ?st = "element_status (locElement ! i) (car s)"
  have "flash (locElement ! i) (on_counter s) ?st = (Some (icon_image i (wanted s i \<noteq> 0)), wanted s i)"
    using flash_image [OF assms(1), of "on_counter s" ?st] by (simp add: wanted_def)
  then have d: "decide_element s i u =
      (if i = 7 \<or> wanted s i \<noteq> recorded s i then
         (if u \<le> 4 \<or> i = 7 then (wanted s i, Some (icon_image i (wanted s i \<noteq> 0))) else (recorded s i, None))
       else (wanted s i, None))"
    using assms draw_always [OF assms(1)] by (cases "i = 7") (simp_all add: decide_element_def recorded_def Let_def)
  show ?thesis
  proof (cases "i = 7 \<or> wanted s i \<noteq> recorded s i \<and> u \<le> 4")
    case True
    then show ?thesis
      by (intro that(1)) (auto simp: d)
  next
    case False
    then show ?thesis
      by (intro that(2)) (auto simp: d)
  qed
qed

section \<open>The loop\<close>

text \<open>The table has a row per icon with an entry per frame buffer.\<close>

definition table_ok :: "u8 list list \<Rightarrow> bool" where
  "table_ok st \<longleftrightarrow> length st = LOC_ELEMENT_NUM \<and> (\<forall>i < LOC_ELEMENT_NUM. length (st ! i) = 2)"

lemma buffer_index_less: "buffer_index s < 2"
proof -
  have "unat (locFrameCnt s mod 2) = unat (locFrameCnt s) mod 2"
    by (simp add: unat_mod)
  then show ?thesis
    by (simp add: buffer_index_def)
qed

text \<open>What the loop knows before it: the current buffer shows the recorded icons, but for the first two frames.\<close>

definition loop_start :: "library \<Rightarrow> ptr \<Rightarrow> 'd screen \<Rightarrow> bool" where
  "loop_start L b s \<longleftrightarrow>
     images_ready (images s) \<and> target (calls s) = Some b \<and> table_ok (locElementOldStatus s)
     \<and> (if locFrameCnt s < 2 then on_counter s \<le> 30
        else \<forall>i < 8. shown (calls s) b (corner L i) = Some (icon_pixels (images s) i (recorded s i)))"

text \<open>An icon whose table entry is \<open>v\<close> after the loop has come to \<open>n\<close>.\<close>

definition settled_icon :: "'d screen \<Rightarrow> nat \<Rightarrow> u8 \<Rightarrow> bool" where
  "settled_icon s i v \<longleftrightarrow> v = wanted s i \<or> \<not> locFrameCnt s < 2 \<and> v = recorded s i \<and> i \<in> {5, 6}"

definition loop_at :: "library \<Rightarrow> ptr \<Rightarrow> 'd screen \<Rightarrow> nat \<Rightarrow> u8 \<Rightarrow> call list \<Rightarrow> u8 list list \<Rightarrow> bool" where
  "loop_at L b s n u h st \<longleftrightarrow>
     unat u \<le> n \<and> target h = Some b \<and> length st = LOC_ELEMENT_NUM
     \<and> (\<forall>i < 8. \<forall>b'. b' \<noteq> b \<longrightarrow> shown h b' (corner L i) = shown (calls s) b' (corner L i))
     \<and> (\<forall>i < n. settled_icon s i (st ! i ! buffer_index s)
          \<and> st ! i = (locElementOldStatus s ! i)[buffer_index s := st ! i ! buffer_index s]
          \<and> shown h b (corner L i) = Some (icon_pixels (images s) i (st ! i ! buffer_index s)))
     \<and> (\<forall>i. n \<le> i \<longrightarrow> st ! i = locElementOldStatus s ! i)
     \<and> (\<forall>i < 8. n \<le> i \<longrightarrow> shown h b (corner L i) = shown (calls s) b (corner L i))"

lemma decide_same:
  "decide_element (s\<lparr>calls := h, locElementOldStatus := st\<rparr>) i u = decide_element s i u"
  if "st ! i = locElementOldStatus s ! i"
  using that by (simp add: decide_element_def buffer_index_def Let_def split: prod.split)

lemma settle:
  assumes "loop_start L b s" "n < 8" "unat u \<le> n"
  obtains st where "decide_element s n u = (st, Some (icon_image n (st \<noteq> 0)))" "settled_icon s n st"
  | st where "decide_element s n u = (st, None)" "settled_icon s n st"
      "shown (calls s) b (corner L n) = Some (icon_pixels (images s) n st)"
proof (cases "locFrameCnt s < 2")
  case True
  then have "on_counter s \<le> 30"
    using assms(1) by (simp add: loop_start_def)
  from that(1) [OF decide_first [OF assms(2) True this]] show ?thesis
    by (simp add: settled_icon_def)
next
  case False
  from assms(2) False show ?thesis
  proof (rule decide_later [where u = u])
    assume d: "decide_element s n u = (wanted s n, Some (icon_image n (wanted s n \<noteq> 0)))"
    from that(1) [OF d] show ?thesis
      by (simp add: settled_icon_def)
  next
    assume d: "decide_element s n u = (recorded s n, None)" and r: "wanted s n = recorded s n \<or> 4 < u \<and> n \<noteq> 7"
    have "n \<in> {5, 6}" if "4 < u" "n \<noteq> 7"
      using that assms(2,3) by (simp add: word_less_nat_alt) arith
    then have "settled_icon s n (recorded s n)"
      using r False by (auto simp: settled_icon_def)
    moreover have "shown (calls s) b (corner L n) = Some (icon_pixels (images s) n (recorded s n))"
      using assms(1,2) False by (simp add: loop_start_def)
    ultimately show ?thesis
      using that(2) [OF d] by blast
  qed
qed

lemma loop_step:
  assumes f: "fixed_point L" and s: "loop_start L b s" and n: "n < 8" and at: "loop_at L b s n u h st"
  shows "\<exists>u' h' st'. render_element L n (u, s\<lparr>calls := h, locElementOldStatus := st\<rparr>)
      = Inr (u', s\<lparr>calls := h', locElementOldStatus := st'\<rparr>) \<and> loop_at L b s (Suc n) u' h' st'"
proof -
  let ?s = "s\<lparr>calls := h, locElementOldStatus := st\<rparr>"
  let ?k = "buffer_index s"
  have st: "st ! n = locElementOldStatus s ! n" "length st = 9" and u: "unat u \<le> n" and h: "target h = Some b"
    using at by (simp_all add: loop_at_def)
  have k: "buffer_index ?s = ?k" "?k < length (st ! n)"
    using s n st buffer_index_less [of s] by (simp_all add: buffer_index_def loop_start_def table_ok_def)
  let ?st = "\<lambda>v. st[n := (st ! n)[?k := v]]"
  have e: "?st v ! n ! ?k = v" "?st v ! n = (locElementOldStatus s ! n)[?k := v]" for v
    using k(2) n st by simp_all
  have new: "loop_at L b s (Suc n) u' h' (?st v)"
    if "settled_icon s n v" "unat u' \<le> Suc n" "target h' = Some b"
      and "shown h' b (corner L n) = Some (icon_pixels (images s) n v)"
      and "\<forall>b'. \<forall>j < 8. j \<noteq> n \<or> b' \<noteq> b \<longrightarrow> shown h' b' (corner L j) = shown h b' (corner L j)" for v u' h'
    using at that n e unfolding loop_at_def less_Suc_eq by auto
  have d: "decide_element ?s n u = decide_element s n u"
    by (rule decide_same) (rule st(1))
  from s n u show ?thesis
  proof (rule settle)
    fix v
    assume v: "decide_element s n u = (v, Some (icon_image n (v \<noteq> 0)))" "settled_icon s n v"
    have "ready (images ?s) (icon_image n (v \<noteq> 0))"
      using s n by (simp add: loop_start_def images_ready_def)
    from draw_element_icon [OF f n this] obtain h' where
      h': "draw_element L (locElement ! n) (icon_image n (v \<noteq> 0)) ?s = Inr (?s\<lparr>calls := h'\<rparr>)"
        "icon_set L h h' n (icon_pixels (images s) n v)"
      by (auto simp: icon_pixels_def)
    have "render_element L n (u, ?s) = Inr (u + 1, s\<lparr>calls := h', locElementOldStatus := ?st v\<rparr>)"
      using h'(1) by (simp add: render_element_def d v(1) buffer_index_def)
    moreover have "unat (u + 1) \<le> Suc n"
      using u n by (simp add: unat_word_ariths)
    moreover have "target h' = Some b" "shown h' b (corner L n) = Some (icon_pixels (images s) n v)"
      "\<forall>b'. \<forall>j < 8. j \<noteq> n \<or> b' \<noteq> b \<longrightarrow> shown h' b' (corner L j) = shown h b' (corner L j)"
      using h'(2) h n unfolding icon_set_def by auto
    ultimately show ?thesis
      using new [OF v(2)] by blast
  next
    fix v
    assume v: "decide_element s n u = (v, None)" "settled_icon s n v"
      "shown (calls s) b (corner L n) = Some (icon_pixels (images s) n v)"
    have "render_element L n (u, ?s) = Inr (u, s\<lparr>calls := h, locElementOldStatus := ?st v\<rparr>)"
      by (simp add: render_element_def d v(1) buffer_index_def)
    moreover have "shown h b (corner L n) = Some (icon_pixels (images s) n v)"
      using at n v(3) by (simp add: loop_at_def)
    ultimately show ?thesis
      using new [OF v(2), of u h] u h by auto
  qed
qed

lemma icon_loop_runs:
  assumes "fixed_point L" "loop_start L b s" "n \<le> 8"
  shows "\<exists>u h st. each_entry (render_element L) [0 ..< n] (0, s) = Inr (u, s\<lparr>calls := h, locElementOldStatus := st\<rparr>)
    \<and> loop_at L b s n u h st"
  using assms(3)
proof (induction n)
  case 0
  have "s = s\<lparr>calls := calls s, locElementOldStatus := locElementOldStatus s\<rparr>"
    by simp
  then show ?case
    using assms(2) by (intro exI [of _ 0] exI [of _ "calls s"] exI [of _ "locElementOldStatus s"])
      (simp add: loop_at_def loop_start_def table_ok_def)
next
  case (Suc n)
  then obtain u h st where 1: "each_entry (render_element L) [0 ..< n] (0, s) = Inr (u, s\<lparr>calls := h, locElementOldStatus := st\<rparr>)"
    "loop_at L b s n u h st"
    by auto
  have n: "n < 8"
    using Suc.prems by simp
  from loop_step [OF assms(1,2) n 1(2)] obtain u' h' st' where
    "render_element L n (u, s\<lparr>calls := h, locElementOldStatus := st\<rparr>) = Inr (u', s\<lparr>calls := h', locElementOldStatus := st'\<rparr>)"
    "loop_at L b s (Suc n) u' h' st'"
    by blast
  then show ?case
    by (intro exI [of _ u'] exI [of _ h'] exI [of _ st']) (simp add: each_entry_append 1(1))
qed

definition next_count :: "u32 \<Rightarrow> u32" where
  "next_count n = (if n + 1 \<noteq> 1 \<and> 60 < n + 1 then 0 else n + 1)"

lemma render_elements:
  assumes "fixed_point L" "loop_start L b s"
  shows "\<exists>u h st. locRenderElements L s
      = Inr (s\<lparr>calls := h, locElementOldStatus := st, on_counter := next_count (on_counter s)\<rparr>) \<and> loop_at L b s 8 u h st"
proof -
  obtain u h st where 1: "each_entry (render_element L) [0 ..< 8] (0, s) = Inr (u, s\<lparr>calls := h, locElementOldStatus := st\<rparr>)"
    "loop_at L b s 8 u h st"
    using icon_loop_runs [OF assms, of 8] by auto
  then show ?thesis
    by (intro exI [of _ u] exI [of _ h] exI [of _ st]) (simp add: locRenderElements_def next_count_def)
qed

section \<open>Property\<close>

text \<open>A library and a first frame for the witnesses: every call succeeds, every image is in one buffer.\<close>

definition sample_library :: library where
  "sample_library =
     \<lparr>lib_result = (\<lambda>h c. 0), R_DRW2D_2X = (\<lambda>x. \<lfloor>x * 65536\<rfloor>), lib_sin = (\<lambda>x. 0), lib_cos = (\<lambda>x. 1),
      screen_size = (\<lambda>h. (1920, 720)), hw_address = (\<lambda>h i. if i = 0 then 0x90000000 else 0x98000000), is_e3 = (\<lambda>h. False),
      g_hndl_mmngr = True\<rparr>"

definition sample_fb :: "u32 \<Rightarrow> r_drw2d_Framebuffer_t" where
  "sample_fb a =
     \<lparr>fb_Flags = 0, fb_Handle = 0, fb_Buffer =
        \<lparr>buf_Pitch = 1920, buf_Width = 1920, buf_Height = 720,
         buf_PixelFormat = R_DRW2D_PIXELFORMAT_ARGB8888, buf_Data = Addr a\<rparr>\<rparr>"

definition sample_images :: "unit gfx" where
  "sample_images =
     \<lparr>vidmembuffer = [0x80000000], vidmembuffer_alloced = [True], driver = (), mem = (\<lambda>_. 0), filesys = romfs_start,
      img_data = (\<lambda>_. VidBuf 0)\<rparr>"

definition sample_screen :: "unit screen" where
  "sample_screen =
     \<lparr>images = sample_images, calls = [R_DRW2D_FramebufferSet (sample_fb 0x90000000)], demo_cur_fb = sample_fb 0x90000000,
      car = InitCarModel car_start,
      NeedleSpeed = locInitNeedlePosition 210, NeedleRpm = locInitNeedlePosition 210,
      locElementOldStatus = replicate 9 [0, 0], locInit = 0, locFrameCnt = 0, on_counter = 0,
      fuel_angle = - 1, cooling_angle = - 1, setup_init = True,
      OnBackupData = replicate 9 Null, OffBackupData = replicate 9 Null, locOldBackgroundData = Null, locOldNeedleData = Null,
      One_Div_BackgroudW_F = 0, One_Div_BackgroudH_F = 0, One_Div_BackgroudW_F2 = 0, One_Div_BackgroudH_F2 = 0,
      One_Div_NeedleW_F = 0, One_Div_NeedleH_F = 0\<rparr>"

lemma sample_fixed_point: "fixed_point sample_library"
proof -
  have "\<bar>of_int \<lfloor>x\<rfloor> - x\<bar> \<le> 1" for x :: rat
    by linarith
  then show ?thesis
    by (simp add: fixed_point_def sample_library_def)
qed

lemma sample_ready: "images_ready sample_images"
proof -
  have "\<forall>i < 9. \<forall>on. Attributes (icon_image i on) AND IMG_ATTRIBUTE_USE_FROM_PERSISTENT_MEMORY = 0"
    unfolding all_elements all_bool_eq by (simp add: icon_sizes)
  then show ?thesis
    by (simp add: images_ready_def ready_def pixels_at_def sample_images_def) (simp add: image_defs)
qed

text \<open>
  The loop over the icons keeps picture and table in agreement. Before
  it, the current frame buffer shows the recorded icons or the frame is one of the first two. After
  it, the corner of each of the eight icons shows the image of the state now recorded, and this is
  the state the car model and the flashing ask for; only the oil and the battery icon may keep their
  previous state, because at most five icons are drawn again in one frame.
\<close>

theorem icons_correct:
  assumes "fixed_point L" and "loop_start L b s"
  shows "\<exists>s'. locRenderElements L s = Inr s'
    \<and> (\<forall>i < 8. shown (calls s') b (corner L i) = Some (icon_pixels (images s) i (recorded s' i))
         \<and> (recorded s' i = wanted s i \<or> recorded s' i = recorded s i \<and> i \<in> {5, 6}))"
proof -
  obtain u h st where r: "locRenderElements L s
      = Inr (s\<lparr>calls := h, locElementOldStatus := st, on_counter := next_count (on_counter s)\<rparr>)" (is "_ = Inr ?s'")
    and l: "loop_at L b s 8 u h st"
    using render_elements [OF assms] by blast
  have "recorded ?s' i = st ! i ! buffer_index s" for i
    by (simp add: recorded_def buffer_index_def)
  then show ?thesis
    using r l by (intro exI [of _ ?s']) (auto simp: loop_at_def settled_icon_def)
qed

theorem icons_correct_witness:
  "\<exists>s'. locRenderElements sample_library sample_screen = Inr s'
     \<and> shown (calls s') (Addr 0x90000000) (corner sample_library 3) = Some (Addr 0x80000000)"
proof -
  have t: "table_ok (replicate 9 [0, 0])"
    by (simp add: table_ok_def)
  have "loop_start sample_library (Addr 0x90000000) sample_screen"
    using sample_ready by (simp add: loop_start_def sample_screen_def sample_fb_def t)
  from icons_correct [OF sample_fixed_point this] obtain s' where
    "locRenderElements sample_library sample_screen = Inr s'"
    "shown (calls s') (Addr 0x90000000) (corner sample_library 3) = Some (icon_pixels (images sample_screen) 3 (recorded s' 3))"
    by (auto dest: spec [of _ 3])
  then show ?thesis
    by (intro exI [of _ s']) (simp add: icon_pixels_def pixels_at_def sample_screen_def sample_images_def)
qed

end
