(* ===== verification/Frame.thy ===== *)
theory Frame
  imports Icons
begin

text \<open>
  A frame of the gauge screen: background, icons, needle and fuel pointer together. Two frame buffers are
  used in turn. The invariant \<open>screen_ok\<close> says that each of them shows the icons that the table
  records for it; every frame returns and keeps the invariant, the first two included, which also merge
  the icons with the background.
\<close>

section \<open>The initial frames\<close>

text \<open>Calls that select frame buffers of a set only leave the pixels of every other buffer.\<close>

definition only_targets :: "ptr set \<Rightarrow> call list \<Rightarrow> bool" where
  "only_targets B cs \<longleftrightarrow> (\<forall>f. R_DRW2D_FramebufferSet f \<in> set cs \<longrightarrow> buf_Data (fb_Buffer f) \<in> B)"

lemma only_targets_simps [simp]:
  "only_targets B []"
  "only_targets B (c # cs) \<longleftrightarrow> (\<forall>f. c = R_DRW2D_FramebufferSet f \<longrightarrow> buf_Data (fb_Buffer f) \<in> B) \<and> only_targets B cs"
  "only_targets B (cs @ ds) \<longleftrightarrow> only_targets B cs \<and> only_targets B ds"
  by (auto simp: only_targets_def)

lemma only_targets_mono: "only_targets B cs \<Longrightarrow> B \<subseteq> C \<Longrightarrow> only_targets C cs"
  by (auto simp: only_targets_def)

lemma other_buffer:
  assumes "only_targets B cs" "b \<notin> B" "target h \<noteq> Some b"
  shows "target (cs @ h) \<noteq> Some b \<and> shown (cs @ h) b p = shown h b p"
  using assms(1)
proof (induction cs)
  case (Cons c cs)
  then show ?case
    using assms(2) by (auto split: call.splits)
qed (use assms(3) in simp)

lemma logs_only [simp]: "logs = [] \<or> logs = [R_PRINT_Log msg] \<Longrightarrow> only_targets B logs"
  by auto

lemma background_appends:
  assumes "ready (images s) ClusterBackGround"
  shows "\<exists>cs. locBackGroundRestore L X Y W H s = Inr (s\<lparr>calls := cs @ calls s\<rparr>) \<and> only_targets {} cs"
proof -
  let ?cs = "[R_DRW2D_CtxIdentity, R_DRW2D_CtxTextureSet 0 (texture_of (images s) ClusterBackGround []),
    R_DRW2D_CtxBlendMode R_DRW2D_BLENDMODE_SRC, R_DRW2D_CtxFillMode R_DRW2D_FILLMODE_TEXTURE,
    R_DRW2D_DrawRect (demo_int2rect L X Y W H)]"
  obtain logs where "report ''error BG restore'' (invoke_all L ?cs 0 s) = s\<lparr>calls := logs @ rev ?cs @ calls s\<rparr>"
    "logs = [] \<or> logs = [R_PRINT_Log ''error BG restore'']"
    using report_invoke_all by blast
  then show ?thesis
    by (intro exI [of _ "logs @ rev ?cs"]) (simp add: locBackGroundRestore_def demo_img2tex_ready [OF assms] del: invoke_all.simps)
qed

text \<open>A loop whose body adds calls.\<close>

lemma each_entry_calls:
  assumes "\<And>i ret cs. i \<in> set is \<Longrightarrow> \<exists>ret' ds. f i (ret, s\<lparr>calls := cs\<rparr>) = Inr (ret', s\<lparr>calls := ds @ cs\<rparr>) \<and> only_targets B ds"
  shows "\<exists>ret' ds. each_entry f is (ret, s\<lparr>calls := cs\<rparr>) = Inr (ret', s\<lparr>calls := ds @ cs\<rparr>) \<and> only_targets B ds"
  using assms
proof (induction "is" arbitrary: ret cs)
  case Nil
  then show ?case
    by (intro exI [of _ ret] exI [of _ "[]"]) simp
next
  case (Cons i "is")
  obtain ret1 ds1 where 1: "f i (ret, s\<lparr>calls := cs\<rparr>) = Inr (ret1, s\<lparr>calls := ds1 @ cs\<rparr>)" "only_targets B ds1"
    using Cons.prems [of i ret cs] by auto
  obtain ret2 ds2 where 2: "each_entry f is (ret1, s\<lparr>calls := ds1 @ cs\<rparr>) = Inr (ret2, s\<lparr>calls := ds2 @ ds1 @ cs\<rparr>)" "only_targets B ds2"
    using Cons.IH [of ret1 "ds1 @ cs"] Cons.prems by auto
  show ?case
    using 1 2 by (intro exI [of _ ret2] exI [of _ "ds2 @ ds1"]) simp
qed

definition image_buffers :: "'d gfx \<Rightarrow> ptr set" where
  "image_buffers g = {Addr (pixels_at g (icon_image i on)) | i on. i < LOC_ELEMENT_NUM}"

lemma setup_image_ready:
  assumes "images_ready (images s)" "i < 9"
  obtains on where "setup_image s i = Some (icon_image i on)" "ready (images s) (icon_image i on)"
  using element_images assms unfolding setup_image_def images_ready_def by (cases "setup_init s") auto

lemma setup_draw_calls:
  assumes "images_ready (images s)" "i < 9"
  shows "\<exists>ret' ds. setup_draw L i (ret, s\<lparr>calls := cs\<rparr>) = Inr (ret', s\<lparr>calls := ds @ cs\<rparr>) \<and> only_targets B ds"
proof -
  let ?s = "s\<lparr>calls := cs\<rparr>"
  have "images_ready (images ?s)"
    using assms(1) by simp
  then obtain on where on: "setup_image ?s i = Some (icon_image i on)" "ready (images ?s) (icon_image i on)"
    using setup_image_ready assms(2) by blast
  let ?I = "icon_image i on" and ?e = "locElement ! i"
  let ?cs = "[R_DRW2D_CtxTextureSet 0 (texture_of (images ?s) ?I []),
     R_DRW2D_TextureBlit (Some (image_rect L 0 0 ?I)) (image_rect L (PosX ?e) (PosY ?e) ?I)]"
  obtain ret' where "invoke_all L ?cs ret ?s = (ret', ?s\<lparr>calls := rev ?cs @ calls ?s\<rparr>)"
    using invoke_all_pair by blast
  then show ?thesis
    by (intro exI [of _ ret'] exI [of _ "rev ?cs"])
      (simp add: setup_draw_def Let_def on(1) demo_img2tex_ready [OF on(2)] del: invoke_all.simps)
qed

lemma setup_copy_calls:
  assumes "images_ready (images s)" "i < 9"
  shows "\<exists>ret' ds. setup_copy L i (ret, s\<lparr>calls := cs\<rparr>) = Inr (ret', s\<lparr>calls := ds @ cs\<rparr>)
    \<and> only_targets (image_buffers (images s)) ds"
proof -
  let ?s = "s\<lparr>calls := cs\<rparr>"
  have "images_ready (images ?s)"
    using assms(1) by simp
  then obtain on where on: "setup_image ?s i = Some (icon_image i on)" "ready (images ?s) (icon_image i on)"
    using setup_image_ready assms(2) by blast
  let ?I = "icon_image i on" and ?e = "locElement ! i"
  let ?cs = "[R_DRW2D_FramebufferSet (framebuffer_of (images ?s) ?I),
     R_DRW2D_TextureBlit (Some (image_rect L (PosX ?e) (PosY ?e) ?I)) (image_rect L 0 0 ?I)]"
  obtain ret' where r: "invoke_all L ?cs ret ?s = (ret', ?s\<lparr>calls := rev ?cs @ calls ?s\<rparr>)"
    using invoke_all_pair by blast
  obtain logs where l: "report ''error render elements'' (ret', ?s\<lparr>calls := rev ?cs @ calls ?s\<rparr>) = ?s\<lparr>calls := logs @ rev ?cs @ calls ?s\<rparr>"
    "logs = [] \<or> logs = [R_PRINT_Log ''error render elements'']"
    using report_eq [of _ ret' "?s\<lparr>calls := rev ?cs @ calls ?s\<rparr>"] by auto
  have "only_targets (image_buffers (images s)) (logs @ rev ?cs)"
    using assms(2) l(2) unfolding image_buffers_def framebuffer_of_def image_buffer_def by auto
  then show ?thesis
    using r l(1) by (intro exI [of _ ret'] exI [of _ "logs @ rev ?cs"])
      (simp add: setup_copy_def Let_def on(1) demo_img2fb_ready [OF on(2)] del: invoke_all.simps)
qed

abbreviation current :: "'d screen \<Rightarrow> ptr" where
  "current s \<equiv> buf_Data (fb_Buffer (demo_cur_fb s))"

lemma setup_render:
  assumes "images_ready (images s)"
  shows "\<exists>cs. locElementSetupRender L s = Inr (s\<lparr>calls := cs @ calls s, setup_init := \<not> setup_init s\<rparr>)
    \<and> only_targets (insert (current s) (image_buffers (images s))) cs \<and> target (cs @ calls s) = Some (current s)"
proof -
  let ?B = "insert (current s) (image_buffers (images s))"
  let ?m = "R_DRW2D_CtxBlendMode R_DRW2D_BLENDMODE_SRC"
  let ?s0 = "s\<lparr>calls := ?m # calls s\<rparr>"
  obtain r0 where r0: "invoke L ?m s = (r0, ?s0)"
    by (simp add: invoke_def)
  have "ready (images ?s0) ClusterBackGround"
    using assms by (simp add: images_ready_def)
  from background_appends [OF this, of L 0 0 "uint (Width ClusterBackGround)" "uint (Height ClusterBackGround)"] obtain c1 where
    b: "locBackGroundRestore L 0 0 (uint (Width ClusterBackGround)) (uint (Height ClusterBackGround)) ?s0 = Inr (s\<lparr>calls := c1 @ ?m # calls s\<rparr>)"
    and c1: "only_targets {} c1"
    by auto
  let ?h1 = "rev blend_icons @ c1 @ ?m # calls s"
  obtain r1 where r1: "invoke_all L blend_icons r0 (s\<lparr>calls := c1 @ ?m # calls s\<rparr>) = (r1, s\<lparr>calls := ?h1\<rparr>)"
    using invoke_all_pair [of L blend_icons r0 "s\<lparr>calls := c1 @ ?m # calls s\<rparr>"] by auto
  obtain r2 d2 where d2: "each_entry (setup_draw L) [0 ..< 9] (r1, s\<lparr>calls := ?h1\<rparr>) = Inr (r2, s\<lparr>calls := d2 @ ?h1\<rparr>)"
    "only_targets ?B d2"
    using each_entry_calls [of "[0 ..< 9]" "setup_draw L" s ?B r1 ?h1] setup_draw_calls [OF assms] by auto
  let ?t = "[?m, R_DRW2D_CtxTextureSet 0 (demo_fb2tex (demo_cur_fb s) [])]"
  obtain r3 where r3: "invoke_all L ?t r2 (s\<lparr>calls := d2 @ ?h1\<rparr>) = (r3, s\<lparr>calls := rev ?t @ d2 @ ?h1\<rparr>)"
    using invoke_all_pair [of L ?t r2 "s\<lparr>calls := d2 @ ?h1\<rparr>"] by auto
  obtain r4 d4 where d4: "each_entry (setup_copy L) [0 ..< 9] (r3, s\<lparr>calls := rev ?t @ d2 @ ?h1\<rparr>)
      = Inr (r4, s\<lparr>calls := d4 @ rev ?t @ d2 @ ?h1\<rparr>)" "only_targets (image_buffers (images s)) d4"
    using each_entry_calls [of "[0 ..< 9]" "setup_copy L" s "image_buffers (images s)" r3 "rev ?t @ d2 @ ?h1"]
      setup_copy_calls [OF assms] by auto
  let ?cs = "R_DRW2D_FramebufferSet (demo_cur_fb s) # d4 @ rev ?t @ d2 @ rev blend_icons @ c1 @ [?m]"
  have "locElementSetupRender L s = Inr (s\<lparr>calls := ?cs @ calls s, setup_init := \<not> setup_init s\<rparr>)"
    unfolding locElementSetupRender_def Let_def r0 prod.case b andthen_simps r1 d2(1)
    using r3 d4(1) by (simp add: demo_get_fb_def del: invoke_all.simps)
  moreover have "only_targets ?B ?cs"
    using only_targets_mono [OF c1, of ?B] d2(2) only_targets_mono [OF d4(2), of ?B] by (auto simp: blend_icons_def)
  ultimately show ?thesis
    by (intro exI [of _ ?cs]) simp
qed

text \<open>Background and set-up of a frame: other buffers are left alone, and the current one too after the first frames.\<close>

definition start_frame :: "library \<Rightarrow> 'd screen \<Rightarrow> screen_error + 'd screen" where
  "start_frame L s =
     andthen
       (if locInit s < 2
        then locElementSetupRender L (perform L [R_DRW2D_CtxBgColor 0xFFFFFFFF, R_DRW2D_FramebufferClear] s)
        else Inr s) (\<lambda>s.
     let s = perform L [R_DRW2D_CtxBlendMode R_DRW2D_BLENDMODE_SRC] s in
     if locInit s < 2
     then locBackGroundRestore L 0 0 (uint (Width ClusterBackGround)) (uint (Height ClusterBackGround))
            (s\<lparr>locInit := locInit s + 1\<rparr>)
     else locBackGroundRestore L LOC_FGAUGE_POSX LOC_FGAUGE_POSY LOC_FGAUGE_WIDTH LOC_FGAUGE_HEIGHT s)"

lemma frame_parts:
  "RenderClGaugeScreen L s =
     andthen (start_frame L s) (\<lambda>s.
     andthen (locRenderElements L (perform L blend_icons s)) (\<lambda>s.
     andthen (locNeedleSpeedRestore L (perform L blend_icons s)) (\<lambda>s.
     andthen (locFuelRender L (locNeedleRPMRestore s)) (\<lambda>s.
     andthen (locNeedleSpeedRender L (locNeedleRpmRender (locCoolingRender s))) (\<lambda>s.
     Inr (s\<lparr>locFrameCnt := locFrameCnt s + 1\<rparr>))))))"
  by (simp add: RenderClGaugeScreen_def start_frame_def andthen_def Let_def split: sum.split)

lemma start_frame_ok:
  assumes f: "fixed_point L" and i: "images_ready (images s)" and t: "target (calls s) = Some (current s)"
  shows "\<exists>h. start_frame L s =
      Inr (if locInit s < 2 then s\<lparr>calls := h, setup_init := \<not> setup_init s, locInit := locInit s + 1\<rparr> else s\<lparr>calls := h\<rparr>)
    \<and> target h = Some (current s)
    \<and> (\<forall>b. \<forall>i < 8. b \<notin> image_buffers (images s) \<and> (locInit s < 2 \<longrightarrow> b \<noteq> current s)
        \<longrightarrow> shown h b (corner L i) = shown (calls s) b (corner L i))"
proof (cases "locInit s < 2")
  case True
  let ?m = "R_DRW2D_CtxBlendMode R_DRW2D_BLENDMODE_SRC"
  let ?h0 = "R_DRW2D_FramebufferClear # R_DRW2D_CtxBgColor 0xFFFFFFFF # calls s"
  let ?s0 = "s\<lparr>calls := ?h0\<rparr>"
  have "images_ready (images ?s0)"
    using i by simp
  from setup_render [OF this, of L] obtain cs where
    cs: "locElementSetupRender L ?s0 = Inr (s\<lparr>calls := cs @ ?h0, setup_init := \<not> setup_init s\<rparr>)"
    and o: "only_targets (insert (current s) (image_buffers (images s))) cs" "target (cs @ ?h0) = Some (current s)"
    by auto
  let ?s1 = "s\<lparr>setup_init := \<not> setup_init s, calls := ?m # cs @ ?h0, locInit := locInit s + 1\<rparr>"
  have "ready (images ?s1) ClusterBackGround"
    using i by (simp add: images_ready_def)
  from background_full [OF this f] obtain h where
    h: "locBackGroundRestore L 0 0 1920 720 ?s1 = Inr (?s1\<lparr>calls := h\<rparr>)" "icons_show L (calls ?s1) h (\<lambda>i. Some (bg_pixels (images ?s1)))"
    by blast
  have "start_frame L s = locBackGroundRestore L 0 0 1920 720 ?s1"
    using True cs by (simp add: start_frame_def Let_def ClusterBackGround_def)
  also have "\<dots> = Inr (s\<lparr>calls := h, setup_init := \<not> setup_init s, locInit := locInit s + 1\<rparr>)"
    using h(1) by simp
  finally have "start_frame L s = Inr (s\<lparr>calls := h, setup_init := \<not> setup_init s, locInit := locInit s + 1\<rparr>)" .
  moreover have "target h = Some (current s)"
    using h(2) o(2) by (simp add: icons_show_def)
  moreover have "shown h b (corner L i) = shown (calls s) b (corner L i)"
    if "i < 8" "b \<notin> image_buffers (images s)" "b \<noteq> current s" for b i
  proof -
    have b: "b \<notin> insert (current s) (image_buffers (images s))" "target ?h0 \<noteq> Some b"
      using that t by simp_all
    have "shown h b (corner L i) = shown (cs @ ?h0) b (corner L i)"
      using h(2) that o(2) by (simp add: icons_show_def touches_def)
    also have "\<dots> = shown ?h0 b (corner L i)"
      using other_buffer [OF o(1) b] by simp
    also have "\<dots> = shown (calls s) b (corner L i)"
      using t that(3) by (simp add: touches_def)
    finally show ?thesis .
  qed
  ultimately show ?thesis
    using True by auto
next
  case False
  let ?s1 = "s\<lparr>calls := R_DRW2D_CtxBlendMode R_DRW2D_BLENDMODE_SRC # calls s\<rparr>"
  have "ready (images ?s1) ClusterBackGround"
    using i by (simp add: images_ready_def)
  from background_same [OF this fuel_area_misses [OF f]] obtain h where
    h: "locBackGroundRestore L LOC_FGAUGE_POSX LOC_FGAUGE_POSY LOC_FGAUGE_WIDTH LOC_FGAUGE_HEIGHT ?s1 = Inr (?s1\<lparr>calls := h\<rparr>)"
      "same_icons L (calls ?s1) h"
    by blast
  have "same_icons L (calls s) (calls ?s1)"
    by (simp add: same_icons_Cons plain_call_def)
  from same_icons_trans [OF this h(2)] have "same_icons L (calls s) h" .
  moreover have "start_frame L s = Inr (s\<lparr>calls := h\<rparr>)"
    using False h(1) by (simp add: start_frame_def Let_def)
  ultimately show ?thesis
    using False t by (auto simp: same_icons_def)
qed

section \<open>The invariant\<close>

text \<open>Frame buffer \<open>b\<close>, the one with index \<open>j\<close>, shows the icons that the table records for it.\<close>

definition shows_record :: "library \<Rightarrow> ptr \<Rightarrow> nat \<Rightarrow> 'd screen \<Rightarrow> bool" where
  "shows_record L b j s \<longleftrightarrow>
     (\<forall>i < 8. shown (calls s) b (corner L i) = Some (icon_pixels (images s) i (locElementOldStatus s ! i ! j)))"

definition needle_ok :: "GclNeedle_t \<Rightarrow> bool" where
  "needle_ok n \<longleftrightarrow> (\<forall>a \<in> {CurrentAngleNeedle n, LastAngleNeedle n ! 0}. - 31 \<le> a \<and> a \<le> 211)"

definition fuel_ok :: "rat \<Rightarrow> bool" where
  "fuel_ok a \<longleftrightarrow> 155 \<le> a \<and> a \<le> 211"

text \<open>The screen after \<open>n\<close> frames on the frame buffers \<open>B 0\<close> and \<open>B 1\<close>.\<close>

definition screen_ok :: "library \<Rightarrow> (nat \<Rightarrow> ptr) \<Rightarrow> nat \<Rightarrow> 'd screen \<Rightarrow> bool" where
  "screen_ok L B n s \<longleftrightarrow>
     images_ready (images s) \<and> table_ok (locElementOldStatus s)
     \<and> B 0 \<noteq> B 1 \<and> (\<forall>j < 2. B j \<notin> image_buffers (images s))
     \<and> locFrameCnt s = of_nat n \<and> locInit s = of_nat (min n 2) \<and> (n < 2 \<longrightarrow> on_counter s = of_nat n)
     \<and> needle_ok (NeedleSpeed s) \<and> (fuel_angle s < 0 \<or> fuel_ok (fuel_angle s))
     \<and> (\<forall>j < 2. j < n \<longrightarrow> shows_record L (B j) j s)"

lemma next_speed_ok:
  assumes "needle_ok (NeedleSpeed s)" "driving (car s)"
  shows "needle_ok (next_speed s)"
proof -
  have "(0 :: rat) \<le> Speed (car s)" "Speed (car s) \<le> 240"
    using assms(2) by (auto simp: driving_def moved_def)
  from speed_angle [OF this] show ?thesis
    using assms(1) filter_range [of "- 31" "CurrentAngleNeedle (NeedleSpeed s)" 211 "locConvertSpeed2Angle (Speed (car s))"]
    by (simp add: needle_ok_def next_speed_def locSetNextNeedlePosition_def)
qed

lemma next_fuel_ok:
  assumes "fuel_angle s < 0 \<or> fuel_ok (fuel_angle s)" "others_ok (car s)"
  shows "fuel_ok (next_fuel s)"
proof -
  have F: "FuelLevel (car s) \<le> 99"
    using assms(2) by (simp add: others_ok_def)
  define F :: rat where "F = of_int (uint (FuelLevel (car s)))"
  have "F \<le> of_int 99" "of_int 0 \<le> F"
    using F unfolding F_def of_int_le_iff by (simp_all add: word_le_def)
  moreover have "FuelLevel (car s) \<le> 100"
    using F by (rule order_trans) simp
  from fuel_angle_value [OF this] have "\<bar>locConvertFuel2Angle (FuelLevel (car s)) - (210 - 55 * F / 100)\<bar> \<le> 1 / 1000"
    unfolding F_def .
  ultimately have "fuel_ok (locConvertFuel2Angle (FuelLevel (car s)))"
    unfolding fuel_ok_def by (intro conjI; simp; linarith)
  then show ?thesis
    using assms(1) filter_range [of 155 "fuel_angle s" 211 "locConvertFuel2Angle (FuelLevel (car s))"]
    by (auto simp: fuel_ok_def next_fuel_def Let_def)
qed

section \<open>A frame\<close>

lemma frame_index: "n < 2 ^ 32 \<Longrightarrow> locFrameCnt s = of_nat n \<Longrightarrow> buffer_index s = n mod 2"
  by (simp add: buffer_index_def unat_mod unat_of_nat)

lemma frame_few: "n < 2 ^ 32 \<Longrightarrow> (of_nat n :: u32) < 2 \<longleftrightarrow> n < 2"
  by (simp add: word_less_nat_alt unat_of_nat)

lemma init_few: "(of_nat (min n 2) :: u8) < 2 \<longleftrightarrow> n < 2"
proof -
  consider "n = 0" | "n = 1" | "2 \<le> n"
    by linarith
  then show ?thesis
    by cases simp_all
qed

lemma plain_all: "list_all plain_call cs \<Longrightarrow> same_icons L h (cs @ h)"
  by (induction cs) (auto intro: same_icons_Cons)

text \<open>The drawing after the icons: needle, fuel pointer, needle.\<close>

definition end_frame :: "library \<Rightarrow> 'd screen \<Rightarrow> screen_error + 'd screen" where
  "end_frame L s =
     andthen (locNeedleSpeedRestore L (perform L blend_icons s)) (\<lambda>s.
     andthen (locFuelRender L (locNeedleRPMRestore s)) (\<lambda>s.
     andthen (locNeedleSpeedRender L (locNeedleRpmRender (locCoolingRender s))) (\<lambda>s.
     Inr (s\<lparr>locFrameCnt := locFrameCnt s + 1\<rparr>))))"

lemma end_frame_ok:
  assumes f: "fixed_point L" and t: "trig_ok L" and i: "images_ready (images s)"
    and n: "needle_ok (NeedleSpeed s)" and a: "fuel_ok (next_fuel s)"
  shows "\<exists>h r c. end_frame L s = Inr (s\<lparr>calls := h, fuel_angle := next_fuel s, cooling_angle := c, NeedleRpm := r,
      NeedleSpeed := next_speed s, locFrameCnt := locFrameCnt s + 1\<rparr>) \<and> same_icons L (calls s) h"
proof -
  let ?s1 = "s\<lparr>calls := rev blend_icons @ calls s\<rparr>"
  have r: "ready (images ?s1) ClusterBackGround" and a1: "\<bar>LastAngleNeedle (NeedleSpeed ?s1) ! 0\<bar> \<le> 400"
    using i n by (auto simp: images_ready_def needle_ok_def)
  from speed_restore_same [OF f this] obtain h1 where
    1: "locNeedleSpeedRestore L ?s1 = Inr (?s1\<lparr>calls := h1\<rparr>)" "same_icons L (calls ?s1) h1"
    by blast
  let ?s2 = "s\<lparr>calls := h1\<rparr>"
  have n2: "next_fuel ?s2 = next_fuel s"
    by (simp add: next_fuel_def Let_def)
  have "155 \<le> next_fuel ?s2" "next_fuel ?s2 \<le> 211"
    using a unfolding n2 fuel_ok_def by simp_all
  from fuel_same [OF f this] obtain h2 where
    2: "locFuelRender L ?s2 = Inr (?s2\<lparr>fuel_angle := next_fuel ?s2, calls := h2\<rparr>)" "same_icons L (calls ?s2) h2"
    by blast
  let ?s3 = "locNeedleRpmRender (locCoolingRender (?s2\<lparr>fuel_angle := next_fuel s, calls := h2\<rparr>))"
  obtain c r where s3: "?s3 = s\<lparr>fuel_angle := next_fuel s, calls := h2, cooling_angle := c, NeedleRpm := r\<rparr>"
    by (simp add: locNeedleRpmRender_def locCoolingRender_def Let_def)
  have "ready (images ?s3) ClusterNeedle"
    using i unfolding s3 by (simp add: images_ready_def)
  from speed_render_same [OF f t this] obtain h3 where
    3: "locNeedleSpeedRender L ?s3 = Inr (?s3\<lparr>NeedleSpeed := next_speed ?s3, calls := h3\<rparr>)" "same_icons L (calls ?s3) h3"
    by blast
  have n3: "next_speed ?s3 = next_speed s"
    unfolding s3 by (simp add: next_speed_def)
  have e: "end_frame L s = Inr (s\<lparr>calls := h3, fuel_angle := next_fuel s, cooling_angle := c, NeedleRpm := r,
      NeedleSpeed := next_speed s, locFrameCnt := locFrameCnt s + 1\<rparr>)"
    using 1(1) 2(1) 3(1) n2 n3 s3 by (simp add: end_frame_def locNeedleRPMRestore_def)
  have "same_icons L (calls s) (calls ?s1)"
    by (simp add: blend_icons_def same_icons_Cons plain_call_def)
  moreover have "same_icons L h1 h2"
    using 2(2) by simp
  moreover have "same_icons L h2 h3"
    using 3(2) unfolding s3 by simp
  ultimately have "same_icons L (calls s) h3"
    using 1(2) same_icons_trans by blast
  then show ?thesis
    using e by blast
qed

lemma frame_thirds:
  "RenderClGaugeScreen L s =
     andthen (start_frame L s) (\<lambda>s. andthen (locRenderElements L (perform L blend_icons s)) (end_frame L))"
  by (simp add: frame_parts end_frame_def [abs_def])

text \<open>The status recorded for icon \<open>i\<close> in frame \<open>n\<close>: the wanted one, or for two icons the one of two frames before.\<close>

definition follows :: "nat \<Rightarrow> 'd screen \<Rightarrow> 'd screen \<Rightarrow> nat \<Rightarrow> bool" where
  "follows n s s' i \<longleftrightarrow>
     locElementOldStatus s' ! i ! (n mod 2) = wanted s i
     \<or> 2 \<le> n \<and> i \<in> {5, 6} \<and> locElementOldStatus s' ! i ! (n mod 2) = locElementOldStatus s ! i ! (n mod 2)"

lemma frame_ok:
  assumes f: "fixed_point L" and t: "trig_ok L" and ok: "screen_ok L B n s" and n: "n < 2 ^ 32"
    and car: "driving (car s)" "others_ok (car s)"
    and b: "target (calls s) = Some (B (n mod 2))" "current s = B (n mod 2)"
  shows "\<exists>s'. RenderClGaugeScreen L s = Inr s' \<and> screen_ok L B (Suc n) s' \<and> car s' = car s \<and> images s' = images s
    \<and> demo_cur_fb s' = demo_cur_fb s \<and> target (calls s') = Some (B (n mod 2)) \<and> (\<forall>i < 8. follows n s s' i)"
proof -
  let ?k = "n mod 2"
  have i: "images_ready (images s)" and c: "locFrameCnt s = of_nat n" and tab: "table_ok (locElementOldStatus s)"
    and few: "locInit s < 2 \<longleftrightarrow> n < 2"
    using ok by (simp_all only: screen_ok_def init_few)
  have k: "buffer_index s = ?k" "?k < 2"
    using frame_index [OF n c] by simp_all
  obtain h1 where h1: "target h1 = Some (B ?k)"
      "\<forall>b. \<forall>i < 8. b \<notin> image_buffers (images s) \<and> (n < 2 \<longrightarrow> b \<noteq> B ?k) \<longrightarrow> shown h1 b (corner L i) = shown (calls s) b (corner L i)"
    and s1: "start_frame L s =
      Inr (if n < 2 then s\<lparr>calls := h1, setup_init := \<not> setup_init s, locInit := locInit s + 1\<rparr> else s\<lparr>calls := h1\<rparr>)"
    using start_frame_ok [OF f i, unfolded b(2) few] b(1) by blast
  define s1 where "s1 = (if n < 2 then s\<lparr>calls := h1, setup_init := \<not> setup_init s, locInit := locInit s + 1\<rparr> else s\<lparr>calls := h1\<rparr>)"
  have eq1: "calls s1 = h1" "images s1 = images s" "car s1 = car s" "locElementOldStatus s1 = locElementOldStatus s"
    "locFrameCnt s1 = of_nat n" "on_counter s1 = on_counter s" "NeedleSpeed s1 = NeedleSpeed s" "fuel_angle s1 = fuel_angle s"
    "demo_cur_fb s1 = demo_cur_fb s"
    using c by (simp_all add: s1_def)
  have init1: "locInit s1 = of_nat (min (Suc n) 2)"
  proof (cases "n < 2")
    case True
    then show ?thesis
      using ok by (simp add: s1_def screen_ok_def min_absorb1)
  next
    case False
    then show ?thesis
      using ok by (simp add: s1_def screen_ok_def min_absorb2)
  qed
  let ?h2 = "rev blend_icons @ h1"
  let ?s2 = "s1\<lparr>calls := ?h2\<rparr>"
  have h2: "same_icons L h1 ?h2"
    by (simp add: blend_icons_def same_icons_Cons plain_call_def)
  have k2: "buffer_index ?s2 = ?k"
    using frame_index [OF n, of ?s2] eq1 by simp
  have "n < 2 \<Longrightarrow> of_nat n \<le> (30 :: u32)"
    by (auto simp: less_2_cases_iff)
  then have "loop_start L (B ?k) ?s2"
    using i tab h1 h2 ok k(2) frame_few [OF n]
    by (auto simp: loop_start_def eq1 same_icons_def recorded_def k2 screen_ok_def shows_record_def)
  from render_elements [OF f this] obtain u h3 st where
    s3: "locRenderElements L ?s2 = Inr (?s2\<lparr>calls := h3, locElementOldStatus := st, on_counter := next_count (on_counter ?s2)\<rparr>)"
    and at: "loop_at L (B ?k) ?s2 8 u h3 st"
    by blast
  define s3 where "s3 = ?s2\<lparr>calls := h3, locElementOldStatus := st, on_counter := next_count (on_counter ?s2)\<rparr>"
  have eq3: "calls s3 = h3" "images s3 = images s" "car s3 = car s" "locElementOldStatus s3 = st" "locFrameCnt s3 = of_nat n"
    "on_counter s3 = next_count (on_counter s)" "NeedleSpeed s3 = NeedleSpeed s" "fuel_angle s3 = fuel_angle s"
    "demo_cur_fb s3 = demo_cur_fb s" "locInit s3 = of_nat (min (Suc n) 2)"
    by (simp_all add: s3_def eq1 init1)
  have i3: "images_ready (images s3)" and n3: "needle_ok (NeedleSpeed s3)" and a3: "fuel_ok (next_fuel s3)"
    using i ok next_fuel_ok [of s3] car by (simp_all add: eq3 screen_ok_def)
  obtain h r c where e: "end_frame L s3 = Inr (s3\<lparr>calls := h, fuel_angle := next_fuel s3, cooling_angle := c, NeedleRpm := r,
      NeedleSpeed := next_speed s3, locFrameCnt := locFrameCnt s3 + 1\<rparr>)" and h: "same_icons L h3 h"
    using end_frame_ok [OF f t i3 n3 a3] eq3(1) by auto
  define s' where "s' = s3\<lparr>calls := h, fuel_angle := next_fuel s3, cooling_angle := c, NeedleRpm := r,
      NeedleSpeed := next_speed s3, locFrameCnt := locFrameCnt s3 + 1\<rparr>"
  have run: "RenderClGaugeScreen L s = Inr s'"
    unfolding frame_thirds s1 s1_def [symmetric] andthen_simps perform_eq eq1(1) s3 s3_def [symmetric] e s'_def ..
  have eq': "calls s' = h" "images s' = images s" "car s' = car s" "locElementOldStatus s' = st" "locFrameCnt s' = of_nat (Suc n)"
    "on_counter s' = next_count (on_counter s)" "NeedleSpeed s' = next_speed s3" "fuel_angle s' = next_fuel s3"
    "demo_cur_fb s' = demo_cur_fb s" "locInit s' = of_nat (min (Suc n) 2)"
    by (simp_all add: s'_def eq3)
  have row: "st ! i = (locElementOldStatus s ! i)[?k := st ! i ! ?k]" "settled_icon ?s2 i (st ! i ! ?k)"
    "shown h (B ?k) (corner L i) = Some (icon_pixels (images s) i (st ! i ! ?k))" if "i < 8" for i
    using at h that by (simp_all add: loop_at_def k2 eq1 same_icons_def)
  have tab': "table_ok st"
  proof -
    have "st ! 8 = locElementOldStatus s ! 8"
      using at by (simp add: loop_at_def eq1)
    moreover have "length (st ! i) = 2" if "i < 8" for i
      using row(1) [OF that] tab that by (metis length_list_update less_trans table_ok_def eval_nat_numeral(3) lessI)
    ultimately show ?thesis
      using at tab unfolding table_ok_def loop_at_def by (metis less_antisym eval_nat_numeral(3) lessI)
  qed
  have shows': "shows_record L (B j) j s'" if "j < 2" "j < Suc n" for j
  proof (cases "j = ?k")
    case True
    then show ?thesis
      using row(3) by (simp add: shows_record_def eq')
  next
    case False
    have two: "B 0 \<noteq> B 1"
      using ok by (simp add: screen_ok_def)
    have "j = 0 \<and> ?k = 1 \<or> j = 1 \<and> ?k = 0"
      using False that(1) by linarith
    then have other: "B j \<noteq> B ?k"
      using two by metis
    have free: "B j \<notin> image_buffers (images s)"
      using ok that(1) by (simp add: screen_ok_def)
    have "j < n"
      using that False by (cases "j = n") auto
    then have "shows_record L (B j) j s"
      using ok that(1) by (simp add: screen_ok_def)
    moreover have "st ! i ! j = locElementOldStatus s ! i ! j" if "i < 8" for i
      using row(1) [OF that] False by (metis nth_list_update_neq)
    moreover have "shown h (B j) (corner L i) = shown h1 (B j) (corner L i)" if "i < 8" for i
      using at h h2 that other by (simp add: loop_at_def same_icons_def)
    moreover have "shown h1 (B j) (corner L i) = shown (calls s) (B j) (corner L i)" if "i < 8" for i
      using h1(2) that other free by blast
    ultimately show ?thesis
      by (simp add: shows_record_def eq')
  qed
  have "screen_ok L B (Suc n) s'"
  proof -
    have "on_counter s' = of_nat (Suc n)" if "Suc n < 2"
      using ok that by (simp add: eq' screen_ok_def next_count_def)
    moreover have "needle_ok (NeedleSpeed s')"
      unfolding eq' using next_speed_ok [OF n3] car eq3 by simp
    ultimately show ?thesis
      using ok tab' shows' a3 unfolding screen_ok_def eq' by simp
  qed
  moreover have "target h = Some (B ?k)"
    using at h by (simp add: loop_at_def same_icons_def)
  moreover have "follows n s s' i" if "i < 8" for i
    using row(2) [OF that] frame_few [OF n] by (auto simp: follows_def settled_icon_def wanted_def recorded_def k2 eq1 eq')
  ultimately show ?thesis
    using run eq' by blast
qed

end
