(* ===== verification/Cluster.thy ===== *)
theory Cluster
  imports Frame
begin

text \<open>
  The cluster application: initialisation, frame and release (\<^verbatim>\<open>app_cluster.c\<close>), the interface
  functions of \<^verbatim>\<open>demo_cluster.c\<close>, and window manager, drawing library and main loop
  (\<^verbatim>\<open>2dwow_main.c\<close>). The main loop runs as long as the libraries report no error, so it is a
  \<open>partial_function\<close>: the result \<open>None\<close> means that it never ends.
\<close>

section \<open>State\<close>

record 'd app =
  screen :: "'d screen"
  u32Timer :: u32
  prim_dsp :: display
  loc_Surf :: r_wm_Surface_t
  loc_VidFramebuffer :: "u32 list"
  fb :: r_drw2d_Framebuffer_t

definition ask :: "library \<Rightarrow> call \<Rightarrow> 'd app \<Rightarrow> u32 \<times> 'd app" where
  "ask L c a = (let (r, s) = invoke L c (screen a) in (r, a\<lparr>screen := s\<rparr>))"

definition print_log :: "library \<Rightarrow> string \<Rightarrow> 'd app \<Rightarrow> 'd app" where
  "print_log L msg a = snd (ask L (R_PRINT_Log msg) a)"

definition print_if :: "library \<Rightarrow> bool \<Rightarrow> string \<Rightarrow> 'd app \<Rightarrow> 'd app" where
  "print_if L bad msg a = (if bad then print_log L msg a else a)"

section \<open>The application (app\_cluster.c, demo\_cluster.c)\<close>

text \<open>The update divisor is zero in this build, so the car model advances in every frame.\<close>

definition RenderAppCluster :: "library \<Rightarrow> 'd app \<Rightarrow> screen_error + 'd app" where
  "RenderAppCluster L a =
     andthen (RenderClGaugeScreen L (screen a)) (\<lambda>s.
     andthen (map_sum CarError id (CarModelUpdate (car s))) (\<lambda>c.
     Inr (a\<lparr>screen := s\<lparr>car := c\<rparr>, u32Timer := 1\<rparr>)))"

definition InitAppCluster :: "'d dhd \<Rightarrow> u32 \<Rightarrow> 'd app \<Rightarrow> screen_error + 'd app" where
  "InitAppCluster D base a =
     (let s = screen a; g = images s;
          s = s\<lparr>images := g\<lparr>filesys := snd (eeRomFs_Init RomFileSystemData (filesys g))\<rparr>\<rparr>
      in andthen (GaugeScreenInit D base s) (\<lambda>s.
         Inr (a\<lparr>screen := s\<lparr>car := InitCarModel (car s)\<rparr>\<rparr>)))"

definition DeInitAppCluster :: "'d dhd \<Rightarrow> 'd app \<Rightarrow> 'd app" where
  "DeInitAppCluster D a =
     (let s = screen a;
          s = GaugeScreenDeInit D (s\<lparr>car := DeInitCarModel (car s)\<rparr>);
          g = images s
      in a\<lparr>screen := s\<lparr>images := g\<lparr>filesys := snd (eeRomFs_DeInit (filesys g))\<rparr>\<rparr>\<rparr>)"

definition demo_init :: "'d dhd \<Rightarrow> u32 \<Rightarrow> 'd app \<Rightarrow> screen_error + int \<times> 'd app" where
  "demo_init D base a = andthen (InitAppCluster D base a) (\<lambda>a. Inr (1, a))"

definition demo_render :: "library \<Rightarrow> bool \<Rightarrow> int \<Rightarrow> 'd app \<Rightarrow> screen_error + int \<times> 'd app" where
  "demo_render L first state a = andthen (RenderAppCluster L a) (\<lambda>a. Inr (1, a))"

definition demo_shutdown :: "'d dhd \<Rightarrow> 'd app \<Rightarrow> 'd app" where
  "demo_shutdown D a = DeInitAppCluster D a"

section \<open>Window manager and drawing library (2dwow\_main.c)\<close>

abbreviation LOC_MAX_DISP_HEIGHT :: u32 where "LOC_MAX_DISP_HEIGHT \<equiv> 720"
abbreviation MAX_NR_FBUF :: nat where "MAX_NR_FBUF \<equiv> 2"
abbreviation ALLOC_ALIGN :: u32 where "ALLOC_ALIGN \<equiv> 128"
abbreviation ALLOC_SIZE :: u32 where "ALLOC_SIZE \<equiv> 1024 * 1024 * 32"
abbreviation MUTEX_TIMEOUT_MS :: u32 where "MUTEX_TIMEOUT_MS \<equiv> 1000"
abbreviation LOC_COM_THREAD_STACK_SIZE :: u32 where "LOC_COM_THREAD_STACK_SIZE \<equiv> 0x4000"
abbreviation LOC_XMAINLOOP_STACKSIZE :: u32 where "LOC_XMAINLOOP_STACKSIZE \<equiv> 0x4000"

text \<open>The label \<^verbatim>\<open>deinit\<close>, reached with the result -1, and the calls that jump to it when they fail.\<close>

definition wm_deinit :: "library \<Rightarrow> 'd app \<Rightarrow> int \<times> 'd app" where
  "wm_deinit L a =
     (let (r, a) = ask L (R_WM_DevDeinit (prim_dsp a)) a
      in (-1, print_if L (r \<noteq> 0) ''R_WM_DevDeinit failed'' a))"

definition wm_try :: "library \<Rightarrow> call \<Rightarrow> string \<Rightarrow> 'd app \<Rightarrow> (int \<times> 'd app) + 'd app" where
  "wm_try L c msg a =
     (let (r, a) = ask L c a in if r \<noteq> 0 then Inl (wm_deinit L (print_log L msg a)) else Inr a)"

text \<open>When a property of the surface cannot be set, the surface is released first.\<close>

definition wm_try_surface :: "library \<Rightarrow> surface_property \<Rightarrow> string \<Rightarrow> 'd app \<Rightarrow> (int \<times> 'd app) + 'd app" where
  "wm_try_surface L p msg a =
     (let (r, a) = ask L (R_WM_SurfacePropertySet (prim_dsp a) p (loc_Surf a)) a
      in if r \<noteq> 0 then Inl (wm_deinit L (print_log L msg (snd (ask L (R_WM_SurfaceRelease (prim_dsp a)) a)))) else Inr a)"

definition wm_screen :: "library \<Rightarrow> 'd app \<Rightarrow> (int \<times> 'd app) + 'd app" where
  "wm_screen L a =
     (let d = prim_dsp a;
          (r, a) = ask L (R_WM_DevInit d) a
      in if r \<noteq> 0 then Inl (-1, print_log L ''R_WM_DevInit failed'' a) else
      andthen (wm_try L (R_WM_ScreenPropertySet d R_WM_SCREEN_PROP_FMT) ''R_WM_ScreenPropertySet, FMT Set failed'' a) (\<lambda>a.
      andthen (wm_try L (R_WM_ScreenPropertySet d (R_WM_SCREEN_PROP_BKGCOLOR 0))
                 ''R_WM_ScreenPropertySet, BKGCOLOR Set failed'' a) (\<lambda>a.
      let (w, h) = screen_size L (calls (screen a)) in
      andthen (wm_try L (R_WM_DevInfoGet d) ''R_WM_DevInfoGet FAILED'' a) (\<lambda>a.
      let surf = (loc_Surf a)\<lparr>srf_Width := w, srf_Height := h\<rparr>;
          surf = (if srf_StrideY surf = 0 then surf\<lparr>srf_StrideY := w * 4, srf_StrideC := w * 4\<rparr> else surf)
      in wm_try L (R_WM_ScreenEnable d) ''R_WM_ScreenEnable failed'' (a\<lparr>loc_Surf := surf\<rparr>)))))"

definition wm_surface :: "library \<Rightarrow> 'd app \<Rightarrow> (int \<times> 'd app) + 'd app" where
  "wm_surface L a =
     (let surf = loc_Surf a;
          surf = (if LOC_MAX_DISP_HEIGHT < srf_Height surf then surf\<lparr>srf_Height := LOC_MAX_DISP_HEIGHT\<rparr> else surf)
      in
      andthen (wm_try L (R_WM_SurfaceGet (prim_dsp a) surf) ''R_WM_SurfaceGet failed'' (a\<lparr>loc_Surf := surf\<rparr>)) (\<lambda>a.
      andthen (wm_try_surface L R_WM_SURF_PROP_POS ''R_WM_SurfacePropertySet: set position failed''
                 (print_log L ''R_WM_SurfaceGet'' a)) (\<lambda>a.
      wm_try_surface L R_WM_SURF_PROP_SIZE ''R_WM_SurfacePropertySet: set Size failed'' a)))"

definition loc_WmInit :: "library \<Rightarrow> 'd app \<Rightarrow> int \<times> 'd app" where
  "loc_WmInit L a = (case andthen (wm_screen L a) (wm_surface L) of Inl failed \<Rightarrow> failed | Inr a \<Rightarrow> (0, a))"

definition Drw2DInit :: "library \<Rightarrow> 'd app \<Rightarrow> int \<times> 'd app" where
  "Drw2DInit L a =
     (let (ret, s) = invoke_all L [R_DRW2D_Init, R_DRW2D_Open, R_DRW2D_NativeDriverBegin, R_DRW2D_NativeDriverHandleGet] 0 (screen a);
          a = a\<lparr>screen := s\<rparr>
      in if ret \<noteq> 0 then (1, print_log L ''error init drw2d'' a) else (0, a))"

definition Drw2DDeinit :: "library \<Rightarrow> 'd app \<Rightarrow> int \<times> 'd app" where
  "Drw2DDeinit L a = (0, snd (ask L R_DRW2D_NativeDriverEnd a))"

text \<open>One round of the loop that allocates the frame buffers.\<close>

definition alloc_framebuffer :: "library \<Rightarrow> u32 \<Rightarrow> nat \<Rightarrow> int \<times> 'd app \<Rightarrow> int \<times> 'd app" where
  "alloc_framebuffer L siz i ra =
     (let (ret, a) = ra;
          (r, a) = ask L (R_OSAL_MmngrAlloc siz ALLOC_ALIGN i) a
      in if r \<noteq> 0 then (-1, print_log L ''Error R_OSAL_MmngrAlloc failer'' a) else
      let adr = hw_address L (calls (screen a)) i;
          (r, a) = ask L (R_OSAL_MmngrGetHwAddr i) a
      in if r \<noteq> 0 then (-1, print_log L ''Error R_OSAL_MmngrGetHwAddr failer'' a)
         else (ret, a\<lparr>loc_VidFramebuffer := (loc_VidFramebuffer a)[i := adr]\<rparr>))"

text \<open>The steps before the window manager: the display of the chip is chosen.\<close>

definition choose_display :: "library \<Rightarrow> 'd app \<Rightarrow> 'd app" where
  "choose_display L a =
     (let a = print_log L ''CR7 START'' a;
          e3 = is_e3 L (calls (screen a));
          (_, a) = ask L R_PRR_GetDevice a
      in print_log L ''about WM init'' (a\<lparr>prim_dsp := (if e3 then R_WM_DEV_VOUT0 else R_WM_DEV_VOUT1)\<rparr>))"

definition AppInit :: "library \<Rightarrow> 'd dhd \<Rightarrow> u32 \<Rightarrow> 'd app \<Rightarrow> screen_error + int \<times> 'd app" where
  "AppInit L D base a =
     (let (ret, a) = loc_WmInit L (choose_display L a);
          (ret, a) =
            (if ret = -1 then (ret, print_log L ''WM init err'' a)
             else if g_hndl_mmngr L then
               fold (alloc_framebuffer L (srf_Width (loc_Surf a) * srf_Height (loc_Surf a) * 4)) [0 ..< MAX_NR_FBUF] (ret, a)
             else (-1, print_log L ''Error/MMNGR!!'' a));
          a = print_log L ''WM init done'' a
      in if ret \<noteq> -1 then
           (let (_, a) = Drw2DInit L a in
            andthen (demo_init D base a) (\<lambda>(_, a).
            let surf = loc_Surf a;
                a = a\<lparr>fb :=
                      \<lparr>fb_Flags = 0, fb_Handle = 0, fb_Buffer =
                         \<lparr>buf_Pitch = srf_Width surf, buf_Width = srf_Width surf, buf_Height = srf_Height surf,
                          buf_PixelFormat = R_DRW2D_PIXELFORMAT_ARGB8888, buf_Data = Null\<rparr>\<rparr>\<rparr>
            in Inr (ret, print_log L ''App Init done'' a)))
         else Inr (ret, a))"

definition AppDeInit :: "library \<Rightarrow> 'd dhd \<Rightarrow> 'd app \<Rightarrow> 'd app" where
  "AppDeInit L D a =
     (let (r, a) = ask L (R_WM_SurfaceRelease (prim_dsp a)) a;
          a = print_if L (r \<noteq> 0) ''R_WM_SurfaceRelease failed'' a;
          (r, a) = ask L (R_WM_DevDeinit (prim_dsp a)) a;
          a = print_if L (r \<noteq> 0) ''R_WM_DevDeinit failed'' a;
          a = print_log L ''loc_MainLoop END'' a
      in snd (Drw2DDeinit L (demo_shutdown D a)))"

section \<open>The main loop (2dwow\_main.c)\<close>

text \<open>The body of the loop; the results of the calls are collected in \<open>ret\<close> and \<open>wmErr\<close>.\<close>

definition app_frame :: "library \<Rightarrow> u32 \<Rightarrow> u32 \<times> u32 \<times> 'd app \<Rightarrow> screen_error + u32 \<times> u32 \<times> 'd app" where
  "app_frame L cnt st =
     (let (ret, wmErr, a) = st;
          idx = (if cnt mod 2 = 1 then 1 else 0);
          adr = loc_VidFramebuffer a ! idx;
          f = (fb a)\<lparr>fb_Buffer := (fb_Buffer (fb a))\<lparr>buf_Data := ptr_of adr\<rparr>\<rparr>;
          (r1, a) = ask L (R_DRW2D_FramebufferSet f) (a\<lparr>fb := f\<rparr>);
          a = a\<lparr>screen := demo_set_fb f (screen a)\<rparr>
      in andthen (demo_render L (cnt = 0) 0 a) (\<lambda>(_, a).
      let (r2, a) = ask L R_DRW2D_GpuFinish a;
          surf = (loc_Surf a)\<lparr>srf_FBuf := adr\<rparr>;
          (w1, a) = ask L (R_WM_SurfacePropertySet (prim_dsp a) R_WM_SURF_PROP_BUFFER surf) (a\<lparr>loc_Surf := surf\<rparr>);
          a = print_if L (wmErr OR w1 \<noteq> 0) ''R_WM_SurfacePropertySet(), set buffer'' a;
          (w2, a) = ask L (R_WM_ScreenSurfacesFlush (prim_dsp a)) a
      in Inr (ret OR r1 OR r2, wmErr OR w1 OR w2, a)))"

partial_function (option) app_loop ::
    "library \<Rightarrow> u32 \<Rightarrow> u32 \<times> u32 \<times> 'd app \<Rightarrow> (screen_error + u32 \<times> 'd app) option" where
  "app_loop L cnt st =
     (if fst st = 0 \<and> fst (snd st) = 0
      then case app_frame L cnt st of Inl e \<Rightarrow> Some (Inl e) | Inr st' \<Rightarrow> app_loop L (cnt + 1) st'
      else Some (Inr (fst st, snd (snd st))))"

definition AppLoop :: "library \<Rightarrow> 'd dhd \<Rightarrow> u32 \<Rightarrow> 'd app \<Rightarrow> (screen_error + 'd app) option" where
  "AppLoop L D base a =
     (case AppInit L D base a of
        Inl e \<Rightarrow> Some (Inl e)
      | Inr (ret, a) \<Rightarrow> map_option (map_sum id (\<lambda>(ret, a). AppDeInit L D a)) (app_loop L 0 (of_int ret, 0, a)))"

text \<open>
  The thread that starts the drawing server and runs the main loop in another thread, which it waits
  for, and the function that creates it.
\<close>

definition main_thread :: "library \<Rightarrow> 'd dhd \<Rightarrow> u32 \<Rightarrow> 'd app \<Rightarrow> (screen_error + 'd app) option" where
  "main_thread L D base a =
     (let a = print_log L ''===START 2d cluster wow on DHD==='' a;
          (_, a) = ask L (dhd_server_main ALLOC_SIZE MUTEX_TIMEOUT_MS) a;
          (r, a) = ask L R_OSAL_ThreadInitializeThreadConfigSt a
      in case andthen (if r \<noteq> 0 then ClusterError (-1) else Inr ()) (\<lambda>_.
           let (r, a) = ask L (R_OSAL_ThreadCreate ''MainLoop'' LOC_COM_THREAD_STACK_SIZE) a
           in andthen (if r \<noteq> 0 then ClusterError (-1) else Inr ()) (\<lambda>_. Inr a)) of
           Inl e \<Rightarrow> Some (Inl (GfxError e))
         | Inr a \<Rightarrow>
             map_option (map_sum id (\<lambda>a. print_log L ''end all threads'' (snd (ask L (R_OSAL_ThreadJoin ''MainLoop'') a))))
               (AppLoop L D base a))"

definition x2dwow_main :: "library \<Rightarrow> 'd app \<Rightarrow> int \<times> 'd app" where
  "x2dwow_main L a = (0, snd (ask L (R_OSAL_ThreadCreate ''main_thread'' LOC_XMAINLOOP_STACKSIZE) a))"

section \<open>Frames\<close>

text \<open>Calls that change no picture keep the invariant.\<close>

lemma ask_eq [simp]: "ask L c a = (lib_result L (calls (screen a)) c, a\<lparr>screen := (screen a)\<lparr>calls := c # calls (screen a)\<rparr>\<rparr>)"
  by (simp add: ask_def invoke_def)

lemma print_log_eq [simp]: "print_log L msg a = a\<lparr>screen := (screen a)\<lparr>calls := R_PRINT_Log msg # calls (screen a)\<rparr>\<rparr>"
  by (simp add: print_log_def)

definition same_shown :: "library \<Rightarrow> call list \<Rightarrow> call list \<Rightarrow> bool" where
  "same_shown L h h' \<longleftrightarrow> (\<forall>b. \<forall>i < 8. shown h' b (corner L i) = shown h b (corner L i))"

lemma screen_ok_same:
  assumes "screen_ok L B n s" "same_shown L (calls s) h"
  shows "screen_ok L B n (s\<lparr>calls := h, car := c, demo_cur_fb := f\<rparr>)"
  using assms by (simp add: screen_ok_def shows_record_def same_shown_def)

text \<open>The calls of the main loop whose results end it.\<close>

definition frame_calls_succeed :: "library \<Rightarrow> bool" where
  "frame_calls_succeed L \<longleftrightarrow>
     (\<forall>h f d p x. lib_result L h (R_DRW2D_FramebufferSet f) = 0 \<and> lib_result L h R_DRW2D_GpuFinish = 0
        \<and> lib_result L h (R_WM_SurfacePropertySet d p x) = 0 \<and> lib_result L h (R_WM_ScreenSurfacesFlush d) = 0)"

abbreviation buffers :: "'d app \<Rightarrow> nat \<Rightarrow> ptr" where
  "buffers a j \<equiv> ptr_of (loc_VidFramebuffer a ! j)"

text \<open>The application after \<open>n\<close> frames.\<close>

definition app_ok :: "library \<Rightarrow> nat \<Rightarrow> 'd app \<Rightarrow> bool" where
  "app_ok L n a \<longleftrightarrow> screen_ok L (buffers a) n (screen a) \<and> frames n = Inr (car (screen a))"

lemma frame_parity: "n < 2 ^ 32 \<Longrightarrow> (if (of_nat n :: u32) mod 2 = 1 then 1 else 0) = n mod 2"
proof -
  assume n: "n < 2 ^ 32"
  have "(of_nat n :: u32) mod 2 = 1 \<longleftrightarrow> unat ((of_nat n :: u32) mod 2) = unat (1 :: u32)"
    by (simp only: word_unat_eq_iff)
  also have "\<dots> \<longleftrightarrow> n mod 2 = 1"
    using n by (simp add: unat_mod unat_of_nat)
  finally show ?thesis
    by auto
qed

text \<open>The state in which frame \<open>n\<close> is drawn, and the drawing.\<close>

lemma frame_drawn:
  assumes L: "fixed_point L" "trig_ok L" and a: "app_ok L n a" and n: "int n \<le> INT_MAX"
  obtains f s where "buf_Data (fb_Buffer f) = buffers a (n mod 2)"
    and "RenderClGaugeScreen L ((screen a)\<lparr>calls := R_DRW2D_FramebufferSet f # calls (screen a), demo_cur_fb := f\<rparr>) = Inr s"
    and "f = (fb a)\<lparr>fb_Buffer := (fb_Buffer (fb a))\<lparr>buf_Data := buffers a (n mod 2)\<rparr>\<rparr>"
    and "screen_ok L (buffers a) (Suc n) s" "car s = car (screen a)" "\<forall>i < 8. follows n (screen a) s i"
proof -
  let ?f = "(fb a)\<lparr>fb_Buffer := (fb_Buffer (fb a))\<lparr>buf_Data := buffers a (n mod 2)\<rparr>\<rparr>"
  let ?s = "(screen a)\<lparr>calls := R_DRW2D_FramebufferSet ?f # calls (screen a), demo_cur_fb := ?f\<rparr>"
  have n': "n < 2 ^ 32"
    using n by (simp add: INT_MAX_def)
  have car: "driving (car ?s)" "others_ok (car ?s)"
    using frames_ok [OF n] a by (auto simp: app_ok_def)
  have "same_shown L (calls (screen a)) (R_DRW2D_FramebufferSet ?f # calls (screen a))"
    by (simp add: same_shown_def touches_def)
  then have ok: "screen_ok L (buffers a) n ?s"
    using screen_ok_same [where c = "car (screen a)" and f = ?f, of L "buffers a" n "screen a"] a
    by (simp add: app_ok_def)
  have "target (calls ?s) = Some (buffers a (n mod 2))" "current ?s = buffers a (n mod 2)"
    by simp_all
  from frame_ok [OF L ok n' car this] obtain s where
    s: "RenderClGaugeScreen L ?s = Inr s" "screen_ok L (buffers a) (Suc n) s" "car s = car ?s" "\<forall>i < 8. follows n ?s s i"
    by blast
  have "follows n ?s s = follows n (screen a) s"
    by (simp add: follows_def wanted_def fun_eq_iff)
  then show ?thesis
    using s by (intro that [of ?f s]) simp_all
qed

lemma app_frame_ok:
  assumes L: "fixed_point L" "trig_ok L" "frame_calls_succeed L" and a: "app_ok L n a" and n: "int n < INT_MAX"
  shows "\<exists>a'. app_frame L (of_nat n) (0, 0, a) = Inr (0, 0, a') \<and> app_ok L (Suc n) a'
    \<and> loc_VidFramebuffer a' = loc_VidFramebuffer a \<and> srf_FBuf (loc_Surf a') = loc_VidFramebuffer a ! (n mod 2)
    \<and> (\<forall>i < 8. follows n (screen a) (screen a') i)"
proof -
  have n': "int n \<le> INT_MAX"
    using n by simp
  obtain f s where f: "f = (fb a)\<lparr>fb_Buffer := (fb_Buffer (fb a))\<lparr>buf_Data := buffers a (n mod 2)\<rparr>\<rparr>"
    and s: "RenderClGaugeScreen L ((screen a)\<lparr>calls := R_DRW2D_FramebufferSet f # calls (screen a), demo_cur_fb := f\<rparr>) = Inr s"
      "screen_ok L (buffers a) (Suc n) s" "car s = car (screen a)" "\<forall>i < 8. follows n (screen a) s i"
    by (rule frame_drawn [OF L(1,2) a n']) (rule that; assumption)
  obtain c where c: "frames (Suc n) = Inr c"
    using frames_ok [of "Suc n"] n by auto
  then have u: "CarModelUpdate (car s) = Inr c"
    using a s(3) by (simp add: app_ok_def)
  have "n < 2 ^ 32"
    using n by (simp add: INT_MAX_def)
  note idx = frame_parity [OF this]
  let ?surf = "(loc_Surf a)\<lparr>srf_FBuf := loc_VidFramebuffer a ! (n mod 2)\<rparr>"
  let ?h = "R_WM_ScreenSurfacesFlush (prim_dsp a) # R_WM_SurfacePropertySet (prim_dsp a) R_WM_SURF_PROP_BUFFER ?surf
    # R_DRW2D_GpuFinish # calls s"
  let ?a = "a\<lparr>screen := s\<lparr>calls := ?h, car := c\<rparr>, u32Timer := 1, loc_Surf := ?surf, fb := f\<rparr>"
  have render: "demo_render L x y (a\<lparr>fb := f, screen := (screen a)\<lparr>calls := R_DRW2D_FramebufferSet f # calls (screen a), demo_cur_fb := f\<rparr>\<rparr>)
      = Inr (1, a\<lparr>fb := f, screen := s\<lparr>car := c\<rparr>, u32Timer := 1\<rparr>)" for x y
    using s(1) u by (simp add: demo_render_def RenderAppCluster_def)
  have ok: "lib_result L h (R_DRW2D_FramebufferSet g) = 0" "lib_result L h R_DRW2D_GpuFinish = 0"
    "lib_result L h (R_WM_SurfacePropertySet d p x) = 0" "lib_result L h (R_WM_ScreenSurfacesFlush d) = 0" for h g d p x
    using L(3) unfolding frame_calls_succeed_def by blast+
  have run: "app_frame L (of_nat n) (0, 0, a) = Inr (0, 0, ?a)"
    unfolding app_frame_def prod.case idx Let_def f [symmetric]
    by (simp add: render ok demo_set_fb_def print_if_def)
  have "same_shown L (calls s) ?h"
    by (simp add: same_shown_def touches_def)
  from screen_ok_same [OF s(2) this, where c = c and f = "demo_cur_fb s"] have "app_ok L (Suc n) ?a"
    using c by (simp add: app_ok_def)
  moreover have "follows n (screen a) (screen ?a) i" if "i < 8" for i
    using s(4) that by (simp add: follows_def)
  ultimately show ?thesis
    using run by (intro exI [of _ ?a]) simp
qed

section \<open>The main loop\<close>

fun app_frames :: "library \<Rightarrow> nat \<Rightarrow> 'd app \<Rightarrow> screen_error + u32 \<times> u32 \<times> 'd app" where
  "app_frames L 0 a = Inr (0, 0, a)"
| "app_frames L (Suc n) a = andthen (app_frames L n a) (app_frame L (of_nat n))"

lemma app_loop_next:
  "app_frame L cnt (0, 0, a) = Inr st \<Longrightarrow> app_loop L cnt (0, 0, a) = app_loop L (cnt + 1) st"
  by (simp add: app_loop.simps [of L cnt "(0, 0, a)"])

lemma app_loop_stop:
  "app_frame L cnt (0, 0, a) = Inl e \<Longrightarrow> app_loop L cnt (0, 0, a) = Some (Inl e)"
  by (simp add: app_loop.simps [of L cnt "(0, 0, a)"])

lemma app_frames_ok:
  assumes L: "fixed_point L" "trig_ok L" "frame_calls_succeed L" and a: "app_ok L 0 a"
  shows "int n \<le> INT_MAX \<Longrightarrow> \<exists>a'. app_frames L n a = Inr (0, 0, a') \<and> app_ok L n a'
    \<and> loc_VidFramebuffer a' = loc_VidFramebuffer a \<and> app_loop L 0 (0, 0, a) = app_loop L (of_nat n) (0, 0, a')"
proof (induction n)
  case 0
  then show ?case
    using a by simp
next
  case (Suc n)
  then obtain a1 where 1: "app_frames L n a = Inr (0, 0, a1)" "app_ok L n a1" "loc_VidFramebuffer a1 = loc_VidFramebuffer a"
    "app_loop L 0 (0, 0, a) = app_loop L (of_nat n) (0, 0, a1)"
    by auto
  have "int n < INT_MAX"
    using Suc.prems by simp
  from app_frame_ok [OF L 1(2) this] obtain a2 where
    2: "app_frame L (of_nat n) (0, 0, a1) = Inr (0, 0, a2)" "app_ok L (Suc n) a2" "loc_VidFramebuffer a2 = loc_VidFramebuffer a1"
    by blast
  have "app_loop L 0 (0, 0, a) = app_loop L (of_nat (Suc n)) (0, 0, a2)"
    using 1(4) app_loop_next [OF 2(1)] by (simp add: add.commute)
  then show ?case
    using 1 2 by (intro exI [of _ a2]) simp
qed

lemma app_frame_overflow:
  assumes L: "fixed_point L" "trig_ok L" and a: "app_ok L n a" and n: "int n = INT_MAX"
  shows "app_frame L (of_nat n) (0, 0, a) = Inl (CarError SignedOverflow)"
proof -
  have n': "int n \<le> INT_MAX"
    using n by simp
  obtain f s where f: "f = (fb a)\<lparr>fb_Buffer := (fb_Buffer (fb a))\<lparr>buf_Data := buffers a (n mod 2)\<rparr>\<rparr>"
    and s: "RenderClGaugeScreen L ((screen a)\<lparr>calls := R_DRW2D_FramebufferSet f # calls (screen a), demo_cur_fb := f\<rparr>) = Inr s"
      "car s = car (screen a)"
    by (rule frame_drawn [OF L(1,2) a n']) (rule that; assumption)
  have "CarModelUpdate (car s) = Inl SignedOverflow"
    using frames_ok [OF n'] a n by (intro update_overflow) (auto simp: app_ok_def s(2))
  then have render: "demo_render L x y (a\<lparr>fb := f, screen := (screen a)\<lparr>calls := R_DRW2D_FramebufferSet f # calls (screen a), demo_cur_fb := f\<rparr>\<rparr>)
      = Inl (CarError SignedOverflow)" for x y
    using s(1) by (simp add: demo_render_def RenderAppCluster_def)
  have "n < 2 ^ 32"
    using n by (simp add: INT_MAX_def)
  from frame_parity [OF this] show ?thesis
    by (simp add: app_frame_def Let_def f [symmetric] render demo_set_fb_def)
qed


definition sample_app :: "unit app" where
  "sample_app =
     \<lparr>screen = sample_screen, u32Timer = 0, prim_dsp = R_WM_DEV_VOUT1,
      loc_Surf = \<lparr>srf_PosX = 0, srf_PosY = 0, srf_PosZ = 0, srf_Width = 1920, srf_Height = 720,
        srf_StrideY = 7680, srf_StrideC = 7680, srf_FBuf = 0\<rparr>,
      loc_VidFramebuffer = [0x90000000, 0x98000000], fb = sample_fb 0\<rparr>"

lemma sample_app_ok: "app_ok sample_library 0 sample_app"
proof -
  have "image_buffers sample_images \<subseteq> {Addr 0x80000000}"
    by (auto simp: image_buffers_def pixels_at_def sample_images_def)
  moreover have "buffers sample_app j \<noteq> Addr 0x80000000" if "j < 2" for j
    using that by (auto simp: less_2_cases_iff sample_app_def ptr_of_def)
  ultimately have "\<forall>j < 2. buffers sample_app j \<notin> image_buffers sample_images"
    by blast
  moreover have "buffers sample_app 0 \<noteq> buffers sample_app 1"
    by (simp add: sample_app_def ptr_of_def)
  moreover have "table_ok (replicate 9 [0, 0])"
    by (simp add: table_ok_def)
  moreover have "needle_ok (locInitNeedlePosition 210)"
    by (simp add: needle_ok_def locInitNeedlePosition_def)
  moreover have "screen sample_app = sample_screen"
    by (simp add: sample_app_def)
  ultimately show ?thesis
    using sample_ready by (simp add: app_ok_def screen_ok_def sample_screen_def)
qed

lemma sample_library_ok: "trig_ok sample_library" "frame_calls_succeed sample_library"
  by (simp_all add: trig_ok_def frame_calls_succeed_def sample_library_def)




section \<open>The window manager\<close>

text \<open>
  From the calls, the display device is initialised (first component) and a surface is held (second
  component). A release of something that is not held is a misuse.
\<close>

primrec wm_held :: "library \<Rightarrow> call list \<Rightarrow> bool \<times> bool" where
  "wm_held L [] = (False, False)"
| "wm_held L (c # h) =
     (case c of
        R_WM_DevInit d \<Rightarrow> (fst (wm_held L h) \<or> lib_result L h c = 0, snd (wm_held L h))
      | R_WM_DevDeinit d \<Rightarrow> (False, snd (wm_held L h))
      | R_WM_SurfaceGet d x \<Rightarrow> (fst (wm_held L h), snd (wm_held L h) \<or> lib_result L h c = 0)
      | R_WM_SurfaceRelease d \<Rightarrow> (fst (wm_held L h), False)
      | _ \<Rightarrow> wm_held L h)"

primrec wm_misused :: "library \<Rightarrow> call list \<Rightarrow> bool" where
  "wm_misused L [] = False"
| "wm_misused L (c # h) \<longleftrightarrow>
     (case c of
        R_WM_DevDeinit d \<Rightarrow> \<not> fst (wm_held L h)
      | R_WM_SurfaceRelease d \<Rightarrow> \<not> snd (wm_held L h)
      | _ \<Rightarrow> False) \<or> wm_misused L h"

definition wm_state :: "library \<Rightarrow> 'd app \<Rightarrow> bool \<times> bool \<times> bool" where
  "wm_state L a = (fst (wm_held L (calls (screen a))), snd (wm_held L (calls (screen a))), wm_misused L (calls (screen a)))"

text \<open>What the result of a step says of the state: failed with everything released, or in state \<open>w\<close>.\<close>

definition wm_result :: "library \<Rightarrow> bool \<Rightarrow> bool \<times> bool \<times> bool \<Rightarrow> (int \<times> 'd app) + 'd app \<Rightarrow> bool" where
  "wm_result L m w r \<longleftrightarrow>
     (case r of
        Inl (ret, a) \<Rightarrow> ret = -1 \<and> wm_state L a = (False, False, m)
      | Inr a \<Rightarrow> wm_state L a = w \<and> (snd (snd w) = m) \<and> (fst (snd w) \<longrightarrow> srf_Height (loc_Surf a) \<le> 720))"

lemma wm_result_then:
  assumes "wm_result L m w r" "\<And>a. wm_result L m w (Inr a) \<Longrightarrow> wm_result L m w' (f a)"
  shows "wm_result L m w' (andthen r f)"
proof (cases r)
  case (Inl e)
  then show ?thesis
    using assms(1) by (simp add: wm_result_def)
next
  case (Inr a)
  then show ?thesis
    using assms by simp
qed

lemma wm_deinit_result: "wm_state L a = (x, False, m) \<Longrightarrow> x \<Longrightarrow> wm_result L m w (Inl (wm_deinit L a))"
  by (simp add: wm_result_def wm_deinit_def wm_state_def print_if_def)

definition wm_neutral :: "call \<Rightarrow> bool" where
  "wm_neutral c \<longleftrightarrow>
     (case c of R_WM_DevInit d \<Rightarrow> False | R_WM_DevDeinit d \<Rightarrow> False | R_WM_SurfaceGet d x \<Rightarrow> False
      | R_WM_SurfaceRelease d \<Rightarrow> False | _ \<Rightarrow> True)"

lemma wm_neutral_state:
  "wm_neutral c \<Longrightarrow> wm_state L (a\<lparr>screen := (screen a)\<lparr>calls := c # calls (screen a)\<rparr>\<rparr>) = wm_state L a"
  by (auto simp: wm_neutral_def wm_state_def split: call.splits)

lemma wm_try_result:
  assumes "wm_state L a = (True, False, m)" "wm_neutral c"
  shows "wm_result L m (True, False, m) (wm_try L c msg a)"
proof -
  have "wm_state L (print_log L msg (snd (ask L c a))) = (True, False, m)"
    using assms wm_neutral_state [of c L a] wm_neutral_state [of "R_PRINT_Log msg" L "snd (ask L c a)"]
    by (simp add: wm_neutral_def)
  then show ?thesis
    using wm_deinit_result [of L "print_log L msg (snd (ask L c a))"] assms wm_neutral_state [of c L a]
    by (simp add: wm_try_def wm_result_def)
qed

lemma wm_try_surface_result:
  assumes "wm_state L a = (True, True, m)" "srf_Height (loc_Surf a) \<le> 720"
  shows "wm_result L m (True, True, m) (wm_try_surface L p msg a)"
proof -
  let ?c = "R_WM_SurfacePropertySet (prim_dsp a) p (loc_Surf a)"
  let ?a = "snd (ask L ?c a)"
  have 1: "wm_state L ?a = (True, True, m)"
    using assms wm_neutral_state [of ?c L a] by (simp add: wm_neutral_def)
  then have "wm_state L (print_log L msg (snd (ask L (R_WM_SurfaceRelease (prim_dsp ?a)) ?a))) = (True, False, m)"
    by (simp add: wm_state_def)
  then show ?thesis
    using wm_deinit_result [of L "print_log L msg (snd (ask L (R_WM_SurfaceRelease (prim_dsp ?a)) ?a))"] 1 assms(2)
    by (simp add: wm_try_surface_def wm_result_def)
qed

lemma wm_state_surf [simp]: "wm_state L (a\<lparr>loc_Surf := x\<rparr>) = wm_state L a"
  by (simp add: wm_state_def)

lemma wm_try_chain:
  assumes "wm_result L m (True, False, m) r"
    and "\<And>a. wm_state L a = (True, False, m) \<Longrightarrow> wm_result L m (True, False, m) (f a)"
  shows "wm_result L m (True, False, m) (andthen r f)"
  using assms by (intro wm_result_then [OF assms(1)]) (simp add: wm_result_def [of _ _ _ "Inr _"])

lemma wm_screen_result:
  assumes "wm_state L a = (False, False, m)"
  shows "wm_result L m (True, False, m) (wm_screen L a)"
proof -
  let ?c = "R_WM_DevInit (prim_dsp a)"
  let ?a = "snd (ask L ?c a)"
  show ?thesis
  proof (cases "fst (ask L ?c a) = 0")
    case True
    then have "wm_state L ?a = (True, False, m)"
      using assms by (simp add: wm_state_def)
    then show ?thesis
      using True unfolding wm_screen_def Let_def ask_eq prod.case fst_conv snd_conv
      by (auto intro!: wm_try_chain wm_try_result simp: wm_neutral_def split: prod.split)
  next
    case False
    then show ?thesis
      using assms by (simp add: wm_screen_def wm_result_def wm_state_def Let_def)
  qed
qed

lemma wm_surface_result:
  assumes "wm_state L a = (True, False, m)"
  shows "wm_result L m (True, True, m) (wm_surface L a)"
proof -
  define surf where "surf = (if LOC_MAX_DISP_HEIGHT < srf_Height (loc_Surf a)
    then (loc_Surf a)\<lparr>srf_Height := LOC_MAX_DISP_HEIGHT\<rparr> else loc_Surf a)"
  let ?c = "R_WM_SurfaceGet (prim_dsp a) surf"
  let ?a = "a\<lparr>loc_Surf := surf\<rparr>"
  have h: "srf_Height surf \<le> 720"
    by (auto simp: surf_def not_less)
  have "wm_result L m (True, True, m) (wm_try L ?c ''R_WM_SurfaceGet failed'' ?a)"
  proof (cases "fst (ask L ?c ?a) = 0")
    case True
    then show ?thesis
      using assms h by (simp add: wm_try_def wm_result_def wm_state_def)
  next
    case False
    then have "wm_state L (print_log L ''R_WM_SurfaceGet failed'' (snd (ask L ?c ?a))) = (True, False, m)"
      using assms by (simp add: wm_state_def)
    then show ?thesis
      using wm_deinit_result [of L "print_log L ''R_WM_SurfaceGet failed'' (snd (ask L ?c ?a))"] False
      by (simp add: wm_try_def)
  qed
  moreover have "wm_result L m (True, True, m) (andthen
      (wm_try_surface L R_WM_SURF_PROP_POS ''R_WM_SurfacePropertySet: set position failed'' (print_log L ''R_WM_SurfaceGet'' b))
      (wm_try_surface L R_WM_SURF_PROP_SIZE ''R_WM_SurfacePropertySet: set Size failed''))"
    if "wm_result L m (True, True, m) (Inr b)" for b
  proof (rule wm_result_then)
    have "wm_state L (print_log L ''R_WM_SurfaceGet'' b) = (True, True, m)" "srf_Height (loc_Surf (print_log L ''R_WM_SurfaceGet'' b)) \<le> 720"
      using that wm_neutral_state [of "R_PRINT_Log ''R_WM_SurfaceGet''" L b] by (simp_all add: wm_result_def wm_neutral_def)
    then show "wm_result L m (True, True, m)
      (wm_try_surface L R_WM_SURF_PROP_POS ''R_WM_SurfacePropertySet: set position failed'' (print_log L ''R_WM_SurfaceGet'' b))"
      by (rule wm_try_surface_result)
  qed (simp add: wm_result_def [of _ _ _ "Inr _"] wm_try_surface_result)
  ultimately show ?thesis
    unfolding wm_surface_def Let_def surf_def [symmetric] by (rule wm_result_then)
qed

lemma wm_init_result:
  assumes "wm_state L a = (False, False, m)"
  shows "wm_result L m (True, True, m) (andthen (wm_screen L a) (wm_surface L))"
  using wm_surface_result
  by (intro wm_result_then [OF wm_screen_result [OF assms]]) (simp add: wm_result_def [of _ _ _ "Inr _"])

text \<open>
  Property C37 (wm_init_balanced): \<^verbatim>\<open>loc_WmInit\<close> either succeeds, with device and surface acquired and a surface
  of at most 720 lines, or returns -1 with everything released that it had acquired, whichever call failed.
  It releases nothing that is not held.
\<close>

theorem wm_init_balanced:
  assumes "wm_held L (calls (screen a)) = (False, False)"
  shows "\<exists>ret a'. loc_WmInit L a = (ret, a') \<and> wm_misused L (calls (screen a')) = wm_misused L (calls (screen a))
    \<and> (ret = 0 \<and> wm_held L (calls (screen a')) = (True, True) \<and> srf_Height (loc_Surf a') \<le> 720
       \<or> ret = -1 \<and> wm_held L (calls (screen a')) = (False, False))"
proof -
  have "wm_state L a = (False, False, wm_misused L (calls (screen a)))"
    using assms by (simp add: wm_state_def)
  from wm_init_result [OF this] show ?thesis
    by (auto simp: loc_WmInit_def wm_result_def wm_state_def prod_eq_iff split: sum.splits)
qed

theorem wm_init_witness:
  "\<exists>ret a'. loc_WmInit sample_library sample_app = (ret, a') \<and> \<not> wm_misused sample_library (calls (screen a'))"
proof -
  have "wm_held sample_library (calls (screen sample_app)) = (False, False)"
    "\<not> wm_misused sample_library (calls (screen sample_app))"
    by (simp_all add: sample_app_def sample_screen_def)
  with wm_init_balanced [of sample_library sample_app] show ?thesis
    by auto
qed

lemma deinit_image_calls [simp]: "calls (deinit_image D I p s) = calls s"
  by (simp add: deinit_image_def split: option.split)

lemma deinit_elements_calls: "calls (fold (deinit_element D) is s) = calls s"
  by (induction "is" arbitrary: s) (simp_all add: deinit_element_def)

lemma shutdown_calls [simp]: "calls (screen (demo_shutdown D a)) = calls (screen a)"
  by (simp add: demo_shutdown_def DeInitAppCluster_def GaugeScreenDeInit_def deinit_elements_calls Let_def)

lemma misused_more: "wm_misused L h \<Longrightarrow> wm_misused L (cs @ h)"
  by (induction cs) simp_all


definition failing_library :: library where
  "failing_library = sample_library\<lparr>lib_result := (\<lambda>h c. case c of R_WM_DevInit d \<Rightarrow> 1 | _ \<Rightarrow> 0)\<rparr>"

definition no_video :: "unit dhd" where
  "no_video = \<lparr>dhd_alloc_vidmem = (\<lambda>d n. None), dhd_free_vidmem = (\<lambda>d p. d), dhd_upload_vidmem = (\<lambda>_ _ _ m. m)\<rparr>"


section \<open>The initialisation establishes the invariant\<close>

text \<open>What the initialisation keeps of the static variables at program start.\<close>

definition at_start :: "'d screen \<Rightarrow> bool" where
  "at_start s \<longleftrightarrow> car s = car_start \<and> table_ok (locElementOldStatus s) \<and> on_counter s = 0 \<and> fuel_angle s = -1"

lemma at_start_updates [simp]:
  "at_start (s\<lparr>calls := h\<rparr>) = at_start s" "at_start (s\<lparr>images := g\<rparr>) = at_start s"
  "at_start (s\<lparr>OnBackupData := p\<rparr>) = at_start s" "at_start (s\<lparr>OffBackupData := p\<rparr>) = at_start s"
  "at_start (s\<lparr>locOldBackgroundData := q\<rparr>) = at_start s" "at_start (s\<lparr>locOldNeedleData := q\<rparr>) = at_start s"
  by (simp_all add: at_start_def)

definition wm_start :: "(int \<times> 'd app) + 'd app \<Rightarrow> bool" where
  "wm_start r \<longleftrightarrow> (case r of Inl (ret, a) \<Rightarrow> at_start (screen a) | Inr a \<Rightarrow> at_start (screen a))"

lemma wm_start_then: "wm_start r \<Longrightarrow> (\<And>a. at_start (screen a) \<Longrightarrow> wm_start (f a)) \<Longrightarrow> wm_start (andthen r f)"
  by (cases r) (simp_all add: wm_start_def)

lemma wm_start_try:
  "at_start (screen a) \<Longrightarrow> wm_start (wm_try L c msg a)" "at_start (screen a) \<Longrightarrow> wm_start (wm_try_surface L p msg a)"
  by (simp_all add: wm_start_def wm_try_def wm_try_surface_def wm_deinit_def print_if_def)

lemma wm_start_init: "at_start (screen a) \<Longrightarrow> at_start (screen (snd (loc_WmInit L a)))"
proof -
  assume a: "at_start (screen a)"
  then have "wm_start (wm_screen L a)"
    unfolding wm_screen_def Let_def ask_eq prod.case
    by (auto intro!: wm_start_then wm_start_try simp: wm_start_def [of "Inl _"] split: prod.split)
  moreover have "wm_start (wm_surface L b)" if "at_start (screen b)" for b :: "'a app"
    using that unfolding wm_surface_def Let_def by (auto intro!: wm_start_then wm_start_try)
  ultimately have "wm_start (andthen (wm_screen L a) (wm_surface L))"
    by (rule wm_start_then)
  then show ?thesis
    by (auto simp: loc_WmInit_def wm_start_def split: sum.splits)
qed

lemma alloc_start: "at_start (screen (snd ra)) \<Longrightarrow> at_start (screen (snd (alloc_framebuffer L n i ra)))"
  by (auto simp: alloc_framebuffer_def Let_def split: prod.split)

lemma init_image_start:
  "init_image D base I s = Inr (p, s') \<Longrightarrow> at_start s \<Longrightarrow> at_start s' \<and> locInit s' = locInit s \<and> locFrameCnt s' = locFrameCnt s"
  by (auto simp: init_image_def andthen_def split: option.splits sum.splits prod.splits)

lemma init_elements_start:
  "each_entry (init_element D base) is s = Inr s' \<Longrightarrow> at_start s \<Longrightarrow>
    at_start s' \<and> locInit s' = locInit s \<and> locFrameCnt s' = locFrameCnt s"
proof (induction "is" arbitrary: s)
  case (Cons i "is")
  then obtain s1 where 1: "init_element D base i s = Inr s1" "each_entry (init_element D base) is s1 = Inr s'"
    by (auto simp: andthen_def split: sum.splits)
  then have "at_start s1 \<and> locInit s1 = locInit s \<and> locFrameCnt s1 = locFrameCnt s"
    using Cons.prems(2) by (auto simp: init_element_def andthen_def split: sum.splits prod.splits dest!: init_image_start)
  then show ?case
    using Cons.IH [OF 1(2)] by simp
qed simp

lemma gauge_init_start:
  assumes "GaugeScreenInit D base s = Inr s'" "at_start s"
  shows "at_start s' \<and> locInit s' = 0 \<and> locFrameCnt s' = 0 \<and> needle_ok (NeedleSpeed s')"
proof -
  let ?s0 = "s\<lparr>locInit := 0, locFrameCnt := 0\<rparr>"
  have 0: "at_start ?s0"
    using assms(2) by (simp add: at_start_def)
  obtain p1 s1 where 1: "init_image D base (Some ClusterBackGround) ?s0 = Inr (p1, s1)"
    using assms(1) by (auto simp: GaugeScreenInit_def andthen_def split: sum.splits)
  obtain p2 s2 where 2: "init_image D base (Some ClusterNeedle) (s1\<lparr>locOldBackgroundData := p1\<rparr>) = Inr (p2, s2)"
    using assms(1) 1 by (auto simp: GaugeScreenInit_def andthen_def split: sum.splits)
  obtain s3 where 3: "each_entry (init_element D base) [0 ..< LOC_ELEMENT_NUM] (s2\<lparr>locOldNeedleData := p2\<rparr>) = Inr s3"
    using assms(1) 1 2 by (auto simp: GaugeScreenInit_def andthen_def split: sum.splits)
  have s3: "at_start s3 \<and> locInit s3 = 0 \<and> locFrameCnt s3 = 0"
    using init_image_start [OF 1 0] init_image_start [OF 2] init_elements_start [OF 3] by simp
  have "Speed (car s3) = 0"
    using s3 by (simp add: at_start_def car_start_def)
  with speed_angle [of 0] have "needle_ok (locInitNeedlePosition (locConvertSpeed2Angle (CarModelSpeedGet (car s3))))"
    by (simp add: needle_ok_def locInitNeedlePosition_def CarModelSpeedGet_def)
  then show ?thesis
    using assms(1) s3 1 2 3 by (auto simp: GaugeScreenInit_def Let_def at_start_def)
qed

lemma drw2d_start: "at_start (screen a) \<Longrightarrow> at_start (screen (snd (Drw2DInit L a)))"
proof -
  let ?cs = "[R_DRW2D_Init, R_DRW2D_Open, R_DRW2D_NativeDriverBegin, R_DRW2D_NativeDriverHandleGet]"
  assume "at_start (screen a)"
  moreover obtain ret where "invoke_all L ?cs 0 (screen a) = (ret, (screen a)\<lparr>calls := rev ?cs @ calls (screen a)\<rparr>)"
    using invoke_all_pair by blast
  ultimately show ?thesis
    by (simp add: Drw2DInit_def Let_def del: invoke_all.simps)
qed

text \<open>
  A successful \<^verbatim>\<open>AppInit\<close> that has loaded all images establishes the invariant, if the two frame buffers
  differ from each other and from the buffers of the icons.
\<close>

lemma app_init_ok:
  assumes "AppInit L D base a = Inr (0, a')" and "at_start (screen a)"
    and "images_ready (images (screen a'))" and "buffers a' 0 \<noteq> buffers a' 1"
    and "\<forall>j < 2. buffers a' j \<notin> image_buffers (images (screen a'))"
  shows "app_ok L 0 a'"
proof -
  obtain r1 a1 where 1: "loc_WmInit L (choose_display L a) = (r1, a1)"
    by (rule prod.exhaust)
  have "at_start (screen (choose_display L a))"
    using assms(2) by (simp add: choose_display_def Let_def)
  from wm_start_init [OF this, of L] have a1: "at_start (screen a1)"
    using 1 by simp
  define ra where "ra = (if r1 = -1 then (r1, print_log L ''WM init err'' a1)
     else if g_hndl_mmngr L then
       fold (alloc_framebuffer L (srf_Width (loc_Surf a1) * srf_Height (loc_Surf a1) * 4)) [0 ..< MAX_NR_FBUF] (r1, a1)
     else (-1, print_log L ''Error/MMNGR!!'' a1))"
  have ra: "at_start (screen (snd ra))"
    using a1 by (simp add: ra_def alloc_start upt_rec)
  obtain r2 a2 where 2: "ra = (r2, a2)"
    by (rule prod.exhaust)
  let ?a2 = "print_log L ''WM init done'' a2"
  have e: "AppInit L D base a =
     (if r2 \<noteq> -1 then
        (let (_, a) = Drw2DInit L ?a2 in
         andthen (demo_init D base a) (\<lambda>(_, a).
         let surf = loc_Surf a;
             a = a\<lparr>fb :=
                   \<lparr>fb_Flags = 0, fb_Handle = 0, fb_Buffer =
                      \<lparr>buf_Pitch = srf_Width surf, buf_Width = srf_Width surf, buf_Height = srf_Height surf,
                       buf_PixelFormat = R_DRW2D_PIXELFORMAT_ARGB8888, buf_Data = Null\<rparr>\<rparr>\<rparr>
         in Inr (r2, print_log L ''App Init done'' a)))
      else Inr (r2, ?a2))"
    using 2 unfolding AppInit_def 1 prod.case ra_def [symmetric] Let_def by simp
  obtain r3 a3 where 3: "Drw2DInit L ?a2 = (r3, a3)"
    by (rule prod.exhaust)
  have a3: "at_start (screen a3)"
    using drw2d_start [of ?a2 L] ra 2 3 by simp
  have r2: "r2 = 0"
    using assms(1) e 3 by (auto simp: andthen_def Let_def split: if_splits sum.splits prod.splits)
  let ?s = "(screen a3)\<lparr>images := (images (screen a3))\<lparr>filesys := snd (eeRomFs_Init RomFileSystemData (filesys (images (screen a3))))\<rparr>\<rparr>"
  obtain s where s: "GaugeScreenInit D base ?s = Inr s"
    using assms(1) e 3 r2 by (auto simp: demo_init_def InitAppCluster_def andthen_def Let_def split: sum.splits)
  have a': "screen a' = s\<lparr>car := InitCarModel (car s), calls := R_PRINT_Log ''App Init done'' # calls s\<rparr>"
    using assms(1) e 3 r2 s by (auto simp: demo_init_def InitAppCluster_def Let_def)
  have "at_start s" "locInit s = 0" "locFrameCnt s = 0" "needle_ok (NeedleSpeed s)"
    using gauge_init_start [OF s] a3 by simp_all
  then show ?thesis
    using assms(3-5) by (simp add: app_ok_def screen_ok_def a' at_start_def)
qed

end
