(* ===== verification/Spec2Isabelle.thy ===== *)
theory Spec2Isabelle
  imports Loader Cluster
begin

text \<open>
  A verification library for two programs of the R-Car M3N board: the initial program loader of the
  Cortex-R7 (\<^verbatim>\<open>src/CortexR7_Loader\<close>) and the instrument cluster demo that is started on it
  (\<^verbatim>\<open>src/2d-wow-cluster-demo\<close>).

  \<^bold>\<open>The loader.\<close> The loader runs from reset on the Cortex-R7. Its first stage
  (\<^verbatim>\<open>loader/loader_main.c\<close>) sets up clocks, pins, interrupts and the watchdog, reports the chip, has
  the DRAM trained, sets the bus arbitration and opens write protections. Its second stage
  (\<^verbatim>\<open>tcm_loader/tcm_loader_main.c\<close>) initialises error correction, flash interface and DMA,
  decides whether the mask ROM must authenticate the images, loads the certificate and the image of
  the RTOS (and of the application cores' loader), checks where the image goes, has it
  authenticated, drops its privileges and returns the RTOS entry address.

  \<^bold>\<open>The cluster demo.\<close> The main loop (\<^verbatim>\<open>2dwow_main.c\<close>) draws one frame after the other into two frame
  buffers in turn and hands them to the window manager. A frame (\<^verbatim>\<open>app_cluster.c\<close>) draws the gauge
  screen (\<^verbatim>\<open>app_cl_gauge.c\<close>) and advances a model of a car (\<^verbatim>\<open>app_cl_carmodel.c\<close>). Images come from a file
  system in ROM (\<^verbatim>\<open>misc/romfs_main.c\<close>), are decompressed (\<^verbatim>\<open>misc/texture.c\<close>) and live in a small pool of
  video buffers (\<^verbatim>\<open>demo_cluster.c\<close>).

  \<^bold>\<open>How the loader is modelled.\<close> A C function is an Isabelle function from a machine to an outcome
  (theory \<open>Machine\<close>): it returned (\<open>Done\<close>), reached \<^verbatim>\<open>panic()\<close> (\<open>Panic\<close>), met undefined
  behaviour (\<open>Fault\<close>) or used up the fuel of a polling loop (\<open>Hang\<close>). The machine holds the static
  variables of the C files and the history of volatile accesses. The hardware and the mask ROM are
  not in the repository: they are a \<open>device\<close>, which answers each read and ROM call as an arbitrary
  function of the history, so a theorem holds for every hardware that meets its hypotheses. The
  fuel is a number in the machine; theorems that a function returns state the number of polls
  after which the hardware is ready and prove \<open>Done\<close>. The options of the Makefile that select code
  by \<^verbatim>\<open>#if\<close> are a \<open>build\<close> record (theory \<open>Build\<close>).

  \<^bold>\<open>How the demo is modelled.\<close> Its functions pass the state explicitly, as a record, and return
  an error or the new state (\<open>Inl\<close>, \<open>Inr\<close>). Memory is a function from 32-bit addresses to bytes. The
  video driver is not in the repository: it is a parameter \<open>dhd\<close>, and so is the address of the image
  data. Floating point values are rationals, rounded as IEEE single or double after each operation.
  A loop that might not end is a \<open>partial_function\<close>; that it ends is then proved. Drawing library,
  window manager and operating system are not in the repository either: their calls are the values of
  a datatype, the state keeps the history of the calls, and the parameter \<open>library\<close> answers each of them.
  Theorems about the picture assume of the library that its fixed point conversion is exact to the last
  bit (\<open>fixed_point\<close>) and that sine and cosine do not exceed one (\<open>trig_ok\<close>). What a pixel shows is computed
  from the history; lines and triangles count with their bounding boxes, so nothing is assumed of how
  the library fills them. Texts of the log are recorded without their arguments.

  \<^bold>\<open>Theories of the loader.\<close>
  \<^item> \<open>Prelude\<close>: machine word types and lemmas on words and lists; \<open>Machine\<close>: outcomes, accesses,
    loops, the accessors of \<^verbatim>\<open>include/mmio.h\<close>, symbolic execution and polling lemmas.
  \<^item> \<open>Printf\<close> (\<^verbatim>\<open>common/printf.c\<close>, \<^verbatim>\<open>include/debug.h\<close>): the locale \<open>formatter\<close> states what
    the console family and the buffer family share; both agree with one reference formatter, and
    printed numbers read back.
  \<^item> \<open>Build\<close>: build options, chips, registers that behave as memory, programs as transformers of a
    register file.
  \<^item> \<open>Cpg\<close> (\<^verbatim>\<open>loader/cpg_init.c\<close>): module clocks; every write is preceded by its unlocking write.
  \<^item> \<open>Pfc\<close>, \<open>PfcM3N\<close>, \<open>PfcM3\<close>, \<open>PfcE3\<close>, \<open>PfcH3V1\<close>, \<open>PfcH3V2\<close>, \<open>PfcInit\<close> (\<^verbatim>\<open>pfc/\<close>): pin functions.
    Field macros are listed as pairs of shift and value. The locale \<open>pfc_writer\<close> is the contract
    of the chips' \<^verbatim>\<open>pfc_reg_write\<close>; hardware that drops locked writes loses none, and the pins
    are consistent but for one.
  \<^item> \<open>Qos\<close>, the ten theories from \<open>QosM3N\<close> to \<open>QosM3V30\<close>, \<open>QosInit\<close> (\<^verbatim>\<open>qos/\<close>): bus
    arbitration. An automaton over the stores states the order the hardware needs, and every chip's
    routine is a triple on it. A split of the DRAM that a chip does not allow is a compile-time error
    in some builds and a panic in others; the model has the panic. The mask of working DRAM channels
    is an argument.
  \<^item> \<open>Gic\<close> (\<^verbatim>\<open>common/arm_gic.c\<close>, \<^verbatim>\<open>common/gic_v2.c\<close>, \<^verbatim>\<open>include/gic_v2.h\<close>): the driver refines
    an abstract distributor with a group, priority, target and enable per interrupt.
  \<^item> \<open>Swdt\<close> (\<^verbatim>\<open>common/swdt.c\<close>, \<^verbatim>\<open>common/error_output.c\<close>): the watchdog period, and the locale
    \<open>exception_report\<close> shared by the exception handlers.
  \<^item> \<open>Dma\<close> (\<^verbatim>\<open>common/dma_driver.c\<close>, \<^verbatim>\<open>common/rpc_driver.c\<close>, \<^verbatim>\<open>common/micro_wait.c\<close>): copies,
    parallel fill, and the busy wait on the 32-bit timer.
  \<^item> \<open>Protect\<close> (\<^verbatim>\<open>common/lifec_init.c\<close>, \<^verbatim>\<open>common/protection_setting.c\<close>): the access protection
    tables and what they establish.
  \<^item> \<open>Ecc\<close> (\<^verbatim>\<open>common/ecc_init.c\<close>, \<^verbatim>\<open>common/single_ecc.c\<close>, \<^verbatim>\<open>common/dram_dual_ecc.c\<close>): error
    correction areas are filled, on the supported chips only.
  \<^item> \<open>Boot\<close> (\<^verbatim>\<open>common/rom_api.c\<close>, \<^verbatim>\<open>common/auth.c\<close>, \<^verbatim>\<open>common/rcar_pwrc.c\<close>,
    \<^verbatim>\<open>tcm_loader/tcm_loader_main.c\<close>): the boot chain; no image is started without the
    verification that the chip's state requires, and a good image is started.

  \<^item> \<open>Loader\<close> (\<^verbatim>\<open>loader/loader_main.c\<close>): the first stage composes clocks, pins, interrupt
    controller, watchdog, DRAM and bus settings; the order of its accesses on the right chip, and
    what it does on a wrong one. The training of the DRAM is a parameter \<open>dram\<close>; the theorems assume
    that it returns (\<open>dram_works\<close>).

  \<^bold>\<open>Theories of the demo.\<close>
  \<^item> \<open>Slots\<close>: the locale \<open>slots\<close> of a table of entries that are free or taken, byte memory.
  \<^item> \<open>RomFs\<close> (\<^verbatim>\<open>misc/romfs_main.c\<close>, \<^verbatim>\<open>misc/fs_data.c\<close>): file handles as \<open>slots\<close>, reading
    as reading from a byte sequence, the file table.
  \<^item> \<open>Rle\<close> (\<^verbatim>\<open>misc/texture.c\<close>): the decoder inverts the packet encoding.
  \<^item> \<open>Texture\<close> (\<^verbatim>\<open>misc/texture.c\<close>, \<^verbatim>\<open>demo_cluster.c\<close>): video buffers as \<open>slots\<close>,
    bringing an image into video memory and releasing it.
  \<^item> \<open>Images\<close> (\<^verbatim>\<open>image/\<close>): the 45 image descriptors against the file table.
  \<^item> \<open>CarModel\<close> (\<^verbatim>\<open>app_cl_carmodel.c\<close>): every frame up to the overflow of two counters
    returns and keeps the values in their ranges.
  \<^item> \<open>Draw\<close> (\<^verbatim>\<open>demo_cluster.c\<close>): the libraries' interface and the conversions to their structures.
  \<^item> \<open>TrigTable\<close>, \<open>Trig\<close>, \<open>Gauge\<close> (\<^verbatim>\<open>app_cl_gauge.c\<close>): the two tables of 8192 entries, one definition
    per source line, checked against the circle; the gauge screen, function by function.
  \<^item> \<open>Needle\<close>: the filter of the needles converges; the pointer of the fuel gauge and the area
    that is redrawn for it.
  \<^item> \<open>Picture\<close>, \<open>Icons\<close>, \<open>Frame\<close>: pictures as a function of the calls; background, needle and pointer leave
    the icons alone; the table of icon states agrees with the picture; the invariant \<open>screen_ok\<close> of
    both frame buffers, which every frame keeps.
  \<^item> \<open>Cluster\<close> (\<^verbatim>\<open>app_cluster.c\<close>, \<^verbatim>\<open>demo_cluster.c\<close>, \<^verbatim>\<open>2dwow_main.c\<close>): the application. \<open>app_init_ok\<close>: the
    initialisation establishes the invariant; every frame of the main loop shows the state of the car;
    how the loop ends; what the window manager's set-up holds and releases on each error exit.

  \<^bold>\<open>Not modelled.\<close> Start-up assembly and vectors; DRAM training (\<^verbatim>\<open>ddr/\<close>); image generators;
  the vendored software of the application cores (\<^verbatim>\<open>src/CA57-code\<close>). Of the demo: the contraction of
  floating point operations that C permits, the parts that \<^verbatim>\<open>SINGLE_CLUSTER\<close> and \<^verbatim>\<open>TMP_VIDEO_CAPTURE\<close> select
  the other way, and the pixel data itself.
\<close>

end
